(* ===== verification/Prelude.thy ===== *)
theory Prelude
  imports Main "HOL-Library.Word" "HOL-Library.Sublist"
begin

text \<open>
  What every component of the development shares: results of fallible code, the loops the
  code writes over lists with an early return, and the bounded logs that most components keep
  (append at the end, then drop from the front while the log is longer than its limit).

  A fallible operation returns \<open>'e + 'a\<close>: \<open>Inl\<close> carries what the code reports on the branch
  that returns false, \<open>Inr\<close> the new state.
\<close>

named_theorems res_simps \<open>rewriting of results: how a loop or a bind of results succeeds\<close>
named_theorems log_simps \<open>bounded logs\<close>

section \<open>Results\<close>

definition bind_res :: "'e + 'a \<Rightarrow> ('a \<Rightarrow> 'e + 'b) \<Rightarrow> 'e + 'b" where
  "bind_res r f = (case r of Inl e \<Rightarrow> Inl e | Inr x \<Rightarrow> f x)"

lemma bind_res_Inl [simp]: "bind_res (Inl e) f = Inl e"
  by (simp add: bind_res_def)

lemma bind_res_Inr [simp]: "bind_res (Inr x) f = f x"
  by (simp add: bind_res_def)

lemma bind_res_eq_Inr [res_simps]:
  "bind_res r f = Inr y \<longleftrightarrow> (\<exists>x. r = Inr x \<and> f x = Inr y)"
  by (cases r) auto

lemma bind_res_eq_Inl [res_simps]:
  "bind_res r f = Inl e \<longleftrightarrow> r = Inl e \<or> (\<exists>x. r = Inr x \<and> f x = Inl e)"
  by (cases r) auto

lemma bind_res_cong [fundef_cong]:
  "r = r' \<Longrightarrow> (\<And>x. r' = Inr x \<Longrightarrow> f x = g x) \<Longrightarrow> bind_res r f = bind_res r' g"
  by (cases r') auto

text \<open>
  \<open>loop_res f i xs s\<close> is the loop \<open>for (index = i; ...; ++index)\<close> over the elements \<open>xs\<close>, with
  the loop state \<open>s\<close> and a body that may return early with an error.
\<close>

primrec loop_res :: "(nat \<Rightarrow> 'a \<Rightarrow> 's \<Rightarrow> 'e + 's) \<Rightarrow> nat \<Rightarrow> 'a list \<Rightarrow> 's \<Rightarrow> 'e + 's" where
  "loop_res f i [] s = Inr s"
| "loop_res f i (x # xs) s = bind_res (f i x s) (loop_res f (Suc i) xs)"

lemma loop_res_Cons: "loop_res f i (x # xs) = (\<lambda>s. bind_res (f i x s) (loop_res f (Suc i) xs))"
  by (rule ext) simp

lemma loop_res_append:
  "loop_res f i (xs @ ys) s = bind_res (loop_res f i xs s) (loop_res f (i + length xs) ys)"
proof (induction xs arbitrary: i s)
  case (Cons x xs)
  then show ?case by (cases "f i x s") auto
qed simp

lemma loop_res_cong [fundef_cong]:
  "xs = ys \<Longrightarrow> i = j \<Longrightarrow> s = t \<Longrightarrow> (\<And>k x u. x \<in> set ys \<Longrightarrow> f k x u = g k x u)
   \<Longrightarrow> loop_res f i xs s = loop_res g j ys t"
proof (induction ys arbitrary: xs i j s t)
  case (Cons y ys)
  then show ?case by (cases "g j y t") auto
qed simp

text \<open>An invariant of the loop state that the body keeps holds of the state it ends in.\<close>

lemma loop_res_inv:
  assumes "loop_res f i xs s = Inr t" and "P s"
    and "\<And>k x u v. x \<in> set xs \<Longrightarrow> P u \<Longrightarrow> f k x u = Inr v \<Longrightarrow> P v"
  shows "P t"
  using assms
proof (induction xs arbitrary: i s)
  case (Cons x xs)
  then obtain u where u: "f i x s = Inr u" and rest: "loop_res f (Suc i) xs u = Inr t"
    by (auto simp: bind_res_eq_Inr)
  show ?case
    by (rule Cons.IH [OF rest]) (use Cons.prems u in \<open>auto\<close>)
qed simp

section \<open>Bounded logs\<close>

text \<open>
  \<open>while (xs.size() > limit) xs.removeFirst();\<close> as a loop on the list.
\<close>

function trim_log :: "nat \<Rightarrow> 'a list \<Rightarrow> 'a list" where
  "trim_log limit xs = (if limit < length xs then trim_log limit (tl xs) else xs)"
  by pat_completeness auto
termination
  by (relation "measure (\<lambda>(limit, xs). length xs)") auto

declare trim_log.simps [simp del]

lemma trim_log_eq: "trim_log limit xs = drop (length xs - limit) xs"
proof (induction limit xs rule: trim_log.induct)
  case (1 limit xs)
  show ?case
  proof (cases "limit < length xs")
    case True
    then obtain y ys where xs: "xs = y # ys" by (cases xs) auto
    with 1 True have "trim_log limit xs = drop (length ys - limit) ys"
      by (simp add: trim_log.simps [of limit "y # ys"])
    also have "\<dots> = drop (length xs - limit) xs"
      using True xs by (simp add: Suc_diff_le)
    finally show ?thesis .
  next
    case False
    then show ?thesis by (simp add: trim_log.simps [of limit xs])
  qed
qed

definition push_log :: "nat \<Rightarrow> 'a \<Rightarrow> 'a list \<Rightarrow> 'a list" where
  "push_log limit x xs = trim_log limit (xs @ [x])"

text \<open>
  The contract of such a log, for any limit: what a client of the log may rely on. The
  components interpret it with the limit of their own log.
\<close>

locale bounded_log =
  fixes push :: "'a \<Rightarrow> 'a list \<Rightarrow> 'a list"
    and limit :: nat
  assumes pos: "0 < limit"
    and push_eq: "push x xs = drop (Suc (length xs) - limit) (xs @ [x])"
begin

lemma push_bound: "length (push x xs) \<le> limit"
  using pos by (simp add: push_eq)

lemma push_last: "push x xs \<noteq> [] \<and> last (push x xs) = x"
  using pos by (simp add: push_eq last_drop)

lemma push_suffix: "suffix (push x xs) (xs @ [x])"
  unfolding push_eq by (rule suffix_drop)

lemma push_set: "set (push x xs) \<subseteq> insert x (set xs)"
  unfolding push_eq by (auto dest: in_set_dropD)

lemma push_room: "length xs < limit \<Longrightarrow> push x xs = xs @ [x]"
  by (simp add: push_eq)

lemma push_full: "length xs = limit \<Longrightarrow> push x xs = tl xs @ [x]"
  using pos by (cases xs) (auto simp: push_eq)

lemma push_distinct: "distinct xs \<Longrightarrow> x \<notin> set xs \<Longrightarrow> distinct (push x xs)"
  by (simp add: push_eq distinct_drop del: drop_append)

lemma pushes_bound: "length xs \<le> limit \<Longrightarrow> length (fold push ys xs) \<le> limit"
  by (induction ys arbitrary: xs) (auto simp: push_bound)

text \<open>After any number of appends the log holds the newest \<open>limit\<close> entries, in order.\<close>

lemma pushes_newest:
  "length xs \<le> limit \<Longrightarrow> fold push ys xs = drop (length xs + length ys - limit) (xs @ ys)"
proof (induction ys arbitrary: xs)
  case (Cons y ys)
  have "fold push (y # ys) xs = drop (length (push y xs) + length ys - limit) (push y xs @ ys)"
    using Cons.IH [OF push_bound] by simp
  also have "\<dots> = drop (length xs + length (y # ys) - limit) (xs @ y # ys)"
  proof (cases "length xs < limit")
    case True
    then show ?thesis by (simp add: push_room)
  next
    case False
    with Cons.prems have "length xs = limit" by simp
    with pos show ?thesis by (cases xs) (auto simp: push_full)
  qed
  finally show ?case .
qed simp

end

lemma push_log_eq [log_simps]: "push_log limit x xs = drop (Suc (length xs) - limit) (xs @ [x])"
  by (simp add: push_log_def trim_log_eq)

lemma bounded_log_push_log: "0 < n \<Longrightarrow> bounded_log (push_log n) n"
  by unfold_locales (simp_all add: push_log_eq)

section \<open>Lists\<close>

lemma concat_map_filter_single:
  "(\<And>x. x \<in> set xs \<Longrightarrow> f x = [g x]) \<Longrightarrow> concat (map f xs) = map g xs"
  by (induction xs) auto

lemma filter_snd_enumerate: "map snd (filter (\<lambda>(i, x). P x) (enumerate n xs)) = filter P xs"
  by (induction xs arbitrary: n) auto

section \<open>Runs\<close>

text \<open>
  A component whose operations keep an invariant keeps it along every sequence of operations;
  \<open>guard\<close> is what the environment has to respect (\<open>\<lambda>_ _. True\<close> where it is free).
\<close>

primrec obeys :: "('s \<Rightarrow> 'a \<Rightarrow> bool) \<Rightarrow> ('a \<Rightarrow> 's \<Rightarrow> 's) \<Rightarrow> 'a list \<Rightarrow> 's \<Rightarrow> bool" where
  "obeys guard step [] s \<longleftrightarrow> True"
| "obeys guard step (a # as) s \<longleftrightarrow> guard s a \<and> obeys guard step as (step a s)"

locale invariant_kept =
  fixes ok :: "'s \<Rightarrow> bool"
    and guard :: "'s \<Rightarrow> 'a \<Rightarrow> bool"
    and step :: "'a \<Rightarrow> 's \<Rightarrow> 's"
  assumes keeps: "ok s \<Longrightarrow> guard s a \<Longrightarrow> ok (step a s)"
begin

lemma run_ok: "ok s \<Longrightarrow> obeys guard step as s \<Longrightarrow> ok (fold step as s)"
  by (induction as arbitrary: s) (auto intro: keeps)

lemma run_ok_prefix: "ok s \<Longrightarrow> obeys guard step (as @ bs) s \<Longrightarrow> ok (fold step as s)"
  by (induction as arbitrary: s) (auto intro: keeps)

end

lemma obeys_True: "obeys (\<lambda>_ _. True) step as s"
  by (induction as arbitrary: s) auto

end
