(* ===== verification/QtString.thy ===== *)
theory QtString
  imports Prelude
begin

text \<open>
  The operations of \<open>QString\<close> the modelled code calls, on character lists: a \<open>char\<close> is a
  \<open>QChar\<close> below U+0100, so \<open>size()\<close> is \<open>length\<close>. Character classes are those of Latin-1.
  Numbers are read by \<open>toULongLong\<close> and \<open>toInt\<close> in the C locale, as Qt documents them, and
  written by \<open>QString::number\<close>.
\<close>

named_theorems qstring_simps \<open>how numbers are written and read back\<close>

section \<open>Characters\<close>

abbreviation code_of :: "char \<Rightarrow> nat" where
  "code_of c \<equiv> of_char c"

definition is_space :: "char \<Rightarrow> bool" where
  "is_space c \<longleftrightarrow> (9 \<le> code_of c \<and> code_of c \<le> 13) \<or> code_of c = 32
     \<or> code_of c = 133 \<or> code_of c = 160"

definition is_letter_or_number :: "char \<Rightarrow> bool" where
  "is_letter_or_number c \<longleftrightarrow> (48 \<le> code_of c \<and> code_of c \<le> 57)
     \<or> (65 \<le> code_of c \<and> code_of c \<le> 90) \<or> (97 \<le> code_of c \<and> code_of c \<le> 122)
     \<or> code_of c \<in> {170, 178, 179, 181, 185, 186, 188, 189, 190}
     \<or> (192 \<le> code_of c \<and> code_of c \<noteq> 215 \<and> code_of c \<noteq> 247)"

definition lower_char :: "char \<Rightarrow> char" where
  "lower_char c = (if (65 \<le> code_of c \<and> code_of c \<le> 90)
       \<or> (192 \<le> code_of c \<and> code_of c \<le> 222 \<and> code_of c \<noteq> 215)
     then char_of (code_of c + 32) else c)"

section \<open>Strings\<close>

definition trimmed :: "string \<Rightarrow> string" where
  "trimmed s = rev (dropWhile is_space (rev (dropWhile is_space s)))"

definition to_lower :: "string \<Rightarrow> string" where
  "to_lower s = map lower_char s"

definition starts_with :: "string \<Rightarrow> string \<Rightarrow> bool" where
  "starts_with s p \<longleftrightarrow> take (length p) s = p"

definition ends_with :: "string \<Rightarrow> string \<Rightarrow> bool" where
  "ends_with s p \<longleftrightarrow> length p \<le> length s \<and> drop (length s - length p) s = p"

definition chop :: "string \<Rightarrow> nat \<Rightarrow> string" where
  "chop s n = take (length s - n) s"

text \<open>\<open>indexOf\<close> and \<open>lastIndexOf\<close>: -1 when the character does not occur.\<close>

definition index_of :: "string \<Rightarrow> char \<Rightarrow> nat \<Rightarrow> int" where
  "index_of s c from = (case find (\<lambda>i. s ! i = c) [from..<length s] of
     None \<Rightarrow> -1 | Some i \<Rightarrow> int i)"

definition last_index_of :: "string \<Rightarrow> char \<Rightarrow> int" where
  "last_index_of s c = (case find (\<lambda>i. s ! i = c) (rev [0..<length s]) of
     None \<Rightarrow> -1 | Some i \<Rightarrow> int i)"

text \<open>\<open>mid(pos, n)\<close>; a negative \<open>n\<close> takes the rest of the string.\<close>

definition mid :: "string \<Rightarrow> nat \<Rightarrow> int \<Rightarrow> string" where
  "mid s pos n = (if n < 0 then drop pos s else take (nat n) (drop pos s))"

text \<open>\<open>split(c, Qt::KeepEmptyParts)\<close>.\<close>

fun split_char :: "char \<Rightarrow> string \<Rightarrow> string list" where
  "split_char c [] = [[]]"
| "split_char c (x # xs) =
     (if x = c then [] # split_char c xs
      else (case split_char c xs of [] \<Rightarrow> [[x]] | p # ps \<Rightarrow> (x # p) # ps))"

section \<open>Numbers\<close>

definition digit_char :: "nat \<Rightarrow> char" where
  "digit_char d = char_of (48 + d)"

fun number :: "nat \<Rightarrow> string" where
  "number n = (if n < 10 then [digit_char n] else number (n div 10) @ [digit_char (n mod 10)])"

declare number.simps [simp del]

definition digit_val :: "nat \<Rightarrow> char \<Rightarrow> nat option" where
  "digit_val base c =
     (let k = code_of c;
          d = (if 48 \<le> k \<and> k \<le> 57 then k - 48
               else if 97 \<le> k \<and> k \<le> 122 then k - 87
               else if 65 \<le> k \<and> k \<le> 90 then k - 55 else 99)
      in if d < base then Some d else None)"

fun digits_val :: "nat \<Rightarrow> nat \<Rightarrow> string \<Rightarrow> nat option" where
  "digits_val base acc [] = Some acc"
| "digits_val base acc (c # cs) =
     (case digit_val base c of None \<Rightarrow> None | Some d \<Rightarrow> digits_val base (acc * base + d) cs)"

definition skip_plus :: "string \<Rightarrow> string" where
  "skip_plus s = (if s \<noteq> [] \<and> hd s = CHR ''+'' then tl s else s)"

definition has_hex_prefix :: "string \<Rightarrow> bool" where
  "has_hex_prefix s \<longleftrightarrow> 2 \<le> length s \<and> s ! 0 = CHR ''0'' \<and> (s ! 1 = CHR ''x'' \<or> s ! 1 = CHR ''X'')"

text \<open>\<open>QString::toULongLong(&ok, base)\<close>: \<open>None\<close> when \<open>ok\<close> is false.\<close>

definition to_ulonglong :: "nat \<Rightarrow> string \<Rightarrow> 64 word option" where
  "to_ulonglong base s =
     (let t = skip_plus (trimmed s);
          u = (if base = 16 \<and> has_hex_prefix t \<and> 2 < length t then drop 2 t else t)
      in if u = [] then None
         else case digits_val base 0 u of
                None \<Rightarrow> None
              | Some n \<Rightarrow> if n < 2 ^ 64 then Some (of_nat n) else None)"

text \<open>\<open>QString::toInt(&ok)\<close> in base 10, a 32-bit signed integer.\<close>

definition to_int :: "string \<Rightarrow> int option" where
  "to_int s =
     (let t = trimmed s;
          neg = (t \<noteq> [] \<and> hd t = CHR ''-'');
          u = (if neg then tl t else skip_plus t)
      in if u = [] then None
         else case digits_val 10 0 u of
                None \<Rightarrow> None
              | Some n \<Rightarrow>
                  (let i = (if neg then - int n else int n)
                   in if - (2 ^ 31) \<le> i \<and> i < 2 ^ 31 then Some i else None))"

section \<open>Reading back what was written\<close>

lemma digit_val_digit_char: "d < 10 \<Longrightarrow> digit_val 10 (digit_char d) = Some d"
  by (auto simp: digit_val_def digit_char_def Let_def of_char_of)

lemma digits_val_append:
  "digits_val b acc (xs @ ys)
     = (case digits_val b acc xs of None \<Rightarrow> None | Some a \<Rightarrow> digits_val b a ys)"
  by (induction xs arbitrary: acc) (auto split: option.splits)

lemma digits_val_number: "digits_val 10 0 (number n) = Some n"
proof (induction n rule: number.induct)
  case (1 n)
  show ?case
  proof (cases "n < 10")
    case True
    then show ?thesis by (simp add: number.simps [of n] digit_val_digit_char)
  next
    case False
    with 1 show ?thesis
      by (simp add: number.simps [of n] digits_val_append digit_val_digit_char)
  qed
qed

lemma number_nonempty [simp]: "number n \<noteq> []"
  by (subst number.simps) simp

lemma number_chars: "c \<in> set (number n) \<Longrightarrow> \<exists>d<10. c = digit_char d"
proof (induction n rule: number.induct)
  case (1 n)
  show ?case
  proof (cases "n < 10")
    case True
    with 1(2) show ?thesis by (simp add: number.simps [of n]) blast
  next
    case False
    with 1 show ?thesis
      by (simp add: number.simps [of n]) (metis mod_less_divisor zero_less_numeral)
  qed
qed

lemma digit_char_code: "d < 10 \<Longrightarrow> code_of (digit_char d) = 48 + d"
  by (simp add: digit_char_def of_char_of)

lemma number_codes: "c \<in> set (number n) \<Longrightarrow> 48 \<le> code_of c \<and> code_of c \<le> (57 :: nat)"
  by (drule number_chars) (auto simp: digit_char_code)

lemma dropWhile_none: "(\<And>x. x \<in> set xs \<Longrightarrow> \<not> P x) \<Longrightarrow> dropWhile P xs = xs"
  by (cases xs) auto

lemma trimmed_no_space: "(\<And>c. c \<in> set s \<Longrightarrow> \<not> is_space c) \<Longrightarrow> trimmed s = s"
  using dropWhile_none [of s is_space] dropWhile_none [of "rev s" is_space]
  by (simp add: trimmed_def)

lemma number_not_space: "c \<in> set (number n) \<Longrightarrow> \<not> is_space c"
  by (drule number_codes) (auto simp: is_space_def)

lemma trimmed_number [qstring_simps]: "trimmed (number n) = number n"
  by (rule trimmed_no_space) (rule number_not_space)

lemma code_of_plus: "code_of (CHR ''+'') = (43 :: nat)" and code_of_x: "code_of (CHR ''x'') = (120 :: nat)"
  and code_of_X: "code_of (CHR ''X'') = (88 :: nat)"
  by simp_all

lemma skip_plus_number [qstring_simps]: "skip_plus (number n) = number n"
proof -
  have "hd (number n) \<in> set (number n)" by (rule hd_in_set) simp
  then have "48 \<le> code_of (hd (number n))" by (blast dest: number_codes)
  then have "hd (number n) \<noteq> CHR ''+''" by auto
  then show ?thesis by (simp add: skip_plus_def)
qed

lemma has_hex_prefix_number [qstring_simps]: "\<not> has_hex_prefix (number n)"
proof
  assume h: "has_hex_prefix (number n)"
  then have "number n ! 1 \<in> set (number n)" by (auto simp: has_hex_prefix_def)
  then have "code_of (number n ! 1) \<le> (57 :: nat)" by (simp add: number_codes)
  with h show False by (auto simp: has_hex_prefix_def)
qed

lemma to_ulonglong_number [qstring_simps]:
  "n < 2 ^ 64 \<Longrightarrow> to_ulonglong 10 (number n) = Some (of_nat n)"
  by (simp add: to_ulonglong_def qstring_simps digits_val_number)

text \<open>The ten digits, for evaluation.\<close>

lemma digit_char_simps:
  "digit_char 0 = CHR ''0''"
  "digit_char (Suc 0) = CHR ''1''"
  "digit_char 2 = CHR ''2''"
  "digit_char 3 = CHR ''3''"
  "digit_char 4 = CHR ''4''"
  "digit_char 5 = CHR ''5''"
  "digit_char 6 = CHR ''6''"
  "digit_char 7 = CHR ''7''"
  "digit_char 8 = CHR ''8''"
  "digit_char 9 = CHR ''9''"
  by (simp_all add: digit_char_def char_of_def bit_0)

section \<open>Where a character occurs\<close>

lemma find_upt:
  assumes "i \<le> k" "k < j" "P k" "\<And>m. i \<le> m \<Longrightarrow> m < k \<Longrightarrow> \<not> P m"
  shows "find P [i..<j] = Some k"
proof -
  have "[i..<j] = [i..<k] @ k # [Suc k..<j]"
    using assms(1,2) by (metis le_add_diff_inverse less_or_eq_imp_le upt_add_eq_append upt_conv_Cons)
  moreover have "find P [i..<k] = None" using assms(4) by (auto simp: find_None_iff)
  moreover have "find P (xs @ ys) = (case find P xs of None \<Rightarrow> find P ys | Some x \<Rightarrow> Some x)" for xs ys
    by (induction xs) auto
  ultimately show ?thesis using assms(3) by simp
qed

lemma index_of_append:
  assumes "from \<le> length xs" "c \<notin> set (drop from xs)"
  shows "index_of (xs @ c # ys) c from = int (length xs)"
proof -
  have "(xs @ c # ys) ! m \<noteq> c" if "from \<le> m" "m < length xs" for m
  proof -
    have "xs ! m \<in> set (drop from xs)"
      using that nth_mem [of "m - from" "drop from xs"] by simp
    with assms(2) that show ?thesis by (auto simp: nth_append)
  qed
  then have "find (\<lambda>i. (xs @ c # ys) ! i = c) [from..<length (xs @ c # ys)] = Some (length xs)"
    using assms(1) by (intro find_upt) auto
  then show ?thesis by (simp add: index_of_def del: upt_Suc)
qed

lemma find_rev_upt:
  assumes "k < j" "P k" "\<And>m. k < m \<Longrightarrow> m < j \<Longrightarrow> \<not> P m"
  shows "find P (rev [0..<j]) = Some k"
  using assms
proof (induction j)
  case (Suc j)
  then show ?case by (cases "k = j") (auto simp: less_Suc_eq)
qed simp

lemma last_index_of_append:
  assumes "c \<notin> set ys"
  shows "last_index_of (xs @ c # ys) c = int (length xs)"
proof -
  have "(xs @ c # ys) ! m \<noteq> c" if "length xs < m" "m < length (xs @ c # ys)" for m
    using that assms by (auto simp: nth_append nth_Cons' dest!: nth_mem)
  then have "find (\<lambda>i. (xs @ c # ys) ! i = c) (rev [0..<length (xs @ c # ys)]) = Some (length xs)"
    by (intro find_rev_upt) auto
  then show ?thesis by (simp add: last_index_of_def)
qed

end
