(* ===== verification/VmfBits.thy ===== *)
theory VmfBits
  imports QtString
begin

text \<open>
  The bit streams of the VMF codec (\<open>BitWriter\<close> and \<open>BitReader\<close> of \<open>src/src/vmf/VmfCodec.cpp\<close>):
  bytes as \<open>8 word\<close>, values as \<open>64 word\<close>, most significant bit first. The abstract contents of
  a writer is its list of bits; \<open>write\<close> appends the bits of a value, \<open>set\<close> overwrites a slice
  and \<open>read\<close> takes a slice. Positions are \<open>int\<close> in the code and stay far below \<open>2 ^ 31\<close>.
\<close>

unbundle bit_operations_syntax

section \<open>Diagnostics\<close>

datatype Severity = SeverityWarning | SeverityError

text \<open>The text of a diagnostic is fixed by its code and is left out.\<close>

record Diagnostic =
  d_severity :: Severity
  d_code :: string
  d_path :: string

definition mkError :: "string \<Rightarrow> string \<Rightarrow> Diagnostic" where
  "mkError c p = \<lparr>d_severity = SeverityError, d_code = c, d_path = p\<rparr>"

section \<open>Writing\<close>

record BitWriter =
  w_bytes :: "8 word list"
  w_bitLength :: nat

definition emptyWriter :: BitWriter where
  "emptyWriter = \<lparr>w_bytes = [], w_bitLength = 0\<rparr>"

text \<open>The guard both \<open>write\<close> and \<open>set\<close> share: the value does not fit in \<open>bits\<close> bits.\<close>

definition valueTooWide :: "64 word \<Rightarrow> nat \<Rightarrow> bool" where
  "valueTooWide value bits \<longleftrightarrow> bits < 64 \<and> push_bit bits 1 - 1 < value"

text \<open>One turn of the loop of \<open>write\<close>: the next position gets the bit \<open>(value >> index) & 1\<close>.\<close>

definition writeBit :: "64 word \<Rightarrow> nat \<Rightarrow> BitWriter \<Rightarrow> BitWriter" where
  "writeBit value index w =
     (let position = w_bitLength w;
          bytes = (if length (w_bytes w) \<le> position div 8 then w_bytes w @ [0] else w_bytes w);
          bytes' = (if drop_bit index value AND 1 = 1
                    then bytes[position div 8 :=
                           bytes ! (position div 8) OR push_bit (7 - position mod 8) 1]
                    else bytes)
      in \<lparr>w_bytes = bytes', w_bitLength = position + 1\<rparr>)"

primrec writeLoop :: "64 word \<Rightarrow> nat \<Rightarrow> BitWriter \<Rightarrow> BitWriter" where
  "writeLoop value 0 w = w"
| "writeLoop value (Suc index) w = writeLoop value index (writeBit value index w)"

definition writer_write :: "64 word \<Rightarrow> nat \<Rightarrow> string \<Rightarrow> BitWriter \<Rightarrow> Diagnostic + BitWriter" where
  "writer_write value bits p w =
     (if bits = 0 \<or> 64 < bits \<or> valueTooWide value bits then Inl (mkError ''ENCODE_RANGE'' p)
      else Inr (writeLoop value bits w))"

text \<open>\<open>set\<close> overwrites \<open>bits\<close> positions from \<open>offset\<close> on, the first with the highest bit.\<close>

definition setBit :: "nat \<Rightarrow> bool \<Rightarrow> 8 word list \<Rightarrow> 8 word list" where
  "setBit position b bytes =
     (let byte = bytes ! (position div 8); mask = push_bit (7 - position mod 8) 1
      in bytes[position div 8 := (if b then byte OR mask else byte AND NOT mask)])"

definition setLoop :: "nat \<Rightarrow> 64 word \<Rightarrow> nat \<Rightarrow> 8 word list \<Rightarrow> 8 word list" where
  "setLoop offset value bits bytes =
     fold (\<lambda>index. setBit (offset + index) (drop_bit (bits - index - 1) value AND 1 = 1))
       [0..<bits] bytes"

definition writer_set :: "nat \<Rightarrow> 64 word \<Rightarrow> nat \<Rightarrow> string \<Rightarrow> BitWriter \<Rightarrow> Diagnostic + BitWriter" where
  "writer_set offset value bits p w =
     (if w_bitLength w < offset + bits \<or> bits = 0 \<or> 64 < bits \<or> valueTooWide value bits
      then Inl (mkError ''ENCODE_SET'' p)
      else Inr (w\<lparr>w_bytes := setLoop offset value bits (w_bytes w)\<rparr>))"

section \<open>Reading\<close>

record BitReader =
  r_bytes :: "8 word list"
  r_bitLength :: nat
  r_offset :: nat

definition mkReader :: "8 word list \<Rightarrow> int \<Rightarrow> BitReader" where
  "mkReader bytes bitLength =
     \<lparr>r_bytes = bytes, r_bitLength = (if 0 < bitLength then nat bitLength else length bytes * 8),
      r_offset = 0\<rparr>"

text \<open>\<open>(byte >> (7 - position % 8)) & 1\<close>.\<close>

definition bitAt :: "8 word list \<Rightarrow> nat \<Rightarrow> bool" where
  "bitAt bytes position \<longleftrightarrow> drop_bit (7 - position mod 8) (bytes ! (position div 8)) AND 1 = 1"

primrec readLoop :: "8 word list \<Rightarrow> nat \<Rightarrow> nat \<Rightarrow> 64 word \<Rightarrow> 64 word" where
  "readLoop bytes position 0 result = result"
| "readLoop bytes position (Suc n) result =
     readLoop bytes (Suc position) n (push_bit 1 result OR of_bool (bitAt bytes position))"

definition reader_read :: "nat \<Rightarrow> string \<Rightarrow> BitReader \<Rightarrow> Diagnostic + (64 word \<times> BitReader)" where
  "reader_read bits p r =
     (if bits = 0 \<or> 64 < bits \<or> r_bitLength r < r_offset r + bits
      then Inl (mkError ''DECODE_RANGE'' p)
      else Inr (readLoop (r_bytes r) (r_offset r) bits 0, r\<lparr>r_offset := r_offset r + bits\<rparr>))"

definition remainingBitsAreZero :: "BitReader \<Rightarrow> bool" where
  "remainingBitsAreZero r \<longleftrightarrow>
     list_all (\<lambda>position. \<not> bitAt (r_bytes r) position) [r_offset r..<r_bitLength r]"

section \<open>What the streams hold\<close>

lemma and_one_bit: "drop_bit k (x :: 'a::len word) AND 1 = 1 \<longleftrightarrow> bit x k"
  by (simp add: bit_iff_odd_drop_bit and_one_eq odd_iff_mod_2_eq_one)

lemma bitAt_bit: "bitAt bytes p \<longleftrightarrow> bit (bytes ! (p div 8)) (7 - p mod 8)"
  by (simp add: bitAt_def and_one_bit)

definition bit_slice :: "8 word list \<Rightarrow> nat \<Rightarrow> nat \<Rightarrow> bool list" where
  "bit_slice bytes offset n = map (bitAt bytes) [offset..<offset + n]"

definition wbits :: "BitWriter \<Rightarrow> bool list" where
  "wbits w = bit_slice (w_bytes w) 0 (w_bitLength w)"

primrec msb_bits :: "64 word \<Rightarrow> nat \<Rightarrow> bool list" where
  "msb_bits v 0 = []"
| "msb_bits v (Suc i) = bit v i # msb_bits v i"

lemma length_slice [simp]: "length (bit_slice bytes offset n) = n"
  by (simp add: bit_slice_def)

lemma length_msb_bits [simp]: "length (msb_bits v n) = n"
  by (induction n) auto

lemma slice_0 [simp]: "bit_slice bytes offset 0 = []"
  by (simp add: bit_slice_def)

lemma slice_Suc: "bit_slice bytes offset (Suc n) = bitAt bytes offset # bit_slice bytes (Suc offset) n"
  by (simp add: bit_slice_def upt_conv_Cons del: upt_Suc)

lemma slice_add: "bit_slice bytes offset (m + n) = bit_slice bytes offset m @ bit_slice bytes (offset + m) n"
  by (induction m arbitrary: offset) (auto simp: slice_Suc)

lemma nth_slice: "i < n \<Longrightarrow> bit_slice bytes offset n ! i = bitAt bytes (offset + i)"
  by (simp add: bit_slice_def)

lemma slice_eqI:
  "(\<And>i. i < n \<Longrightarrow> bitAt bytes (offset + i) = bitAt bytes' (offset' + i))
   \<Longrightarrow> bit_slice bytes offset n = bit_slice bytes' offset' n"
  by (auto intro!: nth_equalityI simp: nth_slice)

lemma nth_msb_bits: "i < n \<Longrightarrow> msb_bits v n ! i = bit v (n - i - 1)"
proof (induction n arbitrary: i)
  case (Suc n)
  then show ?case by (cases i) auto
qed simp

text \<open>
  The invariant of a writer: it holds just the bytes its bits need, and the bits past the last
  position are zero.
\<close>

definition writer_ok :: "BitWriter \<Rightarrow> bool" where
  "writer_ok w \<longleftrightarrow> length (w_bytes w) = (w_bitLength w + 7) div 8
     \<and> (\<forall>p. w_bitLength w \<le> p \<longrightarrow> p < 8 * length (w_bytes w) \<longrightarrow> \<not> bitAt (w_bytes w) p)"

lemma writer_ok_empty [simp]: "writer_ok emptyWriter" and wbits_empty [simp]: "wbits emptyWriter = []"
  by (simp_all add: writer_ok_def emptyWriter_def wbits_def)

lemma div_mod_8_eq: "p div 8 = q div 8 \<Longrightarrow> 7 - p mod 8 = 7 - q mod 8 \<Longrightarrow> p = (q :: nat)"
proof -
  assume d: "p div 8 = q div 8" and m: "7 - p mod 8 = 7 - q mod 8"
  have "p mod 8 < 8" and "q mod 8 < 8" by simp_all
  with m have "p mod 8 = q mod 8" by arith
  with d show "p = q" by (metis div_mult_mod_eq)
qed

text \<open>Updating one bit of one byte changes that position only.\<close>

lemma bit_or_push: "k < 8 \<Longrightarrow> bit ((x :: 8 word) OR push_bit j 1) k \<longleftrightarrow> k = j \<or> bit x k"
  by (auto simp: bit_or_iff bit_exp_iff)

lemma bit_and_not_push: "k < 8 \<Longrightarrow> bit ((x :: 8 word) AND NOT (push_bit j 1)) k \<longleftrightarrow> k \<noteq> j \<and> bit x k"
  by (auto simp: bit_and_iff bit_not_iff bit_exp_iff)

lemma bitAt_update:
  assumes "q < 8 * length bytes"
  shows "bitAt (bytes[q div 8 := x]) p
           = (if p div 8 = q div 8 then bit x (7 - p mod 8) else bitAt bytes p)"
proof -
  have "q div 8 < length bytes" using assms by linarith
  then show ?thesis by (simp add: bitAt_bit)
qed

lemma same_byte: "p div 8 = q div 8 \<Longrightarrow> 7 - p mod 8 = 7 - q mod 8 \<longleftrightarrow> p = (q :: nat)"
  using div_mod_8_eq by blast

lemma bitAt_or_mask:
  assumes "q < 8 * length bytes"
  shows "bitAt (bytes[q div 8 := bytes ! (q div 8) OR push_bit (7 - q mod 8) 1]) p
           \<longleftrightarrow> p = q \<or> bitAt bytes p"
proof (cases "p div 8 = q div 8")
  case True
  then show ?thesis
    unfolding bitAt_update [OF assms] by (simp only: simp_thms if_True bit_or_push same_byte bitAt_bit)
next
  case False
  then have "p \<noteq> q" by blast
  with False show ?thesis unfolding bitAt_update [OF assms] by (simp only: if_False simp_thms)
qed

lemma bitAt_and_not_mask:
  assumes "q < 8 * length bytes"
  shows "bitAt (bytes[q div 8 := bytes ! (q div 8) AND NOT (push_bit (7 - q mod 8) 1)]) p
           \<longleftrightarrow> p \<noteq> q \<and> bitAt bytes p"
proof (cases "p div 8 = q div 8")
  case True
  then show ?thesis
    unfolding bitAt_update [OF assms] by (simp only: simp_thms if_True bit_and_not_push same_byte bitAt_bit)
next
  case False
  then have "p \<noteq> q" by blast
  with False show ?thesis unfolding bitAt_update [OF assms] by (simp only: if_False simp_thms)
qed

lemma setBit_length [simp]: "length (setBit q b bytes) = length bytes"
  by (simp add: setBit_def Let_def)

lemma bitAt_setBit:
  assumes "q < 8 * length bytes"
  shows "bitAt (setBit q b bytes) p = (if p = q then b else bitAt bytes p)"
  using bitAt_or_mask [OF assms] bitAt_and_not_mask [OF assms]
  by (simp add: setBit_def Let_def)

lemma bitAt_append_zero: "bitAt (bytes @ [0]) p = (p < 8 * length bytes \<and> bitAt bytes p)"
  if "p < 8 * Suc (length bytes)"
proof (cases "p div 8 < length bytes")
  case True
  then have "p < 8 * length bytes" by auto
  with True show ?thesis by (simp add: bitAt_bit nth_append)
next
  case False
  with that have "p div 8 = length bytes" by auto
  with False show ?thesis by (auto simp: bitAt_bit nth_append)
qed

section \<open>Writing appends, setting overwrites, reading takes\<close>

lemma writeBit_ok:
  assumes ok: "writer_ok w"
  shows "writer_ok (writeBit v i w)" and "wbits (writeBit v i w) = wbits w @ [bit v i]"
    and "w_bitLength (writeBit v i w) = Suc (w_bitLength w)"
proof -
  let ?n = "w_bitLength w" and ?bytes = "w_bytes w"
  define bytes where "bytes = (if length ?bytes \<le> ?n div 8 then ?bytes @ [0] else ?bytes)"
  have len: "length ?bytes = (?n + 7) div 8"
    and zero: "\<And>p. ?n \<le> p \<Longrightarrow> p < 8 * length ?bytes \<Longrightarrow> \<not> bitAt ?bytes p"
    using ok by (auto simp: writer_ok_def)
  have len': "length bytes = (Suc ?n + 7) div 8" and n: "?n < 8 * length bytes"
    unfolding bytes_def using len by auto
  have old: "bitAt bytes p = (p < ?n \<and> bitAt ?bytes p)" if "p < 8 * length bytes" for p
  proof (cases "length ?bytes \<le> ?n div 8")
    case True
    then have "8 * length ?bytes = ?n" using len by auto
    with True that show ?thesis by (simp add: bytes_def bitAt_append_zero)
  next
    case False
    with that zero [of p] show ?thesis by (cases "p < ?n") (auto simp: bytes_def)
  qed
  define new where "new = w_bytes (writeBit v i w)"
  have new: "new = (if bit v i then bytes[?n div 8 := bytes ! (?n div 8) OR push_bit (7 - ?n mod 8) 1]
                    else bytes)"
    by (simp add: new_def writeBit_def bytes_def Let_def and_one_bit)
  have length_new: "length new = length bytes" by (simp add: new)
  have bits: "bitAt new p = (if p = ?n then bit v i else p < ?n \<and> bitAt ?bytes p)"
    if "p < 8 * length bytes" for p
    using old [OF that] bitAt_or_mask [OF n, of p] by (auto simp: new)
  show bl: "w_bitLength (writeBit v i w) = Suc ?n" by (simp add: writeBit_def Let_def)
  show "writer_ok (writeBit v i w)"
    unfolding writer_ok_def bl new_def [symmetric] length_new using len' bits by auto
  have "wbits (writeBit v i w) = bit_slice new 0 ?n @ bit_slice new ?n 1"
    using slice_add [of new 0 ?n 1] by (simp add: bl new_def wbits_def)
  also have "bit_slice new 0 ?n = wbits w"
    unfolding wbits_def using bits n by (intro slice_eqI) auto
  also have "bit_slice new ?n 1 = [bit v i]"
    using bits [OF n] by (simp add: slice_Suc)
  finally show "wbits (writeBit v i w) = wbits w @ [bit v i]" .
qed

lemma writeLoop_ok:
  "writer_ok w \<Longrightarrow> writer_ok (writeLoop v n w) \<and> wbits (writeLoop v n w) = wbits w @ msb_bits v n
     \<and> w_bitLength (writeLoop v n w) = w_bitLength w + n"
proof (induction n arbitrary: w)
  case (Suc n)
  show ?case using Suc.IH [OF writeBit_ok(1) [OF Suc.prems]] writeBit_ok [OF Suc.prems] by simp
qed simp

lemma writer_write_ok:
  assumes "writer_write v n p w = Inr w'" "writer_ok w"
  shows "writer_ok w'" "wbits w' = wbits w @ msb_bits v n"
    "w_bitLength w' = w_bitLength w + n" "0 < n" "n \<le> 64" "\<not> valueTooWide v n"
  using assms writeLoop_ok [OF assms(2), of v n] by (auto simp: writer_write_def split: if_splits)

lemma setLoop_length [simp]: "length (setLoop offset v n bytes) = length bytes"
proof -
  have "length (fold (\<lambda>i. setBit (offset + i) (b i)) ks bytes) = length bytes" for b ks
    by (induction ks arbitrary: bytes) auto
  then show ?thesis by (simp add: setLoop_def)
qed

lemma bitAt_setBits:
  assumes "\<forall>i \<in> set ks. offset + i < 8 * length bytes" "distinct ks"
  shows "bitAt (fold (\<lambda>i. setBit (offset + i) (b i)) ks bytes) p
     = (if offset \<le> p \<and> p - offset \<in> set ks then b (p - offset) else bitAt bytes p)"
  using assms
proof (induction ks arbitrary: bytes)
  case (Cons i ks)
  have "bitAt (fold (\<lambda>i. setBit (offset + i) (b i)) ks (setBit (offset + i) (b i) bytes)) p
     = (if offset \<le> p \<and> p - offset \<in> set ks then b (p - offset)
        else bitAt (setBit (offset + i) (b i) bytes) p)"
    by (rule Cons.IH) (use Cons.prems in auto)
  then show ?case
    using Cons.prems bitAt_setBit [of "offset + i" bytes "b i" p] by auto
qed simp

lemma bitAt_setLoop:
  assumes "offset + n \<le> 8 * length bytes"
  shows "bitAt (setLoop offset v n bytes) p
     = (if offset \<le> p \<and> p < offset + n then bit v (n - (p - offset) - 1) else bitAt bytes p)"
  unfolding setLoop_def and_one_bit
  by (subst bitAt_setBits) (use assms in auto)

lemma writer_set_ok:
  assumes "writer_set offset v n p w = Inr w'" "writer_ok w"
  shows "writer_ok w'" "w_bitLength w' = w_bitLength w"
    "wbits w' = take offset (wbits w) @ msb_bits v n @ drop (offset + n) (wbits w)"
proof -
  have n: "offset + n \<le> w_bitLength w" and w': "w' = w\<lparr>w_bytes := setLoop offset v n (w_bytes w)\<rparr>"
    using assms(1) by (auto simp: writer_set_def split: if_splits)
  have len: "length (w_bytes w) = (w_bitLength w + 7) div 8"
    using assms(2) by (simp add: writer_ok_def)
  have room: "offset + n \<le> 8 * length (w_bytes w)" using n len by auto
  show "w_bitLength w' = w_bitLength w" by (simp add: w')
  show "writer_ok w'"
    using assms(2) n by (simp add: writer_ok_def w' bitAt_setLoop [OF room])
  show "wbits w' = take offset (wbits w) @ msb_bits v n @ drop (offset + n) (wbits w)"
  proof (rule nth_equalityI)
    show "length (wbits w') = length (take offset (wbits w) @ msb_bits v n @ drop (offset + n) (wbits w))"
      using n by (simp add: w' wbits_def)
    show "wbits w' ! i = (take offset (wbits w) @ msb_bits v n @ drop (offset + n) (wbits w)) ! i"
      if "i < length (wbits w')" for i
      using that n bitAt_setLoop [OF room, of v i]
      by (auto simp: w' wbits_def nth_slice nth_append nth_msb_bits)
  qed
qed

lemma take_bit_not_too_wide: "\<not> valueTooWide v n \<Longrightarrow> n \<le> 64 \<Longrightarrow> take_bit n v = v"
proof (cases "n < 64")
  case True
  assume "\<not> valueTooWide v n"
  with True have "v \<le> mask n" by (simp add: valueTooWide_def mask_eq_exp_minus_1 not_less)
  then have "uint v \<le> uint (mask n :: 64 word)" by (simp add: word_le_def)
  also have "\<dots> = mask n" using True by transfer (simp add: take_bit_of_mask min_def)
  finally have "uint v < 2 ^ n" by (simp add: mask_eq_exp_minus_1)
  then show ?thesis
    by (metis take_bit_int_eq_self unsigned_greater_eq unsigned_take_bit_eq word_uint_eqI)
qed (simp add: take_bit_word_eq_self)

lemma readLoop_slice:
  "readLoop bytes pos n r = foldl (\<lambda>a b. push_bit 1 a OR of_bool b) r (bit_slice bytes pos n)"
  by (induction n arbitrary: pos r) (auto simp: slice_Suc)

lemma foldl_msb_bits:
  "foldl (\<lambda>a b. push_bit 1 a OR of_bool b) r (msb_bits v n) = push_bit n r OR take_bit n v"
proof (induction n arbitrary: r)
  case (Suc n)
  have "push_bit n (push_bit 1 r OR of_bool (bit v n)) OR take_bit n v
          = push_bit (Suc n) r OR take_bit (Suc n) v"
    by (rule bit_word_eqI) (auto simp: bit_simps less_Suc_eq)
  with Suc show ?case by simp
qed simp

lemma reader_read_slice:
  assumes "r_offset r + n \<le> r_bitLength r" "0 < n" "n \<le> 64" "\<not> valueTooWide v n"
    and "bit_slice (r_bytes r) (r_offset r) n = msb_bits v n"
  shows "reader_read n p r = Inr (v, r\<lparr>r_offset := r_offset r + n\<rparr>)"
proof -
  have "readLoop (r_bytes r) (r_offset r) n 0 = v"
    unfolding readLoop_slice assms(5) foldl_msb_bits using assms(3,4)
    by (simp add: take_bit_not_too_wide)
  with assms show ?thesis by (simp add: reader_read_def)
qed

section \<open>The interface of the streams\<close>

text \<open>
  What the codec relies on: a write that succeeds appends a word, and a reader that has this word
  in front of it reads the same value back.
\<close>

locale bit_stream =
  fixes ok :: "'w \<Rightarrow> bool"
    and contents :: "'w \<Rightarrow> bool list"
    and word_bits :: "'v \<Rightarrow> nat \<Rightarrow> bool list"
    and put :: "'v \<Rightarrow> nat \<Rightarrow> string \<Rightarrow> 'w \<Rightarrow> 'e + 'w"
    and get :: "nat \<Rightarrow> string \<Rightarrow> 'r \<Rightarrow> 'e + ('v \<times> 'r)"
    and available :: "'r \<Rightarrow> bool list \<Rightarrow> bool"
    and advance :: "'r \<Rightarrow> nat \<Rightarrow> 'r"
  assumes put_ok: "put v n p w = Inr w' \<Longrightarrow> ok w \<Longrightarrow> ok w'"
    and put_appends: "put v n p w = Inr w' \<Longrightarrow> ok w \<Longrightarrow> contents w' = contents w @ word_bits v n"
    and get_back: "put v n p w = Inr w' \<Longrightarrow> available r (word_bits v n)
      \<Longrightarrow> get n q r = Inr (v, advance r (length (word_bits v n)))"
    and available_append:
      "available r (xs @ ys) \<longleftrightarrow> available r xs \<and> available (advance r (length xs)) ys"
    and advance_add: "advance (advance r m) n = advance r (m + n)"
    and advance_0: "advance r 0 = r"
begin

text \<open>Any sequence of words written is read back, whatever follows it.\<close>

lemma words_written:
  "loop_res (\<lambda>_ (v, n). put v n p) i vs w = Inr w' \<Longrightarrow> ok w
   \<Longrightarrow> ok w' \<and> contents w' = contents w @ concat (map (\<lambda>(v, n). word_bits v n) vs)"
  by (induction vs arbitrary: i w)
    (auto simp: bind_res_eq_Inr put_ok put_appends)

lemma words_read_back:
  "loop_res (\<lambda>_ (v, n). put v n p) i vs w = Inr w' \<Longrightarrow> ok w
   \<Longrightarrow> available r (concat (map (\<lambda>(v, n). word_bits v n) vs))
   \<Longrightarrow> loop_res (\<lambda>_ n (acc, r). bind_res (get n q r) (\<lambda>(v, r'). Inr (acc @ [v], r'))) j
         (map snd vs) (acc, r)
       = Inr (acc @ map fst vs, advance r (length (concat (map (\<lambda>(v, n). word_bits v n) vs))))"
proof (induction vs arbitrary: i j w r acc)
  case (Cons x vs)
  obtain v n where x: "x = (v, n)" by force
  from Cons.prems(1) obtain u where u: "put v n p w = Inr u"
    and rest: "loop_res (\<lambda>_ (v, n). put v n p) (Suc i) vs u = Inr w'"
    by (auto simp: x bind_res_eq_Inr)
  have av: "available r (word_bits v n)"
    and av': "available (advance r (length (word_bits v n))) (concat (map (\<lambda>(v, n). word_bits v n) vs))"
    using Cons.prems(3) by (simp_all add: x available_append)
  show ?case
    using Cons.IH [OF rest put_ok [OF u Cons.prems(2)] av', of "Suc j" "acc @ [v]"]
    by (simp add: x get_back [OF u av] advance_add)
qed (simp add: advance_0)

end

text \<open>The bits in front of a reader.\<close>

definition available :: "BitReader \<Rightarrow> bool list \<Rightarrow> bool" where
  "available r bs \<longleftrightarrow> r_offset r + length bs \<le> r_bitLength r
     \<and> bit_slice (r_bytes r) (r_offset r) (length bs) = bs"

definition advance :: "BitReader \<Rightarrow> nat \<Rightarrow> BitReader" where
  "advance r n = r\<lparr>r_offset := r_offset r + n\<rparr>"

interpretation vmf_bits: bit_stream writer_ok wbits msb_bits writer_write reader_read available advance
proof
  show "reader_read n q r = Inr (v, advance r (length (msb_bits v n)))"
    if "writer_write v n p w = Inr w'" "available r (msb_bits v n)" for v n p w w' r q
    using that reader_read_slice [of r n v q]
    by (simp add: writer_write_def available_def advance_def split: if_splits)
qed (auto simp: available_def advance_def slice_add writer_write_ok)

section \<open>What a read returns\<close>

lemma msb_bits_push:
  assumes "n < 64"
  shows "msb_bits (push_bit 1 a OR of_bool b) (Suc n) = msb_bits a n @ [b]"
proof (rule nth_equalityI)
  fix i
  assume "i < length (msb_bits (push_bit 1 a OR of_bool b) (Suc n))"
  then have i: "i < Suc n" by simp
  have "bit (push_bit 1 a OR of_bool b) k = (if k = 0 then b else bit a (k - 1))" if "k < 64" for k
    using that unfolding bit_or_iff bit_push_bit_iff by (cases b) (auto simp: bit_1_iff)
  moreover have "Suc n - i - 1 < 64" using assms by simp
  ultimately have "msb_bits (push_bit 1 a OR of_bool b) (Suc n) ! i
      = (if Suc n - i - 1 = 0 then b else bit a (Suc n - i - 1 - 1))"
    by (simp only: nth_msb_bits [OF i])
  also have "\<dots> = (msb_bits a n @ [b]) ! i"
    using i by (cases "i = n") (auto simp: nth_append nth_msb_bits)
  finally show "msb_bits (push_bit 1 a OR of_bool b) (Suc n) ! i = (msb_bits a n @ [b]) ! i" .
qed simp

lemma msb_bits_foldl:
  "length bs \<le> 64 \<Longrightarrow> msb_bits (foldl (\<lambda>a b. push_bit 1 a OR of_bool b) r bs) (length bs) = bs"
proof (induction bs rule: rev_induct)
  case (snoc b bs)
  then show ?case using msb_bits_push [of "length bs"] by simp
qed simp

lemma reader_read_available:
  assumes "reader_read n p r = Inr (v, r')"
  shows "available r (msb_bits v n)" "r' = advance r n"
proof -
  let ?bs = "bit_slice (r_bytes r) (r_offset r) n"
  from assms have n: "n \<le> 64" "r_offset r + n \<le> r_bitLength r"
    and v: "v = foldl (\<lambda>a b. push_bit 1 a OR of_bool b) 0 ?bs" and "r' = advance r n"
    by (auto simp: reader_read_def readLoop_slice advance_def split: if_splits)
  then have "msb_bits v n = ?bs" using msb_bits_foldl [of ?bs 0] by simp
  with n show "available r (msb_bits v n)" by (simp add: available_def)
  show "r' = advance r n" by fact
qed

text \<open>Values written one after another are read back in the same order by a reader with the
  same widths, and the bytes written hold exactly their bits, most significant bit first, padded
  with zeros.\<close>

lemma bit_stream_roundtrip:
  assumes "loop_res (\<lambda>_ (v, n). writer_write v n p) 0 vs emptyWriter = Inr w"
  shows "wbits w = concat (map (\<lambda>(v, n). msb_bits v n) vs)
     \<and> length (w_bytes w) = (w_bitLength w + 7) div 8
     \<and> (\<forall>i. w_bitLength w \<le> i \<and> i < 8 * length (w_bytes w) \<longrightarrow> \<not> bitAt (w_bytes w) i)
     \<and> loop_res (\<lambda>_ n (acc, r). bind_res (reader_read n q r) (\<lambda>(v, r'). Inr (acc @ [v], r'))) 0
         (map snd vs) ([], \<lparr>r_bytes = w_bytes w, r_bitLength = w_bitLength w, r_offset = 0\<rparr>)
       = Inr (map fst vs, \<lparr>r_bytes = w_bytes w, r_bitLength = w_bitLength w, r_offset = w_bitLength w\<rparr>)"
proof -
  let ?r = "\<lparr>r_bytes = w_bytes w, r_bitLength = w_bitLength w, r_offset = 0\<rparr>"
  let ?bs = "concat (map (\<lambda>(v, n). msb_bits v n) vs)"
  from vmf_bits.words_written [OF assms writer_ok_empty]
  have ok: "writer_ok w" and bits: "wbits w = ?bs" by simp_all
  have len: "length ?bs = w_bitLength w" by (simp add: bits [symmetric] wbits_def)
  have av: "available ?r ?bs"
    unfolding available_def len using bits by (simp add: wbits_def)
  have adv: "advance ?r (w_bitLength w)
      = \<lparr>r_bytes = w_bytes w, r_bitLength = w_bitLength w, r_offset = w_bitLength w\<rparr>"
    by (simp add: advance_def)
  note got = vmf_bits.words_read_back [OF assms writer_ok_empty av, of q 0 "[]", unfolded len adv append_Nil]
  show ?thesis
    using ok by (intro conjI bits got) (auto simp only: writer_ok_def)
qed

lemma bit_stream_roundtrip_witness:
  "\<exists>w. loop_res (\<lambda>_ (v, n). writer_write v n ''p'') 0 [(5, 3), (1, 1)] emptyWriter = Inr w
     \<and> wbits w = [True, False, True, True]"
proof -
  let ?e = "loop_res (\<lambda>_ (v, n). writer_write v n ''p'') 0 [(5, 3), (1, 1)] emptyWriter"
  have "writer_write 5 3 ''p'' emptyWriter = Inr (writeLoop 5 3 emptyWriter)"
    "writer_write 1 1 ''p'' (writeLoop 5 3 emptyWriter) = Inr (writeLoop 1 1 (writeLoop 5 3 emptyWriter))"
    by (simp_all add: writer_write_def valueTooWide_def)
  then have e: "?e = Inr (writeLoop 1 1 (writeLoop 5 3 emptyWriter))" by simp
  have "wbits (writeLoop 1 1 (writeLoop 5 3 emptyWriter)) = msb_bits 5 3 @ msb_bits 1 1"
    using bit_stream_roundtrip [OF e, THEN conjunct1] by simp
  also have "\<dots> = [True, False, True, True]"
    by (simp add: numeral_3_eq_3)
  finally show ?thesis using e by blast
qed

end
