(* ===== verification/VmfDictionary.thy ===== *)
theory VmfDictionary
  imports VmfBits
begin

text \<open>
  Messages and dictionaries of the VMF codec (\<open>src/src/vmf/VmfCodec.h\<close> and the first part of
  \<open>VmfCodec.cpp\<close>): XML nodes, the specification tree a message dictionary is parsed into, the
  content dictionary with its allow lists, and the checks made when a dictionary is loaded.
  A function that reports through \<open>diagnostics\<close> and returns false is \<open>Diagnostic + 'a\<close> where it
  stops at its first diagnostic, and returns the list of its diagnostics where it goes on.
\<close>

section \<open>XML nodes\<close>

datatype XmlNode = XmlNode (xtag: string) (xattributes: "string \<rightharpoonup> string") (xtext: string)
  (xchildren: "XmlNode list")

definition attribute :: "XmlNode \<Rightarrow> string \<Rightarrow> string" where
  "attribute n k = (case xattributes n k of None \<Rightarrow> '''' | Some v \<Rightarrow> v)"

definition has_attribute :: "XmlNode \<Rightarrow> string \<Rightarrow> bool" where
  "has_attribute n k \<longleftrightarrow> xattributes n k \<noteq> None"

text \<open>The filter of \<open>child\<close> and \<open>children\<close>: an empty name matches every node of the tag.\<close>

definition named :: "string \<Rightarrow> string \<Rightarrow> XmlNode \<Rightarrow> bool" where
  "named tag name n \<longleftrightarrow> xtag n = tag \<and> (name = '''' \<or> attribute n ''name'' = name)"

definition child :: "XmlNode \<Rightarrow> string \<Rightarrow> string \<Rightarrow> XmlNode option" where
  "child parent tag name = find (named tag name) (xchildren parent)"

definition children :: "XmlNode \<Rightarrow> string \<Rightarrow> string \<Rightarrow> XmlNode list" where
  "children parent tag name = filter (named tag name) (xchildren parent)"

definition isTrue :: "string \<Rightarrow> bool" where
  "isTrue v \<longleftrightarrow> (let l = to_lower (trimmed v) in l = ''true'' \<or> l = ''1'')"

definition parseUnsigned :: "string \<Rightarrow> 64 word option" where
  "parseUnsigned txt =
     (let input = trimmed txt
      in if input = [] then None
         else if has_hex_prefix input then to_ulonglong 16 (drop 2 input)
         else to_ulonglong 10 input)"

definition parseBits :: "string \<Rightarrow> nat option" where
  "parseBits txt = (case parseUnsigned txt of
     None \<Rightarrow> None | Some v \<Rightarrow> if v = 0 \<or> 64 < v then None else Some (unat v))"

section \<open>Specification trees\<close>

datatype SpecNode = SpecNode (stag: string) (sname: string) (sdfi: string) (sdui: string)
  (sbits: nat) (srepeatable: bool) (sselectable: bool) (smaxRepeat: int)
  (schildren: "SpecNode list")

definition isValueNode :: "SpecNode \<Rightarrow> bool" where
  "isValueNode n \<longleftrightarrow> stag n = ''DataUnit'' \<or> stag n = ''GRI'' \<or> stag n = ''FRI''
     \<or> stag n = ''GPI'' \<or> stag n = ''FPI'' \<or> (stag n = ''Field'' \<and> schildren n = [])"

definition isSpecTag :: "string \<Rightarrow> bool" where
  "isSpecTag tag \<longleftrightarrow> tag = ''Group'' \<or> tag = ''Field'' \<or> tag = ''DataUnit'' \<or> tag = ''GRI''
     \<or> tag = ''FRI'' \<or> tag = ''GPI'' \<or> tag = ''FPI''"

definition parseMax :: "XmlNode \<Rightarrow> string \<Rightarrow> Diagnostic + int" where
  "parseMax xml p =
     (if has_attribute xml ''max''
      then (case parseUnsigned (attribute xml ''max'') of
              None \<Rightarrow> Inl (mkError ''DICT_MAX'' p)
            | Some v \<Rightarrow> if v = 0 \<or> 2147483647 < v then Inl (mkError ''DICT_MAX'' p)
                        else Inr (uint v))
      else Inr (-1))"

definition parseNodeBits :: "XmlNode \<Rightarrow> string \<Rightarrow> Diagnostic + nat" where
  "parseNodeBits xml p =
     (if xtag xml = ''DataUnit'' \<or> xtag xml = ''GRI'' \<or> xtag xml = ''FRI'' \<or> xtag xml = ''GPI''
         \<or> xtag xml = ''FPI'' \<or> (xtag xml = ''Field'' \<and> xchildren xml = [])
      then (case parseBits (attribute xml ''bits'') of
              None \<Rightarrow> Inl (mkError ''DICT_BITS'' p) | Some b \<Rightarrow> Inr b)
      else Inr 0)"

primrec parseSpecNode :: "XmlNode \<Rightarrow> string \<Rightarrow> Diagnostic + SpecNode"
  and parseSpecNodes :: "XmlNode list \<Rightarrow> string \<Rightarrow> Diagnostic + SpecNode list" where
  "parseSpecNode (XmlNode tag attrs txt kids) p =
     (let xml = XmlNode tag attrs txt kids
      in bind_res (parseMax xml p) (\<lambda>maxRepeat.
         bind_res (parseNodeBits xml p) (\<lambda>bits.
         bind_res (parseSpecNodes kids p) (\<lambda>specs.
           Inr (SpecNode tag (attribute xml ''name'') (attribute xml ''DFI'')
                  (attribute xml ''DUI'') bits (isTrue (attribute xml ''repeatable''))
                  (isTrue (attribute xml ''selectable'')) maxRepeat specs)))))"
| "parseSpecNodes [] p = Inr []"
| "parseSpecNodes (k # ks) p =
     (if isSpecTag (xtag k)
      then bind_res (parseSpecNode k (p @ ''.'' @ xtag k)) (\<lambda>s.
           bind_res (parseSpecNodes ks p) (\<lambda>ss. Inr (s # ss)))
      else parseSpecNodes ks p)"

section \<open>The content dictionary\<close>

type_synonym Key = "string \<times> string"

record ContentItem =
  ci_name :: string
  ci_bits :: int
  ci_allowed :: "64 word set"
  ci_ranges :: "(64 word \<times> 64 word) list"

definition accepts :: "ContentItem \<Rightarrow> 64 word \<Rightarrow> bool" where
  "accepts item v \<longleftrightarrow>
     (if ci_allowed item = {} \<and> ci_ranges item = [] then True
      else if v \<in> ci_allowed item then True
      else list_ex (\<lambda>(lo, hi). lo \<le> v \<and> v \<le> hi) (ci_ranges item))"

type_synonym Content = "Key \<rightharpoonup> ContentItem"

definition keyPath :: "Key \<Rightarrow> string" where
  "keyPath k = fst k @ ''/'' @ snd k"

text \<open>The two loops over an \<open>AllowList\<close>; each entry that does not parse is one diagnostic.\<close>

definition collectValue :: "Key \<Rightarrow> XmlNode \<Rightarrow> ContentItem \<times> Diagnostic list
    \<Rightarrow> ContentItem \<times> Diagnostic list" where
  "collectValue key v = (\<lambda>(item, ds).
     case parseUnsigned (attribute v ''v'') of
       None \<Rightarrow> (item, ds @ [mkError ''DICT_ALLOW'' (keyPath key)])
     | Some parsed \<Rightarrow> (item\<lparr>ci_allowed := insert parsed (ci_allowed item)\<rparr>, ds))"

definition collectRange :: "Key \<Rightarrow> XmlNode \<Rightarrow> ContentItem \<times> Diagnostic list
    \<Rightarrow> ContentItem \<times> Diagnostic list" where
  "collectRange key r = (\<lambda>(item, ds).
     case (parseUnsigned (attribute r ''from''), parseUnsigned (attribute r ''to'')) of
       (Some lo, Some hi) \<Rightarrow>
         if hi < lo then (item, ds @ [mkError ''DICT_RANGE'' (keyPath key)])
         else (item\<lparr>ci_ranges := ci_ranges item @ [(lo, hi)]\<rparr>, ds)
     | _ \<Rightarrow> (item, ds @ [mkError ''DICT_RANGE'' (keyPath key)]))"

definition collectAllow :: "Key \<Rightarrow> XmlNode \<Rightarrow> ContentItem \<times> Diagnostic list
    \<Rightarrow> ContentItem \<times> Diagnostic list" where
  "collectAllow key dui acc =
     (case child dui ''Constraints'' '''' of
        None \<Rightarrow> acc
      | Some constraints \<Rightarrow>
          (case child constraints ''AllowList'' '''' of
             None \<Rightarrow> acc
           | Some allow \<Rightarrow>
               fold (collectRange key) (children allow ''Range'' '''')
                 (fold (collectValue key) (children allow ''Value'' '''') acc)))"

definition collectDui :: "string \<Rightarrow> XmlNode \<Rightarrow> Content \<times> Diagnostic list
    \<Rightarrow> Content \<times> Diagnostic list" where
  "collectDui dfi dui = (\<lambda>(content, ds).
     let num = attribute dui ''num''; name = attribute dui ''name''; key = (dfi, num)
     in if num = '''' \<or> name = '''' then (content, ds @ [mkError ''DICT_DUI'' dfi])
        else if content key \<noteq> None then (content, ds @ [mkError ''DICT_DUPLICATE'' (keyPath key)])
        else
          let bits = parseBits (attribute dui ''bits'');
              item = \<lparr>ci_name = name,
                      ci_bits = (if has_attribute dui ''bits'' then
                        (case bits of None \<Rightarrow> -1 | Some b \<Rightarrow> int b) else -1),
                      ci_allowed = {}, ci_ranges = []\<rparr>;
              ds' = (if has_attribute dui ''bits'' \<and> bits = None
                     then ds @ [mkError ''DICT_BITS'' (keyPath key)] else ds);
              (item', ds'') = collectAllow key dui (item, ds')
          in (content(key \<mapsto> item'), ds''))"

definition collectDfi :: "XmlNode \<Rightarrow> Content \<times> Diagnostic list \<Rightarrow> Content \<times> Diagnostic list" where
  "collectDfi dfi = (\<lambda>(content, ds).
     if attribute dfi ''num'' = '''' then (content, ds @ [mkError ''DICT_DFI'' ''dic''])
     else fold (collectDui (attribute dfi ''num'')) (children dfi ''DUI'' '''') (content, ds))"

definition collectContent :: "XmlNode \<Rightarrow> Content \<times> Diagnostic list
    \<Rightarrow> Content \<times> Diagnostic list" where
  "collectContent root acc = fold collectDfi (children root ''DFI'' '''') acc"

definition parseContent :: "XmlNode \<Rightarrow> Diagnostic list \<Rightarrow> Content option \<times> Diagnostic list" where
  "parseContent root ds =
     (if xtag root \<noteq> ''dic'' then (None, ds @ [mkError ''DICT_ROOT'' ''''])
      else let (content, ds') = collectContent root (Map.empty, ds) in (Some content, ds'))"

section \<open>Agreement of the two dictionaries\<close>

text \<open>
  \<open>specData\<close> is a hash map whose iteration order only orders diagnostics: an association list in
  insertion order stands for it.
\<close>

type_synonym SpecData = "(Key \<times> (string \<times> nat)) list"

definition carriesKey :: "SpecNode \<Rightarrow> bool" where
  "carriesKey n \<longleftrightarrow> stag n = ''DataUnit'' \<or> stag n = ''GRI'' \<or> stag n = ''FRI''
     \<or> stag n = ''GPI'' \<or> stag n = ''FPI''"

definition collectNodeData :: "SpecNode \<Rightarrow> string \<Rightarrow> SpecData \<times> Diagnostic list
    \<Rightarrow> SpecData \<times> Diagnostic list" where
  "collectNodeData n p = (\<lambda>(sd, ds).
     if \<not> carriesKey n then (sd, ds)
     else if sdfi n = '''' \<or> sdui n = '''' then (sd, ds @ [mkError ''DICT_KEY'' p])
     else (case map_of sd (sdfi n, sdui n) of
             None \<Rightarrow> (sd @ [((sdfi n, sdui n), (sname n, sbits n))], ds)
           | Some nb \<Rightarrow> if nb \<noteq> (sname n, sbits n)
                        then (sd, ds @ [mkError ''DICT_INCONSISTENT'' p]) else (sd, ds)))"

definition indexedTag :: "string \<Rightarrow> string \<Rightarrow> nat \<Rightarrow> string" where
  "indexedTag p tag i = p @ ''.'' @ tag @ ''['' @ number i @ '']''"

primrec collectSpecData :: "SpecNode \<Rightarrow> string \<Rightarrow> SpecData \<times> Diagnostic list
      \<Rightarrow> SpecData \<times> Diagnostic list"
  and collectSpecDatas :: "SpecNode list \<Rightarrow> nat \<Rightarrow> string \<Rightarrow> SpecData \<times> Diagnostic list
      \<Rightarrow> SpecData \<times> Diagnostic list" where
  "collectSpecData (SpecNode tag nm dfi dui bits rep sel mx kids) p acc =
     collectSpecDatas kids 0 p
       (collectNodeData (SpecNode tag nm dfi dui bits rep sel mx kids) p acc)"
| "collectSpecDatas [] i p acc = acc"
| "collectSpecDatas (k # ks) i p acc =
     collectSpecDatas ks (Suc i) p (collectSpecData k (indexedTag p (stag k) i) acc)"

definition checkEntry :: "Content \<Rightarrow> Key \<times> (string \<times> nat) \<Rightarrow> Diagnostic list" where
  "checkEntry content = (\<lambda>(key, nm, bits).
     case content key of
       None \<Rightarrow> [mkError ''DICT_MISSING_CONTENT'' (keyPath key)]
     | Some item \<Rightarrow>
         (if ci_bits item \<noteq> int bits then [mkError ''DICT_BITS_MISMATCH'' (keyPath key)] else [])
         @ (if nm \<noteq> '''' \<and> ci_name item \<noteq> nm then [mkError ''DICT_NAME_MISMATCH'' (keyPath key)]
            else []))"

end
