(* ===== verification/VmfPath.thy ===== *)
theory VmfPath
  imports VmfDictionary
begin

text \<open>
  Rule paths (\<open>splitPath\<close> to \<open>resolvePath\<close> in \<open>src/src/vmf/VmfCodec.cpp\<close>). A path names nodes
  from the header or the body down, by segments such as \<open>G(name)[2]\<close>, \<open>D(name)\<close> or \<open>I(GPI)\<close>; it
  is checked against the specification tree when a dictionary is loaded and resolved in a
  message when a rule is evaluated. The text put into \<open>*error\<close> is left out: a path that is not
  resolved is an empty list, a path that is not accepted is false.
\<close>

section \<open>Segments\<close>

text \<open>The loop of \<open>splitPath\<close>, with the parts found, the current part and the bracket depth.\<close>

primrec splitLoop :: "string \<Rightarrow> string list \<Rightarrow> string \<Rightarrow> int \<Rightarrow> string list" where
  "splitLoop [] parts current depth = (if current \<noteq> [] then parts @ [current] else parts)"
| "splitLoop (c # cs) parts current depth =
     (let d = (if c = CHR ''('' then depth + 1 else depth);
          d' = (if c = CHR '')'' then d - 1 else d)
      in if c = CHR ''.'' \<and> d' = 0
         then splitLoop cs (if current \<noteq> [] then parts @ [current] else parts) [] d'
         else splitLoop cs parts (current @ [c]) d')"

definition splitPath :: "string \<Rightarrow> string list" where
  "splitPath raw = splitLoop raw [] [] 0"

record Segment =
  s_kind :: char
  s_name :: string
  s_indexed :: bool
  s_wildcard :: bool
  s_index :: int

definition parseSegment :: "string \<Rightarrow> Segment option" where
  "parseSegment raw =
     (let opn = index_of raw (CHR ''('') 0;
          cls = index_of raw (CHR '')'') (nat (opn + 1));
          kind = raw ! 0;
          name = mid raw (nat (opn + 1)) (cls - opn - 1);
          segment = \<lparr>s_kind = kind, s_name = name, s_indexed = False, s_wildcard = False,
                     s_index = 0\<rparr>
      in if opn \<le> 0 \<or> cls \<le> opn + 1 \<or> cls \<noteq> last_index_of raw (CHR '')'') then None
         else if kind \<noteq> CHR ''G'' \<and> kind \<noteq> CHR ''F'' \<and> kind \<noteq> CHR ''D'' \<and> kind \<noteq> CHR ''I'' then None
         else if trimmed name = [] then None
         else if cls + 1 = int (length raw) then Some segment
         else if kind \<noteq> CHR ''G'' \<and> kind \<noteq> CHR ''F'' then None
         else if raw ! nat (cls + 1) \<noteq> CHR ''['' \<or> \<not> ends_with raw '']'' then None
         else
           (let index = mid raw (nat (cls + 2)) (int (length raw) - cls - 3)
            in if index = [] then None
               else if index = ''*'' then Some (segment\<lparr>s_indexed := True, s_wildcard := True\<rparr>)
               else (case to_int index of
                       None \<Rightarrow> None
                     | Some i \<Rightarrow> Some (segment\<lparr>s_indexed := True, s_index := i\<rparr>))))"

definition segmentTag :: "Segment \<Rightarrow> string" where
  "segmentTag s =
     (if s_kind s = CHR ''G'' then ''Group''
      else if s_kind s = CHR ''F'' then ''Field''
      else if s_kind s = CHR ''D'' then ''DataUnit''
      else s_name s)"

definition isIndicatorName :: "string \<Rightarrow> bool" where
  "isIndicatorName name \<longleftrightarrow> name = ''GRI'' \<or> name = ''GPI'' \<or> name = ''FRI'' \<or> name = ''FPI''"

section \<open>Paths in a specification\<close>

definition matchingSpecChildren :: "SpecNode \<Rightarrow> Segment \<Rightarrow> SpecNode list" where
  "matchingSpecChildren parent s =
     filter (\<lambda>candidate.
       if s_kind s = CHR ''D''
       then sname candidate \<noteq> [] \<and> sname candidate = s_name s
            \<and> (stag candidate = ''DataUnit'' \<or> (stag candidate = ''Field'' \<and> schildren candidate = []))
       else (sname candidate = s_name s \<or> s_kind s = CHR ''I'') \<and> stag candidate = segmentTag s)
       (schildren parent)"

type_synonym Aliases = "string \<rightharpoonup> string"

text \<open>The empty string stands for a path that cannot be expanded, as in the code.\<close>

definition expandRuleAlias :: "string \<Rightarrow> Aliases \<Rightarrow> string" where
  "expandRuleAlias rawPath aliases =
     (if \<not> starts_with rawPath ''$'' then rawPath
      else let dot = index_of rawPath (CHR ''.'') 0;
               alias = mid rawPath 1 (if dot < 0 then -1 else dot - 1)
           in if alias = [] then []
              else (case aliases alias of
                      None \<Rightarrow> []
                    | Some replacement \<Rightarrow>
                        if starts_with replacement ''$'' then []
                        else replacement @ (if dot < 0 then [] else drop (nat dot) rawPath)))"

text \<open>An index fits a repeatable node: within \<open>max\<close>, negative indices counted from its end.\<close>

definition indexFits :: "Segment \<Rightarrow> SpecNode \<Rightarrow> bool" where
  "indexFits s match \<longleftrightarrow>
     (if \<not> s_wildcard s \<and> 0 < smaxRepeat match
      then let index = (if 0 \<le> s_index s then s_index s else smaxRepeat match + s_index s)
           in 0 \<le> index \<and> index < smaxRepeat match
      else True)"

text \<open>The nodes one parent contributes to the next step, \<open>None\<close> where the path is refused.\<close>

definition specStep :: "Segment \<Rightarrow> SpecNode \<Rightarrow> SpecNode list option" where
  "specStep s parent =
     (let matches = matchingSpecChildren parent s
      in if matches = [] then None
         else if s_kind s = CHR ''I'' \<and> length matches \<noteq> 1 then None
         else if s_indexed s then
           (if s_kind s \<noteq> CHR ''G'' \<and> s_kind s \<noteq> CHR ''F'' then None
            else if \<not> list_all (\<lambda>m. srepeatable m \<and> indexFits s m) matches then None
            else if s_wildcard s then Some matches else Some [hd matches])
         else if 1 < length matches then None
         else Some [hd matches])"

primrec specSteps :: "Segment \<Rightarrow> SpecNode list \<Rightarrow> SpecNode list option" where
  "specSteps s [] = Some []"
| "specSteps s (parent # ps) =
     (case specStep s parent of
        None \<Rightarrow> None
      | Some found \<Rightarrow> map_option (\<lambda>rest. found @ rest) (specSteps s ps))"

primrec walkSpec :: "string list \<Rightarrow> SpecNode list \<Rightarrow> SpecNode list option" where
  "walkSpec [] current = Some current"
| "walkSpec (raw # rest) current =
     (case parseSegment raw of
        None \<Rightarrow> None
      | Some s \<Rightarrow>
          if s_kind s = CHR ''I'' \<and> \<not> isIndicatorName (s_name s) then None
          else (case specSteps s current of None \<Rightarrow> None | Some found \<Rightarrow> walkSpec rest found))"

definition hasRepeatIndicator :: "SpecNode \<Rightarrow> bool" where
  "hasRepeatIndicator n \<longleftrightarrow>
     (let indicator = (if stag n = ''Group'' then ''GRI'' else ''FRI'')
      in list_ex (\<lambda>c. stag c = indicator) (schildren n))"

definition validateRulePath :: "string \<Rightarrow> SpecNode \<Rightarrow> SpecNode \<Rightarrow> Aliases \<Rightarrow> bool \<Rightarrow> bool" where
  "validateRulePath rawPath header body aliases requireValue =
     (let expanded = expandRuleAlias rawPath aliases;
          iteration = ends_with expanded ''.iteration'';
          path = (if iteration then chop expanded (length ''.iteration'') else expanded);
          rawSegments = splitPath path
      in if expanded = [] then False
         else if rawSegments = [] then False
         else if hd rawSegments \<noteq> ''H'' \<and> hd rawSegments \<noteq> ''B'' then False
         else
           (case walkSpec (tl rawSegments) [if hd rawSegments = ''H'' then header else body] of
              None \<Rightarrow> False
            | Some current \<Rightarrow>
                if iteration then
                  current \<noteq> []
                  \<and> list_all (\<lambda>n. (stag n = ''Group'' \<or> stag n = ''Field'') \<and> srepeatable n
                                 \<and> hasRepeatIndicator n) current
                else if requireValue then list_all isValueNode current
                else True))"

section \<open>Paths in a message\<close>

definition actualMatches :: "Segment \<Rightarrow> XmlNode \<Rightarrow> XmlNode list" where
  "actualMatches s parent =
     (if s_kind s = CHR ''D'' then
        filter (\<lambda>n. (xtag n = ''DataUnit''
                     \<or> (xtag parent = ''Header'' \<and> xtag n = ''Field'' \<and> xchildren n = []))
                    \<and> attribute n ''name'' = s_name s) (xchildren parent)
      else if s_kind s = CHR ''I'' then filter (\<lambda>n. xtag n = segmentTag s) (xchildren parent)
      else children parent (segmentTag s) (s_name s))"

definition actualStep :: "Segment \<Rightarrow> bool \<Rightarrow> XmlNode \<Rightarrow> XmlNode list" where
  "actualStep s finalMultiple parent =
     (let matches = actualMatches s parent
      in if s_indexed s then
           (if s_wildcard s then matches
            else let index = (if s_index s < 0 then s_index s + int (length matches)
                              else s_index s)
                 in if 0 \<le> index \<and> index < int (length matches) then [matches ! nat index] else [])
         else if length matches = 1 then matches
         else if finalMultiple then matches
         else [])"

primrec walkMessage :: "bool \<Rightarrow> string list \<Rightarrow> XmlNode list \<Rightarrow> XmlNode list" where
  "walkMessage allowFinalMultiple [] current = current"
| "walkMessage allowFinalMultiple (raw # rest) current =
     (case parseSegment raw of
        None \<Rightarrow> []
      | Some s \<Rightarrow>
          let found = concat (map (actualStep s (allowFinalMultiple \<and> rest = [])) current)
          in if found = [] then [] else walkMessage allowFinalMultiple rest found)"

definition resolvePath :: "XmlNode \<Rightarrow> XmlNode \<Rightarrow> string \<Rightarrow> Aliases \<Rightarrow> bool \<Rightarrow> XmlNode list" where
  "resolvePath header body rawPath aliases allowFinalMultiple =
     (let dot = index_of rawPath (CHR ''.'') 0;
          alias = mid rawPath 1 (if dot < 0 then -1 else dot - 1);
          path = (if starts_with rawPath ''$''
                  then map_option (\<lambda>r. r @ (if dot < 0 then [] else drop (nat dot) rawPath))
                         (aliases alias)
                  else Some rawPath)
      in case path of
           None \<Rightarrow> []
         | Some p \<Rightarrow>
             (case splitPath p of
                [] \<Rightarrow> []
              | root # rest \<Rightarrow>
                  if root = ''H'' then walkMessage allowFinalMultiple rest [header]
                  else if root = ''B'' then walkMessage allowFinalMultiple rest [body]
                  else []))"

section \<open>Printing and parsing segments\<close>

text \<open>How a path is written: the dictionary syntax that \<open>parseSegment\<close> reads.\<close>

definition printIndex :: "int \<Rightarrow> string" where
  "printIndex i = (if i < 0 then ''-'' @ number (nat (- i)) else number (nat i))"

definition printSegment :: "Segment \<Rightarrow> string" where
  "printSegment s = [s_kind s] @ ''('' @ s_name s @ '')''
     @ (if s_indexed s then ''['' @ (if s_wildcard s then ''*'' else printIndex (s_index s)) @ '']''
        else [])"

definition segment_ok :: "Segment \<Rightarrow> bool" where
  "segment_ok s \<longleftrightarrow> s_kind s \<in> {CHR ''G'', CHR ''F'', CHR ''D'', CHR ''I''}
     \<and> trimmed (s_name s) \<noteq> [] \<and> CHR ''('' \<notin> set (s_name s) \<and> CHR '')'' \<notin> set (s_name s)
     \<and> (s_indexed s \<longrightarrow> s_kind s \<in> {CHR ''G'', CHR ''F''})
     \<and> (s_wildcard s \<longrightarrow> s_indexed s) \<and> (s_index s \<noteq> 0 \<longrightarrow> s_indexed s \<and> \<not> s_wildcard s)
     \<and> - (2 ^ 31) \<le> s_index s \<and> s_index s < 2 ^ 31"

lemma splitLoop_inside:
  assumes "CHR ''('' \<notin> set name" "CHR '')'' \<notin> set name" "0 < depth"
  shows "splitLoop (name @ rest) parts current depth = splitLoop rest parts (current @ name) depth"
  using assms by (induction name arbitrary: current) auto

lemma splitLoop_plain:
  assumes "CHR ''('' \<notin> set w" "CHR '')'' \<notin> set w" "CHR ''.'' \<notin> set w"
  shows "splitLoop (w @ rest) parts current depth = splitLoop rest parts (current @ w) depth"
  using assms by (induction w arbitrary: current) auto

lemma number_no_char: "code_of c < (48 :: nat) \<or> 57 < (code_of c :: nat) \<Longrightarrow> c \<notin> set (number n)"
  by (auto dest: number_codes)

lemma printIndex_chars: "c \<in> set (printIndex i) \<Longrightarrow> c = CHR ''-'' \<or> (48 \<le> code_of c \<and> code_of c \<le> (57::nat))"
  by (auto simp: printIndex_def split: if_splits dest: number_codes)

lemma splitLoop_segment:
  assumes "segment_ok s"
  shows "splitLoop (printSegment s @ rest) parts current 0 = splitLoop rest parts (current @ printSegment s) 0"
proof -
  define suffix where "suffix = (if s_indexed s then ''['' @ (if s_wildcard s then ''*''
      else printIndex (s_index s)) @ '']'' else [])"
  have plain: "CHR ''('' \<notin> set suffix" "CHR '')'' \<notin> set suffix" "CHR ''.'' \<notin> set suffix"
    by (auto simp: suffix_def dest: printIndex_chars)
  have kind: "s_kind s \<noteq> CHR ''(''" "s_kind s \<noteq> CHR '')''" "s_kind s \<noteq> CHR ''.''"
    using assms by (auto simp: segment_ok_def)
  have print: "printSegment s = [s_kind s] @ ''('' @ s_name s @ '')'' @ suffix"
    by (simp add: printSegment_def suffix_def)
  have "splitLoop (printSegment s @ rest) parts current 0
      = splitLoop (s_name s @ '')'' @ suffix @ rest) parts (current @ [s_kind s] @ ''('') 1"
    using kind by (simp add: print)
  also have "\<dots> = splitLoop ('')'' @ suffix @ rest) parts (current @ [s_kind s] @ ''('' @ s_name s) 1"
    using assms by (subst splitLoop_inside) (auto simp: segment_ok_def)
  also have "\<dots> = splitLoop (suffix @ rest) parts (current @ [s_kind s] @ ''('' @ s_name s @ '')'') 0"
    by simp
  also have "\<dots> = splitLoop rest parts (current @ printSegment s) 0"
    by (subst splitLoop_plain [OF plain]) (simp add: print)
  finally show ?thesis .
qed

primrec printPath :: "string \<Rightarrow> Segment list \<Rightarrow> string" where
  "printPath root [] = root"
| "printPath root (s # ss) = root @ ''.'' @ printPath (printSegment s) ss"

lemma splitLoop_path:
  assumes "list_all segment_ok ss"
    and "\<And>rest parts. splitLoop (root @ rest) parts [] 0 = splitLoop rest parts root 0"
    and "root \<noteq> []"
  shows "splitLoop (printPath root ss) parts [] 0 = parts @ root # map printSegment ss"
  using assms
proof (induction ss arbitrary: root parts)
  case Nil
  then show ?case using Nil(2) [of "[]"] by simp
next
  case (Cons s ss)
  have "splitLoop (printPath root (s # ss)) parts [] 0
      = splitLoop (printPath (printSegment s) ss) (parts @ [root]) [] 0"
    using Cons.prems by simp
  also have "\<dots> = (parts @ [root]) @ printSegment s # map printSegment ss"
    using Cons.prems splitLoop_segment [of s _ _ "[]"]
    by (intro Cons.IH) (auto simp: printSegment_def)
  finally show ?case by simp
qed

lemma to_int_printIndex:
  assumes "- (2 ^ 31) \<le> i" "i < 2 ^ 31"
  shows "to_int (printIndex i) = Some i"
proof -
  have hd: "hd (number n) \<noteq> CHR ''-''" for n
    using number_codes [OF hd_in_set [of "number n"]] by auto
  have "\<not> is_space c" if "c \<in> set (printIndex i)" for c
    using that by (auto simp: printIndex_def is_space_def split: if_splits dest: number_codes)
  then have t: "trimmed (printIndex i) = printIndex i" by (rule trimmed_no_space)
  show ?thesis
    using assms by (simp add: to_int_def t) (simp add: printIndex_def qstring_simps hd digits_val_number Let_def)
qed

lemma parseSegment_print:
  assumes "segment_ok s"
  shows "parseSegment (printSegment s) = Some s"
proof -
  define suffix where "suffix = (if s_indexed s then ''['' @ (if s_wildcard s then ''*''
      else printIndex (s_index s)) @ '']'' else [])"
  have kind: "s_kind s = CHR ''G'' \<or> s_kind s = CHR ''F'' \<or> s_kind s = CHR ''D'' \<or> s_kind s = CHR ''I''"
    and nm: "trimmed (s_name s) \<noteq> []" "CHR ''('' \<notin> set (s_name s)" "CHR '')'' \<notin> set (s_name s)"
    using assms by (auto simp: segment_ok_def)
  have name: "s_name s \<noteq> []" using nm(1) by (auto simp: trimmed_def)
  have sfx: "CHR '')'' \<notin> set suffix"
    by (auto simp: suffix_def dest: printIndex_chars)
  have print: "printSegment s = s_kind s # CHR ''('' # s_name s @ CHR '')'' # suffix"
    by (simp add: printSegment_def suffix_def)
  have opn: "index_of (printSegment s) (CHR ''('') 0 = 1"
    using index_of_append [of 0 "[s_kind s]" "CHR ''(''"] kind by (auto simp: print)
  have cls: "index_of (printSegment s) (CHR '')'') 2 = int (length (s_name s)) + 2"
    using index_of_append [of 2 "s_kind s # CHR ''('' # s_name s" "CHR '')''"] nm by (simp add: print)
  have lst: "last_index_of (printSegment s) (CHR '')'') = int (length (s_name s)) + 2"
    using last_index_of_append [of "CHR '')''" suffix "s_kind s # CHR ''('' # s_name s"] sfx
    by (simp add: print)
  have nmid: "mid (printSegment s) 2 (int (length (s_name s))) = s_name s"
    by (simp add: mid_def print)
  have k0: "printSegment s ! 0 = s_kind s" by (simp add: print)
  have two: "nat (1 + 1) = 2" by simp
  have nn: "printIndex (s_index s) \<noteq> []" "printIndex (s_index s) \<noteq> ''*''"
    using printIndex_chars [of "CHR ''*''" "s_index s"] by (auto simp: printIndex_def)
  show ?thesis
  proof (cases "s_indexed s")
    case False
    then have "suffix = []" by (simp add: suffix_def)
    then have len: "length (printSegment s) = length (s_name s) + 3" by (simp add: print)
    have "s = \<lparr>s_kind = s_kind s, s_name = s_name s, s_indexed = False, s_wildcard = False, s_index = 0\<rparr>"
      using assms False by (simp add: segment_ok_def)
    then show ?thesis
      unfolding parseSegment_def Let_def opn
      using kind nm name by (simp add: two cls lst nmid len k0)
  next
    case True
    define idx where "idx = (if s_wildcard s then ''*'' else printIndex (s_index s))"
    have suffix: "suffix = ''['' @ idx @ '']''" using True by (simp add: suffix_def idx_def)
    have len: "length (printSegment s) = length (s_name s) + length idx + 5" by (simp add: print suffix)
    have at: "printSegment s ! nat (int (length (s_name s)) + 3) = CHR ''[''"
      by (simp add: print suffix nat_add_distrib nth_append)
    have ew: "ends_with (printSegment s) '']''" by (simp add: ends_with_def print suffix)
    have im: "mid (printSegment s) (nat (int (length (s_name s)) + 4)) (int (length idx)) = idx"
      by (simp add: mid_def print suffix nat_add_distrib numeral_eq_Suc)
    have ix: "idx \<noteq> []" using nn by (simp add: idx_def)
    have kind2: "s_kind s = CHR ''G'' \<or> s_kind s = CHR ''F''"
      using assms True by (auto simp: segment_ok_def)
    have res: "(if idx = ''*'' then Some \<lparr>s_kind = s_kind s, s_name = s_name s, s_indexed = True,
          s_wildcard = True, s_index = 0\<rparr>
        else case to_int idx of None \<Rightarrow> None | Some i \<Rightarrow> Some \<lparr>s_kind = s_kind s, s_name = s_name s,
          s_indexed = True, s_wildcard = False, s_index = i\<rparr>) = Some s"
      using assms True nn to_int_printIndex [of "s_index s"]
      by (cases s) (auto simp: segment_ok_def idx_def)
    show ?thesis
      unfolding parseSegment_def Let_def opn
      using kind kind2 nm name at ew im ix res by (simp add: two cls lst nmid len k0 add.commute cong: option.case_cong)
        (simp split: if_split_asm)
  qed
qed

text \<open>A rule path printed in the syntax of the dictionary splits into its root and its segments,
  and each segment parses to what was printed: a dot inside the parentheses of a name does not
  split, and indices keep their sign.\<close>

lemma rule_path_roundtrip:
  assumes "r = ''H'' \<or> r = ''B''" "list_all segment_ok ss"
  shows "splitPath (printPath r ss) = r # map printSegment ss
         \<and> map parseSegment (tl (splitPath (printPath r ss))) = map Some ss"
proof -
  have "splitPath (printPath r ss) = r # map printSegment ss"
    unfolding splitPath_def using assms by (subst splitLoop_path) auto
  then show ?thesis using assms(2) by (auto simp: list_all_iff parseSegment_print)
qed

lemma rule_path_roundtrip_witness:
  "splitPath ''B.G(a.b)[-2].I(GRI)'' = [''B'', ''G(a.b)[-2]'', ''I(GRI)'']
   \<and> map parseSegment (tl (splitPath ''B.G(a.b)[-2].I(GRI)''))
     = [Some \<lparr>s_kind = CHR ''G'', s_name = ''a.b'', s_indexed = True, s_wildcard = False, s_index = -2\<rparr>,
        Some \<lparr>s_kind = CHR ''I'', s_name = ''GRI'', s_indexed = False, s_wildcard = False, s_index = 0\<rparr>]"
  using rule_path_roundtrip [of "''B''" "[\<lparr>s_kind = CHR ''G'', s_name = ''a.b'', s_indexed = True, s_wildcard = False, s_index = -2\<rparr>,
        \<lparr>s_kind = CHR ''I'', s_name = ''GRI'', s_indexed = False, s_wildcard = False, s_index = 0\<rparr>]"]
  by (simp (no_asm_use) add: segment_ok_def trimmed_def is_space_def printSegment_def printIndex_def number.simps digit_char_simps)
end
