(* ===== verification/VmfRules.thy ===== *)
theory VmfRules
  imports VmfPath
begin

text \<open>
  The rules of a message dictionary (\<open>evaluateExpression\<close> to \<open>validateRules\<close> in
  \<open>src/src/vmf/VmfCodec.cpp\<close>): expressions over the values a message carries, the check of their
  definitions when the dictionary is loaded, and the check of a message against them.
  A function that returns false exactly when it has reported a diagnostic returns the list of
  its diagnostics here: \<open>valid\<close> is that list being empty.
\<close>

section \<open>Expressions\<close>

text \<open>The branches on which \<open>evaluateExpression\<close> returns false, each with its own text.\<close>

datatype EvalError = NotShape | UnknownExpression | CmpShape | TargetPathOperator
  | LeftUnresolved | LeftNotInteger | TargetUnresolved | BadValue | BadOperator

text \<open>Where the paths of an expression are resolved: header, body and aliases.\<close>

type_synonym RuleEnv = "XmlNode \<times> XmlNode \<times> Aliases"

definition resolveIn :: "RuleEnv \<Rightarrow> string \<Rightarrow> bool \<Rightarrow> XmlNode list" where
  "resolveIn env p many = (case env of (header, body, aliases) \<Rightarrow> resolvePath header body p aliases many)"

definition iterationSuffix :: string where
  "iterationSuffix = ''.iteration''"

definition isSetOperator :: "string \<Rightarrow> bool" where
  "isSetOperator op \<longleftrightarrow> op = ''in'' \<or> op = ''not_in''"

definition supportedCompareOperator :: "string \<Rightarrow> bool" where
  "supportedCompareOperator op \<longleftrightarrow> op = ''eq'' \<or> op = ''ne'' \<or> op = ''gt'' \<or> op = ''ge''
     \<or> op = ''lt'' \<or> op = ''le'' \<or> op = ''in'' \<or> op = ''not_in''"

text \<open>The lambda \<open>compare\<close>, on the right value and the allowed set it captures.\<close>

definition compareValue :: "string \<Rightarrow> 64 word \<Rightarrow> 64 word set \<Rightarrow> 64 word \<Rightarrow> bool" where
  "compareValue op right allowed left =
     (if op = ''eq'' then left = right
      else if op = ''ne'' then left \<noteq> right
      else if op = ''gt'' then right < left
      else if op = ''ge'' then right \<le> left
      else if op = ''lt'' then left < right
      else if op = ''le'' then left \<le> right
      else if op = ''in'' then left \<in> allowed
      else if op = ''not_in'' then left \<notin> allowed
      else False)"

primrec readValues :: "XmlNode list \<Rightarrow> EvalError + 64 word list" where
  "readValues [] = Inr []"
| "readValues (n # ns) = (case parseUnsigned (xtext n) of
     None \<Rightarrow> Inl LeftNotInteger
   | Some v \<Rightarrow> bind_res (readValues ns) (\<lambda>vs. Inr (v # vs)))"

definition leftOperand :: "RuleEnv \<Rightarrow> string \<Rightarrow> EvalError + 64 word list" where
  "leftOperand env p =
     (let leftIsIteration = ends_with p iterationSuffix;
          leftPath = (if leftIsIteration then chop p (length iterationSuffix) else p);
          leftNodes = resolveIn env leftPath leftIsIteration
      in if leftNodes = [] then Inl LeftUnresolved
         else if leftIsIteration then Inr [of_nat (length leftNodes)]
         else readValues leftNodes)"

definition targetOperand :: "RuleEnv \<Rightarrow> string \<Rightarrow> EvalError + 64 word" where
  "targetOperand env targetPath =
     (let rightIsIteration = ends_with targetPath iterationSuffix;
          rightPath = (if rightIsIteration then chop targetPath (length iterationSuffix)
                       else targetPath);
          rightNodes = resolveIn env rightPath rightIsIteration
      in if rightIsIteration then Inr (of_nat (length rightNodes))
         else if length rightNodes \<noteq> 1 then Inl TargetUnresolved
         else (case parseUnsigned (xtext (hd rightNodes)) of
                 None \<Rightarrow> Inl TargetUnresolved | Some v \<Rightarrow> Inr v))"

primrec parseAllowed :: "string list \<Rightarrow> 64 word set \<Rightarrow> EvalError + 64 word set" where
  "parseAllowed [] allowed = Inr allowed"
| "parseAllowed (token # ts) allowed =
     (if trimmed token = [] then Inl BadValue
      else (case parseUnsigned token of
              None \<Rightarrow> Inl BadValue
            | Some v \<Rightarrow> parseAllowed ts (insert v allowed)))"

definition evaluateCmp :: "XmlNode \<Rightarrow> RuleEnv \<Rightarrow> EvalError + bool" where
  "evaluateCmp expression env =
     (let p = attribute expression ''path'';
          op = attribute expression ''op'';
          valueText = attribute expression ''value'';
          hasValue = has_attribute expression ''value'';
          hasTargetPath = has_attribute expression ''targetPath''
      in if trimmed p = [] \<or> trimmed op = [] \<or> hasValue = hasTargetPath then Inl CmpShape
         else if hasTargetPath \<and> isSetOperator op then Inl TargetPathOperator
         else
           bind_res (leftOperand env p) (\<lambda>leftValues.
           bind_res (if hasTargetPath then targetOperand env (attribute expression ''targetPath'')
                     else Inr 0) (\<lambda>target.
           bind_res (if hasValue \<and> isSetOperator op
                     then bind_res (parseAllowed (split_char (CHR '','') valueText) {})
                            (\<lambda>allowed. Inr (target, allowed))
                     else if hasValue
                     then (case parseUnsigned valueText of
                             None \<Rightarrow> Inl BadValue | Some v \<Rightarrow> Inr (v, {}))
                     else Inr (target, {})) (\<lambda>(right, allowed).
             if \<not> supportedCompareOperator op then Inl BadOperator
             else Inr (list_all (compareValue op right allowed) leftValues)))))"

text \<open>
  The loop over the children stops at the first error and does not stop at the first result
  that decides the conjunction or disjunction.
\<close>

primrec evaluateExpression :: "XmlNode \<Rightarrow> RuleEnv \<Rightarrow> EvalError + bool"
  and evaluateExpressions :: "XmlNode list \<Rightarrow> RuleEnv \<Rightarrow> EvalError + bool list" where
  "evaluateExpression (XmlNode tag attrs txt kids) env =
     (if tag = ''All'' \<or> tag = ''AND'' then
        (if kids = [] then Inr False
         else bind_res (evaluateExpressions kids env) (\<lambda>rs. Inr (list_all id rs)))
      else if tag = ''Any'' \<or> tag = ''OR'' then
        bind_res (evaluateExpressions kids env) (\<lambda>rs. Inr (list_ex id rs))
      else if tag = ''Not'' then
        (if length kids \<noteq> 1 then Inl NotShape
         else bind_res (evaluateExpressions kids env) (\<lambda>rs. Inr (\<not> hd rs)))
      else if tag \<noteq> ''Cmp'' then Inl UnknownExpression
      else evaluateCmp (XmlNode tag attrs txt kids) env)"
| "evaluateExpressions [] env = Inr []"
| "evaluateExpressions (k # ks) env =
     bind_res (evaluateExpression k env) (\<lambda>r.
     bind_res (evaluateExpressions ks env) (\<lambda>rs. Inr (r # rs)))"

section \<open>Definitions of rules\<close>

definition loadAliases :: "XmlNode \<Rightarrow> Aliases" where
  "loadAliases rules =
     (case child rules ''Aliases'' '''' of
        None \<Rightarrow> Map.empty
      | Some aliasRoot \<Rightarrow>
          fold (\<lambda>alias m.
              let name = attribute alias ''name''; p = attribute alias ''path''
              in if name \<noteq> [] \<and> p \<noteq> [] then m(name \<mapsto> p) else m)
            (children aliasRoot ''Alias'' '''') Map.empty)"

type_synonym SpecEnv = "SpecNode \<times> SpecNode \<times> Aliases"

definition checkPath :: "SpecEnv \<Rightarrow> string \<Rightarrow> bool \<Rightarrow> bool" where
  "checkPath env p requireValue =
     (case env of (header, body, aliases) \<Rightarrow> validateRulePath p header body aliases requireValue)"

definition validateValueList :: "string \<Rightarrow> string \<Rightarrow> Diagnostic list" where
  "validateValueList v p =
     (if list_ex (\<lambda>token. trimmed token = [] \<or> parseUnsigned token = None)
           (split_char (CHR '','') v)
      then [mkError ''RULE_VALUE'' p] else [])"

definition validateCmpDefinition :: "XmlNode \<Rightarrow> SpecEnv \<Rightarrow> string \<Rightarrow> Diagnostic list" where
  "validateCmpDefinition expression env p =
     (let rulePath = attribute expression ''path'';
          op = attribute expression ''op'';
          hasValue = has_attribute expression ''value'';
          hasTargetPath = has_attribute expression ''targetPath'';
          targetPath = attribute expression ''targetPath'';
          v = attribute expression ''value''
      in (if xchildren expression \<noteq> [] then [mkError ''RULE_SHAPE'' p] else [])
       @ (if trimmed rulePath = [] \<or> trimmed op = [] \<or> hasValue = hasTargetPath
          then [mkError ''RULE_SHAPE'' p]
          else
            (if \<not> supportedCompareOperator op then [mkError ''RULE_OPERATOR'' p] else [])
          @ (if hasTargetPath \<and> isSetOperator op then [mkError ''RULE_OPERATOR'' p] else [])
          @ (if \<not> checkPath env rulePath True then [mkError ''RULE_PATH'' p] else [])
          @ (if hasTargetPath then
               (if trimmed targetPath = [] then [mkError ''RULE_SHAPE'' p]
                else if \<not> checkPath env targetPath True then [mkError ''RULE_PATH'' p] else [])
             else
               (if trimmed v = [] then [mkError ''RULE_SHAPE'' p]
                else if isSetOperator op then validateValueList v p
                else if parseUnsigned v = None then [mkError ''RULE_VALUE'' p] else []))))"

text \<open>The loop over the children; \<open>pathOf\<close> gives the path a child is reported under.\<close>

primrec validateExpressionDefinition :: "XmlNode \<Rightarrow> SpecEnv \<Rightarrow> string \<Rightarrow> Diagnostic list"
  and validateExpressionDefinitions :: "XmlNode list \<Rightarrow> SpecEnv \<Rightarrow> (string \<Rightarrow> nat \<Rightarrow> string) \<Rightarrow> nat
      \<Rightarrow> Diagnostic list" where
  "validateExpressionDefinition (XmlNode tag attrs txt kids) env p =
     (if tag = ''All'' \<or> tag = ''AND'' \<or> tag = ''Any'' \<or> tag = ''OR'' then
        (if kids = [] then [mkError ''RULE_SHAPE'' p] else [])
        @ validateExpressionDefinitions kids env (indexedTag p) 0
      else if tag = ''Not'' then
        (if length kids \<noteq> 1 then [mkError ''RULE_SHAPE'' p]
         else validateExpressionDefinitions kids env (\<lambda>_ _. p @ ''.Not'') 0)
      else if tag \<noteq> ''Cmp'' then [mkError ''RULE_SHAPE'' p]
      else validateCmpDefinition (XmlNode tag attrs txt kids) env p)"
| "validateExpressionDefinitions [] env pathOf i = []"
| "validateExpressionDefinitions (k # ks) env pathOf i =
     validateExpressionDefinition k env (pathOf (xtag k) i)
     @ validateExpressionDefinitions ks env pathOf (Suc i)"

type_synonym RuleSet = XmlNode

definition noRules :: RuleSet where
  "noRules = XmlNode '''' Map.empty '''' []"

definition checkAlias :: "SpecNode \<Rightarrow> SpecNode \<Rightarrow> XmlNode \<Rightarrow> Aliases \<times> Diagnostic list
    \<Rightarrow> Aliases \<times> Diagnostic list" where
  "checkAlias header body alias = (\<lambda>(aliases, ds).
     let name = trimmed (attribute alias ''name''); p = trimmed (attribute alias ''path'')
     in if name = [] \<or> p = [] \<or> starts_with name ''$''
        then (aliases, ds @ [mkError ''RULE_ALIAS'' ''Rules.Aliases''])
        else if aliases name \<noteq> None then (aliases, ds @ [mkError ''RULE_ALIAS'' name])
        else (aliases(name \<mapsto> p),
              if validateRulePath p header body Map.empty False then ds
              else ds @ [mkError ''RULE_PATH'' name]))"

definition checkCase :: "SpecEnv \<Rightarrow> XmlNode \<Rightarrow> string set \<times> Diagnostic list
    \<Rightarrow> string set \<times> Diagnostic list" where
  "checkCase env caseNode = (\<lambda>(caseIds, ds).
     let i = trimmed (attribute caseNode ''id'');
         bad = (i = [] \<or> i \<in> caseIds);
         ds' = (if bad then ds @ [mkError ''RULE_CASE'' i] else ds);
         caseIds' = (if bad then caseIds else insert i caseIds)
     in (caseIds',
         if length (xchildren caseNode) \<noteq> 1 then ds' @ [mkError ''RULE_SHAPE'' i]
         else ds' @ validateExpressionDefinition (hd (xchildren caseNode)) env (''Case.'' @ i)))"

definition checkCondition :: "SpecEnv \<Rightarrow> string set \<Rightarrow> XmlNode \<Rightarrow> string set \<times> Diagnostic list
    \<Rightarrow> string set \<times> Diagnostic list" where
  "checkCondition env caseIds condition = (\<lambda>(conditionIds, ds).
     let i = trimmed (attribute condition ''id'');
         caseRef = trimmed (attribute condition ''caseRef'');
         bad = (i = [] \<or> i \<in> conditionIds);
         ds1 = (if bad then ds @ [mkError ''RULE_CONDITION'' i] else ds);
         conditionIds' = (if bad then conditionIds else insert i conditionIds);
         ds2 = (if caseRef \<noteq> [] \<and> caseRef \<notin> caseIds then ds1 @ [mkError ''RULE_CASE_REF'' i]
                else ds1)
     in (conditionIds',
         case (child condition ''If'' '''', child condition ''Then'' '''') of
           (Some ifNode, Some thenNode) \<Rightarrow>
             if length (xchildren ifNode) \<noteq> 1 \<or> length (xchildren thenNode) \<noteq> 1
             then ds2 @ [mkError ''RULE_SHAPE'' i]
             else ds2
               @ validateExpressionDefinition (hd (xchildren ifNode)) env
                   (''Condition.'' @ i @ ''.If'')
               @ validateExpressionDefinition (hd (xchildren thenNode)) env
                   (''Condition.'' @ i @ ''.Then'')
         | _ \<Rightarrow> ds2 @ [mkError ''RULE_SHAPE'' i]))"

definition childrenOf :: "XmlNode \<Rightarrow> string \<Rightarrow> string \<Rightarrow> XmlNode list" where
  "childrenOf root grp tag =
     (case child root grp '''' of None \<Rightarrow> [] | Some n \<Rightarrow> children n tag '''')"

definition validateRuleDefinitions :: "RuleSet \<Rightarrow> SpecNode \<Rightarrow> SpecNode \<Rightarrow> Diagnostic list" where
  "validateRuleDefinitions root header body =
     (if xtag root = [] then []
      else
        (let unknown = map (\<lambda>n. mkError ''RULE_SHAPE'' ''Rules'')
               (filter (\<lambda>n. xtag n \<noteq> ''Aliases'' \<and> xtag n \<noteq> ''CaseRules''
                  \<and> xtag n \<noteq> ''ConditionRules'') (xchildren root));
             (aliases, ds1) = fold (checkAlias header body) (childrenOf root ''Aliases'' ''Alias'')
               (Map.empty, unknown);
             env = (header, body, aliases);
             (caseIds, ds2) = fold (checkCase env) (childrenOf root ''CaseRules'' ''Case'') ({}, ds1)
         in snd (fold (checkCondition env caseIds)
                   (childrenOf root ''ConditionRules'' ''Condition'') ({}, ds2))))"

section \<open>Checking a message\<close>

definition evaluateCase :: "RuleEnv \<Rightarrow> XmlNode \<Rightarrow> string set \<times> Diagnostic list
    \<Rightarrow> string set \<times> Diagnostic list" where
  "evaluateCase env caseNode = (\<lambda>(matched, ds).
     let i = trimmed (attribute caseNode ''id'')
     in if xchildren caseNode = [] then (matched, ds)
        else (case evaluateExpression (hd (xchildren caseNode)) env of
                Inl e \<Rightarrow> (matched, ds @ [mkError ''RULE_EVAL'' i])
              | Inr m \<Rightarrow> (if m then insert i matched else matched, ds)))"

definition evaluateCondition :: "RuleEnv \<Rightarrow> string set \<Rightarrow> XmlNode \<Rightarrow> Diagnostic list" where
  "evaluateCondition env matched condition =
     (let i = trimmed (attribute condition ''id'');
          caseRef = trimmed (attribute condition ''caseRef'')
      in if caseRef \<noteq> [] \<and> caseRef \<notin> matched then []
         else (case (child condition ''If'' '''', child condition ''Then'' '''') of
                 (Some ifNode, Some thenNode) \<Rightarrow>
                   if xchildren ifNode = [] \<or> xchildren thenNode = []
                   then [mkError ''RULE_SHAPE'' i]
                   else (case (evaluateExpression (hd (xchildren ifNode)) env,
                               evaluateExpression (hd (xchildren thenNode)) env) of
                           (Inr ifValue, Inr thenValue) \<Rightarrow>
                             if ifValue \<and> \<not> thenValue then [mkError ''CONDITION_FAILED'' i] else []
                         | _ \<Rightarrow> [mkError ''RULE_EVAL'' i])
               | _ \<Rightarrow> [mkError ''RULE_SHAPE'' i]))"

definition validateRules :: "RuleSet \<Rightarrow> string \<Rightarrow> XmlNode \<Rightarrow> XmlNode \<Rightarrow> Diagnostic list" where
  "validateRules rules caseId header body =
     (if xtag rules = [] then []
      else
        (let env = (header, body, loadAliases rules);
             messageCase = trimmed caseId;
             cases = (if messageCase = [] then None else child rules ''CaseRules'' '''');
             (matched, ds) = (case cases of
                 None \<Rightarrow> ({}, [])
               | Some c \<Rightarrow>
                   (let (matched, ds) = fold (evaluateCase env) (children c ''Case'' '''') ({}, [])
                    in (matched, if messageCase \<notin> matched
                                 then ds @ [mkError ''CASE_MISMATCH'' messageCase] else ds)))
         in ds @ concat (map (evaluateCondition env matched)
                    (childrenOf rules ''ConditionRules'' ''Condition''))))"


section \<open>Checked rules evaluate\<close>

lemma parseAllowed_ok:
  "validateValueList v p = [] \<Longrightarrow> \<exists>a. parseAllowed (split_char (CHR '','') v) acc = Inr a"
proof -
  have "list_all (\<lambda>t. trimmed t \<noteq> [] \<and> parseUnsigned t \<noteq> None) ts \<Longrightarrow> \<exists>a. parseAllowed ts acc = Inr a"
    for ts by (induction ts arbitrary: acc) auto
  then show "validateValueList v p = [] \<Longrightarrow> ?thesis"
    by (auto simp: validateValueList_def list_ex_iff list_all_iff split: if_splits)
qed

text \<open>The errors that depend on the message and not on how the rule is written.\<close>

definition isMessageError :: "EvalError \<Rightarrow> bool" where
  "isMessageError e \<longleftrightarrow> e = LeftUnresolved \<or> e = LeftNotInteger \<or> e = TargetUnresolved"

lemma readValues_error: "readValues ns = Inl e \<Longrightarrow> e = LeftNotInteger"
  by (induction ns) (auto simp: res_simps split: option.splits)

lemma leftOperand_error: "leftOperand env p = Inl e \<Longrightarrow> isMessageError e"
  by (auto simp: leftOperand_def Let_def isMessageError_def dest: readValues_error split: if_splits)

lemma targetOperand_error: "targetOperand env p = Inl e \<Longrightarrow> isMessageError e"
  by (auto simp: targetOperand_def Let_def isMessageError_def split: if_splits option.splits)

lemma evaluateCmp_error:
  assumes "validateCmpDefinition x env p = []" "evaluateCmp x renv = Inl e"
  shows "isMessageError e"
proof -
  let ?v = "attribute x ''value''" and ?op = "attribute x ''op''"
  have shape: "trimmed (attribute x ''path'') \<noteq> []" "trimmed ?op \<noteq> []"
      "has_attribute x ''value'' \<noteq> has_attribute x ''targetPath''"
    and op: "supportedCompareOperator ?op" "\<not> (has_attribute x ''targetPath'' \<and> isSetOperator ?op)"
    and v: "\<not> has_attribute x ''targetPath'' \<Longrightarrow>
       (if isSetOperator ?op then validateValueList ?v p = [] else parseUnsigned ?v \<noteq> None)"
    using assms(1) by (auto simp: validateCmpDefinition_def Let_def split: if_splits)
  show ?thesis
  proof (cases "has_attribute x ''targetPath''")
    case True
    with shape op assms(2) show ?thesis
      by (auto simp: evaluateCmp_def Let_def res_simps split: if_splits
          dest: leftOperand_error targetOperand_error)
  next
    case False
    with shape op v assms(2) parseAllowed_ok [of ?v p "{}"] show ?thesis
      by (auto simp: evaluateCmp_def Let_def res_simps split: if_splits option.splits
          dest: leftOperand_error)
  qed
qed

lemma evaluate_errors:
  assumes "\<And>k p e. k \<in> set ks \<Longrightarrow> validateExpressionDefinition k env p = []
      \<Longrightarrow> evaluateExpression k renv = Inl e \<Longrightarrow> isMessageError e"
  shows "validateExpressionDefinitions ks env pathOf i = [] \<Longrightarrow> evaluateExpressions ks renv = Inl e
      \<Longrightarrow> isMessageError e"
  using assms by (induction ks arbitrary: i) (auto simp: res_simps)

lemma evaluate_error:
  "validateExpressionDefinition x env p = [] \<Longrightarrow> evaluateExpression x renv = Inl e \<Longrightarrow> isMessageError e"
proof (induction x arbitrary: p e)
  case (XmlNode tag attrs tx kids)
  have IH: "isMessageError e" if "validateExpressionDefinitions kids env pathOf i = []"
      "evaluateExpressions kids renv = Inl e" for pathOf i
    using evaluate_errors [of kids env renv, OF _ that] XmlNode.IH by blast
  from XmlNode.prems show ?case
    by (simp add: res_simps split: if_split_asm) (blast intro: IH evaluateCmp_error)+
qed

lemma evaluateExpressions_Inr:
  "evaluateExpressions ks env = Inr rs \<longleftrightarrow> list_all2 (\<lambda>k r. evaluateExpression k env = Inr r) ks rs"
  by (induction ks arbitrary: rs) (auto simp: res_simps list_all2_Cons1)

text \<open>A logical expression whose children all evaluate is the conjunction, disjunction or
  negation of their results, and it is an error exactly when a child is one. \<open>All\<close> of no
  children is false.\<close>

lemma logical_expression_semantics:
  assumes "xtag x \<in> {''All'', ''AND'', ''Any'', ''OR''}" "xchildren x \<noteq> []"
    and "list_all2 (\<lambda>k r. evaluateExpression k env = Inr r) (xchildren x) rs"
  shows "evaluateExpression x env
     = Inr (if xtag x = ''All'' \<or> xtag x = ''AND'' then list_all id rs else list_ex id rs)"
  using assms by (cases x) (auto simp: evaluateExpressions_Inr [symmetric])

text \<open>An expression accepted by the check of its definition can only fail on a message for
  reasons of the message: a path that leads nowhere or a value that is no number. Its shape, its
  operator and its constants are never the reason.\<close>

lemma checked_expression_evaluates:
  assumes "validateExpressionDefinition x env p = []" "evaluateExpression x renv = Inl e"
  shows "e = LeftUnresolved \<or> e = LeftNotInteger \<or> e = TargetUnresolved"
  using evaluate_error [OF assms] by (simp add: isMessageError_def)

text \<open>Every condition of an accepted rule set has one expression for \<open>If\<close> and one for \<open>Then\<close>.\<close>

definition conditionShape :: "XmlNode \<Rightarrow> bool" where
  "conditionShape c \<longleftrightarrow>
     (case (child c ''If'' '''', child c ''Then'' '''') of
        (Some i, Some t) \<Rightarrow> length (xchildren i) = 1 \<and> length (xchildren t) = 1
      | _ \<Rightarrow> False)"

lemma checkCondition_shape:
  assumes "snd (checkCondition env ids c acc) = []"
  shows "snd acc = [] \<and> conditionShape c"
  using assms
  by (cases acc) (auto simp: checkCondition_def conditionShape_def Let_def
      split: option.splits if_splits)

lemma fold_checkCondition:
  "snd (fold (checkCondition env ids) cs acc) = [] \<Longrightarrow> snd acc = [] \<and> list_all conditionShape cs"
proof (induction cs arbitrary: acc)
  case (Cons c cs)
  have "snd (checkCondition env ids c acc) = [] \<and> list_all conditionShape cs"
    by (rule Cons.IH) (use Cons.prems in simp)
  with checkCondition_shape [of env ids c acc] show ?case by simp
qed simp

lemma evaluateCondition_code:
  assumes "conditionShape c" "d \<in> set (evaluateCondition env matched c)"
  shows "d_code d = ''RULE_EVAL'' \<or> d_code d = ''CONDITION_FAILED''"
  using assms
  by (auto simp: evaluateCondition_def conditionShape_def Let_def mkError_def
      split: option.splits sum.splits if_splits)

lemma fold_evaluateCase_code:
  "d \<in> set (snd (fold (evaluateCase env) cs acc)) \<Longrightarrow> d \<in> set (snd acc) \<or> d_code d = ''RULE_EVAL''"
proof (induction cs arbitrary: acc)
  case (Cons c cs)
  have "x \<in> set (snd (evaluateCase env c acc)) \<Longrightarrow> x \<in> set (snd acc) \<or> d_code x = ''RULE_EVAL''" for x
    by (cases acc) (auto simp: evaluateCase_def Let_def mkError_def split: sum.splits if_splits)
  with Cons show ?case by fastforce
qed simp

text \<open>Rules accepted when the dictionary is loaded never produce a shape report when a
  message is checked: a message is refused because a rule cannot be evaluated on it, because its
  case does not match, or because a condition fails.\<close>

lemma accepted_rules_reports:
  assumes "validateRuleDefinitions rules hs bs = []"
    and "d \<in> set (validateRules rules caseId header body)"
  shows "d_code d \<in> {''RULE_EVAL'', ''CASE_MISMATCH'', ''CONDITION_FAILED''}"
proof (cases "xtag rules = []")
  case True
  with assms(2) show ?thesis by (simp add: validateRules_def)
next
  case False
  from assms(1) False have shape: "list_all conditionShape (childrenOf rules ''ConditionRules'' ''Condition'')"
    by (auto simp: validateRuleDefinitions_def Let_def split_beta dest: fold_checkCondition)
  have matched: "m \<in> set (snd (fold (evaluateCase env) cs ({}, []))) \<Longrightarrow> d_code m = ''RULE_EVAL''"
    for m env cs using fold_evaluateCase_code [of m env cs "({}, [])"] by simp
  from assms(2) False show ?thesis
    using shape by (auto simp: validateRules_def Let_def split_beta list_all_iff mkError_def
        split: option.splits if_splits dest: matched evaluateCondition_code)
qed

end
