(* ===== verification/VmfValidate.thy ===== *)
theory VmfValidate
  imports VmfRules
begin

text \<open>
  The structural check of a message against its specification tree (\<open>findInstances\<close> to
  \<open>validateChildren\<close> and \<open>populateCanonicalNames\<close> in \<open>src/src/vmf/VmfCodec.cpp\<close>). The code keeps
  the set of nodes it has seen as pointers into the parent's vector of children; here they are
  indices into the parent's list of children.
\<close>

section \<open>Instances of a specification node\<close>

definition instanceOf :: "SpecNode \<Rightarrow> XmlNode \<Rightarrow> bool" where
  "instanceOf spec candidate \<longleftrightarrow>
     (if stag spec = ''DataUnit'' then
        xtag candidate = ''DataUnit''
        \<and> ((sname spec \<noteq> [] \<and> attribute candidate ''name'' = sname spec)
           \<or> (attribute candidate ''DFI'' = sdfi spec \<and> attribute candidate ''DUI'' = sdui spec))
      else named (stag spec) (sname spec) candidate)"

definition findInstances :: "XmlNode \<Rightarrow> SpecNode \<Rightarrow> XmlNode list" where
  "findInstances node spec = filter (instanceOf spec) (xchildren node)"

text \<open>The same instances with their positions among the children.\<close>

definition locateInstances :: "XmlNode \<Rightarrow> SpecNode \<Rightarrow> (nat \<times> XmlNode) list" where
  "locateInstances node spec = filter (\<lambda>(i, n). instanceOf spec n) (enumerate 0 (xchildren node))"

lemma map_snd_locate: "map snd (locateInstances node spec) = findInstances node spec"
  by (simp add: locateInstances_def findInstances_def filter_snd_enumerate)

definition findIndicator :: "XmlNode \<Rightarrow> string \<Rightarrow> XmlNode option" where
  "findIndicator node tag = child node tag ''''"

definition readNodeValue :: "XmlNode \<Rightarrow> 64 word option" where
  "readNodeValue node = parseUnsigned (xtext node)"

definition instancePath :: "string \<Rightarrow> SpecNode \<Rightarrow> int \<Rightarrow> string" where
  "instancePath parent spec index =
     parent @ ''.'' @ stag spec @ ''('' @ sname spec @ '')''
     @ (if 0 \<le> index then ''['' @ number (nat index) @ '']'' else [])"

section \<open>Values and containers\<close>

definition validateValueNode :: "SpecNode \<Rightarrow> XmlNode \<Rightarrow> string \<Rightarrow> Content \<Rightarrow> Diagnostic list" where
  "validateValueNode spec actual p content =
     (case readNodeValue actual of
        None \<Rightarrow> [mkError ''VALUE_PARSE'' p]
      | Some v \<Rightarrow>
          (if valueTooWide v (sbits spec) then [mkError ''VALUE_RANGE'' p] else [])
          @ (if sdfi spec \<noteq> [] \<and> sdui spec \<noteq> [] then
               (case content (sdfi spec, sdui spec) of
                  None \<Rightarrow> []
                | Some item \<Rightarrow> if \<not> accepts item v then [mkError ''ALLOW_LIST'' p] else [])
               @ (if attribute actual ''name'' \<noteq> [] \<and> attribute actual ''name'' \<noteq> sname spec
                  then [mkError ''VALUE_NAME'' p] else [])
               @ (if attribute actual ''DFI'' \<noteq> sdfi spec \<or> attribute actual ''DUI'' \<noteq> sdui spec
                  then [mkError ''VALUE_KEY'' p] else [])
             else []))"

text \<open>
  \<open>validateContainer\<close> calls \<open>validateChildren\<close>, which calls it back: the call is the parameter
  \<open>onChildren\<close>.
\<close>

definition presenceTag :: "SpecNode \<Rightarrow> string" where
  "presenceTag spec = (if stag spec = ''Group'' then ''GPI'' else ''FPI'')"

definition repeatTag :: "SpecNode \<Rightarrow> string" where
  "repeatTag spec = (if stag spec = ''Group'' then ''GRI'' else ''FRI'')"

definition validateContainer :: "(XmlNode \<Rightarrow> string \<Rightarrow> Diagnostic list) \<Rightarrow> SpecNode \<Rightarrow> XmlNode
    \<Rightarrow> string \<Rightarrow> Diagnostic list" where
  "validateContainer onChildren spec actual p =
     (if sselectable spec then
        (case findIndicator actual (presenceTag spec) of
           None \<Rightarrow> [mkError ''SELECTABLE_INDICATOR'' p]
         | Some indicator \<Rightarrow>
             (case readNodeValue indicator of
                None \<Rightarrow> [mkError ''SELECTABLE_INDICATOR'' p]
              | Some present \<Rightarrow>
                  if 1 < present then [mkError ''SELECTABLE_INDICATOR'' p]
                  else if present = 0 then
                    (if list_ex (\<lambda>n. xtag n \<noteq> presenceTag spec) (xchildren actual)
                     then [mkError ''SELECTABLE_CHILD'' p] else [])
                  else onChildren actual p))
      else onChildren actual p)"

text \<open>
  The two calls of \<open>addDiagnostic\<close> pass the path where the code is expected and the code where
  the path is expected, and so do three of the calls in \<open>validateChildren\<close>.
\<close>

definition validateRepeatIndicator :: "SpecNode \<Rightarrow> XmlNode \<Rightarrow> string \<Rightarrow> nat \<Rightarrow> nat
    \<Rightarrow> Diagnostic list" where
  "validateRepeatIndicator spec actual p index count =
     (case findIndicator actual (repeatTag spec) of
        None \<Rightarrow> [mkError (p @ ''.'' @ repeatTag spec) ''REPEAT_INDICATOR'']
      | Some indicator \<Rightarrow>
          (case readNodeValue indicator of
             None \<Rightarrow> [mkError (p @ ''.'' @ repeatTag spec) ''REPEAT_INDICATOR'']
           | Some v \<Rightarrow>
               if 1 < v then [mkError (p @ ''.'' @ repeatTag spec) ''REPEAT_INDICATOR'']
               else if v \<noteq> of_bool (index + 1 < count)
               then [mkError (p @ ''.'' @ repeatTag spec) ''REPEAT_SEQUENCE'']
               else []))"

definition validateInstance :: "(XmlNode \<Rightarrow> string \<Rightarrow> Diagnostic list) \<Rightarrow> SpecNode \<Rightarrow> string
    \<Rightarrow> Content \<Rightarrow> nat \<Rightarrow> nat \<times> XmlNode \<Rightarrow> Diagnostic list" where
  "validateInstance onChildren spec p content count = (\<lambda>(i, actual).
     let currentPath = instancePath p spec (int i)
     in if isValueNode spec then validateValueNode spec actual currentPath content
        else validateRepeatIndicator spec actual currentPath i count
             @ validateContainer onChildren spec actual currentPath)"

text \<open>One turn of the loop over the specification's children: the nodes consumed, and reports.\<close>

definition validateSpec :: "(XmlNode \<Rightarrow> string \<Rightarrow> Diagnostic list) \<Rightarrow> SpecNode \<Rightarrow> XmlNode
    \<Rightarrow> string \<Rightarrow> Content \<Rightarrow> nat set \<times> Diagnostic list" where
  "validateSpec onChildren spec parentActual p content =
     (let located = locateInstances parentActual spec; matches = map snd located
      in if srepeatable spec then
           (if matches = [] then ({}, [mkError (instancePath p spec (-1)) ''MISSING_REPEAT''])
            else
              (set (map fst located),
               (if 0 < smaxRepeat spec \<and> smaxRepeat spec < int (length matches)
                then [mkError (instancePath p spec (-1)) ''REPEAT_MAX''] else [])
               @ concat (map (validateInstance onChildren spec p content (length matches))
                     (enumerate 0 matches))))
         else
           (if matches = [] then ({}, [mkError (instancePath p spec (-1)) ''MISSING_REQUIRED''])
            else
              ({fst (hd located)},
               (if 1 < length matches
                then [mkError (instancePath p spec (-1)) ''DUPLICATE_REQUIRED''] else [])
               @ (if isValueNode spec
                  then validateValueNode spec (hd matches) (instancePath p spec (-1)) content
                  else validateContainer onChildren spec (hd matches)
                         (instancePath p spec (-1))))))"

definition unexpectedNodes :: "XmlNode \<Rightarrow> string \<Rightarrow> nat set \<Rightarrow> Diagnostic list" where
  "unexpectedNodes parentActual p consumed =
     map (\<lambda>_. mkError p ''UNEXPECTED_NODE'')
       (filter (\<lambda>(i, n). i \<notin> consumed) (enumerate 0 (xchildren parentActual)))"

primrec validateChildren :: "SpecNode \<Rightarrow> XmlNode \<Rightarrow> string \<Rightarrow> Content \<Rightarrow> Diagnostic list"
  and validateSpecs :: "SpecNode list \<Rightarrow> XmlNode \<Rightarrow> string \<Rightarrow> Content
      \<Rightarrow> nat set \<times> Diagnostic list" where
  "validateChildren (SpecNode tag nm dfi dui bits rep sel mx kids) parentActual p content =
     (let (consumed, ds) = validateSpecs kids parentActual p content
      in ds @ unexpectedNodes parentActual p consumed)"
| "validateSpecs [] parentActual p content = ({}, [])"
| "validateSpecs (k # ks) parentActual p content =
     (let (c1, d1) = validateSpec (\<lambda>a q. validateChildren k a q content) k parentActual p content;
          (c2, d2) = validateSpecs ks parentActual p content
      in (c1 \<union> c2, d1 @ d2))"

section \<open>Canonical names\<close>

text \<open>The guards of the inner loop: the candidate belongs to the child specification.\<close>

definition namesCandidate :: "SpecNode \<Rightarrow> XmlNode \<Rightarrow> bool" where
  "namesCandidate childSpec candidate \<longleftrightarrow>
     xtag candidate = stag childSpec
     \<and> \<not> (sname childSpec \<noteq> [] \<and> stag childSpec \<noteq> ''DataUnit''
          \<and> attribute candidate ''name'' \<noteq> sname childSpec)
     \<and> \<not> (stag childSpec = ''DataUnit'' \<and> sname childSpec \<noteq> [] \<and> attribute candidate ''name'' \<noteq> []
          \<and> attribute candidate ''name'' \<noteq> sname childSpec)
     \<and> \<not> (stag childSpec = ''DataUnit'' \<and> sdfi childSpec \<noteq> []
          \<and> attribute candidate ''DFI'' \<noteq> sdfi childSpec)
     \<and> \<not> (stag childSpec = ''DataUnit'' \<and> sdui childSpec \<noteq> []
          \<and> attribute candidate ''DUI'' \<noteq> sdui childSpec)"

definition insertAttribute :: "string \<Rightarrow> string \<Rightarrow> XmlNode \<Rightarrow> XmlNode" where
  "insertAttribute k v n = XmlNode (xtag n) ((xattributes n)(k \<mapsto> v)) (xtext n) (xchildren n)"

definition mapChildren :: "(XmlNode \<Rightarrow> XmlNode) \<Rightarrow> XmlNode \<Rightarrow> XmlNode" where
  "mapChildren f n = XmlNode (xtag n) (xattributes n) (xtext n) (map f (xchildren n))"

definition nameCandidate :: "(XmlNode \<Rightarrow> XmlNode) \<Rightarrow> SpecNode \<Rightarrow> XmlNode \<Rightarrow> XmlNode" where
  "nameCandidate onChildren childSpec candidate =
     (if \<not> namesCandidate childSpec candidate then candidate
      else
        (let named = (if xtag candidate = ''DataUnit'' \<and> attribute candidate ''name'' = []
                      then insertAttribute ''name'' (sname childSpec) candidate else candidate)
         in if \<not> isValueNode childSpec then onChildren named else named))"

primrec populateCanonicalNames :: "SpecNode \<Rightarrow> XmlNode \<Rightarrow> XmlNode"
  and populateSpecs :: "SpecNode list \<Rightarrow> XmlNode \<Rightarrow> XmlNode" where
  "populateCanonicalNames (SpecNode tag nm dfi dui bits rep sel mx kids) actual =
     populateSpecs kids actual"
| "populateSpecs [] actual = actual"
| "populateSpecs (k # ks) actual =
     populateSpecs ks (mapChildren (nameCandidate (populateCanonicalNames k) k) actual)"

section \<open>What a message without reports satisfies\<close>

lemma find_Some_filter: "find P xs = (case filter P xs of [] \<Rightarrow> None | x # _ \<Rightarrow> Some x)"
  by (induction xs) auto

text \<open>Every node of a checked container is an instance of one of the children specified.\<close>

lemma validateSpecs_consumed:
  "fst (validateSpecs ks actual p content)
     \<subseteq> {i. i < length (xchildren actual) \<and> (\<exists>k \<in> set ks. instanceOf k (xchildren actual ! i))}"
proof (induction ks)
  case (Cons k ks)
  have "fst (validateSpec f k actual p content) \<subseteq> fst ` set (locateInstances actual k)" for f
    by (cases "locateInstances actual k") (simp_all add: validateSpec_def Let_def)
  also have "fst ` set (locateInstances actual k)
      \<subseteq> {i. i < length (xchildren actual) \<and> instanceOf k (xchildren actual ! i)}"
    by (auto simp: locateInstances_def in_set_enumerate_eq)
  finally have one: "fst (validateSpec f k actual p content)
      \<subseteq> {i. i < length (xchildren actual) \<and> instanceOf k (xchildren actual ! i)}" for f .
  from one Cons show ?case by (simp add: split_beta Let_def) blast
qed simp

lemma validated_nodes_expected:
  assumes "validateChildren spec actual p content = []" "n \<in> set (xchildren actual)"
  shows "\<exists>k \<in> set (schildren spec). instanceOf k n"
proof -
  obtain i where i: "i < length (xchildren actual)" "n = xchildren actual ! i"
    using assms(2) by (auto simp: in_set_conv_nth)
  have "(i, n) \<in> set (enumerate 0 (xchildren actual))"
    using i by (simp add: in_set_enumerate_eq)
  then have "i \<in> fst (validateSpecs (schildren spec) actual p content)"
    using assms(1)
    by (cases spec) (auto simp: split_beta Let_def unexpectedNodes_def filter_empty_conv)
  with validateSpecs_consumed [of "schildren spec" actual p content] i show ?thesis by auto
qed

section \<open>Counts\<close>

text \<open>How many instances of a child specification a checked parent has.\<close>

definition countAllowed :: "SpecNode \<Rightarrow> nat \<Rightarrow> bool" where
  "countAllowed spec n \<longleftrightarrow>
     (if srepeatable spec then 0 < n \<and> (0 < smaxRepeat spec \<longrightarrow> int n \<le> smaxRepeat spec) else n = 1)"

lemma validateSpec_count:
  assumes "snd (validateSpec f spec actual p content) = []"
  shows "countAllowed spec (length (findInstances actual spec))"
  using assms
  by (cases "locateInstances actual spec")
    (auto simp: validateSpec_def countAllowed_def Let_def map_snd_locate [symmetric] split: if_splits)

lemma validateSpecs_counts:
  "snd (validateSpecs ks actual p content) = [] \<Longrightarrow> k \<in> set ks
   \<Longrightarrow> countAllowed k (length (findInstances actual k))"
  by (induction ks) (auto simp: split_beta Let_def dest: validateSpec_count)

text \<open>A container without reports is complete and has nothing else: each of its children is an
  instance of a child specification, every specified child that is not repeatable is there
  exactly once, and a repeatable one at least once and at most \<open>max\<close> times.\<close>

lemma validated_children:
  assumes "validateChildren spec actual p content = []"
  shows "(\<forall>n \<in> set (xchildren actual). \<exists>k \<in> set (schildren spec). instanceOf k n)
     \<and> (\<forall>k \<in> set (schildren spec). countAllowed k (length (findInstances actual k)))"
proof -
  have "snd (validateSpecs (schildren spec) actual p content) = []"
    using assms by (cases spec) (auto simp: split_beta Let_def)
  with validated_nodes_expected [OF assms] show ?thesis by (blast intro: validateSpecs_counts)
qed

end
