(* ===== verification/VmfCoding.thy ===== *)
theory VmfCoding
  imports VmfValidate
begin

text \<open>
  Encoding a validated message and decoding bits along a specification tree (\<open>encodeNodes\<close>,
  \<open>decodeContainer\<close> and \<open>decodeRoot\<close> in \<open>src/src/vmf/VmfCodec.cpp\<close>). The functions thread the
  bit stream and the list of field layouts, and stop at the first error.
\<close>

record FieldLayout =
  f_path :: string
  f_tag :: string
  f_name :: string
  f_dfi :: string
  f_dui :: string
  f_value :: "64 word"
  f_bitOffset :: nat
  f_bits :: nat

definition mkField :: "SpecNode \<Rightarrow> string \<Rightarrow> 64 word \<Rightarrow> nat \<Rightarrow> FieldLayout" where
  "mkField spec p v offset =
     \<lparr>f_path = p, f_tag = stag spec, f_name = sname spec, f_dfi = sdfi spec, f_dui = sdui spec,
      f_value = v, f_bitOffset = offset, f_bits = sbits spec\<rparr>"

section \<open>Encoding\<close>

type_synonym EncodeState = "BitWriter \<times> FieldLayout list"

definition encodeValue :: "SpecNode \<Rightarrow> XmlNode \<Rightarrow> string \<Rightarrow> EncodeState
    \<Rightarrow> Diagnostic + EncodeState" where
  "encodeValue spec node p = (\<lambda>(writer, fields).
     case readNodeValue node of
       None \<Rightarrow> Inl (mkError ''VALUE_PARSE'' p)
     | Some v \<Rightarrow>
         bind_res (writer_write v (sbits spec) p writer) (\<lambda>writer'.
           Inr (writer', fields @ [mkField spec p v (w_bitLength writer)])))"

definition instanceCount :: "SpecNode \<Rightarrow> XmlNode list \<Rightarrow> nat" where
  "instanceCount spec matches =
     (if srepeatable spec then length matches else min 1 (length matches))"

primrec encodeNodes :: "SpecNode \<Rightarrow> XmlNode \<Rightarrow> string \<Rightarrow> EncodeState \<Rightarrow> Diagnostic + EncodeState"
  and encodeSpecs :: "SpecNode list \<Rightarrow> XmlNode \<Rightarrow> string \<Rightarrow> EncodeState
      \<Rightarrow> Diagnostic + EncodeState" where
  "encodeNodes (SpecNode tag nm dfi dui bits rep sel mx kids) actual p st =
     encodeSpecs kids actual p st"
| "encodeSpecs [] actual p st = Inr st"
| "encodeSpecs (k # ks) actual p st =
     bind_res
       (loop_res (\<lambda>index node.
            let currentPath = instancePath p k (if srepeatable k then int index else -1)
            in if isValueNode k then encodeValue k node currentPath
               else encodeNodes k node currentPath)
          0 (take (instanceCount k (findInstances actual k)) (findInstances actual k)) st)
       (encodeSpecs ks actual p)"

section \<open>Decoding\<close>

type_synonym DecodeState = "BitReader \<times> FieldLayout list"

definition withAttribute :: "string \<Rightarrow> string \<Rightarrow> (string \<rightharpoonup> string) \<Rightarrow> string \<rightharpoonup> string" where
  "withAttribute k v attrs = (if v = [] then attrs else attrs(k \<mapsto> v))"

definition emptyNode :: "string \<Rightarrow> XmlNode" where
  "emptyNode tag = XmlNode tag Map.empty [] []"

definition valueNode :: "SpecNode \<Rightarrow> string \<Rightarrow> XmlNode" where
  "valueNode spec content =
     XmlNode (stag spec)
       (withAttribute ''DUI'' (sdui spec) (withAttribute ''DFI'' (sdfi spec)
         (withAttribute ''name'' (sname spec) Map.empty))) content []"

definition containerNode :: "SpecNode \<Rightarrow> XmlNode" where
  "containerNode spec =
     XmlNode (stag spec) (withAttribute ''name'' (sname spec) Map.empty) [] []"

definition appendChild :: "XmlNode \<Rightarrow> XmlNode \<Rightarrow> XmlNode" where
  "appendChild parent n =
     XmlNode (xtag parent) (xattributes parent) (xtext parent) (xchildren parent @ [n])"

text \<open>The lambda \<open>decodeValue\<close>, on the parent it appends to.\<close>

definition decodeValue :: "SpecNode \<Rightarrow> string \<Rightarrow> XmlNode \<times> DecodeState
    \<Rightarrow> Diagnostic + (XmlNode \<times> DecodeState)" where
  "decodeValue childSpec childPath = (\<lambda>(parent, reader, fields).
     bind_res (reader_read (sbits childSpec) childPath reader) (\<lambda>(v, reader').
       Inr (appendChild parent (valueNode childSpec (number (unat v))), reader',
            fields @ [mkField childSpec childPath v (r_offset reader)])))"

text \<open>
  The inner loop over the instances of a repeatable container, with the instances left to try:
  it starts from \<open>max\<close>, or from 1024 when the dictionary gives none. \<open>decode\<close> decodes one
  instance; the presence indicator it looks for is the one of the enclosing container.
\<close>

primrec decodeRepeats :: "(XmlNode \<Rightarrow> string \<Rightarrow> DecodeState \<Rightarrow> Diagnostic + (XmlNode \<times> DecodeState))
    \<Rightarrow> SpecNode \<Rightarrow> string \<Rightarrow> string \<Rightarrow> nat \<Rightarrow> nat \<Rightarrow> XmlNode \<times> DecodeState
    \<Rightarrow> Diagnostic + (XmlNode \<times> DecodeState)" where
  "decodeRepeats decode childSpec outerPresence p 0 index acc =
     Inl (mkError ''DECODE_REPEAT_MAX'' (instancePath p childSpec (-1)))"
| "decodeRepeats decode childSpec outerPresence p (Suc left) index acc =
     (let instance = instancePath p childSpec (int index); (parent, st) = acc
      in bind_res (decode (containerNode childSpec) instance st) (\<lambda>(node, st').
         case child node (repeatTag childSpec) '''' of
           None \<Rightarrow>
             (case child node outerPresence '''' of
                None \<Rightarrow> Inl (mkError ''DECODE_INDICATOR'' instance)
              | Some optional \<Rightarrow>
                  if sselectable childSpec \<and> readNodeValue optional = Some 0
                  then Inr (appendChild parent node, st')
                  else Inl (mkError ''DECODE_INDICATOR'' instance))
         | Some indicator \<Rightarrow>
             (case readNodeValue indicator of
                None \<Rightarrow> Inl (mkError ''DECODE_INDICATOR'' instance)
              | Some repeat \<Rightarrow>
                  if 1 < repeat then Inl (mkError ''DECODE_INDICATOR'' instance)
                  else if repeat = 0 then Inr (appendChild parent node, st')
                  else decodeRepeats decode childSpec outerPresence p left (Suc index)
                         (appendChild parent node, st'))))"

definition maxCount :: "SpecNode \<Rightarrow> nat" where
  "maxCount childSpec = (if 0 < smaxRepeat childSpec then nat (smaxRepeat childSpec) else 1024)"

text \<open>
  One turn of the loop of \<open>decodeContainer\<close> after the presence indicator: a value, the instances
  of a repeatable container, or one container.
\<close>

definition decodeMember :: "(XmlNode \<Rightarrow> string \<Rightarrow> DecodeState \<Rightarrow> Diagnostic + (XmlNode \<times> DecodeState))
    \<Rightarrow> SpecNode \<Rightarrow> string \<Rightarrow> string \<Rightarrow> XmlNode \<times> DecodeState
    \<Rightarrow> Diagnostic + (XmlNode \<times> DecodeState)" where
  "decodeMember decode childSpec outerPresence p = (\<lambda>(parent, st).
     let childPath = instancePath p childSpec (-1)
     in if isValueNode childSpec then decodeValue childSpec childPath (parent, st)
        else if srepeatable childSpec then
          (if stag childSpec \<noteq> ''Group'' \<and> stag childSpec \<noteq> ''Field''
           then Inl (mkError ''DICT_REPEAT'' childPath)
           else decodeRepeats decode childSpec outerPresence p (maxCount childSpec) 0 (parent, st))
        else bind_res (decode (containerNode childSpec) childPath st) (\<lambda>(node, st').
               Inr (appendChild parent node, st')))"

text \<open>
  The presence indicator of a selectable container, its first child: decoded as a value, then
  whether the rest of the container follows.
\<close>

definition decodePresence :: "SpecNode \<Rightarrow> string \<Rightarrow> string \<Rightarrow> XmlNode \<times> DecodeState
    \<Rightarrow> Diagnostic + (bool \<times> XmlNode \<times> DecodeState)" where
  "decodePresence childSpec presence p acc =
     (let childPath = instancePath p childSpec (-1)
      in if stag childSpec \<noteq> presence then Inl (mkError ''DICT_SELECTABLE_ORDER'' p)
         else bind_res (decodeValue childSpec childPath acc) (\<lambda>(parent, st).
           case child parent presence '''' of
             None \<Rightarrow> Inl (mkError ''DECODE_INDICATOR'' childPath)
           | Some indicator \<Rightarrow>
               (let v = (case readNodeValue indicator of None \<Rightarrow> 0 | Some v \<Rightarrow> v)
                in if v \<noteq> 0 \<and> v \<noteq> 1 then Inl (mkError ''DECODE_INDICATOR'' childPath)
                   else Inr (readNodeValue indicator = Some 1, parent, st))))"

primrec decodeContainer :: "SpecNode \<Rightarrow> XmlNode \<Rightarrow> string \<Rightarrow> DecodeState
      \<Rightarrow> Diagnostic + (XmlNode \<times> DecodeState)"
  and decodeSpecs :: "SpecNode list \<Rightarrow> string \<Rightarrow> string \<Rightarrow> bool \<Rightarrow> XmlNode \<times> DecodeState
      \<Rightarrow> Diagnostic + (XmlNode \<times> DecodeState)" where
  "decodeContainer (SpecNode tag nm dfi dui bits rep sel mx kids) parent p st =
     (let presence = presenceTag (SpecNode tag nm dfi dui bits rep sel mx kids)
      in if sel \<and> (kids = [] \<or> stag (hd kids) \<noteq> presence)
         then Inl (mkError ''DICT_SELECTABLE_ORDER'' p)
         else decodeSpecs kids p presence (\<not> sel) (parent, st))"
| "decodeSpecs [] p presence presenceSeen acc = Inr acc"
| "decodeSpecs (k # ks) p presence presenceSeen acc =
     (if \<not> presenceSeen then
        bind_res (decodePresence k presence p acc) (\<lambda>(present, acc').
          if \<not> present then Inr acc' else decodeSpecs ks p presence True acc')
      else bind_res (decodeMember (decodeContainer k) k presence p acc)
             (decodeSpecs ks p presence True))"

definition decodeRoot :: "SpecNode \<Rightarrow> SpecNode \<Rightarrow> DecodeState
    \<Rightarrow> Diagnostic + (XmlNode \<times> XmlNode \<times> DecodeState)" where
  "decodeRoot headerSpec bodySpec st =
     bind_res (decodeContainer headerSpec (emptyNode ''Header'') ''Header'' st) (\<lambda>(header, st1).
     bind_res (decodeContainer bodySpec (emptyNode ''Body'') ''Body'' st1) (\<lambda>(body, st2).
       Inr (header, body, st2)))"

end
