(* ===== verification/VmfRoundtrip.thy ===== *)
theory VmfRoundtrip
  imports VmfCoding
begin

text \<open>
  Decoding inverts encoding. A message is canonical for a specification tree when its nodes are
  in the order of the dictionary, carry just the attributes the decoder gives them and numbers in
  decimal, and when its presence and repeat indicators say what follows. For such a message the
  decoder, run on bits that start with what the encoder appended, rebuilds the message and the
  same field layouts, and stops right behind these bits.
\<close>

section \<open>Canonical messages\<close>

definition canonicalValue :: "SpecNode \<Rightarrow> XmlNode \<Rightarrow> bool" where
  "canonicalValue k m \<longleftrightarrow>
     (case readNodeValue m of None \<Rightarrow> False | Some v \<Rightarrow> m = valueNode k (number (unat v)))"

text \<open>The attributes, text and tag of a container, apart from its children.\<close>

definition canonicalFrame :: "SpecNode \<Rightarrow> XmlNode \<Rightarrow> bool" where
  "canonicalFrame k m \<longleftrightarrow> xtag m = stag k \<and> xattributes m = xattributes (containerNode k) \<and> xtext m = []"

definition indicatorValue :: "XmlNode \<Rightarrow> string \<Rightarrow> 64 word option" where
  "indicatorValue m tag = (case child m tag '''' of None \<Rightarrow> None | Some i \<Rightarrow> readNodeValue i)"

definition canonicalMember :: "(XmlNode \<Rightarrow> bool) \<Rightarrow> SpecNode \<Rightarrow> XmlNode list \<Rightarrow> bool" where
  "canonicalMember canon k ms \<longleftrightarrow>
     (if isValueNode k then \<not> srepeatable k \<and> length ms = 1 \<and> canonicalValue k (hd ms)
      else list_all (\<lambda>m. canonicalFrame k m \<and> canon m) ms \<and>
        (if srepeatable k
         then (stag k = ''Group'' \<or> stag k = ''Field'') \<and> ms \<noteq> [] \<and> length ms \<le> maxCount k
              \<and> list_all (\<lambda>(i, m). indicatorValue m (repeatTag k) = Some (of_bool (i + 1 < length ms)))
                  (enumerate 0 ms)
         else length ms = 1))"

definition absent :: "SpecNode list \<Rightarrow> string \<Rightarrow> XmlNode \<Rightarrow> bool" where
  "absent kids presence n \<longleftrightarrow> kids \<noteq> [] \<and> stag (hd kids) = presence \<and> \<not> srepeatable (hd kids)
     \<and> (case xchildren n of
          [ind] \<Rightarrow> canonicalValue (hd kids) ind \<and> readNodeValue ind = Some 0 \<and> instanceOf (hd kids) ind
            \<and> list_all (\<lambda>k. \<not> instanceOf k ind) (tl kids)
        | _ \<Rightarrow> False)"

primrec canonical :: "SpecNode \<Rightarrow> XmlNode \<Rightarrow> bool"
  and canonicalSpecs :: "SpecNode list \<Rightarrow> XmlNode \<Rightarrow> bool" where
  "canonical (SpecNode tag nm dfi dui bits rep sel mx kids) n =
     (let presence = presenceTag (SpecNode tag nm dfi dui bits rep sel mx kids);
          present = canonicalSpecs kids n \<and> xchildren n = concat (map (findInstances n) kids)
      in if sel
         then absent kids presence n
              \<or> (kids \<noteq> [] \<and> stag (hd kids) = presence \<and> present
                 \<and> map readNodeValue (findInstances n (hd kids)) = [Some 1])
         else present)"
| "canonicalSpecs [] n = True"
| "canonicalSpecs (k # ks) n = (canonicalMember (canonical k) k (findInstances n k) \<and> canonicalSpecs ks n)"

section \<open>Steps that decode what was encoded\<close>

definition layout_bits :: "FieldLayout list \<Rightarrow> bool list" where
  "layout_bits fs = concat (map (\<lambda>f. msb_bits (f_value f) (f_bits f)) fs)"

lemma layout_bits_append [simp]: "layout_bits (fs @ gs) = layout_bits fs @ layout_bits gs"
  and layout_bits_Nil [simp]: "layout_bits [] = []"
  by (simp_all add: layout_bits_def)

lemma length_wbits [simp]: "length (wbits w) = w_bitLength w"
  by (simp add: wbits_def)

text \<open>
  \<open>decodes enc dec x\<close>: whatever \<open>enc\<close> appends, \<open>dec\<close> reads back from any reader that has it in
  front, at the same position, and returns \<open>x\<close>.
\<close>

definition decodes :: "(EncodeState \<Rightarrow> Diagnostic + EncodeState)
    \<Rightarrow> (DecodeState \<Rightarrow> Diagnostic + ('x \<times> DecodeState)) \<Rightarrow> 'x \<Rightarrow> bool" where
  "decodes enc dec x \<longleftrightarrow>
     (\<forall>w fs w' fs'. writer_ok w \<longrightarrow> enc (w, fs) = Inr (w', fs') \<longrightarrow>
        (\<exists>new. writer_ok w' \<and> fs' = fs @ new \<and> wbits w' = wbits w @ layout_bits new
           \<and> (\<forall>r gs. r_offset r = w_bitLength w \<longrightarrow> available r (layout_bits new) \<longrightarrow>
                 dec (r, gs) = Inr (x, advance r (length (layout_bits new)), gs @ new))))"

lemma decodesI:
  assumes "\<And>w fs w' fs'. writer_ok w \<Longrightarrow> enc (w, fs) = Inr (w', fs') \<Longrightarrow>
     \<exists>new. writer_ok w' \<and> fs' = fs @ new \<and> wbits w' = wbits w @ layout_bits new
       \<and> (\<forall>r gs. r_offset r = w_bitLength w \<longrightarrow> available r (layout_bits new) \<longrightarrow>
             dec (r, gs) = Inr (x, advance r (length (layout_bits new)), gs @ new))"
  shows "decodes enc dec x"
  using assms unfolding decodes_def by blast

lemma decodesD:
  assumes "decodes enc dec x" "enc (w, fs) = Inr (w', fs')" "writer_ok w"
  obtains new where "writer_ok w'" "fs' = fs @ new" "wbits w' = wbits w @ layout_bits new"
    "\<And>r gs. r_offset r = w_bitLength w \<Longrightarrow> available r (layout_bits new) \<Longrightarrow>
       dec (r, gs) = Inr (x, advance r (length (layout_bits new)), gs @ new)"
  using assms unfolding decodes_def by blast

lemma wbits_append_length: "wbits w' = wbits w @ bs \<Longrightarrow> w_bitLength w' = w_bitLength w + length bs"
  by (metis length_append length_wbits)

lemma decodes_nil: "decodes Inr (\<lambda>st. Inr (x, st)) x"
  by (rule decodesI) (auto simp: vmf_bits.advance_0)

text \<open>Steps compose: the second decoder may depend on what the first returned.\<close>

lemma decodes_bind:
  assumes "decodes e1 d1 x" "decodes e2 (d2 x) y"
  shows "decodes (\<lambda>st. bind_res (e1 st) e2) (\<lambda>st. bind_res (d1 st) (\<lambda>(x, st'). d2 x st')) y"
proof (rule decodesI)
  fix w fs w' fs'
  assume ok: "writer_ok w" and enc: "bind_res (e1 (w, fs)) e2 = Inr (w', fs')"
  then obtain v us where 1: "e1 (w, fs) = Inr (v, us)" and 2: "e2 (v, us) = Inr (w', fs')"
    by (auto simp: bind_res_eq_Inr)
  obtain new1 where n1: "writer_ok v" "us = fs @ new1" "wbits v = wbits w @ layout_bits new1"
    and d1: "\<And>r gs. r_offset r = w_bitLength w \<Longrightarrow> available r (layout_bits new1) \<Longrightarrow>
       d1 (r, gs) = Inr (x, advance r (length (layout_bits new1)), gs @ new1)"
    using decodesD [OF assms(1) 1 ok] by metis
  obtain new2 where n2: "writer_ok w'" "fs' = us @ new2" "wbits w' = wbits v @ layout_bits new2"
    and d2: "\<And>r gs. r_offset r = w_bitLength v \<Longrightarrow> available r (layout_bits new2) \<Longrightarrow>
       d2 x (r, gs) = Inr (y, advance r (length (layout_bits new2)), gs @ new2)"
    using decodesD [OF assms(2) 2 n1(1)] by metis
  have off: "r_offset (advance r n) = r_offset r + n" for r n by (simp add: advance_def)
  have "bind_res (d1 (r, gs)) (\<lambda>(x, st'). d2 x st')
      = Inr (y, advance r (length (layout_bits (new1 @ new2))), gs @ new1 @ new2)"
    if "r_offset r = w_bitLength w" "available r (layout_bits (new1 @ new2))" for r gs
    using that d1 [of r gs] d2 [of "advance r (length (layout_bits new1))" "gs @ new1"]
      wbits_append_length [OF n1(3)]
    by (simp add: vmf_bits.available_append vmf_bits.advance_add off)
  with n1 n2 show "\<exists>new. writer_ok w' \<and> fs' = fs @ new \<and> wbits w' = wbits w @ layout_bits new
       \<and> (\<forall>r gs. r_offset r = w_bitLength w \<longrightarrow> available r (layout_bits new) \<longrightarrow>
             bind_res (d1 (r, gs)) (\<lambda>(x, st'). d2 x st')
               = Inr (y, advance r (length (layout_bits new)), gs @ new))"
    by (intro exI [of _ "new1 @ new2"]) simp
qed

lemma decodes_seq:
  assumes "decodes e1 d1 x" "decodes e2 d2 y" "\<And>st. f x st = d2 st"
  shows "decodes (\<lambda>st. bind_res (e1 st) e2) (\<lambda>st. bind_res (d1 st) (\<lambda>(x, st'). f x st')) y"
proof (rule decodes_bind [OF assms(1)])
  show "decodes e2 (f x) y" using assms(2,3) by (metis ext)
qed

text \<open>A pure step behind the decoder.\<close>

lemma decodes_then:
  assumes "decodes enc dec x" "\<And>st. f x st = Inr (y, st)"
  shows "decodes enc (\<lambda>st. bind_res (dec st) (\<lambda>(x, st'). f x st')) y"
proof -
  have "decodes (\<lambda>st. bind_res (enc st) Inr) (\<lambda>st. bind_res (dec st) (\<lambda>(x, st'). f x st')) y"
    by (rule decodes_bind [OF assms(1)]) (use assms(2) decodes_nil in auto)
  moreover have "(\<lambda>st. bind_res (enc st) Inr) = enc"
    by (rule ext) (metis bind_res_Inl bind_res_Inr sum.exhaust)
  ultimately show ?thesis by simp
qed

lemma decodes_cong:
  assumes "decodes enc dec x" "\<And>st. enc' st = enc st" "\<And>st. dec' st = dec st"
  shows "decodes enc' dec' x"
  using assms by (metis ext)

section \<open>Values\<close>

lemma decodes_value:
  assumes "canonicalValue k m"
  shows "decodes (encodeValue k m p) (\<lambda>st. decodeValue k p (parent, st)) (appendChild parent m)"
proof (rule decodesI)
  fix w fs w' fs'
  assume ok: "writer_ok w" and enc: "encodeValue k m p (w, fs) = Inr (w', fs')"
  obtain v where v: "readNodeValue m = Some v" and m: "m = valueNode k (number (unat v))"
    using assms by (auto simp: canonicalValue_def split: option.splits)
  from enc v have wr: "writer_write v (sbits k) p w = Inr w'"
    and fs': "fs' = fs @ [mkField k p v (w_bitLength w)]"
    by (auto simp: encodeValue_def bind_res_eq_Inr)
  have bits: "layout_bits [mkField k p v (w_bitLength w)] = msb_bits v (sbits k)"
    by (simp add: layout_bits_def mkField_def)
  have "decodeValue k p (parent, r, gs)
      = Inr (appendChild parent m, advance r (sbits k), gs @ [mkField k p v (w_bitLength w)])"
    if "r_offset r = w_bitLength w" "available r (msb_bits v (sbits k))" for r gs
    using vmf_bits.get_back [OF wr that(2), of p] that(1) m by (simp add: decodeValue_def)
  then show "\<exists>new. writer_ok w' \<and> fs' = fs @ new \<and> wbits w' = wbits w @ layout_bits new
       \<and> (\<forall>r gs. r_offset r = w_bitLength w \<longrightarrow> available r (layout_bits new) \<longrightarrow>
             decodeValue k p (parent, r, gs)
               = Inr (appendChild parent m, advance r (length (layout_bits new)), gs @ new))"
    using vmf_bits.put_ok [OF wr ok] vmf_bits.put_appends [OF wr ok] fs' bits
    by (intro exI [of _ "[mkField k p v (w_bitLength w)]"]) simp
qed

section \<open>Containers\<close>

definition appendChildren :: "XmlNode \<Rightarrow> XmlNode list \<Rightarrow> XmlNode" where
  "appendChildren parent ms =
     XmlNode (xtag parent) (xattributes parent) (xtext parent) (xchildren parent @ ms)"

lemma appendChildren_Nil [simp]: "appendChildren parent [] = parent"
  by (cases parent) (simp add: appendChildren_def)

lemma appendChildren_append [simp]:
  "appendChildren (appendChildren parent ms) ns = appendChildren parent (ms @ ns)"
  by (simp add: appendChildren_def)

lemma appendChild_appendChildren: "appendChild parent m = appendChildren parent [m]"
  by (simp add: appendChildren_def appendChild_def)

lemma appendChildren_Cons: "appendChildren parent (m # ms) = appendChildren (appendChild parent m) ms"
  by (simp add: appendChildren_def appendChild_def)

lemma canonicalFrame_rebuild: "canonicalFrame k m \<Longrightarrow> appendChildren (containerNode k) (xchildren m) = m"
  by (cases m) (simp add: canonicalFrame_def appendChildren_def containerNode_def)

lemma decodes_repeats:
  assumes inst: "\<And>m q. m \<in> set ms \<Longrightarrow>
      decodes (encodeNodes k m q) (decode (containerNode k) q) m"
    and ind: "\<And>j. j < length ms \<Longrightarrow>
      indicatorValue (ms ! j) (repeatTag k) = Some (of_bool (Suc j < length ms))"
    and ms: "ms \<noteq> []" "length ms \<le> left"
  shows "decodes (loop_res (\<lambda>i node. encodeNodes k node (instancePath p k (int i))) i ms)
     (\<lambda>st. decodeRepeats decode k presence p left i (parent, st)) (appendChildren parent ms)"
  using inst ind ms
proof (induction ms arbitrary: i left parent)
  case (Cons m ms)
  from Cons.prems(4) obtain left' where left: "left = Suc left'" "length ms \<le> left'"
    by (cases left) auto
  have first: "decodes (encodeNodes k m (instancePath p k (int i)))
      (decode (containerNode k) (instancePath p k (int i))) m"
    using Cons.prems(1) by simp
  from Cons.prems(2) [of 0] obtain j where j: "child m (repeatTag k) '''' = Some j"
      "readNodeValue j = Some (of_bool (ms \<noteq> []))"
    by (auto simp: indicatorValue_def split: option.splits)
  show ?case
  proof (cases "ms = []")
    case True
    show ?thesis
      unfolding left decodeRepeats.simps Let_def prod.case True
    proof (rule decodes_cong [OF decodes_then [OF first]])
      show "loop_res (\<lambda>i node. encodeNodes k node (instancePath p k (int i))) i [m] st
          = encodeNodes k m (instancePath p k (int i)) st" for st
        by (cases "encodeNodes k m (instancePath p k (int i)) st") auto
    qed (use j True in \<open>simp_all add: appendChild_appendChildren\<close>)
  next
    case False
    have ind': "indicatorValue (ms ! n) (repeatTag k) = Some (of_bool (Suc n < length ms))"
      if "n < length ms" for n using Cons.prems(2) [of "Suc n"] that by simp
    have rest: "decodes (loop_res (\<lambda>i node. encodeNodes k node (instancePath p k (int i))) (Suc i) ms)
       (\<lambda>st. decodeRepeats decode k presence p left' (Suc i) (appendChild parent m, st))
       (appendChildren (appendChild parent m) ms)"
      by (rule Cons.IH) (use Cons.prems(1) ind' False left(2) in auto)
    show ?thesis
      unfolding left decodeRepeats.simps Let_def prod.case loop_res_Cons appendChildren_Cons
      by (rule decodes_seq [OF first rest]) (use j False in simp)
  qed
qed simp

section \<open>Members and whole containers\<close>

text \<open>The round trip of one specification node, below any parent without children.\<close>

definition inverts :: "SpecNode \<Rightarrow> bool" where
  "inverts k \<longleftrightarrow> (\<forall>n p parent. canonical k n \<longrightarrow> xchildren parent = [] \<longrightarrow>
     decodes (encodeNodes k n p) (decodeContainer k parent p) (appendChildren parent (xchildren n)))"

lemma inverts_instance:
  assumes "inverts k" "canonicalFrame k m" "canonical k m"
  shows "decodes (encodeNodes k m q) (decodeContainer k (containerNode k) q) m"
proof -
  have "xchildren (containerNode k) = []" by (simp add: containerNode_def)
  with assms canonicalFrame_rebuild [OF assms(2)] show ?thesis
    unfolding inverts_def by metis
qed

lemma bind_res_Inr_right: "bind_res r Inr = r"
  by (cases r) simp_all

lemma loop_res_single: "loop_res f i [x] = f i x"
proof
  show "loop_res f i [x] s = f i x s" for s by (cases "f i x s") simp_all
qed

lemma decodes_member:
  assumes "canonicalMember (canonical k) k ms" "inverts k"
  shows "decodes
     (loop_res (\<lambda>index node.
            let currentPath = instancePath p k (if srepeatable k then int index else -1)
            in if isValueNode k then encodeValue k node currentPath
               else encodeNodes k node currentPath) 0 (take (instanceCount k ms) ms))
     (\<lambda>st. decodeMember (decodeContainer k) k presence p (parent, st)) (appendChildren parent ms)"
proof (cases "isValueNode k")
  case True
  then obtain m where m: "ms = [m]" "canonicalValue k m" "\<not> srepeatable k"
    using assms(1) by (cases ms) (auto simp: canonicalMember_def)
  show ?thesis
    using decodes_value [OF m(2), of "instancePath p k (-1)" parent] True m
    by (simp add: instanceCount_def loop_res_single bind_res_Inr_right decodeMember_def
        appendChild_appendChildren)
next
  case False
  with assms have all: "list_all (\<lambda>m. canonicalFrame k m \<and> canonical k m) ms"
    by (simp add: canonicalMember_def)
  then have inst: "decodes (encodeNodes k m q) (decodeContainer k (containerNode k) q) m"
    if "m \<in> set ms" for m q
    using that inverts_instance [OF assms(2)] by (auto simp: list_all_iff)
  show ?thesis
  proof (cases "srepeatable k")
    case True
    with False assms(1) have c: "stag k = ''Group'' \<or> stag k = ''Field''" "ms \<noteq> []"
        "length ms \<le> maxCount k"
      and i: "list_all (\<lambda>(i, m). indicatorValue m (repeatTag k) = Some (of_bool (i + 1 < length ms)))
                  (enumerate 0 ms)"
      by (auto simp: canonicalMember_def)
    have ind: "indicatorValue (ms ! j) (repeatTag k) = Some (of_bool (Suc j < length ms))"
      if "j < length ms" for j
    proof -
      have "(j, ms ! j) \<in> set (enumerate 0 ms)" using that by (simp add: in_set_enumerate_eq)
      with i show ?thesis by (auto simp: list_all_iff)
    qed
    have "decodes (loop_res (\<lambda>i node. encodeNodes k node (instancePath p k (int i))) 0 ms)
       (\<lambda>st. decodeRepeats (decodeContainer k) k presence p (maxCount k) 0 (parent, st))
       (appendChildren parent ms)"
      by (rule decodes_repeats) (use inst ind c in auto)
    then show ?thesis
      using False True c(1) by (auto simp: instanceCount_def decodeMember_def)
  next
    case nr: False
    with False assms(1) obtain m where m: "ms = [m]"
      by (cases ms) (auto simp: canonicalMember_def)
    have "decodes (encodeNodes k m (instancePath p k (-1)))
        (\<lambda>st. bind_res (decodeContainer k (containerNode k) (instancePath p k (-1)) st)
            (\<lambda>(node, st'). Inr (appendChild parent node, st'))) (appendChildren parent [m])"
      by (rule decodes_then) (use inst m in \<open>simp_all add: appendChild_appendChildren\<close>)
    then show ?thesis
      using False nr m
      by (simp add: instanceCount_def decodeMember_def loop_res_single bind_res_Inr_right)
  qed
qed

lemma encodeSpecs_Cons_eq: "encodeSpecs (k # ks) n p =
     (\<lambda>st. bind_res (loop_res (\<lambda>index node.
            let currentPath = instancePath p k (if srepeatable k then int index else -1)
            in if isValueNode k then encodeValue k node currentPath
               else encodeNodes k node currentPath)
          0 (take (instanceCount k (findInstances n k)) (findInstances n k)) st)
       (encodeSpecs ks n p))"
  by (rule ext) simp

lemma decodes_specs:
  assumes "canonicalSpecs ks n" "\<And>k. k \<in> set ks \<Longrightarrow> inverts k"
  shows "decodes (encodeSpecs ks n p) (\<lambda>st. decodeSpecs ks p presence True (parent, st))
     (appendChildren parent (concat (map (findInstances n) ks)))"
  using assms
proof (induction ks arbitrary: parent)
  case Nil
  show ?case using decodes_nil by (simp add: fun_eq_iff decodes_def vmf_bits.advance_0)
next
  case (Cons k ks)
  have head: "canonicalMember (canonical k) k (findInstances n k)" and "inverts k"
    using Cons.prems by auto
  note first = decodes_member [OF this, of p presence parent]
  have rest: "decodes (encodeSpecs ks n p)
      (\<lambda>st. decodeSpecs ks p presence True (appendChildren parent (findInstances n k), st))
      (appendChildren (appendChildren parent (findInstances n k)) (concat (map (findInstances n) ks)))"
    by (rule Cons.IH) (use Cons.prems in auto)
  have eq: "decodeSpecs (k # ks) p presence True (parent, st) =
     bind_res (decodeMember (decodeContainer k) k presence p (parent, st))
       (\<lambda>(q, st'). decodeSpecs ks p presence True (q, st'))" for st
    by simp
  show ?case
    unfolding eq encodeSpecs_Cons_eq list.map concat.simps appendChildren_append [symmetric]
    by (rule decodes_seq [OF first rest]) (rule refl)
qed

lemma encodeSpecs_none:
  "list_all (\<lambda>k. findInstances n k = []) ks \<Longrightarrow> encodeSpecs ks n p st = Inr st"
  by (induction ks) auto

text \<open>The presence indicator, decoded first, decides whether the rest is there.\<close>

lemma decodeSpecs_presence:
  assumes "stag k = presence"
  shows "decodeSpecs (k # ks) p presence False (parent, st) =
     bind_res (decodeValue k (instancePath p k (-1)) (parent, st)) (\<lambda>(q, st').
       case child q presence '''' of
         None \<Rightarrow> Inl (mkError ''DECODE_INDICATOR'' (instancePath p k (-1)))
       | Some ind \<Rightarrow>
           (let v = (case readNodeValue ind of None \<Rightarrow> 0 | Some v \<Rightarrow> v)
            in if v \<noteq> 0 \<and> v \<noteq> 1 then Inl (mkError ''DECODE_INDICATOR'' (instancePath p k (-1)))
               else if readNodeValue ind \<noteq> Some 1 then Inr (q, st')
               else decodeSpecs ks p presence True (q, st')))"
  using assms
  by (cases "decodeValue k (instancePath p k (-1)) (parent, st)")
    (auto simp: decodePresence_def Let_def split: option.splits)

lemma child_first: "xchildren parent = [] \<Longrightarrow> child (appendChildren parent (m # ms)) (xtag m) '''' = Some m"
  by (simp add: child_def appendChildren_def named_def)

lemma canonicalValue_tag: "canonicalValue k m \<Longrightarrow> xtag m = stag k"
  by (auto simp: canonicalValue_def valueNode_def split: option.splits)

lemma decodes_absent:
  assumes "absent (k # ks) presence n" "xchildren parent = []" "isValueNode k"
  shows "decodes (encodeSpecs (k # ks) n p) (\<lambda>st. decodeSpecs (k # ks) p presence False (parent, st))
     (appendChildren parent (xchildren n))"
proof -
  from assms(1) obtain ind where ind: "xchildren n = [ind]" "canonicalValue k ind"
      "readNodeValue ind = Some 0" "instanceOf k ind" "list_all (\<lambda>k. \<not> instanceOf k ind) ks"
    and k: "stag k = presence" "\<not> srepeatable k"
    by (auto simp: absent_def split: list.splits)
  have none: "encodeSpecs ks n p = Inr"
    by (rule ext, rule encodeSpecs_none) (use ind in \<open>auto simp: findInstances_def list_all_iff\<close>)
  have enc: "encodeSpecs (k # ks) n p = encodeValue k ind (instancePath p k (-1))"
    using ind(1,4) k(2) assms(3)
    by (simp add: findInstances_def instanceCount_def bind_res_Inr_right fun_eq_iff loop_res_single
        none del: loop_res.simps)
  have found: "child (appendChild parent ind) presence '''' = Some ind"
    using child_first [OF assms(2), of ind "[]"] canonicalValue_tag [OF ind(2)] k(1)
    by (simp add: appendChild_appendChildren)
  show ?thesis
    unfolding enc decodeSpecs_presence [OF k(1)]
    by (rule decodes_then [OF decodes_value [OF ind(2)]])
      (use found ind in \<open>simp add: appendChild_appendChildren\<close>)
qed

lemma decodes_present:
  assumes "canonicalSpecs (k # ks) n" "stag k = presence" "isValueNode k"
    and "map readNodeValue (findInstances n k) = [Some 1]" "xchildren parent = []"
    and "\<And>k. k \<in> set ks \<Longrightarrow> inverts k"
  shows "decodes (encodeSpecs (k # ks) n p) (\<lambda>st. decodeSpecs (k # ks) p presence False (parent, st))
     (appendChildren parent (concat (map (findInstances n) (k # ks))))"
proof -
  from assms(4) obtain ind where ind: "findInstances n k = [ind]" "readNodeValue ind = Some 1"
    by auto
  with assms(1,3) have canon: "canonicalValue k ind" and nr: "\<not> srepeatable k"
    by (simp_all add: canonicalMember_def)
  have enc: "encodeSpecs (k # ks) n p
      = (\<lambda>st. bind_res (encodeValue k ind (instancePath p k (-1)) st) (encodeSpecs ks n p))"
    using ind(1) nr assms(3)
    by (simp add: instanceCount_def fun_eq_iff loop_res_single del: loop_res.simps)
  have found: "child (appendChild parent ind) presence '''' = Some ind"
    using child_first [OF assms(5), of ind "[]"] canonicalValue_tag [OF canon] assms(2)
    by (simp add: appendChild_appendChildren)
  have rest: "decodes (encodeSpecs ks n p)
      (\<lambda>st. decodeSpecs ks p presence True (appendChild parent ind, st))
      (appendChildren (appendChild parent ind) (concat (map (findInstances n) ks)))"
    by (rule decodes_specs) (use assms in auto)
  have "appendChildren parent (concat (map (findInstances n) (k # ks)))
      = appendChildren (appendChild parent ind) (concat (map (findInstances n) ks))"
    by (simp add: ind(1) appendChild_appendChildren)
  then show ?thesis
    unfolding enc decodeSpecs_presence [OF assms(2)]
    by (simp only:) (rule decodes_seq [OF decodes_value [OF canon] rest],
      use found ind in \<open>simp add: appendChild_appendChildren\<close>)
qed

lemma presence_is_value: "stag k = presenceTag s \<Longrightarrow> isValueNode k"
  by (auto simp: presenceTag_def isValueNode_def split: if_splits)

theorem container_inverts: "inverts spec"
proof (induction spec)
  case (SpecNode tag nm dfi dui bits rep sel mx kids)
  let ?spec = "SpecNode tag nm dfi dui bits rep sel mx kids"
  let ?presence = "presenceTag ?spec"
  have "decodes (encodeSpecs kids n p) (decodeContainer ?spec parent p) (appendChildren parent (xchildren n))"
    if canon: "canonical ?spec n" and fresh: "xchildren parent = []" for n p parent
  proof (cases sel)
    case False
    with canon have c: "canonicalSpecs kids n" "xchildren n = concat (map (findInstances n) kids)"
      by (simp_all add: Let_def)
    have "decodeContainer ?spec parent p = (\<lambda>st. decodeSpecs kids p ?presence True (parent, st))"
      using False by (simp add: fun_eq_iff Let_def)
    with decodes_specs [OF c(1) SpecNode.IH] c(2) show ?thesis by simp
  next
    case True
    with canon obtain k ks where kids: "kids = k # ks" and k: "stag k = ?presence"
      by (cases kids) (auto simp: Let_def absent_def)
    have dec: "decodeContainer ?spec parent p = (\<lambda>st. decodeSpecs kids p ?presence False (parent, st))"
      using True kids k by (simp add: fun_eq_iff Let_def)
    from canon True consider "absent kids ?presence n"
      | "canonicalSpecs kids n" "xchildren n = concat (map (findInstances n) kids)"
        "map readNodeValue (findInstances n k) = [Some 1]"
      using kids by (auto simp: Let_def)
    then show ?thesis
    proof cases
      case 1
      show ?thesis
        unfolding dec using decodes_absent [OF 1 [unfolded kids] fresh presence_is_value [OF k]]
        by (simp only: kids)
    next
      case 2
      have "inverts x" if "x \<in> set ks" for x using SpecNode.IH that kids by simp
      from decodes_present [OF 2(1) [unfolded kids] k presence_is_value [OF k] 2(3) fresh this]
      show ?thesis unfolding dec 2(2) by (simp only: kids)
    qed
  qed
  moreover have "encodeNodes ?spec n p = encodeSpecs kids n p" for n p by (simp add: fun_eq_iff)
  ultimately show ?case by (simp add: inverts_def)
qed

section \<open>What an encoder appends\<close>

text \<open>The layouts follow each other without a gap, from a first bit on.\<close>

primrec contiguous :: "nat \<Rightarrow> FieldLayout list \<Rightarrow> bool" where
  "contiguous off [] = True"
| "contiguous off (f # fs) = (f_bitOffset f = off \<and> contiguous (off + f_bits f) fs)"

lemma length_layout_bits: "length (layout_bits fs) = sum_list (map f_bits fs)"
  by (induction fs) (simp_all add: layout_bits_def)

lemma contiguous_append:
  "contiguous off (fs @ gs) \<longleftrightarrow> contiguous off fs \<and> contiguous (off + length (layout_bits fs)) gs"
  by (induction fs arbitrary: off) (auto simp: length_layout_bits add.assoc)

text \<open>The bits of a field are found at its offset.\<close>

lemma contiguous_slice:
  assumes "contiguous off fs" "f \<in> set fs"
  shows "off \<le> f_bitOffset f" "f_bitOffset f + f_bits f \<le> off + length (layout_bits fs)"
    "take (f_bits f) (drop (f_bitOffset f - off) (layout_bits fs)) = msb_bits (f_value f) (f_bits f)"
proof -
  obtain gs hs where fs: "fs = gs @ f # hs" using assms(2) by (meson split_list)
  have off: "f_bitOffset f = off + length (layout_bits gs)"
    using assms(1) by (simp add: fs contiguous_append)
  have lb: "layout_bits fs = layout_bits gs @ msb_bits (f_value f) (f_bits f) @ layout_bits hs"
    by (simp add: fs layout_bits_def)
  show "off \<le> f_bitOffset f" "f_bitOffset f + f_bits f \<le> off + length (layout_bits fs)"
    "take (f_bits f) (drop (f_bitOffset f - off) (layout_bits fs)) = msb_bits (f_value f) (f_bits f)"
    by (simp_all add: off lb)
qed

definition appends :: "(EncodeState \<Rightarrow> Diagnostic + EncodeState) \<Rightarrow> bool" where
  "appends enc \<longleftrightarrow> (\<forall>w fs w' fs'. writer_ok w \<longrightarrow> enc (w, fs) = Inr (w', fs') \<longrightarrow>
     writer_ok w' \<and> (\<exists>new. fs' = fs @ new \<and> wbits w' = wbits w @ layout_bits new
       \<and> contiguous (w_bitLength w) new
       \<and> list_all (\<lambda>f. 0 < f_bits f \<and> f_bits f \<le> 64 \<and> \<not> valueTooWide (f_value f) (f_bits f)) new))"

lemma appendsD:
  assumes "appends enc" "enc (w, fs) = Inr (w', fs')" "writer_ok w"
  obtains new where "writer_ok w'" "fs' = fs @ new" "wbits w' = wbits w @ layout_bits new"
    "contiguous (w_bitLength w) new"
    "list_all (\<lambda>f. 0 < f_bits f \<and> f_bits f \<le> 64 \<and> \<not> valueTooWide (f_value f) (f_bits f)) new"
  using assms unfolding appends_def by blast

lemma appends_Inr: "appends Inr"
  by (auto simp: appends_def)

lemma appends_bind:
  assumes "appends e1" "appends e2"
  shows "appends (\<lambda>st. bind_res (e1 st) e2)"
  unfolding appends_def
proof (intro allI impI)
  fix w fs w' fs'
  assume ok: "writer_ok w" and "bind_res (e1 (w, fs)) e2 = Inr (w', fs')"
  then obtain v us where 1: "e1 (w, fs) = Inr (v, us)" and 2: "e2 (v, us) = Inr (w', fs')"
    by (auto simp: bind_res_eq_Inr)
  obtain n1 where n1: "writer_ok v" "us = fs @ n1" "wbits v = wbits w @ layout_bits n1"
      "contiguous (w_bitLength w) n1"
      "list_all (\<lambda>f. 0 < f_bits f \<and> f_bits f \<le> 64 \<and> \<not> valueTooWide (f_value f) (f_bits f)) n1"
    using appendsD [OF assms(1) 1 ok] .
  obtain n2 where n2: "writer_ok w'" "fs' = us @ n2" "wbits w' = wbits v @ layout_bits n2"
      "contiguous (w_bitLength v) n2"
      "list_all (\<lambda>f. 0 < f_bits f \<and> f_bits f \<le> 64 \<and> \<not> valueTooWide (f_value f) (f_bits f)) n2"
    using appendsD [OF assms(2) 2 n1(1)] .
  show "writer_ok w' \<and> (\<exists>new. fs' = fs @ new \<and> wbits w' = wbits w @ layout_bits new
       \<and> contiguous (w_bitLength w) new
       \<and> list_all (\<lambda>f. 0 < f_bits f \<and> f_bits f \<le> 64 \<and> \<not> valueTooWide (f_value f) (f_bits f)) new)"
    using n1 n2 wbits_append_length [OF n1(3)]
    by (intro conjI exI [of _ "n1 @ n2"]) (simp_all add: contiguous_append)
qed

lemma appends_loop: "(\<And>i x. x \<in> set xs \<Longrightarrow> appends (f i x)) \<Longrightarrow> appends (loop_res f i xs)"
proof (induction xs arbitrary: i)
  case Nil
  show ?case by (simp add: appends_def)
next
  case (Cons x xs)
  then show ?case unfolding loop_res_Cons by (intro appends_bind) auto
qed

lemma appends_value: "appends (encodeValue k m p)"
  unfolding appends_def
proof (intro allI impI)
  fix w fs w' fs'
  assume ok: "writer_ok w" and "encodeValue k m p (w, fs) = Inr (w', fs')"
  then obtain v where w': "writer_write v (sbits k) p w = Inr w'"
    and fs': "fs' = fs @ [mkField k p v (w_bitLength w)]"
    by (auto simp: encodeValue_def bind_res_eq_Inr split: option.splits)
  show "writer_ok w' \<and> (\<exists>new. fs' = fs @ new \<and> wbits w' = wbits w @ layout_bits new
       \<and> contiguous (w_bitLength w) new
       \<and> list_all (\<lambda>f. 0 < f_bits f \<and> f_bits f \<le> 64 \<and> \<not> valueTooWide (f_value f) (f_bits f)) new)"
    using writer_write_ok [OF w' ok] fs'
    by (intro conjI exI [of _ "[mkField k p v (w_bitLength w)]"]) (simp_all add: layout_bits_def mkField_def)
qed

lemma appends_specs:
  assumes "\<And>k n p. k \<in> set ks \<Longrightarrow> appends (encodeNodes k n p)"
  shows "appends (encodeSpecs ks n p)"
  using assms
proof (induction ks)
  case Nil
  show ?case by (simp add: appends_def)
next
  case (Cons k ks)
  then show ?case
    unfolding encodeSpecs_Cons_eq
    by (intro appends_bind appends_loop) (auto simp: appends_value Let_def)
qed

lemma encodeNodes_appends: "appends (encodeNodes spec n p)"
proof (induction spec arbitrary: n p)
  case (SpecNode tag nm dfi dui bits rep sel mx kids)
  have "encodeNodes (SpecNode tag nm dfi dui bits rep sel mx kids) n p = encodeSpecs kids n p"
    by (simp add: fun_eq_iff)
  then show ?case using appends_specs SpecNode.IH by metis
qed

section \<open>What a decoder consumes\<close>

text \<open>
  Whatever the specification tree, a decoder that succeeds has read exactly the bits of the
  layouts it returns, one after another from its position on, and stays inside the message.
\<close>

definition consumes :: "(DecodeState \<Rightarrow> Diagnostic + ('x \<times> DecodeState)) \<Rightarrow> bool" where
  "consumes dec \<longleftrightarrow> (\<forall>r fs x r' fs'. r_offset r \<le> r_bitLength r \<longrightarrow> dec (r, fs) = Inr (x, r', fs') \<longrightarrow>
     (\<exists>new. fs' = fs @ new \<and> contiguous (r_offset r) new \<and> available r (layout_bits new)
        \<and> r' = advance r (length (layout_bits new))))"

lemma consumesD:
  assumes "consumes dec" "dec (r, fs) = Inr (x, r', fs')" "r_offset r \<le> r_bitLength r"
  obtains new where "fs' = fs @ new" "contiguous (r_offset r) new" "available r (layout_bits new)"
    "r' = advance r (length (layout_bits new))"
  using assms unfolding consumes_def by blast

lemma available_bound: "available r bs \<Longrightarrow>
    r_offset (advance r (length bs)) \<le> r_bitLength (advance r (length bs))"
  by (simp add: available_def advance_def)

lemma consumes_Inr: "consumes (\<lambda>st. Inr (x, st))"
  by (simp add: consumes_def available_def vmf_bits.advance_0)

lemma consumes_Inl: "consumes (\<lambda>st. Inl e)"
  by (simp add: consumes_def)

lemma consumes_if: "(b \<Longrightarrow> consumes f) \<Longrightarrow> (\<not> b \<Longrightarrow> consumes g) \<Longrightarrow> consumes (\<lambda>st. if b then f st else g st)"
  by (cases b) simp_all

lemma consumes_option:
  "(o' = None \<Longrightarrow> consumes f) \<Longrightarrow> (\<And>x. o' = Some x \<Longrightarrow> consumes (g x))
   \<Longrightarrow> consumes (\<lambda>st. case o' of None \<Rightarrow> f st | Some x \<Rightarrow> g x st)"
  by (cases o') simp_all

lemmas consumes_intros = consumes_Inl consumes_Inr consumes_if consumes_option

lemma consumes_bind:
  assumes "consumes d1" "\<And>x. consumes (d2 x)"
  shows "consumes (\<lambda>st. bind_res (d1 st) (\<lambda>(x, st'). d2 x st'))"
  unfolding consumes_def
proof (intro allI impI)
  fix r fs y r' fs'
  assume le: "r_offset r \<le> r_bitLength r"
    and "bind_res (d1 (r, fs)) (\<lambda>(x, st'). d2 x st') = Inr (y, r', fs')"
  then obtain x u us where 1: "d1 (r, fs) = Inr (x, u, us)" and 2: "d2 x (u, us) = Inr (y, r', fs')"
    by (auto simp: bind_res_eq_Inr)
  obtain n1 where n1: "us = fs @ n1" "contiguous (r_offset r) n1" "available r (layout_bits n1)"
      "u = advance r (length (layout_bits n1))"
    by (rule consumesD [OF assms(1) 1 le])
  obtain n2 where n2: "fs' = us @ n2" "contiguous (r_offset u) n2" "available u (layout_bits n2)"
      "r' = advance u (length (layout_bits n2))"
    by (rule consumesD [OF assms(2) 2]) (simp add: n1(4) available_bound [OF n1(3)])
  have "r_offset u = r_offset r + length (layout_bits n1)" by (simp add: n1(4) advance_def)
  with n1 n2 show "\<exists>new. fs' = fs @ new \<and> contiguous (r_offset r) new \<and> available r (layout_bits new)
      \<and> r' = advance r (length (layout_bits new))"
    by (intro exI [of _ "n1 @ n2"])
      (simp add: contiguous_append vmf_bits.available_append vmf_bits.advance_add)
qed

lemma consumes_value: "consumes (\<lambda>st. decodeValue k p (parent, st))"
  unfolding consumes_def
proof (intro allI impI)
  fix r fs x r' fs'
  assume "decodeValue k p (parent, r, fs) = Inr (x, r', fs')"
  then obtain v where rd: "reader_read (sbits k) p r = Inr (v, r')"
    and fs': "fs' = fs @ [mkField k p v (r_offset r)]"
    by (auto simp: decodeValue_def bind_res_eq_Inr)
  show "\<exists>new. fs' = fs @ new \<and> contiguous (r_offset r) new \<and> available r (layout_bits new)
      \<and> r' = advance r (length (layout_bits new))"
    using reader_read_available [OF rd] fs'
    by (intro exI [of _ "[mkField k p v (r_offset r)]"]) (simp add: layout_bits_def mkField_def)
qed

lemma consumes_repeats:
  assumes "\<And>parent p. consumes (decode parent p)"
  shows "consumes (\<lambda>st. decodeRepeats decode k presence p left i (parent, st))"
proof (induction left arbitrary: i parent)
  case 0
  show ?case by (simp add: consumes_Inl)
next
  case (Suc left)
  show ?case
    unfolding decodeRepeats.simps Let_def prod.case
    by (rule consumes_bind [OF assms])
      (intro consumes_intros Suc)
qed

lemma consumes_member:
  assumes "\<And>parent p. consumes (decode parent p)"
  shows "consumes (\<lambda>st. decodeMember decode k presence p (parent, st))"
proof -
  have "consumes (\<lambda>st. bind_res (decode (containerNode k) q st) (\<lambda>(node, st'). Inr (appendChild parent node, st')))"
    for q by (rule consumes_bind [OF assms consumes_Inr])
  then show ?thesis
    unfolding decodeMember_def Let_def prod.case
    by (intro consumes_intros consumes_value consumes_repeats [OF assms])
qed

lemma consumes_specs:
  assumes "\<And>k parent p. k \<in> set ks \<Longrightarrow> consumes (decodeContainer k parent p)"
  shows "consumes (\<lambda>st. decodeSpecs ks p presence True (parent, st))"
  using assms
proof (induction ks arbitrary: parent)
  case Nil
  show ?case by (simp add: consumes_Inr)
next
  case (Cons k ks)
  have "consumes (\<lambda>st. bind_res (decodeMember (decodeContainer k) k presence p (parent, st))
      (\<lambda>(q, st'). decodeSpecs ks p presence True (q, st')))"
    by (rule consumes_bind) (use Cons in \<open>auto intro: consumes_member\<close>)
  then show ?case by simp
qed

lemma decodeContainer_consumes: "consumes (decodeContainer spec parent p)"
proof (induction spec arbitrary: parent p)
  case (SpecNode tag nm dfi dui bits rep sel mx kids)
  let ?presence = "presenceTag (SpecNode tag nm dfi dui bits rep sel mx kids)"
  have eq: "decodeContainer (SpecNode tag nm dfi dui bits rep sel mx kids) parent p
     = (\<lambda>st. if sel \<and> (kids = [] \<or> stag (hd kids) \<noteq> ?presence)
         then Inl (mkError ''DICT_SELECTABLE_ORDER'' p)
         else decodeSpecs kids p ?presence (\<not> sel) (parent, st))"
    by (simp add: fun_eq_iff Let_def)
  have plain: "consumes (\<lambda>st. decodeSpecs ks p ?presence True (q, st))" if "set ks \<subseteq> set kids" for ks q
    using that SpecNode.IH by (intro consumes_specs) auto
  show ?case
  proof (cases "sel \<and> kids \<noteq> [] \<and> stag (hd kids) = ?presence")
    case False
    with plain [of kids parent] show ?thesis unfolding eq by (cases sel) (auto simp: consumes_Inl)
  next
    case True
    then obtain k ks where kids: "kids = k # ks" and k: "stag k = ?presence" by (cases kids) auto
    have "consumes (\<lambda>st. decodeSpecs (k # ks) p ?presence False (parent, st))"
      unfolding decodeSpecs_presence [OF k]
      by (rule consumes_bind [OF consumes_value])
        (unfold Let_def, intro consumes_intros plain, auto simp: kids)
    with True show ?thesis unfolding eq by (simp add: kids)
  qed
qed

end
