(* ===== verification/VmfXml.thy ===== *)
theory VmfXml
  imports VmfDictionary
begin

text \<open>
  Reading and writing XML nodes (\<open>parseXmlElement\<close>, \<open>parseDocument\<close>, \<open>writeXmlNode\<close> and
  \<open>MessageXml\<close> in \<open>src/src/vmf/VmfCodec.cpp\<close>) on the tokens of \<open>QXmlStreamReader\<close> and
  \<open>QXmlStreamWriter\<close>: a document is the list of the tokens the reader delivers, and a list that
  ends before the root element is closed is one on which the reader reports an error. The
  recursion of \<open>parseXmlElement\<close> is written with its stack of open elements.
\<close>

datatype XmlToken =
    StartElement string "string \<rightharpoonup> string"
  | Characters string
  | EndElement
  | OtherToken

definition isWhitespace :: "string \<Rightarrow> bool" where
  "isWhitespace s \<longleftrightarrow> list_all is_space s"

definition addText :: "string \<Rightarrow> XmlNode \<Rightarrow> XmlNode" where
  "addText s n = XmlNode (xtag n) (xattributes n) (xtext n @ s) (xchildren n)"

definition addChild :: "XmlNode \<Rightarrow> XmlNode \<Rightarrow> XmlNode" where
  "addChild c n = XmlNode (xtag n) (xattributes n) (xtext n) (xchildren n @ [c])"

definition trimText :: "XmlNode \<Rightarrow> XmlNode" where
  "trimText n = XmlNode (xtag n) (xattributes n) (trimmed (xtext n)) (xchildren n)"

text \<open>The element being read, and the elements around it from the innermost one outwards.\<close>

fun parseXmlElement :: "XmlToken list \<Rightarrow> XmlNode \<Rightarrow> XmlNode list \<Rightarrow> XmlNode option" where
  "parseXmlElement [] node outer = None"
| "parseXmlElement (Characters s # ts) node outer =
     parseXmlElement ts (if isWhitespace s then node else addText s node) outer"
| "parseXmlElement (StartElement tag attrs # ts) node outer =
     parseXmlElement ts (XmlNode tag attrs [] []) (node # outer)"
| "parseXmlElement (EndElement # ts) node outer =
     (case outer of
        [] \<Rightarrow> Some (trimText node)
      | parent # rest \<Rightarrow> parseXmlElement ts (addChild (trimText node) parent) rest)"
| "parseXmlElement (OtherToken # ts) node outer = parseXmlElement ts node outer"

fun parseDocument :: "XmlToken list \<Rightarrow> Diagnostic + XmlNode" where
  "parseDocument [] = Inl (mkError ''XML_ROOT'' [])"
| "parseDocument (StartElement tag attrs # ts) =
     (case parseXmlElement ts (XmlNode tag attrs [] []) [] of
        None \<Rightarrow> Inl (mkError ''XML_PARSE'' tag)
      | Some root \<Rightarrow> Inr root)"
| "parseDocument (t # ts) = parseDocument ts"

primrec writeXmlNode :: "XmlNode \<Rightarrow> XmlToken list"
  and writeXmlNodes :: "XmlNode list \<Rightarrow> XmlToken list" where
  "writeXmlNode (XmlNode tag attrs content kids) =
     StartElement tag attrs # (if content \<noteq> [] then [Characters content] else [])
     @ writeXmlNodes kids @ [EndElement]"
| "writeXmlNodes [] = []"
| "writeXmlNodes (n # ns) = writeXmlNode n @ writeXmlNodes ns"

section \<open>Messages\<close>

record MessageXml =
  m_message :: string
  m_case :: string
  m_header :: XmlNode
  m_body :: XmlNode

definition parseMessageXml :: "XmlToken list \<Rightarrow> Diagnostic + MessageXml" where
  "parseMessageXml document =
     bind_res (parseDocument document) (\<lambda>root.
       if xtag root \<noteq> ''MessageContent'' then Inl (mkError ''MESSAGE_ROOT'' [])
       else (case (child root ''Header'' '''', child root ''Body'' '''') of
               (Some header, Some body) \<Rightarrow>
                 Inr \<lparr>m_message = attribute root ''message'', m_case = attribute root ''case'',
                      m_header = header, m_body = body\<rparr>
             | _ \<Rightarrow> Inl (mkError ''MESSAGE_SHAPE'' [])))"

definition serializeMessageXml :: "MessageXml \<Rightarrow> XmlToken list" where
  "serializeMessageXml m =
     StartElement ''MessageContent''
       (if m_case m \<noteq> [] then [''message'' \<mapsto> m_message m, ''case'' \<mapsto> m_case m]
        else [''message'' \<mapsto> m_message m])
     # writeXmlNode (m_header m) @ writeXmlNode (m_body m) @ [EndElement]"

section \<open>Round trip\<close>

text \<open>Nodes as the reader builds them: their text is trimmed.\<close>

primrec trimmedNode :: "XmlNode \<Rightarrow> bool" and trimmedNodes :: "XmlNode list \<Rightarrow> bool" where
  "trimmedNode (XmlNode tag attrs content kids) = (trimmed content = content \<and> trimmedNodes kids)"
| "trimmedNodes [] = True"
| "trimmedNodes (n # ns) = (trimmedNode n \<and> trimmedNodes ns)"

lemma trimmed_whitespace: "isWhitespace s \<Longrightarrow> trimmed s = []"
  by (simp add: trimmed_def isWhitespace_def list_all_iff dropWhile_eq_Nil_conv [THEN iffD2])

lemma trimmed_not_whitespace: "trimmed s = s \<Longrightarrow> s \<noteq> [] \<Longrightarrow> \<not> isWhitespace s"
  using trimmed_whitespace by metis

text \<open>What \<open>writeXmlNode\<close> writes is read back as one more child of the open element.\<close>

definition readsBack :: "XmlNode \<Rightarrow> bool" where
  "readsBack n \<longleftrightarrow> (\<forall>ts node outer. trimmedNode n \<longrightarrow>
     parseXmlElement (writeXmlNode n @ ts) node outer = parseXmlElement ts (addChild n node) outer)"

lemma readsBack_children:
  "(\<And>n. n \<in> set ns \<Longrightarrow> readsBack n) \<Longrightarrow> trimmedNodes ns \<Longrightarrow>
   parseXmlElement (writeXmlNodes ns @ ts) node outer
     = parseXmlElement ts (XmlNode (xtag node) (xattributes node) (xtext node) (xchildren node @ ns)) outer"
proof (induction ns arbitrary: node)
  case Nil
  then show ?case by (cases node) simp
next
  case (Cons n ns)
  then show ?case by (simp add: readsBack_def addChild_def)
qed

lemma readsBack_node: "readsBack n"
proof (induction n)
  case (XmlNode tag attrs content kids)
  show ?case
    unfolding readsBack_def
    using readsBack_children [OF XmlNode.IH]
    by (auto simp: trimmed_not_whitespace addText_def trimText_def)
qed

lemma parseXmlElement_write:
  "trimmedNode n \<Longrightarrow>
   parseXmlElement (writeXmlNode n @ ts) node outer = parseXmlElement ts (addChild n node) outer"
  using readsBack_node [of n] by (simp add: readsBack_def)

text \<open>Parsing the tokens written for a message gives the message back, when its parts carry the
  tags of a header and a body and their texts have no space around them.\<close>

lemma message_xml_roundtrip:
  assumes "trimmedNode (m_header m)" "trimmedNode (m_body m)"
    and "xtag (m_header m) = ''Header''" "xtag (m_body m) = ''Body''"
  shows "parseMessageXml (serializeMessageXml m) = Inr m"
  using assms
  by (simp add: parseMessageXml_def serializeMessageXml_def parseXmlElement_write addChild_def
      trimText_def child_def named_def attribute_def trimmed_def)

lemma message_xml_roundtrip_witness:
  "parseMessageXml (serializeMessageXml \<lparr>m_message = ''K05.1'', m_case = ''1'',
     m_header = XmlNode ''Header'' Map.empty [] [XmlNode ''Field'' [''name'' \<mapsto> ''length''] ''4'' []],
     m_body = XmlNode ''Body'' Map.empty [] []\<rparr>)
   = Inr \<lparr>m_message = ''K05.1'', m_case = ''1'',
     m_header = XmlNode ''Header'' Map.empty [] [XmlNode ''Field'' [''name'' \<mapsto> ''length''] ''4'' []],
     m_body = XmlNode ''Body'' Map.empty [] []\<rparr>"
  by (rule message_xml_roundtrip) (simp_all add: trimmed_def is_space_def)

end
