(* ===== verification/VmfCodec.thy ===== *)
theory VmfCodec
  imports VmfRoundtrip VmfXml
begin

text \<open>
  Dictionary sets and the codec (\<open>parseMessageDictionary\<close>, \<open>DictionarySet\<close> and \<open>Codec\<close> in
  \<open>src/src/vmf/VmfCodec.cpp\<close>). Documents are token streams (see \<open>VmfXml\<close>). The pointer
  \<open>diagnostics\<close> may be null: the flag \<open>reporting\<close> says whether it is given.
\<close>

section \<open>Dictionary sets\<close>

record MessageSpec =
  ms_name :: string
  ms_number :: string
  ms_header :: SpecNode
  ms_body :: SpecNode
  ms_rules :: RuleSet

record DictionarySet =
  ds_content :: Content
  ds_messages :: "string \<rightharpoonup> MessageSpec"
  ds_valid :: bool

definition checkSpecData :: "SpecNode \<Rightarrow> SpecNode \<Rightarrow> Content \<Rightarrow> Diagnostic list
    \<Rightarrow> Diagnostic list" where
  "checkSpecData header body content ds =
     (let (specData, ds') = collectSpecData body ''Body'' (collectSpecData header ''Header'' ([], ds))
      in ds' @ concat (map (checkEntry content) specData))"

definition parseMessageDictionary :: "XmlNode \<Rightarrow> Content \<Rightarrow> Diagnostic list
    \<Rightarrow> MessageSpec option \<times> Diagnostic list" where
  "parseMessageDictionary root content ds =
     (if xtag root \<noteq> ''Message'' then (None, ds @ [mkError ''DICT_ROOT'' []])
      else (case (child root ''Header'' '''', child root ''Body'' '''') of
        (Some header, Some body) \<Rightarrow>
          if attribute root ''name'' = [] then (None, ds @ [mkError ''DICT_SHAPE'' []])
          else
            (case parseSpecNode header ''Header'' of
               Inl d \<Rightarrow> (None, ds @ [d])
             | Inr headerSpec \<Rightarrow>
                 (case parseSpecNode body ''Body'' of
                    Inl d \<Rightarrow> (None, ds @ [d])
                  | Inr bodySpec \<Rightarrow>
                      (let rules = (case child root ''Rules'' '''' of None \<Rightarrow> noRules | Some r \<Rightarrow> r);
                           ruleErrors = validateRuleDefinitions rules headerSpec bodySpec
                       in if ruleErrors \<noteq> [] then (None, ds @ ruleErrors)
                          else
                            (Some \<lparr>ms_name = attribute root ''name'', ms_number = attribute root ''number'',
                                   ms_header = headerSpec, ms_body = bodySpec, ms_rules = rules\<rparr>,
                             checkSpecData headerSpec bodySpec content ds))))
      | _ \<Rightarrow> (None, ds @ [mkError ''DICT_SHAPE'' []])))"

definition parseMessage :: "XmlToken list \<Rightarrow> Content \<Rightarrow> Diagnostic list
    \<Rightarrow> MessageSpec option \<times> Diagnostic list" where
  "parseMessage document content ds =
     (case parseDocument document of
        Inl d \<Rightarrow> (None, ds @ [d])
      | Inr root \<Rightarrow> parseMessageDictionary root content ds)"

definition parseContentDocument :: "XmlToken list \<Rightarrow> Diagnostic list
    \<Rightarrow> Content option \<times> Diagnostic list" where
  "parseContentDocument document ds =
     (case parseDocument document of
        Inl d \<Rightarrow> (None, ds @ [d])
      | Inr root \<Rightarrow> parseContent root ds)"

text \<open>The loop of \<open>fromXmlSet\<close> over the message dictionaries; \<open>None\<close> is the early return.\<close>

primrec loadMessages :: "XmlToken list list \<Rightarrow> Content \<Rightarrow> (string \<rightharpoonup> MessageSpec) \<Rightarrow> Diagnostic list
    \<Rightarrow> (string \<rightharpoonup> MessageSpec) option \<times> Diagnostic list" where
  "loadMessages [] content messages ds = (Some messages, ds)"
| "loadMessages (document # rest) content messages ds =
     (case parseMessage document content ds of
        (None, ds') \<Rightarrow> (None, ds')
      | (Some spec, ds') \<Rightarrow>
          if messages (ms_name spec) \<noteq> None
          then (None, ds' @ [mkError ''DICT_DUPLICATE_MESSAGE'' (ms_name spec)])
          else loadMessages rest content (messages(ms_name spec \<mapsto> spec)) ds')"

definition isErrorDiagnostic :: "Diagnostic \<Rightarrow> bool" where
  "isErrorDiagnostic d \<longleftrightarrow> d_severity d = SeverityError"

definition fromXmlSet :: "bool \<Rightarrow> XmlToken list list \<Rightarrow> XmlToken list \<Rightarrow> Diagnostic list
    \<Rightarrow> DictionarySet option \<times> Diagnostic list" where
  "fromXmlSet reporting messageDictionaries contentDictionary ds =
     (case parseContentDocument contentDictionary ds of
        (None, ds') \<Rightarrow> (None, ds')
      | (Some content, ds') \<Rightarrow>
          if messageDictionaries = [] then (None, ds' @ [mkError ''DICT_EMPTY'' []])
          else
            (case loadMessages messageDictionaries content Map.empty ds' of
               (None, ds'') \<Rightarrow> (None, ds'')
             | (Some messages, ds'') \<Rightarrow>
                 (let hasError = reporting \<and> list_ex isErrorDiagnostic ds''
                  in (if hasError then None
                      else Some \<lparr>ds_content = content, ds_messages = messages, ds_valid = True\<rparr>,
                      ds''))))"

text \<open>\<open>fromXml\<close> and \<open>fromFiles\<close>; reading a file is the parameter \<open>readFile\<close>.\<close>

definition fromXml :: "bool \<Rightarrow> XmlToken list \<Rightarrow> XmlToken list \<Rightarrow> Diagnostic list
    \<Rightarrow> DictionarySet option \<times> Diagnostic list" where
  "fromXml reporting messageDictionary contentDictionary ds =
     fromXmlSet reporting [messageDictionary] contentDictionary ds"

primrec readDictionaries :: "(string \<Rightarrow> XmlToken list option) \<Rightarrow> string list
    \<Rightarrow> Diagnostic + XmlToken list list" where
  "readDictionaries readFile [] = Inr []"
| "readDictionaries readFile (p # ps) =
     (case readFile p of
        None \<Rightarrow> Inl (mkError ''DICT_IO'' p)
      | Some document \<Rightarrow>
          bind_res (readDictionaries readFile ps) (\<lambda>documents. Inr (document # documents)))"

definition fromFiles :: "bool \<Rightarrow> (string \<Rightarrow> XmlToken list option) \<Rightarrow> string list \<Rightarrow> string
    \<Rightarrow> Diagnostic list \<Rightarrow> DictionarySet option \<times> Diagnostic list" where
  "fromFiles reporting readFile messageDictionaryPaths contentDictionaryPath ds =
     (if messageDictionaryPaths = [] then (None, ds @ [mkError ''DICT_IO'' []])
      else (case readDictionaries readFile messageDictionaryPaths of
              Inl d \<Rightarrow> (None, ds @ [d])
            | Inr documents \<Rightarrow>
                (case readFile contentDictionaryPath of
                   None \<Rightarrow> (None, ds @ [mkError ''DICT_IO'' []])
                 | Some content \<Rightarrow> fromXmlSet reporting documents content ds)))"

section \<open>The codec\<close>

record EncodedMessage =
  e_message :: string
  e_bytes :: "8 word list"
  e_bitLength :: nat
  e_canonicalXml :: MessageXml
  e_fields :: "FieldLayout list"

record DecodedMessage =
  dm_message :: string
  dm_xml :: MessageXml
  dm_fields :: "FieldLayout list"
  dm_bitLength :: nat

record ValidationReport =
  vr_valid :: bool
  vr_diagnostics :: "Diagnostic list"

definition validateAgainst :: "MessageSpec \<Rightarrow> Content \<Rightarrow> MessageXml \<Rightarrow> Diagnostic list" where
  "validateAgainst spec content m =
     (if m_message m \<noteq> [] \<and> m_message m \<noteq> ms_name spec then [mkError ''MESSAGE_NAME'' []] else [])
     @ validateChildren (ms_header spec) (m_header m) ''Header'' content
     @ validateChildren (ms_body spec) (m_body m) ''Body'' content
     @ validateRules (ms_rules spec) (m_case m)
         (populateCanonicalNames (ms_header spec) (m_header m))
         (populateCanonicalNames (ms_body spec) (m_body m))"

text \<open>\<open>Codec::validate\<close>; a codec may have been built without dictionaries.\<close>

definition codec_validate :: "DictionarySet option \<Rightarrow> string \<Rightarrow> MessageXml \<Rightarrow> ValidationReport" where
  "codec_validate dictionaries messageName m =
     (case dictionaries of
        None \<Rightarrow> \<lparr>vr_valid = False, vr_diagnostics = [mkError ''NO_DICT'' []]\<rparr>
      | Some d \<Rightarrow>
          (case ds_messages d messageName of
             None \<Rightarrow> \<lparr>vr_valid = False, vr_diagnostics = [mkError ''UNKNOWN_MESSAGE'' []]\<rparr>
           | Some spec \<Rightarrow>
               (let ds = validateAgainst spec (ds_content d) m
                in \<lparr>vr_valid = \<not> list_ex isErrorDiagnostic ds, vr_diagnostics = ds\<rparr>)))"

definition byteLength :: "nat \<Rightarrow> nat" where
  "byteLength bits = (bits + 7) div 8"

definition lengthField :: "FieldLayout list \<Rightarrow> FieldLayout option" where
  "lengthField layouts = find (\<lambda>f. f_name f = ''length'') layouts"

definition patchLength :: "EncodeState \<Rightarrow> Diagnostic + BitWriter" where
  "patchLength = (\<lambda>(writer, layouts).
     case lengthField layouts of
       None \<Rightarrow> Inr writer
     | Some f \<Rightarrow> writer_set (f_bitOffset f) (of_nat (byteLength (w_bitLength writer))) (f_bits f)
                   (f_path f) writer)"

definition codec_encode :: "DictionarySet option \<Rightarrow> string \<Rightarrow> MessageXml
    \<Rightarrow> Diagnostic list + EncodedMessage" where
  "codec_encode dictionaries messageName m =
     (let report = codec_validate dictionaries messageName m
      in if \<not> vr_valid report then Inl (vr_diagnostics report)
         else
           (case dictionaries of
              None \<Rightarrow> Inl []
            | Some d \<Rightarrow>
                (case ds_messages d messageName of
                   None \<Rightarrow> Inl []
                 | Some spec \<Rightarrow>
                     (case bind_res (encodeNodes (ms_header spec) (m_header m) ''Header'' (emptyWriter, []))
                             (encodeNodes (ms_body spec) (m_body m) ''Body'') of
                        Inl e \<Rightarrow> Inl [e]
                      | Inr (writer, layouts) \<Rightarrow>
                          (case patchLength (writer, layouts) of
                             Inl e \<Rightarrow> Inl [e]
                           | Inr writer' \<Rightarrow>
                               Inr \<lparr>e_message = messageName, e_bytes = w_bytes writer',
                                    e_bitLength = w_bitLength writer',
                                    e_canonicalXml = m\<lparr>m_message := messageName\<rparr>,
                                    e_fields = layouts\<rparr>)))))"

definition declaredBytes :: "FieldLayout list \<Rightarrow> 64 word" where
  "declaredBytes layouts = (case lengthField layouts of None \<Rightarrow> 0 | Some f \<Rightarrow> f_value f)"

definition codec_decode :: "DictionarySet \<Rightarrow> string \<Rightarrow> 8 word list \<Rightarrow> int
    \<Rightarrow> Diagnostic list + DecodedMessage" where
  "codec_decode d messageName bytes bitLength =
     (case ds_messages d messageName of
        None \<Rightarrow> Inl [mkError ''UNKNOWN_MESSAGE'' []]
      | Some spec \<Rightarrow>
          (let actualBits = (if 0 < bitLength then bitLength else int (length bytes) * 8)
           in if actualBits \<le> 0 \<or> int (length bytes) * 8 < actualBits
              then Inl [mkError ''BIT_LENGTH'' []]
              else
                (case decodeRoot (ms_header spec) (ms_body spec) (mkReader bytes actualBits, []) of
                   Inl e \<Rightarrow> Inl [e]
                 | Inr (header, body, reader, layouts) \<Rightarrow>
                     (let m = \<lparr>m_message = messageName, m_case = [], m_header = header, m_body = body\<rparr>;
                          report = codec_validate (Some d) messageName m
                      in if \<not> remainingBitsAreZero reader then Inl [mkError ''PADDING'' []]
                         else if declaredBytes layouts \<noteq> of_nat (byteLength (nat actualBits))
                         then Inl [mkError ''LENGTH'' []]
                         else if \<not> vr_valid report then Inl (vr_diagnostics report)
                         else Inr \<lparr>dm_message = messageName, dm_xml = m, dm_fields = layouts,
                                   dm_bitLength = r_offset reader\<rparr>))))"

section \<open>What encode produces\<close>

lemma codec_encode_Inr:
  assumes "codec_encode (Some d) name m = Inr e"
  obtains spec w fs w' where "ds_messages d name = Some spec"
    "vr_valid (codec_validate (Some d) name m)"
    "bind_res (encodeNodes (ms_header spec) (m_header m) ''Header'' (emptyWriter, []))
        (encodeNodes (ms_body spec) (m_body m) ''Body'') = Inr (w, fs)"
    "patchLength (w, fs) = Inr w'" "e_message e = name" "e_bytes e = w_bytes w'"
    "e_bitLength e = w_bitLength w'" "e_canonicalXml e = m\<lparr>m_message := name\<rparr>" "e_fields e = fs"
  using assms
  by (auto simp: codec_encode_def Let_def split: if_splits option.splits sum.splits)

lemma encode_both_appends:
  "appends (\<lambda>st. bind_res (encodeNodes hs h p st) (encodeNodes bs b q))"
  by (intro appends_bind encodeNodes_appends)

lemma lengthField_in: "lengthField fs = Some f \<Longrightarrow> f \<in> set fs \<and> f_name f = ''length''"
  by (auto simp: lengthField_def find_Some_iff)

text \<open>
  The bits of an encoded message: those of its field layouts in order, with the length field
  overwritten.
\<close>

definition patched_bits :: "FieldLayout list \<Rightarrow> bool list" where
  "patched_bits fs =
     (case lengthField fs of
        None \<Rightarrow> layout_bits fs
      | Some f \<Rightarrow> take (f_bitOffset f) (layout_bits fs)
          @ msb_bits (of_nat (byteLength (length (layout_bits fs)))) (f_bits f)
          @ drop (f_bitOffset f + f_bits f) (layout_bits fs))"

lemma patchLength_bits:
  assumes "patchLength (w, fs) = Inr w'" "writer_ok w" "wbits w = layout_bits fs"
  shows "writer_ok w'" "w_bitLength w' = w_bitLength w" "wbits w' = patched_bits fs"
proof -
  have len: "w_bitLength w = length (layout_bits fs)" using assms(3) length_wbits [of w] by simp
  have "writer_ok w' \<and> w_bitLength w' = w_bitLength w \<and> wbits w' = patched_bits fs"
  proof (cases "lengthField fs")
    case None
    then show ?thesis using assms by (simp add: patchLength_def patched_bits_def)
  next
    case (Some f)
    then show ?thesis
      using assms writer_set_ok [of "f_bitOffset f" "of_nat (byteLength (w_bitLength w))" "f_bits f" "f_path f" w w']
      by (simp add: patchLength_def patched_bits_def len)
  qed
  then show "writer_ok w'" "w_bitLength w' = w_bitLength w" "wbits w' = patched_bits fs" by auto
qed

text \<open>C7. The layouts of an encoded message follow each other without a gap from bit 0, the message
  is as long as they say, its bits are theirs with the length field overwritten by the number of
  bytes, and the last byte is padded with zeros.\<close>

lemma codec_encode_layout:
  assumes "codec_encode (Some d) name m = Inr e"
  shows "contiguous 0 (e_fields e) \<and> e_bitLength e = sum_list (map f_bits (e_fields e))
     \<and> bit_slice (e_bytes e) 0 (e_bitLength e) = patched_bits (e_fields e)
     \<and> length (e_bytes e) = byteLength (e_bitLength e)
     \<and> (\<forall>i. e_bitLength e \<le> i \<and> i < 8 * length (e_bytes e) \<longrightarrow> \<not> bitAt (e_bytes e) i)"
proof -
  obtain spec w fs w' where "ds_messages d name = Some spec"
    "vr_valid (codec_validate (Some d) name m)"
    and enc: "bind_res (encodeNodes (ms_header spec) (m_header m) ''Header''
        (emptyWriter, [])) (encodeNodes (ms_body spec) (m_body m) ''Body'') = Inr (w, fs)"
    and patch: "patchLength (w, fs) = Inr w'" and "e_message e = name"
    and e: "e_bytes e = w_bytes w'" "e_bitLength e = w_bitLength w'"
    and "e_canonicalXml e = m\<lparr>m_message := name\<rparr>" and fs: "e_fields e = fs"
    by (rule codec_encode_Inr [OF assms])
  obtain new where "writer_ok w" "fs = [] @ new" "wbits w = wbits emptyWriter @ layout_bits new"
    "contiguous (w_bitLength emptyWriter) new"
    "list_all (\<lambda>f. 0 < f_bits f \<and> f_bits f \<le> 64 \<and> \<not> valueTooWide (f_value f) (f_bits f)) new"
    by (rule appendsD [OF encode_both_appends enc writer_ok_empty])
  moreover have "w_bitLength emptyWriter = 0" by (simp add: emptyWriter_def)
  ultimately have w: "writer_ok w" "wbits w = layout_bits fs" "contiguous 0 fs" by simp_all
  note p = patchLength_bits [OF patch w(1,2)]
  have "w_bitLength w' = sum_list (map f_bits fs)"
    using p(2) length_wbits [of w] by (simp add: w(2) length_layout_bits)
  moreover have "bit_slice (w_bytes w') 0 (w_bitLength w') = patched_bits fs"
    using p(3) by (simp only: wbits_def)
  moreover have "length (w_bytes w') = byteLength (w_bitLength w')"
    "\<forall>i. w_bitLength w' \<le> i \<and> i < 8 * length (w_bytes w') \<longrightarrow> \<not> bitAt (w_bytes w') i"
    using p(1) by (auto simp only: writer_ok_def byteLength_def)
  ultimately show ?thesis
    using w(3) by (simp only: e fs simp_thms)
qed

section \<open>Decoding an encoded message\<close>

definition rootFrame :: "string \<Rightarrow> XmlNode \<Rightarrow> bool" where
  "rootFrame tag n \<longleftrightarrow> xtag n = tag \<and> xattributes n = Map.empty \<and> xtext n = []"

text \<open>A message the decoder can rebuild exactly: canonical, without a case, under its own name.\<close>

definition canonicalMessage :: "MessageSpec \<Rightarrow> MessageXml \<Rightarrow> bool" where
  "canonicalMessage spec m \<longleftrightarrow> m_message m = ms_name spec \<and> m_case m = []
     \<and> rootFrame ''Header'' (m_header m) \<and> rootFrame ''Body'' (m_body m)
     \<and> canonical (ms_header spec) (m_header m) \<and> canonical (ms_body spec) (m_body m)"

lemma rootFrame_rebuild: "rootFrame tag n \<Longrightarrow> appendChildren (emptyNode tag) (xchildren n) = n"
  by (cases n) (simp add: rootFrame_def appendChildren_def emptyNode_def)

lemma decodes_root:
  assumes "canonical hs h" "canonical bs b" "rootFrame ''Header'' h" "rootFrame ''Body'' b"
  shows "decodes (\<lambda>st. bind_res (encodeNodes hs h ''Header'' st) (encodeNodes bs b ''Body''))
     (\<lambda>st. bind_res (decodeRoot hs bs st) (\<lambda>(h', b', st'). Inr ((h', b'), st'))) (h, b)"
proof -
  have fresh: "xchildren (emptyNode tag) = []" for tag by (simp add: emptyNode_def)
  have H: "decodes (encodeNodes hs h ''Header'') (decodeContainer hs (emptyNode ''Header'') ''Header'') h"
    using container_inverts [of hs] assms(1) fresh rootFrame_rebuild [OF assms(3)]
    by (metis inverts_def)
  have B: "decodes (encodeNodes bs b ''Body'') (decodeContainer bs (emptyNode ''Body'') ''Body'') b"
    using container_inverts [of bs] assms(2) fresh rootFrame_rebuild [OF assms(4)]
    by (metis inverts_def)
  have B': "decodes (encodeNodes bs b ''Body'')
      (\<lambda>st. bind_res (decodeContainer bs (emptyNode ''Body'') ''Body'' st)
          (\<lambda>(b', st'). Inr ((h, b'), st'))) (h, b)"
    by (rule decodes_then [OF B]) simp
  have "decodes (\<lambda>st. bind_res (encodeNodes hs h ''Header'' st) (encodeNodes bs b ''Body''))
      (\<lambda>st. bind_res (decodeContainer hs (emptyNode ''Header'') ''Header'' st)
          (\<lambda>(h', st'). bind_res (decodeContainer bs (emptyNode ''Body'') ''Body'' st')
              (\<lambda>(b', st''). Inr ((h', b'), st'')))) (h, b)"
    by (rule decodes_seq [OF H B']) simp
  moreover have "bind_res (decodeRoot hs bs st) (\<lambda>(h', b', st'). Inr ((h', b'), st'))
      = bind_res (decodeContainer hs (emptyNode ''Header'') ''Header'' st)
          (\<lambda>(h', st'). bind_res (decodeContainer bs (emptyNode ''Body'') ''Body'' st')
              (\<lambda>(b', st''). Inr ((h', b'), st'')))" for st
    by (auto simp: decodeRoot_def bind_res_def split: sum.splits)
  ultimately show ?thesis by simp
qed

text \<open>A length field that already holds the length is overwritten by itself.\<close>

lemma patched_bits_same:
  assumes "contiguous 0 fs" "lengthField fs = Some f"
    and "f_value f = of_nat (byteLength (length (layout_bits fs)))"
  shows "patched_bits fs = layout_bits fs"
proof -
  have f: "f \<in> set fs" using lengthField_in [OF assms(2)] by simp
  note s = contiguous_slice [OF assms(1) f, unfolded diff_zero add_0]
  have "layout_bits fs = take (f_bitOffset f) (layout_bits fs)
      @ take (f_bits f) (drop (f_bitOffset f) (layout_bits fs))
      @ drop (f_bitOffset f + f_bits f) (layout_bits fs)"
    by (metis append_take_drop_id drop_drop add.commute)
  then show ?thesis using assms(2,3) s(3) by (simp add: patched_bits_def)
qed

lemma decodeRoot_encoded:
  assumes enc: "codec_encode (Some d) name m = Inr e"
    and spec: "ds_messages d name = Some spec"
    and canon: "canonicalMessage spec m"
    and len: "lengthField (e_fields e) = Some f" "f_value f = of_nat (byteLength (e_bitLength e))"
  shows "0 < e_bitLength e \<and> e_bitLength e \<le> 8 * length (e_bytes e)
     \<and> decodeRoot (ms_header spec) (ms_body spec) (mkReader (e_bytes e) (int (e_bitLength e)), [])
       = Inr (m_header m, m_body m,
           advance (mkReader (e_bytes e) (int (e_bitLength e))) (e_bitLength e), e_fields e)"
proof -
  let ?st = "mkReader (e_bytes e) (int (e_bitLength e))"
  obtain w fs w' where encs: "bind_res (encodeNodes (ms_header spec) (m_header m) ''Header'' (emptyWriter, []))
        (encodeNodes (ms_body spec) (m_body m) ''Body'') = Inr (w, fs)"
    and fs: "e_fields e = fs"
    using codec_encode_Inr [OF enc] spec by (metis option.inject)
  note layout = codec_encode_layout [OF enc, unfolded fs]
  have total: "length (layout_bits fs) = e_bitLength e"
    using layout by (simp add: length_layout_bits)
  have bits: "bit_slice (e_bytes e) 0 (e_bitLength e) = layout_bits fs"
    using layout len patched_bits_same [of fs f] by (metis fs total)
  have pos: "0 < e_bitLength e"
  proof -
    have f: "f \<in> set fs" using lengthField_in [OF len(1)] fs by simp
    have "list_all (\<lambda>f. 0 < f_bits f) fs"
      using appendsD [OF encode_both_appends encs writer_ok_empty] by (auto simp: list_all_iff)
    with f have "0 < f_bits f" by (simp add: list_all_iff)
    with contiguous_slice(2) [of 0 fs f] f layout total show ?thesis by simp
  qed
  have room: "e_bitLength e \<le> 8 * length (e_bytes e)"
    using layout by (auto simp: byteLength_def)
  from canon have c: "decodes
     (\<lambda>st. bind_res (encodeNodes (ms_header spec) (m_header m) ''Header'' st)
        (encodeNodes (ms_body spec) (m_body m) ''Body''))
     (\<lambda>st. bind_res (decodeRoot (ms_header spec) (ms_body spec) st)
        (\<lambda>(h', b', st'). Inr ((h', b'), st'))) (m_header m, m_body m)"
    by (intro decodes_root) (auto simp: canonicalMessage_def)
  have "available ?st (layout_bits fs)"
    using pos by (simp add: available_def mkReader_def total bits)
  moreover have "r_offset ?st = w_bitLength emptyWriter" by (simp add: mkReader_def emptyWriter_def)
  ultimately have "bind_res (decodeRoot (ms_header spec) (ms_body spec) (?st, []))
        (\<lambda>(h', b', st'). Inr ((h', b'), st'))
      = Inr ((m_header m, m_body m), advance ?st (e_bitLength e), fs)"
    using decodesD [OF c encs writer_ok_empty] total by (metis append_Nil)
  then have dec: "decodeRoot (ms_header spec) (ms_body spec) (?st, [])
      = Inr (m_header m, m_body m, advance ?st (e_bitLength e), fs)"
    by (auto simp: bind_res_eq_Inr)
  with pos room fs show ?thesis by simp
qed

text \<open>The checks of \<open>decode\<close> around the decoding itself.\<close>

lemma codec_decode_from_root:
  assumes "ds_messages d name = Some spec" "0 < n" "n \<le> 8 * length bytes"
    and "decodeRoot (ms_header spec) (ms_body spec) (mkReader bytes (int n), [])
       = Inr (m_header m, m_body m, advance (mkReader bytes (int n)) n, fs)"
    and "declaredBytes fs = of_nat (byteLength n)"
    and "vr_valid (codec_validate (Some d) name m)" "m_message m = name" "m_case m = []"
  shows "codec_decode d name bytes (int n)
     = Inr \<lparr>dm_message = name, dm_xml = m, dm_fields = fs, dm_bitLength = n\<rparr>"
proof -
  have zero: "remainingBitsAreZero (advance (mkReader bytes (int n)) n)"
    using assms(2) by (simp add: remainingBitsAreZero_def advance_def mkReader_def)
  have m: "\<lparr>m_message = name, m_case = [], m_header = m_header m, m_body = m_body m\<rparr> = m"
    using assms(7,8) by (cases m) simp
  have "vr_valid (codec_validate (Some d) name
      \<lparr>m_message = name, m_case = [], m_header = m_header m, m_body = m_body m\<rparr>)"
    using assms(6) by (simp only: m)
  then have "codec_decode d name bytes (int n) = Inr \<lparr>dm_message = name,
      dm_xml = \<lparr>m_message = name, m_case = [], m_header = m_header m, m_body = m_body m\<rparr>,
      dm_fields = fs, dm_bitLength = n\<rparr>"
    unfolding codec_decode_def Let_def assms(1) option.case
    using assms(2-5) zero by (simp add: advance_def mkReader_def)
  then show ?thesis by (simp only: m)
qed

text \<open>C1. Decoding what was encoded gives the message back, for every dictionary and every
  canonical message whose length field is right: the same tree, the same field layouts, and a
  decoder that stops at the last bit.\<close>

theorem codec_roundtrip:
  assumes enc: "codec_encode (Some d) name m = Inr e"
    and spec: "ds_messages d name = Some spec" "ms_name spec = name"
    and canon: "canonicalMessage spec m"
    and len: "lengthField (e_fields e) = Some f" "f_value f = of_nat (byteLength (e_bitLength e))"
  shows "codec_decode d name (e_bytes e) (int (e_bitLength e))
     = Inr \<lparr>dm_message = name, dm_xml = m, dm_fields = e_fields e, dm_bitLength = e_bitLength e\<rparr>"
proof (rule codec_decode_from_root)
  show "vr_valid (codec_validate (Some d) name m)"
    using enc by (auto simp: codec_encode_def Let_def split: if_splits)
qed (use decodeRoot_encoded [OF enc spec(1) canon len] len canon spec in
    \<open>auto simp: declaredBytes_def canonicalMessage_def\<close>)

section \<open>What decode accepts\<close>

lemma decodeRoot_consumes:
  "consumes (\<lambda>st. bind_res (decodeRoot hs bs st) (\<lambda>(h, b, st'). Inr ((h, b), st')))"
proof -
  have "consumes (\<lambda>st. bind_res (decodeContainer hs (emptyNode ''Header'') ''Header'' st)
     (\<lambda>(h, st'). bind_res (decodeContainer bs (emptyNode ''Body'') ''Body'' st')
         (\<lambda>(b, st''). Inr ((h, b), st''))))"
    by (intro consumes_bind decodeContainer_consumes consumes_Inr)
  moreover have "bind_res (decodeRoot hs bs st) (\<lambda>(h, b, st'). Inr ((h, b), st'))
      = bind_res (decodeContainer hs (emptyNode ''Header'') ''Header'' st)
          (\<lambda>(h, st'). bind_res (decodeContainer bs (emptyNode ''Body'') ''Body'' st')
              (\<lambda>(b, st''). Inr ((h, b), st'')))" for st
    by (auto simp: decodeRoot_def bind_res_def split: sum.splits)
  ultimately show ?thesis by simp
qed

text \<open>The number of bits \<open>decode\<close> is given: \<open>bitLength\<close>, or all of the bytes.\<close>

definition givenBits :: "8 word list \<Rightarrow> int \<Rightarrow> nat" where
  "givenBits bytes bitLength = (if 0 < bitLength then nat bitLength else 8 * length bytes)"

lemma codec_decode_Inr:
  assumes "codec_decode d name bytes n = Inr r"
  obtains spec reader where "ds_messages d name = Some spec"
    "givenBits bytes n \<le> 8 * length bytes"
    "decodeRoot (ms_header spec) (ms_body spec) (mkReader bytes (int (givenBits bytes n)), [])
       = Inr (m_header (dm_xml r), m_body (dm_xml r), reader, dm_fields r)"
    "remainingBitsAreZero reader" "declaredBytes (dm_fields r) = of_nat (byteLength (givenBits bytes n))"
    "vr_valid (codec_validate (Some d) name (dm_xml r))" "dm_bitLength r = r_offset reader"
    "0 < givenBits bytes n" "m_message (dm_xml r) = name"
proof -
  have g: "(if 0 < n then n else int (length bytes) * 8) = int (givenBits bytes n)"
    by (simp add: givenBits_def)
  show thesis
    using assms that unfolding codec_decode_def Let_def g
    by (auto split: option.splits if_splits sum.splits)
qed

text \<open>C4. A message that decode returns has passed the validation, declares the number of bytes it
  was given, and its field layouts are exactly the bits that were read, from bit 0 to
  \<open>bitLength\<close>; every bit behind them is zero.\<close>

theorem codec_decode_sound:
  assumes "codec_decode d name bytes n = Inr r"
  shows "vr_valid (codec_validate (Some d) name (dm_xml r))
     \<and> declaredBytes (dm_fields r) = of_nat (byteLength (givenBits bytes n))
     \<and> contiguous 0 (dm_fields r) \<and> dm_bitLength r \<le> givenBits bytes n
     \<and> bit_slice bytes 0 (dm_bitLength r) = layout_bits (dm_fields r)
     \<and> (\<forall>i. dm_bitLength r \<le> i \<and> i < givenBits bytes n \<longrightarrow> \<not> bitAt bytes i)"
proof -
  let ?r = "mkReader bytes (int (givenBits bytes n))"
  obtain spec reader where "ds_messages d name = Some spec"
    "givenBits bytes n \<le> 8 * length bytes"
    and dec: "decodeRoot (ms_header spec) (ms_body spec) (?r, [])
       = Inr (m_header (dm_xml r), m_body (dm_xml r), reader, dm_fields r)"
    and zero: "remainingBitsAreZero reader"
    and decl: "declaredBytes (dm_fields r) = of_nat (byteLength (givenBits bytes n))"
    and valid: "vr_valid (codec_validate (Some d) name (dm_xml r))"
    and len: "dm_bitLength r = r_offset reader" and pos: "0 < givenBits bytes n"
    and "m_message (dm_xml r) = name"
    by (rule codec_decode_Inr [OF assms])
  have r: "r_bytes ?r = bytes" "r_offset ?r = 0" "r_bitLength ?r = givenBits bytes n"
    using pos by (simp_all add: mkReader_def)
  have "bind_res (decodeRoot (ms_header spec) (ms_body spec) (?r, [])) (\<lambda>(h, b, st'). Inr ((h, b), st'))
      = Inr ((m_header (dm_xml r), m_body (dm_xml r)), reader, dm_fields r)"
    by (simp add: dec)
  from consumesD [OF decodeRoot_consumes this] r
  obtain new where new: "dm_fields r = new" "contiguous 0 new" "available ?r (layout_bits new)"
      "reader = advance ?r (length (layout_bits new))"
    by (metis append_Nil le0)
  then have off: "dm_bitLength r = length (layout_bits new)"
    and rd: "r_bytes reader = bytes" "r_offset reader = length (layout_bits new)"
      "r_bitLength reader = givenBits bytes n"
    using len r by (simp_all add: advance_def)
  have "bit_slice bytes 0 (dm_bitLength r) = layout_bits new" "dm_bitLength r \<le> givenBits bytes n"
    using new(3) r by (simp_all add: available_def off)
  moreover have "\<forall>i. dm_bitLength r \<le> i \<and> i < givenBits bytes n \<longrightarrow> \<not> bitAt bytes i"
    using zero unfolding remainingBitsAreZero_def rd off by (auto simp: list_all_iff)
  ultimately show ?thesis using valid decl new by auto
qed

text \<open>What the codec encodes for a message type without a field named \<open>length\<close> it refuses to
  decode, whatever the bits: encoding such a message succeeds, decoding it never does.\<close>

lemma no_length_never_decodes:
  assumes "codec_decode d name bytes n = Inr r" "length bytes < 2 ^ 61"
  shows "lengthField (dm_fields r) \<noteq> None"
proof
  assume none: "lengthField (dm_fields r) = None"
  obtain spec reader where "ds_messages d name = Some spec"
    and room: "givenBits bytes n \<le> 8 * length bytes"
    and "decodeRoot (ms_header spec) (ms_body spec) (mkReader bytes (int (givenBits bytes n)), [])
       = Inr (m_header (dm_xml r), m_body (dm_xml r), reader, dm_fields r)"
    and "remainingBitsAreZero reader"
    and decl: "declaredBytes (dm_fields r) = of_nat (byteLength (givenBits bytes n))"
    and "vr_valid (codec_validate (Some d) name (dm_xml r))"
    and "dm_bitLength r = r_offset reader" and pos: "0 < givenBits bytes n"
    and "m_message (dm_xml r) = name"
    by (rule codec_decode_Inr [OF assms(1)])
  have "byteLength (givenBits bytes n) < 2 ^ 64" "0 < byteLength (givenBits bytes n)"
    using room assms(2) pos by (auto simp: byteLength_def)
  then have "(of_nat (byteLength (givenBits bytes n)) :: 64 word) \<noteq> 0"
    by (simp add: word_of_nat_eq_0_iff nat_dvd_not_less)
  with decl none show False by (simp add: declaredBytes_def)
qed

end
