(* ===== verification/VmfExample.thy ===== *)
theory VmfExample
  imports VmfCodec
begin

definition exHeader :: SpecNode where
  "exHeader = SpecNode ''Header'' [] [] [] 0 False False (-1)
     [SpecNode ''Field'' ''length'' [] [] 8 False False (-1) []]"

definition exBody :: SpecNode where
  "exBody = SpecNode ''Body'' [] [] [] 0 False False (-1)
     [SpecNode ''Group'' ''g'' [] [] 0 True False 3
        [SpecNode ''GRI'' [] ''1'' ''1'' 1 False False (-1) [],
         SpecNode ''DataUnit'' ''x'' ''1'' ''2'' 5 False False (-1) []]]"

definition exDict :: DictionarySet where
  "exDict = \<lparr>ds_content = [(''1'', ''2'') \<mapsto> \<lparr>ci_name = ''x'', ci_bits = 5, ci_allowed = {},
       ci_ranges = [(0, 20)]\<rparr>],
     ds_messages = [''M'' \<mapsto> \<lparr>ms_name = ''M'', ms_number = ''1'', ms_header = exHeader,
       ms_body = exBody, ms_rules = noRules\<rparr>], ds_valid = True\<rparr>"

definition exGroup :: "string \<Rightarrow> string \<Rightarrow> XmlNode" where
  "exGroup i v = XmlNode ''Group'' [''name'' \<mapsto> ''g''] []
     [XmlNode ''GRI'' [''DFI'' \<mapsto> ''1'', ''DUI'' \<mapsto> ''1''] i [],
      XmlNode ''DataUnit'' [''name'' \<mapsto> ''x'', ''DFI'' \<mapsto> ''1'', ''DUI'' \<mapsto> ''2''] v []]"

definition exMessage :: MessageXml where
  "exMessage = \<lparr>m_message = ''M'', m_case = [],
     m_header = XmlNode ''Header'' Map.empty []
       [XmlNode ''Field'' [''name'' \<mapsto> ''length''] ''3'' []],
     m_body = XmlNode ''Body'' Map.empty [] [exGroup ''1'' ''7'', exGroup ''0'' ''20'']\<rparr>"


lemmas ex_num = parseUnsigned_def trimmed_def is_space_def has_hex_prefix_def to_ulonglong_def skip_plus_def digit_val_def Let_def

lemma nums: "parseUnsigned ''0'' = Some 0" "parseUnsigned ''1'' = Some 1" "parseUnsigned ''3'' = Some 3" "parseUnsigned ''7'' = Some 7" "parseUnsigned ''20'' = Some 20"
  by (simp_all add: ex_num)

lemmas ex_val = exHeader_def exBody_def exDict_def exGroup_def exMessage_def
  findInstances_def locateInstances_def instanceOf_def named_def attribute_def isValueNode_def
  validateSpec_def validateInstance_def validateValueNode_def readNodeValue_def nums valueTooWide_def
  validateRepeatIndicator_def validateContainer_def findIndicator_def child_def repeatTag_def
  unexpectedNodes_def accepts_def

lemma t0: "validateChildren exHeader (m_header exMessage) p c = []"
  by (simp add: ex_val Let_def)
lemma t1: "validateChildren exBody (m_body exMessage) p (ds_content exDict) = []"
  by (simp add: ex_val Let_def)

lemma t2: "vr_valid (codec_validate (Some exDict) ''M'' exMessage)"
  using t0 t1
  by (simp add: codec_validate_def validateAgainst_def validateRules_def noRules_def Let_def) (simp add: ex_val validateAgainst_def validateRules_def noRules_def Let_def)


lemma writeLoop_numeral: "writeLoop v (numeral n) w = writeLoop v (pred_numeral n) (writeBit v (pred_numeral n) w)"
  by (simp add: numeral_eq_Suc)

lemma wl1: "writeLoop 3 8 emptyWriter = \<lparr>w_bytes = [3], w_bitLength = 8\<rparr>"
  by (simp add: writeLoop_numeral writeBit_def emptyWriter_def)


lemmas ex_enc = encodeValue_def writer_write_def valueTooWide_def writeBit_def emptyWriter_def mkField_def instanceCount_def instancePath_def
   number.simps digit_char_simps writeLoop_numeral

lemma e1: "encodeNodes exHeader (m_header exMessage) ''Header'' (emptyWriter, [])
   = Inr (\<lparr>w_bytes = [3], w_bitLength = 8\<rparr>, [\<lparr>f_path = ''Header.Field(length)'', f_tag = ''Field'', f_name = ''length'',
      f_dfi = [], f_dui = [], f_value = 3, f_bitOffset = 0, f_bits = 8\<rparr>])"
  by (simp add: ex_val ex_enc Let_def)

lemma e2: "\<exists>fs. encodeNodes exBody (m_body exMessage) ''Body'' (\<lparr>w_bytes = [3], w_bitLength = 8\<rparr>, gs)
   = Inr (\<lparr>w_bytes = [3, 157, 64], w_bitLength = 20\<rparr>, gs @ fs) \<and> map f_value fs = [1,7,0,20]"
  by (simp add: ex_val ex_enc Let_def)
lemma c1: "canonical exHeader (m_header exMessage)"
  by (simp add: ex_val ex_enc Let_def canonicalMember_def canonicalValue_def valueNode_def withAttribute_def)
lemma c2: "canonical exBody (m_body exMessage)"
  by (simp add: ex_val ex_enc Let_def canonicalMember_def canonicalValue_def valueNode_def withAttribute_def canonicalFrame_def containerNode_def maxCount_def indicatorValue_def fun_eq_iff)


lemma ex_encode: "\<exists>e. codec_encode (Some exDict) ''M'' exMessage = Inr e \<and> e_bytes e = [3, 157, 64]
   \<and> e_bitLength e = 20 \<and> lengthField (e_fields e) = Some \<lparr>f_path = ''Header.Field(length)'', f_tag = ''Field'', f_name = ''length'',
      f_dfi = [], f_dui = [], f_value = 3, f_bitOffset = 0, f_bits = 8\<rparr>"
proof -
  obtain fs where fs: "encodeNodes exBody (m_body exMessage) ''Body'' (\<lparr>w_bytes = [3], w_bitLength = 8\<rparr>,
       [\<lparr>f_path = ''Header.Field(length)'', f_tag = ''Field'', f_name = ''length'',
      f_dfi = [], f_dui = [], f_value = 3, f_bitOffset = 0, f_bits = 8\<rparr>])
   = Inr (\<lparr>w_bytes = [3, 157, 64], w_bitLength = 20\<rparr>, [\<lparr>f_path = ''Header.Field(length)'', f_tag = ''Field'', f_name = ''length'',
      f_dfi = [], f_dui = [], f_value = 3, f_bitOffset = 0, f_bits = 8\<rparr>] @ fs)"
    using e2 by blast
  have d: "ds_messages exDict ''M'' = Some \<lparr>ms_name = ''M'', ms_number = ''1'', ms_header = exHeader,
       ms_body = exBody, ms_rules = noRules\<rparr>" by (simp add: exDict_def)
  show ?thesis
    by (simp add: codec_encode_def t2 d e1 fs Let_def patchLength_def lengthField_def writer_set_def setLoop_def
      setBit_def byteLength_def valueTooWide_def upt_rec)
qed
section \<open>The codec theorems on the example\<close>

lemma codec_encode_layout_witness:
  "\<exists>e. codec_encode (Some exDict) ''M'' exMessage = Inr e
     \<and> bit_slice (e_bytes e) 0 20 = patched_bits (e_fields e)"
proof -
  obtain e where e: "codec_encode (Some exDict) ''M'' exMessage = Inr e" "e_bitLength e = 20"
    using ex_encode by blast
  from codec_encode_layout [OF e(1)] e show ?thesis by auto
qed

lemma ex_canonical: "canonicalMessage \<lparr>ms_name = ''M'', ms_number = ''1'', ms_header = exHeader,
       ms_body = exBody, ms_rules = noRules\<rparr> exMessage"
  using c1 c2 by (simp add: canonicalMessage_def rootFrame_def) (simp add: exMessage_def)

definition exBits :: "8 word list" where
  "exBits = [3, 157, 64]"

lemma ex_decode_exists: "\<exists>r. codec_decode exDict ''M'' exBits 20 = Inr r"
proof -
  obtain e where e: "codec_encode (Some exDict) ''M'' exMessage = Inr e" "e_bytes e = exBits"
      "e_bitLength e = 20" "lengthField (e_fields e) = Some \<lparr>f_path = ''Header.Field(length)'',
         f_tag = ''Field'', f_name = ''length'', f_dfi = [], f_dui = [], f_value = 3, f_bitOffset = 0,
         f_bits = 8\<rparr>"
    using ex_encode by (auto simp: exBits_def)
  have d: "ds_messages exDict ''M'' = Some \<lparr>ms_name = ''M'', ms_number = ''1'', ms_header = exHeader,
       ms_body = exBody, ms_rules = noRules\<rparr>" by (simp add: exDict_def)
  have "m_message exMessage = ''M''" "m_case exMessage = []" by (simp_all add: exMessage_def)
  with codec_decode_from_root [OF d _ _ _ _ t2, of 20 exBits "e_fields e"]
    decodeRoot_encoded [OF e(1) d ex_canonical e(4)] e(2,3,4)
  show ?thesis by (auto simp: byteLength_def declaredBytes_def)
qed

lemma codec_roundtrip_witness:
  "\<exists>e. codec_encode (Some exDict) ''M'' exMessage = Inr e
     \<and> codec_decode exDict ''M'' (e_bytes e) (int (e_bitLength e))
       = Inr \<lparr>dm_message = ''M'', dm_xml = exMessage, dm_fields = e_fields e, dm_bitLength = 20\<rparr>"
proof -
  obtain e where e: "codec_encode (Some exDict) ''M'' exMessage = Inr e" "e_bitLength e = 20"
      "lengthField (e_fields e) = Some \<lparr>f_path = ''Header.Field(length)'',
         f_tag = ''Field'', f_name = ''length'', f_dfi = [], f_dui = [], f_value = 3, f_bitOffset = 0,
         f_bits = 8\<rparr>"
    using ex_encode by blast
  have d: "ds_messages exDict ''M'' = Some \<lparr>ms_name = ''M'', ms_number = ''1'', ms_header = exHeader,
       ms_body = exBody, ms_rules = noRules\<rparr>" by (simp add: exDict_def)
  from codec_roundtrip [OF e(1) d _ ex_canonical e(3)] e show ?thesis by (simp add: byteLength_def)
qed

lemma codec_decode_sound_witness:
  "\<exists>r. codec_decode exDict ''M'' exBits 20 = Inr r
     \<and> bit_slice exBits 0 (dm_bitLength r) = layout_bits (dm_fields r)"
proof -
  obtain r where r: "codec_decode exDict ''M'' exBits 20 = Inr r"
    using ex_decode_exists by blast
  with codec_decode_sound [OF r] show ?thesis by blast
qed

lemma no_length_never_decodes_witness:
  "\<exists>r. codec_decode exDict ''M'' exBits 20 = Inr r \<and> lengthField (dm_fields r) \<noteq> None"
proof -
  obtain r where r: "codec_decode exDict ''M'' exBits 20 = Inr r"
    using ex_decode_exists by blast
  with no_length_never_decodes [OF r] show ?thesis by (auto simp: exBits_def)
qed

section \<open>Rules and validation on examples\<close>

lemma validated_children_witness:
  "countAllowed (hd (schildren exBody)) (length (findInstances (m_body exMessage) (hd (schildren exBody))))"
  using validated_children [OF t1] by (simp add: exBody_def)

definition exNever :: XmlNode where
  "exNever = XmlNode ''All'' Map.empty [] []"

lemma logical_expression_semantics_witness:
  "evaluateExpression (XmlNode ''Any'' Map.empty [] [exNever, XmlNode ''Not'' Map.empty [] [exNever]])
      (exNever, exNever, Map.empty)
     = Inr True"
  by (subst logical_expression_semantics [where rs = "[False, True]"]) (simp_all add: exNever_def)

text \<open>A body with one value \<open>x\<close>, a comparison of it with 1, and a message with another value.\<close>

definition exValueSpec :: SpecNode where
  "exValueSpec = SpecNode ''Body'' [] [] [] 0 False False (-1)
     [SpecNode ''DataUnit'' ''x'' ''1'' ''2'' 5 False False (-1) []]"

definition exCmp :: "string \<Rightarrow> XmlNode" where
  "exCmp v = XmlNode ''Cmp'' [''path'' \<mapsto> ''B.D(x)'', ''op'' \<mapsto> ''eq'', ''value'' \<mapsto> v] [] []"

definition exValue :: "string \<Rightarrow> XmlNode" where
  "exValue v = XmlNode ''Body'' Map.empty [] [XmlNode ''DataUnit'' [''name'' \<mapsto> ''x''] v []]"

definition exRules :: XmlNode where
  "exRules = XmlNode ''Rules'' Map.empty [] [XmlNode ''ConditionRules'' Map.empty []
     [XmlNode ''Condition'' [''id'' \<mapsto> ''c''] []
        [XmlNode ''If'' Map.empty [] [exCmp ''7''], XmlNode ''Then'' Map.empty [] [exCmp ''1'']]]]"

lemma ex_segment: "parseSegment ''D(x)'' = Some \<lparr>s_kind = CHR ''D'', s_name = ''x'',
    s_indexed = False, s_wildcard = False, s_index = 0\<rparr>"
  using parseSegment_print [of "\<lparr>s_kind = CHR ''D'', s_name = ''x'', s_indexed = False,
      s_wildcard = False, s_index = 0\<rparr>"]
  by (simp add: printSegment_def segment_ok_def trimmed_def is_space_def)

lemma ex_path: "splitPath ''B.D(x)'' = [''B'', ''D(x)'']"
  by (simp add: splitPath_def)

lemma ex_check: "validateRulePath ''B.D(x)'' exHeader exValueSpec aliases True"
  by (simp add: validateRulePath_def expandRuleAlias_def starts_with_def ends_with_def ex_path Let_def
      ex_segment specStep_def matchingSpecChildren_def exValueSpec_def isValueNode_def)

lemma exValue_children: "xchildren (exValue v) = [XmlNode ''DataUnit'' [''name'' \<mapsto> ''x''] v []]"
  by (simp add: exValue_def)

lemma ex_resolve: "resolvePath h (exValue v) ''B.D(x)'' aliases b = xchildren (exValue v)"
  by (simp add: resolvePath_def starts_with_def ex_path Let_def ex_segment actualStep_def
      actualMatches_def exValue_def attribute_def)

lemma ex_cmp: "v \<in> {''1'', ''7''} \<Longrightarrow> validateExpressionDefinition (exCmp v) (exHeader, exValueSpec, aliases) p = []"
  by (auto simp: exCmp_def validateCmpDefinition_def attribute_def has_attribute_def trimmed_def
      is_space_def supportedCompareOperator_def isSetOperator_def checkPath_def ex_check nums)

lemma checked_expression_evaluates_witness:
  "evaluateExpression (exCmp ''1'') (emptyNode ''Header'', emptyNode ''Body'', Map.empty) = Inl LeftUnresolved
   \<and> (LeftUnresolved = LeftUnresolved \<or> LeftUnresolved = LeftNotInteger \<or> LeftUnresolved = TargetUnresolved)"
proof
  show e: "evaluateExpression (exCmp ''1'') (emptyNode ''Header'', emptyNode ''Body'', Map.empty)
      = Inl LeftUnresolved"
    by (simp add: exCmp_def evaluateCmp_def attribute_def has_attribute_def trimmed_def is_space_def
        leftOperand_def resolveIn_def resolvePath_def starts_with_def ends_with_def iterationSuffix_def ex_path
        ex_segment actualStep_def actualMatches_def emptyNode_def isSetOperator_def Let_def)
  show "LeftUnresolved = LeftUnresolved \<or> LeftUnresolved = LeftNotInteger \<or> LeftUnresolved = TargetUnresolved"
    by (rule checked_expression_evaluates [OF ex_cmp e]) simp
qed

lemma ex_eval: "v \<in> {''1'', ''7''} \<Longrightarrow>
    evaluateExpression (exCmp v) (h, exValue ''7'', aliases) = Inr (v = ''7'')"
  by (auto simp: exCmp_def evaluateCmp_def attribute_def has_attribute_def trimmed_def is_space_def
      leftOperand_def resolveIn_def ends_with_def iterationSuffix_def ex_resolve isSetOperator_def
      Let_def exValue_children nums supportedCompareOperator_def compareValue_def)

lemma accepted_rules_reports_witness:
  "mkError ''CONDITION_FAILED'' ''c'' \<in> set (validateRules exRules [] (emptyNode ''Header'') (exValue ''7''))
   \<and> d_code (mkError ''CONDITION_FAILED'' ''c'') \<in> {''RULE_EVAL'', ''CASE_MISMATCH'', ''CONDITION_FAILED''}"
proof
  have "validateRuleDefinitions exRules exHeader exValueSpec = []"
    by (simp add: validateRuleDefinitions_def exRules_def childrenOf_def child_def children_def named_def
        checkCondition_def attribute_def trimmed_def is_space_def ex_cmp Let_def)
  moreover show in_set: "mkError ''CONDITION_FAILED'' ''c''
      \<in> set (validateRules exRules [] (emptyNode ''Header'') (exValue ''7''))"
    by (simp add: validateRules_def exRules_def childrenOf_def child_def children_def named_def
        evaluateCondition_def attribute_def trimmed_def is_space_def ex_eval Let_def)
  ultimately show "d_code (mkError ''CONDITION_FAILED'' ''c'') \<in> {''RULE_EVAL'', ''CASE_MISMATCH'', ''CONDITION_FAILED''}"
    by (rule accepted_rules_reports)
qed

end
