(* ===== verification/CombatResolver.thy ===== *)
theory CombatResolver
  imports QtString Complex_Main
begin

text \<open>
  One shot of a weapon (\<open>src/src/core/CombatResolver.{h,cpp}\<close>). The hash of the shot is computed
  on \<open>64 word\<close>, wrap-around included. A \<open>double\<close> is a finite rational or not finite; arithmetic on
  finite values is exact, so rounding and overflow to infinity are left out (\<open>unitSample\<close> is
  exact in the code as well: 53 bits scaled by a power of two).
\<close>

unbundle bit_operations_syntax

section \<open>Hashing\<close>

definition mix64 :: "64 word \<Rightarrow> 64 word" where
  "mix64 v0 =
     (let v1 = v0 + 0x9e3779b97f4a7c15;
          v2 = (v1 XOR drop_bit 30 v1) * 0xbf58476d1ce4e5b9;
          v3 = (v2 XOR drop_bit 27 v2) * 0x94d049bb133111eb
      in v3 XOR drop_bit 31 v3)"

definition hashBytes :: "64 word \<Rightarrow> 8 word list \<Rightarrow> 64 word" where
  "hashBytes seed bytes = fold (\<lambda>byte v. mix64 (v XOR ucast byte)) bytes seed"

definition unitSample :: "64 word \<Rightarrow> rat" where
  "unitSample v = of_nat (unat (drop_bit 11 v)) * (1 / 9007199254740992)"

section \<open>Requests and outcomes\<close>

datatype double = Finite (finiteValue: rat) | NotFinite

definition isfinite :: "double \<Rightarrow> bool" where
  "isfinite d \<longleftrightarrow> (case d of Finite r \<Rightarrow> True | NotFinite \<Rightarrow> False)"

record WeaponProfile =
  hitProbability :: double
  minRange :: double
  optimalRange :: double
  maxRange :: double
  damageMin :: double
  damageMax :: double
  rangeFalloff :: double

record CombatRequest =
  req_attackerId :: string
  req_targetId :: string
  req_shotSequence :: "64 word"
  req_distance :: double
  req_attackerEffectiveness :: double
  req_weapon :: WeaponProfile

datatype ShotResult = OutOfRange | Miss | Hit

record CombatOutcome =
  out_shotId :: string
  out_result :: ShotResult
  out_effectiveProbability :: rat
  out_roll :: rat
  out_damage :: rat

text \<open>\<open>toUtf8\<close> on characters below U+0100.\<close>

definition utf8_char :: "char \<Rightarrow> 8 word list" where
  "utf8_char c =
     (let k = code_of c in
      if k < 128 then [of_nat k] else [of_nat (192 + k div 64), of_nat (128 + k mod 64)])"

definition toUtf8 :: "string \<Rightarrow> 8 word list" where
  "toUtf8 s = concat (map utf8_char s)"

definition shotSeed :: "CombatRequest \<Rightarrow> 64 word \<Rightarrow> 64 word" where
  "shotSeed request battleSeed =
     hashBytes (hashBytes (mix64 (battleSeed XOR req_shotSequence request))
                  (toUtf8 (req_attackerId request)))
       (toUtf8 (req_targetId request))"

section \<open>Resolution\<close>

definition clamp :: "rat \<Rightarrow> rat \<Rightarrow> rat \<Rightarrow> rat" where
  "clamp v lo hi = (if v < lo then lo else if hi < v then hi else v)"

definition allFinite :: "CombatRequest \<Rightarrow> bool" where
  "allFinite request \<longleftrightarrow>
     (let w = req_weapon request in
      isfinite (req_distance request) \<and> isfinite (req_attackerEffectiveness request)
      \<and> isfinite (hitProbability w) \<and> isfinite (minRange w) \<and> isfinite (optimalRange w)
      \<and> isfinite (maxRange w) \<and> isfinite (damageMin w) \<and> isfinite (damageMax w)
      \<and> isfinite (rangeFalloff w))"

definition outOfRange :: "CombatRequest \<Rightarrow> bool" where
  "outOfRange request \<longleftrightarrow>
     (let w = req_weapon request; d = finiteValue (req_distance request) in
      \<not> allFinite request \<or> d < finiteValue (minRange w) \<or> finiteValue (maxRange w) < d
      \<or> finiteValue (maxRange w) < finiteValue (minRange w)
      \<or> finiteValue (damageMax w) < finiteValue (damageMin w))"

definition effectiveProbability :: "CombatRequest \<Rightarrow> rat" where
  "effectiveProbability request =
     (let w = req_weapon request; d = finiteValue (req_distance request);
          opt = finiteValue (optimalRange w); mx = finiteValue (maxRange w);
          p0 = clamp (finiteValue (hitProbability w)) 0 1;
          p1 = (if p0 < 1
                then p0 * clamp (finiteValue (req_attackerEffectiveness request)) 0 1 else p0);
          p2 = (if opt < d \<and> opt < mx
                then p1 * max 0 (1 - max 0 (finiteValue (rangeFalloff w)) * ((d - opt) / (mx - opt)))
                else p1)
      in clamp p2 0 1)"

definition damageSeed :: "64 word" where
  "damageSeed = 0xd1b54a32d192ed03"

definition resolve :: "CombatRequest \<Rightarrow> 64 word \<Rightarrow> CombatOutcome" where
  "resolve request battleSeed =
     (let w = req_weapon request;
          outcome = \<lparr>out_shotId = req_attackerId request @ '':'' @ number (unat (req_shotSequence request)),
                     out_result = OutOfRange, out_effectiveProbability = 0, out_roll = 0,
                     out_damage = 0\<rparr>
      in if outOfRange request then outcome
         else
           (let p = effectiveProbability request;
                seed = shotSeed request battleSeed;
                roll = unitSample (mix64 seed);
                rolled = outcome\<lparr>out_effectiveProbability := p, out_roll := roll\<rparr>
            in if p \<le> roll then rolled\<lparr>out_result := Miss\<rparr>
               else rolled\<lparr>out_result := Hit,
                      out_damage := max 0 (finiteValue (damageMin w)
                        + (finiteValue (damageMax w) - finiteValue (damageMin w))
                          * unitSample (mix64 (seed XOR damageSeed)))\<rparr>))"

section \<open>The hash loses nothing\<close>

lemma xor_shift_inj:
  fixes x y :: "64 word"
  assumes "0 < k" "x XOR drop_bit k x = y XOR drop_bit k y"
  shows "x = y"
proof -
  have step: "bit x n = bit y n \<longleftrightarrow> bit x (n + k) = bit y (n + k)" for n
    using arg_cong [OF assms(2), of "\<lambda>w. bit w n"]
    by (auto simp: bit_xor_iff bit_drop_bit_eq add.commute)
  have "bit x n = bit y n \<longleftrightarrow> bit x (n + j * k) = bit y (n + j * k)" for n j
  proof (induction j)
    case (Suc j)
    then show ?case using step [of "n + j * k"] by (simp add: algebra_simps)
  qed simp
  moreover have "\<not> bit w (n + 64 * k)" for w :: "64 word" and n
    using assms(1) by (auto dest: bit_imp_le_length)
  ultimately show ?thesis by (metis bit_word_eqI)
qed

lemma mult_inj:
  fixes x y c d :: "64 word"
  assumes "c * d = 1" "x * c = y * c"
  shows "x = y"
proof -
  have "x * c * d = y * c * d" using assms(2) by simp
  then show ?thesis using assms(1) by (simp add: mult.assoc)
qed

lemma mix64_inj: "mix64 x = mix64 y \<longleftrightarrow> x = y"
proof
  have c1: "(0xbf58476d1ce4e5b9 :: 64 word) * 10871156337175269513 = 1"
    and c2: "(0x94d049bb133111eb :: 64 word) * 3573116690164977347 = 1"
    by simp_all
  assume eq: "mix64 x = mix64 y"
  define v1 v2 v3 :: "64 word \<Rightarrow> 64 word"
    where "v1 v = v + 0x9e3779b97f4a7c15"
      and "v2 v = (v1 v XOR drop_bit 30 (v1 v)) * 0xbf58476d1ce4e5b9"
      and "v3 v = (v2 v XOR drop_bit 27 (v2 v)) * 0x94d049bb133111eb" for v
  have m: "mix64 v = v3 v XOR drop_bit 31 (v3 v)" for v
    unfolding mix64_def Let_def v1_def v2_def v3_def by (rule refl)
  from eq have "v3 x = v3 y" unfolding m by (rule xor_shift_inj [rotated]) simp
  then have "v2 x XOR drop_bit 27 (v2 x) = v2 y XOR drop_bit 27 (v2 y)"
    unfolding v3_def by (rule mult_inj [OF c2])
  then have "v2 x = v2 y" by (rule xor_shift_inj [rotated]) simp
  then have "v1 x XOR drop_bit 30 (v1 x) = v1 y XOR drop_bit 30 (v1 y)"
    unfolding v2_def by (rule mult_inj [OF c1])
  then have "v1 x = v1 y" by (rule xor_shift_inj [rotated]) simp
  then show "x = y" by (simp add: v1_def)
qed simp

lemma xor_cancel: "a XOR c = b XOR c \<longleftrightarrow> a = (b :: 64 word)"
  by (metis bit_xor_iff bit_word_eqI)

lemma xor_cancel': "c XOR a = c XOR b \<longleftrightarrow> a = (b :: 64 word)"
  by (metis bit_xor_iff bit_word_eqI)

lemma hashBytes_inj: "hashBytes s bytes = hashBytes t bytes \<longleftrightarrow> s = t"
proof (induction bytes arbitrary: s t)
  case (Cons b bytes)
  have "hashBytes u (b # bytes) = hashBytes (mix64 (u XOR ucast b)) bytes" for u
    by (simp add: hashBytes_def)
  moreover have "s XOR ucast b = t XOR ucast b \<longleftrightarrow> s = t" by (rule xor_cancel)
  ultimately show ?case using Cons by (simp add: mix64_inj)
qed (simp add: hashBytes_def)


text \<open>The seed of a shot is a one-to-one function of its sequence number, and of the seed of the
  battle: no two shots of the same pair of units in a battle draw from the same seed.\<close>

lemma shotSeed_injective:
  "(shotSeed (request\<lparr>req_shotSequence := m\<rparr>) battle = shotSeed (request\<lparr>req_shotSequence := n\<rparr>) battle
     \<longleftrightarrow> m = n)
   \<and> (shotSeed request b1 = shotSeed request b2 \<longleftrightarrow> b1 = b2)"
  by (simp add: shotSeed_def hashBytes_inj mix64_inj xor_cancel xor_cancel')

section \<open>Outcomes\<close>

lemma unitSample_bounds: "0 \<le> unitSample v \<and> unitSample v < 1"
proof -
  define n where "n = unat (drop_bit 11 v)"
  have "n < 2 ^ 53"
    using unsigned_less [of v, where 'a = nat] by (simp add: n_def drop_bit_eq_div unat_div)
  then have "(of_nat n :: rat) < of_nat (2 ^ 53)" by (simp only: of_nat_less_iff)
  then show ?thesis unfolding unitSample_def n_def [symmetric] by simp
qed

lemma clamp_bounds: "lo \<le> hi \<Longrightarrow> lo \<le> clamp v lo hi \<and> clamp v lo hi \<le> hi"
  by (simp add: clamp_def)


lemma effectiveProbability_bounds: "0 \<le> effectiveProbability r \<and> effectiveProbability r \<le> 1"
  unfolding effectiveProbability_def Let_def by (rule clamp_bounds) simp

lemma between: "lo \<le> hi \<Longrightarrow> 0 \<le> u \<Longrightarrow> u < 1 \<Longrightarrow> lo \<le> lo + (hi - lo) * u \<and> lo + (hi - lo) * u \<le> (hi :: rat)"
  using mult_left_le [of u "hi - lo"] by simp

text \<open>C39. Whatever the request, the probability is between 0 and 1 and the roll at least 0 and below
  1; a shot hits exactly when its roll is below its probability, only a hit does damage, and the
  damage of a hit is between the two bounds of the weapon (not below 0).\<close>

lemma resolve_outcome:
  "0 \<le> out_effectiveProbability (resolve r s) \<and> out_effectiveProbability (resolve r s) \<le> 1
   \<and> 0 \<le> out_roll (resolve r s) \<and> out_roll (resolve r s) < 1
   \<and> (out_result (resolve r s) = OutOfRange \<longleftrightarrow> outOfRange r)
   \<and> (out_result (resolve r s) = Hit \<longleftrightarrow> \<not> outOfRange r
        \<and> out_roll (resolve r s) < out_effectiveProbability (resolve r s))
   \<and> (if out_result (resolve r s) = Hit
      then max 0 (finiteValue (damageMin (req_weapon r))) \<le> out_damage (resolve r s)
           \<and> out_damage (resolve r s) \<le> max 0 (finiteValue (damageMax (req_weapon r)))
      else out_damage (resolve r s) = 0)"
proof (cases "outOfRange r")
  case True
  then show ?thesis by (simp add: resolve_def Let_def)
next
  case False
  let ?lo = "finiteValue (damageMin (req_weapon r))" and ?hi = "finiteValue (damageMax (req_weapon r))"
  from False have "?lo \<le> ?hi" by (simp add: outOfRange_def Let_def not_less)
  note b = between [OF this]
  show ?thesis
    using False effectiveProbability_bounds [of r] unitSample_bounds b
    by (simp add: resolve_def Let_def) (auto simp: max_def intro: order_trans)
qed

text \<open>A weapon with hit probability 1 hits every target in range up to its optimal range, for
  every seed and every ECM effectiveness.\<close>

lemma certain_hit:
  assumes "\<not> outOfRange r" "1 \<le> finiteValue (hitProbability (req_weapon r))"
    and "finiteValue (req_distance r) \<le> finiteValue (optimalRange (req_weapon r))"
  shows "out_result (resolve r s) = Hit"
proof -
  have "effectiveProbability r = 1"
    using assms(2,3) by (simp add: effectiveProbability_def Let_def clamp_def)
  with assms(1) unitSample_bounds show ?thesis by (simp add: resolve_def Let_def not_le)
qed

text \<open>Beyond the optimal range the guarantee does not hold: with a range falloff of 1 or more such
  a weapon always misses at its maximal range.\<close>

lemma certain_weapon_misses_at_max_range:
  assumes "\<not> outOfRange r" "1 \<le> finiteValue (hitProbability (req_weapon r))"
    and "finiteValue (req_distance r) = finiteValue (maxRange (req_weapon r))"
    and "finiteValue (optimalRange (req_weapon r)) < finiteValue (maxRange (req_weapon r))"
    and "1 \<le> finiteValue (rangeFalloff (req_weapon r))"
  shows "out_result (resolve r s) = Miss"
proof -
  have "effectiveProbability r = 0"
    using assms(2-5) by (simp add: effectiveProbability_def Let_def clamp_def max_def)
  with assms(1) unitSample_bounds show ?thesis by (simp add: resolve_def Let_def)
qed

definition exShot :: "rat \<Rightarrow> rat \<Rightarrow> CombatRequest" where
  "exShot d falloff = \<lparr>req_attackerId = ''a'', req_targetId = ''b'', req_shotSequence = 1,
     req_distance = Finite d, req_attackerEffectiveness = Finite 0,
     req_weapon = \<lparr>hitProbability = Finite 1, minRange = Finite 300, optimalRange = Finite 1500,
       maxRange = Finite 2500, damageMin = Finite 80, damageMax = Finite 110,
       rangeFalloff = Finite falloff\<rparr>\<rparr>"

lemma exShot_in_range: "300 \<le> d \<Longrightarrow> d \<le> 2500 \<Longrightarrow> \<not> outOfRange (exShot d f)"
  by (simp add: outOfRange_def allFinite_def isfinite_def exShot_def Let_def not_less)

lemma certain_hit_witness: "out_result (resolve (exShot 1000 1) 7) = Hit"
  by (rule certain_hit [OF exShot_in_range]) (simp_all add: exShot_def)

lemma certain_weapon_misses_at_max_range_witness: "out_result (resolve (exShot 2500 1) 7) = Miss"
  by (rule certain_weapon_misses_at_max_range [OF exShot_in_range]) (simp_all add: exShot_def)

end
