(* ===== verification/UnitFsm.thy ===== *)
theory UnitFsm
  imports QtString Complex_Main
begin

text \<open>
  The finite state machine of a unit (\<open>src/src/core/UnitFsm.{h,cpp}\<close>). The callbacks act on the
  unit, the type \<open>'w\<close>: an update may also ask for changes of state (the \<open>goTo\<close> calls that the
  units' update callbacks make), which take effect in order when it returns; \<open>onEnter\<close>, \<open>onExit\<close>
  and conditions leave the machine alone. An empty \<open>std::function\<close> is \<open>None\<close>.
\<close>

record 'w Transition =
  toState :: string
  condition :: "('w \<Rightarrow> bool) option"

record 'w StateDef =
  update :: "(rat \<Rightarrow> 'w \<Rightarrow> 'w \<times> string list) option"
  onEnter :: "('w \<Rightarrow> 'w) option"
  onExit :: "('w \<Rightarrow> 'w) option"
  transitions :: "'w Transition list"

record 'w Fsm =
  m_states :: "string \<rightharpoonup> 'w StateDef"
  m_current :: string
  m_initialized :: bool

definition emptyFsm :: "'w Fsm" where
  "emptyFsm = \<lparr>m_states = Map.empty, m_current = [], m_initialized = False\<rparr>"

definition runOptional :: "('w \<Rightarrow> 'w) option \<Rightarrow> 'w \<Rightarrow> 'w" where
  "runOptional f w = (case f of None \<Rightarrow> w | Some g \<Rightarrow> g w)"

definition setInitialState :: "string \<Rightarrow> 'w Fsm \<times> 'w \<Rightarrow> 'w Fsm \<times> 'w" where
  "setInitialState state = (\<lambda>(fsm, w).
     if m_initialized fsm then (fsm, w)
     else (fsm\<lparr>m_current := state, m_initialized := True\<rparr>,
           case m_states fsm state of None \<Rightarrow> w | Some def \<Rightarrow> runOptional (onEnter def) w))"

definition addState :: "string \<Rightarrow> (rat \<Rightarrow> 'w \<Rightarrow> 'w \<times> string list) option \<Rightarrow> ('w \<Rightarrow> 'w) option
    \<Rightarrow> ('w \<Rightarrow> 'w) option \<Rightarrow> 'w Fsm \<Rightarrow> 'w Fsm" where
  "addState name upd enter leave fsm =
     fsm\<lparr>m_states := (m_states fsm)(name \<mapsto>
        \<lparr>update = upd, onEnter = enter, onExit = leave, transitions = []\<rparr>)\<rparr>"

definition addTransition :: "string \<Rightarrow> string \<Rightarrow> ('w \<Rightarrow> bool) option \<Rightarrow> 'w Fsm \<Rightarrow> 'w Fsm" where
  "addTransition src dst cond fsm =
     (case m_states fsm src of
        None \<Rightarrow> fsm
      | Some def \<Rightarrow> fsm\<lparr>m_states := (m_states fsm)(src \<mapsto>
          def\<lparr>transitions := transitions def @ [\<lparr>toState = dst, condition = cond\<rparr>]\<rparr>)\<rparr>)"

definition goTo :: "string \<Rightarrow> 'w Fsm \<times> 'w \<Rightarrow> 'w Fsm \<times> 'w" where
  "goTo state = (\<lambda>(fsm, w).
     if m_current fsm = state then (fsm, w)
     else (case m_states fsm state of
             None \<Rightarrow> (fsm, w)
           | Some def \<Rightarrow>
               (let w1 = (case m_states fsm (m_current fsm) of
                            None \<Rightarrow> w | Some old \<Rightarrow> runOptional (onExit old) w)
                in (fsm\<lparr>m_current := state\<rparr>, runOptional (onEnter def) w1))))"

definition enabled :: "'w \<Rightarrow> 'w Transition \<Rightarrow> bool" where
  "enabled w tr \<longleftrightarrow> (case condition tr of None \<Rightarrow> False | Some c \<Rightarrow> c w)"

text \<open>The transition part of \<open>tick\<close>: the first enabled transition, if any.\<close>

definition takeTransition :: "'w Fsm \<times> 'w \<Rightarrow> 'w Fsm \<times> 'w" where
  "takeTransition = (\<lambda>(fsm, w).
     case m_states fsm (m_current fsm) of
       None \<Rightarrow> (fsm, w)
     | Some def \<Rightarrow>
         (case find (enabled w) (transitions def) of
            None \<Rightarrow> (fsm, w)
          | Some tr \<Rightarrow> goTo (toState tr) (fsm, w)))"

definition tick :: "rat \<Rightarrow> 'w Fsm \<times> 'w \<Rightarrow> 'w Fsm \<times> 'w" where
  "tick dt = (\<lambda>(fsm, w).
     case m_states fsm (m_current fsm) of
       None \<Rightarrow> (fsm, w)
     | Some _ \<Rightarrow>
         (let (fsm1, w1) = takeTransition (fsm, w)
          in case m_states fsm1 (m_current fsm1) of
               None \<Rightarrow> (fsm1, w1)
             | Some def \<Rightarrow>
                 (case update def of
                    None \<Rightarrow> (fsm1, w1)
                  | Some f \<Rightarrow> (let (w2, requests) = f dt w1 in fold goTo requests (fsm1, w2)))))"

section \<open>The current state\<close>

text \<open>The invariant: an initialised machine is in a state that has been registered.\<close>

definition fsm_ok :: "'w Fsm \<Rightarrow> bool" where
  "fsm_ok fsm \<longleftrightarrow> (m_initialized fsm \<longrightarrow> m_states fsm (m_current fsm) \<noteq> None)"

lemma goTo_states [simp]: "m_states (fst (goTo s x)) = m_states (fst x)"
  "m_initialized (fst (goTo s x)) = m_initialized (fst x)"
  by (cases x, simp add: goTo_def Let_def split: option.splits)+

lemma goTo_current:
  "m_current (fst (goTo s x)) = (if m_states (fst x) s = None then m_current (fst x) else s)"
  by (cases x) (auto simp: goTo_def Let_def split: option.splits)

lemma goTo_ok: "fsm_ok (fst x) \<Longrightarrow> fsm_ok (fst (goTo s x))"
  by (auto simp: fsm_ok_def goTo_current)

lemma fold_goTo_ok:
  "fsm_ok (fst x) \<Longrightarrow> fsm_ok (fst (fold goTo ss x)) \<and> m_states (fst (fold goTo ss x)) = m_states (fst x)"
  by (induction ss arbitrary: x) (simp_all add: goTo_ok)

lemma takeTransition_ok: "fsm_ok (fst x) \<Longrightarrow> fsm_ok (fst (takeTransition x))"
  by (cases x) (auto simp: takeTransition_def intro: goTo_ok [of "(a, b)" for a b, simplified]
      split: option.splits)

lemma tick_ok: "fsm_ok (fst x) \<Longrightarrow> fsm_ok (fst (tick dt x))"
proof -
  assume ok: "fsm_ok (fst x)"
  obtain fsm w where x: "x = (fsm, w)" by force
  obtain fsm1 w1 where t: "takeTransition (fsm, w) = (fsm1, w1)" by force
  from takeTransition_ok [of "(fsm, w)"] ok x t have "fsm_ok fsm1" by simp
  with ok show ?thesis
    using fold_goTo_ok [of "(fsm1, _)"]
    by (auto simp: tick_def x t Let_def split: option.splits prod.splits)
qed

text \<open>What all callbacks keep, the machine keeps.\<close>

definition callbacksKeep :: "('w \<Rightarrow> bool) \<Rightarrow> 'w Fsm \<Rightarrow> bool" where
  "callbacksKeep P fsm \<longleftrightarrow> (\<forall>def\<in>ran (m_states fsm). \<forall>w. P w \<longrightarrow> P (runOptional (onEnter def) w)
     \<and> P (runOptional (onExit def) w) \<and> (\<forall>f dt. update def = Some f \<longrightarrow> P (fst (f dt w))))"

lemma callbacksKeep_current [simp]: "callbacksKeep P (fsm\<lparr>m_current := s\<rparr>) = callbacksKeep P fsm"
  "callbacksKeep P (fsm\<lparr>m_initialized := b\<rparr>) = callbacksKeep P fsm"
  by (simp_all add: callbacksKeep_def)

lemma goTo_keeps:
  assumes "callbacksKeep P (fst x)" and "P (snd x)"
  shows "P (snd (goTo s x)) \<and> callbacksKeep P (fst (goTo s x))"
  using assms by (cases x) (auto simp: goTo_def callbacksKeep_def ran_def split: option.splits)

lemma fold_goTo_keeps:
  "callbacksKeep P (fst x) \<Longrightarrow> P (snd x) \<Longrightarrow> P (snd (fold goTo ss x))"
  by (induction ss arbitrary: x) (simp_all add: goTo_keeps)

lemma tick_keeps:
  assumes "callbacksKeep P (fst x)" and "P (snd x)"
  shows "P (snd (tick dt x))"
proof -
  obtain fsm1 w1 where t: "takeTransition x = (fsm1, w1)"
    by force
  have "P (snd (takeTransition x)) \<and> callbacksKeep P (fst (takeTransition x))"
    using assms goTo_keeps [OF assms] by (cases x) (auto simp: takeTransition_def split: option.splits)
  then have k: "P w1" "callbacksKeep P fsm1"
    by (simp_all add: t)
  have run: "P (snd (fold goTo r (fsm1, w2)))"
    if "m_states fsm1 (m_current fsm1) = Some def" "update def = Some f" "f dt w1 = (w2, r)" for def f w2 r
  proof (rule fold_goTo_keeps)
    show "P (snd (fsm1, w2))"
      using k that unfolding callbacksKeep_def by (metis fst_conv ranI snd_conv)
  qed (simp add: k)
  obtain fsm w where x: "x = (fsm, w)"
    by force
  show ?thesis
    using k(1) assms(2) t run by (auto simp: tick_def x Let_def split: option.splits prod.splits)
qed

text \<open>One call of the interface.\<close>

datatype 'w FsmCall =
    CallAddState string "(rat \<Rightarrow> 'w \<Rightarrow> 'w \<times> string list) option" "('w \<Rightarrow> 'w) option" "('w \<Rightarrow> 'w) option"
  | CallAddTransition string string "('w \<Rightarrow> bool) option"
  | CallSetInitialState string
  | CallGoTo string
  | CallTick rat

fun fsm_call :: "'w FsmCall \<Rightarrow> 'w Fsm \<times> 'w \<Rightarrow> 'w Fsm \<times> 'w" where
  "fsm_call (CallAddState s u e l) x = (addState s u e l (fst x), snd x)"
| "fsm_call (CallAddTransition a b c) x = (addTransition a b c (fst x), snd x)"
| "fsm_call (CallSetInitialState s) x = setInitialState s x"
| "fsm_call (CallGoTo s) x = goTo s x"
| "fsm_call (CallTick dt) x = tick dt x"

text \<open>The calls keep the invariant, provided the initial state is one that is registered.\<close>

fun initial_registered :: "'w Fsm \<Rightarrow> 'w FsmCall \<Rightarrow> bool" where
  "initial_registered fsm (CallSetInitialState s) = (m_states fsm s \<noteq> None)"
| "initial_registered fsm _ = True"

lemma addState_ok: "fsm_ok fsm \<Longrightarrow> fsm_ok (addState s u e l fsm)"
  by (simp add: fsm_ok_def addState_def)

lemma addTransition_ok: "fsm_ok fsm \<Longrightarrow> fsm_ok (addTransition a b c fsm)"
  by (auto simp: fsm_ok_def addTransition_def split: option.splits)

lemma setInitialState_ok:
  "fsm_ok (fst x) \<Longrightarrow> m_states (fst x) s \<noteq> None \<Longrightarrow> fsm_ok (fst (setInitialState s x))"
  by (cases x) (auto simp: fsm_ok_def setInitialState_def)

lemma fsm_call_ok:
  assumes "fsm_ok (fst x)" "initial_registered (fst x) c"
  shows "fsm_ok (fst (fsm_call c x))"
  using assms
  by (cases c) (simp_all add: addState_ok addTransition_ok setInitialState_ok goTo_ok tick_ok)

interpretation unit_fsm: invariant_kept "\<lambda>x. fsm_ok (fst x)" "\<lambda>x. initial_registered (fst x)" fsm_call
  by unfold_locales (rule fsm_call_ok)

text \<open>As long as the initial state is one that has been added, a machine is always in a state
  that has been added, whatever states, transitions and conditions it is given, whatever it is
  asked to go to and however the callbacks answer.\<close>

lemma fsm_state_registered:
  assumes "obeys (\<lambda>x. initial_registered (fst x)) fsm_call calls (emptyFsm, w)"
    and "m_initialized (fst (fold fsm_call calls (emptyFsm, w)))"
  shows "m_states (fst (fold fsm_call calls (emptyFsm, w)))
           (m_current (fst (fold fsm_call calls (emptyFsm, w)))) \<noteq> None"
  using unit_fsm.run_ok [OF _ assms(1)] assms(2) by (simp add: fsm_ok_def emptyFsm_def)

lemma fsm_state_registered_witness:
  "m_states (fst (fold fsm_call [CallAddState ''idle'' None None None, CallSetInitialState ''idle'',
       CallGoTo ''nowhere''] (emptyFsm, ()))) ''idle'' \<noteq> None"
  using fsm_state_registered [of "[CallAddState ''idle'' None None None, CallSetInitialState ''idle'',
       CallGoTo ''nowhere'']" "()"]
  by (simp add: addState_def setInitialState_def goTo_def emptyFsm_def)

text \<open>Before it updates, a tick takes at most one transition, the first of the current state whose
  condition holds, to a registered state; it runs \<open>onExit\<close> of the old state, then \<open>onEnter\<close> of the
  new one, and when no condition holds it changes neither state nor unit.\<close>

lemma takeTransition_effect:
  assumes "m_states fsm (m_current fsm) = Some old"
  shows "takeTransition (fsm, w) =
     (case find (enabled w) (transitions old) of
        None \<Rightarrow> (fsm, w)
      | Some tr \<Rightarrow>
          (case m_states fsm (toState tr) of
             None \<Rightarrow> (fsm, w)
           | Some new \<Rightarrow>
               if toState tr = m_current fsm then (fsm, w)
               else (fsm\<lparr>m_current := toState tr\<rparr>,
                     runOptional (onEnter new) (runOptional (onExit old) w))))"
  using assms by (auto simp: takeTransition_def goTo_def Let_def split: option.splits)

lemma takeTransition_effect_witness:
  "takeTransition (addTransition ''a'' ''b'' (Some (\<lambda>w. w = 1)) (addState ''b'' None (Some (\<lambda>w. w + 10)) None
     (addState ''a'' None None (Some (\<lambda>w. w * 2)) (emptyFsm\<lparr>m_current := ''a''\<rparr>))), 1 :: int)
   = (addTransition ''a'' ''b'' (Some (\<lambda>w. w = 1)) (addState ''b'' None (Some (\<lambda>w. w + 10)) None
       (addState ''a'' None None (Some (\<lambda>w. w * 2)) (emptyFsm\<lparr>m_current := ''b''\<rparr>))), 12)"
  by (subst takeTransition_effect [where old = "\<lparr>update = None, onEnter = None,
        onExit = Some (\<lambda>w. w * 2), transitions = [\<lparr>toState = ''b'', condition = Some (\<lambda>w. w = 1)\<rparr>]\<rparr>"])
    (simp_all
      add: addState_def addTransition_def emptyFsm_def runOptional_def enabled_def)

end
