(* ===== verification/Json.thy ===== *)
theory Json
  imports QtString Complex_Main
begin

text \<open>
  JSON values as the code uses them through \<open>QJsonValue\<close>, \<open>QJsonObject\<close> and \<open>QJsonArray\<close>. An
  object is an association list; only look-ups and updates by key are used, so the order of its
  keys is not observed. Numbers are the finite ones, taken exactly; \<open>toInt\<close> gives the default
  for a number that is not an integer of 32 bits.
\<close>

datatype json = JNull | JBool bool | JNum rat | JStr string | JArr "json list"
  | JObj "(string \<times> json) list"

named_theorems json_simps \<open>reading JSON values back\<close>

type_synonym jobject = "(string \<times> json) list"

definition jget :: "jobject \<Rightarrow> string \<Rightarrow> json" where
  "jget o' k = (case map_of o' k of None \<Rightarrow> JNull | Some v \<Rightarrow> v)"

definition jcontains :: "jobject \<Rightarrow> string \<Rightarrow> bool" where
  "jcontains o' k \<longleftrightarrow> map_of o' k \<noteq> None"

primrec jset :: "string \<Rightarrow> json \<Rightarrow> jobject \<Rightarrow> jobject" where
  "jset k v [] = [(k, v)]"
| "jset k v (kv # o') = (if fst kv = k then (k, v) # o' else kv # jset k v o')"

primrec jtoString :: "json \<Rightarrow> string" where
  "jtoString JNull = []" | "jtoString (JBool b) = []" | "jtoString (JNum r) = []"
| "jtoString (JStr s) = s" | "jtoString (JArr a) = []" | "jtoString (JObj o') = []"

primrec jtoBool :: "bool \<Rightarrow> json \<Rightarrow> bool" where
  "jtoBool d JNull = d" | "jtoBool d (JBool b) = b" | "jtoBool d (JNum r) = d"
| "jtoBool d (JStr s) = d" | "jtoBool d (JArr a) = d" | "jtoBool d (JObj o') = d"

primrec jtoDouble :: "rat \<Rightarrow> json \<Rightarrow> rat" where
  "jtoDouble d JNull = d" | "jtoDouble d (JBool b) = d" | "jtoDouble d (JNum r) = r"
| "jtoDouble d (JStr s) = d" | "jtoDouble d (JArr a) = d" | "jtoDouble d (JObj o') = d"

primrec jtoInt :: "int \<Rightarrow> json \<Rightarrow> int" where
  "jtoInt d JNull = d" | "jtoInt d (JBool b) = d"
| "jtoInt d (JNum r) =
     (if of_int \<lfloor>r\<rfloor> = r \<and> - (2 ^ 31) \<le> \<lfloor>r\<rfloor> \<and> \<lfloor>r\<rfloor> < 2 ^ 31 then \<lfloor>r\<rfloor> else d)"
| "jtoInt d (JStr s) = d" | "jtoInt d (JArr a) = d" | "jtoInt d (JObj o') = d"

text \<open>\<open>toInteger\<close>: the same with 64 bits.\<close>

primrec jtoInteger :: "int \<Rightarrow> json \<Rightarrow> int" where
  "jtoInteger d JNull = d" | "jtoInteger d (JBool b) = d"
| "jtoInteger d (JNum r) =
     (if of_int \<lfloor>r\<rfloor> = r \<and> - (2 ^ 63) \<le> \<lfloor>r\<rfloor> \<and> \<lfloor>r\<rfloor> < 2 ^ 63 then \<lfloor>r\<rfloor> else d)"
| "jtoInteger d (JStr s) = d" | "jtoInteger d (JArr a) = d" | "jtoInteger d (JObj o') = d"

primrec jtoArray :: "json \<Rightarrow> json list" where
  "jtoArray JNull = []" | "jtoArray (JBool b) = []" | "jtoArray (JNum r) = []"
| "jtoArray (JStr s) = []" | "jtoArray (JArr a) = a" | "jtoArray (JObj o') = []"

primrec jtoObject :: "json \<Rightarrow> jobject" where
  "jtoObject JNull = []" | "jtoObject (JBool b) = []" | "jtoObject (JNum r) = []"
| "jtoObject (JStr s) = []" | "jtoObject (JArr a) = []" | "jtoObject (JObj o') = o'"

primrec isJObj :: "json \<Rightarrow> bool" where
  "isJObj JNull = False" | "isJObj (JBool b) = False" | "isJObj (JNum r) = False"
| "isJObj (JStr s) = False" | "isJObj (JArr a) = False" | "isJObj (JObj o') = True"

primrec isJArr :: "json \<Rightarrow> bool" where
  "isJArr JNull = False" | "isJArr (JBool b) = False" | "isJArr (JNum r) = False"
| "isJArr (JStr s) = False" | "isJArr (JArr a) = True" | "isJArr (JObj o') = False"

primrec isJStr :: "json \<Rightarrow> bool" where
  "isJStr JNull = False" | "isJStr (JBool b) = False" | "isJStr (JNum r) = False"
| "isJStr (JStr s) = True" | "isJStr (JArr a) = False" | "isJStr (JObj o') = False"

primrec isJNum :: "json \<Rightarrow> bool" where
  "isJNum JNull = False" | "isJNum (JBool b) = False" | "isJNum (JNum r) = True"
| "isJNum (JStr s) = False" | "isJNum (JArr a) = False" | "isJNum (JObj o') = False"

primrec isJBool :: "json \<Rightarrow> bool" where
  "isJBool JNull = False" | "isJBool (JBool b) = True" | "isJBool (JNum r) = False"
| "isJBool (JStr s) = False" | "isJBool (JArr a) = False" | "isJBool (JObj o') = False"

definition jnat :: "nat \<Rightarrow> json" where
  "jnat n = JNum (of_nat n)"

definition jint :: "int \<Rightarrow> json" where
  "jint i = JNum (of_int i)"

definition jstrings :: "string list \<Rightarrow> json" where
  "jstrings ss = JArr (map JStr ss)"

lemma jget_Nil [json_simps]: "jget [] k = JNull"
  by (simp add: jget_def)

lemma jget_Cons [json_simps]: "jget ((k', v) # o') k = (if k = k' then v else jget o' k)"
  by (simp add: jget_def)

lemma jcontains_Nil [json_simps]: "\<not> jcontains [] k"
  by (simp add: jcontains_def)

lemma jcontains_Cons [json_simps]: "jcontains ((k', v) # o') k \<longleftrightarrow> k = k' \<or> jcontains o' k"
  by (simp add: jcontains_def)

lemma map_of_jset: "map_of (jset k v o') = (map_of o')(k \<mapsto> v)"
  by (induction o') auto

lemma jget_jset [json_simps]: "jget (jset k v o') k' = (if k' = k then v else jget o' k')"
  by (simp add: jget_def map_of_jset)

lemma jcontains_jset [json_simps]: "jcontains (jset k v o') k' \<longleftrightarrow> k' = k \<or> jcontains o' k'"
  by (simp add: jcontains_def map_of_jset)

lemma jtoInt_jnat [json_simps]: "n < 2 ^ 31 \<Longrightarrow> jtoInt d (jnat n) = int n"
  by (simp add: jnat_def)

lemma jtoInt_jint [json_simps]: "- (2 ^ 31) \<le> i \<Longrightarrow> i < 2 ^ 31 \<Longrightarrow> jtoInt d (jint i) = i"
  by (simp add: jint_def)

lemma jtoInteger_jint [json_simps]: "- (2 ^ 63) \<le> i \<Longrightarrow> i < 2 ^ 63 \<Longrightarrow> jtoInteger d (jint i) = i"
  by (simp add: jint_def)

lemma map_jtoString_jstrings [json_simps]: "map jtoString (map JStr ss) = ss"
  by (induction ss) auto

end
