(* ===== verification/BusMessage.thy ===== *)
theory BusMessage
  imports Json
begin

text \<open>
  The messages of the bus (\<open>Message\<close> in \<open>src/src/core/MessageBus.h\<close>): their types and the JSON they
  are stored and posted as. A time stamp is its ISO text, empty when it is not valid; the base64
  coding of the wire bytes is the parameter \<open>b64\<close>.
\<close>

datatype MsgType = TPositionReport
  | TTargetDetect
  | TTargetReport
  | TTargetTrack
  | TTargetDestroyed
  | TUnitOrder
  | TAttackOrder
  | TStrikePlan
  | TFlightPlan
  | TGuidance
  | TGroundGuideOrder
  | TGroundAttackConfirm
  | TAck
  | TWithdraw
  | TWithdrawOrder
  | TCommCheck
  | TEngagementReport
  | TSharedDetect
  | TPursue
  | THalt
  | TCancelEngagement
  | TSetRulesOfEngagement
  | TIdentityReport
  | TGroundTargetReport
  | TRouteAcceptance
  | TAttackReadyReport
  | TAttackAuthorization
  | TBattleDamageReport
  | TDamageAssessmentConfirm

fun typeName :: "MsgType \<Rightarrow> string" where
  "typeName TPositionReport = ''PositionReport''"
| "typeName TTargetDetect = ''TargetDetect''"
| "typeName TTargetReport = ''TargetReport''"
| "typeName TTargetTrack = ''TargetTrack''"
| "typeName TTargetDestroyed = ''TargetDestroyed''"
| "typeName TUnitOrder = ''UnitOrder''"
| "typeName TAttackOrder = ''AttackOrder''"
| "typeName TStrikePlan = ''StrikePlan''"
| "typeName TFlightPlan = ''FlightPlan''"
| "typeName TGuidance = ''Guidance''"
| "typeName TGroundGuideOrder = ''GroundGuideOrder''"
| "typeName TGroundAttackConfirm = ''GroundAttackConfirm''"
| "typeName TAck = ''Ack''"
| "typeName TWithdraw = ''Withdraw''"
| "typeName TWithdrawOrder = ''WithdrawOrder''"
| "typeName TCommCheck = ''CommCheck''"
| "typeName TEngagementReport = ''EngagementReport''"
| "typeName TSharedDetect = ''SharedDetect''"
| "typeName TPursue = ''Pursue''"
| "typeName THalt = ''Halt''"
| "typeName TCancelEngagement = ''CancelEngagement''"
| "typeName TSetRulesOfEngagement = ''SetRulesOfEngagement''"
| "typeName TIdentityReport = ''IdentityReport''"
| "typeName TGroundTargetReport = ''GroundTargetReport''"
| "typeName TRouteAcceptance = ''RouteAcceptance''"
| "typeName TAttackReadyReport = ''AttackReadyReport''"
| "typeName TAttackAuthorization = ''AttackAuthorization''"
| "typeName TBattleDamageReport = ''BattleDamageReport''"
| "typeName TDamageAssessmentConfirm = ''DamageAssessmentConfirm''"

definition allTypes :: "MsgType list" where
  "allTypes = [TPositionReport, TTargetDetect, TTargetReport, TTargetTrack,
     TTargetDestroyed, TUnitOrder, TAttackOrder, TStrikePlan,
     TFlightPlan, TGuidance, TGroundGuideOrder, TGroundAttackConfirm,
     TAck, TWithdraw, TWithdrawOrder, TCommCheck,
     TEngagementReport, TSharedDetect, TPursue, THalt,
     TCancelEngagement, TSetRulesOfEngagement, TIdentityReport, TGroundTargetReport,
     TRouteAcceptance, TAttackReadyReport, TAttackAuthorization, TBattleDamageReport,
     TDamageAssessmentConfirm]"

definition parseTypeName :: "string \<Rightarrow> MsgType option" where
  "parseTypeName name = find (\<lambda>t. typeName t = name) allTypes"

datatype WireFormat = Native | VmfDesignV1

definition wireFormatName :: "WireFormat \<Rightarrow> string" where
  "wireFormatName f = (case f of VmfDesignV1 \<Rightarrow> ''vmf-design-v1'' | Native \<Rightarrow> ''native'')"

record Message =
  msg_id :: string
  msg_type :: MsgType
  msg_sender :: string
  msg_receiver :: string
  msg_timestamp :: string
  msg_requiresAck :: bool
  msg_acked :: bool
  msg_automaticAck :: bool
  msg_vmfEncoded :: bool
  msg_retryCount :: int
  msg_traceId :: string
  msg_correlationId :: string
  msg_vmfMessage :: string
  msg_wireFormat :: WireFormat
  msg_wireBytes :: "8 word list"
  msg_wireBitLength :: int
  msg_payload :: jobject

definition emptyMessage :: Message where
  "emptyMessage = \<lparr>msg_id = [], msg_type = TPositionReport, msg_sender = [], msg_receiver = [],
     msg_timestamp = [], msg_requiresAck = False, msg_acked = False, msg_automaticAck = False,
     msg_vmfEncoded = False, msg_retryCount = 0, msg_traceId = [], msg_correlationId = [],
     msg_vmfMessage = [], msg_wireFormat = Native, msg_wireBytes = [], msg_wireBitLength = 0,
     msg_payload = []\<rparr>"

definition message_toJson :: "(8 word list \<Rightarrow> string) \<Rightarrow> Message \<Rightarrow> jobject" where
  "message_toJson b64 m =
     [(''id'', JStr (msg_id m)), (''type'', JStr (typeName (msg_type m))),
      (''sender'', JStr (msg_sender m)), (''receiver'', JStr (msg_receiver m)),
      (''time'', JStr (msg_timestamp m)), (''requiresAck'', JBool (msg_requiresAck m)),
      (''acked'', JBool (msg_acked m)), (''automaticAck'', JBool (msg_automaticAck m)),
      (''retryCount'', jint (msg_retryCount m)), (''traceId'', JStr (msg_traceId m)),
      (''correlationId'', JStr (msg_correlationId m)),
      (''wireFormat'', JStr (wireFormatName (msg_wireFormat m)))]
     @ (if msg_vmfMessage m \<noteq> [] then [(''vmfMessage'', JStr (msg_vmfMessage m))] else [])
     @ (if msg_wireBytes m \<noteq> []
        then [(''wireBytes'', JStr (b64 (msg_wireBytes m))),
              (''wireBitLength'', jint (msg_wireBitLength m))] else [])
     @ [(''payload'', JObj (msg_payload m))]"

lemma parseTypeName_typeName [json_simps]: "parseTypeName (typeName t) = Some t"
  by (cases t) (simp_all add: parseTypeName_def allTypes_def)

lemma parseTypeName_Some: "parseTypeName name = Some t \<Longrightarrow> typeName t = name"
  by (auto simp: parseTypeName_def find_Some_iff)

text \<open>The names of the message types are read back: \<open>parseTypeName\<close> is the inverse of \<open>typeName\<close>
  and knows no other name.\<close>

lemma typeName_roundtrip: "parseTypeName name = Some t \<longleftrightarrow> name = typeName t"
  using parseTypeName_typeName parseTypeName_Some by blast

lemma jget_append [json_simps]:
  "jget (xs @ ys) k = (if jcontains xs k then jget xs k else jget ys k)"
  by (simp add: jget_def jcontains_def map_add_def split: option.splits)

lemma jcontains_append [json_simps]: "jcontains (xs @ ys) k \<longleftrightarrow> jcontains xs k \<or> jcontains ys k"
  by (auto simp: jcontains_def map_add_def split: option.splits)

end
