(* ===== verification/CommGraph.thy ===== *)
theory CommGraph
  imports BusMessage
begin

text \<open>
  The communication graph of the bus (\<open>canCommunicate\<close> and the registration operations in
  \<open>src/src/core/MessageBus.cpp\<close>). The hash map of the registered units is a list of pairs with
  distinct keys, in the order it is iterated, which nothing depends on. A position is a pair of
  rationals; \<open>std::hypot(dx, dy) > r\<close> is decided exactly, by comparing squares.
\<close>

record Reg =
  reg_pos :: "rat \<times> rat"
  reg_commRange :: rat
  reg_side :: string
  reg_isCp :: bool
  reg_active :: bool

type_synonym Units = "(string \<times> Reg) list"

definition newReg :: Reg where
  "newReg = \<lparr>reg_pos = (0, 0), reg_commRange = 0, reg_side = [], reg_isCp = False, reg_active = True\<rparr>"

section \<open>Registration\<close>

text \<open>\<open>try_emplace\<close>, \<open>find\<close> followed by an update, and \<open>erase\<close>.\<close>

definition units_emplace :: "string \<Rightarrow> Units \<Rightarrow> Units" where
  "units_emplace uid us = (if map_of us uid = None then us @ [(uid, newReg)] else us)"

definition units_update :: "string \<Rightarrow> (Reg \<Rightarrow> Reg) \<Rightarrow> Units \<Rightarrow> Units" where
  "units_update uid f us = map (\<lambda>(k, r). (k, if k = uid then f r else r)) us"

definition units_erase :: "string \<Rightarrow> Units \<Rightarrow> Units" where
  "units_erase uid us = filter (\<lambda>(k, r). k \<noteq> uid) us"

definition updateUnitPosition :: "string \<Rightarrow> rat \<times> rat \<Rightarrow> rat \<Rightarrow> string \<Rightarrow> Units \<Rightarrow> Units" where
  "updateUnitPosition uid pos commRange side us =
     units_update uid (\<lambda>r. r\<lparr>reg_pos := pos, reg_commRange := max 0 commRange,
        reg_side := (if side \<noteq> [] then side else reg_side r)\<rparr>) us"

definition setUnitActive :: "string \<Rightarrow> bool \<Rightarrow> Units \<Rightarrow> Units" where
  "setUnitActive uid active us = units_update uid (reg_active_update (\<lambda>_. active)) us"

definition setUnitCommandPost :: "string \<Rightarrow> bool \<Rightarrow> Units \<Rightarrow> Units" where
  "setUnitCommandPost uid isCp us = units_update uid (reg_isCp_update (\<lambda>_. isCp)) us"

definition updateUnitSide :: "string \<Rightarrow> string \<Rightarrow> Units \<Rightarrow> Units" where
  "updateUnitSide uid side us = units_update uid (reg_side_update (\<lambda>_. side)) us"

definition isRegistered :: "Units \<Rightarrow> string \<Rightarrow> bool" where
  "isRegistered us uid \<longleftrightarrow> map_of us uid \<noteq> None"

definition unitSide :: "Units \<Rightarrow> string \<Rightarrow> string" where
  "unitSide us uid = (case map_of us uid of None \<Rightarrow> [] | Some r \<Rightarrow> reg_side r)"

section \<open>The search\<close>

definition inCommRange :: "Reg \<Rightarrow> Reg \<Rightarrow> bool" where
  "inCommRange current candidate \<longleftrightarrow>
     (let dx = fst (reg_pos current) - fst (reg_pos candidate);
          dy = snd (reg_pos current) - snd (reg_pos candidate);
          r = max 0 (reg_commRange current)
      in dx * dx + dy * dy \<le> r * r)"

definition relays :: "string \<Rightarrow> Reg \<Rightarrow> Reg \<Rightarrow> bool" where
  "relays side current candidate \<longleftrightarrow>
     reg_active candidate \<and> reg_side candidate = side \<and> inCommRange current candidate"

text \<open>
  The inner loop over the units: \<open>None\<close> when the wanted unit is found, otherwise the ids newly
  visited, in order.
\<close>

fun scanUnits :: "Units \<Rightarrow> string \<Rightarrow> string \<Rightarrow> Reg \<Rightarrow> string list \<Rightarrow> string list \<Rightarrow> string list option" where
  "scanUnits [] side b current visited found = Some found"
| "scanUnits ((candidateId, candidate) # us) side b current visited found =
     (if candidateId \<in> set visited \<or> candidateId \<in> set found \<or> \<not> relays side current candidate
      then scanUnits us side b current visited found
      else if candidateId = b then None
      else scanUnits us side b current visited (found @ [candidateId]))"

lemma scanUnits_new:
  "scanUnits us side b current visited found = Some new \<Longrightarrow> distinct found \<Longrightarrow> set found \<inter> set visited = {}
   \<Longrightarrow> set found \<subseteq> set new \<and> distinct new \<and> set new \<inter> set visited = {}
     \<and> set new \<subseteq> set found \<union> fst ` set us"
proof (induction us arbitrary: found)
  case (Cons u us)
  obtain k r where u: "u = (k, r)" by force
  show ?case
  proof (cases "k \<in> set visited \<or> k \<in> set found \<or> \<not> relays side current r")
    case True
    with Cons show ?thesis by (auto simp: u)
  next
    case False
    with Cons.prems have new: "scanUnits us side b current visited (found @ [k]) = Some new"
      by (auto simp: u split: if_splits)
    have "set (found @ [k]) \<subseteq> set new \<and> distinct new \<and> set new \<inter> set visited = {}
        \<and> set new \<subseteq> set (found @ [k]) \<union> fst ` set us"
      by (rule Cons.IH [OF new]) (use Cons.prems False in auto)
    then show ?thesis by (auto simp: u)
  qed
qed simp

text \<open>The outer loop: breadth-first from the ids in the queue.\<close>

function search :: "Units \<Rightarrow> string \<Rightarrow> string \<Rightarrow> string list \<Rightarrow> string list \<Rightarrow> bool" where
  "search us side b visited [] = False"
| "search us side b visited (c # pending) =
     (case map_of us c of
        None \<Rightarrow> search us side b visited pending
      | Some current \<Rightarrow>
          if \<not> reg_active current then search us side b visited pending
          else (case scanUnits us side b current visited [] of
                  None \<Rightarrow> True
                | Some new \<Rightarrow> search us side b (visited @ new) (pending @ new)))"
  by pat_completeness auto
termination
proof (relation "measure (\<lambda>(us, side, b, visited, pending).
    card (fst ` set us - set visited) + length pending)", goal_cases)
  case (4 us side b visited c pending current new)
  from 4(3) scanUnits_new [of us side b current visited "[]" new]
  have new: "distinct new" "set new \<inter> set visited = {}" "set new \<subseteq> fst ` set us" by auto
  have fin: "finite (fst ` set us - set visited)" by simp
  have "card (fst ` set us - set visited - set new) = card (fst ` set us - set visited) - card (set new)"
    using new fin by (intro card_Diff_subset) auto
  moreover have "card (set new) \<le> card (fst ` set us - set visited)"
    using new fin by (intro card_mono) auto
  moreover have "card (set new) = length new" using new(1) by (rule distinct_card)
  moreover have "fst ` set us - set (visited @ new) = fst ` set us - set visited - set new" by auto
  ultimately show ?case by simp
qed simp_all

definition canCommunicate :: "Units \<Rightarrow> string \<Rightarrow> string \<Rightarrow> bool" where
  "canCommunicate us aId bId =
     (case (map_of us aId, map_of us bId) of
        (Some a, Some b) \<Rightarrow>
          if \<not> reg_active a \<or> \<not> reg_active b then False
          else if reg_side a = [] \<or> reg_side b = [] \<or> reg_side a \<noteq> reg_side b then False
          else if aId = bId then True
          else search us (reg_side a) bId [aId] [aId]
      | _ \<Rightarrow> False)"

section \<open>What the search decides\<close>

text \<open>
  One hop: an active unit reaches every active unit of the side within its own range. Paths of
  hops start at the sender, so every relay on them is a friendly unit in range of the one before.
\<close>

definition hop :: "Units \<Rightarrow> string \<Rightarrow> (string \<times> string) set" where
  "hop us side = {(x, y). \<exists>rx ry. map_of us x = Some rx \<and> map_of us y = Some ry
      \<and> reg_active rx \<and> relays side rx ry}"

lemma scanUnits_found:
  assumes "distinct (map fst us)"
  shows "scanUnits us side b current visited found = None \<Longrightarrow>
     \<exists>r. map_of us b = Some r \<and> relays side current r"
  using assms
proof (induction us arbitrary: found)
  case (Cons u us)
  obtain k r where u: "u = (k, r)" by force
  show ?case
  proof (cases "k \<in> set visited \<or> k \<in> set found \<or> \<not> relays side current r \<or> k \<noteq> b")
    case True
    with Cons.prems have "\<exists>found'. scanUnits us side b current visited found' = None"
      by (auto simp: u split: if_splits)
    with Cons have "\<exists>r. map_of us b = Some r \<and> relays side current r" by auto
    moreover have "k \<noteq> b" if "map_of us b \<noteq> None"
      using that Cons.prems(2) u by (auto simp: map_of_eq_None_iff)
    ultimately show ?thesis by (auto simp: u)
  next
    case False
    then show ?thesis by (auto simp: u)
  qed
qed simp

lemma scanUnits_mono: "scanUnits us side b current visited found = Some new \<Longrightarrow> set found \<subseteq> set new"
  by (induction us side b current visited found rule: scanUnits.induct) (auto split: if_splits)

lemma scanUnits_relays:
  assumes "scanUnits us side b current visited found = Some new" "distinct (map fst us)" "y \<in> set new"
  shows "y \<in> set found \<or> (\<exists>r. map_of us y = Some r \<and> relays side current r)"
  using assms
proof (induction us arbitrary: found)
  case (Cons u us)
  obtain k r where u: "u = (k, r)" by force
  from Cons.prems(1) consider "scanUnits us side b current visited found = Some new"
    | "scanUnits us side b current visited (found @ [k]) = Some new" "relays side current r"
    by (auto simp: u split: if_splits)
  then have "y \<in> set found \<or> (y = k \<and> relays side current r) \<or> (\<exists>r. map_of us y = Some r \<and> relays side current r)"
    by cases (use Cons.IH Cons.prems(2,3) in \<open>fastforce simp: u\<close>)+
  moreover have "k \<noteq> y" if "map_of us y \<noteq> None"
    using that Cons.prems(2) u by (auto simp: map_of_eq_None_iff)
  ultimately show ?case by (auto simp: u)
qed simp

lemma scanUnits_complete:
  assumes "scanUnits us side b current visited found = Some new" "distinct (map fst us)"
    "map_of us y = Some r" "relays side current r"
  shows "y \<in> set visited \<or> (y \<in> set new \<and> (y \<noteq> b \<or> y \<in> set found))"
  using assms
proof (induction us arbitrary: found)
  case (Cons u us)
  obtain k r' where u: "u = (k, r')" by force
  show ?case
  proof (cases "k = y")
    case True
    then have r: "r' = r" using Cons.prems(3) u by simp
    show ?thesis
    proof (cases "k \<in> set visited \<or> k \<in> set found")
      case True
      then have "scanUnits us side b current visited found = Some new"
        using Cons.prems(1) by (auto simp: u)
      from scanUnits_mono [OF this] True \<open>k = y\<close> show ?thesis by auto
    next
      case False
      with Cons.prems r \<open>k = y\<close> have "scanUnits us side b current visited (found @ [y]) = Some new" "y \<noteq> b"
        by (auto simp: u split: if_splits)
      from scanUnits_mono [OF this(1)] this(2) show ?thesis by auto
    qed
  next
    case False
    with Cons.prems have m: "map_of us y = Some r" by (simp add: u)
    from Cons.prems(1) consider "scanUnits us side b current visited found = Some new"
      | "scanUnits us side b current visited (found @ [k]) = Some new"
      by (auto simp: u split: if_splits)
    then show ?thesis
    proof cases
      case 1
      from Cons.IH [OF 1 _ m Cons.prems(4)] Cons.prems(2) show ?thesis by (simp add: u)
    next
      case 2
      from Cons.IH [OF 2 _ m Cons.prems(4)] Cons.prems(2) False show ?thesis by (auto simp: u)
    qed
  qed
qed simp

text \<open>
  The invariant of the outer loop: the queue holds visited units, the units visited and no longer
  in the queue have nothing left to visit, and the receiver has not been visited.
\<close>

definition search_inv :: "Units \<Rightarrow> string \<Rightarrow> string \<Rightarrow> string list \<Rightarrow> string list \<Rightarrow> bool" where
  "search_inv us side b visited pending \<longleftrightarrow> set pending \<subseteq> set visited \<and> b \<notin> set visited
     \<and> (\<forall>x y. x \<in> set visited \<longrightarrow> x \<notin> set pending \<longrightarrow> (x, y) \<in> hop us side \<longrightarrow> y \<in> set visited)"

lemma search_inv_drop:
  assumes "search_inv us side b visited (c # pending)" "\<And>y. (c, y) \<notin> hop us side"
  shows "search_inv us side b visited pending"
  using assms by (auto simp: search_inv_def)

lemma search_reaches:
  assumes "distinct (map fst us)" "search_inv us side b visited pending"
  shows "search us side b visited pending \<longleftrightarrow> (\<exists>c \<in> set visited. (c, b) \<in> (hop us side)\<^sup>*)"
  using assms
proof (induction us side b visited pending rule: search.induct)
  case (1 us side b visited)
  have "y \<in> set visited" if "(c, y) \<in> (hop us side)\<^sup>*" "c \<in> set visited" for c y
    using that by (induction rule: rtrancl_induct) (use 1(2) in \<open>auto simp: search_inv_def\<close>)
  with 1(2) show ?case by (auto simp: search_inv_def)
next
  case (2 us side b visited c pending)
  show ?case
  proof (cases "map_of us c")
    case None
    then have "\<And>y. (c, y) \<notin> hop us side" by (simp add: hop_def)
    with 2 None show ?thesis using search_inv_drop [OF 2(5)] by simp
  next
    case (Some current)
    show ?thesis
    proof (cases "reg_active current")
      case False
      with Some have "\<And>y. (c, y) \<notin> hop us side" by (simp add: hop_def)
      with 2 Some False show ?thesis using search_inv_drop [OF 2(5)] by simp
    next
      case active: True
      have c: "c \<in> set visited" using 2(5) by (simp add: search_inv_def)
      show ?thesis
      proof (cases "scanUnits us side b current visited []")
        case None
        with scanUnits_found [OF 2(4) None] Some active have "(c, b) \<in> hop us side"
          by (auto simp: hop_def)
        with c Some active None show ?thesis by auto
      next
        case new: (Some new)
        have hops: "(c, y) \<in> hop us side \<longleftrightarrow> (\<exists>r. map_of us y = Some r \<and> relays side current r)" for y
          using Some active by (auto simp: hop_def)
        have done_c: "y \<in> set visited \<or> (y \<in> set new \<and> y \<noteq> b)" if "(c, y) \<in> hop us side" for y
          using that scanUnits_complete [OF new 2(4), of y] by (auto simp: hops)
        have new_hops: "(c, y) \<in> hop us side" if "y \<in> set new" for y
          using that scanUnits_relays [OF new 2(4)] by (auto simp: hops)
        have "b \<notin> set new"
          using done_c new_hops 2(5) by (auto simp: search_inv_def)
        then have "search_inv us side b (visited @ new) (pending @ new)"
          using 2(5) done_c by (fastforce simp: search_inv_def)
        with 2(3) [OF Some _ new] active 2(4)
        have IH: "search us side b (visited @ new) (pending @ new)
            \<longleftrightarrow> (\<exists>c \<in> set (visited @ new). (c, b) \<in> (hop us side)\<^sup>*)" by blast
        have "(c, b) \<in> (hop us side)\<^sup>*" if "y \<in> set new" "(y, b) \<in> (hop us side)\<^sup>*" for y
          using new_hops [OF that(1)] that(2) by (rule converse_rtrancl_into_rtrancl)
        with c IH Some active new show ?thesis by auto
      qed
    qed
  qed
qed

text \<open>C19. Two units can communicate exactly when both are registered, alive and on the same side, and
  the message can hop from one to the other over living units of that side, each within the
  range of the one before. The search always ends, and the order of the units does not matter.\<close>

theorem canCommunicate_iff:
  assumes "distinct (map fst us)"
  shows "canCommunicate us a b \<longleftrightarrow>
     (\<exists>ra rb. map_of us a = Some ra \<and> map_of us b = Some rb \<and> reg_active ra \<and> reg_active rb
        \<and> reg_side ra \<noteq> [] \<and> reg_side rb = reg_side ra \<and> (a, b) \<in> (hop us (reg_side ra))\<^sup>*)"
proof -
  have "search us side b [a] [a] \<longleftrightarrow> (a, b) \<in> (hop us side)\<^sup>*" if "a \<noteq> b" for side
    using search_reaches [OF assms, of side b "[a]" "[a]"] that by (simp add: search_inv_def)
  then have s: "search us side b [a] [a] = ((a, b) \<in> (hop us side)\<^sup>*)" if "a \<noteq> b" for side
    using that by blast
  show ?thesis
  proof (cases "map_of us a")
    case None
    then show ?thesis by (simp add: canCommunicate_def)
  next
    case a: (Some ra)
    show ?thesis
    proof (cases "map_of us b")
      case None
      then show ?thesis by (simp add: canCommunicate_def a)
    next
      case (Some rb)
      with a s show ?thesis by (cases "a = b") (simp_all add: canCommunicate_def, metis)
    qed
  qed
qed

text \<open>A unit that is dead or unknown neither sends, receives nor relays.\<close>

lemma inactive_isolated:
  assumes "distinct (map fst us)" "case map_of us x of None \<Rightarrow> True | Some r \<Rightarrow> \<not> reg_active r"
  shows "\<not> canCommunicate us x b \<and> \<not> canCommunicate us a x
     \<and> canCommunicate us a b = canCommunicate (units_erase x us) a b"
proof -
  have erase: "map_of (units_erase x us) y = (if y = x then None else map_of us y)" for y
    by (induction us) (auto simp: units_erase_def)
  have dist: "distinct (map fst (units_erase x us))"
    using assms(1) by (simp add: units_erase_def distinct_map_filter)
  have x: "(x, y) \<notin> hop us side" "(y, x) \<notin> hop us side" for y side
    using assms(2) by (auto simp: hop_def relays_def split: option.splits)
  have "hop (units_erase x us) side = hop us side" for side
  proof -
    have "(y, z) \<in> hop (units_erase x us) side \<longleftrightarrow> (y, z) \<in> hop us side" for y z
      using x by (auto simp: hop_def erase)
    then show ?thesis by auto
  qed
  then have "canCommunicate us a b = canCommunicate (units_erase x us) a b" if "a \<noteq> x" "b \<noteq> x"
    using that unfolding canCommunicate_iff [OF assms(1)] canCommunicate_iff [OF dist] erase by simp
  moreover have "\<not> canCommunicate us x c" "\<not> canCommunicate us c x" for c
    using assms(2) by (auto simp: canCommunicate_def split: option.splits)
  moreover have "\<not> canCommunicate (units_erase x us) x c" "\<not> canCommunicate (units_erase x us) c x" for c
    by (simp_all add: canCommunicate_def erase split: option.split)
  ultimately show ?thesis by blast
qed

definition exUnits :: Units where
  "exUnits =
    [(''a'', \<lparr>reg_pos = (0, 0), reg_commRange = 10, reg_side = ''red'', reg_isCp = False, reg_active = True\<rparr>),
     (''b'', \<lparr>reg_pos = (20, 0), reg_commRange = 5, reg_side = ''red'', reg_isCp = False, reg_active = True\<rparr>),
     (''r'', \<lparr>reg_pos = (6, 8), reg_commRange = 20, reg_side = ''red'', reg_isCp = False, reg_active = True\<rparr>),
     (''d'', \<lparr>reg_pos = (1, 0), reg_commRange = 50, reg_side = ''red'', reg_isCp = False, reg_active = False\<rparr>)]"

lemma canCommunicate_iff_witness:
  "canCommunicate exUnits ''a'' ''b'' \<and> (''a'', ''b'') \<in> (hop exUnits ''red'')\<^sup>*"
proof -
  have "canCommunicate exUnits ''a'' ''b''"
    by (simp add: canCommunicate_def exUnits_def relays_def inCommRange_def Let_def)
  moreover have "distinct (map fst exUnits)" by (simp add: exUnits_def)
  ultimately show ?thesis using canCommunicate_iff [of exUnits "''a''" "''b''"] by (auto simp: exUnits_def)
qed

lemma inactive_isolated_witness: "\<not> canCommunicate exUnits ''d'' ''a''"
proof -
  have "distinct (map fst exUnits)" by (simp add: exUnits_def)
  moreover have "case map_of exUnits ''d'' of None \<Rightarrow> True | Some r \<Rightarrow> \<not> reg_active r"
    by (simp add: exUnits_def)
  ultimately show ?thesis using inactive_isolated [of exUnits "''d''" "''a''"] by blast
qed

end
