(* ===== verification/MessageBus.thy ===== *)
theory MessageBus
  imports CommGraph
begin

text \<open>
  The message bus (\<open>src/src/core/MessageBus.cpp\<close>): sending, delivery, acknowledgements with
  retries on simulation time, and the memory of automatic messages already delivered.

  A handler is a number; what calling it does to the bus is the parameter \<open>run\<close>, any function, so
  handlers may send, unsubscribe or unregister; handlers whose effect is made of calls on this bus
  are the subject of \<open>BusRuns\<close>. The signals the bus emits and the handlers it
  calls are recorded in order in \<open>bus_trace\<close>. The VMF encoder and the clock are parameters; times
  are exact rationals.
\<close>

section \<open>State\<close>

record PendingAck =
  pa_message :: Message
  pa_sentAt :: rat
  pa_retries :: int

datatype BusEvent =
    Posted Message string string rat
  | Delivered string Message
  | AckStateChanged string bool int string
  | VmfEncodingFailed string

record Bus =
  bus_handlers :: "(string \<times> nat list) list"
  bus_units :: Units
  bus_pending :: "(string \<times> PendingAck) list"
  bus_seen :: "string set"
  bus_seenOrder :: "string list"
  bus_time :: rat
  bus_ackTimeout :: rat
  bus_maxAckRetries :: int
  bus_automaticAck :: bool
  bus_hasEncoder :: bool
  bus_seq :: nat
  bus_trace :: "BusEvent list"

definition emptyBus :: Bus where
  "emptyBus = \<lparr>bus_handlers = [], bus_units = [], bus_pending = [], bus_seen = {}, bus_seenOrder = [],
     bus_time = 0, bus_ackTimeout = 3, bus_maxAckRetries = 2, bus_automaticAck = False,
     bus_hasEncoder = False, bus_seq = 0, bus_trace = []\<rparr>"

text \<open>What the bus calls: the encoder, the handlers and the clock.\<close>

record BusEnv =
  env_encode :: "Message \<Rightarrow> Message option"
  env_run :: "nat \<Rightarrow> Message \<Rightarrow> Bus \<Rightarrow> Bus"
  env_now :: string

definition emit :: "BusEvent \<Rightarrow> Bus \<Rightarrow> Bus" where
  "emit e bus = bus\<lparr>bus_trace := bus_trace bus @ [e]\<rparr>"

section \<open>Registration\<close>

definition subscribe :: "string \<Rightarrow> nat \<Rightarrow> Bus \<Rightarrow> Bus" where
  "subscribe uid h bus =
     bus\<lparr>bus_handlers :=
           (if map_of (bus_handlers bus) uid = None then bus_handlers bus @ [(uid, [h])]
            else map (\<lambda>(k, hs). (k, if k = uid then hs @ [h] else hs)) (bus_handlers bus)),
         bus_units := units_emplace uid (bus_units bus)\<rparr>"

definition unsubscribe :: "string \<Rightarrow> Bus \<Rightarrow> Bus" where
  "unsubscribe uid bus = bus\<lparr>bus_handlers := filter (\<lambda>(k, hs). k \<noteq> uid) (bus_handlers bus)\<rparr>"

definition unregisterUnit :: "string \<Rightarrow> Bus \<Rightarrow> Bus" where
  "unregisterUnit uid bus = (unsubscribe uid bus)\<lparr>bus_units := units_erase uid (bus_units bus)\<rparr>"

definition canTalk :: "Bus \<Rightarrow> string \<Rightarrow> string \<Rightarrow> bool" where
  "canTalk bus a b = canCommunicate (bus_units bus) a b"

section \<open>Delivery\<close>

definition maxAutomaticMessageIds :: nat where
  "maxAutomaticMessageIds = 4096"

text \<open>The loop that drops the oldest ids from the list and from the set.\<close>

function forgetOldest :: "string set \<times> string list \<Rightarrow> string set \<times> string list" where
  "forgetOldest (seen, order) =
     (if maxAutomaticMessageIds < length order
      then forgetOldest (seen - {hd order}, tl order) else (seen, order))"
  by pat_completeness auto
termination
  by (relation "measure (\<lambda>(seen, order). length order)") auto

declare forgetOldest.simps [simp del]

definition rememberAutomaticMessageId :: "string \<Rightarrow> Bus \<Rightarrow> Bus" where
  "rememberAutomaticMessageId i bus =
     (if i = [] \<or> i \<in> bus_seen bus then bus
      else (let (seen, order) = forgetOldest (insert i (bus_seen bus), bus_seenOrder bus @ [i])
            in bus\<lparr>bus_seen := seen, bus_seenOrder := order\<rparr>))"

definition deliver :: "BusEnv \<Rightarrow> Message \<Rightarrow> string \<Rightarrow> Bus \<Rightarrow> Bus" where
  "deliver env m uid bus =
     (case map_of (bus_handlers bus) uid of
        None \<Rightarrow> bus
      | Some hs \<Rightarrow> fold (\<lambda>h b. env_run env h m (emit (Delivered uid m) b)) hs bus)"

definition reachable :: "Bus \<Rightarrow> Message \<Rightarrow> string list" where
  "reachable bus m =
     filter (\<lambda>uid. uid \<noteq> msg_sender m \<and> canTalk bus (msg_sender m) uid) (map fst (bus_handlers bus))"

text \<open>
  \<open>dispatch\<close>, with \<open>autoAck\<close> for its calls of \<open>maybeAutoAck\<close>. For a duplicate broadcast the code asks
  \<open>canCommunicate\<close> inside the loop that acknowledges, for a new one before it delivers.
\<close>

definition dispatchWith :: "(Message \<Rightarrow> string \<Rightarrow> Bus \<Rightarrow> Bus) \<Rightarrow> BusEnv \<Rightarrow> Message \<Rightarrow> Bus \<Rightarrow> Bus" where
  "dispatchWith autoAck env m bus =
     (if msg_automaticAck m \<and> msg_id m \<in> bus_seen bus then
        (if msg_receiver m = ''*'' then
           fold (\<lambda>uid b. if uid \<noteq> msg_sender m \<and> canTalk b (msg_sender m) uid
                          then autoAck m uid b else b)
             (map fst (bus_handlers bus)) bus
         else if msg_receiver m \<noteq> [] \<and> canTalk bus (msg_sender m) (msg_receiver m)
         then autoAck m (msg_receiver m) bus else bus)
      else
        (let posted = emit (Posted m (unitSide (bus_units bus) (msg_sender m))
                              (unitSide (bus_units bus) (msg_receiver m)) (bus_time bus)) bus
         in if msg_receiver m = ''*'' then
              (let targets = reachable posted m;
                   b1 = (if msg_automaticAck m \<and> targets \<noteq> []
                         then rememberAutomaticMessageId (msg_id m) posted else posted)
               in fold (\<lambda>uid b. autoAck m uid (deliver env m uid b)) targets b1)
            else if msg_receiver m = [] then posted
            else if canTalk posted (msg_sender m) (msg_receiver m) then
              (let b1 = (if msg_automaticAck m then rememberAutomaticMessageId (msg_id m) posted
                         else posted)
               in autoAck m (msg_receiver m) (deliver env m (msg_receiver m) b1))
            else posted))"

section \<open>Sending\<close>

text \<open>The part of \<open>send\<close> that settles the message a reply acknowledges.\<close>

definition settleAck :: "Message \<Rightarrow> Bus \<Rightarrow> Bus" where
  "settleAck m bus =
     (let inReplyTo = jtoString (jget (msg_payload m) ''inReplyTo'')
      in if msg_type m = TAck \<and> inReplyTo \<noteq> [] then
           (case map_of (bus_pending bus) inReplyTo of
              None \<Rightarrow> bus
            | Some p \<Rightarrow>
                emit (AckStateChanged inReplyTo True (pa_retries p) ''ack'')
                  (bus\<lparr>bus_pending := filter (\<lambda>(k, v). k \<noteq> inReplyTo) (bus_pending bus)\<rparr>))
         else bus)"

definition insertPending :: "string \<Rightarrow> PendingAck \<Rightarrow> (string \<times> PendingAck) list
    \<Rightarrow> (string \<times> PendingAck) list" where
  "insertPending i p ps = filter (\<lambda>(k, v). k \<noteq> i) ps @ [(i, p)]"

text \<open>\<open>send\<close> up to the encoding: time stamp and identity.\<close>

definition stampMessage :: "BusEnv \<Rightarrow> Message \<Rightarrow> Bus \<Rightarrow> Message \<times> Bus" where
  "stampMessage env m bus =
     (let m1 = (if msg_timestamp m = [] then m\<lparr>msg_timestamp := env_now env\<rparr> else m)
      in if msg_id m1 = []
         then (m1\<lparr>msg_id := ''m_'' @ number (bus_seq bus + 1)\<rparr>, bus\<lparr>bus_seq := bus_seq bus + 1\<rparr>)
         else (m1, bus))"

text \<open>\<open>send\<close> behind the encoding: pending entry, acknowledgement, dispatch.\<close>

definition trackMessage :: "Message \<Rightarrow> Bus \<Rightarrow> Message \<times> Bus" where
  "trackMessage m0 bus =
     (let m = m0\<lparr>msg_automaticAck := (if bus_automaticAck bus \<and> msg_requiresAck m0 then True
                                       else msg_automaticAck m0),
                 msg_acked := \<not> msg_requiresAck m0\<rparr>;
          b1 = (if msg_requiresAck m \<and> msg_type m \<noteq> TAck
                then bus\<lparr>bus_pending := insertPending (msg_id m)
                       \<lparr>pa_message = m, pa_sentAt = bus_time bus, pa_retries = msg_retryCount m\<rparr>
                       (bus_pending bus)\<rparr>
                else bus)
      in (m, settleAck m b1))"

definition encodeMessage :: "BusEnv \<Rightarrow> Message \<Rightarrow> Bus \<Rightarrow> Message option" where
  "encodeMessage env m bus =
     (if bus_hasEncoder bus \<and> \<not> msg_vmfEncoded m \<and> msg_type m \<noteq> TAck
      then map_option (\<lambda>e. e\<lparr>msg_vmfEncoded := True\<rparr>) (env_encode env m)
      else Some m)"

definition sendWith :: "(BusEnv \<Rightarrow> Message \<Rightarrow> Bus \<Rightarrow> Bus) \<Rightarrow> BusEnv \<Rightarrow> Message \<Rightarrow> Bus \<Rightarrow> bool \<times> Bus" where
  "sendWith dispatch env msg bus =
     (let (m, b1) = stampMessage env msg bus
      in case encodeMessage env m b1 of
           None \<Rightarrow> (False, emit (VmfEncodingFailed (msg_id m)) b1)
         | Some e \<Rightarrow> (let (m', b2) = trackMessage e b1 in (True, dispatch env m' b2)))"

text \<open>
  \<open>maybeAutoAck\<close> sends an acknowledgement, whose own dispatch calls \<open>maybeAutoAck\<close> again; that call
  returns at once, because an acknowledgement is not acknowledged.
\<close>

definition ackFor :: "Message \<Rightarrow> string \<Rightarrow> Message" where
  "ackFor m recipient = emptyMessage\<lparr>msg_type := TAck, msg_sender := recipient,
     msg_receiver := msg_sender m, msg_automaticAck := False, msg_traceId := msg_traceId m,
     msg_correlationId := msg_id m, msg_payload := [(''inReplyTo'', JStr (msg_id m))]\<rparr>"

definition needsAutoAck :: "Message \<Rightarrow> bool" where
  "needsAutoAck m \<longleftrightarrow> msg_requiresAck m \<and> msg_automaticAck m \<and> msg_type m \<noteq> TAck"

definition dispatchAck :: "BusEnv \<Rightarrow> Message \<Rightarrow> Bus \<Rightarrow> Bus" where
  "dispatchAck env m bus = dispatchWith (\<lambda>_ _ b. b) env m bus"

definition maybeAutoAck :: "BusEnv \<Rightarrow> Message \<Rightarrow> string \<Rightarrow> Bus \<Rightarrow> Bus" where
  "maybeAutoAck env m recipient bus =
     (if \<not> needsAutoAck m then bus else snd (sendWith dispatchAck env (ackFor m recipient) bus))"

definition dispatch :: "BusEnv \<Rightarrow> Message \<Rightarrow> Bus \<Rightarrow> Bus" where
  "dispatch env m bus = dispatchWith (maybeAutoAck env) env m bus"

definition send :: "BusEnv \<Rightarrow> Message \<Rightarrow> Bus \<Rightarrow> bool \<times> Bus" where
  "send env msg bus = sendWith dispatch env msg bus"

section \<open>Simulation time\<close>

definition setSimulationTime :: "rat \<Rightarrow> Bus \<Rightarrow> Bus" where
  "setSimulationTime seconds bus = bus\<lparr>bus_time := max 0 seconds\<rparr>"

definition setAckPolicy :: "rat \<Rightarrow> int \<Rightarrow> bool \<Rightarrow> Bus \<Rightarrow> Bus" where
  "setAckPolicy timeoutSeconds maxRetries automaticAck bus =
     bus\<lparr>bus_ackTimeout := (if 0 < timeoutSeconds then timeoutSeconds else bus_ackTimeout bus),
         bus_maxAckRetries := (if maxRetries < 0 then 0 else if 16 < maxRetries then 16 else maxRetries),
         bus_automaticAck := automaticAck\<rparr>"

definition ackEpsilon :: rat where
  "ackEpsilon = 1 / 1000000000"

definition overdue :: "Bus \<Rightarrow> PendingAck \<Rightarrow> bool" where
  "overdue bus p \<longleftrightarrow> \<not> (bus_time bus - pa_sentAt p + ackEpsilon < bus_ackTimeout bus)"

definition retryPending :: "BusEnv \<Rightarrow> string \<Rightarrow> Bus \<Rightarrow> Bus" where
  "retryPending env i bus =
     (case map_of (bus_pending bus) i of
        None \<Rightarrow> bus
      | Some p \<Rightarrow>
          if \<not> overdue bus p then bus
          else if pa_retries p < bus_maxAckRetries bus then
            (let retryCount = pa_retries p + 1;
                 b1 = bus\<lparr>bus_pending := map (\<lambda>(k, v). (k, if k = i
                         then v\<lparr>pa_retries := retryCount, pa_sentAt := bus_time bus\<rparr> else v))
                       (bus_pending bus)\<rparr>;
                 retry = (pa_message p)\<lparr>msg_retryCount := retryCount, msg_acked := False\<rparr>
             in emit (AckStateChanged i False retryCount ''retry'') (dispatch env retry b1))
          else
            emit (AckStateChanged i False (pa_retries p) ''timeout'')
              (bus\<lparr>bus_pending := filter (\<lambda>(k, v). k \<noteq> i) (bus_pending bus)\<rparr>))"

definition advanceSimulationTime :: "BusEnv \<Rightarrow> rat \<Rightarrow> Bus \<Rightarrow> Bus" where
  "advanceSimulationTime env seconds bus =
     (if seconds \<le> 0 then bus
      else (let b1 = bus\<lparr>bus_time := bus_time bus + seconds\<rparr>
            in fold (retryPending env) (map fst (bus_pending b1)) b1))"

section \<open>What dispatching can change\<close>

text \<open>An acknowledgement is dispatched as any other message.\<close>

lemma dispatchWith_cong:
  assumes "f m = g m"
  shows "dispatchWith f env m = dispatchWith g env m"
  unfolding dispatchWith_def fun_eq_iff assms by simp

lemma dispatch_ack: "msg_type m = TAck \<Longrightarrow> dispatch env m = dispatchAck env m"
  using dispatchWith_cong [of "maybeAutoAck env" m "\<lambda>_ _ b. b" env]
  by (simp add: fun_eq_iff dispatch_def dispatchAck_def maybeAutoAck_def needsAutoAck_def)

lemma stampMessage_simps [simp]:
  "msg_type (fst (stampMessage env m bus)) = msg_type m"
  "msg_requiresAck (fst (stampMessage env m bus)) = msg_requiresAck m"
  "msg_payload (fst (stampMessage env m bus)) = msg_payload m"
  by (simp_all add: stampMessage_def Let_def)

lemma ack_sent_unencoded:
  "msg_type m = TAck \<Longrightarrow> sendWith d env m bus =
     (let (m1, b1) = stampMessage env m bus; (m', b2) = trackMessage m1 b1 in (True, d env m' b2))"
  using stampMessage_simps(1) [of env m bus]
  by (simp add: sendWith_def encodeMessage_def split_beta Let_def)

lemma trackMessage_type [simp]: "msg_type (fst (trackMessage m b)) = msg_type m"
  by (simp add: trackMessage_def Let_def)

text \<open>The recursion of \<open>maybeAutoAck\<close> through \<open>send\<close> is the one written here.\<close>

lemma maybeAutoAck_send:
  "maybeAutoAck env m r bus = (if \<not> needsAutoAck m then bus else snd (send env (ackFor m r) bus))"
proof -
  have "msg_type (ackFor m r) = TAck" by (simp add: ackFor_def)
  then show ?thesis
    using dispatch_ack [of "fst (trackMessage (fst (stampMessage env (ackFor m r) bus)) (snd (stampMessage env (ackFor m r) bus)))" env]
    by (simp add: maybeAutoAck_def send_def ack_sent_unencoded split_beta Let_def)
qed

text \<open>The signals that posting and delivering a message emits are allowed.\<close>

definition sendable :: "(BusEvent \<Rightarrow> bool) \<Rightarrow> Message \<Rightarrow> bool" where
  "sendable allowed m \<longleftrightarrow> (\<forall>s t n. allowed (Posted m s t n)) \<and> (\<forall>u. allowed (Delivered u m))"

lemma sendable_True [simp]: "sendable (\<lambda>_. True) m"
  unfolding sendable_def by simp

text \<open>
  A property of the bus that the elementary changes keep is kept by dispatching: the signals that
  are \<open>allowed\<close> (those about acknowledgements always are), the handlers, settling a reply,
  remembering an id, taking a number. The properties of the bus below instantiate it.
\<close>

locale bus_closed =
  fixes env :: BusEnv
    and allowed :: "BusEvent \<Rightarrow> bool"
    and Q :: "Bus \<Rightarrow> bool"
  assumes emits: "allowed e \<Longrightarrow> Q b \<Longrightarrow> Q (emit e b)"
    and acks: "msg_type a = TAck \<Longrightarrow> allowed (Posted a s t n) \<and> allowed (Delivered u a)"
    and handles: "Q b \<Longrightarrow> Q (env_run env h m b)"
    and settles: "Q b \<Longrightarrow> Q (settleAck m b)"
    and remembers: "Q b \<Longrightarrow> Q (rememberAutomaticMessageId i b)"
    and numbers: "Q b \<Longrightarrow> Q (b\<lparr>bus_seq := k\<rparr>)"
begin

lemma ack_sendable: "msg_type a = TAck \<Longrightarrow> sendable allowed a"
  by (simp add: sendable_def acks)

lemma fold_keeps: "(\<And>x b. Q b \<Longrightarrow> Q (f x b)) \<Longrightarrow> Q b \<Longrightarrow> Q (fold f xs b)"
  by (induction xs arbitrary: b) auto

lemma deliver_keeps: "sendable allowed m \<Longrightarrow> Q b \<Longrightarrow> Q (deliver env m uid b)"
  by (auto simp: deliver_def sendable_def intro!: fold_keeps handles emits split: option.splits)

lemma dispatchWith_keeps:
  assumes "\<And>m uid b. Q b \<Longrightarrow> Q (ack m uid b)" "Q b"
    and "sendable allowed m \<or> (msg_automaticAck m \<and> msg_id m \<in> bus_seen b)"
  shows "Q (dispatchWith ack env m b)"
proof (cases "msg_automaticAck m \<and> msg_id m \<in> bus_seen b")
  case True
  then show ?thesis
    using assms(1,2) by (auto simp: dispatchWith_def intro!: fold_keeps assms(1))
next
  case False
  with assms(3) have s: "sendable allowed m" by blast
  then have "Q (emit (Posted m x y z) b)" for x y z
    using assms(2) by (simp add: sendable_def emits)
  with False s show ?thesis
    unfolding dispatchWith_def Let_def
    by (auto intro!: fold_keeps assms(1) remembers deliver_keeps)
qed

lemma stamp_keeps: "Q b \<Longrightarrow> Q (snd (stampMessage env m b))"
  by (simp add: stampMessage_def Let_def numbers)

lemma ack_keeps: "Q b \<Longrightarrow> Q (maybeAutoAck env m r b)"
proof -
  assume "Q b"
  then have "Q (snd (stampMessage env (ackFor m r) b))" by (rule stamp_keeps)
  then have "Q (snd (trackMessage (fst (stampMessage env (ackFor m r) b)) (snd (stampMessage env (ackFor m r) b))))"
    by (simp add: trackMessage_def Let_def ackFor_def emptyMessage_def settles)
  then have "Q (snd (sendWith dispatchAck env (ackFor m r) b))"
    by (subst ack_sent_unencoded)
      (auto simp: ackFor_def split_beta Let_def dispatchAck_def intro!: dispatchWith_keeps ack_sendable)
  with \<open>Q b\<close> show ?thesis by (simp add: maybeAutoAck_def)
qed

lemma dispatch_keeps: "sendable allowed m \<Longrightarrow> Q b \<Longrightarrow> Q (dispatch env m b)"
  unfolding dispatch_def by (rule dispatchWith_keeps [OF ack_keeps]) auto

lemma duplicate_keeps:
  "msg_automaticAck m \<Longrightarrow> msg_id m \<in> bus_seen b \<Longrightarrow> Q b \<Longrightarrow> Q (dispatch env m b)"
  unfolding dispatch_def by (rule dispatchWith_keeps [OF ack_keeps]) auto

end

section \<open>The memory of automatic messages\<close>

interpretation seen_log: bounded_log "push_log 4096" 4096
  by (rule bounded_log_push_log) simp

definition seen_ok :: "Bus \<Rightarrow> bool" where
  "seen_ok b \<longleftrightarrow> bus_seen b = set (bus_seenOrder b) \<and> distinct (bus_seenOrder b)
     \<and> length (bus_seenOrder b) \<le> 4096"

lemma forgetOldest_trim:
  "distinct order \<Longrightarrow> seen = set order \<Longrightarrow>
   forgetOldest (seen, order) = (set (trim_log 4096 order), trim_log 4096 order)"
proof (induction "(seen, order)" arbitrary: seen order rule: forgetOldest.induct)
  case (1 seen order)
  show ?case
  proof (cases "4096 < length order")
    case True
    then obtain x xs where xs: "order = x # xs" by (cases order) auto
    have step: "trim_log 4096 order = trim_log 4096 (tl order)"
      using True by (subst trim_log.simps) simp
    have "seen - {hd order} = set (tl order)" "distinct (tl order)"
      using 1(2,3) xs by auto
    with 1(1) True have "forgetOldest (seen - {hd order}, tl order)
        = (set (trim_log 4096 (tl order)), trim_log 4096 (tl order))"
      by (simp add: maxAutomaticMessageIds_def)
    with True show ?thesis
      by (subst forgetOldest.simps) (simp add: maxAutomaticMessageIds_def step)
  next
    case False
    with 1(3) show ?thesis
      by (subst forgetOldest.simps, subst (1 2) trim_log.simps) (simp add: maxAutomaticMessageIds_def)
  qed
qed

lemma remember_eq:
  assumes "seen_ok b" "i \<noteq> []" "i \<notin> bus_seen b"
  shows "rememberAutomaticMessageId i b =
     b\<lparr>bus_seen := set (push_log 4096 i (bus_seenOrder b)), bus_seenOrder := push_log 4096 i (bus_seenOrder b)\<rparr>"
proof -
  have "distinct (bus_seenOrder b @ [i])" "insert i (bus_seen b) = set (bus_seenOrder b @ [i])"
    using assms by (auto simp: seen_ok_def)
  then show ?thesis
    using assms forgetOldest_trim [of "bus_seenOrder b @ [i]" "insert i (bus_seen b)"]
    by (simp add: rememberAutomaticMessageId_def push_log_def)
qed

lemma remember_seen_ok:
  assumes "seen_ok b"
  shows "seen_ok (rememberAutomaticMessageId i b)"
proof (cases "i = [] \<or> i \<in> bus_seen b")
  case True
  with assms show ?thesis by (simp add: rememberAutomaticMessageId_def)
next
  case False
  then have "i \<notin> set (bus_seenOrder b)" "distinct (bus_seenOrder b)" using assms by (auto simp: seen_ok_def)
  then have "distinct (push_log 4096 i (bus_seenOrder b))" by (rule seen_log.push_distinct [rotated])
  with False seen_log.push_bound [of i "bus_seenOrder b"] show ?thesis
    by (simp add: remember_eq [OF assms] seen_ok_def del: push_log_eq)
qed

text \<open>A new automatic message is remembered; the memory never holds more than 4096 ids, keeps the
  newest and drops the oldest, and its set and its order always agree.\<close>

lemma remember_newest:
  assumes "seen_ok b" "i \<noteq> []" "i \<notin> bus_seen b"
  shows "seen_ok (rememberAutomaticMessageId i b) \<and> i \<in> bus_seen (rememberAutomaticMessageId i b)
     \<and> bus_seenOrder (rememberAutomaticMessageId i b)
       = drop (Suc (length (bus_seenOrder b)) - 4096) (bus_seenOrder b @ [i])"
proof -
  have "i \<in> set (push_log 4096 i (bus_seenOrder b))"
    using seen_log.push_last [of i "bus_seenOrder b"] by (metis last_in_set)
  then show ?thesis
    using remember_seen_ok [OF assms(1), of i]
    by (simp add: remember_eq [OF assms] push_log_eq)
qed

lemma remember_newest_witness:
  "bus_seenOrder (rememberAutomaticMessageId ''m_1'' emptyBus) = [''m_1'']"
  using remember_newest [of emptyBus "''m_1''"] by (simp add: seen_ok_def emptyBus_def)

section \<open>The invariant of the bus\<close>

definition pending_ok :: "(string \<times> PendingAck) list \<Rightarrow> bool" where
  "pending_ok ps \<longleftrightarrow> distinct (map fst ps)
     \<and> (\<forall>(k, p) \<in> set ps. msg_id (pa_message p) = k \<and> msg_requiresAck (pa_message p)
          \<and> msg_type (pa_message p) \<noteq> TAck)"

definition bus_ok :: "Bus \<Rightarrow> bool" where
  "bus_ok b \<longleftrightarrow> distinct (map fst (bus_handlers b)) \<and> distinct (map fst (bus_units b))
     \<and> pending_ok (bus_pending b) \<and> seen_ok b"

datatype BusCall =
    CallSubscribe string nat | CallUnsubscribe string | CallUnregister string
  | CallPosition string "rat \<times> rat" rat string | CallActive string bool
  | CallCommandPost string bool | CallSide string string | CallSend Message
  | CallSetTime rat | CallAdvance rat | CallAckPolicy rat int bool

primrec bus_call :: "BusEnv \<Rightarrow> BusCall \<Rightarrow> Bus \<Rightarrow> Bus" where
  "bus_call env (CallSubscribe uid h) b = subscribe uid h b"
| "bus_call env (CallUnsubscribe uid) b = unsubscribe uid b"
| "bus_call env (CallUnregister uid) b = unregisterUnit uid b"
| "bus_call env (CallPosition uid pos r side) b =
     b\<lparr>bus_units := updateUnitPosition uid pos r side (bus_units b)\<rparr>"
| "bus_call env (CallActive uid active) b = b\<lparr>bus_units := setUnitActive uid active (bus_units b)\<rparr>"
| "bus_call env (CallCommandPost uid cp) b = b\<lparr>bus_units := setUnitCommandPost uid cp (bus_units b)\<rparr>"
| "bus_call env (CallSide uid side) b = b\<lparr>bus_units := updateUnitSide uid side (bus_units b)\<rparr>"
| "bus_call env (CallSend m) b = snd (send env m b)"
| "bus_call env (CallSetTime t) b = setSimulationTime t b"
| "bus_call env (CallAdvance t) b = advanceSimulationTime env t b"
| "bus_call env (CallAckPolicy t n auto) b = setAckPolicy t n auto b"

lemma filter_fst_distinct: "distinct (map fst xs) \<Longrightarrow> distinct (map fst (filter P xs))"
  by (simp add: distinct_map_filter)

lemma map_keys: "map fst (map (\<lambda>(k, v). (k, f k v)) xs) = map fst xs"
  by (induction xs) auto

lemma pending_ok_filter: "pending_ok ps \<Longrightarrow> pending_ok (filter P ps)"
  by (auto simp: pending_ok_def filter_fst_distinct)

lemma pending_ok_insert:
  assumes "pending_ok ps" "msg_id (pa_message p) = i" "msg_requiresAck (pa_message p)"
    "msg_type (pa_message p) \<noteq> TAck"
  shows "pending_ok (insertPending i p ps)"
  using assms filter_fst_distinct [of ps "\<lambda>(k, v). k \<noteq> i"]
  by (auto simp: pending_ok_def insertPending_def)

lemma bus_ok_fields [simp]:
  "bus_ok (emit e b) = bus_ok b" "bus_ok (b\<lparr>bus_seq := n\<rparr>) = bus_ok b" "bus_ok (b\<lparr>bus_time := t\<rparr>) = bus_ok b"
  by (simp_all add: bus_ok_def seen_ok_def emit_def)

lemma settleAck_ok: "bus_ok b \<Longrightarrow> bus_ok (settleAck m b)"
  by (auto simp: settleAck_def Let_def bus_ok_def seen_ok_def emit_def pending_ok_filter split: option.split)

lemma remember_fields [simp]:
  "bus_handlers (rememberAutomaticMessageId i b) = bus_handlers b"
  "bus_units (rememberAutomaticMessageId i b) = bus_units b"
  "bus_pending (rememberAutomaticMessageId i b) = bus_pending b"
  "bus_time (rememberAutomaticMessageId i b) = bus_time b"
  "bus_maxAckRetries (rememberAutomaticMessageId i b) = bus_maxAckRetries b"
  "bus_ackTimeout (rememberAutomaticMessageId i b) = bus_ackTimeout b"
  "bus_trace (rememberAutomaticMessageId i b) = bus_trace b"
  by (simp_all add: rememberAutomaticMessageId_def split_beta Let_def)

lemma remember_ok: "bus_ok b \<Longrightarrow> bus_ok (rememberAutomaticMessageId i b)"
  using remember_seen_ok by (simp add: bus_ok_def)

lemma bus_ok_closed:
  assumes "\<And>h m b. bus_ok b \<Longrightarrow> bus_ok (env_run env h m b)"
  shows "bus_closed env (\<lambda>_. True) bus_ok"
  by unfold_locales (simp_all add: assms settleAck_ok remember_ok)

lemma dispatch_ok:
  assumes "\<And>h m b. bus_ok b \<Longrightarrow> bus_ok (env_run env h m b)" "bus_ok b"
  shows "bus_ok (dispatch env m b)"
proof -
  note C = bus_ok_closed [OF assms(1)]
  show ?thesis by (rule bus_closed.dispatch_keeps [OF C _ assms(2)]) simp_all
qed

lemma trackMessage_ok:
  assumes "bus_ok b"
  shows "bus_ok (snd (trackMessage m b))"
proof -
  let ?m = "m\<lparr>msg_automaticAck := (if bus_automaticAck b \<and> msg_requiresAck m then True
      else msg_automaticAck m), msg_acked := \<not> msg_requiresAck m\<rparr>"
  have "bus_ok (b\<lparr>bus_pending := insertPending (msg_id m)
      \<lparr>pa_message = ?m, pa_sentAt = bus_time b, pa_retries = msg_retryCount m\<rparr> (bus_pending b)\<rparr>)"
    if "msg_requiresAck m" "msg_type m \<noteq> TAck"
    using assms that by (auto simp: bus_ok_def seen_ok_def intro!: pending_ok_insert)
  then show ?thesis using assms by (simp add: trackMessage_def Let_def settleAck_ok)
qed

lemma send_ok:
  assumes "\<And>h m b. bus_ok b \<Longrightarrow> bus_ok (env_run env h m b)" "bus_ok b"
  shows "bus_ok (snd (send env m b))"
proof -
  note C = bus_ok_closed [OF assms(1)]
  have s: "bus_ok (snd (stampMessage env m b))" by (rule bus_closed.stamp_keeps [OF C assms(2)])
  show ?thesis
    using s trackMessage_ok dispatch_ok [OF assms(1)]
    by (auto simp: send_def sendWith_def split_beta Let_def split: option.split)
qed

lemma pending_ok_map:
  assumes "pending_ok ps" "\<And>k v. pa_message (f k v) = pa_message v"
  shows "pending_ok (map (\<lambda>(k, v). (k, f k v)) ps)"
proof -
  have "distinct (map fst (map (\<lambda>(k, v). (k, f k v)) ps))"
    using assms(1) by (simp only: map_keys pending_ok_def)
  then show ?thesis
    using assms unfolding pending_ok_def by (auto simp del: map_map)
qed

lemma retryPending_ok:
  assumes "\<And>h m b. bus_ok b \<Longrightarrow> bus_ok (env_run env h m b)" "bus_ok b"
  shows "bus_ok (retryPending env i b)"
proof (cases "map_of (bus_pending b) i")
  case None
  with assms(2) show ?thesis by (simp add: retryPending_def)
next
  case (Some p)
  let ?f = "\<lambda>k v. if k = i then v\<lparr>pa_retries := pa_retries p + 1, pa_sentAt := bus_time b\<rparr> else v"
  have "pending_ok (map (\<lambda>(k, v). (k, ?f k v)) (bus_pending b))"
    by (rule pending_ok_map) (use assms(2) in \<open>simp_all add: bus_ok_def\<close>)
  then have "bus_ok (b\<lparr>bus_pending := map (\<lambda>(k, v). (k, ?f k v)) (bus_pending b)\<rparr>)"
    using assms(2) by (simp add: bus_ok_def seen_ok_def)
  then have "bus_ok (dispatch env m (b\<lparr>bus_pending := map (\<lambda>(k, v). (k, ?f k v)) (bus_pending b)\<rparr>))" for m
    using dispatch_ok [OF assms(1)] by blast
  moreover have "bus_ok (b\<lparr>bus_pending := filter (\<lambda>(k, v). k \<noteq> i) (bus_pending b)\<rparr>)"
    using assms(2) by (simp add: bus_ok_def seen_ok_def pending_ok_filter)
  ultimately show ?thesis using assms(2) Some by (simp add: retryPending_def Let_def)
qed

lemma advance_ok:
  assumes "\<And>h m b. bus_ok b \<Longrightarrow> bus_ok (env_run env h m b)" "bus_ok b"
  shows "bus_ok (advanceSimulationTime env t b)"
proof -
  have "bus_ok (fold (retryPending env) is b)" if "bus_ok b" for "is" b
    using that retryPending_ok [OF assms(1)] by (induction "is" arbitrary: b) auto
  then show ?thesis using assms(2) by (simp add: advanceSimulationTime_def)
qed

lemma units_update_keys [simp]: "map fst (units_update uid f us) = map fst us"
  by (simp add: units_update_def) (induction us, auto)

lemma bus_call_ok:
  assumes "\<And>h m b. bus_ok b \<Longrightarrow> bus_ok (env_run env h m b)" "bus_ok b"
  shows "bus_ok (bus_call env c b)"
proof (cases c)
  case (CallSubscribe uid h)
  have "distinct (map fst (map (\<lambda>(k, hs). (k, if k = uid then hs @ [h] else hs)) (bus_handlers b)))"
    using assms(2) by (simp only: map_keys bus_ok_def)
  with assms(2) show ?thesis
    by (auto simp: CallSubscribe subscribe_def bus_ok_def seen_ok_def units_emplace_def
        map_of_eq_None_iff simp del: map_map)
next
  case (CallUnsubscribe uid)
  with assms(2) show ?thesis by (simp add: unsubscribe_def bus_ok_def seen_ok_def filter_fst_distinct)
next
  case (CallUnregister uid)
  with assms(2) show ?thesis
    by (simp add: unregisterUnit_def unsubscribe_def units_erase_def bus_ok_def seen_ok_def filter_fst_distinct)
qed (use assms send_ok advance_ok in \<open>simp_all add: bus_ok_def seen_ok_def updateUnitPosition_def
    setUnitActive_def setUnitCommandPost_def updateUnitSide_def setSimulationTime_def setAckPolicy_def\<close>)

text \<open>An environment whose handlers leave the bus alone, as the slot of the guided strike workflow does.\<close>

definition quietEnv :: "(Message \<Rightarrow> Message option) \<Rightarrow> string \<Rightarrow> BusEnv" where
  "quietEnv encode now = \<lparr>env_encode = encode, env_run = (\<lambda>_ _ b. b), env_now = now\<rparr>"

interpretation quiet_bus: bus_closed "quietEnv encode now" "\<lambda>_. True" bus_ok for encode now
  by (rule bus_ok_closed) (simp add: quietEnv_def)

section \<open>Duplicates\<close>

definition isAckEvent :: "BusEvent \<Rightarrow> bool" where
  "isAckEvent e = (case e of Posted m s t n \<Rightarrow> msg_type m = TAck | Delivered u m \<Rightarrow> msg_type m = TAck
     | AckStateChanged i acked n reason \<Rightarrow> True | VmfEncodingFailed i \<Rightarrow> False)"

text \<open>The trace grows by signals about acknowledgements only.\<close>

definition onlyAcksSince :: "BusEvent list \<Rightarrow> Bus \<Rightarrow> bool" where
  "onlyAcksSince t b \<longleftrightarrow> (\<exists>new. bus_trace b = t @ new \<and> list_all isAckEvent new)"

lemma onlyAcks_emit: "isAckEvent e \<Longrightarrow> onlyAcksSince t b \<Longrightarrow> onlyAcksSince t (emit e b)"
  by (force simp: onlyAcksSince_def emit_def)

lemma onlyAcks_remember: "onlyAcksSince t (rememberAutomaticMessageId i b) = onlyAcksSince t b"
  and onlyAcks_number: "onlyAcksSince t (b\<lparr>bus_seq := n\<rparr>) = onlyAcksSince t b"
  by (simp_all add: onlyAcksSince_def)

lemma onlyAcks_settle: "onlyAcksSince t b \<Longrightarrow> onlyAcksSince t (settleAck m b)"
  by (auto simp: settleAck_def Let_def intro!: onlyAcks_emit split: option.split)
    (simp_all add: isAckEvent_def onlyAcksSince_def)

interpretation ack_trace: bus_closed "quietEnv encode now" isAckEvent "onlyAcksSince t" for encode now t
  by unfold_locales
    (simp_all add: onlyAcks_emit onlyAcks_settle onlyAcks_remember onlyAcks_number quietEnv_def,
     simp add: isAckEvent_def)

text \<open>An automatic message whose id has been seen is acknowledged again and nothing else: it is not
  posted and not delivered to any handler a second time.\<close>

lemma duplicate_not_delivered:
  assumes "msg_automaticAck m" "msg_id m \<in> bus_seen b"
  shows "\<exists>new. bus_trace (dispatch (quietEnv encode now) m b) = bus_trace b @ new \<and> list_all isAckEvent new"
  using ack_trace.duplicate_keeps [OF assms, of "bus_trace b"] by (simp add: onlyAcksSince_def)

definition exAutomatic :: Message where
  "exAutomatic = emptyMessage\<lparr>msg_id := ''m'', msg_type := TAttackOrder, msg_sender := ''a'',
     msg_receiver := ''b'', msg_requiresAck := True, msg_automaticAck := True\<rparr>"

lemma duplicate_not_delivered_witness:
  "\<exists>new. bus_trace (dispatch (quietEnv Some ''t'') exAutomatic
       (emptyBus\<lparr>bus_units := exUnits, bus_handlers := [(''b'', [1])], bus_seen := {''m''},
          bus_seenOrder := [''m'']\<rparr>)) = [] @ new \<and> list_all isAckEvent new"
  using duplicate_not_delivered [of exAutomatic "emptyBus\<lparr>bus_units := exUnits,
      bus_handlers := [(''b'', [1])], bus_seen := {''m''}, bus_seenOrder := [''m'']\<rparr>" Some "''t''"]
  by (simp add: exAutomatic_def emptyBus_def)

section \<open>Every message is settled\<close>

text \<open>The pending entry of a message is gone or as it was, and the clock and the policy are.\<close>

definition entryKept :: "string \<Rightarrow> PendingAck option \<Rightarrow> Bus \<Rightarrow> Bus \<Rightarrow> bool" where
  "entryKept i p b0 b \<longleftrightarrow> (map_of (bus_pending b) i = None \<or> map_of (bus_pending b) i = p)
     \<and> bus_time b = bus_time b0 \<and> bus_maxAckRetries b = bus_maxAckRetries b0
     \<and> bus_ackTimeout b = bus_ackTimeout b0"

lemma map_of_filter_key: "map_of (filter (\<lambda>(k, v). k \<noteq> j) xs) i = (if i = j then None else map_of xs i)"
  by (induction xs) auto

lemma map_of_map_value: "map_of (map (\<lambda>(k, v). (k, f k v)) xs) i = map_option (f i) (map_of xs i)"
  by (induction xs) auto

lemma entryKept_settle: "entryKept i p b0 b \<Longrightarrow> entryKept i p b0 (settleAck m b)"
  by (auto simp: settleAck_def Let_def entryKept_def emit_def map_of_filter_key split: option.split)

text \<open>Handlers that do not touch the entry of a message, other than by acknowledging it.\<close>

definition spares :: "string \<Rightarrow> BusEnv \<Rightarrow> bool" where
  "spares i env \<longleftrightarrow> (\<forall>h m b. (bus_ok b \<longrightarrow> bus_ok (env_run env h m b))
     \<and> (\<forall>p b0. entryKept i p b0 b \<longrightarrow> entryKept i p b0 (env_run env h m b)))"

lemma entryKept_closed:
  assumes "\<And>h m b. entryKept i p b0 b \<Longrightarrow> entryKept i p b0 (env_run env h m b)"
  shows "bus_closed env (\<lambda>_. True) (entryKept i p b0)"
  by unfold_locales (simp_all add: entryKept_settle assms, simp_all add: entryKept_def emit_def)

lemma kept_dispatch: "spares i env \<Longrightarrow> entryKept i p b0 b \<Longrightarrow> entryKept i p b0 (dispatch env m b)"
  by (rule bus_closed.dispatch_keeps [OF entryKept_closed]) (simp_all add: sendable_def spares_def)

lemma retry_other:
  assumes env: "spares i env" and "entryKept i p b0 b" "j \<noteq> i"
  shows "entryKept i p b0 (retryPending env j b)"
proof (cases "map_of (bus_pending b) j")
  case None
  with assms show ?thesis by (simp add: retryPending_def)
next
  case (Some q)
  let ?b = "b\<lparr>bus_pending := map (\<lambda>(k, v). (k, if k = j
      then v\<lparr>pa_retries := pa_retries q + 1, pa_sentAt := bus_time b\<rparr> else v)) (bus_pending b)\<rparr>"
  have "entryKept i p b0 ?b"
    using assms by (auto simp: entryKept_def map_of_map_value option.map_ident)
  note d = kept_dispatch [OF env this]
  show ?thesis
    using assms Some d by (auto simp: retryPending_def Let_def entryKept_def emit_def map_of_filter_key)
qed

lemma retry_gone: "spares i env \<Longrightarrow> entryKept i None b0 b \<Longrightarrow> entryKept i None b0 (retryPending env j b)"
  by (cases "j = i") (auto simp: retry_other, simp add: retryPending_def entryKept_def)

lemma retry_self:
  assumes env: "spares i env" and "map_of (bus_pending b) i = Some p" "overdue b p"
  shows "entryKept i (if pa_retries p < bus_maxAckRetries b
             then Some (p\<lparr>pa_retries := pa_retries p + 1, pa_sentAt := bus_time b\<rparr>) else None) b
           (retryPending env i b)"
proof (cases "pa_retries p < bus_maxAckRetries b")
  case True
  let ?q = "p\<lparr>pa_retries := pa_retries p + 1, pa_sentAt := bus_time b\<rparr>"
  let ?b = "b\<lparr>bus_pending := map (\<lambda>(k, v). (k, if k = i
      then v\<lparr>pa_retries := pa_retries p + 1, pa_sentAt := bus_time b\<rparr> else v)) (bus_pending b)\<rparr>"
  have "entryKept i (Some ?q) b ?b"
    using assms(2) by (simp add: entryKept_def map_of_map_value)
  from kept_dispatch [OF env this] show ?thesis
    using assms True by (simp add: retryPending_def Let_def entryKept_def emit_def)
next
  case False
  with assms show ?thesis
    by (simp add: retryPending_def entryKept_def emit_def map_of_filter_key)
qed

text \<open>One advance past the timeout, seen from one entry.\<close>

lemma advance_others:
  assumes "spares i env" "entryKept i p b0 b" "i \<notin> set js"
  shows "entryKept i p b0 (fold (retryPending env) js b)"
  using assms by (induction js arbitrary: b) (auto simp: retry_other)

lemma entryKept_trans:
  "entryKept i p b0 b1 \<Longrightarrow> entryKept i (map_of (bus_pending b1) i) b1 b2 \<Longrightarrow> entryKept i p b0 b2"
  by (auto simp: entryKept_def)

lemma entryKept_same: "entryKept i (map_of (bus_pending b) i) b b"
  by (simp add: entryKept_def)

lemma advance_entry:
  assumes env: "spares i env" and "bus_ok b" "map_of (bus_pending b) i = Some p" "0 < dt"
    and "bus_ackTimeout b \<le> dt" "pa_sentAt p \<le> bus_time b"
  defines "b1 \<equiv> b\<lparr>bus_time := bus_time b + dt\<rparr>"
  shows "entryKept i (if pa_retries p < bus_maxAckRetries b
             then Some (p\<lparr>pa_retries := pa_retries p + 1, pa_sentAt := bus_time b + dt\<rparr>) else None) b1
           (advanceSimulationTime env dt b)"
proof -
  let ?q = "if pa_retries p < bus_maxAckRetries b
             then Some (p\<lparr>pa_retries := pa_retries p + 1, pa_sentAt := bus_time b + dt\<rparr>) else None"
  have "i \<in> set (map fst (bus_pending b))"
    using assms(3) by (metis map_of_eq_None_iff option.distinct(1) set_map)
  then obtain js ks where keys: "map fst (bus_pending b) = js @ i # ks" by (meson split_list)
  with assms(2) have "distinct (js @ i # ks)"
    by (metis bus_ok_def pending_ok_def)
  then have notin: "i \<notin> set js" "i \<notin> set ks" by auto
  define c1 where "c1 = fold (retryPending env) js b1"
  define c2 where "c2 = retryPending env i c1"
  have adv: "advanceSimulationTime env dt b = fold (retryPending env) ks c2"
    using assms(4) by (simp add: advanceSimulationTime_def Let_def keys c1_def c2_def b1_def)
  have k1: "entryKept i (Some p) b1 c1"
    unfolding c1_def by (rule advance_others [OF env _ notin(1)]) (use assms(3) in \<open>simp add: entryKept_def b1_def\<close>)
  have k2: "entryKept i ?q b1 c2"
  proof (cases "map_of (bus_pending c1) i")
    case None
    with k1 show ?thesis by (auto simp: c2_def retryPending_def entryKept_def)
  next
    case (Some p')
    with k1 have p: "map_of (bus_pending c1) i = Some p" by (auto simp: entryKept_def)
    have t: "bus_time c1 = bus_time b + dt" "bus_maxAckRetries c1 = bus_maxAckRetries b"
        "bus_ackTimeout c1 = bus_ackTimeout b"
      using k1 by (simp_all add: entryKept_def b1_def)
    have "overdue c1 p" using assms(5,6) by (simp add: overdue_def t ackEpsilon_def)
    from retry_self [OF env p this] t show ?thesis
      by (auto simp: c2_def entryKept_def b1_def split: if_splits)
  qed
  show ?thesis
    unfolding adv by (rule advance_others [OF env k2 notin(2)])
qed

lemma advance_gone:
  assumes env: "spares i env" and "map_of (bus_pending b) i = None"
  shows "map_of (bus_pending (advanceSimulationTime env dt b)) i = None"
proof -
  have "entryKept i None b0 (fold (retryPending env) js b)"
    if "entryKept i None b0 b" for js b b0
    using that by (induction js arbitrary: b) (auto intro: retry_gone [OF env])
  from this [of "b\<lparr>bus_time := bus_time b + dt\<rparr>" "b\<lparr>bus_time := bus_time b + dt\<rparr>"] assms show ?thesis
    by (auto simp: advanceSimulationTime_def Let_def entryKept_def)
qed

lemma retry_clock:
  assumes env: "spares i env"
  shows "bus_ackTimeout (retryPending env j b) = bus_ackTimeout b"
proof (cases "map_of (bus_pending b) j")
  case (Some q)
  have "entryKept i (map_of (bus_pending c) i) b (dispatch env m c)"
    if "bus_time c = bus_time b" "bus_maxAckRetries c = bus_maxAckRetries b" "bus_ackTimeout c = bus_ackTimeout b"
    for m c by (rule kept_dispatch [OF env]) (use that in \<open>simp add: entryKept_def\<close>)
  then show ?thesis using Some by (simp add: retryPending_def Let_def emit_def entryKept_def)
qed (simp add: retryPending_def)

lemma advance_clock:
  assumes env: "spares i env"
  shows "bus_ackTimeout (advanceSimulationTime env dt b) = bus_ackTimeout b"
proof -
  have "bus_ackTimeout (fold (retryPending env) js c) = bus_ackTimeout c" for js c
    by (induction js arbitrary: c) (auto simp: retry_clock [OF env])
  then show ?thesis by (simp add: advanceSimulationTime_def Let_def)
qed

text \<open>How many more advances past the timeout an entry can survive.\<close>

definition chancesLeft :: "string \<Rightarrow> Bus \<Rightarrow> nat" where
  "chancesLeft i b = (case map_of (bus_pending b) i of
     None \<Rightarrow> 0 | Some p \<Rightarrow> Suc (nat (bus_maxAckRetries b - pa_retries p)))"

definition sentInPast :: "string \<Rightarrow> Bus \<Rightarrow> bool" where
  "sentInPast i b \<longleftrightarrow> (case map_of (bus_pending b) i of None \<Rightarrow> True | Some p \<Rightarrow> pa_sentAt p \<le> bus_time b)"

lemma advance_settles:
  assumes env: "spares i env" and "bus_ok b" "sentInPast i b" "0 < bus_ackTimeout b" "bus_ackTimeout b \<le> dt"
    and b'_def: "b' = advanceSimulationTime env dt b"
  shows "chancesLeft i b' \<le> chancesLeft i b - 1" "sentInPast i b'" "bus_ackTimeout b' = bus_ackTimeout b"
    "bus_ok b'"
proof -
  show "bus_ok b'" unfolding b'_def by (rule advance_ok [OF _ assms(2)]) (use env in \<open>simp add: spares_def\<close>)
  have clock: "bus_ackTimeout b' = bus_ackTimeout b"
    unfolding b'_def by (rule advance_clock [OF env])
  then show "bus_ackTimeout b' = bus_ackTimeout b" .
  have "chancesLeft i b' \<le> chancesLeft i b - 1 \<and> sentInPast i b'"
  proof (cases "map_of (bus_pending b) i")
    case None
    then have "map_of (bus_pending b') i = None" unfolding b'_def by (rule advance_gone [OF env])
    then show ?thesis by (simp add: chancesLeft_def sentInPast_def)
  next
    case (Some p)
    have "pa_sentAt p \<le> bus_time b" using assms(3) Some by (simp add: sentInPast_def)
    from advance_entry [OF env assms(2) Some _ assms(5) this] assms(4,5)
    show ?thesis
      by (auto simp: chancesLeft_def sentInPast_def Some entryKept_def b'_def [symmetric] split: if_splits option.split)
  qed
  then show "chancesLeft i b' \<le> chancesLeft i b - 1" "sentInPast i b'" by auto
qed

text \<open>A message that waits for an acknowledgement is settled after as many advances past the timeout as it has retries
  left, and one more.\<close>

lemma advances_settle:
  assumes env: "spares i env" and "bus_ok b" "map_of (bus_pending b) i = Some p" "pa_sentAt p \<le> bus_time b"
    and "0 < bus_ackTimeout b" "list_all (\<lambda>dt. bus_ackTimeout b \<le> dt) dts"
    and "nat (bus_maxAckRetries b - pa_retries p) < length dts"
  shows "map_of (bus_pending (fold (advanceSimulationTime env) dts b)) i = None"
proof -
  have "chancesLeft i (fold (advanceSimulationTime env) dts b) \<le> chancesLeft i b - length dts"
    if "bus_ok b" "sentInPast i b" "0 < bus_ackTimeout b" "list_all (\<lambda>dt. bus_ackTimeout b \<le> dt) dts" for b
    using that
  proof (induction dts arbitrary: b)
    case (Cons dt dts)
    note s = advance_settles [OF env Cons.prems(1,2,3) _ refl, of dt]
    have "chancesLeft i (fold (advanceSimulationTime env) dts (advanceSimulationTime env dt b))
      \<le> chancesLeft i (advanceSimulationTime env dt b) - length dts"
      by (rule Cons.IH) (use Cons.prems s in auto)
    also have "\<dots> \<le> chancesLeft i b - length (dt # dts)" using s(1) Cons.prems(4) by auto
    finally show ?case by simp
  qed simp
  from this [OF assms(2) _ assms(5,6)] assms(3,4,7)
  have "chancesLeft i (fold (advanceSimulationTime env) dts b) = 0"
    by (auto simp: sentInPast_def chancesLeft_def)
  then show ?thesis by (simp add: chancesLeft_def split: option.splits)
qed

end
