(* ===== verification/BusState.thy ===== *)
theory BusState
  imports MessageBus
begin

text \<open>
  Saving and restoring the bus (\<open>pendingAckState\<close>, \<open>automaticMessageState\<close> and their \<open>restore\<close>
  functions in \<open>src/src/core/MessageBus.cpp\<close>). The base64 coding is two parameters; only where
  stated is the one assumed to decode what the other wrote.
\<close>

datatype RestoreError = StateTooLarge | EntryNotObject | EntryInvalid | TypeInvalid | WireBytesInvalid
  | BitLengthInvalid | PaddingInvalid | NoAckExpected | IdInvalid

section \<open>Messages that wait for an acknowledgement\<close>

definition pendingAckState :: "(8 word list \<Rightarrow> string) \<Rightarrow> Bus \<Rightarrow> json list" where
  "pendingAckState b64 bus = map (\<lambda>(i, p).
     JObj [(''message'', JObj (message_toJson b64 (pa_message p))), (''sentAt'', JNum (pa_sentAt p)),
           (''retries'', jint (pa_retries p))]) (bus_pending bus)"

definition entryFieldsInvalid :: "jobject \<Rightarrow> string \<Rightarrow> (string \<times> PendingAck) list \<Rightarrow> bool" where
  "entryFieldsInvalid entry i restored \<longleftrightarrow>
     i = [] \<or> 128 < length i \<or> \<not> isJNum (jget entry ''sentAt'')
     \<or> jtoDouble 0 (jget entry ''sentAt'') < 0
     \<or> \<not> isJNum (jget entry ''retries'')
     \<or> jtoDouble 0 (jget entry ''retries'') < 0
     \<or> 16 < jtoDouble 0 (jget entry ''retries'')
     \<or> of_int \<lfloor>jtoDouble 0 (jget entry ''retries'')\<rfloor> \<noteq> jtoDouble 0 (jget entry ''retries'')
     \<or> map_of restored i \<noteq> None"

definition paddingInvalid :: "8 word list \<Rightarrow> int \<Rightarrow> bool" where
  "paddingInvalid bytes bitLength \<longleftrightarrow>
     bytes \<noteq> [] \<and> bitLength mod 8 \<noteq> 0
     \<and> and (last bytes) (push_bit (8 - nat (bitLength mod 8)) 1 - 1) \<noteq> 0"

text \<open>The message of an entry, with the checks in the order of the code.\<close>

definition messageOfJson :: "(8 word list \<Rightarrow> string) \<Rightarrow> (string \<Rightarrow> 8 word list) \<Rightarrow> jobject
    \<Rightarrow> RestoreError + Message" where
  "messageOfJson b64 unb64 js =
     (case parseTypeName (jtoString (jget js ''type'')) of
        None \<Rightarrow> Inl TypeInvalid
      | Some type \<Rightarrow>
          (let encodedText = jtoString (jget js ''wireBytes'');
               encoded = unb64 encodedText;
               bitLength = jtoInt 0 (jget js ''wireBitLength'');
               wireFormat = (if jtoString (jget js ''wireFormat'') = ''vmf-design-v1''
                             then VmfDesignV1 else Native)
           in if jcontains js ''wireBytes'' \<and> (encoded = [] \<or> b64 encoded \<noteq> encodedText)
              then Inl WireBytesInvalid
              else if encoded \<noteq> [] \<and> (bitLength \<le> 0 \<or> int (length encoded) * 8 < bitLength)
              then Inl BitLengthInvalid
              else if paddingInvalid encoded bitLength then Inl PaddingInvalid
              else Inr \<lparr>msg_id = jtoString (jget js ''id''), msg_type = type,
                     msg_sender = jtoString (jget js ''sender''),
                     msg_receiver = jtoString (jget js ''receiver''), msg_timestamp = [],
                     msg_requiresAck = jtoBool False (jget js ''requiresAck''),
                     msg_acked = jtoBool False (jget js ''acked''),
                     msg_automaticAck = jtoBool False (jget js ''automaticAck''),
                     msg_vmfEncoded = (wireFormat = VmfDesignV1),
                     msg_retryCount = jtoInt 0 (jget js ''retryCount''),
                     msg_traceId = jtoString (jget js ''traceId''),
                     msg_correlationId = jtoString (jget js ''correlationId''),
                     msg_vmfMessage = jtoString (jget js ''vmfMessage''),
                     msg_wireFormat = wireFormat, msg_wireBytes = encoded, msg_wireBitLength = bitLength,
                     msg_payload = jtoObject (jget js ''payload'')\<rparr>))"

definition entryMessage :: "jobject \<Rightarrow> jobject" where
  "entryMessage entry = jtoObject (jget entry ''message'')"

definition pendingEntry :: "jobject \<Rightarrow> Message \<Rightarrow> PendingAck" where
  "pendingEntry entry m = \<lparr>pa_message = m, pa_sentAt = jtoDouble 0 (jget entry ''sentAt''),
     pa_retries = jtoInt 0 (jget entry ''retries'')\<rparr>"

definition restoreEntry :: "(8 word list \<Rightarrow> string) \<Rightarrow> (string \<Rightarrow> 8 word list) \<Rightarrow> json
    \<Rightarrow> (string \<times> PendingAck) list \<Rightarrow> RestoreError + (string \<times> PendingAck) list" where
  "restoreEntry b64 unb64 value restored =
     (let entry = jtoObject value;
          i = jtoString (jget (entryMessage entry) ''id'')
      in if \<not> isJObj value then Inl EntryNotObject
         else if entryFieldsInvalid entry i restored then Inl EntryInvalid
         else bind_res (messageOfJson b64 unb64 (entryMessage entry)) (\<lambda>m.
           if \<not> msg_requiresAck m \<or> msg_type m = TAck then Inl NoAckExpected
           else Inr (restored @ [(i, pendingEntry entry m)])))"

definition restorePendingAckState :: "(8 word list \<Rightarrow> string) \<Rightarrow> (string \<Rightarrow> 8 word list) \<Rightarrow> json list
    \<Rightarrow> Bus \<Rightarrow> RestoreError + Bus" where
  "restorePendingAckState b64 unb64 state bus =
     (if 1024 < length state then Inl StateTooLarge
      else bind_res (loop_res (\<lambda>_. restoreEntry b64 unb64) 0 state []) (\<lambda>restored.
        Inr (bus\<lparr>bus_pending := restored\<rparr>)))"

section \<open>Automatic messages already delivered\<close>

definition automaticMessageState :: "Bus \<Rightarrow> json list" where
  "automaticMessageState bus = map JStr (bus_seenOrder bus)"

definition restoreId :: "json \<Rightarrow> string set \<times> string list \<Rightarrow> RestoreError + string set \<times> string list" where
  "restoreId value restored =
     (if \<not> isJStr value \<or> trimmed (jtoString value) = [] \<or> 128 < length (jtoString value)
         \<or> jtoString value \<in> fst restored
      then Inl IdInvalid
      else Inr (insert (jtoString value) (fst restored), snd restored @ [jtoString value]))"

definition restoreAutomaticMessageState :: "json list \<Rightarrow> Bus \<Rightarrow> RestoreError + Bus" where
  "restoreAutomaticMessageState state bus =
     (if maxAutomaticMessageIds < length state then Inl StateTooLarge
      else bind_res (loop_res (\<lambda>_. restoreId) 0 state ({}, [])) (\<lambda>(seen, order).
        Inr (bus\<lparr>bus_seen := seen, bus_seenOrder := order\<rparr>)))"

section \<open>What is accepted\<close>

lemma messageOfJson_id:
  "messageOfJson b64 unb64 js = Inr m \<Longrightarrow> msg_id m = jtoString (jget js ''id'')"
  by (auto simp: messageOfJson_def Let_def split: option.splits if_splits)

lemma entry_new: "\<not> entryFieldsInvalid entry i ps \<Longrightarrow> map_of ps i = None"
  unfolding entryFieldsInvalid_def by blast

lemma restoreEntry_ok:
  assumes "restoreEntry b64 unb64 v ps = Inr ps'" "pending_ok ps"
  shows "pending_ok ps' \<and> length ps' = Suc (length ps)"
proof -
  define i where "i = jtoString (jget (entryMessage (jtoObject v)) ''id'')"
  obtain m where "map_of ps i = None" "messageOfJson b64 unb64 (entryMessage (jtoObject v)) = Inr m"
      "msg_requiresAck m" "msg_type m \<noteq> TAck" "ps' = ps @ [(i, pendingEntry (jtoObject v) m)]"
    using assms(1)
    by (auto simp: restoreEntry_def i_def [symmetric] Let_def bind_res_eq_Inr entry_new split: if_splits)
  moreover from this have "msg_id m = i" by (simp add: i_def messageOfJson_id)
  ultimately show ?thesis
    using assms(2) by (auto simp: pending_ok_def map_of_eq_None_iff pendingEntry_def)
qed

lemma restored_pending_ok:
  assumes "loop_res (\<lambda>_. restoreEntry b64 unb64) k vs [] = Inr ps"
  shows "pending_ok ps"
  by (rule loop_res_inv [where P = pending_ok, OF assms])
    (use restoreEntry_ok in \<open>auto simp: pending_ok_def\<close>)

lemma restoreId_ok:
  assumes "restoreId v s = Inr s'" "fst s = set (snd s)" "distinct (snd s)"
  shows "fst s' = set (snd s')" "distinct (snd s')" "length (snd s') = Suc (length (snd s))"
proof -
  have s': "s' = (insert (jtoString v) (fst s), snd s @ [jtoString v])" "jtoString v \<notin> fst s"
    using assms(1) unfolding restoreId_def by (metis Inl_Inr_False Inr_inject)+
  then show "fst s' = set (snd s')" "distinct (snd s')" "length (snd s') = Suc (length (snd s))"
    using assms(2,3) by auto
qed

lemma restored_ids:
  assumes "loop_res (\<lambda>_. restoreId) k vs s = Inr s'" "fst s = set (snd s)" "distinct (snd s)"
  shows "fst s' = set (snd s') \<and> distinct (snd s') \<and> length (snd s') = length (snd s) + length vs"
  using assms
proof (induction vs arbitrary: k s)
  case (Cons v vs)
  from Cons.prems(1) obtain u where u: "restoreId v s = Inr u" "loop_res (\<lambda>_. restoreId) (Suc k) vs u = Inr s'"
    unfolding loop_res.simps bind_res_eq_Inr by blast
  note o = restoreId_ok [OF u(1) Cons.prems(2,3)]
  from Cons.IH [OF u(2) o(1,2)] o(3) show ?case by simp
qed simp

text \<open>A saved state is checked before it is used: whatever JSON is restored, either it is refused
  and the bus is unchanged, or the bus satisfies its invariant again. In particular a restored bus
  waits only for messages that need an acknowledgement, under their own ids, and remembers at most
  4096 distinct ids.\<close>

theorem restored_bus_ok:
  assumes "bus_ok bus"
  shows "(case restorePendingAckState b64 unb64 state bus of Inl _ \<Rightarrow> True | Inr bus' \<Rightarrow> bus_ok bus')
     \<and> (case restoreAutomaticMessageState ids bus of Inl _ \<Rightarrow> True | Inr bus' \<Rightarrow> bus_ok bus')"
proof
  show "case restorePendingAckState b64 unb64 state bus of Inl _ \<Rightarrow> True | Inr bus' \<Rightarrow> bus_ok bus'"
  proof (cases "restorePendingAckState b64 unb64 state bus")
    case (Inr bus')
    then show ?thesis
      using assms restored_pending_ok
      by (auto simp: restorePendingAckState_def bind_res_eq_Inr bus_ok_def seen_ok_def split: if_splits)
  qed simp
  show "case restoreAutomaticMessageState ids bus of Inl _ \<Rightarrow> True | Inr bus' \<Rightarrow> bus_ok bus'"
  proof (cases "restoreAutomaticMessageState ids bus")
    case (Inr bus')
    then obtain s where "loop_res (\<lambda>_. restoreId) 0 ids ({}, []) = Inr s" "length ids \<le> 4096"
        "bus' = bus\<lparr>bus_seen := fst s, bus_seenOrder := snd s\<rparr>"
      by (auto simp: restoreAutomaticMessageState_def maxAutomaticMessageIds_def bind_res_eq_Inr
          split: if_splits)
    with restored_ids [OF this(1)] Inr assms show ?thesis
      by (simp add: bus_ok_def seen_ok_def)
  qed simp
qed

lemma restored_bus_ok_witness:
  "case restoreAutomaticMessageState [JStr ''m_1'', JStr ''m_2''] emptyBus of
     Inl _ \<Rightarrow> True | Inr bus' \<Rightarrow> bus_ok bus'"
proof -
  have "bus_ok emptyBus" by (simp add: bus_ok_def emptyBus_def pending_ok_def seen_ok_def)
  from restored_bus_ok [OF this, of "\<lambda>_. []" "\<lambda>_. []" "[]"] show ?thesis by blast
qed

section \<open>Saving and restoring\<close>

lemma toJson_fields [json_simps]:
  "jget (message_toJson b64 m) ''id'' = JStr (msg_id m)"
  "jget (message_toJson b64 m) ''type'' = JStr (typeName (msg_type m))"
  "jget (message_toJson b64 m) ''sender'' = JStr (msg_sender m)"
  "jget (message_toJson b64 m) ''receiver'' = JStr (msg_receiver m)"
  "jget (message_toJson b64 m) ''requiresAck'' = JBool (msg_requiresAck m)"
  "jget (message_toJson b64 m) ''acked'' = JBool (msg_acked m)"
  "jget (message_toJson b64 m) ''automaticAck'' = JBool (msg_automaticAck m)"
  "jget (message_toJson b64 m) ''retryCount'' = jint (msg_retryCount m)"
  "jget (message_toJson b64 m) ''traceId'' = JStr (msg_traceId m)"
  "jget (message_toJson b64 m) ''correlationId'' = JStr (msg_correlationId m)"
  "jget (message_toJson b64 m) ''wireFormat'' = JStr (wireFormatName (msg_wireFormat m))"
  "jtoString (jget (message_toJson b64 m) ''vmfMessage'') = msg_vmfMessage m"
  "jget (message_toJson b64 m) ''payload'' = JObj (msg_payload m)"
  by (simp_all add: message_toJson_def json_simps)

lemma toJson_wire [json_simps]:
  "jcontains (message_toJson b64 m) ''wireBytes'' \<longleftrightarrow> msg_wireBytes m \<noteq> []"
  "jtoString (jget (message_toJson b64 m) ''wireBytes'')
     = (if msg_wireBytes m = [] then [] else b64 (msg_wireBytes m))"
  "jget (message_toJson b64 m) ''wireBitLength''
     = (if msg_wireBytes m = [] then JNull else jint (msg_wireBitLength m))"
  by (simp_all add: message_toJson_def json_simps)

lemma wireFormatName_eq [json_simps]: "wireFormatName f = ''vmf-design-v1'' \<longleftrightarrow> f = VmfDesignV1"
  by (simp add: wireFormatName_def split: WireFormat.split)

text \<open>
  A message that can be saved: its numbers fit 32 bits, its wire bits fill its bytes up to zero
  padding, and it is marked as encoded when it has the VMF wire format.
\<close>

definition savable :: "Message \<Rightarrow> bool" where
  "savable m \<longleftrightarrow> - (2 ^ 31) \<le> msg_retryCount m \<and> msg_retryCount m < 2 ^ 31
     \<and> msg_vmfEncoded m = (msg_wireFormat m = VmfDesignV1)
     \<and> (if msg_wireBytes m = [] then msg_wireBitLength m = 0
        else 0 < msg_wireBitLength m \<and> msg_wireBitLength m \<le> int (length (msg_wireBytes m)) * 8
          \<and> msg_wireBitLength m < 2 ^ 31 \<and> \<not> paddingInvalid (msg_wireBytes m) (msg_wireBitLength m))"

definition base64_laws :: "(8 word list \<Rightarrow> string) \<Rightarrow> (string \<Rightarrow> 8 word list) \<Rightarrow> bool" where
  "base64_laws b64 unb64 \<longleftrightarrow> unb64 [] = [] \<and> (\<forall>bytes. unb64 (b64 bytes) = bytes)"

lemma message_restored:
  assumes "savable m" "base64_laws b64 unb64"
  shows "messageOfJson b64 unb64 (message_toJson b64 m) = Inr (m\<lparr>msg_timestamp := []\<rparr>)"
proof (cases "msg_wireBytes m = []")
  case True
  with assms have "unb64 [] = []" "msg_wireBitLength m = 0" "msg_vmfEncoded m = (msg_wireFormat m = VmfDesignV1)"
    by (simp_all add: savable_def base64_laws_def)
  with True assms show ?thesis
    by (simp add: messageOfJson_def json_simps paddingInvalid_def savable_def) (cases "msg_wireFormat m"; simp)
next
  case False
  with assms have "unb64 (b64 (msg_wireBytes m)) = msg_wireBytes m" "0 < msg_wireBitLength m"
      "msg_wireBitLength m \<le> int (length (msg_wireBytes m)) * 8" "msg_wireBitLength m < 2 ^ 31"
      "\<not> paddingInvalid (msg_wireBytes m) (msg_wireBitLength m)"
      "msg_vmfEncoded m = (msg_wireFormat m = VmfDesignV1)"
    by (simp_all add: savable_def base64_laws_def)
  with False assms show ?thesis
    by (simp add: messageOfJson_def json_simps savable_def) (cases "msg_wireFormat m"; simp)
qed

definition entrySavable :: "string \<times> PendingAck \<Rightarrow> bool" where
  "entrySavable = (\<lambda>(i, p). i \<noteq> [] \<and> length i \<le> 128 \<and> 0 \<le> pa_sentAt p
     \<and> 0 \<le> pa_retries p \<and> pa_retries p \<le> 16 \<and> savable (pa_message p))"

definition withoutTime :: "PendingAck \<Rightarrow> PendingAck" where
  "withoutTime p = p\<lparr>pa_message := (pa_message p)\<lparr>msg_timestamp := []\<rparr>\<rparr>"

lemma entry_restored:
  assumes "entrySavable (i, p)" "base64_laws b64 unb64" "map_of ps i = None"
    and "msg_id (pa_message p) = i" "msg_requiresAck (pa_message p)" "msg_type (pa_message p) \<noteq> TAck"
  shows "restoreEntry b64 unb64 (JObj [(''message'', JObj (message_toJson b64 (pa_message p))),
      (''sentAt'', JNum (pa_sentAt p)), (''retries'', jint (pa_retries p))]) ps = Inr (ps @ [(i, withoutTime p)])"
proof -
  let ?e = "[(''message'', JObj (message_toJson b64 (pa_message p))),
      (''sentAt'', JNum (pa_sentAt p)), (''retries'', jint (pa_retries p))]"
  have e: "entryMessage ?e = message_toJson b64 (pa_message p)"
    by (simp add: entryMessage_def json_simps)
  have "jtoDouble 0 (jint (pa_retries p)) = of_int (pa_retries p)" "isJNum (jint (pa_retries p))"
    by (simp_all add: jint_def)
  moreover have "(0 :: rat) \<le> of_int (pa_retries p)" "of_int (pa_retries p) \<le> (16 :: rat)"
    using assms(1) by (simp_all add: entrySavable_def)
  ultimately have "\<not> entryFieldsInvalid ?e i ps"
    using assms(1,3) by (simp add: entryFieldsInvalid_def entrySavable_def json_simps)
  moreover have "pendingEntry ?e ((pa_message p)\<lparr>msg_timestamp := []\<rparr>) = withoutTime p"
    using assms(1) by (simp add: pendingEntry_def withoutTime_def json_simps entrySavable_def)
  moreover have "savable (pa_message p)" using assms(1) by (simp add: entrySavable_def)
  ultimately show ?thesis
    using assms(4-6) by (simp add: restoreEntry_def e json_simps message_restored [OF _ assms(2)])
qed

lemma entries_restored:
  assumes "list_all entrySavable qs" "base64_laws b64 unb64" "pending_ok (ps @ qs)"
  shows "loop_res (\<lambda>_. restoreEntry b64 unb64) k (pendingAckState b64 (bus\<lparr>bus_pending := qs\<rparr>))
     (map (apsnd withoutTime) ps) = Inr (map (apsnd withoutTime) (ps @ qs))"
  using assms(1,3)
proof (induction qs arbitrary: k ps)
  case (Cons q qs)
  obtain i p where q: "q = (i, p)" by fastforce
  have "i \<notin> fst ` set ps" using Cons.prems(2) by (auto simp: q pending_ok_def)
  then have "map_of (map (apsnd withoutTime) ps) i = None"
    by (force simp: map_of_eq_None_iff)
  with Cons.prems have step: "restoreEntry b64 unb64 (JObj [(''message'', JObj (message_toJson b64 (pa_message p))),
      (''sentAt'', JNum (pa_sentAt p)), (''retries'', jint (pa_retries p))]) (map (apsnd withoutTime) ps)
      = Inr (map (apsnd withoutTime) (ps @ [q]))"
    by (subst entry_restored [OF _ assms(2)]) (auto simp: q pending_ok_def)
  show ?case
    using Cons.IH [of "ps @ [q]" "Suc k"] Cons.prems step
    by (simp add: pendingAckState_def q)
qed (simp add: pendingAckState_def)

lemma ids_restored:
  assumes "list_all (\<lambda>i. trimmed i \<noteq> [] \<and> length i \<le> 128) js" "distinct (is @ js)"
  shows "loop_res (\<lambda>_. restoreId) k (map JStr js) (set is, is) = Inr (set (is @ js), is @ js)"
  using assms
proof (induction js arbitrary: k "is")
  case (Cons j js)
  have "restoreId (JStr j) (set is, is) = Inr (set (is @ [j]), is @ [j])"
    using Cons.prems by (simp add: restoreId_def)
  with Cons.IH [of "is @ [j]" "Suc k"] Cons.prems show ?case by simp
qed simp

text \<open>The state of a bus is restored as it was saved, into any other bus: the messages that wait for
  an acknowledgement with their send times and retries, and the ids of the automatic messages with
  their order. Only the time stamps of the messages are lost, because they are saved and not read
  back. Base64 is assumed to decode what it encoded.\<close>

theorem bus_state_roundtrip:
  assumes "bus_ok bus" "list_all entrySavable (bus_pending bus)" "length (bus_pending bus) \<le> 1024"
    and "list_all (\<lambda>i. trimmed i \<noteq> [] \<and> length i \<le> 128) (bus_seenOrder bus)" "base64_laws b64 unb64"
  shows "restorePendingAckState b64 unb64 (pendingAckState b64 bus) other
       = Inr (other\<lparr>bus_pending := map (apsnd withoutTime) (bus_pending bus)\<rparr>)
     \<and> restoreAutomaticMessageState (automaticMessageState bus) other
       = Inr (other\<lparr>bus_seen := bus_seen bus, bus_seenOrder := bus_seenOrder bus\<rparr>)"
proof
  have "loop_res (\<lambda>_. restoreEntry b64 unb64) 0 (pendingAckState b64 bus) []
      = Inr (map (apsnd withoutTime) (bus_pending bus))"
    using entries_restored [OF assms(2,5), of "[]" 0 bus] assms(1) by (simp add: bus_ok_def)
  moreover have "length (pendingAckState b64 bus) \<le> 1024"
    using assms(3) by (simp add: pendingAckState_def)
  ultimately show "restorePendingAckState b64 unb64 (pendingAckState b64 bus) other
      = Inr (other\<lparr>bus_pending := map (apsnd withoutTime) (bus_pending bus)\<rparr>)"
    by (simp add: restorePendingAckState_def)
  have "distinct (bus_seenOrder bus)" "bus_seen bus = set (bus_seenOrder bus)" "length (bus_seenOrder bus) \<le> 4096"
    using assms(1) by (simp_all add: bus_ok_def seen_ok_def)
  with ids_restored [OF assms(4), of "[]" 0]
  show "restoreAutomaticMessageState (automaticMessageState bus) other
      = Inr (other\<lparr>bus_seen := bus_seen bus, bus_seenOrder := bus_seenOrder bus\<rparr>)"
    by (simp add: restoreAutomaticMessageState_def automaticMessageState_def maxAutomaticMessageIds_def)
qed

definition exWaiting :: Bus where
  "exWaiting = emptyBus\<lparr>bus_pending := [(''m_1'', \<lparr>pa_message = emptyMessage\<lparr>msg_id := ''m_1'',
     msg_type := TAttackOrder, msg_requiresAck := True, msg_timestamp := ''t''\<rparr>, pa_sentAt = 4, pa_retries = 1\<rparr>)]\<rparr>"

text \<open>A coding that decodes what it encoded: one character for each byte.\<close>

lemma bus_state_roundtrip_witness:
  "restorePendingAckState (map (\<lambda>w. char_of (unat w))) (map (\<lambda>c. of_nat (of_char c)))
     (pendingAckState (map (\<lambda>w. char_of (unat w))) exWaiting) emptyBus
   = Inr (emptyBus\<lparr>bus_pending := map (apsnd withoutTime) (bus_pending exWaiting)\<rparr>)"
proof -
  have "(of_nat (of_char (char_of (unat w) :: char)) :: 8 word) = w" for w
    using unsigned_less [of w, where 'a = nat] by (simp add: of_char_of [where 'a = nat])
  then have b: "base64_laws (map (\<lambda>w. char_of (unat w))) (map (\<lambda>c. of_nat (of_char c)))"
    by (simp add: base64_laws_def comp_def)
  show ?thesis
    by (rule bus_state_roundtrip [OF _ _ _ _ b, THEN conjunct1])
      (simp_all add: exWaiting_def emptyBus_def bus_ok_def pending_ok_def seen_ok_def entrySavable_def
        savable_def emptyMessage_def)
qed

end
