(* ===== verification/GuidedStrike.thy ===== *)
theory GuidedStrike
  imports MessageBus
begin

text \<open>
  The guided strike workflow (\<open>src/src/core/GuidedStrikeWorkflow.cpp\<close>): the stages of the strike,
  the approvals that move it, the projection of the posted messages, and its snapshot.

  The bus it sends on is a parameter: whether \<open>send\<close> accepts a message, the messages it posts while
  it runs, in order, its new state, and its clock. The code of Chinese texts is replaced by short
  names. A finite set of ids is a list without duplicates; the element that \<open>*cbegin()\<close> yields is
  picked by the parameter \<open>port_pick\<close>.
\<close>

section \<open>Stages\<close>

datatype Stage = Idle | TargetReported | DispatchPending | StrikeDispatched | GroundGuidancePending
  | Engaging | TargetDestroyedStage | WithdrawPending | Withdrawn | Failed

fun stageName :: "Stage \<Rightarrow> string" where
  "stageName Idle = ''idle''"
| "stageName TargetReported = ''targetReported''"
| "stageName DispatchPending = ''dispatchPending''"
| "stageName StrikeDispatched = ''strikeDispatched''"
| "stageName GroundGuidancePending = ''groundGuidancePending''"
| "stageName Engaging = ''engaging''"
| "stageName TargetDestroyedStage = ''targetDestroyed''"
| "stageName WithdrawPending = ''withdrawPending''"
| "stageName Withdrawn = ''withdrawn''"
| "stageName Failed = ''failed''"

definition allStages :: "Stage list" where
  "allStages = [Idle, TargetReported, DispatchPending, StrikeDispatched, GroundGuidancePending,
     Engaging, TargetDestroyedStage, WithdrawPending, Withdrawn, Failed]"

definition stageFromName :: "string \<Rightarrow> Stage option" where
  "stageFromName name = find (\<lambda>s. stageName s = name) allStages"

lemma stageFromName_stageName [json_simps]: "stageFromName (stageName s) = Some s"
  by (cases s) (simp_all add: stageFromName_def allStages_def)

section \<open>State\<close>

datatype GsReject = NoBus | NoEndpoint | EncodingFailed | ReportClosed | ReportIncomplete | OtherRecon
  | DispatchRefused | GuidanceRefused | AttackRefused | WithdrawRefused

fun rejectText :: "GsReject \<Rightarrow> string" where
  "rejectText NoBus = ''no bus''"
| "rejectText NoEndpoint = ''no sender or receiver''"
| "rejectText EncodingFailed = ''encoding failed''"
| "rejectText ReportClosed = ''report closed''"
| "rejectText ReportIncomplete = ''report incomplete''"
| "rejectText OtherRecon = ''other recon''"
| "rejectText DispatchRefused = ''dispatch refused''"
| "rejectText GuidanceRefused = ''guidance refused''"
| "rejectText AttackRefused = ''attack refused''"
| "rejectText WithdrawRefused = ''withdraw refused''"

datatype GsSignal = StageChanged Stage | WorkflowEvent json

record Workflow =
  gs_side :: string
  gs_commandPostId :: string
  gs_reconId :: string
  gs_targetId :: string
  gs_attackerId :: string
  gs_guideId :: string
  gs_stage :: Stage
  gs_events :: "json list"
  gs_sequence :: "64 word"
  gs_updatedAt :: rat
  gs_createdAt :: rat
  gs_correlationId :: string
  gs_observed :: "string list"
  gs_signals :: "GsSignal list"

definition newWorkflow :: "string \<Rightarrow> string \<Rightarrow> Workflow" where
  "newWorkflow side cp = \<lparr>gs_side = side, gs_commandPostId = cp, gs_reconId = [], gs_targetId = [],
     gs_attackerId = [], gs_guideId = [], gs_stage = Idle, gs_events = [], gs_sequence = 0,
     gs_updatedAt = 0, gs_createdAt = 0, gs_correlationId = [], gs_observed = [], gs_signals = []\<rparr>"

record 'b Port =
  port_send :: "Message \<Rightarrow> 'b \<Rightarrow> bool \<times> jobject list \<times> 'b"
  port_time :: "'b \<Rightarrow> rat"
  port_pick :: "string list \<Rightarrow> nat"

section \<open>Events\<close>

definition addEvent :: "json \<Rightarrow> Workflow \<Rightarrow> Workflow" where
  "addEvent event w = w\<lparr>gs_events := push_log 200 event (gs_events w),
     gs_signals := gs_signals w @ [WorkflowEvent event]\<rparr>"

definition reject :: "GsReject \<Rightarrow> Workflow \<Rightarrow> Workflow" where
  "reject r w = addEvent (JObj [(''stage'', JStr (stageName (gs_stage w))),
     (''reason'', JStr (rejectText r)), (''rejected'', JBool True)]) w"

definition startClock :: "Workflow \<Rightarrow> Workflow" where
  "startClock w = (if gs_createdAt w \<le> 0 then w\<lparr>gs_createdAt := gs_updatedAt w\<rparr> else w)"

definition stageEvent :: "string \<Rightarrow> Workflow \<Rightarrow> json" where
  "stageEvent reason w = JObj [(''stage'', JStr (stageName (gs_stage w))), (''reason'', JStr reason),
     (''targetId'', JStr (gs_targetId w)), (''attackerId'', JStr (gs_attackerId w)),
     (''guideId'', JStr (gs_guideId w)), (''reconId'', JStr (gs_reconId w))]"

definition setStage :: "Stage \<Rightarrow> string \<Rightarrow> Workflow \<Rightarrow> Workflow" where
  "setStage stage reason w =
     (if gs_stage w = stage then w
      else (let w1 = startClock (w\<lparr>gs_stage := stage, gs_signals := gs_signals w @ [StageChanged stage]\<rparr>)
            in addEvent (stageEvent reason w1) w1))"

section \<open>The projection of posted messages\<close>

definition removeNth :: "nat \<Rightarrow> 'a list \<Rightarrow> 'a list" where
  "removeNth k xs = take (k mod length xs) xs @ drop (Suc (k mod length xs)) xs"

lemma length_removeNth: "xs \<noteq> [] \<Longrightarrow> length (removeNth k xs) = length xs - 1"
proof -
  assume "xs \<noteq> []"
  then have "k mod length xs < length xs" by simp
  then show ?thesis by (simp add: removeNth_def)
qed

function evict :: "(string list \<Rightarrow> nat) \<Rightarrow> string list \<Rightarrow> string list" where
  "evict pick ids = (if 256 < length ids then evict pick (removeNth (pick ids) ids) else ids)"
  by pat_completeness auto
termination
proof (relation "measure (\<lambda>(pick, ids). length ids)")
  fix pick :: "string list \<Rightarrow> nat" and ids :: "string list"
  assume "256 < length ids"
  then have "ids \<noteq> []" by auto
  with length_removeNth [OF this] show "((pick, removeNth (pick ids) ids), pick, ids) \<in> measure (\<lambda>(pick, ids). length ids)"
    by simp
qed simp

declare evict.simps [simp del]

definition idOk :: "string \<Rightarrow> string \<Rightarrow> bool" where
  "idOk known i \<longleftrightarrow> known = [] \<or> i = known"

text \<open>The branches of \<open>onMessagePosted\<close>, with the fields of the message they read.\<close>

definition observeReport :: "string \<Rightarrow> string \<Rightarrow> string \<Rightarrow> Workflow \<Rightarrow> Workflow" where
  "observeReport sender receiver targetId w =
     (if receiver \<noteq> gs_commandPostId w \<or> targetId = []
         \<or> (gs_stage w \<noteq> Idle \<and> gs_stage w \<noteq> TargetReported)
         \<or> (gs_stage w = TargetReported \<and> gs_targetId w \<noteq> [] \<and> targetId \<noteq> gs_targetId w)
      then w
      else if gs_reconId w \<noteq> [] \<and> sender \<noteq> [] \<and> sender \<noteq> gs_reconId w then w
      else setStage TargetReported ''target report observed''
        (startClock (w\<lparr>gs_reconId := (if gs_reconId w = [] then sender else gs_reconId w),
                       gs_targetId := targetId\<rparr>)))"

definition strikeObserved :: "MsgType option \<Rightarrow> string \<Rightarrow> string \<Rightarrow> string \<Rightarrow> Workflow \<Rightarrow> bool" where
  "strikeObserved type sender receiver targetId w \<longleftrightarrow>
     type \<in> {Some TStrikePlan, Some TFlightPlan, Some TAttackOrder}
     \<and> sender = gs_commandPostId w \<and> targetId \<noteq> [] \<and> receiver \<noteq> []
     \<and> gs_stage w \<in> {TargetReported, DispatchPending, StrikeDispatched}
     \<and> idOk (gs_targetId w) targetId \<and> idOk (gs_attackerId w) receiver"

definition guideObserved :: "MsgType option \<Rightarrow> string \<Rightarrow> string \<Rightarrow> string \<Rightarrow> string \<Rightarrow> Workflow \<Rightarrow> bool" where
  "guideObserved type sender receiver targetId attackerId w \<longleftrightarrow>
     type = Some TGroundGuideOrder \<and> sender = gs_commandPostId w \<and> targetId \<noteq> [] \<and> receiver \<noteq> []
     \<and> gs_stage w \<in> {StrikeDispatched, GroundGuidancePending}
     \<and> idOk (gs_targetId w) targetId \<and> idOk (gs_attackerId w) attackerId
     \<and> idOk (gs_guideId w) receiver"

definition confirmObserved :: "MsgType option \<Rightarrow> string \<Rightarrow> string \<Rightarrow> string \<Rightarrow> Workflow \<Rightarrow> bool" where
  "confirmObserved type sender receiver targetId w \<longleftrightarrow>
     type = Some TGroundAttackConfirm \<and> targetId \<noteq> [] \<and> sender \<noteq> [] \<and> receiver \<noteq> []
     \<and> gs_stage w \<in> {GroundGuidancePending, Engaging}
     \<and> idOk (gs_targetId w) targetId \<and> idOk (gs_guideId w) sender \<and> idOk (gs_attackerId w) receiver"

definition destroyedObserved :: "MsgType option \<Rightarrow> string \<Rightarrow> string \<Rightarrow> string \<Rightarrow> Workflow \<Rightarrow> bool" where
  "destroyedObserved type sender receiver targetId w \<longleftrightarrow>
     type = Some TTargetDestroyed \<and> targetId \<noteq> [] \<and> gs_targetId w \<noteq> [] \<and> targetId = gs_targetId w
     \<and> receiver = gs_commandPostId w \<and> gs_stage w \<in> {Engaging, TargetDestroyedStage}
     \<and> ((gs_attackerId w \<noteq> [] \<and> sender = gs_attackerId w) \<or> (gs_reconId w \<noteq> [] \<and> sender = gs_reconId w))"

definition withdrawObserved :: "MsgType option \<Rightarrow> string \<Rightarrow> string \<Rightarrow> Workflow \<Rightarrow> bool" where
  "withdrawObserved type sender receiver w \<longleftrightarrow>
     type \<in> {Some TWithdrawOrder, Some TWithdraw} \<and> sender \<noteq> [] \<and> sender = gs_commandPostId w
     \<and> receiver \<noteq> [] \<and> (receiver = gs_attackerId w \<or> gs_attackerId w = [])
     \<and> gs_stage w \<in> {Engaging, TargetDestroyedStage, WithdrawPending, Withdrawn}"

definition observe :: "MsgType option \<Rightarrow> string \<Rightarrow> string \<Rightarrow> string \<Rightarrow> string \<Rightarrow> Workflow \<Rightarrow> Workflow" where
  "observe type sender receiver targetId attackerId w =
     (if type \<in> {Some TTargetReport, Some TTargetDetect} then observeReport sender receiver targetId w
      else if strikeObserved type sender receiver targetId w then
        setStage StrikeDispatched ''strike route observed''
          (startClock (w\<lparr>gs_targetId := targetId, gs_attackerId := receiver\<rparr>))
      else if guideObserved type sender receiver targetId attackerId w then
        setStage GroundGuidancePending ''ground guidance observed''
          (w\<lparr>gs_targetId := targetId, gs_guideId := receiver, gs_attackerId := attackerId\<rparr>)
      else if confirmObserved type sender receiver targetId w then
        setStage Engaging ''ground attack confirmation observed''
          (w\<lparr>gs_targetId := targetId, gs_guideId := sender, gs_attackerId := receiver\<rparr>)
      else if destroyedObserved type sender receiver targetId w then
        setStage TargetDestroyedStage ''target destroyed report''
          (if gs_attackerId w = [] then w\<lparr>gs_attackerId := attackerId\<rparr> else w)
      else if withdrawObserved type sender receiver w then
        setStage Withdrawn ''withdrawal observed''
          (if gs_attackerId w = [] then w\<lparr>gs_attackerId := receiver\<rparr> else w)
      else w)"

definition otherSide :: "Workflow \<Rightarrow> jobject \<Rightarrow> bool" where
  "otherSide w m \<longleftrightarrow>
     (jtoString (jget m ''senderSide'') \<noteq> [] \<and> jtoString (jget m ''senderSide'') \<noteq> gs_side w)
     \<or> (jtoString (jget m ''receiverSide'') \<noteq> [] \<and> jtoString (jget m ''receiverSide'') \<noteq> gs_side w)"

definition onMessagePosted :: "(string list \<Rightarrow> nat) \<Rightarrow> jobject \<Rightarrow> Workflow \<Rightarrow> Workflow" where
  "onMessagePosted pick m w =
     (let i = jtoString (jget m ''id'') in
      if i \<noteq> [] \<and> i \<in> set (gs_observed w) then w
      else
        (let w1 = (if i \<noteq> [] then w\<lparr>gs_observed := evict pick (gs_observed w @ [i])\<rparr> else w);
             w2 = w1\<lparr>gs_updatedAt := max 0 (jtoDouble (gs_updatedAt w1) (jget m ''simulationTime''))\<rparr>
         in if otherSide w2 m then w2
            else
              (let correlationId = jtoString (jget m ''correlationId'');
                   payload = jtoObject (jget m ''payload'');
                   w3 = (if gs_correlationId w2 = [] \<and> correlationId \<noteq> []
                         then w2\<lparr>gs_correlationId := correlationId\<rparr> else w2)
               in observe (parseTypeName (jtoString (jget m ''type''))) (jtoString (jget m ''sender''))
                    (jtoString (jget m ''receiver'')) (jtoString (jget payload ''targetId''))
                    (jtoString (jget payload ''attackerId'')) w3)))"

section \<open>Sending and the approvals\<close>

text \<open>
  Each returns what was rejected (\<open>None\<close> when the code returns true), the workflow and the bus.
  Without a bus the bus is \<open>None\<close>.
\<close>

type_synonym 'b GsResult = "GsReject option \<times> Workflow \<times> 'b option"

definition refuse :: "GsReject \<Rightarrow> Workflow \<Rightarrow> 'b option \<Rightarrow> 'b GsResult" where
  "refuse r w bus = (Some r, reject r w, bus)"

definition gs_send :: "'b Port \<Rightarrow> Message \<Rightarrow> Workflow \<Rightarrow> 'b option \<Rightarrow> 'b GsResult" where
  "gs_send port m w bus =
     (case bus of
        None \<Rightarrow> refuse NoBus w bus
      | Some b \<Rightarrow>
          if msg_sender m = [] \<or> msg_receiver m = [] then refuse NoEndpoint w bus
          else
            (let traceId = ''guided-strike-'' @ number (unat (gs_sequence w + 1));
                 correlationId = (if gs_correlationId w = [] then traceId else gs_correlationId w);
                 w1 = startClock (w\<lparr>gs_sequence := gs_sequence w + 1, gs_updatedAt := max 0 (port_time port b)\<rparr>);
                 message = m\<lparr>msg_traceId := traceId, msg_correlationId := correlationId,
                             msg_payload := jset ''workflowStage'' (JStr (stageName (gs_stage w1))) (msg_payload m)\<rparr>;
                 (accepted, posted, b') = port_send port message b;
                 w2 = fold (onMessagePosted (port_pick port)) posted w1
             in if \<not> accepted then refuse EncodingFailed w2 (Some b')
                else (None, w2\<lparr>gs_correlationId := correlationId\<rparr>, Some b')))"

definition andThen :: "'b GsResult \<Rightarrow> (Workflow \<Rightarrow> 'b option \<Rightarrow> 'b GsResult) \<Rightarrow> 'b GsResult" where
  "andThen r f = (case r of (Some e, w, b) \<Rightarrow> (Some e, w, b) | (None, w, b) \<Rightarrow> f w b)"

definition approve :: "Stage \<Rightarrow> string \<Rightarrow> Workflow \<Rightarrow> 'b option \<Rightarrow> 'b GsResult" where
  "approve stage reason w bus = (None, setStage stage reason w, bus)"

definition order :: "MsgType \<Rightarrow> string \<Rightarrow> string \<Rightarrow> jobject \<Rightarrow> Message" where
  "order type sender receiver payload = emptyMessage\<lparr>msg_type := type, msg_sender := sender,
     msg_receiver := receiver, msg_requiresAck := True, msg_automaticAck := True, msg_payload := payload\<rparr>"

definition reportTarget :: "'b Port \<Rightarrow> string \<Rightarrow> string \<Rightarrow> jobject \<Rightarrow> Workflow \<Rightarrow> 'b option \<Rightarrow> 'b GsResult" where
  "reportTarget port reconId targetId report w bus =
     (if gs_stage w \<noteq> Idle \<and> gs_stage w \<noteq> TargetReported then refuse ReportClosed w bus
      else if reconId = [] \<or> targetId = [] \<or> report = [] then refuse ReportIncomplete w bus
      else if gs_reconId w \<noteq> [] \<and> reconId \<noteq> gs_reconId w then refuse OtherRecon w bus
      else andThen
        (gs_send port (order TTargetReport reconId (gs_commandPostId w)
            (jset ''targetId'' (JStr targetId) report))
          (w\<lparr>gs_reconId := reconId, gs_targetId := targetId\<rparr>) bus)
        (approve TargetReported ''recon report received''))"

definition strikePayload :: "string \<Rightarrow> json list \<Rightarrow> jobject" where
  "strikePayload targetId waypoints = [(''targetId'', JStr targetId), (''waypoints'', JArr waypoints)]"

definition confirmDispatch :: "'b Port \<Rightarrow> string \<Rightarrow> string \<Rightarrow> string \<Rightarrow> json list \<Rightarrow> Workflow \<Rightarrow> 'b option
    \<Rightarrow> 'b GsResult" where
  "confirmDispatch port commanderId attackerId targetId waypoints w bus =
     (if gs_stage w \<noteq> TargetReported \<or> commanderId \<noteq> gs_commandPostId w \<or> targetId \<noteq> gs_targetId w
         \<or> attackerId = [] \<or> waypoints = []
      then refuse DispatchRefused w bus
      else
        (let payload = strikePayload targetId waypoints;
             w1 = setStage DispatchPending ''commander approval'' (w\<lparr>gs_attackerId := attackerId\<rparr>)
         in andThen (gs_send port (order TStrikePlan commanderId attackerId payload) w1 bus) (\<lambda>w2 bus2.
            andThen (gs_send port (order TAttackOrder commanderId attackerId
                (jset ''fireNow'' (JBool False) payload)) w2 bus2)
              (approve StrikeDispatched ''commander dispatch accepted''))))"

definition commandGroundGuidance :: "'b Port \<Rightarrow> string \<Rightarrow> string \<Rightarrow> string \<Rightarrow> string \<Rightarrow> Workflow
    \<Rightarrow> 'b option \<Rightarrow> 'b GsResult" where
  "commandGroundGuidance port commanderId guideId attackerId targetId w bus =
     (if gs_stage w \<noteq> StrikeDispatched \<or> commanderId \<noteq> gs_commandPostId w \<or> targetId \<noteq> gs_targetId w
         \<or> guideId = [] \<or> attackerId \<noteq> gs_attackerId w
      then refuse GuidanceRefused w bus
      else andThen
        (gs_send port (order TGroundGuideOrder commanderId guideId
            [(''attackerId'', JStr attackerId), (''targetId'', JStr targetId)])
          (w\<lparr>gs_guideId := guideId\<rparr>) bus)
        (approve GroundGuidancePending ''ground team confirmation requested''))"

definition confirmGroundAttack :: "'b Port \<Rightarrow> string \<Rightarrow> string \<Rightarrow> string \<Rightarrow> json list \<Rightarrow> Workflow
    \<Rightarrow> 'b option \<Rightarrow> 'b GsResult" where
  "confirmGroundAttack port guideId attackerId targetId waypoints w bus =
     (if gs_stage w \<noteq> GroundGuidancePending \<or> guideId \<noteq> gs_guideId w \<or> attackerId \<noteq> gs_attackerId w
         \<or> targetId \<noteq> gs_targetId w \<or> waypoints = []
      then refuse AttackRefused w bus
      else andThen
        (gs_send port (order TGroundAttackConfirm guideId attackerId
            (strikePayload targetId waypoints @ [(''fireNow'', JBool True)])) w bus)
        (approve Engaging ''ground team approved attack''))"

text \<open>The home position is a pair of finite numbers, or \<open>None\<close> when one of them is not finite.\<close>

definition confirmWithdraw :: "'b Port \<Rightarrow> string \<Rightarrow> string \<Rightarrow> (rat \<times> rat) option \<Rightarrow> Workflow
    \<Rightarrow> 'b option \<Rightarrow> 'b GsResult" where
  "confirmWithdraw port commanderId attackerId home w bus =
     (case (if (gs_stage w \<noteq> TargetDestroyedStage \<and> gs_stage w \<noteq> Engaging)
               \<or> commanderId \<noteq> gs_commandPostId w \<or> attackerId \<noteq> gs_attackerId w
            then None else home) of
        None \<Rightarrow> refuse WithdrawRefused w bus
      | Some (homeX, homeY) \<Rightarrow>
          (let w1 = setStage WithdrawPending ''commander withdrawal approval'' w
           in andThen (gs_send port (order TWithdrawOrder commanderId attackerId
                  [(''homeX'', JNum homeX), (''homeY'', JNum homeY)]) w1 bus)
                (approve Withdrawn ''withdrawal dispatched'')))"

section \<open>Validation of incoming messages\<close>

definition sameTarget :: "Workflow \<Rightarrow> string \<Rightarrow> bool" where
  "sameTarget w targetId \<longleftrightarrow> targetId \<noteq> [] \<and> (gs_targetId w = [] \<or> targetId = gs_targetId w)"

definition validateByType :: "Workflow \<Rightarrow> Message \<Rightarrow> bool" where
  "validateByType w m =
     (let sender = msg_sender m; receiver = msg_receiver m; stage = gs_stage w;
          targetId = jtoString (jget (msg_payload m) ''targetId'');
          attackerId = jtoString (jget (msg_payload m) ''attackerId'');
          waypoints = jtoArray (jget (msg_payload m) ''waypoints'')
      in case msg_type m of
           TTargetReport \<Rightarrow> receiver = gs_commandPostId w \<and> sameTarget w targetId \<and> stage \<in> {Idle, TargetReported}
         | TTargetDetect \<Rightarrow> receiver = gs_commandPostId w \<and> sameTarget w targetId \<and> stage \<in> {Idle, TargetReported}
         | TStrikePlan \<Rightarrow> sender = gs_commandPostId w \<and> receiver \<noteq> [] \<and> sameTarget w targetId \<and> waypoints \<noteq> []
             \<and> idOk (gs_attackerId w) receiver \<and> stage \<in> {TargetReported, DispatchPending, StrikeDispatched}
         | TFlightPlan \<Rightarrow> sender = gs_commandPostId w \<and> receiver \<noteq> [] \<and> sameTarget w targetId \<and> waypoints \<noteq> []
             \<and> idOk (gs_attackerId w) receiver \<and> stage \<in> {TargetReported, DispatchPending, StrikeDispatched}
         | TAttackOrder \<Rightarrow> sender = gs_commandPostId w \<and> receiver \<noteq> [] \<and> sameTarget w targetId
             \<and> idOk (gs_attackerId w) receiver \<and> stage \<in> {TargetReported, DispatchPending, StrikeDispatched}
         | TGroundGuideOrder \<Rightarrow> sender = gs_commandPostId w \<and> receiver \<noteq> [] \<and> sameTarget w targetId \<and> attackerId \<noteq> []
             \<and> idOk (gs_attackerId w) attackerId \<and> stage \<in> {StrikeDispatched, GroundGuidancePending}
         | TGroundAttackConfirm \<Rightarrow> sender \<noteq> [] \<and> receiver \<noteq> [] \<and> sameTarget w targetId \<and> waypoints \<noteq> []
             \<and> idOk (gs_guideId w) sender \<and> idOk (gs_attackerId w) receiver \<and> stage \<in> {GroundGuidancePending, Engaging}
         | TGuidance \<Rightarrow> receiver = gs_attackerId w \<and> sameTarget w targetId \<and> waypoints \<noteq> []
             \<and> stage \<in> {GroundGuidancePending, Engaging}
         | TEngagementReport \<Rightarrow> sender = gs_attackerId w \<and> receiver = gs_commandPostId w \<and> sameTarget w targetId
             \<and> stage \<in> {Engaging, TargetDestroyedStage}
         | TTargetDestroyed \<Rightarrow>
             ((gs_attackerId w \<noteq> [] \<and> sender = gs_attackerId w) \<or> (gs_reconId w \<noteq> [] \<and> sender = gs_reconId w))
             \<and> receiver = gs_commandPostId w \<and> sameTarget w targetId \<and> stage \<in> {Engaging, TargetDestroyedStage}
         | TWithdraw \<Rightarrow> sender = gs_commandPostId w \<and> receiver = gs_attackerId w
             \<and> stage \<in> {Engaging, TargetDestroyedStage, WithdrawPending, Withdrawn}
         | TWithdrawOrder \<Rightarrow> sender = gs_commandPostId w \<and> receiver = gs_attackerId w
             \<and> stage \<in> {Engaging, TargetDestroyedStage, WithdrawPending, Withdrawn}
         | _ \<Rightarrow> True)"

definition validateIncomingMessage :: "Workflow \<Rightarrow> Message \<Rightarrow> bool" where
  "validateIncomingMessage w m \<longleftrightarrow>
     (gs_correlationId w = [] \<or> msg_correlationId m = gs_correlationId w) \<and> validateByType w m"

section \<open>Snapshots\<close>

definition gs_snapshot :: "Workflow \<Rightarrow> jobject" where
  "gs_snapshot w = [(''taskId'', JStr (gs_side w @ '':guided-strike'')), (''stage'', JStr (stageName (gs_stage w))),
     (''side'', JStr (gs_side w)), (''commandPostId'', JStr (gs_commandPostId w)),
     (''reconId'', JStr (gs_reconId w)), (''targetId'', JStr (gs_targetId w)),
     (''attackerId'', JStr (gs_attackerId w)), (''guideId'', JStr (gs_guideId w)),
     (''correlationId'', JStr (gs_correlationId w)), (''sequence'', JNum (of_int (sint (gs_sequence w)))),
     (''createdAt'', JNum (gs_createdAt w)), (''updatedAt'', JNum (gs_updatedAt w)),
     (''events'', JArr (gs_events w))]"

datatype GsRestoreError = OtherWorkflow | StageInvalid | FieldsInvalid | EventNotObject | EventInvalid
  | EventIdInvalid | RejectedInvalid

definition validText :: "json \<Rightarrow> bool" where
  "validText v \<longleftrightarrow> isJStr v \<and> length (jtoString v) \<le> 128"

definition nonNegative :: "json \<Rightarrow> bool" where
  "nonNegative v \<longleftrightarrow> isJNum v \<and> 0 \<le> jtoDouble 0 v"

definition sequenceInvalid :: "json \<Rightarrow> bool" where
  "sequenceInvalid v \<longleftrightarrow> \<not> isJNum v \<or> jtoDouble 0 v < 0 \<or> 1000000 < jtoDouble 0 v
     \<or> of_int \<lfloor>jtoDouble 0 v\<rfloor> \<noteq> jtoDouble 0 v"

definition snapshotFieldsInvalid :: "jobject \<Rightarrow> bool" where
  "snapshotFieldsInvalid s \<longleftrightarrow>
     (jcontains s ''reconId'' \<and> \<not> validText (jget s ''reconId''))
     \<or> \<not> validText (jget s ''targetId'') \<or> \<not> validText (jget s ''attackerId'')
     \<or> \<not> validText (jget s ''guideId'') \<or> \<not> validText (jget s ''correlationId'')
     \<or> \<not> isJArr (jget s ''events'') \<or> 200 < length (jtoArray (jget s ''events''))
     \<or> \<not> nonNegative (jget s ''updatedAt'') \<or> \<not> nonNegative (jget s ''createdAt'')
     \<or> (jcontains s ''sequence'' \<and> sequenceInvalid (jget s ''sequence''))"

definition checkEvent :: "json \<Rightarrow> GsRestoreError option" where
  "checkEvent v =
     (let e = jtoObject v in
      if \<not> isJObj v then Some EventNotObject
      else if stageFromName (jtoString (jget e ''stage'')) = None \<or> \<not> isJStr (jget e ''reason'')
              \<or> 512 < length (jtoString (jget e ''reason'')) then Some EventInvalid
      else if list_ex (\<lambda>f. jcontains e f \<and> \<not> validText (jget e f))
                [''reconId'', ''targetId'', ''attackerId'', ''guideId''] then Some EventIdInvalid
      else if jcontains e ''rejected'' \<and> \<not> isJBool (jget e ''rejected'') then Some RejectedInvalid
      else None)"

fun checkEvents :: "json list \<Rightarrow> GsRestoreError option" where
  "checkEvents [] = None"
| "checkEvents (v # vs) = (case checkEvent v of None \<Rightarrow> checkEvents vs | Some e \<Rightarrow> Some e)"

definition restoreSnapshot :: "jobject \<Rightarrow> Workflow \<Rightarrow> GsRestoreError + Workflow" where
  "restoreSnapshot s w =
     (if jtoString (jget s ''side'') \<noteq> gs_side w \<or> jtoString (jget s ''commandPostId'') \<noteq> gs_commandPostId w
      then Inl OtherWorkflow
      else case stageFromName (jtoString (jget s ''stage'')) of
             None \<Rightarrow> Inl StageInvalid
           | Some stage \<Rightarrow>
               if snapshotFieldsInvalid s then Inl FieldsInvalid
               else case checkEvents (jtoArray (jget s ''events'')) of
                      Some e \<Rightarrow> Inl e
                    | None \<Rightarrow> Inr (w\<lparr>gs_stage := stage, gs_reconId := jtoString (jget s ''reconId''),
                        gs_targetId := jtoString (jget s ''targetId''),
                        gs_attackerId := jtoString (jget s ''attackerId''),
                        gs_guideId := jtoString (jget s ''guideId''),
                        gs_correlationId := jtoString (jget s ''correlationId''),
                        gs_sequence := of_int \<lfloor>jtoDouble 0 (jget s ''sequence'')\<rfloor>,
                        gs_createdAt := jtoDouble 0 (jget s ''createdAt''),
                        gs_updatedAt := jtoDouble 0 (jget s ''updatedAt''),
                        gs_events := jtoArray (jget s ''events''), gs_observed := []\<rparr>))"

end
