(* ===== verification/GuidedStrikeProps.thy ===== *)
theory GuidedStrikeProps
  imports GuidedStrike
begin

text \<open>
  What holds of the guided strike workflow: its log of events, the identities that its stages need,
  the order of its stages, and its snapshots. The calls are the approvals and the messages that
  the bus posts by itself.
\<close>

section \<open>Calls\<close>

datatype GsCall =
    CallReport string string jobject
  | CallDispatch string string string "json list"
  | CallGuidance string string string string
  | CallAttack string string string "json list"
  | CallWithdraw string string "(rat \<times> rat) option"
  | CallPosted jobject

fun gs_call :: "'b Port \<Rightarrow> GsCall \<Rightarrow> Workflow \<times> 'b option \<Rightarrow> Workflow \<times> 'b option" where
  "gs_call port (CallReport recon target report) (w, bus) = snd (reportTarget port recon target report w bus)"
| "gs_call port (CallDispatch commander attacker target waypoints) (w, bus) =
     snd (confirmDispatch port commander attacker target waypoints w bus)"
| "gs_call port (CallGuidance commander guide attacker target) (w, bus) =
     snd (commandGroundGuidance port commander guide attacker target w bus)"
| "gs_call port (CallAttack guide attacker target waypoints) (w, bus) =
     snd (confirmGroundAttack port guide attacker target waypoints w bus)"
| "gs_call port (CallWithdraw commander attacker home) (w, bus) =
     snd (confirmWithdraw port commander attacker home w bus)"
| "gs_call port (CallPosted m) (w, bus) = (onMessagePosted (port_pick port) m w, bus)"

section \<open>What does not touch the identities\<close>

definition stagesOf :: "Workflow \<Rightarrow> Stage list" where
  "stagesOf w = concat (map (\<lambda>s. case s of StageChanged st \<Rightarrow> [st] | WorkflowEvent e \<Rightarrow> []) (gs_signals w))"

lemma addEvent_fields [simp]:
  "gs_targetId (addEvent e w) = gs_targetId w" "gs_attackerId (addEvent e w) = gs_attackerId w"
  "gs_guideId (addEvent e w) = gs_guideId w" "gs_stage (addEvent e w) = gs_stage w"
  "gs_reconId (addEvent e w) = gs_reconId w" "gs_commandPostId (addEvent e w) = gs_commandPostId w"
  "gs_side (addEvent e w) = gs_side w" "gs_correlationId (addEvent e w) = gs_correlationId w"
  "stagesOf (addEvent e w) = stagesOf w" "gs_observed (addEvent e w) = gs_observed w"
  by (simp_all add: addEvent_def stagesOf_def)

lemma reject_fields [simp]:
  "gs_targetId (reject r w) = gs_targetId w" "gs_attackerId (reject r w) = gs_attackerId w"
  "gs_guideId (reject r w) = gs_guideId w" "gs_stage (reject r w) = gs_stage w"
  "gs_commandPostId (reject r w) = gs_commandPostId w" "stagesOf (reject r w) = stagesOf w"
  by (simp_all add: reject_def)

lemma startClock_fields [simp]:
  "gs_targetId (startClock w) = gs_targetId w" "gs_attackerId (startClock w) = gs_attackerId w"
  "gs_guideId (startClock w) = gs_guideId w" "gs_stage (startClock w) = gs_stage w"
  "gs_reconId (startClock w) = gs_reconId w" "gs_commandPostId (startClock w) = gs_commandPostId w"
  "gs_side (startClock w) = gs_side w" "gs_correlationId (startClock w) = gs_correlationId w"
  "gs_events (startClock w) = gs_events w" "stagesOf (startClock w) = stagesOf w"
  "gs_observed (startClock w) = gs_observed w"
  by (simp_all add: startClock_def stagesOf_def)

lemma setStage_fields [simp]:
  "gs_targetId (setStage s r w) = gs_targetId w" "gs_attackerId (setStage s r w) = gs_attackerId w"
  "gs_guideId (setStage s r w) = gs_guideId w" "gs_stage (setStage s r w) = s"
  "gs_reconId (setStage s r w) = gs_reconId w" "gs_commandPostId (setStage s r w) = gs_commandPostId w"
  "gs_side (setStage s r w) = gs_side w" "gs_correlationId (setStage s r w) = gs_correlationId w"
  by (simp_all add: setStage_def Let_def)

lemma setStage_stagesOf [simp]:
  "stagesOf (setStage s r w) = stagesOf w @ (if gs_stage w = s then [] else [s])"
  by (simp add: setStage_def Let_def) (simp add: stagesOf_def)

text \<open>The branches of the projection, as the cases of a proof.\<close>

lemma observe_cases:
  obtains (skip) "observe type sender receiver target attacker w = w"
    | (report) recon where "type \<in> {Some TTargetReport, Some TTargetDetect}" "target \<noteq> []"
        "gs_stage w \<in> {Idle, TargetReported}"
        "observe type sender receiver target attacker w =
           setStage TargetReported ''target report observed'' (startClock (w\<lparr>gs_reconId := recon, gs_targetId := target\<rparr>))"
    | (strike) "strikeObserved type sender receiver target w"
        "observe type sender receiver target attacker w =
           setStage StrikeDispatched ''strike route observed'' (startClock (w\<lparr>gs_targetId := target, gs_attackerId := receiver\<rparr>))"
    | (guide) "guideObserved type sender receiver target attacker w"
        "observe type sender receiver target attacker w =
           setStage GroundGuidancePending ''ground guidance observed''
             (w\<lparr>gs_targetId := target, gs_guideId := receiver, gs_attackerId := attacker\<rparr>)"
    | (confirm) "confirmObserved type sender receiver target w"
        "observe type sender receiver target attacker w =
           setStage Engaging ''ground attack confirmation observed'' (w\<lparr>gs_targetId := target, gs_guideId := sender, gs_attackerId := receiver\<rparr>)"
    | (destroyed) "destroyedObserved type sender receiver target w"
        "observe type sender receiver target attacker w =
           setStage TargetDestroyedStage ''target destroyed report'' (if gs_attackerId w = [] then w\<lparr>gs_attackerId := attacker\<rparr> else w)"
    | (withdraw) "withdrawObserved type sender receiver w"
        "observe type sender receiver target attacker w =
           setStage Withdrawn ''withdrawal observed'' (if gs_attackerId w = [] then w\<lparr>gs_attackerId := receiver\<rparr> else w)"
proof (cases "type \<in> {Some TTargetReport, Some TTargetDetect}")
  case True
  then have o: "observe type sender receiver target attacker w = observeReport sender receiver target w"
    by (simp add: observe_def)
  show thesis
  proof (cases "observeReport sender receiver target w = w")
    case True
    with o skip show thesis by simp
  next
    case False
    then have "target \<noteq> []" "gs_stage w \<in> {Idle, TargetReported}"
        "observeReport sender receiver target w = setStage TargetReported ''target report observed''
          (startClock (w\<lparr>gs_reconId := (if gs_reconId w = [] then sender else gs_reconId w), gs_targetId := target\<rparr>))"
      unfolding observeReport_def by (auto split: if_splits)
    with True o report show thesis by simp
  qed
next
  case False
  let ?s = "strikeObserved type sender receiver target w"
  let ?g = "guideObserved type sender receiver target attacker w"
  let ?c = "confirmObserved type sender receiver target w"
  let ?d = "destroyedObserved type sender receiver target w"
  let ?w = "withdrawObserved type sender receiver w"
  note o = observe_def [of type sender receiver target attacker w]
  consider "?s" | "\<not> ?s" "?g" | "\<not> ?s" "\<not> ?g" "?c" | "\<not> ?s" "\<not> ?g" "\<not> ?c" "?d"
    | "\<not> ?s" "\<not> ?g" "\<not> ?c" "\<not> ?d" "?w" | "\<not> ?s" "\<not> ?g" "\<not> ?c" "\<not> ?d" "\<not> ?w"
    by blast
  then show thesis
  proof cases
    case 1 with False show thesis by (intro strike) (simp_all only: o if_False if_True)
  next
    case 2 with False show thesis by (intro guide) (simp_all only: o if_False if_True)
  next
    case 3 with False show thesis by (intro confirm) (simp_all only: o if_False if_True)
  next
    case 4 with False show thesis by (intro destroyed) (simp_all only: o if_False if_True)
  next
    case 5 with False show thesis by (intro withdraw) (simp_all only: o if_False if_True)
  next
    case 6 with False show thesis by (intro skip) (simp_all only: o if_False)
  qed
qed

section \<open>Invariants of the parts and of the whole\<close>

text \<open>
  A property of the workflow that the log, the clock, the correlation, the observed ids and the
  branches of the projection keep is kept by posted messages and by sending. Only messages of the
  given types are considered, and the bus posts only such messages while it sends one.
\<close>

definition postedType :: "jobject \<Rightarrow> MsgType option" where
  "postedType p = parseTypeName (jtoString (jget p ''type''))"

locale gs_kept =
  fixes port :: "'b Port"
    and Q :: "Workflow \<Rightarrow> bool"
    and types :: "MsgType option set"
  assumes rejects: "Q w \<Longrightarrow> Q (reject r w)"
    and clocks: "Q w \<Longrightarrow> Q (startClock w)"
    and remembers: "Q w \<Longrightarrow> i \<notin> set (gs_observed w) \<Longrightarrow> Q (w\<lparr>gs_observed := evict pick (gs_observed w @ [i])\<rparr>)"
    and plain: "Q w \<Longrightarrow> Q (w\<lparr>gs_updatedAt := t\<rparr>)"
      "Q w \<Longrightarrow> Q (w\<lparr>gs_correlationId := c\<rparr>)" "Q w \<Longrightarrow> Q (w\<lparr>gs_sequence := k\<rparr>)"
    and observes: "type \<in> types \<Longrightarrow> Q w \<Longrightarrow> Q (observe type sender receiver target attacker w)"
    and posts: "port_send port m b = (accepted, posted, b') \<Longrightarrow> p \<in> set posted
      \<Longrightarrow> Some (msg_type m) \<in> types \<Longrightarrow> postedType p \<in> types"
begin

lemma posted_keeps: "postedType m \<in> types \<Longrightarrow> Q w \<Longrightarrow> Q (onMessagePosted pick m w)"
  by (simp add: onMessagePosted_def Let_def observes plain remembers postedType_def)

lemma posteds_keep: "\<forall>m \<in> set ms. postedType m \<in> types \<Longrightarrow> Q w \<Longrightarrow> Q (fold (onMessagePosted pick) ms w)"
  by (induction ms arbitrary: w) (auto simp: posted_keeps)

lemma send_keeps:
  assumes "Q w" "Some (msg_type m) \<in> types"
  shows "Q (fst (snd (gs_send port m w bus)))"
proof -
  have sent: "Some (msg_type (m\<lparr>msg_traceId := x, msg_correlationId := y, msg_payload := z\<rparr>)) \<in> types" for x y z
    using assms(2) by simp
  have w1: "Q (startClock (w\<lparr>gs_sequence := k, gs_updatedAt := t\<rparr>))" for k t
    by (intro clocks plain assms(1))
  show ?thesis
    using posts [OF _ _ sent] posteds_keep [OF _ w1]
    by (simp add: gs_send_def refuse_def Let_def assms(1) rejects plain split: option.split prod.split)
qed

text \<open>Sending, and then what the caller does when the message was accepted.\<close>

lemma send_then_keeps:
  assumes "Q w" "Some (msg_type m) \<in> types" "\<And>w' bus'. Q w' \<Longrightarrow> Q (fst (snd (f w' bus')))"
  shows "Q (fst (snd (andThen (gs_send port m w bus) f)))"
  using send_keeps [OF assms(1,2), of bus] assms(3)
  by (cases "gs_send port m w bus") (auto simp: andThen_def split: option.split)

end

section \<open>The log of events\<close>

interpretation gs_log: bounded_log "push_log 200" 200
  by (rule bounded_log_push_log) simp

lemma length_evict: "length (evict pick ids) \<le> 256"
proof (induction pick ids rule: evict.induct)
  case (1 pick ids)
  then show ?case by (subst evict.simps) auto
qed

lemma set_removeNth: "set (removeNth k xs) \<subseteq> set xs"
  by (auto simp: removeNth_def dest: in_set_takeD in_set_dropD)

lemma distinct_removeNth: "distinct xs \<Longrightarrow> distinct (removeNth k xs)"
  by (auto simp: removeNth_def set_take_disj_set_drop_if_distinct)

lemma distinct_evict: "distinct ids \<Longrightarrow> distinct (evict pick ids)"
proof (induction pick ids rule: evict.induct)
  case (1 pick ids)
  then show ?case by (subst evict.simps) (simp add: distinct_removeNth)
qed

definition log_ok :: "Workflow \<Rightarrow> bool" where
  "log_ok w \<longleftrightarrow> length (gs_events w) \<le> 200 \<and> length (gs_observed w) \<le> 256 \<and> distinct (gs_observed w)"

lemma log_ok_simps [simp]:
  "log_ok (w\<lparr>gs_reconId := a\<rparr>) = log_ok w" "log_ok (w\<lparr>gs_targetId := a\<rparr>) = log_ok w"
  "log_ok (w\<lparr>gs_attackerId := a\<rparr>) = log_ok w" "log_ok (w\<lparr>gs_guideId := a\<rparr>) = log_ok w"
  "log_ok (w\<lparr>gs_stage := s\<rparr>) = log_ok w" "log_ok (w\<lparr>gs_signals := ss\<rparr>) = log_ok w"
  "log_ok (w\<lparr>gs_createdAt := t\<rparr>) = log_ok w" "log_ok (w\<lparr>gs_updatedAt := t\<rparr>) = log_ok w"
  "log_ok (w\<lparr>gs_correlationId := a\<rparr>) = log_ok w" "log_ok (w\<lparr>gs_sequence := k\<rparr>) = log_ok w"
  "log_ok (startClock w) = log_ok w"
  by (simp_all add: log_ok_def)

lemma addEvent_log: "log_ok w \<Longrightarrow> log_ok (addEvent e w)"
  using gs_log.push_bound [of e "gs_events w"] by (simp add: log_ok_def) (simp add: addEvent_def)

lemma setStage_log: "log_ok w \<Longrightarrow> log_ok (setStage s r w)"
  by (simp add: setStage_def Let_def addEvent_log)

interpretation gs_log_kept: gs_kept port log_ok UNIV
proof unfold_locales
  fix w i pick
  assume "log_ok w" "i \<notin> set (gs_observed w)"
  then show "log_ok (w\<lparr>gs_observed := evict pick (gs_observed w @ [i])\<rparr>)"
    by (simp add: log_ok_def length_evict distinct_evict)
qed (simp_all add: reject_def addEvent_log setStage_log observe_def observeReport_def)

lemma approve_log: "log_ok w \<Longrightarrow> log_ok (fst (snd (approve s r w bus)))"
  by (simp add: approve_def setStage_log)

lemma gs_call_log:
  assumes "log_ok (fst wb)"
  shows "log_ok (fst (gs_call port c wb))"
proof (cases wb)
  case (Pair w bus)
  note keeps = gs_log_kept.send_then_keeps approve_log setStage_log gs_log_kept.rejects
    gs_log_kept.posted_keeps
  show ?thesis
    using assms unfolding Pair
    by (cases c) (auto simp: reportTarget_def confirmDispatch_def commandGroundGuidance_def
        confirmGroundAttack_def confirmWithdraw_def refuse_def Let_def intro!: keeps split: option.split)
qed

interpretation gs_logs: invariant_kept "\<lambda>wb. log_ok (fst wb)" "\<lambda>_ _. True" "gs_call port"
  by unfold_locales (rule gs_call_log)

text \<open>Whatever is called and whatever the bus posts, the workflow keeps at most 200 events and
  at most 256 observed message ids, each of them once.\<close>

theorem workflow_log_bounded:
  "let w = fst (fold (gs_call port) calls (newWorkflow side cp, bus))
   in length (gs_events w) \<le> 200 \<and> length (gs_observed w) \<le> 256 \<and> distinct (gs_observed w)"
  using gs_logs.run_ok [of "(newWorkflow side cp, bus)" port calls]
  by (simp add: obeys_True log_ok_def newWorkflow_def Let_def)

section \<open>Who is known at which stage\<close>

definition dispatched :: "Stage \<Rightarrow> bool" where
  "dispatched s \<longleftrightarrow> s \<notin> {Idle, TargetReported, Failed}"

definition guided :: "Stage \<Rightarrow> bool" where
  "guided s \<longleftrightarrow> s \<in> {GroundGuidancePending, Engaging, TargetDestroyedStage, WithdrawPending, Withdrawn}"

definition ids_ok :: "Workflow \<Rightarrow> bool" where
  "ids_ok w \<longleftrightarrow> gs_stage w \<noteq> Failed \<and> (gs_stage w \<noteq> Idle \<longrightarrow> gs_targetId w \<noteq> [])
     \<and> (dispatched (gs_stage w) \<longrightarrow> gs_attackerId w \<noteq> []) \<and> (guided (gs_stage w) \<longrightarrow> gs_guideId w \<noteq> [])"

lemmas stage_sets = dispatched_def guided_def

text \<open>Once an identity is known it stays known; once the strike is dispatched they do not change.\<close>

definition knows :: "bool \<Rightarrow> bool \<Rightarrow> bool \<Rightarrow> Workflow \<Rightarrow> bool" where
  "knows t a g w \<longleftrightarrow> ids_ok w \<and> (t \<longrightarrow> gs_targetId w \<noteq> []) \<and> (a \<longrightarrow> gs_attackerId w \<noteq> [])
     \<and> (g \<longrightarrow> gs_guideId w \<noteq> [])"

lemma observe_knows: "knows t a g w \<Longrightarrow> knows t a g (observe type sender receiver target attacker w)"
proof -
  assume k: "knows t a g w"
  show ?thesis
  proof (cases rule: observe_cases [of type sender receiver target attacker w])
    case guide
    then have "gs_attackerId w \<noteq> []"
      using k by (cases "gs_stage w") (simp_all add: guideObserved_def knows_def ids_ok_def dispatched_def)
    with guide(1) have "attacker \<noteq> []" "target \<noteq> []" "receiver \<noteq> []"
      by (auto simp only: guideObserved_def idOk_def)
    then show ?thesis using k guide(2) by (simp add: knows_def ids_ok_def)
  next
    case destroyed
    then have "gs_targetId w \<noteq> []" "gs_attackerId w \<noteq> []" "gs_guideId w \<noteq> []"
      using k by (cases "gs_stage w"; simp add: destroyedObserved_def knows_def ids_ok_def stage_sets)+
    then show ?thesis using k destroyed(2) by (simp add: knows_def ids_ok_def)
  next
    case withdraw
    then have "gs_targetId w \<noteq> []" "gs_attackerId w \<noteq> []" "gs_guideId w \<noteq> []"
      using k by (cases "gs_stage w"; simp add: withdrawObserved_def knows_def ids_ok_def stage_sets)+
    then show ?thesis using k withdraw(2) by (simp add: knows_def ids_ok_def)
  next
    case strike
    then have "target \<noteq> []" "receiver \<noteq> []" by (simp_all add: strikeObserved_def)
    then show ?thesis using k strike(2) by (simp add: knows_def ids_ok_def stage_sets)
  next
    case confirm
    then have "target \<noteq> []" "receiver \<noteq> []" "sender \<noteq> []" by (simp_all add: confirmObserved_def)
    then show ?thesis using k confirm(2) by (simp add: knows_def ids_ok_def)
  next
    case (report recon)
    then show ?thesis using k by (simp add: knows_def ids_ok_def stage_sets)
  qed (use k in simp)
qed

lemma knows_plain [simp]:
  "knows t a g (reject r w) = knows t a g w" "knows t a g (startClock w) = knows t a g w"
  "knows t a g (w\<lparr>gs_observed := x1\<rparr>) = knows t a g w" "knows t a g (w\<lparr>gs_updatedAt := x2\<rparr>) = knows t a g w"
  "knows t a g (w\<lparr>gs_correlationId := x3\<rparr>) = knows t a g w" "knows t a g (w\<lparr>gs_sequence := x4\<rparr>) = knows t a g w"
  by (simp_all add: knows_def ids_ok_def)

interpretation gs_knows: gs_kept port "knows t a g" UNIV
  by unfold_locales (simp_all add: observe_knows)

lemma approve_knows:
  "knows t a g w \<Longrightarrow> stage \<noteq> Failed \<Longrightarrow> stage \<noteq> Idle \<longrightarrow> t \<Longrightarrow> dispatched stage \<longrightarrow> a \<Longrightarrow> guided stage \<longrightarrow> g
   \<Longrightarrow> knows t a g (fst (snd (approve stage reason w bus)))"
  by (simp add: approve_def knows_def ids_ok_def)

lemma setStage_knows:
  "knows t a g w \<Longrightarrow> stage \<noteq> Failed \<Longrightarrow> stage \<noteq> Idle \<longrightarrow> t \<Longrightarrow> dispatched stage \<longrightarrow> a \<Longrightarrow> guided stage \<longrightarrow> g
   \<Longrightarrow> knows t a g (setStage stage reason w)"
  by (simp add: knows_def ids_ok_def)

lemma knows_ids: "knows t a g w \<Longrightarrow> ids_ok w"
  by (simp add: knows_def)

lemma send_approve_ids:
  assumes "knows t a g w" "stage \<noteq> Failed" "stage \<noteq> Idle \<longrightarrow> t" "dispatched stage \<longrightarrow> a" "guided stage \<longrightarrow> g"
  shows "ids_ok (fst (snd (andThen (gs_send port m w bus) (approve stage reason))))"
  by (rule knows_ids [OF gs_knows.send_then_keeps [OF assms(1)]]) (simp_all add: assms approve_knows)

lemma report_ids: "ids_ok w \<Longrightarrow> ids_ok (fst (snd (reportTarget port recon target report w bus)))"
proof (cases "(gs_stage w \<noteq> Idle \<and> gs_stage w \<noteq> TargetReported) \<or> recon = [] \<or> target = [] \<or> report = []
    \<or> (gs_reconId w \<noteq> [] \<and> recon \<noteq> gs_reconId w)")
  case True
  then show "ids_ok w \<Longrightarrow> ?thesis" by (auto simp: reportTarget_def refuse_def ids_ok_def)
next
  case False
  assume "ids_ok w"
  with False have "knows True False False (w\<lparr>gs_reconId := recon, gs_targetId := target\<rparr>)"
    by (auto simp: knows_def ids_ok_def)
  from send_approve_ids [OF this, of TargetReported] have
    "ids_ok (fst (snd (andThen (gs_send port m (w\<lparr>gs_reconId := recon, gs_targetId := target\<rparr>) bus)
       (approve TargetReported r))))" for m r by (simp add: stage_sets)
  with False show ?thesis by (auto simp: reportTarget_def)
qed

lemma dispatch_ids: "ids_ok w \<Longrightarrow> ids_ok (fst (snd (confirmDispatch port commander attacker target waypoints w bus)))"
proof (cases "gs_stage w \<noteq> TargetReported \<or> commander \<noteq> gs_commandPostId w \<or> target \<noteq> gs_targetId w
    \<or> attacker = [] \<or> waypoints = []")
  case True
  then show "ids_ok w \<Longrightarrow> ?thesis" by (simp add: confirmDispatch_def refuse_def ids_ok_def)
next
  case False
  assume "ids_ok w"
  with False have k: "knows True True False (setStage DispatchPending r (w\<lparr>gs_attackerId := attacker\<rparr>))" for r
    by (auto simp: knows_def ids_ok_def stage_sets)
  have second: "knows True True False (fst (snd (andThen (gs_send port m w' bus')
      (approve StrikeDispatched r))))" if "knows True True False w'" for m w' bus' r
    using that by (auto intro!: gs_knows.send_then_keeps approve_knows simp: stage_sets)
  from False show ?thesis
    by (simp add: confirmDispatch_def Let_def) (rule knows_ids [OF gs_knows.send_then_keeps [OF k _ second]], auto)
qed

lemma guidance_ids: "ids_ok w \<Longrightarrow> ids_ok (fst (snd (commandGroundGuidance port commander guide attacker target w bus)))"
proof (cases "gs_stage w \<noteq> StrikeDispatched \<or> commander \<noteq> gs_commandPostId w \<or> target \<noteq> gs_targetId w
    \<or> guide = [] \<or> attacker \<noteq> gs_attackerId w")
  case True
  then show "ids_ok w \<Longrightarrow> ?thesis" by (simp add: commandGroundGuidance_def refuse_def ids_ok_def)
next
  case False
  assume "ids_ok w"
  with False have k: "knows True True True (w\<lparr>gs_guideId := guide\<rparr>)"
    by (auto simp: knows_def ids_ok_def stage_sets)
  from send_approve_ids [OF k, of GroundGuidancePending] have
    "ids_ok (fst (snd (andThen (gs_send port m (w\<lparr>gs_guideId := guide\<rparr>) bus) (approve GroundGuidancePending r))))"
    for m r by simp
  with False show ?thesis by (auto simp: commandGroundGuidance_def)
qed

lemma attack_ids: "ids_ok w \<Longrightarrow> ids_ok (fst (snd (confirmGroundAttack port guide attacker target waypoints w bus)))"
proof (cases "gs_stage w \<noteq> GroundGuidancePending \<or> guide \<noteq> gs_guideId w \<or> attacker \<noteq> gs_attackerId w
    \<or> target \<noteq> gs_targetId w \<or> waypoints = []")
  case True
  then show "ids_ok w \<Longrightarrow> ?thesis" by (simp add: confirmGroundAttack_def refuse_def ids_ok_def)
next
  case False
  assume "ids_ok w"
  with False have k: "knows True True True w"
    by (auto simp: knows_def ids_ok_def stage_sets)
  from send_approve_ids [OF k, of Engaging] have
    "ids_ok (fst (snd (andThen (gs_send port m w bus) (approve Engaging r))))" for m r by simp
  with False show ?thesis by (auto simp: confirmGroundAttack_def)
qed

lemma withdraw_ids: "ids_ok w \<Longrightarrow> ids_ok (fst (snd (confirmWithdraw port commander attacker home w bus)))"
proof (cases "(gs_stage w \<noteq> TargetDestroyedStage \<and> gs_stage w \<noteq> Engaging) \<or> commander \<noteq> gs_commandPostId w
    \<or> attacker \<noteq> gs_attackerId w \<or> home = None")
  case True
  then show "ids_ok w \<Longrightarrow> ?thesis" by (auto simp: confirmWithdraw_def refuse_def ids_ok_def)
next
  case False
  assume "ids_ok w"
  with False have k: "knows True True True (setStage WithdrawPending r w)" for r
    by (auto simp: knows_def ids_ok_def stage_sets)
  from send_approve_ids [OF k, of Withdrawn] have
    "ids_ok (fst (snd (andThen (gs_send port m (setStage WithdrawPending q w) bus) (approve Withdrawn r))))"
    for m q r by simp
  with False show ?thesis by (auto simp: confirmWithdraw_def Let_def)
qed

lemma posted_ids: "ids_ok w \<Longrightarrow> ids_ok (onMessagePosted pick m w)"
  using gs_knows.posted_keeps [of m False False False w pick] by (simp add: knows_def)

lemma gs_call_ids: "ids_ok (fst wb) \<Longrightarrow> ids_ok (fst (gs_call port c wb))"
  by (cases wb; cases c)
    (simp_all add: report_ids dispatch_ids guidance_ids attack_ids withdraw_ids posted_ids)

interpretation gs_ids: invariant_kept "\<lambda>wb. ids_ok (fst wb)" "\<lambda>_ _. True" "gs_call port"
  by unfold_locales (rule gs_call_ids)

text \<open>A strike is never ordered against nobody, by nobody or without guidance: whatever is called
  and whatever the bus posts, the target is known from the first report on, the attacker from the
  dispatch on, the guiding ground team from the guidance order on; and the workflow never fails.\<close>

theorem stage_identities:
  "let w = fst (fold (gs_call port) calls (newWorkflow side cp, bus))
   in gs_stage w \<noteq> Failed \<and> (gs_stage w \<noteq> Idle \<longrightarrow> gs_targetId w \<noteq> [])
      \<and> (dispatched (gs_stage w) \<longrightarrow> gs_attackerId w \<noteq> []) \<and> (guided (gs_stage w) \<longrightarrow> gs_guideId w \<noteq> [])"
  using gs_ids.run_ok [of "(newWorkflow side cp, bus)" port calls]
  by (simp add: obeys_True ids_ok_def newWorkflow_def Let_def stage_sets)

lemma stage_identities_witness:
  "let w = fst (fold (gs_call (\<lparr>port_send = \<lambda>m b. (True, [], b), port_time = \<lambda>b. 0, port_pick = \<lambda>ids. 0\<rparr> :: unit Port))
       [CallReport ''r'' ''t'' [(''x'', JNum 1)]] (newWorkflow ''red'' ''cp'', Some ()))
   in gs_stage w \<noteq> Failed \<and> (gs_stage w = Idle \<or> gs_targetId w \<noteq> [])"
  using stage_identities [of "\<lparr>port_send = \<lambda>m b. (True, [], b), port_time = \<lambda>b. 0, port_pick = \<lambda>ids. 0\<rparr> :: unit Port"
      "[CallReport ''r'' ''t'' [(''x'', JNum 1)]]" "''red''" "''cp''" "Some ()"]
  unfolding Let_def by blast

section \<open>The strike cannot be redirected\<close>

definition onTarget :: "string \<Rightarrow> string \<Rightarrow> Workflow \<Rightarrow> bool" where
  "onTarget t a w \<longleftrightarrow> dispatched (gs_stage w) \<and> gs_targetId w = t \<and> gs_attackerId w = a"

lemma observe_onTarget:
  "onTarget t a w \<Longrightarrow> t \<noteq> [] \<Longrightarrow> a \<noteq> [] \<Longrightarrow> onTarget t a (observe type sender receiver target attacker w)"
proof -
  assume a: "onTarget t a w" "t \<noteq> []" "a \<noteq> []"
  then have ids: "gs_targetId w = t" "gs_attackerId w = a" "dispatched (gs_stage w)"
    by (simp_all add: onTarget_def)
  show ?thesis
  proof (cases rule: observe_cases [of type sender receiver target attacker w])
    case report
    with ids show ?thesis by (auto simp: dispatched_def)
  next
    case strike
    then have "target = t" "receiver = a" using ids a by (simp_all add: strikeObserved_def idOk_def)
    then show ?thesis using strike(2) by (simp add: onTarget_def dispatched_def)
  next
    case guide
    then have "target = t" "attacker = a" using ids a by (simp_all add: guideObserved_def idOk_def)
    then show ?thesis using guide(2) by (simp add: onTarget_def dispatched_def)
  next
    case confirm
    then have "target = t" "receiver = a" using ids a by (simp_all add: confirmObserved_def idOk_def)
    then show ?thesis using confirm(2) by (simp add: onTarget_def dispatched_def)
  qed (use a ids in \<open>simp_all add: onTarget_def dispatched_def\<close>)
qed

lemma onTarget_plain [simp]:
  "onTarget t a (reject r w) = onTarget t a w" "onTarget t a (startClock w) = onTarget t a w"
  "onTarget t a (w\<lparr>gs_observed := x1\<rparr>) = onTarget t a w" "onTarget t a (w\<lparr>gs_updatedAt := x2\<rparr>) = onTarget t a w"
  "onTarget t a (w\<lparr>gs_correlationId := x3\<rparr>) = onTarget t a w" "onTarget t a (w\<lparr>gs_sequence := x4\<rparr>) = onTarget t a w"
  "onTarget t a (w\<lparr>gs_guideId := x5\<rparr>) = onTarget t a w"
  "onTarget t a (setStage s reason w) \<longleftrightarrow> dispatched s \<and> gs_targetId w = t \<and> gs_attackerId w = a"
  by (simp_all add: onTarget_def)

lemma gs_onTarget: "t \<noteq> [] \<Longrightarrow> a \<noteq> [] \<Longrightarrow> gs_kept port (onTarget t a) UNIV"
  by unfold_locales (simp_all add: observe_onTarget)

lemma approve_onTarget: "onTarget t a w \<Longrightarrow> dispatched s \<Longrightarrow> onTarget t a (fst (snd (approve s r w bus)))"
  by (simp add: approve_def onTarget_def)

lemma gs_call_onTarget:
  assumes "onTarget t a (fst wb)" "t \<noteq> []" "a \<noteq> []"
  shows "onTarget t a (fst (gs_call port c wb))"
proof (cases wb)
  case (Pair w bus)
  note K = gs_onTarget [OF assms(2,3)]
  note keeps = gs_kept.send_then_keeps [OF K] approve_onTarget gs_kept.posted_keeps [OF K]
  have on: "onTarget t a w" "gs_targetId w = t" "gs_attackerId w = a" "gs_stage w \<noteq> Idle"
      "gs_stage w \<noteq> TargetReported"
    using assms(1) by (simp_all add: Pair onTarget_def dispatched_def)
  show ?thesis
    unfolding Pair
    by (cases c) (auto simp: on reportTarget_def confirmDispatch_def commandGroundGuidance_def
        confirmGroundAttack_def confirmWithdraw_def refuse_def Let_def dispatched_def
        intro!: keeps split: option.split)
qed

text \<open>A dispatched strike cannot be redirected: from the dispatch on, no approval and no posted
  message, in any order, changes the target or the attacker or takes the strike back.\<close>

theorem strike_not_redirected:
  assumes "dispatched (gs_stage w)" "gs_targetId w \<noteq> []" "gs_attackerId w \<noteq> []"
    and "w' = fst (fold (gs_call port) calls (w, bus))"
  shows "gs_targetId w' = gs_targetId w \<and> gs_attackerId w' = gs_attackerId w \<and> dispatched (gs_stage w')"
proof -
  have "onTarget (gs_targetId w) (gs_attackerId w) (fst (fold (gs_call port) calls wb))"
    if "onTarget (gs_targetId w) (gs_attackerId w) (fst wb)" for wb
    using that
  proof (induction calls arbitrary: wb)
    case (Cons c calls)
    from Cons.IH [OF gs_call_onTarget [OF Cons.prems assms(2,3)]] show ?case by simp
  qed simp
  then show ?thesis using assms(1,4) by (simp add: onTarget_def)
qed

lemma strike_not_redirected_witness:
  "gs_targetId (fst (gs_call (\<lparr>port_send = \<lambda>m b. (True, [], b), port_time = \<lambda>b. 0, port_pick = \<lambda>ids. 0\<rparr> :: unit Port)
     (CallReport ''recon'' ''other'' [(''x'', JNum 1)])
     ((newWorkflow ''red'' ''cp'')\<lparr>gs_stage := Engaging, gs_targetId := ''t'', gs_attackerId := ''a''\<rparr>, Some ()))) = ''t''"
  using strike_not_redirected [of "(newWorkflow ''red'' ''cp'')\<lparr>gs_stage := Engaging, gs_targetId := ''t'',
      gs_attackerId := ''a''\<rparr>", OF _ _ _ refl,
      of "\<lparr>port_send = \<lambda>m b. (True, [], b), port_time = \<lambda>b. 0, port_pick = \<lambda>ids. 0\<rparr> :: unit Port"
         "[CallReport ''recon'' ''other'' [(''x'', JNum 1)]]" "Some ()"]
  by (simp add: newWorkflow_def dispatched_def)

section \<open>The order of the stages\<close>

inductive stageEdge :: "Stage \<Rightarrow> Stage \<Rightarrow> bool" where
  "stageEdge Idle TargetReported"
| "stageEdge TargetReported DispatchPending"
| "stageEdge TargetReported StrikeDispatched"
| "stageEdge DispatchPending StrikeDispatched"
| "stageEdge StrikeDispatched GroundGuidancePending"
| "stageEdge GroundGuidancePending Engaging"
| "stageEdge Engaging TargetDestroyedStage"
| "stageEdge Engaging WithdrawPending"
| "stageEdge Engaging Withdrawn"
| "stageEdge TargetDestroyedStage WithdrawPending"
| "stageEdge TargetDestroyedStage Withdrawn"
| "stageEdge WithdrawPending Withdrawn"

code_pred stageEdge .

inductive_simps stageEdge_simps [simp]:
  "stageEdge s TargetReported" "stageEdge s DispatchPending" "stageEdge s StrikeDispatched"
  "stageEdge s GroundGuidancePending" "stageEdge s Engaging" "stageEdge s TargetDestroyedStage"
  "stageEdge s WithdrawPending" "stageEdge s Withdrawn"

text \<open>The stage that a message of a type can lead to.\<close>

definition typeStage :: "MsgType \<Rightarrow> Stage option" where
  "typeStage t = (case t of TTargetReport \<Rightarrow> Some TargetReported | TTargetDetect \<Rightarrow> Some TargetReported
     | TStrikePlan \<Rightarrow> Some StrikeDispatched | TFlightPlan \<Rightarrow> Some StrikeDispatched
     | TAttackOrder \<Rightarrow> Some StrikeDispatched | TGroundGuideOrder \<Rightarrow> Some GroundGuidancePending
     | TGroundAttackConfirm \<Rightarrow> Some Engaging | TTargetDestroyed \<Rightarrow> Some TargetDestroyedStage
     | TWithdraw \<Rightarrow> Some Withdrawn | TWithdrawOrder \<Rightarrow> Some Withdrawn | _ \<Rightarrow> None)"

definition typesFor :: "Stage \<Rightarrow> MsgType option set" where
  "typesFor s = {ty. case ty of None \<Rightarrow> True | Some t \<Rightarrow> typeStage t \<in> {None, Some s}}"

text \<open>
  While it sends a message, the bus posts only messages that lead to the same stage or to none: the
  message itself, acknowledgements, reports of positions, but no answer of the next stage.
\<close>

definition echoes :: "'b Port \<Rightarrow> bool" where
  "echoes port \<longleftrightarrow> (\<forall>m b accepted posted b' p t. port_send port m b = (accepted, posted, b') \<longrightarrow> p \<in> set posted
     \<longrightarrow> postedType p = Some t \<longrightarrow> typeStage t \<in> {None, typeStage (msg_type m)})"

definition path_ok :: "Stage set \<Rightarrow> Workflow \<Rightarrow> bool" where
  "path_ok S w \<longleftrightarrow> gs_stage w \<in> S \<and> successively stageEdge (Idle # stagesOf w)
     \<and> last (Idle # stagesOf w) = gs_stage w"

lemma path_step:
  assumes "path_ok S w" "stageEdge (gs_stage w) s \<or> gs_stage w = s" "s \<in> S'"
    and "gs_stage w' = s" "stagesOf w' = stagesOf w @ (if gs_stage w = s then [] else [s])"
  shows "path_ok S' w'"
  using assms unfolding path_ok_def
  by (auto simp: successively_append_iff simp flip: append_Cons)

lemma setStage_path:
  "path_ok S w \<Longrightarrow> stageEdge (gs_stage w) s \<or> gs_stage w = s \<Longrightarrow> s \<in> S' \<Longrightarrow> path_ok S' (setStage s reason w)"
  by (erule path_step) simp_all

lemma stagesOf_plain [simp]:
  "stagesOf (w\<lparr>gs_observed := x1\<rparr>) = stagesOf w" "stagesOf (w\<lparr>gs_updatedAt := x2\<rparr>) = stagesOf w"
  "stagesOf (w\<lparr>gs_correlationId := x3\<rparr>) = stagesOf w" "stagesOf (w\<lparr>gs_sequence := x4\<rparr>) = stagesOf w"
  "stagesOf (w\<lparr>gs_reconId := x5\<rparr>) = stagesOf w" "stagesOf (w\<lparr>gs_targetId := x6\<rparr>) = stagesOf w"
  "stagesOf (w\<lparr>gs_attackerId := x7\<rparr>) = stagesOf w" "stagesOf (w\<lparr>gs_guideId := x8\<rparr>) = stagesOf w"
  by (simp_all add: stagesOf_def)

lemma path_ok_plain [simp]:
  "path_ok S (w\<lparr>gs_observed := x1\<rparr>) = path_ok S w" "path_ok S (w\<lparr>gs_updatedAt := x2\<rparr>) = path_ok S w"
  "path_ok S (w\<lparr>gs_correlationId := x3\<rparr>) = path_ok S w" "path_ok S (w\<lparr>gs_sequence := x4\<rparr>) = path_ok S w"
  "path_ok S (reject r w) = path_ok S w" "path_ok S (startClock w) = path_ok S w"
  by (simp_all add: path_ok_def)

text \<open>A posted message keeps the stage or takes the edge to the stage of its type.\<close>

lemma observe_edge:
  assumes "w' = observe type sender receiver target attacker w"
  shows "gs_stage w' = gs_stage w \<and> stagesOf w' = stagesOf w
     \<or> (\<exists>t s. type = Some t \<and> typeStage t = Some s \<and> stageEdge (gs_stage w) s \<and> gs_stage w' = s
          \<and> stagesOf w' = stagesOf w @ [s])"
proof (cases rule: observe_cases [of type sender receiver target attacker w])
  case (report recon)
  with assms show ?thesis by (auto simp: typeStage_def)
next
  case strike
  then have "gs_stage w \<in> {TargetReported, DispatchPending, StrikeDispatched}"
      "type \<in> {Some TStrikePlan, Some TFlightPlan, Some TAttackOrder}" by (simp_all add: strikeObserved_def)
  with assms strike(2) show ?thesis by (auto simp: typeStage_def)
next
  case guide
  then have "gs_stage w \<in> {StrikeDispatched, GroundGuidancePending}" "type = Some TGroundGuideOrder"
    by (simp_all add: guideObserved_def)
  with assms guide(2) show ?thesis by (auto simp: typeStage_def)
next
  case confirm
  then have "gs_stage w \<in> {GroundGuidancePending, Engaging}" "type = Some TGroundAttackConfirm"
    by (simp_all add: confirmObserved_def)
  with assms confirm(2) show ?thesis by (auto simp: typeStage_def)
next
  case destroyed
  then have "gs_stage w \<in> {Engaging, TargetDestroyedStage}" "type = Some TTargetDestroyed"
    by (simp_all add: destroyedObserved_def)
  with assms destroyed(2) show ?thesis by (auto simp: typeStage_def)
next
  case withdraw
  then have "gs_stage w \<in> {Engaging, TargetDestroyedStage, WithdrawPending, Withdrawn}"
      "type \<in> {Some TWithdrawOrder, Some TWithdraw}" by (simp_all add: withdrawObserved_def)
  with assms withdraw(2) show ?thesis by (auto simp: typeStage_def)
qed (use assms in simp)

lemma observe_path:
  assumes "path_ok S w" "\<And>t s. type = Some t \<Longrightarrow> typeStage t = Some s \<Longrightarrow> s \<in> S"
  shows "path_ok S (observe type sender receiver target attacker w)"
  using observe_edge [OF refl, of type sender receiver target attacker w]
proof (elim disjE exE conjE)
  fix t s
  assume e: "type = Some t" "typeStage t = Some s" "stageEdge (gs_stage w) s"
      "gs_stage (observe type sender receiver target attacker w) = s"
      "stagesOf (observe type sender receiver target attacker w) = stagesOf w @ [s]"
  from e(3) have "gs_stage w \<noteq> s" by cases simp_all
  with e assms show ?thesis by (auto intro: path_step [OF assms(1)])
qed (use assms(1) in \<open>simp add: path_ok_def\<close>)

lemma gs_path:
  assumes "echoes port"
  shows "gs_kept port (path_ok {a, s}) (typesFor s)"
proof unfold_locales
  fix w type sender receiver target attacker
  assume "type \<in> typesFor s" "path_ok {a, s} w"
  then show "path_ok {a, s} (observe type sender receiver target attacker w)"
    by (auto simp: typesFor_def intro: observe_path)
next
  fix m b accepted posted b' p
  assume *: "port_send port m b = (accepted, posted, b')" "p \<in> set posted" "Some (msg_type m) \<in> typesFor s"
  then have "typeStage t \<in> {None, Some s}" if "postedType p = Some t" for t
    using assms that unfolding echoes_def typesFor_def by fastforce
  then show "postedType p \<in> typesFor s" by (auto simp: typesFor_def split: option.split)
qed simp_all

interpretation gs_path_all: gs_kept port "path_ok UNIV" UNIV
  by unfold_locales (simp_all add: observe_path)

lemma gs_call_path:
  assumes "echoes port" "path_ok UNIV (fst wb)"
  shows "path_ok UNIV (fst (gs_call port c wb))"
proof (cases wb)
  case (Pair w bus)
  have p: "path_ok UNIV w" using assms(2) by (simp add: Pair)
  have any: "path_ok UNIV w'" if "path_ok S w'" for S w' using that by (simp add: path_ok_def)
  have step: "path_ok {a, s} (fst (snd (andThen (gs_send port m w' bus') f)))"
    if "path_ok {a, s} w'" "typeStage (msg_type m) = Some s"
      "\<And>w2 bus2. path_ok {a, s} w2 \<Longrightarrow> path_ok {a, s} (fst (snd (f w2 bus2)))" for a s m w' bus' f
    by (rule gs_kept.send_then_keeps [OF gs_path [OF assms(1)]]) (use that in \<open>simp_all add: typesFor_def\<close>)
  have appr: "path_ok {a, s} (fst (snd (approve s r w2 bus2)))" if "path_ok {a, s} w2" "stageEdge a s"
    for a s r w2 bus2 using that setStage_path [OF that(1), of s "{a, s}"] by (auto simp: approve_def path_ok_def)
  have at: "path_ok {gs_stage w, s} w'" if "gs_stage w' = gs_stage w" "stagesOf w' = stagesOf w" for s w'
    using p that by (simp add: path_ok_def)
  show ?thesis
    unfolding Pair
  proof (cases c)
    case (CallReport recon target report)
    have "path_ok {Idle, TargetReported} (w\<lparr>gs_reconId := recon, gs_targetId := target\<rparr>)"
      if "gs_stage w \<in> {Idle, TargetReported}" using p that by (simp add: path_ok_def)
    then show "path_ok UNIV (fst (gs_call port c (w, bus)))"
      by (auto simp: CallReport reportTarget_def refuse_def p  typeStage_def order_def intro!: any [OF step] appr)
  next
    case (CallDispatch commander attacker target waypoints)
    have "path_ok {DispatchPending, StrikeDispatched}
        (setStage DispatchPending r (w\<lparr>gs_attackerId := attacker\<rparr>))" if "gs_stage w = TargetReported" for r
      by (rule setStage_path [of UNIV]) (use p that in \<open>simp_all add: path_ok_def\<close>)
    then show "path_ok UNIV (fst (gs_call port c (w, bus)))"
      by (auto simp: CallDispatch confirmDispatch_def refuse_def Let_def p  typeStage_def order_def intro!: any [OF step] step appr)
  next
    case (CallGuidance commander guide attacker target)
    have "path_ok {StrikeDispatched, GroundGuidancePending} (w\<lparr>gs_guideId := guide\<rparr>)"
      if "gs_stage w = StrikeDispatched" using p that by (simp add: path_ok_def)
    then show "path_ok UNIV (fst (gs_call port c (w, bus)))"
      by (auto simp: CallGuidance commandGroundGuidance_def refuse_def p  typeStage_def order_def intro!: any [OF step] appr)
  next
    case (CallAttack guide attacker target waypoints)
    have "path_ok {GroundGuidancePending, Engaging} w"
      if "gs_stage w = GroundGuidancePending" using p that by (simp add: path_ok_def)
    then show "path_ok UNIV (fst (gs_call port c (w, bus)))"
      by (auto simp: CallAttack confirmGroundAttack_def refuse_def p  typeStage_def order_def intro!: any [OF step] appr)
  next
    case (CallWithdraw commander attacker home)
    have "path_ok {WithdrawPending, Withdrawn} (setStage WithdrawPending r w)"
      if "gs_stage w = TargetDestroyedStage \<or> gs_stage w = Engaging" for r
      by (rule setStage_path [OF p]) (use that in auto)
    then show "path_ok UNIV (fst (gs_call port c (w, bus)))"
      by (auto simp: CallWithdraw confirmWithdraw_def refuse_def Let_def p  typeStage_def order_def intro!: any [OF step] appr split: option.split)
  next
    case (CallPosted m)
    show "path_ok UNIV (fst (gs_call port c (w, bus)))"
      by (simp add: CallPosted gs_path_all.posted_keeps p)
  qed
qed

interpretation gs_paths: invariant_kept "\<lambda>wb. path_ok UNIV (fst wb)" "\<lambda>_ _. echoes port" "gs_call port"
  by unfold_locales (rule gs_call_path)

text \<open>The stages follow the approval sequence: on a bus that answers no message of the workflow while
  it delivers it, the stages that the workflow signals form, from idle on, a path of the edges of
  \<open>stageEdge\<close>, and end in its stage. No stage is skipped that needs an approval of its own, and none is
  taken back, whatever is called and posted and in whatever order.\<close>

lemma stages_follow:
  assumes "echoes port" "w = fst (fold (gs_call port) calls (newWorkflow side cp, bus))"
  shows "successively stageEdge (Idle # stagesOf w) \<and> last (Idle # stagesOf w) = gs_stage w"
proof -
  have start: "path_ok UNIV (fst (newWorkflow side cp, bus))"
    by (simp add: path_ok_def newWorkflow_def stagesOf_def)
  have "obeys (\<lambda>_ _. echoes port) (gs_call port) calls (newWorkflow side cp, bus)"
    by (simp add: assms(1) obeys_True)
  from gs_paths.run_ok [OF start this] assms(2) show ?thesis by (simp add: path_ok_def)
qed

definition silent :: "unit Port" where
  "silent = \<lparr>port_send = \<lambda>m b. (True, [], b), port_time = \<lambda>b. 1, port_pick = \<lambda>ids. 0\<rparr>"

definition exApprovals :: "GsCall list" where
  "exApprovals = [CallReport ''r'' ''t'' [(''x'', JNum 1)], CallDispatch ''cp'' ''a'' ''t'' [JNull],
     CallGuidance ''cp'' ''g'' ''a'' ''t'', CallAttack ''g'' ''a'' ''t'' [JNull], CallWithdraw ''cp'' ''a'' (Some (0, 0))]"

lemma stages_follow_witness:
  "let w = fst (fold (gs_call silent) exApprovals (newWorkflow ''red'' ''cp'', Some ()))
   in successively stageEdge (Idle # stagesOf w) \<and> last (Idle # stagesOf w) = gs_stage w"
  unfolding Let_def by (rule stages_follow [OF _ refl]) (auto simp: silent_def echoes_def)

section \<open>Approvals\<close>

text \<open>The approval that is next, with the identities the workflow knows.\<close>

definition nextApproval :: "Workflow \<Rightarrow> string \<Rightarrow> json list \<Rightarrow> GsCall" where
  "nextApproval w new waypoints =
     (case gs_stage w of
        TargetReported \<Rightarrow> CallDispatch (gs_commandPostId w) new (gs_targetId w) waypoints
      | StrikeDispatched \<Rightarrow> CallGuidance (gs_commandPostId w) new (gs_attackerId w) (gs_targetId w)
      | GroundGuidancePending \<Rightarrow> CallAttack (gs_guideId w) (gs_attackerId w) (gs_targetId w) waypoints
      | _ \<Rightarrow> CallWithdraw (gs_commandPostId w) (gs_attackerId w) (Some (0, 0)))"

definition nextStage :: "Stage \<Rightarrow> Stage" where
  "nextStage s = (case s of TargetReported \<Rightarrow> StrikeDispatched | StrikeDispatched \<Rightarrow> GroundGuidancePending
     | GroundGuidancePending \<Rightarrow> Engaging | _ \<Rightarrow> Withdrawn)"

lemma send_accepted:
  assumes "\<And>m b. fst (port_send port m b)" "msg_sender m \<noteq> []" "msg_receiver m \<noteq> []"
  obtains w' b' where "gs_send port m w (Some b) = (None, w', Some b')"
proof -
  have "fst (gs_send port m w (Some b)) = None \<and> snd (snd (gs_send port m w (Some b))) \<noteq> None"
    using assms by (simp add: gs_send_def Let_def split_beta)
  then show thesis using that by (cases "gs_send port m w (Some b)") auto
qed

lemma sent_and_approved:
  assumes "\<And>m b. fst (port_send port m b)" "msg_sender m \<noteq> []" "msg_receiver m \<noteq> []"
  shows "\<exists>w' b'. andThen (gs_send port m w (Some b)) f = f w' (Some b')"
  by (rule send_accepted [OF assms, of w b]) (auto simp: andThen_def)

text \<open>The approvals carry a strike to its end: at every stage that waits for an approval, the one that
  names the known identities is accepted and reaches the next stage, if the bus accepts the messages.\<close>

theorem next_approval_accepted:
  assumes "\<And>m b. fst (port_send port m b)" "ids_ok w" "gs_commandPostId w \<noteq> []"
    and "gs_stage w \<in> {TargetReported, StrikeDispatched, GroundGuidancePending, Engaging, TargetDestroyedStage}"
    and "new \<noteq> []" "waypoints \<noteq> []"
  shows "gs_stage (fst (gs_call port (nextApproval w new waypoints) (w, Some b))) = nextStage (gs_stage w)"
proof -
  note sent = sent_and_approved [OF assms(1)]
  have ends: "gs_stage (fst (snd (andThen (gs_send port m w' (Some b')) (approve s r)))) = s"
    if "msg_sender m \<noteq> []" "msg_receiver m \<noteq> []" for m w' b' s r
    using sent [OF that, of w' b' "approve s r"] by (auto simp: approve_def)
  consider "gs_stage w = TargetReported" | "gs_stage w = StrikeDispatched" | "gs_stage w = GroundGuidancePending"
    | "gs_stage w \<in> {Engaging, TargetDestroyedStage}" using assms(4) by auto
  then show ?thesis
  proof cases
    case 1
    let ?w = "setStage DispatchPending ''commander approval'' (w\<lparr>gs_attackerId := new\<rparr>)"
    have o: "msg_sender (order t (gs_commandPostId w) new p) \<noteq> []" "msg_receiver (order t (gs_commandPostId w) new p) \<noteq> []" for t p
      using assms(3,5) by (simp_all add: order_def)
    show ?thesis
      using sent [OF o, of TStrikePlan "strikePayload (gs_targetId w) waypoints" ?w b
          "\<lambda>w2 bus2. andThen (gs_send port (order TAttackOrder (gs_commandPostId w) new
             (jset ''fireNow'' (JBool False) (strikePayload (gs_targetId w) waypoints))) w2 bus2)
             (approve StrikeDispatched ''commander dispatch accepted'')"] ends [OF o] 1 assms(5,6)
      by (auto simp: nextApproval_def nextStage_def confirmDispatch_def Let_def)
  next
    case 2
    show ?thesis
      using 2 assms(3,5) by (simp add: nextApproval_def nextStage_def commandGroundGuidance_def ends order_def)
  next
    case 3
    have "gs_guideId w \<noteq> []" "gs_attackerId w \<noteq> []" using 3 assms(2) by (simp_all add: ids_ok_def stage_sets)
    with 3 assms(6) show ?thesis
      by (simp add: nextApproval_def nextStage_def confirmGroundAttack_def ends order_def)
  next
    case 4
    then have "gs_attackerId w \<noteq> []" using assms(2) by (auto simp: ids_ok_def stage_sets)
    with 4 assms(3) show ?thesis
      by (auto simp: nextApproval_def nextStage_def confirmWithdraw_def Let_def ends order_def)
  qed
qed

lemma next_approval_accepted_witness:
  "gs_stage (fst (gs_call silent (nextApproval
      ((newWorkflow ''red'' ''cp'')\<lparr>gs_stage := TargetReported, gs_targetId := ''t''\<rparr>) ''a'' [JNull])
      ((newWorkflow ''red'' ''cp'')\<lparr>gs_stage := TargetReported, gs_targetId := ''t''\<rparr>, Some ()))) = StrikeDispatched"
  using next_approval_accepted [of silent "(newWorkflow ''red'' ''cp'')\<lparr>gs_stage := TargetReported, gs_targetId := ''t''\<rparr>"
      "''a''" "[JNull]" "()"]
  by (simp add: silent_def newWorkflow_def ids_ok_def stage_sets nextStage_def)

text \<open>An approval whose message the bus refuses is lost: when the strike plan cannot be sent, the
  workflow stays in the dispatch pending stage, and there every approval is refused, the same one
  included, however often it is repeated. Only a posted strike message can free it.\<close>

theorem failed_dispatch_is_stuck:
  assumes "gs_stage w = TargetReported" "attacker \<noteq> []" "waypoints \<noteq> []" "gs_commandPostId w \<noteq> []"
    and "\<And>m b. port_send port m b = (False, [], b)"
    and "confirmDispatch port (gs_commandPostId w) attacker (gs_targetId w) waypoints w (Some b) = (r, w', bus')"
    and "\<forall>c \<in> set calls. \<nexists>m. c = CallPosted m"
  shows "r = Some EncodingFailed \<and> gs_stage w' = DispatchPending
    \<and> gs_stage (fst (fold (gs_call port') calls (w', bus''))) = DispatchPending"
proof -
  have first: "r = Some EncodingFailed \<and> gs_stage w' = DispatchPending"
    using assms(1-6)
    by (auto simp: confirmDispatch_def Let_def gs_send_def andThen_def refuse_def order_def)
  have "gs_stage (fst (fold (gs_call port') calls wb)) = DispatchPending"
    if "gs_stage (fst wb) = DispatchPending" for wb
    using that assms(7)
  proof (induction calls arbitrary: wb)
    case (Cons c calls)
    have "gs_stage (fst (gs_call port' c wb)) = DispatchPending"
      using Cons.prems by (cases wb; cases c)
        (auto simp: reportTarget_def confirmDispatch_def commandGroundGuidance_def confirmGroundAttack_def
          confirmWithdraw_def refuse_def)
    with Cons show ?case by simp
  qed simp
  with first show ?thesis by simp
qed

lemma failed_dispatch_is_stuck_witness:
  "gs_stage (fst (fold (gs_call silent) exApprovals (fst (snd (confirmDispatch
      \<lparr>port_send = \<lambda>m b. (False, [], b), port_time = \<lambda>b. 0, port_pick = \<lambda>ids. 0\<rparr> ''cp'' ''a'' ''t'' [JNull]
      ((newWorkflow ''red'' ''cp'')\<lparr>gs_stage := TargetReported, gs_targetId := ''t''\<rparr>) (Some ()))), Some ()))) = DispatchPending"
  using failed_dispatch_is_stuck [of "(newWorkflow ''red'' ''cp'')\<lparr>gs_stage := TargetReported, gs_targetId := ''t''\<rparr>"
      "''a''" "[JNull]" "\<lparr>port_send = \<lambda>m b. (False, [], b), port_time = \<lambda>b. 0, port_pick = \<lambda>ids. 0\<rparr>" "()",
      OF _ _ _ _ _ prod.collapse [symmetric, THEN trans [OF _ arg_cong2 [where f = Pair, OF refl prod.collapse [symmetric]]]],
      of exApprovals silent "Some ()"]
  by (simp add: newWorkflow_def exApprovals_def)

section \<open>Snapshots\<close>

definition gs_savable :: "Workflow \<Rightarrow> bool" where
  "gs_savable w \<longleftrightarrow> length (gs_reconId w) \<le> 128 \<and> length (gs_targetId w) \<le> 128 \<and> length (gs_attackerId w) \<le> 128
     \<and> length (gs_guideId w) \<le> 128 \<and> length (gs_correlationId w) \<le> 128 \<and> length (gs_events w) \<le> 200
     \<and> checkEvents (gs_events w) = None \<and> 0 \<le> gs_updatedAt w \<and> 0 \<le> gs_createdAt w
     \<and> 0 \<le> sint (gs_sequence w) \<and> sint (gs_sequence w) \<le> 1000000"

lemma sequence_int: "0 \<le> i \<Longrightarrow> i \<le> 1000000 \<Longrightarrow> \<not> sequenceInvalid (JNum (of_int i))"
  by (simp add: sequenceInvalid_def)

lemma sequence_back: "of_int \<lfloor>(of_int (sint k) :: rat)\<rfloor> = (k :: 64 word)"
  unfolding floor_of_int by simp

text \<open>A workflow is restored as it was saved: a snapshot whose texts, events and numbers are in the
  accepted bounds gives back the stage, the identities, the correlation, the counters, the times
  and the events; only the observed ids start anew.\<close>

theorem workflow_snapshot_roundtrip:
  assumes "gs_savable w" "gs_side w0 = gs_side w" "gs_commandPostId w0 = gs_commandPostId w"
  shows "restoreSnapshot (gs_snapshot w) w0 = Inr (w\<lparr>gs_observed := [], gs_signals := gs_signals w0\<rparr>)"
proof -
  have q: "\<not> sequenceInvalid (JNum (of_int (sint (gs_sequence w))))"
    by (rule sequence_int) (use assms(1) in \<open>simp_all add: gs_savable_def\<close>)
  have f: "\<not> snapshotFieldsInvalid (gs_snapshot w)"
    using assms(1) q unfolding snapshotFieldsInvalid_def gs_snapshot_def gs_savable_def
    by (simp only: json_simps) (simp add: validText_def nonNegative_def)
  have "checkEvents (gs_events w) = None" using assms(1) by (simp add: gs_savable_def)
  then show ?thesis
    using f assms(2,3) sequence_back [of "gs_sequence w"]
    by (simp add: restoreSnapshot_def) (simp add: gs_snapshot_def json_simps)
qed

lemma workflow_snapshot_roundtrip_witness:
  "restoreSnapshot (gs_snapshot (newWorkflow ''red'' ''cp'')) (newWorkflow ''red'' ''cp'') = Inr (newWorkflow ''red'' ''cp'')"
  using workflow_snapshot_roundtrip [of "newWorkflow ''red'' ''cp''" "newWorkflow ''red'' ''cp''"]
  by (simp add: newWorkflow_def gs_savable_def)

end
