(* ===== verification/BusRuns.thy ===== *)
theory BusRuns
  imports BusState GuidedStrikeProps
begin

text \<open>
  The bus with handlers that act on it: its invariant, the settling of messages that wait for an acknowledgement, and
  the guided strike workflow on this bus. A handler of a unit reaches the
  bus only through the operations of the bus: what it does is a run of calls, during which other handlers act in
  the same way, one level further inside.
\<close>

section \<open>Handlers\<close>

text \<open>\<open>acting allowed env\<close>: every handler of \<open>env\<close> does nothing to the bus or performs a sequence of allowed calls, on a
  bus whose handlers act so themselves. The definition is inductive: a delivery that never ends is no run.\<close>

inductive acting :: "(BusCall \<Rightarrow> bool) \<Rightarrow> BusEnv \<Rightarrow> bool" for allowed where
  acting: "acting allowed env" if "\<forall>h m b. env_run env h m b = b \<or> (\<exists>inner calls. acting allowed inner
     \<and> env_encode inner = env_encode env \<and> env_now inner = env_now env \<and> list_all allowed calls
     \<and> env_run env h m b = fold (bus_call inner) calls b)"

lemma quiet_acting: "acting allowed (quietEnv encode now)"
  by (rule acting.intros) (simp add: quietEnv_def)

text \<open>Handlers that act on an acting bus.\<close>

lemma acting_layer:
  assumes "acting allowed inner" and "\<And>h m b. list_all allowed (reply h m b)"
  shows "acting allowed (inner\<lparr>env_run := \<lambda>h m b. fold (bus_call inner) (reply h m b) b\<rparr>)"
proof (rule acting.intros, intro allI disjI2 exI conjI)
  fix h m b
  show "acting allowed inner" "list_all allowed (reply h m b)"
    by (rule assms)+
qed simp_all

text \<open>What all allowed calls keep whatever the handlers do, as long as those keep it, acting handlers keep.\<close>

lemma acting_keeps:
  assumes "acting allowed env" and "law (env_encode env)"
    and "\<And>env c b. law (env_encode env) \<Longrightarrow> (\<And>h m b. Q b \<Longrightarrow> Q (env_run env h m b)) \<Longrightarrow> allowed c \<Longrightarrow> Q b \<Longrightarrow> Q (bus_call env c b)"
  shows "Q b \<Longrightarrow> Q (env_run env h m b)"
  using assms(1,2)
proof (induction env arbitrary: h m b rule: acting.induct)
  case (acting env)
  from acting.IH consider "env_run env h m b = b"
    | inner calls where "env_encode inner = env_encode env" "list_all allowed calls" "env_run env h m b = fold (bus_call inner) calls b"
      "\<And>h m b. Q b \<Longrightarrow> law (env_encode inner) \<Longrightarrow> Q (env_run inner h m b)"
    by blast
  then show ?case
  proof cases
    case (2 inner calls)
    have "Q (fold (bus_call inner) calls b)" if "list_all allowed calls" "Q b" for calls b
      using that
    proof (induction calls arbitrary: b)
      case (Cons c calls)
      have "Q (bus_call inner c b)"
        by (rule assms(3)) (use Cons.prems 2(1,4) acting.prems(2) in simp_all)
      then show ?case
        using Cons by simp
    qed simp
    then show ?thesis
      using 2(2,3) acting.prems(1) by simp
  qed (use acting.prems in simp)
qed

section \<open>The invariant of the bus\<close>









text \<open>A unit that answers every message it gets by a report to the command post, and leaves after an order to
  withdraw.\<close>

definition exReply :: "nat \<Rightarrow> Message \<Rightarrow> Bus \<Rightarrow> BusCall list" where
  "exReply h m b = (if msg_type m = TWithdrawOrder then [CallUnregister (msg_receiver m)]
     else [CallSend (emptyMessage\<lparr>msg_sender := msg_receiver m, msg_receiver := ''cp''\<rparr>)])"

definition exEnv :: BusEnv where
  "exEnv = (quietEnv Some ''now'')\<lparr>env_run := \<lambda>h m b. fold (bus_call (quietEnv Some ''now'')) (exReply h m b) b\<rparr>"

lemma exEnv_acting: "(\<And>h m b. list_all allowed (exReply h m b)) \<Longrightarrow> acting allowed exEnv"
  unfolding exEnv_def by (rule acting_layer [OF quiet_acting])


section \<open>Every message is settled\<close>









section \<open>The workflow on the bus\<close>

text \<open>What \<open>dispatch\<close> hands to \<open>messagePosted\<close> (\<open>MessageBus.cpp\<close>).\<close>

definition postedJson :: "(8 word list \<Rightarrow> string) \<Rightarrow> BusEvent \<Rightarrow> jobject option" where
  "postedJson b64 e = (case e of
     Posted m senderSide receiverSide t \<Rightarrow> Some (jset ''simulationTime'' (JNum t) (jset ''receiverSide'' (JStr receiverSide)
       (jset ''senderSide'' (JStr senderSide) (message_toJson b64 m))))
   | _ \<Rightarrow> None)"

text \<open>The bus as the workflow sees it: \<open>send\<close>, the messages it posts meanwhile, and the time.\<close>

definition busPort :: "(8 word list \<Rightarrow> string) \<Rightarrow> BusEnv \<Rightarrow> (string list \<Rightarrow> nat) \<Rightarrow> Bus Port" where
  "busPort b64 env pick = \<lparr>port_send = (\<lambda>m b. let (accepted, b') = send env m b
       in (accepted, List.map_filter (postedJson b64) (drop (length (bus_trace b)) (bus_trace b')), b')),
     port_time = bus_time, port_pick = pick\<rparr>"

text \<open>Handlers that send no messages of the workflow and do not move the clock.\<close>

definition noOrders :: "BusCall \<Rightarrow> bool" where
  "noOrders c \<longleftrightarrow> (case c of CallSend m \<Rightarrow> typeStage (msg_type m) = None | CallAdvance t \<Rightarrow> False | _ \<Rightarrow> True)"

definition keepsType :: "(Message \<Rightarrow> Message option) \<Rightarrow> bool" where
  "keepsType encode \<longleftrightarrow> (\<forall>m e. encode m = Some e \<longrightarrow> msg_type e = msg_type m)"

text \<open>Since the trace had \<open>n\<close> entries, only messages of one stage or of none were posted.\<close>

definition ofStage :: "Stage option \<Rightarrow> BusEvent \<Rightarrow> bool" where
  "ofStage s e = (case e of Posted m x y t \<Rightarrow> typeStage (msg_type m) \<in> {None, s} | _ \<Rightarrow> True)"

definition postedSince :: "nat \<Rightarrow> Stage option \<Rightarrow> Bus \<Rightarrow> bool" where
  "postedSince n s b \<longleftrightarrow> n \<le> length (bus_trace b) \<and> list_all (ofStage s) (drop n (bus_trace b))"

lemma postedSince_emit: "ofStage s e \<Longrightarrow> postedSince n s b \<Longrightarrow> postedSince n s (emit e b)"
  by (simp add: postedSince_def emit_def)

lemma postedSince_trace: "bus_trace b' = bus_trace b \<Longrightarrow> postedSince n s b' = postedSince n s b"
  by (simp add: postedSince_def)

lemma postedSince_settle: "postedSince n s b \<Longrightarrow> postedSince n s (settleAck m b)"
  by (auto simp: settleAck_def Let_def postedSince_def emit_def ofStage_def split: option.split)

lemma track_posts: "postedSince n s b \<Longrightarrow> postedSince n s (snd (trackMessage m b))"
  by (auto simp: trackMessage_def Let_def postedSince_def [of _ _ "_\<lparr>bus_pending := _\<rparr>"] intro!: postedSince_settle)
    (simp_all add: postedSince_def)

lemma posted_closed:
  assumes "\<And>h m b. postedSince n s b \<Longrightarrow> postedSince n s (env_run env h m b)"
  shows "bus_closed env (ofStage s) (postedSince n s)"
proof unfold_locales
  fix b i k
  show "postedSince n s b \<Longrightarrow> postedSince n s (rememberAutomaticMessageId i b)"
    using postedSince_trace [OF remember_fields(7), of n s i b] by simp
  show "postedSince n s b \<Longrightarrow> postedSince n s (b\<lparr>bus_seq := k\<rparr>)"
    by (simp add: postedSince_def)
qed (simp_all add: postedSince_emit postedSince_settle assms ofStage_def typeStage_def)

lemma send_posts:
  assumes "\<And>h m b. postedSince n s b \<Longrightarrow> postedSince n s (env_run env h m b)" and "keepsType (env_encode env)"
    and "typeStage (msg_type m) \<in> {None, s}" and "postedSince n s b"
  shows "postedSince n s (snd (send env m b))"
proof -
  note C = posted_closed [OF assms(1)]
  obtain m1 b1 where st: "stampMessage env m b = (m1, b1)"
    by force
  have b1: "postedSince n s b1" "msg_type m1 = msg_type m"
    using bus_closed.stamp_keeps [OF C assms(4), of m] stampMessage_simps(1) [of env m b] by (simp_all add: st)
  show ?thesis
  proof (cases "encodeMessage env m1 b1")
    case None
    then show ?thesis
      using b1(1) by (simp add: send_def sendWith_def st postedSince_emit ofStage_def)
  next
    case (Some e)
    have e: "msg_type e = msg_type m"
      using Some assms(2) b1(2) by (auto simp: encodeMessage_def keepsType_def split: if_splits)
    obtain m2 b2 where tr: "trackMessage e b1 = (m2, b2)"
      by force
    have m2: "msg_type m2 = msg_type m"
      using e trackMessage_type [of e b1] by (simp add: tr)
    have "postedSince n s b2"
      using track_posts [OF b1(1), of e] by (simp add: tr)
    moreover have "sendable (ofStage s) m2"
      using assms(3) m2 by (simp add: sendable_def ofStage_def)
    ultimately have "postedSince n s (dispatch env m2 b2)"
      using bus_closed.dispatch_keeps [OF C] by blast
    then show ?thesis
      using Some by (simp add: send_def sendWith_def st tr)
  qed
qed

lemma acting_posts:
  assumes "acting noOrders env" and "keepsType (env_encode env)" and "postedSince n s b"
  shows "postedSince n s (env_run env h m b)"
proof (rule acting_keeps [where law = keepsType and Q = "postedSince n s", OF assms(1,2) _ assms(3)])
  fix env :: BusEnv and c b
  assume k: "keepsType (env_encode env)" "\<And>h m b. postedSince n s b \<Longrightarrow> postedSince n s (env_run env h m b)"
    and c: "noOrders c" and b: "postedSince n s b"
  show "postedSince n s (bus_call env c b)"
  proof (cases c)
    case (CallSend m)
    then show ?thesis
      using send_posts [OF k(2,1) _ b, of m] c by (simp add: noOrders_def)
  qed (use b c in \<open>simp_all add: postedSince_def noOrders_def subscribe_def unsubscribe_def unregisterUnit_def
      setSimulationTime_def setAckPolicy_def\<close>)
qed

text \<open>The bus answers no message of the workflow while it delivers it.\<close>

lemma bus_echoes:
  assumes "acting noOrders env" and "keepsType (env_encode env)"
  shows "echoes (busPort b64 env pick)"
  unfolding echoes_def
proof (intro allI impI)
  fix m b accepted posted b' p t
  assume s: "port_send (busPort b64 env pick) m b = (accepted, posted, b')" and p: "p \<in> set posted" and t: "postedType p = Some t"
  have "postedSince (length (bus_trace b)) (typeStage (msg_type m)) (snd (send env m b))"
    by (rule send_posts) (simp_all add: acting_posts assms, simp add: postedSince_def)
  then have all: "list_all (ofStage (typeStage (msg_type m))) (drop (length (bus_trace b)) (bus_trace b'))"
    using s by (simp add: postedSince_def busPort_def Let_def split_beta)
  obtain e where e: "e \<in> set (drop (length (bus_trace b)) (bus_trace b'))" "postedJson b64 e = Some p"
    using s p by (auto simp: busPort_def Let_def split_beta List.map_filter_def)
  then obtain x where x: "postedType p = Some (msg_type x)" "\<exists>u v w. e = Posted x u v w"
    by (auto simp: postedJson_def postedType_def json_simps toJson_fields split: BusEvent.splits)
  then show "typeStage t \<in> {None, typeStage (msg_type m)}"
    using all e(1) t by (auto simp: list_all_iff ofStage_def dest!: bspec)
qed

text \<open>C13. The workflow on the message bus: as long as the handlers of the units send no messages of the workflow while
  those are delivered, however else they act on the bus, and the encoder keeps the type of a message, the stages that
  the workflow signals form, from idle on, a path of the edges of \<open>stageEdge\<close>, and end in its stage. No stage is skipped that
  needs an approval of its own, and none is taken back, whatever is called and posted and in whatever order.\<close>

theorem stages_in_order:
  assumes "acting noOrders env" and "keepsType (env_encode env)"
    and "w = fst (fold (gs_call (busPort b64 env pick)) calls (newWorkflow side cp, Some bus))"
  shows "successively stageEdge (Idle # stagesOf w) \<and> last (Idle # stagesOf w) = gs_stage w"
  by (rule stages_follow [OF bus_echoes [OF assms(1,2)] assms(3)])

lemma stages_in_order_witness:
  "let w = fst (fold (gs_call (busPort (\<lambda>_. []) exEnv (\<lambda>_. 0))) exApprovals (newWorkflow ''red'' ''cp'', Some emptyBus))
   in successively stageEdge (Idle # stagesOf w) \<and> last (Idle # stagesOf w) = gs_stage w"
  unfolding Let_def
proof (rule stages_in_order [OF exEnv_acting _ refl])
  show "list_all noOrders (exReply h m b)" for h m b
    by (simp add: exReply_def noOrders_def emptyMessage_def typeStage_def)
  show "keepsType (env_encode exEnv)"
    by (simp add: exEnv_def quietEnv_def keepsType_def)
qed

end
