(* ===== verification/StrictTask.thy ===== *)
theory StrictTask
  imports Json "HOL-Library.Product_Lexorder" "HOL-Library.List_Lexorder" "HOL-Library.Char_ord"
begin

text \<open>
  The authoritative set of guided strike tasks (\<open>src/server/game/StrictVmfTask.cpp\<close>): creating a task,
  the actions of the seats, blocking, completion, and the checkpoint. The hash of the tasks is a
  list of pairs with distinct keys; nothing depends on its order. Stages, actions and states of
  health are the strings of the code; texts for the user are left out.
\<close>

section \<open>Tasks\<close>

record Task =
  task_id :: string
  task_side :: string
  task_revision :: "64 word"
  task_stage :: string
  task_health :: string
  task_blockCode :: string
  task_commander :: string
  task_recon :: string
  task_attack :: string
  task_ground :: string
  task_target :: string
  task_correlation :: string
  task_route :: "json list"
  task_pending :: "string list"
  task_history :: "json list"
  task_createdAt :: rat
  task_updatedAt :: rat

record TaskResult =
  res_ok :: bool
  res_status :: string
  res_code :: string
  res_revision :: "64 word"
  res_messages :: "string list"

record TaskSet =
  ts_tasks :: "(string \<times> Task) list"
  ts_order :: "string list"

definition emptyTaskSet :: TaskSet where
  "emptyTaskSet = \<lparr>ts_tasks = [], ts_order = []\<rparr>"

definition validId :: "string \<Rightarrow> bool" where
  "validId v \<longleftrightarrow> trimmed v \<noteq> [] \<and> length v \<le> 64"

definition validSide :: "string \<Rightarrow> bool" where
  "validSide side \<longleftrightarrow> side = ''red'' \<or> side = ''blue''"

definition isOpenTask :: "Task \<Rightarrow> bool" where
  "isOpenTask t \<longleftrightarrow> task_health t = ''active'' \<or> task_health t = ''blocked''"

definition validPoint :: "json \<Rightarrow> bool" where
  "validPoint v \<longleftrightarrow> isJObj v \<and> isJNum (jget (jtoObject v) ''x'') \<and> isJNum (jget (jtoObject v) ''y'')"

definition validRoute :: "json list \<Rightarrow> bool" where
  "validRoute route \<longleftrightarrow> length route \<le> 32 \<and> list_all validPoint route"

section \<open>Stages and roles\<close>

definition stageActions :: "(string \<times> string) list" where
  "stageActions = [(''awaitingTargetReport'', ''reportTarget''), (''targetReported'', ''dispatch''),
     (''dispatchPending'', ''acceptDispatch''), (''enRoute'', ''orderGroundGuidance''),
     (''groundGuidancePending'', ''markRendezvousReady''), (''rendezvousReady'', ''identityHello''),
     (''identityHandshakePending'', ''identityConfirm''), (''guidancePackagePending'', ''sendGuidancePackage''),
     (''routeAcceptancePending'', ''acceptGuidance''), (''attackLanePending'', ''reportAttackReady''),
     (''attackAuthorizationPending'', ''authorizeAttack''), (''engaging'', ''engage''),
     (''damageReportPending'', ''reportBattleDamage''), (''damageAssessmentPending'', ''confirmDamageAssessment''),
     (''reconConfirmationPending'', ''confirmTargetDestroyed''), (''targetDestroyed'', ''withdraw''),
     (''withdrawPending'', ''markReturning'')]"

definition validStageAction :: "string \<Rightarrow> string \<Rightarrow> bool" where
  "validStageAction stage action \<longleftrightarrow> map_of stageActions stage = Some action"

definition actionStages :: "(string \<times> string) list" where
  "actionStages = [(''reportTarget'', ''targetReported''), (''dispatch'', ''dispatchPending''),
     (''acceptDispatch'', ''enRoute''), (''orderGroundGuidance'', ''groundGuidancePending''),
     (''markRendezvousReady'', ''rendezvousReady''), (''identityHello'', ''identityHandshakePending''),
     (''identityConfirm'', ''guidancePackagePending''), (''sendGuidancePackage'', ''routeAcceptancePending''),
     (''acceptGuidance'', ''attackLanePending''), (''reportAttackReady'', ''attackAuthorizationPending''),
     (''authorizeAttack'', ''engaging''), (''engage'', ''damageReportPending''),
     (''reportBattleDamage'', ''damageAssessmentPending''), (''confirmDamageAssessment'', ''reconConfirmationPending''),
     (''confirmTargetDestroyed'', ''targetDestroyed''), (''withdraw'', ''withdrawPending''),
     (''markReturning'', ''returning'')]"

definition nextStageOf :: "string \<Rightarrow> string" where
  "nextStageOf action = (case map_of actionStages action of None \<Rightarrow> [] | Some s \<Rightarrow> s)"

definition roleMatches :: "Task \<Rightarrow> string \<Rightarrow> string \<Rightarrow> bool" where
  "roleMatches t action actor =
     (if action \<in> {''reportTarget'', ''confirmTargetDestroyed''} then actor = task_recon t
      else if action \<in> {''dispatch'', ''orderGroundGuidance'', ''withdraw''} then actor = task_commander t
      else if action \<in> {''acceptDispatch'', ''identityHello'', ''acceptGuidance'', ''reportAttackReady'',
                        ''engage'', ''reportBattleDamage'', ''markReturning''} then actor = task_attack t
      else if action \<in> {''markRendezvousReady'', ''identityConfirm'', ''sendGuidancePackage'',
                        ''authorizeAttack'', ''confirmDamageAssessment''} then actor = task_ground t
      else False)"

definition appendHistory :: "string \<Rightarrow> string \<Rightarrow> rat \<Rightarrow> string \<Rightarrow> Task \<Rightarrow> Task" where
  "appendHistory action actor now code t = t\<lparr>task_history := push_log 64
     (JObj [(''action'', JStr action), (''actorSeatId'', JStr actor), (''stage'', JStr (task_stage t)),
            (''health'', JStr (task_health t)), (''code'', JStr code), (''time'', JNum now)]) (task_history t)\<rparr>"

definition failure :: "string \<Rightarrow> 64 word \<Rightarrow> TaskResult" where
  "failure code revision = \<lparr>res_ok = False, res_status = ''rejected'', res_code = code,
     res_revision = revision, res_messages = []\<rparr>"

definition succeeded :: "string \<Rightarrow> string \<Rightarrow> 64 word \<Rightarrow> string list \<Rightarrow> TaskResult" where
  "succeeded status code revision messages = \<lparr>res_ok = True, res_status = status, res_code = code,
     res_revision = revision, res_messages = messages\<rparr>"

section \<open>Operations\<close>

definition findTask :: "string \<Rightarrow> TaskSet \<Rightarrow> Task option" where
  "findTask i s = map_of (ts_tasks s) i"

definition setTask :: "string \<Rightarrow> Task \<Rightarrow> TaskSet \<Rightarrow> TaskSet" where
  "setTask i t s = s\<lparr>ts_tasks := map (\<lambda>(k, v). (k, if k = i then t else v)) (ts_tasks s)\<rparr>"

definition nextRevision :: "Task \<Rightarrow> Task" where
  "nextRevision t = t\<lparr>task_revision := task_revision t + 1\<rparr>"

text \<open>The loop that drops finished tasks while more than 100 are kept.\<close>

definition removable :: "(string \<times> Task) list \<Rightarrow> string \<Rightarrow> bool" where
  "removable tasks i \<longleftrightarrow> (case map_of tasks i of None \<Rightarrow> True | Some t \<Rightarrow> \<not> isOpenTask t)"

function dropFinished :: "(string \<times> Task) list \<Rightarrow> string list \<Rightarrow> (string \<times> Task) list \<times> string list" where
  "dropFinished tasks order =
     (if 100 < length tasks then
        (case find (removable tasks) order of
           None \<Rightarrow> (tasks, order)
         | Some i \<Rightarrow> dropFinished (filter (\<lambda>(k, t). k \<noteq> i) tasks) (remove1 i order))
      else (tasks, order))"
  by pat_completeness auto
termination
proof (relation "measure (\<lambda>(tasks, order). length order)")
  fix tasks order i
  assume "find (removable tasks) order = Some i"
  then have "i \<in> set order" by (auto simp: find_Some_iff)
  then have "length (remove1 i order) < length order"
    by (metis One_nat_def length_pos_if_in_set length_remove1 diff_less zero_less_one)
  then show "((filter (\<lambda>(k, t). k \<noteq> i) tasks, remove1 i order), tasks, order) \<in> measure (\<lambda>(tasks, order). length order)"
    by simp
qed simp

declare dropFinished.simps [simp del]

definition contends :: "string \<Rightarrow> string \<Rightarrow> string \<Rightarrow> string \<Rightarrow> Task \<Rightarrow> bool" where
  "contends recon attack ground target t \<longleftrightarrow> isOpenTask t
     \<and> (task_recon t = recon \<or> task_attack t = attack \<or> task_ground t = ground \<or> task_target t = target)"

definition openOnSide :: "string \<Rightarrow> Task \<Rightarrow> bool" where
  "openOnSide side t \<longleftrightarrow> task_side t = side \<and> isOpenTask t"

record NewTask =
  new_id :: string
  new_side :: string
  new_commander :: string
  new_recon :: string
  new_attack :: string
  new_ground :: string
  new_target :: string
  new_correlation :: string
  new_waiting :: bool
  new_route :: "json list"

definition freshTask :: "NewTask \<Rightarrow> rat \<Rightarrow> Task" where
  "freshTask n now = \<lparr>task_id = new_id n, task_side = new_side n, task_revision = 1,
     task_stage = ''awaitingTargetReport'', task_health = (if new_waiting n then ''blocked'' else ''active''),
     task_blockCode = (if new_waiting n then ''WAITING_FOR_HUMAN'' else []), task_commander = new_commander n,
     task_recon = new_recon n, task_attack = new_attack n, task_ground = new_ground n,
     task_target = new_target n, task_correlation = new_correlation n, task_route = new_route n,
     task_pending = [], task_history = [], task_createdAt = now, task_updatedAt = now\<rparr>"

definition createTask :: "NewTask \<Rightarrow> rat \<Rightarrow> TaskSet \<Rightarrow> TaskResult \<times> TaskSet" where
  "createTask n now s =
     (if \<not> validId (new_id n) \<or> \<not> validSide (new_side n) \<or> \<not> validId (new_commander n)
         \<or> \<not> validId (new_recon n) \<or> \<not> validId (new_attack n) \<or> \<not> validId (new_ground n)
         \<or> \<not> validId (new_target n) \<or> \<not> validId (new_correlation n) \<or> \<not> validRoute (new_route n)
      then (failure ''INVALID_TASK'' 0, s)
      else if findTask (new_id n) s \<noteq> None then (failure ''DUPLICATE_TASK'' 0, s)
      else if list_ex (\<lambda>(k, t). contends (new_recon n) (new_attack n) (new_ground n) (new_target n) t) (ts_tasks s)
      then (failure ''RESOURCE_BUSY'' 0, s)
      else if 16 \<le> length (filter (\<lambda>(k, t). openOnSide (new_side n) t) (ts_tasks s))
      then (failure ''TASK_LIMIT'' 0, s)
      else
        (let t = freshTask n now;
             (tasks, order) = dropFinished (ts_tasks s @ [(new_id n, t)]) (ts_order s @ [new_id n]);
             t' = nextRevision (appendHistory ''createTask'' (new_commander n) now (task_blockCode t) t)
         in (succeeded (if task_health t = ''blocked'' then ''blocked'' else ''accepted'') ''OK'' (task_revision t') [],
             setTask (new_id n) t' \<lparr>ts_tasks = tasks, ts_order = order\<rparr>)))"

definition assessedAlive :: "string \<Rightarrow> jobject \<Rightarrow> bool" where
  "assessedAlive action command \<longleftrightarrow> action = ''confirmDamageAssessment'' \<and> jcontains command ''targetDestroyed''
     \<and> \<not> jtoBool False (jget command ''targetDestroyed'')"

definition applyAction :: "jobject \<Rightarrow> string \<Rightarrow> string set \<Rightarrow> rat \<Rightarrow> TaskSet \<Rightarrow> TaskResult \<times> TaskSet" where
  "applyAction command actor placeholders now s =
     (let i = jtoString (jget command ''taskId'');
          action = jtoString (jget command ''action'');
          expected = of_int (jtoInteger 0 (jget command ''expectedTaskRevision''))
      in case findTask i s of
           None \<Rightarrow> (failure ''TASK_NOT_FOUND'' 0, s)
         | Some t \<Rightarrow>
             if expected \<noteq> task_revision t then (failure ''TASK_REVISION_MISMATCH'' (task_revision t), s)
             else if task_health t = ''completed'' \<or> task_health t = ''cancelled''
             then (failure ''TASK_CLOSED'' (task_revision t), s)
             else if \<not> validStageAction (task_stage t) action \<or> \<not> roleMatches t action actor
             then (failure ''VMF_SEQUENCE_INVALID'' (task_revision t), s)
             else if actor \<in> placeholders then
               (let t' = nextRevision (appendHistory action actor now ''WAITING_FOR_HUMAN''
                      (t\<lparr>task_health := ''blocked'', task_blockCode := ''WAITING_FOR_HUMAN'', task_updatedAt := now\<rparr>))
                in (succeeded ''blocked'' ''WAITING_FOR_HUMAN'' (task_revision t') [], setTask i t' s))
             else
               (let t' = nextRevision (appendHistory action actor now []
                      (t\<lparr>task_health := ''active'', task_blockCode := [],
                         task_stage := (if assessedAlive action command then ''engaging'' else nextStageOf action),
                         task_updatedAt := now\<rparr>))
                in (succeeded ''accepted'' ''OK'' (task_revision t') (task_pending t'), setTask i t' s)))"

definition setBlocked :: "string \<Rightarrow> string \<Rightarrow> rat \<Rightarrow> TaskSet \<Rightarrow> TaskResult \<times> TaskSet" where
  "setBlocked i code now s =
     (case findTask i s of
        None \<Rightarrow> (failure ''TASK_NOT_FOUND'' 0, s)
      | Some t \<Rightarrow>
          (let t' = nextRevision (appendHistory ''blocked'' [] now code
                 (t\<lparr>task_health := ''blocked'', task_blockCode := code, task_updatedAt := now\<rparr>))
           in (succeeded ''blocked'' code (task_revision t') (task_pending t'), setTask i t' s)))"

definition clearBlocked :: "string \<Rightarrow> rat \<Rightarrow> TaskSet \<Rightarrow> TaskResult \<times> TaskSet" where
  "clearBlocked i now s =
     (case findTask i s of
        None \<Rightarrow> (failure ''TASK_NOT_FOUND'' 0, s)
      | Some t \<Rightarrow>
          (let t' = nextRevision (appendHistory ''unblocked'' [] now []
                 (t\<lparr>task_health := ''active'', task_blockCode := [], task_updatedAt := now\<rparr>))
           in (succeeded ''accepted'' ''OK'' (task_revision t') (task_pending t'), setTask i t' s)))"

definition completeReturn :: "string \<Rightarrow> rat \<Rightarrow> TaskSet \<Rightarrow> TaskResult \<times> TaskSet" where
  "completeReturn i now s =
     (case findTask i s of
        None \<Rightarrow> (failure ''VMF_SEQUENCE_INVALID'' 0, s)
      | Some t \<Rightarrow>
          if task_stage t \<noteq> ''returning'' then (failure ''VMF_SEQUENCE_INVALID'' 0, s)
          else (let t' = nextRevision (appendHistory ''completeReturn'' [] now []
                      (t\<lparr>task_stage := ''completed'', task_health := ''completed'', task_updatedAt := now\<rparr>))
                in (succeeded ''accepted'' ''OK'' (task_revision t') [], setTask i t' s)))"

text \<open>The tasks of a side (or all), by creation time and then id.\<close>

definition tasksOf :: "string \<Rightarrow> TaskSet \<Rightarrow> Task list" where
  "tasksOf side s = sort_key (\<lambda>t. (task_createdAt t, task_id t))
     (filter (\<lambda>t. side = [] \<or> task_side t = side) (map snd (ts_tasks s)))"

section \<open>Checkpoints\<close>

definition taskToJson :: "Task \<Rightarrow> json" where
  "taskToJson t = JObj [(''taskId'', JStr (task_id t)), (''side'', JStr (task_side t)),
     (''taskRevision'', jint (sint (task_revision t))), (''stage'', JStr (task_stage t)),
     (''health'', JStr (task_health t)), (''blockCode'', JStr (task_blockCode t)),
     (''commanderSeatId'', JStr (task_commander t)), (''reconSeatId'', JStr (task_recon t)),
     (''attackSeatId'', JStr (task_attack t)), (''groundSeatId'', JStr (task_ground t)),
     (''targetId'', JStr (task_target t)), (''correlationId'', JStr (task_correlation t)),
     (''route'', JArr (task_route t)), (''pendingMessageIds'', jstrings (task_pending t)),
     (''eventHistory'', JArr (task_history t)), (''createdAt'', JNum (task_createdAt t)),
     (''updatedAt'', JNum (task_updatedAt t))]"

definition taskStages :: "string list" where
  "taskStages = map fst stageActions @ [''returning'', ''completed'']"

definition parsedTask :: "jobject \<Rightarrow> Task" where
  "parsedTask js =
     (let revision = jtoInteger 0 (jget js ''taskRevision'') in
      \<lparr>task_id = jtoString (jget js ''taskId''), task_side = jtoString (jget js ''side''),
       task_revision = (if 0 < revision then of_int revision else 0),
       task_stage = jtoString (jget js ''stage''), task_health = jtoString (jget js ''health''),
       task_blockCode = jtoString (jget js ''blockCode''), task_commander = jtoString (jget js ''commanderSeatId''),
       task_recon = jtoString (jget js ''reconSeatId''), task_attack = jtoString (jget js ''attackSeatId''),
       task_ground = jtoString (jget js ''groundSeatId''), task_target = jtoString (jget js ''targetId''),
       task_correlation = jtoString (jget js ''correlationId''), task_route = jtoArray (jget js ''route''),
       task_pending = [], task_history = jtoArray (jget js ''eventHistory''),
       task_createdAt = jtoDouble (- 1) (jget js ''createdAt''),
       task_updatedAt = jtoDouble (- 1) (jget js ''updatedAt'')\<rparr>)"

definition checkpointValid :: "Task \<Rightarrow> bool" where
  "checkpointValid t \<longleftrightarrow> validId (task_id t) \<and> validSide (task_side t) \<and> task_revision t \<noteq> 0
     \<and> validId (task_commander t) \<and> validId (task_recon t) \<and> validId (task_attack t) \<and> validId (task_ground t)
     \<and> validId (task_target t) \<and> validId (task_correlation t) \<and> task_stage t \<in> set taskStages
     \<and> task_health t \<in> {''active'', ''blocked'', ''completed'', ''cancelled''} \<and> validRoute (task_route t)
     \<and> length (task_history t) \<le> 4096 \<and> 0 \<le> task_createdAt t \<and> 0 \<le> task_updatedAt t"

definition taskFromJson :: "jobject \<Rightarrow> Task option" where
  "taskFromJson js =
     (let t = parsedTask js; pending = jget js ''pendingMessageIds'' in
      if \<not> checkpointValid t \<or> \<not> isJArr (jget js ''route'') then None
      else if \<not> isJArr pending \<or> \<not> list_all (\<lambda>v. validId (jtoString v)) (jtoArray pending) then None
      else Some (t\<lparr>task_history := trim_log 64 (task_history t),
                   task_pending := map jtoString (jtoArray pending)\<rparr>))"

definition toCheckpoint :: "TaskSet \<Rightarrow> jobject" where
  "toCheckpoint s = [(''schemaVersion'', jint 1), (''tasks'', JArr (map taskToJson (tasksOf [] s)))]"

fun restoreTasks :: "json list \<Rightarrow> (string \<times> Task) list \<Rightarrow> (string \<times> Task) list option" where
  "restoreTasks [] restored = Some restored"
| "restoreTasks (v # vs) restored =
     (if \<not> isJObj v then None
      else case taskFromJson (jtoObject v) of
             None \<Rightarrow> None
           | Some t \<Rightarrow> if map_of restored (task_id t) \<noteq> None then None
                       else restoreTasks vs (restored @ [(task_id t, t)]))"

text \<open>\<open>None\<close> when the checkpoint is refused and the set unchanged.\<close>

definition restoreCheckpoint :: "jobject \<Rightarrow> TaskSet option" where
  "restoreCheckpoint js =
     (if jtoInt 0 (jget js ''schemaVersion'') \<noteq> 1 then None
      else if \<not> isJArr (jget js ''tasks'') \<or> 100 < length (jtoArray (jget js ''tasks'')) then None
      else case restoreTasks (jtoArray (jget js ''tasks'')) [] of
             None \<Rightarrow> None
           | Some tasks \<Rightarrow> Some \<lparr>ts_tasks = tasks,
               ts_order = map task_id (tasksOf [] \<lparr>ts_tasks = tasks, ts_order = []\<rparr>)\<rparr>)"

end
