(* ===== verification/StrictTaskProps.thy ===== *)
theory StrictTaskProps
  imports StrictTask "HOL-Library.Multiset"
begin

text \<open>
  What holds of the task set: seats and targets are not shared by open tasks, at most 16 tasks are open
  per side and at most 100 are kept, an action is applied at most once, and every state that the
  operations reach can be saved and restored.
\<close>

section \<open>The invariant\<close>

definition conflict :: "Task \<Rightarrow> Task \<Rightarrow> bool" where
  "conflict t u \<longleftrightarrow> isOpenTask u \<and> contends (task_recon u) (task_attack u) (task_ground u) (task_target u) t"

definition knownHealth :: "Task \<Rightarrow> bool" where
  "knownHealth t \<longleftrightarrow> task_health t \<in> {''active'', ''blocked'', ''completed'', ''cancelled''}"

lemma knownHealth_open: "knownHealth t \<Longrightarrow> isOpenTask t \<or> task_health t = ''completed'' \<or> task_health t = ''cancelled''"
  by (auto simp: knownHealth_def isOpenTask_def)

definition entries_ok :: "(string \<times> Task) list \<Rightarrow> bool" where
  "entries_ok tasks \<longleftrightarrow> distinct (map fst tasks) \<and> (\<forall>(k, t) \<in> set tasks. task_id t = k \<and> validSide (task_side t) \<and> knownHealth t)
     \<and> (\<forall>(k, t) \<in> set tasks. \<forall>(l, u) \<in> set tasks. k \<noteq> l \<longrightarrow> \<not> conflict t u)
     \<and> (\<forall>side. length (filter (\<lambda>(k, t). openOnSide side t) tasks) \<le> 16)"

definition ts_ok :: "TaskSet \<Rightarrow> bool" where
  "ts_ok s \<longleftrightarrow> entries_ok (ts_tasks s) \<and> distinct (ts_order s) \<and> set (ts_order s) = fst ` set (ts_tasks s)
     \<and> length (ts_tasks s) \<le> 100"

lemma length_open:
  assumes "\<forall>(k, t) \<in> set tasks. validSide (task_side t)"
  shows "length (filter (\<lambda>(k, t). isOpenTask t) tasks)
    = length (filter (\<lambda>(k, t). openOnSide ''red'' t) tasks) + length (filter (\<lambda>(k, t). openOnSide ''blue'' t) tasks)"
  using assms by (induction tasks) (auto simp: openOnSide_def validSide_def)

lemma open_at_most_32: "entries_ok tasks \<Longrightarrow> length (filter (\<lambda>(k, t). isOpenTask t) tasks) \<le> 32"
proof -
  assume ok: "entries_ok tasks"
  then have "\<forall>(k, t) \<in> set tasks. validSide (task_side t)" by (auto simp: entries_ok_def)
  moreover from ok have "length (filter (\<lambda>(k, t). openOnSide side t) tasks) \<le> 16" for side
    by (simp add: entries_ok_def)
  ultimately show ?thesis using length_open [of tasks] by (metis add_mono numeral_Bit0)
qed

lemma length_filter_sub: "length (filter (\<lambda>x. Q x \<and> P x) xs) \<le> length (filter P xs)"
  by (induction xs) auto

lemma entries_ok_filter: "entries_ok tasks \<Longrightarrow> entries_ok (filter P tasks)"
  unfolding entries_ok_def
  by (auto simp: distinct_map_filter intro: le_trans [OF length_filter_sub])

section \<open>Dropping finished tasks\<close>

text \<open>
  With at most 32 open tasks there is always a finished one to drop, so the loop ends with at most
  100 tasks; and it never drops an open one.
\<close>

lemma find_removable:
  assumes "entries_ok tasks" "100 < length tasks" "set order = fst ` set tasks"
  obtains i where "find (removable tasks) order = Some i" "i \<in> fst ` set tasks"
    "\<forall>t. (i, t) \<in> set tasks \<longrightarrow> \<not> isOpenTask t"
proof -
  have m: "map_of tasks k = Some t \<longleftrightarrow> (k, t) \<in> set tasks" for k t
    using assms(1) by (simp add: entries_ok_def)
  have "\<exists>(k, t) \<in> set tasks. \<not> isOpenTask t"
  proof (rule ccontr)
    assume "\<not> ?thesis"
    then have "filter (\<lambda>(k, t). isOpenTask t) tasks = tasks" by (auto intro!: filter_True)
    with open_at_most_32 [OF assms(1)] assms(2) show False by simp
  qed
  then obtain k t where kt: "(k, t) \<in> set tasks" "\<not> isOpenTask t" by auto
  then have "removable tasks k" using m [of k t] by (simp add: removable_def)
  moreover have "k \<in> set order" using kt(1) assms(3) by force
  ultimately have "find (removable tasks) order \<noteq> None" by (auto simp: find_None_iff)
  then obtain i where i: "find (removable tasks) order = Some i" by auto
  then have "i \<in> set order" "removable tasks i" by (auto simp: find_Some_iff)
  then have "i \<in> fst ` set tasks" "\<not> isOpenTask t" if "(i, t) \<in> set tasks" for t
    using assms(3) that m [of i t] by (simp_all add: removable_def)
  with i \<open>i \<in> set order\<close> assms(3) show thesis using that by blast
qed

lemma dropFinished_ok:
  assumes "dropFinished tasks order = (tasks', order')" "entries_ok tasks" "distinct order" "set order = fst ` set tasks"
  shows "ts_ok \<lparr>ts_tasks = tasks', ts_order = order'\<rparr> \<and> set tasks' \<subseteq> set tasks
    \<and> (\<forall>(k, t) \<in> set tasks. isOpenTask t \<longrightarrow> (k, t) \<in> set tasks')"
  using assms
proof (induction tasks order rule: dropFinished.induct)
  case (1 tasks order)
  show ?case
  proof (cases "100 < length tasks")
    case False
    with 1 show ?thesis by (auto simp: dropFinished.simps [of tasks order] ts_ok_def)
  next
    case True
    from find_removable [OF 1(3) True 1(5)] obtain i
      where i: "find (removable tasks) order = Some i" "i \<in> fst ` set tasks"
        "\<forall>t. (i, t) \<in> set tasks \<longrightarrow> \<not> isOpenTask t" .
    let ?tasks = "filter (\<lambda>(k, t). k \<noteq> i) tasks"
    have step: "dropFinished ?tasks (remove1 i order) = (tasks', order')"
      using 1(2) True i(1) by (simp add: dropFinished.simps [of tasks order])
    have "ts_ok \<lparr>ts_tasks = tasks', ts_order = order'\<rparr> \<and> set tasks' \<subseteq> set ?tasks
        \<and> (\<forall>(k, t) \<in> set ?tasks. isOpenTask t \<longrightarrow> (k, t) \<in> set tasks')"
      by (rule 1(1) [OF True i(1) step entries_ok_filter [OF 1(3)]])
        (use 1(4,5) in \<open>auto simp: set_remove1_eq image_iff\<close>)
    then show ?thesis using i(3) by auto
  qed
qed

section \<open>The operations keep the invariant\<close>

lemma length_filter_map: "(\<And>x. x \<in> set xs \<Longrightarrow> P (f x) \<Longrightarrow> P x) \<Longrightarrow> length (filter P (map f xs)) \<le> length (filter P xs)"
  by (induction xs) (auto simp: le_Suc_eq)

lemma setTask_ok:
  assumes "ts_ok s" "findTask i s = Some t" "task_id u = task_id t" "task_side u = task_side t"
    and "task_recon u = task_recon t" "task_attack u = task_attack t" "task_ground u = task_ground t"
    and "task_target u = task_target t" "isOpenTask u \<longrightarrow> isOpenTask t" "knownHealth u"
  shows "ts_ok (setTask i u s)"
proof -
  let ?f = "\<lambda>(k, v). (k, if k = i then u else v)"
  have e: "entries_ok (ts_tasks s)" "length (ts_tasks s) \<le> 100" using assms(1) by (simp_all add: ts_ok_def)
  have it: "(i, t) \<in> set (ts_tasks s)" using assms(2) by (simp add: findTask_def map_of_SomeD)
  have only: "v = t" if "(i, v) \<in> set (ts_tasks s)" for v
    using that it e(1) by (metis entries_ok_def eq_key_imp_eq_value)
  have keys: "map fst (map ?f (ts_tasks s)) = map fst (ts_tasks s)" by (induction "ts_tasks s") auto
  have old: "\<exists>v'. (k, v') \<in> set (ts_tasks s) \<and> task_id v = task_id v' \<and> task_side v = task_side v'
      \<and> (\<forall>w. conflict v w \<longrightarrow> conflict v' w) \<and> (\<forall>w. conflict w v \<longrightarrow> conflict w v')"
    if "(k, v) \<in> set (map ?f (ts_tasks s))" for k v
    using that it assms(3-9) by (auto simp: conflict_def contends_def split: if_splits)
  have count: "length (filter (\<lambda>(k, v). openOnSide side v) (map ?f (ts_tasks s)))
      \<le> length (filter (\<lambda>(k, v). openOnSide side v) (ts_tasks s))" for side
    by (rule length_filter_map) (use only assms(4,9) in \<open>auto simp: openOnSide_def split: if_splits\<close>)
  have "entries_ok (map ?f (ts_tasks s))"
    unfolding entries_ok_def
  proof (intro conjI allI)
    show "distinct (map fst (map ?f (ts_tasks s)))" using e(1) by (simp only: keys entries_ok_def)
    show "\<forall>(k, t) \<in> set (map ?f (ts_tasks s)). task_id t = k \<and> validSide (task_side t) \<and> knownHealth t"
    proof (clarify)
      fix k v
      assume "(k, v) \<in> set (map ?f (ts_tasks s))"
      then consider "k = i" "v = u" | "(k, v) \<in> set (ts_tasks s)" by (auto split: if_splits)
      then show "task_id v = k \<and> validSide (task_side v) \<and> knownHealth v"
        using e(1) it assms(3,4,10) unfolding entries_ok_def by cases auto
    qed
    show "\<forall>(k, t) \<in> set (map ?f (ts_tasks s)). \<forall>(l, u) \<in> set (map ?f (ts_tasks s)). k \<noteq> l \<longrightarrow> \<not> conflict t u"
    proof (clarify)
      fix k v l w
      assume a: "(k, v) \<in> set (map ?f (ts_tasks s))" "(l, w) \<in> set (map ?f (ts_tasks s))" "k \<noteq> l" "conflict v w"
      from old [OF a(1)] obtain v' where v': "(k, v') \<in> set (ts_tasks s)" "conflict v' w" using a(4) by blast
      from old [OF a(2)] obtain w' where "(l, w') \<in> set (ts_tasks s)" "conflict v' w'" using v'(2) by blast
      with v'(1) a(3) e(1) show False unfolding entries_ok_def by blast
    qed
    show "length (filter (\<lambda>(k, t). openOnSide side t) (map ?f (ts_tasks s))) \<le> 16" for side
      using count [of side] e(1) unfolding entries_ok_def by (meson le_trans)
  qed
  moreover have "fst ` set (map ?f (ts_tasks s)) = fst ` set (ts_tasks s)"
    by (simp only: keys set_map [symmetric])
  ultimately show ?thesis
    using assms(1) by (simp add: setTask_def ts_ok_def)
qed

lemma appended_fields [simp]:
  "task_id (appendHistory a c n k t) = task_id t" "task_side (appendHistory a c n k t) = task_side t"
  "task_recon (appendHistory a c n k t) = task_recon t" "task_attack (appendHistory a c n k t) = task_attack t"
  "task_ground (appendHistory a c n k t) = task_ground t" "task_target (appendHistory a c n k t) = task_target t"
  "task_health (appendHistory a c n k t) = task_health t" "task_stage (appendHistory a c n k t) = task_stage t"
  "task_revision (appendHistory a c n k t) = task_revision t" "task_pending (appendHistory a c n k t) = task_pending t"
  "task_commander (appendHistory a c n k t) = task_commander t" "task_correlation (appendHistory a c n k t) = task_correlation t"
  "task_route (appendHistory a c n k t) = task_route t" "task_createdAt (appendHistory a c n k t) = task_createdAt t"
  "knownHealth (appendHistory a c n k t) = knownHealth t"
  "task_updatedAt (appendHistory a c n k t) = task_updatedAt t" "task_blockCode (appendHistory a c n k t) = task_blockCode t"
  by (simp_all add: appendHistory_def knownHealth_def)

lemma nextRevision_fields [simp]:
  "task_id (nextRevision t) = task_id t" "task_side (nextRevision t) = task_side t"
  "task_recon (nextRevision t) = task_recon t" "task_attack (nextRevision t) = task_attack t"
  "task_ground (nextRevision t) = task_ground t" "task_target (nextRevision t) = task_target t"
  "task_health (nextRevision t) = task_health t" "task_stage (nextRevision t) = task_stage t"
  "task_revision (nextRevision t) = task_revision t + 1" "task_pending (nextRevision t) = task_pending t"
  "task_commander (nextRevision t) = task_commander t" "task_correlation (nextRevision t) = task_correlation t"
  "task_route (nextRevision t) = task_route t" "task_createdAt (nextRevision t) = task_createdAt t"
  "task_updatedAt (nextRevision t) = task_updatedAt t" "task_blockCode (nextRevision t) = task_blockCode t"
  "task_history (nextRevision t) = task_history t" "knownHealth (nextRevision t) = knownHealth t"
  by (simp_all add: nextRevision_def knownHealth_def)

lemma isOpenTask_simps [simp]:
  "isOpenTask (nextRevision t) = isOpenTask t" "isOpenTask (appendHistory a c n k t) = isOpenTask t"
  by (simp_all add: isOpenTask_def)

lemma knownHealth_set:
  "knownHealth (t\<lparr>task_health := ''active'', task_blockCode := c, task_updatedAt := n\<rparr>)"
  "knownHealth (t\<lparr>task_health := ''active'', task_blockCode := c, task_stage := st, task_updatedAt := n\<rparr>)"
  "knownHealth (t\<lparr>task_health := ''blocked'', task_blockCode := c, task_updatedAt := n\<rparr>)"
  "knownHealth (t\<lparr>task_stage := st, task_health := ''completed'', task_updatedAt := n\<rparr>)"
  by (simp_all add: knownHealth_def)

lemma found_health:
  "findTask i s = Some t \<Longrightarrow> ts_ok s \<Longrightarrow> task_health t \<noteq> ''completed'' \<Longrightarrow> task_health t \<noteq> ''cancelled'' \<Longrightarrow> isOpenTask t"
  using knownHealth_open by (fastforce simp: findTask_def ts_ok_def entries_ok_def dest: map_of_SomeD)

lemma applyAction_ok: "ts_ok s \<Longrightarrow> ts_ok (snd (applyAction command actor placeholders now s))"
  unfolding applyAction_def Let_def
  by (auto split: option.split intro!: setTask_ok simp: knownHealth_set dest: found_health)

lemma completeReturn_ok: "ts_ok s \<Longrightarrow> ts_ok (snd (completeReturn i now s))"
  unfolding completeReturn_def Let_def
  by (auto split: option.split intro!: setTask_ok simp: knownHealth_set isOpenTask_def)

text \<open>Blocking and unblocking do not look at the health of the task.\<close>

definition knownOpen :: "TaskSet \<Rightarrow> string \<Rightarrow> bool" where
  "knownOpen s i \<longleftrightarrow> (case findTask i s of None \<Rightarrow> True | Some t \<Rightarrow> isOpenTask t)"

lemma setBlocked_ok: "ts_ok s \<Longrightarrow> knownOpen s i \<Longrightarrow> ts_ok (snd (setBlocked i code now s))"
  unfolding setBlocked_def Let_def knownOpen_def
  by (auto split: option.splits intro!: setTask_ok simp: knownHealth_set)

lemma clearBlocked_ok: "ts_ok s \<Longrightarrow> knownOpen s i \<Longrightarrow> ts_ok (snd (clearBlocked i now s))"
  unfolding clearBlocked_def Let_def knownOpen_def
  by (auto split: option.splits intro!: setTask_ok simp: knownHealth_set)

lemma entries_ok_fresh:
  assumes "entries_ok tasks" "map_of tasks (new_id n) = None" "validSide (new_side n)"
    and "\<not> list_ex (\<lambda>(k, t). contends (new_recon n) (new_attack n) (new_ground n) (new_target n) t) tasks"
    and "length (filter (\<lambda>(k, t). openOnSide (new_side n) t) tasks) < 16"
  shows "entries_ok (tasks @ [(new_id n, freshTask n now)])"
proof -
  have free: "\<not> conflict t (freshTask n now) \<and> \<not> conflict (freshTask n now) t" if "(k, t) \<in> set tasks" for k t
    using assms(4) that by (auto simp: list_ex_iff conflict_def contends_def freshTask_def isOpenTask_def)
  have "length (filter (\<lambda>(k, t). openOnSide side t) (tasks @ [(new_id n, freshTask n now)])) \<le> 16" for side
    using assms(1,5) by (auto simp: entries_ok_def openOnSide_def freshTask_def)
  moreover have "new_id n \<notin> fst ` set tasks" using assms(2) by (simp add: map_of_eq_None_iff)
  ultimately show ?thesis
    using assms(1,3) free unfolding entries_ok_def
    by (auto simp: freshTask_def knownHealth_def)
qed

lemma createTask_ok: "ts_ok s \<Longrightarrow> ts_ok (snd (createTask n now s))"
proof (cases "res_ok (fst (createTask n now s))")
  case False
  assume "ts_ok s"
  moreover have "snd (createTask n now s) = s"
    using False by (auto simp: createTask_def failure_def succeeded_def Let_def split_beta split: if_splits)
  ultimately show ?thesis by simp
next
  case True
  assume ok: "ts_ok s"
  let ?t = "freshTask n now"
  obtain tasks order where d: "dropFinished (ts_tasks s @ [(new_id n, ?t)]) (ts_order s @ [new_id n]) = (tasks, order)"
    by fastforce
  have new: "validSide (new_side n)" "map_of (ts_tasks s) (new_id n) = None"
      "\<not> list_ex (\<lambda>(k, t). contends (new_recon n) (new_attack n) (new_ground n) (new_target n) t) (ts_tasks s)"
      "length (filter (\<lambda>(k, t). openOnSide (new_side n) t) (ts_tasks s)) < 16"
    using True by (auto simp: createTask_def failure_def findTask_def split: if_splits)
  have "entries_ok (ts_tasks s @ [(new_id n, ?t)])"
    by (rule entries_ok_fresh) (use ok new in \<open>auto simp: ts_ok_def\<close>)
  with dropFinished_ok [OF d] ok new(2)
  have drop: "ts_ok \<lparr>ts_tasks = tasks, ts_order = order\<rparr>" "(new_id n, ?t) \<in> set tasks"
    by (auto simp: ts_ok_def map_of_eq_None_iff freshTask_def isOpenTask_def)
  then have "findTask (new_id n) \<lparr>ts_tasks = tasks, ts_order = order\<rparr> = Some ?t"
    by (simp add: findTask_def ts_ok_def entries_ok_def)
  then have "ts_ok (setTask (new_id n) (nextRevision (appendHistory ''createTask'' (new_commander n) now (task_blockCode ?t) ?t))
      \<lparr>ts_tasks = tasks, ts_order = order\<rparr>)"
    by (rule setTask_ok [OF drop(1)]) (simp_all add: freshTask_def knownHealth_def)
  with d ok show ?thesis by (simp add: createTask_def Let_def)
qed

section \<open>Runs\<close>

datatype TaskCall = Create NewTask rat | Act jobject string "string set" rat | Block string string rat
  | Unblock string rat | Complete string rat

fun ts_call :: "TaskCall \<Rightarrow> TaskSet \<Rightarrow> TaskSet" where
  "ts_call (Create n now) s = snd (createTask n now s)"
| "ts_call (Act command actor placeholders now) s = snd (applyAction command actor placeholders now s)"
| "ts_call (Block i code now) s = snd (setBlocked i code now s)"
| "ts_call (Unblock i now) s = snd (clearBlocked i now s)"
| "ts_call (Complete i now) s = snd (completeReturn i now s)"

fun onlyOpen :: "TaskSet \<Rightarrow> TaskCall \<Rightarrow> bool" where
  "onlyOpen s (Block i code now) = knownOpen s i"
| "onlyOpen s (Unblock i now) = knownOpen s i"
| "onlyOpen s c = True"

lemma ts_call_ok: "ts_ok s \<Longrightarrow> onlyOpen s c \<Longrightarrow> ts_ok (ts_call c s)"
  by (cases c) (simp_all add: createTask_ok applyAction_ok setBlocked_ok clearBlocked_ok completeReturn_ok)

interpretation task_set: invariant_kept ts_ok onlyOpen ts_call
  by unfold_locales (rule ts_call_ok)

text \<open>C10. Seats and targets are exclusive: if tasks are blocked and unblocked only while they are open (the code of the
  repository never calls \<open>setBlocked\<close> and \<open>clearBlocked\<close>, which do not check it themselves), then after any operations
  no two open tasks share a recon, attack or ground seat or a target, at most 16 tasks are open on a side, and at most
  100 tasks are kept.\<close>

theorem task_resources_exclusive:
  assumes "obeys onlyOpen ts_call calls emptyTaskSet" "s = fold ts_call calls emptyTaskSet"
  shows "(\<forall>i j t u. findTask i s = Some t \<longrightarrow> findTask j s = Some u \<longrightarrow> i \<noteq> j \<longrightarrow> isOpenTask t \<longrightarrow> isOpenTask u
      \<longrightarrow> task_recon t \<noteq> task_recon u \<and> task_attack t \<noteq> task_attack u \<and> task_ground t \<noteq> task_ground u
        \<and> task_target t \<noteq> task_target u)
    \<and> (\<forall>side. length (filter (\<lambda>(k, t). openOnSide side t) (ts_tasks s)) \<le> 16)
    \<and> length (ts_tasks s) \<le> 100"
proof -
  have "ts_ok emptyTaskSet" by (simp add: ts_ok_def entries_ok_def emptyTaskSet_def)
  from task_set.run_ok [OF this assms(1)] have ok: "ts_ok s" by (simp add: assms(2))
  have "\<not> conflict t u" if "findTask i s = Some t" "findTask j s = Some u" "i \<noteq> j" for i j t u
    using ok that unfolding ts_ok_def entries_ok_def findTask_def by (blast dest: map_of_SomeD)
  with ok show ?thesis
    unfolding ts_ok_def entries_ok_def conflict_def contends_def by metis
qed

definition exTask :: "string \<Rightarrow> NewTask" where
  "exTask i = \<lparr>new_id = i, new_side = ''red'', new_commander = ''c'', new_recon = ''r'', new_attack = ''a'',
     new_ground = ''g'', new_target = ''t'', new_correlation = ''k'', new_waiting = False, new_route = []\<rparr>"

lemma task_resources_exclusive_witness:
  "length (ts_tasks (fold ts_call [Create (exTask ''x'') 1, Create (exTask ''y'') 2] emptyTaskSet)) \<le> 100"
  using task_resources_exclusive [OF _ refl, of "[Create (exTask ''x'') 1, Create (exTask ''y'') 2]"] by simp

section \<open>Actions\<close>

lemma findTask_setTask:
  "findTask j (setTask i u s) = (if j = i \<and> findTask i s \<noteq> None then Some u else findTask j s)"
proof -
  have "map_of (map (\<lambda>(k, v). (k, if k = i then u else v)) xs) j
      = (if j = i \<and> map_of xs i \<noteq> None then Some u else map_of xs j)" for xs
    by (induction xs) auto
  then show ?thesis by (simp add: findTask_def setTask_def)
qed

text \<open>C28. An action is accepted exactly when its task is open and at the revision the seat has seen, the
  action is the one of its stage and the seat is the one with that role. Then the revision moves on by
  one, so the same command is refused from then on, and the stage is the next one unless the seat is a
  placeholder; otherwise nothing changes.\<close>

theorem action_accepted_iff:
  assumes "findTask i s = Some t" "knownHealth t"
    and "i = jtoString (jget command ''taskId'')" "action = jtoString (jget command ''action'')"
    and "applyAction command actor placeholders now s = (r, s')"
  shows "(res_ok r \<longleftrightarrow> of_int (jtoInteger 0 (jget command ''expectedTaskRevision'')) = task_revision t \<and> isOpenTask t
            \<and> validStageAction (task_stage t) action \<and> roleMatches t action actor)
    \<and> (res_ok r \<longrightarrow> (\<exists>t'. findTask i s' = Some t' \<and> task_revision t' = task_revision t + 1
          \<and> res_revision r = task_revision t + 1
          \<and> task_stage t' = (if actor \<in> placeholders then task_stage t
               else if assessedAlive action command then ''engaging'' else nextStageOf action)
          \<and> res_code (fst (applyAction command actor placeholders later s')) = ''TASK_REVISION_MISMATCH''))
    \<and> (\<not> res_ok r \<longrightarrow> s' = s)"
proof -
  let ?e = "of_int (jtoInteger 0 (jget command ''expectedTaskRevision'')) :: 64 word"
  let ?accepts = "?e = task_revision t \<and> isOpenTask t \<and> validStageAction (task_stage t) action \<and> roleMatches t action actor"
  have closed: "task_health t = ''completed'' \<or> task_health t = ''cancelled'' \<longleftrightarrow> \<not> isOpenTask t"
    using assms(2) by (auto simp: knownHealth_def isOpenTask_def)
  note step = applyAction_def [of command actor placeholders now s] Let_def assms(1) assms(3,4) [symmetric] closed
  show ?thesis
  proof (cases ?accepts)
    case False
    then have "\<not> res_ok r" "s' = s" using assms(5) by (auto simp: step failure_def split: if_splits)
    with False show ?thesis by blast
  next
    case True
    then obtain t' where t': "s' = setTask i t' s" "res_ok r" "task_revision t' = task_revision t + 1"
        "res_revision r = task_revision t + 1"
        "task_stage t' = (if actor \<in> placeholders then task_stage t
           else if assessedAlive action command then ''engaging'' else nextStageOf action)"
      using assms(5) by (auto simp: step succeeded_def split: if_splits)
    then have found: "findTask i s' = Some t'" using assms(1) by (simp add: findTask_setTask)
    have "?e \<noteq> task_revision t'" using True t'(3) by simp
    then have "res_code (fst (applyAction command actor placeholders later s')) = ''TASK_REVISION_MISMATCH''"
      by (simp add: applyAction_def Let_def found assms(3) [symmetric] failure_def)
    with True t' found show ?thesis by blast
  qed
qed

lemma action_accepted_iff_witness:
  "res_ok (fst (applyAction [(''taskId'', JStr ''x''), (''action'', JStr ''reportTarget''), (''expectedTaskRevision'', jint 1)]
     ''r'' {} 2 \<lparr>ts_tasks = [(''x'', freshTask (exTask ''x'') 1)], ts_order = [''x'']\<rparr>))"
  using action_accepted_iff [of "''x''" "\<lparr>ts_tasks = [(''x'', freshTask (exTask ''x'') 1)], ts_order = [''x'']\<rparr>"
      "freshTask (exTask ''x'') 1"
      "[(''taskId'', JStr ''x''), (''action'', JStr ''reportTarget''), (''expectedTaskRevision'', jint 1)]"
      "''reportTarget''" "''r''" "{}" 2, OF _ _ _ _ prod.collapse [symmetric]]
  by (simp add: findTask_def freshTask_def exTask_def knownHealth_def isOpenTask_def validStageAction_def
      stageActions_def roleMatches_def json_simps)

text \<open>Unblocking does not look at the health of a task: a completed or cancelled task is active again
  afterwards, and holds its seats and its target again beside the task that uses them now.\<close>

theorem unblocking_reopens:
  assumes "findTask i s = Some t" "i \<noteq> j" "findTask j s = Some u" "isOpenTask u"
  shows "\<exists>t'. findTask i (snd (clearBlocked i now s)) = Some t' \<and> isOpenTask t' \<and> task_recon t' = task_recon t
      \<and> (task_recon t = task_recon u \<longrightarrow> findTask j (snd (clearBlocked i now s)) = Some u \<and> conflict t' u)"
  using assms by (simp add: clearBlocked_def Let_def findTask_setTask conflict_def contends_def)
    (simp add: isOpenTask_def)

lemma unblocking_reopens_witness:
  "\<exists>t'. findTask ''x'' (snd (clearBlocked ''x'' 9 \<lparr>ts_tasks = [(''x'', (freshTask (exTask ''x'') 1)\<lparr>task_health := ''completed''\<rparr>),
      (''y'', freshTask (exTask ''y'') 2)], ts_order = [''x'', ''y'']\<rparr>)) = Some t' \<and> conflict t' (freshTask (exTask ''y'') 2)"
  using unblocking_reopens [of "''x''" "\<lparr>ts_tasks = [(''x'', (freshTask (exTask ''x'') 1)\<lparr>task_health := ''completed''\<rparr>),
      (''y'', freshTask (exTask ''y'') 2)], ts_order = [''x'', ''y'']\<rparr>"
      "(freshTask (exTask ''x'') 1)\<lparr>task_health := ''completed''\<rparr>" "''y''" "freshTask (exTask ''y'') 2" 9]
  by (auto simp: findTask_def freshTask_def exTask_def isOpenTask_def)

section \<open>Checkpoints\<close>

definition taskValid :: "Task \<Rightarrow> bool" where
  "taskValid t \<longleftrightarrow> checkpointValid (t\<lparr>task_revision := 1\<rparr>) \<and> length (task_history t) \<le> 64 \<and> task_pending t = []"

definition allValid :: "TaskSet \<Rightarrow> bool" where
  "allValid s \<longleftrightarrow> (\<forall>(k, t) \<in> set (ts_tasks s). taskValid t)"

fun timely :: "TaskSet \<Rightarrow> TaskCall \<Rightarrow> bool" where
  "timely s (Create n now) \<longleftrightarrow> 0 \<le> now"
| "timely s (Act command actor placeholders now) \<longleftrightarrow> 0 \<le> now"
| "timely s (Block i code now) \<longleftrightarrow> knownOpen s i \<and> 0 \<le> now"
| "timely s (Unblock i now) \<longleftrightarrow> knownOpen s i \<and> 0 \<le> now"
| "timely s (Complete i now) \<longleftrightarrow> 0 \<le> now"

interpretation task_history: bounded_log "push_log 64" 64
  by (rule bounded_log_push_log) simp

lemma history_bound: "length (task_history (appendHistory a c n k t)) \<le> 64"
  unfolding appendHistory_def using task_history.push_bound by simp

lemma nextStage_known: "validStageAction stage action \<Longrightarrow> nextStageOf action \<in> set taskStages"
  by (auto simp: validStageAction_def stageActions_def nextStageOf_def actionStages_def taskStages_def split: if_splits)

lemma taskValid_step:
  assumes "taskValid t" "0 \<le> now" "task_id u = task_id t" "task_side u = task_side t" "task_commander u = task_commander t"
    and "task_recon u = task_recon t" "task_attack u = task_attack t" "task_ground u = task_ground t"
    and "task_target u = task_target t" "task_correlation u = task_correlation t" "task_route u = task_route t"
    and "task_createdAt u = task_createdAt t" "task_updatedAt u = now" "task_pending u = task_pending t"
    and "task_stage u \<in> set taskStages" "knownHealth u"
  shows "taskValid (nextRevision (appendHistory a c n k u))"
  using assms history_bound [of a c n k u]
  unfolding taskValid_def checkpointValid_def knownHealth_def by simp

lemma allValid_setTask: "allValid s \<Longrightarrow> taskValid u \<Longrightarrow> allValid (setTask i u s)"
  by (auto simp: allValid_def setTask_def)

lemma allValid_found: "allValid s \<Longrightarrow> findTask i s = Some t \<Longrightarrow> taskValid t"
  unfolding allValid_def findTask_def by (auto dest: map_of_SomeD)

lemma taskValid_stage: "taskValid t \<Longrightarrow> task_stage t \<in> set taskStages"
  by (simp add: taskValid_def checkpointValid_def)

lemma known_stages: "''engaging'' \<in> set taskStages" "''completed'' \<in> set taskStages"
  by (simp_all add: taskStages_def stageActions_def)

lemma dropFinished_subset: "dropFinished tasks order = (tasks', order') \<Longrightarrow> set tasks' \<subseteq> set tasks"
proof (induction tasks order rule: dropFinished.induct)
  case (1 tasks order)
  show ?case
  proof (cases "100 < length tasks \<and> find (removable tasks) order \<noteq> None")
    case True
    then obtain i where i: "100 < length tasks" "find (removable tasks) order = Some i" by auto
    have "dropFinished (filter (\<lambda>(k, t). k \<noteq> i) tasks) (remove1 i order) = (tasks', order')"
      using 1(2) i by (simp add: dropFinished.simps [of tasks order])
    from 1(1) [OF i this] show ?thesis by auto
  next
    case False
    then show ?thesis using 1(2) by (subst (asm) dropFinished.simps) (auto split: if_splits option.splits)
  qed
qed

lemma createTask_valid:
  assumes "allValid s" "0 \<le> now"
  shows "allValid (snd (createTask n now s))"
proof (cases "res_ok (fst (createTask n now s))")
  case False
  then have "snd (createTask n now s) = s"
    by (auto simp: createTask_def failure_def succeeded_def Let_def split_beta split: if_splits)
  with assms(1) show ?thesis by simp
next
  case True
  let ?t = "freshTask n now"
  have fresh: "taskValid ?t"
    using True assms(2) by (auto simp: createTask_def failure_def taskValid_def checkpointValid_def freshTask_def
        taskStages_def stageActions_def split: if_splits)
  obtain tasks order where d: "dropFinished (ts_tasks s @ [(new_id n, ?t)]) (ts_order s @ [new_id n]) = (tasks, order)"
    by fastforce
  from dropFinished_subset [OF d] assms(1) fresh have v: "allValid \<lparr>ts_tasks = tasks, ts_order = order\<rparr>"
    by (auto simp: allValid_def)
  have "taskValid (nextRevision (appendHistory ''createTask'' (new_commander n) now (task_blockCode ?t) ?t))"
    by (rule taskValid_step [OF fresh assms(2)]) (use fresh in \<open>simp_all add: freshTask_def taskValid_stage knownHealth_def
        taskStages_def stageActions_def\<close>)
  from allValid_setTask [OF v this] d assms(1) show ?thesis by (simp add: createTask_def Let_def)
qed

lemma ts_call_valid:
  assumes "allValid s" "timely s c"
  shows "allValid (ts_call c s)"
proof -
  note step = allValid_setTask [OF assms(1)] taskValid_step allValid_found [OF assms(1)]
    taskValid_stage [OF allValid_found [OF assms(1)]]
  show ?thesis
  proof (cases c)
    case (Create n now)
    with assms createTask_valid show ?thesis by simp
  next
    case (Act command actor placeholders now)
    with assms show ?thesis
      by (auto simp: applyAction_def Let_def knownHealth_set known_stages nextStage_known split: option.split intro!: step(1,2)
          intro: step(3,4))
  next
    case (Block i code now)
    with assms show ?thesis
      by (auto simp: setBlocked_def Let_def knownHealth_set split: option.split intro!: step(1,2) intro: step(3,4))
  next
    case (Unblock i now)
    with assms show ?thesis
      by (auto simp: clearBlocked_def Let_def knownHealth_set split: option.split intro!: step(1,2) intro: step(3,4))
  next
    case (Complete i now)
    with assms show ?thesis
      by (auto simp: completeReturn_def Let_def knownHealth_set known_stages split: option.split intro!: step(1,2)
          intro: step(3,4))
  qed
qed

lemma parsed_saved:
  assumes "0 < sint (task_revision t)"
  shows "parsedTask (jtoObject (taskToJson t)) = t\<lparr>task_pending := []\<rparr>"
proof -
  have "sint (task_revision t) < 2 ^ 63" using sint_lt [of "task_revision t"] by simp
  then have "jtoInteger 0 (jint (sint (task_revision t))) = sint (task_revision t)"
    using assms by (intro jtoInteger_jint) simp_all
  moreover have "of_int (sint (task_revision t)) = task_revision t" by simp
  ultimately show ?thesis
    using assms by (simp add: parsedTask_def taskToJson_def json_simps)
qed

lemma task_restored:
  assumes "taskValid t" "0 < sint (task_revision t)"
  shows "taskFromJson (jtoObject (taskToJson t)) = Some t"
proof -
  have "task_revision t \<noteq> 0" using assms(2) by auto
  then have "checkpointValid t" using assms(1) by (simp add: taskValid_def checkpointValid_def)
  then have v: "checkpointValid (t\<lparr>task_pending := []\<rparr>)" by (simp add: checkpointValid_def)
  have "trim_log 64 (task_history t) = task_history t" "task_pending t = []"
    using assms(1) by (simp_all add: taskValid_def trim_log_eq)
  moreover have "jget (jtoObject (taskToJson t)) ''route'' = JArr (task_route t)"
      "jget (jtoObject (taskToJson t)) ''pendingMessageIds'' = jstrings (task_pending t)"
    by (simp_all add: taskToJson_def json_simps)
  ultimately show ?thesis
    using v by (simp add: taskFromJson_def parsed_saved [OF assms(2)] jstrings_def)
qed

lemma tasks_restored:
  assumes "\<forall>t \<in> set ts. taskValid t \<and> 0 < sint (task_revision t)" "distinct (map fst ps @ map task_id ts)"
  shows "restoreTasks (map taskToJson ts) ps = Some (ps @ map (\<lambda>t. (task_id t, t)) ts)"
  using assms
proof (induction ts arbitrary: ps)
  case (Cons t ts)
  have "isJObj (taskToJson t)" by (simp add: taskToJson_def)
  moreover have "map_of ps (task_id t) = None" using Cons.prems(2) by (auto simp: map_of_eq_None_iff)
  ultimately show ?case
    using Cons.IH [of "ps @ [(task_id t, t)]"] Cons.prems by (auto simp: task_restored)
qed simp

lemma allValid_run: "allValid s \<Longrightarrow> obeys timely ts_call calls s \<Longrightarrow> allValid (fold ts_call calls s)"
  by (induction calls arbitrary: s) (auto intro: ts_call_valid)

lemma timely_onlyOpen: "obeys timely ts_call calls s \<Longrightarrow> obeys onlyOpen ts_call calls s"
proof (induction calls arbitrary: s)
  case (Cons c calls)
  moreover from Cons.prems have "onlyOpen s c" by (cases c) auto
  ultimately show ?case by simp
qed simp

text \<open>Every state of the task set survives a restart: whatever tasks were created and moved, at
  times that are not negative, the checkpoint is accepted and gives back the same tasks under the same
  ids, in the order of their creation; the limit of 100 tasks of the checkpoint is never exceeded.\<close>

theorem checkpoint_roundtrip:
  assumes "obeys timely ts_call calls emptyTaskSet" "s = fold ts_call calls emptyTaskSet"
    and "\<forall>(k, t) \<in> set (ts_tasks s). 0 < sint (task_revision t)"
  shows "\<exists>s'. restoreCheckpoint (toCheckpoint s) = Some s' \<and> (\<forall>i. findTask i s' = findTask i s)
    \<and> ts_order s' = map task_id (tasksOf [] s)"
proof -
  have "ts_ok emptyTaskSet" "allValid emptyTaskSet"
    by (simp_all add: ts_ok_def entries_ok_def emptyTaskSet_def allValid_def)
  with allValid_run [OF _ assms(1)] task_set.run_ok [OF _ timely_onlyOpen [OF assms(1)]]
  have ok: "ts_ok s" and valid: "allValid s" by (simp_all add: assms(2))
  let ?ts = "tasksOf [] s"
  have ids: "map task_id (map snd (ts_tasks s)) = map fst (ts_tasks s)"
    using ok unfolding ts_ok_def entries_ok_def by auto
  have set: "set ?ts = snd ` set (ts_tasks s)" by (simp add: tasksOf_def)
  have "mset ?ts = mset (map snd (ts_tasks s))" by (simp add: tasksOf_def)
  then have m: "mset (map task_id ?ts) = mset (map fst (ts_tasks s))"
    unfolding ids [symmetric] mset_map by simp
  have dist: "distinct (map task_id ?ts)"
    using ok mset_eq_imp_distinct_iff [OF m] by (simp add: ts_ok_def entries_ok_def)
  have len: "length ?ts \<le> 100" using ok mset_eq_length [OF m] by (simp add: ts_ok_def)
  let ?entries = "map (\<lambda>t. (task_id t, t)) ?ts"
  have "\<forall>t \<in> set ?ts. taskValid t \<and> 0 < sint (task_revision t)"
    using valid assms(3) by (auto simp: set allValid_def)
  from tasks_restored [OF this, of "[]"] dist
  have "restoreTasks (map taskToJson ?ts) [] = Some ?entries" by simp
  then have r: "restoreCheckpoint (toCheckpoint s)
      = Some \<lparr>ts_tasks = ?entries, ts_order = map task_id (tasksOf [] \<lparr>ts_tasks = ?entries, ts_order = []\<rparr>)\<rparr>"
    using len by (simp add: restoreCheckpoint_def toCheckpoint_def json_simps)
  have "(task_id (snd x), snd x) = x" if "x \<in> set (ts_tasks s)" for x
    using ok that unfolding ts_ok_def entries_ok_def by (cases x) auto
  then have "(\<lambda>x. (task_id (snd x), snd x)) ` set (ts_tasks s) = (\<lambda>x. x) ` set (ts_tasks s)"
    by (rule image_cong [OF refl])
  then have "set ?entries = set (ts_tasks s)"
    by (simp add: set image_image)
  then have "map_of ?entries = map_of (ts_tasks s)"
    using dist ok by (subst map_of_inject_set) (auto simp: ts_ok_def entries_ok_def comp_def)
  moreover have "tasksOf [] \<lparr>ts_tasks = ?entries, ts_order = []\<rparr> = ?ts"
    by (simp add: tasksOf_def comp_def sort_key_id_if_sorted)
  ultimately show ?thesis using r by (simp add: findTask_def)
qed

lemma checkpoint_roundtrip_witness:
  "restoreCheckpoint (toCheckpoint (fold ts_call [] emptyTaskSet)) \<noteq> None"
  using checkpoint_roundtrip [of "[]", OF _ refl] by (auto simp: emptyTaskSet_def)

end
