(* ===== verification/IntelProtocol.thy ===== *)
theory IntelProtocol
  imports Json "HOL-Library.AList" "HOL-Library.List_Lexorder" "HOL-Library.Char_ord"
begin

text \<open>
  The intelligence values and their deltas (\<open>src/src/protocol/IntelProtocol.cpp\<close>): validation of the
  JSON of a contact, of a history entry and of a state, their codecs, and the delta between two states
  with its application. A validation yields a boolean, its texts are left out.

  Reading ISO time stamps is the parameter: the milliseconds since the epoch and the offset from UTC,
  for the format with milliseconds and the one without. A JSON object taken over from outside (known
  attributes, positions) is the list of its pairs in the order of its keys, so objects are equal when
  the lists are.
\<close>

record TimeLib =
  time_parseMs :: "string \<Rightarrow> (int \<times> int) option"
  time_parseSec :: "string \<Rightarrow> (int \<times> int) option"
  time_format :: "int \<Rightarrow> string"

definition parseTimestamp :: "TimeLib \<Rightarrow> string \<Rightarrow> (int \<times> int) option" where
  "parseTimestamp lib s = (case time_parseMs lib s of None \<Rightarrow> time_parseSec lib s | Some t \<Rightarrow> Some t)"

section \<open>Fields\<close>

definition hasOnlyFields :: "jobject \<Rightarrow> string set \<Rightarrow> bool" where
  "hasOnlyFields ob allowed \<longleftrightarrow> list_all (\<lambda>(k, v). k \<in> allowed) ob"

definition validString :: "json \<Rightarrow> nat \<Rightarrow> bool \<Rightarrow> bool" where
  "validString v maximum allowEmpty \<longleftrightarrow> isJStr v \<and> length (jtoString v) \<le> maximum
     \<and> (allowEmpty \<or> trimmed (jtoString v) \<noteq> [])"

text \<open>\<open>QChar::isPrint\<close> on Latin-1: no control characters and no soft hyphen.\<close>

definition is_print :: "char \<Rightarrow> bool" where
  "is_print c \<longleftrightarrow> (let n = of_char c :: nat in 32 \<le> n \<and> \<not> (127 \<le> n \<and> n < 160) \<and> n \<noteq> 173)"

definition validIdentifier :: "json \<Rightarrow> bool \<Rightarrow> bool" where
  "validIdentifier v allowEmpty \<longleftrightarrow> isJStr v
     \<and> (if allowEmpty \<and> jtoString v = [] then True
        else jtoString v \<noteq> [] \<and> length (jtoString v) \<le> 64
          \<and> list_all (\<lambda>c. \<not> is_space c \<and> of_char c \<noteq> (0 :: nat) \<and> is_print c) (jtoString v))"

definition validSafeInteger :: "json \<Rightarrow> int \<Rightarrow> bool" where
  "validSafeInteger v minimum \<longleftrightarrow> isJNum v \<and> of_int minimum \<le> jtoDouble 0 v
     \<and> jtoDouble 0 v \<le> 9007199254740991 \<and> of_int \<lfloor>jtoDouble 0 v\<rfloor> = jtoDouble 0 v"

definition validTimestamp :: "TimeLib \<Rightarrow> json \<Rightarrow> bool \<Rightarrow> bool" where
  "validTimestamp lib v allowEmpty \<longleftrightarrow> isJStr v
     \<and> (if allowEmpty \<and> jtoString v = [] then True
        else jtoString v \<noteq> [] \<and> length (jtoString v) \<le> 64
          \<and> (case parseTimestamp lib (jtoString v) of None \<Rightarrow> False | Some (ms, offset) \<Rightarrow> offset = 0))"

definition notNegative :: "json \<Rightarrow> bool" where
  "notNegative v \<longleftrightarrow> isJNum v \<and> 0 \<le> jtoDouble 0 v"

definition intelPositionValid :: "json \<Rightarrow> bool" where
  "intelPositionValid v \<longleftrightarrow> isJObj v
     \<and> hasOnlyFields (jtoObject v) {''x'', ''y'', ''alt'', ''uncertaintyRadius''}
     \<and> notNegative (jget (jtoObject v) ''x'') \<and> notNegative (jget (jtoObject v) ''y'')
     \<and> (jcontains (jtoObject v) ''alt'' \<longrightarrow> isJNum (jget (jtoObject v) ''alt''))
     \<and> (jcontains (jtoObject v) ''uncertaintyRadius'' \<longrightarrow> notNegative (jget (jtoObject v) ''uncertaintyRadius''))"

definition validAttribute :: "string \<times> json \<Rightarrow> bool" where
  "validAttribute = (\<lambda>(k, v). k \<noteq> [] \<and> length k \<le> 64 \<and> v \<noteq> JNull \<and> \<not> isJArr v \<and> \<not> isJObj v
     \<and> (isJStr v \<longrightarrow> length (jtoString v) \<le> 128))"

definition validKnownAttributes :: "json \<Rightarrow> bool" where
  "validKnownAttributes v \<longleftrightarrow> isJObj v \<and> length (jtoObject v) \<le> 32 \<and> list_all validAttribute (jtoObject v)"

definition validFreshness :: "json \<Rightarrow> bool \<Rightarrow> bool" where
  "validFreshness v allowEmpty \<longleftrightarrow> isJStr v
     \<and> ((allowEmpty \<and> jtoString v = []) \<or> jtoString v \<in> {''live'', ''stale'', ''archived''})"

definition validIntelType :: "json \<Rightarrow> bool \<Rightarrow> bool" where
  "validIntelType v allowEmpty \<longleftrightarrow> isJStr v
     \<and> ((allowEmpty \<and> jtoString v = []) \<or> jtoString v \<in> {''sensorContact'', ''manualReport''})"

definition validHistoryEventType :: "json \<Rightarrow> bool" where
  "validHistoryEventType v \<longleftrightarrow> isJStr v
     \<and> jtoString v \<in> {''discovered'', ''updated'', ''shared'', ''received'', ''freshnessChanged'', ''archived'', ''deleted''}"

definition validSource :: "TimeLib \<Rightarrow> json \<Rightarrow> bool" where
  "validSource lib v \<longleftrightarrow> isJObj v \<and> hasOnlyFields (jtoObject v) {''sourceSeatId'', ''sourceIntelId'', ''sharedAt''}
     \<and> validIdentifier (jget (jtoObject v) ''sourceSeatId'') False
     \<and> (jcontains (jtoObject v) ''sourceIntelId'' \<longrightarrow> validIdentifier (jget (jtoObject v) ''sourceIntelId'') False)
     \<and> validTimestamp lib (jget (jtoObject v) ''sharedAt'') False"

definition validPropagationSources :: "TimeLib \<Rightarrow> json \<Rightarrow> bool" where
  "validPropagationSources lib v \<longleftrightarrow> isJArr v \<and> length (jtoArray v) \<le> 32 \<and> list_all (validSource lib) (jtoArray v)"

fun distinctIds :: "json list \<Rightarrow> string set \<Rightarrow> bool" where
  "distinctIds [] ids = True"
| "distinctIds (v # vs) ids =
     (validIdentifier v False \<and> jtoString v \<notin> ids \<and> distinctIds vs (insert (jtoString v) ids))"

definition validSeatIdList :: "json \<Rightarrow> bool \<Rightarrow> bool" where
  "validSeatIdList v allowEmpty \<longleftrightarrow> isJArr v \<and> length (jtoArray v) \<le> 64 \<and> (allowEmpty \<or> jtoArray v \<noteq> [])
     \<and> distinctIds (jtoArray v) {}"

section \<open>Contacts\<close>

record IntelContact =
  ic_id :: string
  ic_type :: string
  ic_target :: string
  ic_attributes :: jobject
  ic_position :: jobject
  ic_sourceSeat :: string
  ic_sourceUnit :: string
  ic_firstDiscoveredAt :: string
  ic_lastObservedAt :: string
  ic_receivedAt :: string
  ic_confidence :: rat
  ic_freshness :: string
  ic_note :: string
  ic_propagation :: "json list"
  ic_actionable :: bool

definition contactToJson :: "IntelContact \<Rightarrow> jobject" where
  "contactToJson c =
     [(''intelId'', JStr (ic_id c)), (''type'', JStr (ic_type c)), (''knownAttributes'', JObj (ic_attributes c)),
      (''lastPosition'', JObj (ic_position c)), (''sourceSeatId'', JStr (ic_sourceSeat c)),
      (''firstDiscoveredAt'', JStr (ic_firstDiscoveredAt c)), (''lastObservedAt'', JStr (ic_lastObservedAt c)),
      (''receivedAt'', JStr (ic_receivedAt c)), (''confidence'', JNum (ic_confidence c)),
      (''freshness'', JStr (ic_freshness c)), (''note'', JStr (ic_note c)),
      (''propagationSources'', JArr (ic_propagation c)), (''actionable'', JBool (ic_actionable c))]
     @ (if ic_target c \<noteq> [] then [(''targetId'', JStr (ic_target c))] else [])
     @ (if ic_sourceUnit c \<noteq> [] then [(''sourceUnitId'', JStr (ic_sourceUnit c))] else [])"

definition contactFields :: "string set" where
  "contactFields = {''intelId'', ''type'', ''targetId'', ''knownAttributes'', ''lastPosition'', ''sourceSeatId'',
     ''sourceUnitId'', ''firstDiscoveredAt'', ''lastObservedAt'', ''receivedAt'', ''confidence'', ''freshness'',
     ''note'', ''propagationSources'', ''actionable''}"

definition inOrder :: "(int \<times> int) option \<Rightarrow> (int \<times> int) option \<Rightarrow> bool" where
  "inOrder a b \<longleftrightarrow> (case (a, b) of (Some (t, _), Some (u, _)) \<Rightarrow> t \<le> u | _ \<Rightarrow> True)"

definition validateIntelContact :: "TimeLib \<Rightarrow> jobject \<Rightarrow> bool" where
  "validateIntelContact lib ob \<longleftrightarrow>
     hasOnlyFields ob contactFields \<and> validIdentifier (jget ob ''intelId'') False
     \<and> validIntelType (jget ob ''type'') False \<and> validKnownAttributes (jget ob ''knownAttributes'')
     \<and> intelPositionValid (jget ob ''lastPosition'') \<and> validIdentifier (jget ob ''sourceSeatId'') False
     \<and> validTimestamp lib (jget ob ''firstDiscoveredAt'') False
     \<and> validTimestamp lib (jget ob ''lastObservedAt'') False \<and> validTimestamp lib (jget ob ''receivedAt'') False
     \<and> notNegative (jget ob ''confidence'') \<and> jtoDouble 0 (jget ob ''confidence'') \<le> 100
     \<and> validFreshness (jget ob ''freshness'') False \<and> validString (jget ob ''note'') 500 True
     \<and> validPropagationSources lib (jget ob ''propagationSources'') \<and> isJBool (jget ob ''actionable'')
     \<and> (if jtoString (jget ob ''type'') = ''sensorContact''
        then validIdentifier (jget ob ''targetId'') False \<and> validIdentifier (jget ob ''sourceUnitId'') False
        else \<not> jcontains ob ''targetId'' \<and> \<not> jcontains ob ''sourceUnitId'')
     \<and> inOrder (parseTimestamp lib (jtoString (jget ob ''firstDiscoveredAt'')))
         (parseTimestamp lib (jtoString (jget ob ''lastObservedAt'')))
     \<and> inOrder (parseTimestamp lib (jtoString (jget ob ''lastObservedAt'')))
         (parseTimestamp lib (jtoString (jget ob ''receivedAt'')))
     \<and> (jtoString (jget ob ''freshness'') \<noteq> ''live'' \<longrightarrow> \<not> jtoBool False (jget ob ''actionable''))"

definition readContact :: "jobject \<Rightarrow> IntelContact" where
  "readContact ob = \<lparr>ic_id = jtoString (jget ob ''intelId''), ic_type = jtoString (jget ob ''type''),
     ic_target = jtoString (jget ob ''targetId''), ic_attributes = jtoObject (jget ob ''knownAttributes''),
     ic_position = jtoObject (jget ob ''lastPosition''), ic_sourceSeat = jtoString (jget ob ''sourceSeatId''),
     ic_sourceUnit = jtoString (jget ob ''sourceUnitId''),
     ic_firstDiscoveredAt = jtoString (jget ob ''firstDiscoveredAt''),
     ic_lastObservedAt = jtoString (jget ob ''lastObservedAt''), ic_receivedAt = jtoString (jget ob ''receivedAt''),
     ic_confidence = jtoDouble 0 (jget ob ''confidence''), ic_freshness = jtoString (jget ob ''freshness''),
     ic_note = jtoString (jget ob ''note''), ic_propagation = jtoArray (jget ob ''propagationSources''),
     ic_actionable = jtoBool False (jget ob ''actionable'')\<rparr>"

definition contactFromJson :: "TimeLib \<Rightarrow> jobject \<Rightarrow> IntelContact option" where
  "contactFromJson lib ob = (if validateIntelContact lib ob then Some (readContact ob) else None)"

section \<open>History entries\<close>

record IntelHistoryEntry =
  ih_id :: string
  ih_intelId :: string
  ih_eventType :: string
  ih_occurredAt :: string
  ih_sourceSeat :: string
  ih_sourceUnit :: string
  ih_recipientSeat :: string
  ih_note :: string
  ih_freshness :: string
  ih_confidence :: rat
  ih_position :: jobject
  ih_attributes :: jobject
  ih_propagationSource :: string
  ih_target :: string

definition optional :: "bool \<Rightarrow> string \<Rightarrow> json \<Rightarrow> jobject" where
  "optional given k v = (if given then [(k, v)] else [])"

definition historyToJson :: "IntelHistoryEntry \<Rightarrow> jobject" where
  "historyToJson h =
     [(''historyId'', JStr (ih_id h)), (''intelId'', JStr (ih_intelId h)), (''eventType'', JStr (ih_eventType h)),
      (''occurredAt'', JStr (ih_occurredAt h)), (''sourceSeatId'', JStr (ih_sourceSeat h)),
      (''note'', JStr (ih_note h)), (''confidence'', JNum (ih_confidence h))]
     @ optional (ih_sourceUnit h \<noteq> []) ''sourceUnitId'' (JStr (ih_sourceUnit h))
     @ optional (ih_recipientSeat h \<noteq> []) ''recipientSeatId'' (JStr (ih_recipientSeat h))
     @ optional (ih_freshness h \<noteq> []) ''freshness'' (JStr (ih_freshness h))
     @ optional (ih_position h \<noteq> []) ''position'' (JObj (ih_position h))
     @ optional (ih_attributes h \<noteq> []) ''knownAttributes'' (JObj (ih_attributes h))
     @ optional (ih_propagationSource h \<noteq> []) ''propagationSource'' (JStr (ih_propagationSource h))
     @ optional (ih_target h \<noteq> []) ''targetId'' (JStr (ih_target h))"

definition historyFields :: "string set" where
  "historyFields = {''historyId'', ''intelId'', ''eventType'', ''occurredAt'', ''sourceSeatId'', ''sourceUnitId'',
     ''recipientSeatId'', ''note'', ''freshness'', ''confidence'', ''position'', ''knownAttributes'',
     ''propagationSource'', ''targetId''}"

definition validateIntelHistoryEntry :: "TimeLib \<Rightarrow> jobject \<Rightarrow> bool" where
  "validateIntelHistoryEntry lib ob \<longleftrightarrow>
     hasOnlyFields ob historyFields \<and> validIdentifier (jget ob ''historyId'') False
     \<and> validIdentifier (jget ob ''intelId'') False \<and> validHistoryEventType (jget ob ''eventType'')
     \<and> validTimestamp lib (jget ob ''occurredAt'') False \<and> validIdentifier (jget ob ''sourceSeatId'') False
     \<and> (jcontains ob ''sourceUnitId'' \<longrightarrow> validIdentifier (jget ob ''sourceUnitId'') False)
     \<and> (jcontains ob ''recipientSeatId'' \<longrightarrow> validIdentifier (jget ob ''recipientSeatId'') False)
     \<and> validString (jget ob ''note'') 500 True
     \<and> (jcontains ob ''freshness'' \<longrightarrow> validFreshness (jget ob ''freshness'') False)
     \<and> notNegative (jget ob ''confidence'') \<and> jtoDouble 0 (jget ob ''confidence'') \<le> 100
     \<and> (jcontains ob ''position'' \<longrightarrow> intelPositionValid (jget ob ''position''))
     \<and> (jcontains ob ''knownAttributes'' \<longrightarrow> validKnownAttributes (jget ob ''knownAttributes''))
     \<and> (jcontains ob ''propagationSource'' \<longrightarrow> validIdentifier (jget ob ''propagationSource'') False)
     \<and> (jcontains ob ''targetId'' \<longrightarrow> validIdentifier (jget ob ''targetId'') False)"

definition readHistory :: "jobject \<Rightarrow> IntelHistoryEntry" where
  "readHistory ob = \<lparr>ih_id = jtoString (jget ob ''historyId''), ih_intelId = jtoString (jget ob ''intelId''),
     ih_eventType = jtoString (jget ob ''eventType''), ih_occurredAt = jtoString (jget ob ''occurredAt''),
     ih_sourceSeat = jtoString (jget ob ''sourceSeatId''), ih_sourceUnit = jtoString (jget ob ''sourceUnitId''),
     ih_recipientSeat = jtoString (jget ob ''recipientSeatId''), ih_note = jtoString (jget ob ''note''),
     ih_freshness = jtoString (jget ob ''freshness''), ih_confidence = jtoDouble 0 (jget ob ''confidence''),
     ih_position = jtoObject (jget ob ''position''), ih_attributes = jtoObject (jget ob ''knownAttributes''),
     ih_propagationSource = jtoString (jget ob ''propagationSource''), ih_target = jtoString (jget ob ''targetId'')\<rparr>"

definition historyFromJson :: "TimeLib \<Rightarrow> jobject \<Rightarrow> IntelHistoryEntry option" where
  "historyFromJson lib ob = (if validateIntelHistoryEntry lib ob then Some (readHistory ob) else None)"

section \<open>States\<close>

record IntelState =
  is_revision :: int
  is_records :: "IntelContact list"
  is_shareTargets :: "string list"

definition intelStateToJson :: "IntelState \<Rightarrow> jobject" where
  "intelStateToJson s = [(''revision'', jint (is_revision s)),
     (''records'', JArr (map (\<lambda>c. JObj (contactToJson c)) (is_records s))),
     (''shareTargets'', jstrings (is_shareTargets s))]"

fun validRecords :: "TimeLib \<Rightarrow> json list \<Rightarrow> string set \<Rightarrow> bool" where
  "validRecords lib [] ids = True"
| "validRecords lib (v # vs) ids =
     (isJObj v \<and> validateIntelContact lib (jtoObject v) \<and> jtoString (jget (jtoObject v) ''intelId'') \<notin> ids
      \<and> validRecords lib vs (insert (jtoString (jget (jtoObject v) ''intelId'')) ids))"

definition validateIntelState :: "TimeLib \<Rightarrow> jobject \<Rightarrow> bool" where
  "validateIntelState lib ob \<longleftrightarrow>
     hasOnlyFields ob {''revision'', ''records'', ''shareTargets''} \<and> validSafeInteger (jget ob ''revision'') 0
     \<and> isJArr (jget ob ''records'') \<and> length (jtoArray (jget ob ''records'')) \<le> 4096
     \<and> validSeatIdList (jget ob ''shareTargets'') True \<and> validRecords lib (jtoArray (jget ob ''records'')) {}"

definition intelStateFromJson :: "TimeLib \<Rightarrow> jobject \<Rightarrow> IntelState option" where
  "intelStateFromJson lib ob =
     (if validateIntelState lib ob
      then Some \<lparr>is_revision = jtoInteger 0 (jget ob ''revision''),
             is_records = map (\<lambda>v. readContact (jtoObject v)) (jtoArray (jget ob ''records'')),
             is_shareTargets = map jtoString (jtoArray (jget ob ''shareTargets''))\<rparr>
      else None)"

section \<open>Requests\<close>

text \<open>\<open>QString::toLongLong(&ok)\<close> in base 10.\<close>

definition to_longlong :: "string \<Rightarrow> int option" where
  "to_longlong s =
     (let t = trimmed s;
          neg = (t \<noteq> [] \<and> hd t = CHR ''-'');
          u = (if neg then tl t else skip_plus t)
      in if u = [] then None
         else case digits_val 10 0 u of
                None \<Rightarrow> None
              | Some n \<Rightarrow>
                  (let i = (if neg then - int n else int n)
                   in if - (2 ^ 63) \<le> i \<and> i < 2 ^ 63 then Some i else None))"

record IntelShareRequest =
  sr_intelId :: string
  sr_recipients :: "string list"
  sr_note :: string

definition validateIntelShareRequest :: "jobject \<Rightarrow> bool" where
  "validateIntelShareRequest ob \<longleftrightarrow>
     hasOnlyFields ob {''intelId'', ''recipientSeatIds'', ''note''} \<and> validIdentifier (jget ob ''intelId'') False
     \<and> validSeatIdList (jget ob ''recipientSeatIds'') False
     \<and> (jcontains ob ''note'' \<longrightarrow> validString (jget ob ''note'') 500 True)"

definition shareRequestToJson :: "IntelShareRequest \<Rightarrow> jobject" where
  "shareRequestToJson r = [(''intelId'', JStr (sr_intelId r)), (''recipientSeatIds'', jstrings (sr_recipients r)),
     (''note'', JStr (sr_note r))]"

definition shareRequestFromJson :: "jobject \<Rightarrow> IntelShareRequest option" where
  "shareRequestFromJson ob =
     (if validateIntelShareRequest ob
      then Some \<lparr>sr_intelId = jtoString (jget ob ''intelId''),
             sr_recipients = map jtoString (jtoArray (jget ob ''recipientSeatIds'')),
             sr_note = jtoString (jget ob ''note'')\<rparr>
      else None)"

record IntelHistoryQuery =
  hq_cursor :: string
  hq_pageSize :: int
  hq_target :: string
  hq_type :: string
  hq_freshness :: string
  hq_sourceSeat :: string
  hq_from :: string
  hq_to :: string

definition validOptionalTimestamp :: "TimeLib \<Rightarrow> jobject \<Rightarrow> string \<Rightarrow> bool" where
  "validOptionalTimestamp lib ob field \<longleftrightarrow> \<not> jcontains ob field \<or> validTimestamp lib (jget ob field) True"

definition validCursor :: "jobject \<Rightarrow> bool" where
  "validCursor ob \<longleftrightarrow> (jcontains ob ''cursor'' \<and> jtoString (jget ob ''cursor'') \<noteq> []
     \<longrightarrow> (case to_longlong (jtoString (jget ob ''cursor'')) of
           None \<Rightarrow> False | Some cursor \<Rightarrow> 0 \<le> cursor \<and> cursor \<le> 9007199254740991))"

definition validateIntelHistoryQuery :: "TimeLib \<Rightarrow> jobject \<Rightarrow> bool" where
  "validateIntelHistoryQuery lib ob \<longleftrightarrow>
     hasOnlyFields ob {''cursor'', ''pageSize'', ''target'', ''type'', ''freshness'', ''sourceSeatId'', ''from'', ''to''}
     \<and> (jcontains ob ''cursor'' \<longrightarrow> validString (jget ob ''cursor'') 256 True)
     \<and> validSafeInteger (jget ob ''pageSize'') 1 \<and> jtoInteger 0 (jget ob ''pageSize'') \<le> 200
     \<and> (jcontains ob ''target'' \<longrightarrow> validString (jget ob ''target'') 128 True)
     \<and> (jcontains ob ''type'' \<longrightarrow> validIntelType (jget ob ''type'') True)
     \<and> (jcontains ob ''freshness'' \<longrightarrow> validFreshness (jget ob ''freshness'') True)
     \<and> (jcontains ob ''sourceSeatId'' \<longrightarrow> validIdentifier (jget ob ''sourceSeatId'') True)
     \<and> validOptionalTimestamp lib ob ''from'' \<and> validOptionalTimestamp lib ob ''to''
     \<and> inOrder (parseTimestamp lib (jtoString (jget ob ''from''))) (parseTimestamp lib (jtoString (jget ob ''to'')))
     \<and> validCursor ob"

definition queryToJson :: "IntelHistoryQuery \<Rightarrow> jobject" where
  "queryToJson q = [(''pageSize'', jint (hq_pageSize q))]
     @ optional (hq_cursor q \<noteq> []) ''cursor'' (JStr (hq_cursor q))
     @ optional (hq_target q \<noteq> []) ''target'' (JStr (hq_target q))
     @ optional (hq_type q \<noteq> []) ''type'' (JStr (hq_type q))
     @ optional (hq_freshness q \<noteq> []) ''freshness'' (JStr (hq_freshness q))
     @ optional (hq_sourceSeat q \<noteq> []) ''sourceSeatId'' (JStr (hq_sourceSeat q))
     @ optional (hq_from q \<noteq> []) ''from'' (JStr (hq_from q))
     @ optional (hq_to q \<noteq> []) ''to'' (JStr (hq_to q))"

definition queryFromJson :: "TimeLib \<Rightarrow> jobject \<Rightarrow> IntelHistoryQuery option" where
  "queryFromJson lib ob =
     (if validateIntelHistoryQuery lib ob
      then Some \<lparr>hq_cursor = jtoString (jget ob ''cursor''), hq_pageSize = jtoInt 0 (jget ob ''pageSize''),
             hq_target = jtoString (jget ob ''target''), hq_type = jtoString (jget ob ''type''),
             hq_freshness = jtoString (jget ob ''freshness''), hq_sourceSeat = jtoString (jget ob ''sourceSeatId''),
             hq_from = jtoString (jget ob ''from''), hq_to = jtoString (jget ob ''to'')\<rparr>
      else None)"

record IntelHistoryPage =
  hp_entries :: "IntelHistoryEntry list"
  hp_nextCursor :: string
  hp_hasMore :: bool
  hp_revision :: int

fun validEntries :: "TimeLib \<Rightarrow> json list \<Rightarrow> string set \<Rightarrow> bool" where
  "validEntries lib [] ids = True"
| "validEntries lib (v # vs) ids =
     (isJObj v \<and> validateIntelHistoryEntry lib (jtoObject v) \<and> jtoString (jget (jtoObject v) ''historyId'') \<notin> ids
      \<and> validEntries lib vs (insert (jtoString (jget (jtoObject v) ''historyId'')) ids))"

definition validateIntelHistoryPage :: "TimeLib \<Rightarrow> jobject \<Rightarrow> bool" where
  "validateIntelHistoryPage lib ob \<longleftrightarrow>
     hasOnlyFields ob {''entries'', ''nextCursor'', ''hasMore'', ''revision''}
     \<and> isJArr (jget ob ''entries'') \<and> length (jtoArray (jget ob ''entries'')) \<le> 200
     \<and> validString (jget ob ''nextCursor'') 256 True \<and> isJBool (jget ob ''hasMore'')
     \<and> validSafeInteger (jget ob ''revision'') 0
     \<and> (jtoBool False (jget ob ''hasMore'') \<longrightarrow> jtoString (jget ob ''nextCursor'') \<noteq> [])
     \<and> validEntries lib (jtoArray (jget ob ''entries'')) {}"

definition pageToJson :: "IntelHistoryPage \<Rightarrow> jobject" where
  "pageToJson p = [(''entries'', JArr (map (\<lambda>h. JObj (historyToJson h)) (hp_entries p))),
     (''nextCursor'', JStr (hp_nextCursor p)), (''hasMore'', JBool (hp_hasMore p)),
     (''revision'', jint (hp_revision p))]"

definition pageFromJson :: "TimeLib \<Rightarrow> jobject \<Rightarrow> IntelHistoryPage option" where
  "pageFromJson lib ob =
     (if validateIntelHistoryPage lib ob
      then Some \<lparr>hp_entries = map (\<lambda>v. readHistory (jtoObject v)) (jtoArray (jget ob ''entries'')),
             hp_nextCursor = jtoString (jget ob ''nextCursor''), hp_hasMore = jtoBool False (jget ob ''hasMore''),
             hp_revision = jtoInteger 0 (jget ob ''revision'')\<rparr>
      else None)"

section \<open>Deltas\<close>

definition recordsOf :: "IntelState \<Rightarrow> (string \<times> IntelContact) list" where
  "recordsOf s = fold (\<lambda>c. AList.update (ic_id c) c) (is_records s) []"

definition changedFrom :: "(string \<times> IntelContact) list \<Rightarrow> IntelContact \<Rightarrow> bool" where
  "changedFrom previous c \<longleftrightarrow> (case map_of previous (ic_id c) of
     None \<Rightarrow> True | Some p \<Rightarrow> contactToJson p \<noteq> contactToJson c)"

definition archivedFrom :: "(string \<times> IntelContact) list \<Rightarrow> IntelContact \<Rightarrow> bool" where
  "archivedFrom previous c \<longleftrightarrow> ic_freshness c = ''archived''
     \<and> (case map_of previous (ic_id c) of None \<Rightarrow> False | Some p \<Rightarrow> ic_freshness p \<noteq> ''archived'')"

definition sortedRecords :: "(string \<times> IntelContact) list \<Rightarrow> IntelContact list" where
  "sortedRecords records = map (\<lambda>i. the (map_of records i)) (sort (map fst records))"

definition makeIntelDelta :: "TimeLib \<Rightarrow> IntelState \<Rightarrow> IntelState \<Rightarrow> jobject" where
  "makeIntelDelta lib before after =
     (if \<not> validateIntelState lib (intelStateToJson before) \<or> \<not> validateIntelState lib (intelStateToJson after)
         \<or> is_revision after < is_revision before
      then []
      else
        (let previous = recordsOf before; current = recordsOf after;
             changed = filter (changedFrom previous) (sortedRecords current);
             upserts = map (\<lambda>c. JObj (contactToJson c)) changed;
             archived = map (\<lambda>c. JStr (ic_id c)) (filter (archivedFrom previous) changed);
             deleted = map JStr (filter (\<lambda>i. map_of current i = None) (sort (map fst previous)))
         in if is_revision after = is_revision before \<and> (upserts \<noteq> [] \<or> deleted \<noteq> []) then []
            else if is_revision after = is_revision before \<and> is_shareTargets before = is_shareTargets after then []
            else [(''baseRevision'', jint (is_revision before)), (''revision'', jint (is_revision after)),
                  (''upserts'', JArr upserts), (''archivedIntelIds'', JArr archived),
                  (''deletedIntelIds'', JArr deleted), (''shareTargets'', jstrings (is_shareTargets after))]))"

definition validIdArray :: "json \<Rightarrow> bool" where
  "validIdArray v \<longleftrightarrow> isJArr v \<and> length (jtoArray v) \<le> 4096 \<and> distinctIds (jtoArray v) {}"

text \<open>The loops of \<open>applyIntelDelta\<close> over the upserts, the archived and the deleted ids.\<close>

fun applyUpserts :: "TimeLib \<Rightarrow> json list \<Rightarrow> string set \<Rightarrow> (string \<times> IntelContact) list
    \<Rightarrow> (string set \<times> (string \<times> IntelContact) list) option" where
  "applyUpserts lib [] ids records = Some (ids, records)"
| "applyUpserts lib (v # vs) ids records =
     (if \<not> isJObj v then None
      else case contactFromJson lib (jtoObject v) of
             None \<Rightarrow> None
           | Some c \<Rightarrow> if ic_id c \<in> ids then None
                       else applyUpserts lib vs (insert (ic_id c) ids) (AList.update (ic_id c) c records))"

definition archivedPresent :: "string set \<Rightarrow> (string \<times> IntelContact) list \<Rightarrow> json \<Rightarrow> bool" where
  "archivedPresent ids records v \<longleftrightarrow> (case map_of records (jtoString v) of
     None \<Rightarrow> False | Some c \<Rightarrow> jtoString v \<in> ids \<and> ic_freshness c = ''archived'')"

fun applyDeletes :: "json list \<Rightarrow> string set \<Rightarrow> (string \<times> IntelContact) list
    \<Rightarrow> (string \<times> IntelContact) list option" where
  "applyDeletes [] ids records = Some records"
| "applyDeletes (v # vs) ids records =
     (if jtoString v \<in> ids \<or> map_of records (jtoString v) = None then None
      else applyDeletes vs ids (AList.delete (jtoString v) records))"

definition deltaFields :: "string set" where
  "deltaFields = {''baseRevision'', ''revision'', ''upserts'', ''archivedIntelIds'', ''deletedIntelIds'', ''shareTargets''}"

definition deltaFits :: "IntelState \<Rightarrow> jobject \<Rightarrow> bool" where
  "deltaFits s delta \<longleftrightarrow>
     hasOnlyFields delta deltaFields \<and> validSafeInteger (jget delta ''baseRevision'') 0
     \<and> validSafeInteger (jget delta ''revision'') 0
     \<and> jtoInteger 0 (jget delta ''baseRevision'') = is_revision s
     \<and> is_revision s \<le> jtoInteger 0 (jget delta ''revision'')
     \<and> isJArr (jget delta ''upserts'') \<and> length (jtoArray (jget delta ''upserts'')) \<le> 4096
     \<and> validSeatIdList (jget delta ''shareTargets'') True
     \<and> validIdArray (jget delta ''archivedIntelIds'') \<and> validIdArray (jget delta ''deletedIntelIds'')
     \<and> (jtoInteger 0 (jget delta ''revision'') = is_revision s \<longrightarrow>
          jtoArray (jget delta ''upserts'') = [] \<and> jtoArray (jget delta ''archivedIntelIds'') = []
          \<and> jtoArray (jget delta ''deletedIntelIds'') = [])"

definition applyIntelDelta :: "TimeLib \<Rightarrow> IntelState \<Rightarrow> jobject \<Rightarrow> IntelState option" where
  "applyIntelDelta lib s delta =
     (if \<not> deltaFits s delta then None
      else case applyUpserts lib (jtoArray (jget delta ''upserts'')) {} (recordsOf s) of
             None \<Rightarrow> None
           | Some (ids, records) \<Rightarrow>
               if \<not> list_all (archivedPresent ids records) (jtoArray (jget delta ''archivedIntelIds'')) then None
               else case applyDeletes (jtoArray (jget delta ''deletedIntelIds'')) ids records of
                      None \<Rightarrow> None
                    | Some left \<Rightarrow>
                        if 4096 < length left then None
                        else (let candidate = \<lparr>is_revision = jtoInteger 0 (jget delta ''revision''),
                                    is_records = sortedRecords left,
                                    is_shareTargets = map jtoString (jtoArray (jget delta ''shareTargets''))\<rparr>
                              in if validateIntelState lib (intelStateToJson candidate) then Some candidate else None))"

end
