(* ===== verification/IntelLedger.thy ===== *)
theory IntelLedger
  imports IntelProtocol
begin

text \<open>
  The intelligence ledger of the server (\<open>src/server/game/IntelLedger.cpp\<close>, \<open>IntelLedger.h\<close>): per seat
  the contacts with a revision, at most 256 history entries and two counters. An instant is its number
  of milliseconds since the epoch; reading and writing ISO time stamps is the parameter \<open>TimeLib\<close>. The
  table of seats is a list of pairs with distinct keys. Distances are compared by their squares, and the
  counters (64 bits in the code) do not wrap. Seat ids have no place markers (\<open>%1\<close>).
\<close>

record IntelConfig =
  cfg_stale :: rat
  cfg_archive :: rat

definition defaultIntelConfig :: IntelConfig where
  "defaultIntelConfig = \<lparr>cfg_stale = 10, cfg_archive = 120\<rparr>"

record LedgerResult =
  lr_ok :: bool
  lr_changed :: bool
  lr_code :: string
  lr_intelId :: string
  lr_affectedSeats :: "string list"

record SeatLedger =
  sl_state :: IntelState
  sl_history :: "IntelHistoryEntry list"
  sl_nextIntel :: nat
  sl_nextHistory :: nat

definition newSeatLedger :: SeatLedger where
  "newSeatLedger = \<lparr>sl_state = \<lparr>is_revision = 0, is_records = [], is_shareTargets = []\<rparr>, sl_history = [],
     sl_nextIntel = 1, sl_nextHistory = 1\<rparr>"

record IntelLedger =
  lg_seats :: "(string \<times> SeatLedger) list"
  lg_config :: IntelConfig

definition emptyIntelLedger :: IntelLedger where
  "emptyIntelLedger = \<lparr>lg_seats = [], lg_config = defaultIntelConfig\<rparr>"

section \<open>Helpers\<close>

definition findContact :: "IntelState \<Rightarrow> string \<Rightarrow> IntelContact option" where
  "findContact s i = find (\<lambda>c. ic_id c = i) (is_records s)"

definition sensorOf :: "string \<Rightarrow> IntelContact \<Rightarrow> bool" where
  "sensorOf target c \<longleftrightarrow> ic_type c = ''sensorContact'' \<and> ic_target c = target"

definition findSensorContactByTarget :: "IntelState \<Rightarrow> string \<Rightarrow> IntelContact option" where
  "findSensorContactByTarget s target = (if target = [] then None else find (sensorOf target) (is_records s))"

text \<open>A write through the pointer that a search has returned.\<close>

fun updateFirst :: "('a \<Rightarrow> bool) \<Rightarrow> ('a \<Rightarrow> 'a) \<Rightarrow> 'a list \<Rightarrow> 'a list" where
  "updateFirst P f [] = []"
| "updateFirst P f (x # xs) = (if P x then f x # xs else x # updateFirst P f xs)"

definition freshnessForAge :: "rat \<Rightarrow> IntelConfig \<Rightarrow> string" where
  "freshnessForAge age cfg =
     (if cfg_archive cfg \<le> age then ''archived'' else if cfg_stale cfg \<le> age then ''stale'' else ''live'')"

definition historySequence :: "string \<Rightarrow> int" where
  "historySequence h =
     (if \<not> starts_with h ''ih_'' then -1
      else case to_longlong (drop 3 h) of None \<Rightarrow> -1 | Some n \<Rightarrow> if 0 < n then n else -1)"

definition positionObject :: "jobject \<Rightarrow> jobject" where
  "positionObject p = (if jcontains p ''alt'' then [(''alt'', jget p ''alt'')] else [])
     @ [(''x'', jget p ''x''), (''y'', jget p ''y'')]"

definition ledgerPosition :: "jobject \<Rightarrow> bool" where
  "ledgerPosition p \<longleftrightarrow> notNegative (jget p ''x'') \<and> notNegative (jget p ''y'')"

text \<open>Whether \<open>positionDistance\<close> is at least \<open>ImmediateMovementDistanceM\<close>, 1000 m; it is infinite when
  a position is not valid.\<close>

definition movedFar :: "jobject \<Rightarrow> jobject \<Rightarrow> bool" where
  "movedFar p q \<longleftrightarrow> \<not> ledgerPosition p \<or> \<not> ledgerPosition q
     \<or> 1000 * 1000 \<le> (jtoDouble 0 (jget p ''x'') - jtoDouble 0 (jget q ''x'')) ^ 2
         + (jtoDouble 0 (jget p ''y'') - jtoDouble 0 (jget q ''y'')) ^ 2"

definition latestHistoryEntry :: "SeatLedger \<Rightarrow> string \<Rightarrow> IntelHistoryEntry option" where
  "latestHistoryEntry l i = find (\<lambda>h. ih_intelId h = i) (rev (sl_history l))"

text \<open>Whether at least \<open>ms\<close> milliseconds have passed since the time stamp; an unreadable one is
  infinitely old.\<close>

definition agedBy :: "TimeLib \<Rightarrow> int \<Rightarrow> string \<Rightarrow> int \<Rightarrow> bool" where
  "agedBy lib ms stamp now \<longleftrightarrow> (case parseTimestamp lib stamp of None \<Rightarrow> True | Some (t, _) \<Rightarrow> ms \<le> now - t)"

section \<open>Seats\<close>

definition clearLedger :: "IntelLedger \<Rightarrow> IntelLedger" where
  "clearLedger g = g\<lparr>lg_seats := []\<rparr>"

definition setConfig :: "IntelConfig \<Rightarrow> IntelLedger \<Rightarrow> IntelLedger" where
  "setConfig cfg g = (if 0 < cfg_stale cfg \<and> cfg_stale cfg < cfg_archive cfg then g\<lparr>lg_config := cfg\<rparr> else g)"

definition ensureSeat :: "string \<Rightarrow> IntelLedger \<Rightarrow> IntelLedger" where
  "ensureSeat seat g = (if seat \<noteq> [] \<and> map_of (lg_seats g) seat = None
     then g\<lparr>lg_seats := AList.update seat newSeatLedger (lg_seats g)\<rparr> else g)"

definition removeSeat :: "string \<Rightarrow> IntelLedger \<Rightarrow> IntelLedger" where
  "removeSeat seat g = g\<lparr>lg_seats := AList.delete seat (lg_seats g)\<rparr>"

definition seatLedger :: "IntelLedger \<Rightarrow> string \<Rightarrow> SeatLedger" where
  "seatLedger g seat = (case map_of (lg_seats g) seat of None \<Rightarrow> newSeatLedger | Some l \<Rightarrow> l)"

definition setSeat :: "string \<Rightarrow> SeatLedger \<Rightarrow> IntelLedger \<Rightarrow> IntelLedger" where
  "setSeat seat l g = g\<lparr>lg_seats := AList.update seat l (lg_seats g)\<rparr>"

definition stateOf :: "IntelLedger \<Rightarrow> string \<Rightarrow> IntelState" where
  "stateOf g seat = sl_state (seatLedger g seat)"

definition projectedState :: "IntelLedger \<Rightarrow> string \<Rightarrow> string list \<Rightarrow> IntelState" where
  "projectedState g seat targets = (stateOf g seat)\<lparr>is_shareTargets := targets\<rparr>"

definition historyOf :: "IntelLedger \<Rightarrow> string \<Rightarrow> jobject list" where
  "historyOf g seat = map historyToJson (sl_history (seatLedger g seat))"

definition bump :: "SeatLedger \<Rightarrow> SeatLedger" where
  "bump l = l\<lparr>sl_state := (sl_state l)\<lparr>is_revision := is_revision (sl_state l) + 1\<rparr>\<rparr>"

definition lastEntries :: "IntelHistoryEntry list \<Rightarrow> IntelHistoryEntry list" where
  "lastEntries hs = drop (length hs - 256) hs"

definition recordEntry :: "IntelHistoryEntry \<Rightarrow> SeatLedger \<Rightarrow> SeatLedger" where
  "recordEntry h l =
     (if ih_id h = []
      then l\<lparr>sl_history := lastEntries (sl_history l @ [h\<lparr>ih_id := ''ih_'' @ number (sl_nextHistory l)\<rparr>]),
             sl_nextHistory := sl_nextHistory l + 1\<rparr>
      else l\<lparr>sl_history := lastEntries (sl_history l @ [h])\<rparr>)"

definition withRecords :: "(IntelContact list \<Rightarrow> IntelContact list) \<Rightarrow> SeatLedger \<Rightarrow> SeatLedger" where
  "withRecords f l = l\<lparr>sl_state := (sl_state l)\<lparr>is_records := f (is_records (sl_state l))\<rparr>\<rparr>"

definition ledgerFailure :: "string \<Rightarrow> LedgerResult" where
  "ledgerFailure code = \<lparr>lr_ok = False, lr_changed = False, lr_code = code, lr_intelId = [], lr_affectedSeats = []\<rparr>"

section \<open>Observations\<close>

definition sensorId :: "string \<Rightarrow> string \<Rightarrow> string" where
  "sensorId seat target = ''sensor_'' @ seat @ ''_'' @ target"

definition discoveredContact :: "string \<Rightarrow> string \<Rightarrow> string \<Rightarrow> IntelContact" where
  "discoveredContact i target now = \<lparr>ic_id = i, ic_type = ''sensorContact'', ic_target = target, ic_attributes = [],
     ic_position = [], ic_sourceSeat = [], ic_sourceUnit = [], ic_firstDiscoveredAt = now, ic_lastObservedAt = [],
     ic_receivedAt = now, ic_confidence = 100, ic_freshness = [], ic_note = [], ic_propagation = [],
     ic_actionable = False\<rparr>"

definition refreshContact :: "jobject \<Rightarrow> jobject \<Rightarrow> string \<Rightarrow> string \<Rightarrow> string \<Rightarrow> IntelContact \<Rightarrow> IntelContact" where
  "refreshContact known pos seat unit now c = c\<lparr>ic_attributes := known, ic_position := pos, ic_sourceSeat := seat,
     ic_sourceUnit := unit, ic_lastObservedAt := now, ic_receivedAt := now, ic_freshness := ''live'',
     ic_actionable := True, ic_confidence := 100\<rparr>"

definition sensorEntry :: "string \<Rightarrow> string \<Rightarrow> string \<Rightarrow> string \<Rightarrow> string \<Rightarrow> jobject \<Rightarrow> jobject \<Rightarrow> string
    \<Rightarrow> IntelHistoryEntry" where
  "sensorEntry event i now seat unit pos known target = \<lparr>ih_id = [], ih_intelId = i, ih_eventType = event,
     ih_occurredAt = now, ih_sourceSeat = seat, ih_sourceUnit = unit, ih_recipientSeat = [], ih_note = [],
     ih_freshness = ''live'', ih_confidence = 100, ih_position = pos, ih_attributes = known,
     ih_propagationSource = [], ih_target = target\<rparr>"

definition metadataChange :: "IntelContact \<Rightarrow> jobject \<Rightarrow> string \<Rightarrow> bool" where
  "metadataChange c known unit \<longleftrightarrow> ic_attributes c \<noteq> known \<or> ic_sourceUnit c \<noteq> unit \<or> ic_freshness c \<noteq> ''live''
     \<or> \<not> ic_actionable c \<or> 1 / 1000 < \<bar>ic_confidence c - 100\<bar>"

definition observationDue :: "TimeLib \<Rightarrow> IntelContact \<Rightarrow> jobject \<Rightarrow> jobject \<Rightarrow> string \<Rightarrow> int \<Rightarrow> bool" where
  "observationDue lib c known pos unit tm \<longleftrightarrow> metadataChange c known unit
     \<or> agedBy lib 2000 (ic_lastObservedAt c) tm \<or> movedFar (ic_position c) pos"

definition historyDue :: "TimeLib \<Rightarrow> SeatLedger \<Rightarrow> IntelContact \<Rightarrow> jobject \<Rightarrow> jobject \<Rightarrow> string \<Rightarrow> int \<Rightarrow> bool" where
  "historyDue lib l c known pos unit tm \<longleftrightarrow> metadataChange c known unit
     \<or> ic_position c \<noteq> pos
       \<and> (case latestHistoryEntry l (ic_id c) of
            None \<Rightarrow> True
          | Some h \<Rightarrow> agedBy lib 5000 (ih_occurredAt h) tm \<or> movedFar (ih_position h) pos)"

definition observeContact :: "TimeLib \<Rightarrow> string \<Rightarrow> string \<Rightarrow> jobject \<Rightarrow> jobject \<Rightarrow> string \<Rightarrow> int \<Rightarrow> SeatLedger
    \<Rightarrow> SeatLedger \<times> string \<times> bool" where
  "observeContact lib seat target known pos unit tm l =
     (let i = sensorId seat target; now = time_format lib tm;
          refresh = refreshContact known pos seat unit now
      in case findContact (sl_state l) i of
           None \<Rightarrow>
             (bump (recordEntry (sensorEntry ''discovered'' i now seat unit pos known target)
                (withRecords (\<lambda>cs. cs @ [refresh (discoveredContact i target now)]) l)), ''CREATED'', True)
         | Some c \<Rightarrow>
             (let due = observationDue lib c known pos unit tm;
                  logged = historyDue lib l c known pos unit tm;
                  l1 = (if logged then recordEntry (sensorEntry ''updated'' i now seat unit pos known target) l else l);
                  l2 = (if due then bump (withRecords (updateFirst (\<lambda>c. ic_id c = i) refresh) l1) else l1)
              in (l2, if logged \<or> due then ''UPDATED'' else ''UNCHANGED'', due)))"

definition observeSensor :: "TimeLib \<Rightarrow> string \<Rightarrow> string \<Rightarrow> jobject \<Rightarrow> jobject \<Rightarrow> string \<Rightarrow> int \<Rightarrow> IntelLedger
    \<Rightarrow> IntelLedger \<times> LedgerResult" where
  "observeSensor lib seat target known position unit tm g =
     (if seat = [] \<or> target = [] \<or> unit = [] then (g, ledgerFailure ''INVALID_INTEL'')
      else if \<not> ledgerPosition position then (g, ledgerFailure ''MAP_BOUNDS'')
      else
        (let g1 = ensureSeat seat g in
         case observeContact lib seat target known (positionObject position) unit tm (seatLedger g1 seat) of
           (l, code, changed) \<Rightarrow>
             (setSeat seat l g1, \<lparr>lr_ok = True, lr_changed = changed, lr_code = code,
                lr_intelId = sensorId seat target, lr_affectedSeats = [seat]\<rparr>)))"

section \<open>Manual reports\<close>

definition manualId :: "string \<Rightarrow> nat \<Rightarrow> string" where
  "manualId seat n = ''manual_'' @ seat @ ''_'' @ number n"

definition reportedContact :: "string \<Rightarrow> string \<Rightarrow> string \<Rightarrow> string \<Rightarrow> jobject \<Rightarrow> string \<Rightarrow> string \<Rightarrow> IntelContact" where
  "reportedContact i seat category title pos note now = \<lparr>ic_id = i, ic_type = ''manualReport'', ic_target = [],
     ic_attributes = [(''category'', JStr category), (''title'', JStr title)], ic_position = pos,
     ic_sourceSeat = seat, ic_sourceUnit = [], ic_firstDiscoveredAt = now, ic_lastObservedAt = now,
     ic_receivedAt = now, ic_confidence = 50, ic_freshness = ''live'', ic_note = note, ic_propagation = [],
     ic_actionable = False\<rparr>"

definition reportEntry :: "IntelContact \<Rightarrow> IntelHistoryEntry" where
  "reportEntry c = \<lparr>ih_id = [], ih_intelId = ic_id c, ih_eventType = ''discovered'', ih_occurredAt = ic_receivedAt c,
     ih_sourceSeat = ic_sourceSeat c, ih_sourceUnit = [], ih_recipientSeat = [], ih_note = ic_note c,
     ih_freshness = ''live'', ih_confidence = 50, ih_position = ic_position c, ih_attributes = ic_attributes c,
     ih_propagationSource = [], ih_target = []\<rparr>"

definition createManualReport :: "TimeLib \<Rightarrow> string \<Rightarrow> string \<Rightarrow> string \<Rightarrow> jobject \<Rightarrow> string \<Rightarrow> int \<Rightarrow> IntelLedger
    \<Rightarrow> IntelLedger \<times> LedgerResult" where
  "createManualReport lib seat category title position note tm g =
     (if seat = [] \<or> category = [] \<or> 64 < length category \<or> 64 < length title \<or> 500 < length note
         \<or> \<not> ledgerPosition position
      then (g, ledgerFailure ''INVALID_INTEL'')
      else
        (let g1 = ensureSeat seat g; l = seatLedger g1 seat in
         if 4096 \<le> length (is_records (sl_state l)) then (g1, ledgerFailure ''INTEL_CAPACITY'')
         else
           (let i = manualId seat (sl_nextIntel l);
                c = reportedContact i seat category title (positionObject position) note (time_format lib tm);
                l1 = withRecords (\<lambda>cs. cs @ [c]) (l\<lparr>sl_nextIntel := sl_nextIntel l + 1\<rparr>)
            in (setSeat seat (bump (recordEntry (reportEntry c) l1)) g1,
                \<lparr>lr_ok = True, lr_changed = True, lr_code = ''CREATED'', lr_intelId = i, lr_affectedSeats = [seat]\<rparr>))))"

section \<open>Sharing\<close>

definition sharedEntry :: "string \<Rightarrow> string \<Rightarrow> string \<Rightarrow> string \<Rightarrow> string \<Rightarrow> IntelContact \<Rightarrow> IntelHistoryEntry" where
  "sharedEntry i now recipient note sender c = \<lparr>ih_id = [], ih_intelId = i, ih_eventType = ''shared'',
     ih_occurredAt = now, ih_sourceSeat = ic_sourceSeat c, ih_sourceUnit = ic_sourceUnit c,
     ih_recipientSeat = recipient, ih_note = note, ih_freshness = ic_freshness c, ih_confidence = ic_confidence c,
     ih_position = ic_position c, ih_attributes = ic_attributes c, ih_propagationSource = sender,
     ih_target = ic_target c\<rparr>"

definition receivedEntry :: "string \<Rightarrow> string \<Rightarrow> string \<Rightarrow> string \<Rightarrow> IntelContact \<Rightarrow> IntelContact \<Rightarrow> IntelHistoryEntry" where
  "receivedEntry now recipient note sender source c = \<lparr>ih_id = [], ih_intelId = ic_id c, ih_eventType = ''received'',
     ih_occurredAt = now, ih_sourceSeat = ic_sourceSeat source, ih_sourceUnit = ic_sourceUnit source,
     ih_recipientSeat = recipient, ih_note = note, ih_freshness = ic_freshness c, ih_confidence = ic_confidence c,
     ih_position = ic_position c, ih_attributes = ic_attributes c, ih_propagationSource = sender,
     ih_target = ic_target source\<rparr>"

text \<open>The merge of a shared contact into the one the recipient has.\<close>

definition mergeContact :: "IntelContact \<Rightarrow> string \<Rightarrow> IntelContact \<Rightarrow> IntelContact" where
  "mergeContact source note c = source\<lparr>ic_id := ic_id c,
     ic_confidence := min (ic_confidence c) (ic_confidence source),
     ic_note := (if note = [] then ic_note c else note), ic_propagation := ic_propagation c,
     ic_firstDiscoveredAt :=
       (if ic_firstDiscoveredAt c \<noteq> []
           \<and> (ic_firstDiscoveredAt source = [] \<or> ic_firstDiscoveredAt c < ic_firstDiscoveredAt source)
        then ic_firstDiscoveredAt c else ic_firstDiscoveredAt source)\<rparr>"

definition receiveContact :: "string \<Rightarrow> string \<Rightarrow> string \<Rightarrow> string \<Rightarrow> IntelContact \<Rightarrow> IntelContact" where
  "receiveContact sender i note now c =
     (let chain = ic_propagation c @ [JObj [(''sharedAt'', JStr now), (''sourceIntelId'', JStr i), (''sourceSeatId'', JStr sender)]]
      in c\<lparr>ic_receivedAt := now, ic_note := (if note = [] then ic_note c else note),
           ic_propagation := drop (length chain - 32) chain\<rparr>)"

text \<open>The contact of the recipient that a shared one goes into: the one with the same id, else, for a sensor
  contact, the one with the same target.\<close>

definition mergesInto :: "IntelState \<Rightarrow> string \<Rightarrow> IntelContact \<Rightarrow> (IntelContact \<Rightarrow> bool) option" where
  "mergesInto s i source =
     (if findContact s i \<noteq> None then Some (\<lambda>c. ic_id c = i)
      else if ic_type source = ''sensorContact'' \<and> findSensorContactByTarget s (ic_target source) \<noteq> None
           then Some (sensorOf (ic_target source))
           else None)"

definition copiedContact :: "string \<Rightarrow> IntelContact \<Rightarrow> IntelContact" where
  "copiedContact recipient source =
     (if ic_type source = ''sensorContact'' then source\<lparr>ic_id := sensorId recipient (ic_target source)\<rparr> else source)"

definition receiveShare :: "string \<Rightarrow> string \<Rightarrow> string \<Rightarrow> string \<Rightarrow> string \<Rightarrow> IntelContact \<Rightarrow> SeatLedger \<Rightarrow> SeatLedger" where
  "receiveShare sender recipient i note now source l =
     (case mergesInto (sl_state l) i source of
        None \<Rightarrow>
          (let c = receiveContact sender i note now (copiedContact recipient source)
           in bump (recordEntry (receivedEntry now recipient note sender source c) (withRecords (\<lambda>cs. cs @ [c]) l)))
      | Some P \<Rightarrow>
          (let change = (\<lambda>c. receiveContact sender i note now (mergeContact source note c));
               c = change (the (find P (is_records (sl_state l))))
           in bump (recordEntry (receivedEntry now recipient note sender source c) (withRecords (updateFirst P change) l))))"

definition share :: "TimeLib \<Rightarrow> string \<Rightarrow> string \<Rightarrow> string \<Rightarrow> string \<Rightarrow> bool \<Rightarrow> string \<Rightarrow> string \<Rightarrow> int \<Rightarrow> IntelLedger
    \<Rightarrow> IntelLedger \<times> LedgerResult" where
  "share lib sender recipient senderSide recipientSide reachable i note tm g =
     (if sender = [] \<or> recipient = [] \<or> sender = recipient \<or> senderSide = [] \<or> senderSide \<noteq> recipientSide
         \<or> \<not> reachable \<or> 500 < length note
      then (g, ledgerFailure (if \<not> reachable then ''COMMUNICATION_LOST'' else ''PERMISSION_DENIED''))
      else case map_of (lg_seats g) sender of
        None \<Rightarrow> (g, ledgerFailure ''INTEL_NOT_FOUND'')
      | Some sl \<Rightarrow>
          (case findContact (sl_state sl) i of
             None \<Rightarrow> (g, ledgerFailure ''INTEL_NOT_FOUND'')
           | Some source \<Rightarrow>
               if ic_freshness source = ''archived'' then (g, ledgerFailure ''INTEL_ARCHIVED'')
               else
                 (let g1 = ensureSeat recipient g; rl = seatLedger g1 recipient; now = time_format lib tm
                  in if mergesInto (sl_state rl) i source = None \<and> 4096 \<le> length (is_records (sl_state rl))
                     then (g1, ledgerFailure ''INTEL_CAPACITY'')
                     else
                       (setSeat recipient (receiveShare sender recipient i note now source rl)
                          (setSeat sender (bump (recordEntry (sharedEntry i now recipient note sender source) sl)) g1),
                        \<lparr>lr_ok = True, lr_changed = True, lr_code = ''SHARED'', lr_intelId = i,
                          lr_affectedSeats = [sender, recipient]\<rparr>))))"

section \<open>Ageing\<close>

definition ageAt :: "int \<Rightarrow> int \<Rightarrow> rat" where
  "ageAt now t = max 0 (of_int (now - t) / 1000)"

definition decayedConfidence :: "IntelConfig \<Rightarrow> IntelContact \<Rightarrow> rat \<Rightarrow> rat" where
  "decayedConfidence cfg c age =
     max 0 ((if ic_type c = ''manualReport'' then 50 else 100)
       * (1 - (age - cfg_stale cfg) / max (1 / 1000) (cfg_archive cfg - cfg_stale cfg)))"

definition nextConfidence :: "IntelConfig \<Rightarrow> IntelContact \<Rightarrow> rat \<Rightarrow> rat" where
  "nextConfidence cfg c age =
     (let next = freshnessForAge age cfg in
      if next = ''stale'' then min (ic_confidence c) (decayedConfidence cfg c age)
      else if next = ''archived'' then 0 else ic_confidence c)"

definition agedEntry :: "string \<Rightarrow> IntelContact \<Rightarrow> IntelHistoryEntry" where
  "agedEntry now c = \<lparr>ih_id = [], ih_intelId = ic_id c,
     ih_eventType = (if ic_freshness c = ''archived'' then ''archived'' else ''freshnessChanged''),
     ih_occurredAt = now, ih_sourceSeat = ic_sourceSeat c, ih_sourceUnit = ic_sourceUnit c, ih_recipientSeat = [],
     ih_note = [], ih_freshness = ic_freshness c, ih_confidence = ic_confidence c, ih_position = ic_position c,
     ih_attributes = ic_attributes c, ih_propagationSource = [], ih_target = ic_target c\<rparr>"

text \<open>One contact of the loop: the contact as it is left, and the entry if its freshness has changed;
  \<open>None\<close> when nothing has changed.\<close>

definition ageContact :: "TimeLib \<Rightarrow> IntelConfig \<Rightarrow> int \<Rightarrow> IntelContact
    \<Rightarrow> (IntelContact \<times> IntelHistoryEntry option) option" where
  "ageContact lib cfg now c =
     (case time_parseMs lib (ic_lastObservedAt c) of
        None \<Rightarrow> None
      | Some (t, _) \<Rightarrow>
          (let age = ageAt now t; next = freshnessForAge age cfg; conf = nextConfidence cfg c age in
           if next = ic_freshness c
           then if 1 / 2 \<le> \<bar>conf - ic_confidence c\<bar> then Some (c\<lparr>ic_confidence := conf\<rparr>, None) else None
           else
             (let d = c\<lparr>ic_freshness := next, ic_actionable := (next = ''live'' \<and> ic_type c = ''sensorContact''),
                        ic_confidence := conf\<rparr>
              in Some (d, Some (agedEntry (time_format lib now) d)))))"

fun ageContacts :: "TimeLib \<Rightarrow> IntelConfig \<Rightarrow> int \<Rightarrow> IntelContact list \<Rightarrow> SeatLedger
    \<Rightarrow> IntelContact list \<times> SeatLedger \<times> nat" where
  "ageContacts lib cfg now [] l = ([], l, 0)"
| "ageContacts lib cfg now (c # cs) l =
     (case ageContact lib cfg now c of
        None \<Rightarrow> (case ageContacts lib cfg now cs l of (ds, l', n) \<Rightarrow> (c # ds, l', n))
      | Some (d, h) \<Rightarrow>
          (case ageContacts lib cfg now cs (bump (case h of None \<Rightarrow> l | Some h \<Rightarrow> recordEntry h l)) of
             (ds, l', n) \<Rightarrow> (d # ds, l', n + 1)))"

definition ageSeat :: "TimeLib \<Rightarrow> IntelConfig \<Rightarrow> int \<Rightarrow> SeatLedger \<Rightarrow> SeatLedger \<times> nat" where
  "ageSeat lib cfg now l =
     (case ageContacts lib cfg now (is_records (sl_state l)) l of (ds, l', n) \<Rightarrow> (withRecords (\<lambda>_. ds) l', n))"

definition advanceLedger :: "TimeLib \<Rightarrow> int \<Rightarrow> IntelLedger \<Rightarrow> IntelLedger \<times> nat" where
  "advanceLedger lib now g =
     (g\<lparr>lg_seats := map (\<lambda>(seat, l). (seat, fst (ageSeat lib (lg_config g) now l))) (lg_seats g)\<rparr>,
      sum_list (map (\<lambda>(seat, l). snd (ageSeat lib (lg_config g) now l)) (lg_seats g)))"

section \<open>Pages of the history\<close>

text \<open>\<open>contains(s, Qt::CaseInsensitive)\<close>.\<close>

fun contains_ci :: "string \<Rightarrow> string \<Rightarrow> bool" where
  "contains_ci [] sub \<longleftrightarrow> sub = []"
| "contains_ci (c # cs) sub \<longleftrightarrow> starts_with (to_lower (c # cs)) (to_lower sub) \<or> contains_ci cs sub"

definition parsedCursor :: "string \<Rightarrow> int" where
  "parsedCursor s = (if s = [] then 0 else case to_longlong s of None \<Rightarrow> 0 | Some n \<Rightarrow> if n < 0 then 0 else n)"

definition targetMatches :: "string \<Rightarrow> IntelHistoryEntry \<Rightarrow> bool" where
  "targetMatches target h \<longleftrightarrow> target = [] \<or> contains_ci (ih_intelId h) target \<or> contains_ci (ih_target h) target
     \<or> contains_ci (ih_note h) target
     \<or> list_ex (\<lambda>(k, v). isJStr v \<and> contains_ci (jtoString v) target) (ih_attributes h)"

definition entryType :: "IntelHistoryEntry \<Rightarrow> string" where
  "entryType h = (if jtoString (jget (ih_attributes h) ''category'') = [] then ''sensorContact'' else ''manualReport'')"

definition inPeriod :: "TimeLib \<Rightarrow> IntelHistoryQuery \<Rightarrow> string \<Rightarrow> bool" where
  "inPeriod lib q occurred \<longleftrightarrow>
     (case parseTimestamp lib (hq_from q) of
        None \<Rightarrow> True
      | Some (from, _) \<Rightarrow> (case parseTimestamp lib occurred of None \<Rightarrow> False | Some (t, _) \<Rightarrow> from \<le> t))
     \<and> (case parseTimestamp lib (hq_to q) of
          None \<Rightarrow> True
        | Some (to, _) \<Rightarrow> (case parseTimestamp lib occurred of None \<Rightarrow> True | Some (t, _) \<Rightarrow> t \<le> to))"

definition queryMatches :: "TimeLib \<Rightarrow> IntelHistoryQuery \<Rightarrow> IntelHistoryEntry \<Rightarrow> bool" where
  "queryMatches lib q h \<longleftrightarrow> targetMatches (hq_target q) h \<and> (hq_type q = [] \<or> hq_type q = entryType h)
     \<and> (hq_freshness q = [] \<or> hq_freshness q = ih_freshness h)
     \<and> (hq_sourceSeat q = [] \<or> hq_sourceSeat q = ih_sourceSeat h) \<and> inPeriod lib q (ih_occurredAt h)"

fun fillPage :: "TimeLib \<Rightarrow> IntelHistoryQuery \<Rightarrow> int \<Rightarrow> nat \<Rightarrow> int \<Rightarrow> IntelHistoryEntry list \<Rightarrow> IntelHistoryPage
    \<Rightarrow> IntelHistoryPage" where
  "fillPage lib q cursor most seen [] page = page"
| "fillPage lib q cursor most seen (h # hs) page =
     (if historySequence (ih_id h) \<le> cursor \<or> \<not> queryMatches lib q h then fillPage lib q cursor most seen hs page
      else if most \<le> length (hp_entries page) then page\<lparr>hp_hasMore := True, hp_nextCursor := number (nat seen)\<rparr>
      else fillPage lib q cursor most (historySequence (ih_id h)) hs (page\<lparr>hp_entries := hp_entries page @ [h]\<rparr>))"

definition historyPage :: "TimeLib \<Rightarrow> IntelLedger \<Rightarrow> string \<Rightarrow> IntelHistoryQuery \<Rightarrow> IntelHistoryPage" where
  "historyPage lib g seat q =
     (let page = \<lparr>hp_entries = [], hp_nextCursor = [], hp_hasMore = False, hp_revision = is_revision (stateOf g seat)\<rparr>;
          cursor = parsedCursor (hq_cursor q)
      in case map_of (lg_seats g) seat of
           None \<Rightarrow> page
         | Some l \<Rightarrow> fillPage lib q cursor (nat (max 1 (min 200 (hq_pageSize q)))) cursor (sl_history l) page)"

section \<open>Checkpoints\<close>

text \<open>A counter of 64 bits as a JSON integer, and back.\<close>

definition counterToJson :: "nat \<Rightarrow> json" where
  "counterToJson n = jint (if n < 2 ^ 63 then int n else int n - 2 ^ 64)"

definition counterFromJson :: "json \<Rightarrow> nat" where
  "counterFromJson v = max 1 (nat (jtoInteger 1 v mod 2 ^ 64))"

definition seatToJson :: "SeatLedger \<Rightarrow> jobject" where
  "seatToJson l = [(''state'', JObj (intelStateToJson (sl_state l))),
     (''history'', JArr (map (\<lambda>h. JObj (historyToJson h)) (sl_history l))),
     (''nextIntel'', counterToJson (sl_nextIntel l)), (''nextHistory'', counterToJson (sl_nextHistory l))]"

definition ledgerToJson :: "IntelLedger \<Rightarrow> jobject" where
  "ledgerToJson g = [(''staleAfterSec'', JNum (cfg_stale (lg_config g))),
     (''archiveAfterSec'', JNum (cfg_archive (lg_config g))),
     (''seats'', JObj (map (\<lambda>seat. (seat, JObj (seatToJson (seatLedger g seat)))) (sort (map fst (lg_seats g)))))]"

fun restoreHistory :: "TimeLib \<Rightarrow> json list \<Rightarrow> IntelHistoryEntry list option" where
  "restoreHistory lib [] = Some []"
| "restoreHistory lib (v # vs) =
     (case historyFromJson lib (jtoObject v) of
        None \<Rightarrow> None
      | Some h \<Rightarrow> (case restoreHistory lib vs of None \<Rightarrow> None | Some hs \<Rightarrow> Some (h # hs)))"

definition restoreSeat :: "TimeLib \<Rightarrow> jobject \<Rightarrow> SeatLedger option" where
  "restoreSeat lib ob =
     (case intelStateFromJson lib (jtoObject (jget ob ''state'')) of
        None \<Rightarrow> None
      | Some s \<Rightarrow>
          if \<not> isJArr (jget ob ''history'') then None
          else case restoreHistory lib (jtoArray (jget ob ''history'')) of
                 None \<Rightarrow> None
               | Some hs \<Rightarrow> Some \<lparr>sl_state = s, sl_history = lastEntries hs,
                     sl_nextIntel = counterFromJson (jget ob ''nextIntel''),
                     sl_nextHistory = counterFromJson (jget ob ''nextHistory'')\<rparr>)"

fun restoreSeats :: "TimeLib \<Rightarrow> jobject \<Rightarrow> (string \<times> SeatLedger) list option" where
  "restoreSeats lib [] = Some []"
| "restoreSeats lib ((seat, v) # rest) =
     (if seat = [] \<or> \<not> isJObj v then None
      else case restoreSeat lib (jtoObject v) of
             None \<Rightarrow> None
           | Some l \<Rightarrow> (case restoreSeats lib rest of None \<Rightarrow> None | Some ls \<Rightarrow> Some ((seat, l) # ls)))"

definition restoreLedger :: "TimeLib \<Rightarrow> jobject \<Rightarrow> IntelLedger \<Rightarrow> IntelLedger option" where
  "restoreLedger lib ob g =
     (if ob \<noteq> [] \<and> \<not> isJObj (jget ob ''seats'') then None
      else
        (let cfg = \<lparr>cfg_stale = jtoDouble (cfg_stale (lg_config g)) (jget ob ''staleAfterSec''),
                    cfg_archive = jtoDouble (cfg_archive (lg_config g)) (jget ob ''archiveAfterSec'')\<rparr>
         in if cfg_stale cfg \<le> 0 \<or> cfg_archive cfg \<le> cfg_stale cfg then None
            else case restoreSeats lib (jtoObject (jget ob ''seats'')) of
                   None \<Rightarrow> None
                 | Some seats \<Rightarrow> Some \<lparr>lg_seats = seats, lg_config = cfg\<rparr>))"

end
