(* ===== verification/IntelProtocolProps.thy ===== *)
theory IntelProtocolProps
  imports IntelProtocol
begin

text \<open>
  The codecs of contacts, history entries and states invert each other, and the delta between two
  states, applied to the first, gives the second with its records in the order of their ids.
\<close>

section \<open>Codecs\<close>

lemma jget_optional: "jget (optional given k v @ ob) k' = (if given \<and> k = k' then v else jget ob k')"
  by (simp add: optional_def jget_Cons)

lemma jget_optional_last: "jget (optional given k v) k' = (if given \<and> k = k' then v else JNull)"
  by (simp add: optional_def jget_Cons jget_Nil)

lemmas codec_simps = json_simps jget_optional jget_optional_last

lemma readContact_contactToJson [simp]: "readContact (contactToJson c) = c"
  by (cases c) (simp add: contactToJson_def readContact_def json_simps)

lemma readHistory_historyToJson [simp]: "readHistory (historyToJson h) = h"
  by (cases h) (simp add: historyToJson_def readHistory_def codec_simps)

lemma contactToJson_eq_iff [simp]: "contactToJson c = contactToJson d \<longleftrightarrow> c = d"
  by (metis readContact_contactToJson)

lemma jget_contact_id [simp]: "jget (contactToJson c) ''intelId'' = JStr (ic_id c)"
  by (simp add: contactToJson_def json_simps)

lemma contactFromJson_contactToJson:
  "contactFromJson lib (contactToJson c) =
     (if validateIntelContact lib (contactToJson c) then Some c else None)"
  by (simp add: contactFromJson_def)

lemma contact_id_valid: "validateIntelContact lib (contactToJson c) \<Longrightarrow> validIdentifier (JStr (ic_id c)) False"
  by (simp add: validateIntelContact_def)

lemma distinctIds_strings:
  "distinctIds (map JStr ss) ids \<longleftrightarrow>
     (\<forall>s \<in> set ss. validIdentifier (JStr s) False) \<and> distinct ss \<and> set ss \<inter> ids = {}"
  by (induction ss arbitrary: ids) auto

lemma validRecords_contacts:
  "validRecords lib (map (\<lambda>c. JObj (contactToJson c)) cs) ids \<longleftrightarrow>
     (\<forall>c \<in> set cs. validateIntelContact lib (contactToJson c)) \<and> distinct (map ic_id cs)
     \<and> ic_id ` set cs \<inter> ids = {}"
  by (induction cs arbitrary: ids) auto

lemma validSafeInteger_jint [simp]:
  "validSafeInteger (jint i) minimum \<longleftrightarrow> minimum \<le> i \<and> i \<le> 9007199254740991"
proof -
  have "(of_int i \<le> (9007199254740991 :: rat)) = (i \<le> 9007199254740991)"
    by (metis of_int_le_iff of_int_numeral)
  then show ?thesis by (simp add: validSafeInteger_def jint_def)
qed

lemma validate_state_iff:
  "validateIntelState lib (intelStateToJson s) \<longleftrightarrow>
     0 \<le> is_revision s \<and> is_revision s \<le> 9007199254740991 \<and> length (is_records s) \<le> 4096
     \<and> validSeatIdList (jstrings (is_shareTargets s)) True
     \<and> (\<forall>c \<in> set (is_records s). validateIntelContact lib (contactToJson c))
     \<and> distinct (map ic_id (is_records s))"
  by (simp add: validateIntelState_def intelStateToJson_def hasOnlyFields_def json_simps validRecords_contacts)

lemma state_codec: "validateIntelState lib (intelStateToJson s) \<Longrightarrow>
  intelStateFromJson lib (intelStateToJson s) = Some s"
  by (frule validate_state_iff [THEN iffD1])
    (simp add: intelStateFromJson_def, simp add: intelStateToJson_def json_simps jstrings_def comp_def)

section \<open>Records by id\<close>

abbreviation put :: "IntelContact \<Rightarrow> (string \<times> IntelContact) list \<Rightarrow> (string \<times> IntelContact) list" where
  "put c \<equiv> AList.update (ic_id c) c"

lemma map_of_puts: "distinct (map ic_id cs) \<Longrightarrow> map_of (fold put cs al) i =
  (case find (\<lambda>c. ic_id c = i) cs of None \<Rightarrow> map_of al i | Some c \<Rightarrow> Some c)"
proof (induction cs arbitrary: al)
  case (Cons c cs)
  have "find (\<lambda>d. ic_id d = ic_id c) cs = None" unfolding find_None_iff using Cons.prems by (simp, metis image_eqI)
  with Cons show ?case by (auto simp: update_conv' split: option.splits)
qed simp

lemma distinct_puts: "distinct (map fst al) \<Longrightarrow> distinct (map fst (fold put cs al))"
  by (induction cs arbitrary: al) (auto simp: distinct_update)

lemma distinct_recordsOf [simp]: "distinct (map fst (recordsOf s))"
  by (simp add: recordsOf_def distinct_puts)

lemma find_id: "distinct (map ic_id cs) \<Longrightarrow> find (\<lambda>c. ic_id c = i) cs = Some c \<longleftrightarrow> c \<in> set cs \<and> ic_id c = i"
proof (induction cs)
  case (Cons d cs)
  then show ?case by (cases "ic_id d = i") (auto, metis image_eqI)
qed simp

text \<open>An association list that holds exactly these contacts under their ids.\<close>

definition holds_contacts :: "(string \<times> IntelContact) list \<Rightarrow> IntelContact list \<Rightarrow> bool" where
  "holds_contacts al cs \<longleftrightarrow> distinct (map fst al) \<and> distinct (map ic_id cs)
     \<and> (\<forall>i c. map_of al i = Some c \<longleftrightarrow> c \<in> set cs \<and> ic_id c = i)"

lemma holds_recordsOf: "distinct (map ic_id (is_records s)) \<Longrightarrow> holds_contacts (recordsOf s) (is_records s)"
proof -
  assume d: "distinct (map ic_id (is_records s))"
  have "map_of (recordsOf s) i = find (\<lambda>c. ic_id c = i) (is_records s)" for i
    by (simp add: recordsOf_def map_of_puts [OF d] split: option.splits)
  then show ?thesis using d by (simp add: holds_contacts_def find_id)
qed

lemma map_of_recordsOf: "distinct (map ic_id (is_records s)) \<Longrightarrow>
  map_of (recordsOf s) i = Some c \<longleftrightarrow> c \<in> set (is_records s) \<and> ic_id c = i"
  using holds_recordsOf [of s] unfolding holds_contacts_def by blast

lemma holds_keys: "holds_contacts al cs \<Longrightarrow> fst ` set al = ic_id ` set cs"
  unfolding dom_map_of_conv_image_fst [symmetric] dom_def holds_contacts_def by (simp, blast)

lemma holds_id: "holds_contacts al cs \<Longrightarrow> c \<in> set cs \<Longrightarrow> map_of al (ic_id c) = Some c"
  unfolding holds_contacts_def by blast

lemma holds_None: "holds_contacts al cs \<Longrightarrow> map_of al i = None \<longleftrightarrow> i \<notin> ic_id ` set cs"
  by (simp add: map_of_eq_None_iff holds_keys)

lemma holds_sorted:
  assumes h: "holds_contacts al cs"
  shows "sortedRecords al = sort_key ic_id cs"
proof -
  have "sort (map fst al) = map ic_id (sort_key ic_id cs)"
    by (rule sorted_distinct_set_unique)
      (use h holds_keys [OF h] in \<open>simp_all add: holds_contacts_def distinct_map\<close>)
  then show ?thesis unfolding sortedRecords_def
    by (simp add: comp_def) (rule map_idI, simp add: holds_id [OF h])
qed

lemma holds_length:
  assumes h: "holds_contacts al cs"
  shows "length al = length cs"
proof -
  have "length al = card (fst ` set al)" "length cs = card (ic_id ` set cs)"
    using h by (metis holds_contacts_def distinct_card length_map set_map)+
  then show ?thesis using holds_keys [OF h] by simp
qed

section \<open>Deltas\<close>

lemma applyUpserts_contacts:
  assumes "\<forall>c \<in> set cs. validateIntelContact lib (contactToJson c)" "distinct (map ic_id cs)"
    and "ic_id ` set cs \<inter> ids = {}"
  shows "applyUpserts lib (map (\<lambda>c. JObj (contactToJson c)) cs) ids al =
    Some (ids \<union> ic_id ` set cs, fold put cs al)"
  using assms by (induction cs arbitrary: ids al) (auto simp: contactFromJson_contactToJson)

lemma map_of_deletes: "map_of (fold AList.delete ds al) i = (if i \<in> set ds then None else map_of al i)"
  by (induction ds arbitrary: al) (auto simp: delete_conv')

lemma distinct_deletes: "distinct (map fst al) \<Longrightarrow> distinct (map fst (fold AList.delete ds al))"
  by (induction ds arbitrary: al) (auto simp: distinct_delete)

lemma applyDeletes_strings:
  assumes "distinct ds" "\<forall>d \<in> set ds. d \<notin> ids \<and> map_of al d \<noteq> None"
  shows "applyDeletes (map JStr ds) ids al = Some (fold AList.delete ds al)"
  using assms
proof (induction ds arbitrary: al)
  case (Cons d ds)
  have "\<forall>e \<in> set ds. e \<notin> ids \<and> map_of (AList.delete d al) e \<noteq> None"
    using Cons.prems by (simp add: delete_conv') blast
  with Cons show ?case by simp
qed simp

lemma changedFrom_iff: "changedFrom previous c \<longleftrightarrow> map_of previous (ic_id c) \<noteq> Some c"
  by (auto simp: changedFrom_def split: option.splits)

text \<open>Putting the changed contacts and deleting the missing ids turns one set of contacts into the other.\<close>

lemma holds_after_delta:
  assumes b: "holds_contacts bl bs" and a: "holds_contacts al cs"
    and changed: "set changed = {c \<in> set cs. map_of bl (ic_id c) \<noteq> Some c}" "distinct (map ic_id changed)"
    and ds: "set ds = {i \<in> ic_id ` set bs. i \<notin> ic_id ` set cs}"
  shows "holds_contacts (fold AList.delete ds (fold put changed bl)) cs"
proof -
  have inj: "c = d" if "c \<in> set cs" "d \<in> set cs" "ic_id c = ic_id d" for c d
    using holds_id [OF a that(1)] holds_id [OF a that(2)] unfolding that(3) by simp
  have "map_of (fold AList.delete ds (fold put changed bl)) i = Some c \<longleftrightarrow> c \<in> set cs \<and> ic_id c = i" for i c
  proof (cases "i \<in> ic_id ` set cs")
    case False
    then have "find (\<lambda>c. ic_id c = i) changed = None"
      unfolding find_None_iff using changed(1) by blast
    moreover have "i \<in> set ds \<or> map_of bl i = None"
      using False holds_None [OF b, of i] by (simp add: ds)
    ultimately have "map_of (fold AList.delete ds (fold put changed bl)) i = None"
      unfolding map_of_deletes map_of_puts [OF changed(2)] by (elim disjE) simp_all
    then show ?thesis using False by (simp, blast)
  next
    case True
    then obtain d where d: "d \<in> set cs" "ic_id d = i" by blast
    have "find (\<lambda>c. ic_id c = i) changed = (if map_of bl i = Some d then None else Some d)"
    proof (cases "map_of bl i = Some d")
      case True
      have "\<nexists>e. e \<in> set changed \<and> ic_id e = i"
        unfolding changed(1) using True inj [OF _ d(1)] d(2) by force
      then show ?thesis unfolding find_None_iff [symmetric] using True by simp
    next
      case False
      then have "d \<in> set changed" using changed(1) d by simp
      then show ?thesis using find_id [OF changed(2), of i d] d False by simp
    qed
    moreover have "i \<notin> set ds" using True by (simp add: ds)
    ultimately have "map_of (fold AList.delete ds (fold put changed bl)) i = Some d"
      unfolding map_of_deletes map_of_puts [OF changed(2)] by simp
    then show ?thesis using d inj by (simp, blast)
  qed
  then show ?thesis
    using a b by (simp add: holds_contacts_def distinct_deletes distinct_puts)
qed

lemma archivedPresent_changed:
  assumes "distinct (map ic_id changed)"
  shows "list_all (archivedPresent (ic_id ` set changed) (fold put changed bl))
    (map (\<lambda>c. JStr (ic_id c)) (filter (archivedFrom previous) changed))"
proof -
  have "archivedPresent (ic_id ` set changed) (fold put changed bl) (JStr (ic_id c))"
    if "c \<in> set changed" "archivedFrom previous c" for c
    using that find_id [OF assms, of "ic_id c" c]
    by (simp add: archivedPresent_def archivedFrom_def map_of_puts [OF assms])
  then show ?thesis by (simp add: list_all_iff)
qed

text \<open>The parts of a delta.\<close>

definition changedRecords :: "IntelState \<Rightarrow> IntelState \<Rightarrow> IntelContact list" where
  "changedRecords before after = filter (changedFrom (recordsOf before)) (sort_key ic_id (is_records after))"

definition deletedIds :: "IntelState \<Rightarrow> IntelState \<Rightarrow> string list" where
  "deletedIds before after =
     filter (\<lambda>i. map_of (recordsOf after) i = None) (sort (map fst (recordsOf before)))"

definition validState :: "TimeLib \<Rightarrow> IntelState \<Rightarrow> bool" where
  "validState lib s \<longleftrightarrow> validateIntelState lib (intelStateToJson s)"

lemma valid_distinct: "validState lib s \<Longrightarrow> distinct (map ic_id (is_records s))"
  by (simp add: validState_def validate_state_iff)

lemma valid_holds: "validState lib s \<Longrightarrow> holds_contacts (recordsOf s) (is_records s)"
  by (rule holds_recordsOf [OF valid_distinct])

lemma valid_contacts: "validState lib s \<Longrightarrow> c \<in> set (is_records s) \<Longrightarrow> validateIntelContact lib (contactToJson c)"
  by (simp add: validState_def validate_state_iff)

lemma set_changedRecords: "set (changedRecords before after) =
  {c \<in> set (is_records after). map_of (recordsOf before) (ic_id c) \<noteq> Some c}"
  by (auto simp: changedRecords_def changedFrom_iff)

lemma distinct_changedRecords: "validState lib after \<Longrightarrow> distinct (map ic_id (changedRecords before after))"
  by (drule valid_distinct) (simp add: changedRecords_def distinct_map inj_on_def)

lemma length_changedRecords: "length (changedRecords before after) \<le> length (is_records after)"
  unfolding changedRecords_def by (rule le_trans [OF length_filter_le]) simp

lemma set_deletedIds: "validState lib before \<Longrightarrow> validState lib after \<Longrightarrow>
  set (deletedIds before after) = {i \<in> ic_id ` set (is_records before). i \<notin> ic_id ` set (is_records after)}"
  by (simp add: deletedIds_def holds_None [OF valid_holds] holds_keys [OF valid_holds])

lemma distinct_deletedIds: "distinct (deletedIds before after)"
  by (simp add: deletedIds_def)

lemma length_deletedIds: "validState lib before \<Longrightarrow> length (deletedIds before after) \<le> length (is_records before)"
  unfolding deletedIds_def
  by (rule le_trans [OF length_filter_le]) (simp add: holds_length [OF valid_holds])

lemma makeIntelDelta_parts:
  "makeIntelDelta lib before after =
     (if \<not> validState lib before \<or> \<not> validState lib after \<or> is_revision after < is_revision before
         \<or> is_revision after = is_revision before
            \<and> (changedRecords before after \<noteq> [] \<or> deletedIds before after \<noteq> []
               \<or> is_shareTargets before = is_shareTargets after)
      then []
      else [(''baseRevision'', jint (is_revision before)), (''revision'', jint (is_revision after)),
            (''upserts'', JArr (map (\<lambda>c. JObj (contactToJson c)) (changedRecords before after))),
            (''archivedIntelIds'', JArr (map (\<lambda>c. JStr (ic_id c))
               (filter (archivedFrom (recordsOf before)) (changedRecords before after)))),
            (''deletedIntelIds'', JArr (map JStr (deletedIds before after))),
            (''shareTargets'', jstrings (is_shareTargets after))])"
proof (cases "validState lib before \<and> validState lib after")
  case True
  then have "sortedRecords (recordsOf after) = sort_key ic_id (is_records after)"
    using holds_sorted [OF valid_holds] by blast
  with True show ?thesis
    unfolding makeIntelDelta_def validState_def [symmetric] changedRecords_def deletedIds_def
    by (simp add: Let_def)
next
  case False
  then show ?thesis
    unfolding makeIntelDelta_def validState_def [symmetric] by (cases "validState lib before") simp_all
qed

lemma archived_ids_valid:
  assumes "validState lib after"
  shows "validIdArray (JArr (map (\<lambda>c. JStr (ic_id c)) (filter P (changedRecords before after))))"
proof -
  have *: "length (filter P (changedRecords before after)) \<le> 4096"
    using assms by (metis (no_types, lifting) le_trans length_changedRecords length_filter_le validState_def
        validate_state_iff)
  have "distinct (map ic_id (filter P (changedRecords before after)))"
    using distinct_changedRecords [OF assms] by (rule distinct_map_filter)
  moreover have "validIdentifier (JStr (ic_id c)) False" if "c \<in> set (changedRecords before after)" for c
    using that contact_id_valid [OF valid_contacts [OF assms]] unfolding set_changedRecords by blast
  ultimately have "distinctIds (map JStr (map ic_id (filter P (changedRecords before after)))) {}"
    by (simp only: distinctIds_strings) auto
  with * show ?thesis by (simp add: validIdArray_def comp_def)
qed

lemma deleted_ids_valid:
  assumes "validState lib before" "validState lib after"
  shows "validIdArray (JArr (map JStr (deletedIds before after)))"
proof -
  have "length (deletedIds before after) \<le> 4096"
    using assms(1) by (metis le_trans length_deletedIds validState_def validate_state_iff)
  moreover have "validIdentifier (JStr i) False" if "i \<in> set (deletedIds before after)" for i
    using that valid_contacts [OF assms(1)] contact_id_valid by (auto simp: set_deletedIds [OF assms])
  ultimately show ?thesis by (simp add: validIdArray_def distinctIds_strings distinct_deletedIds)
qed

text \<open>C17. The delta between two states that are valid, applied to the first, is accepted and gives the
  second with its records in the order of their ids.\<close>

theorem intel_delta_roundtrip:
  assumes "makeIntelDelta lib before after \<noteq> []"
  shows "applyIntelDelta lib before (makeIntelDelta lib before after) =
    Some (after\<lparr>is_records := sort_key ic_id (is_records after)\<rparr>)"
proof -
  let ?changed = "changedRecords before after" and ?ds = "deletedIds before after"
  let ?left = "fold AList.delete ?ds (fold put ?changed (recordsOf before))"
  have b: "validState lib before" and a: "validState lib after"
    and same: "is_revision before \<le> is_revision after"
      "is_revision after = is_revision before \<longrightarrow> ?changed = [] \<and> ?ds = []"
    using assms by (auto simp: makeIntelDelta_parts split: if_splits)
  note facts = makeIntelDelta_parts b a same
  let ?delta = "[(''baseRevision'', jint (is_revision before)), (''revision'', jint (is_revision after)),
     (''upserts'', JArr (map (\<lambda>c. JObj (contactToJson c)) ?changed)),
     (''archivedIntelIds'', JArr (map (\<lambda>c. JStr (ic_id c)) (filter (archivedFrom (recordsOf before)) ?changed))),
     (''deletedIntelIds'', JArr (map JStr ?ds)), (''shareTargets'', jstrings (is_shareTargets after))]"
  have delta: "makeIntelDelta lib before after = ?delta"
    using assms unfolding makeIntelDelta_parts by (simp split: if_splits)
  have va: "0 \<le> is_revision before" "is_revision after \<le> 9007199254740991"
    "length (is_records after) \<le> 4096" "validSeatIdList (jstrings (is_shareTargets after)) True"
    using a b by (simp_all add: validState_def validate_state_iff)
  have fits: "deltaFits before ?delta"
    unfolding deltaFits_def
    using va same archived_ids_valid [OF a] deleted_ids_valid [OF b a] le_trans [OF length_changedRecords va(3)]
    by (simp add: json_simps hasOnlyFields_def deltaFields_def)
  have h: "holds_contacts ?left (is_records after)"
    by (rule holds_after_delta [OF valid_holds [OF b] valid_holds [OF a] set_changedRecords
          distinct_changedRecords [OF a] set_deletedIds [OF b a]])
  have ups: "applyUpserts lib (map (\<lambda>c. JObj (contactToJson c)) ?changed) {} (recordsOf before) =
      Some (ic_id ` set ?changed, fold put ?changed (recordsOf before))"
    using valid_contacts [OF a] distinct_changedRecords [OF a]
    by (subst applyUpserts_contacts) (auto simp: set_changedRecords)
  have "d \<notin> ic_id ` set ?changed \<and> map_of (fold put ?changed (recordsOf before)) d \<noteq> None" if "d \<in> set ?ds" for d
  proof -
    have "d \<notin> ic_id ` set ?changed" "d \<in> ic_id ` set (is_records before)"
      using that unfolding set_deletedIds [OF b a] set_changedRecords by auto
    then show ?thesis using holds_None [OF valid_holds [OF b], of d]
      by (simp add: map_of_puts [OF distinct_changedRecords [OF a]] split: option.split)
  qed
  then have dels: "applyDeletes (map JStr ?ds) (ic_id ` set ?changed) (fold put ?changed (recordsOf before)) = Some ?left"
    by (intro applyDeletes_strings distinct_deletedIds) blast
  have cand: "validateIntelState lib (intelStateToJson (after\<lparr>is_records := sort_key ic_id (is_records after)\<rparr>))"
    using a by (simp add: validState_def validate_state_iff distinct_map inj_on_def)
  have "after\<lparr>is_records := sort_key ic_id (is_records after)\<rparr> =
      \<lparr>is_revision = is_revision after, is_records = sortedRecords ?left, is_shareTargets = is_shareTargets after\<rparr>"
    unfolding holds_sorted [OF h] by (cases after) simp
  then show ?thesis
    unfolding delta applyIntelDelta_def
    using fits ups dels cand va(3) holds_length [OF h] va same
      archivedPresent_changed [OF distinct_changedRecords [OF a], of before "recordsOf before" "recordsOf before"]
    by (simp add: json_simps jstrings_def comp_def)
qed

definition keyed :: "(string \<times> IntelContact) list \<Rightarrow> bool" where
  "keyed al \<longleftrightarrow> distinct (map fst al) \<and> (\<forall>i c. map_of al i = Some c \<longrightarrow> ic_id c = i)"

definition upsertIds :: "json list \<Rightarrow> string set" where
  "upsertIds vs = (\<lambda>v. jtoString (jget (jtoObject v) ''intelId'')) ` set vs"

lemma keyed_put: "keyed al \<Longrightarrow> keyed (put c al)"
  by (simp add: keyed_def distinct_update update_conv')

lemma keyed_delete: "keyed al \<Longrightarrow> keyed (AList.delete i al)"
  by (simp add: keyed_def distinct_delete delete_conv')

lemma keyed_recordsOf: "distinct (map ic_id (is_records s)) \<Longrightarrow> keyed (recordsOf s)"
  using holds_recordsOf [of s] by (simp add: keyed_def holds_contacts_def)

lemma contactFromJson_id: "contactFromJson lib ob = Some c \<Longrightarrow> ic_id c = jtoString (jget ob ''intelId'')"
  by (auto simp: contactFromJson_def readContact_def split: if_splits)

lemma applyUpserts_other:
  "applyUpserts lib vs ids al = Some (ids', al') \<Longrightarrow> keyed al \<Longrightarrow>
     keyed al' \<and> (\<forall>i. i \<notin> upsertIds vs \<longrightarrow> map_of al' i = map_of al i)"
proof (induction vs arbitrary: ids al)
  case (Cons v vs)
  then obtain c where c: "contactFromJson lib (jtoObject v) = Some c"
    and rest: "applyUpserts lib vs (insert (ic_id c) ids) (put c al) = Some (ids', al')"
    by (auto split: if_splits option.splits)
  have "keyed al' \<and> (\<forall>i. i \<notin> upsertIds vs \<longrightarrow> map_of al' i = map_of (put c al) i)"
    by (rule Cons.IH [OF rest keyed_put [OF Cons.prems(2)]])
  then show ?case using contactFromJson_id [OF c] by (simp add: upsertIds_def update_conv')
qed simp

lemma applyDeletes_other:
  "applyDeletes vs ids al = Some al' \<Longrightarrow> keyed al \<Longrightarrow>
     keyed al' \<and> (\<forall>i. i \<notin> jtoString ` set vs \<longrightarrow> map_of al' i = map_of al i)"
proof (induction vs arbitrary: al)
  case (Cons v vs)
  then have rest: "applyDeletes vs ids (AList.delete (jtoString v) al) = Some al'"
    by (simp split: if_splits)
  have "keyed al' \<and> (\<forall>i. i \<notin> jtoString ` set vs \<longrightarrow> map_of al' i = map_of (AList.delete (jtoString v) al) i)"
    by (rule Cons.IH [OF rest keyed_delete [OF Cons.prems(2)]])
  then show ?case by (simp add: delete_conv')
qed simp

lemma set_sortedRecords: "keyed al \<Longrightarrow> c \<in> set (sortedRecords al) \<longleftrightarrow> map_of al (ic_id c) = Some c"
proof -
  assume k: "keyed al"
  have "c \<in> set (sortedRecords al) \<longleftrightarrow> (\<exists>i \<in> fst ` set al. c = the (map_of al i))"
    by (auto simp: sortedRecords_def)
  also have "\<dots> \<longleftrightarrow> (\<exists>i. map_of al i = Some c)"
    unfolding dom_map_of_conv_image_fst [symmetric] dom_def by force
  finally show ?thesis using k unfolding keyed_def by metis
qed

lemma applyIntelDelta_Some:
  assumes "applyIntelDelta lib s delta = Some s'"
  obtains ids records left where "deltaFits s delta"
    "applyUpserts lib (jtoArray (jget delta ''upserts'')) {} (recordsOf s) = Some (ids, records)"
    "applyDeletes (jtoArray (jget delta ''deletedIntelIds'')) ids records = Some left"
    "s' = \<lparr>is_revision = jtoInteger 0 (jget delta ''revision''), is_records = sortedRecords left,
       is_shareTargets = map jtoString (jtoArray (jget delta ''shareTargets''))\<rparr>"
    "validState lib s'"
  using assms unfolding applyIntelDelta_def Let_def validState_def
  by (simp split: if_splits option.splits prod.splits)

text \<open>Applying any JSON to a valid state is refused or gives a valid state: the revision does not
  fall, a contact that the delta neither replaces nor deletes is there exactly if it was before, and
  at an unchanged revision no contact changes.\<close>

theorem intel_delta_applied:
  assumes "applyIntelDelta lib s delta = Some s'" and "validateIntelState lib (intelStateToJson s)"
  shows "validateIntelState lib (intelStateToJson s') \<and> is_revision s \<le> is_revision s'
    \<and> (\<forall>c. ic_id c \<notin> upsertIds (jtoArray (jget delta ''upserts''))
          \<and> ic_id c \<notin> jtoString ` set (jtoArray (jget delta ''deletedIntelIds''))
        \<longrightarrow> (c \<in> set (is_records s') \<longleftrightarrow> c \<in> set (is_records s)))
    \<and> (is_revision s' = is_revision s \<longrightarrow> set (is_records s') = set (is_records s))"
proof -
  obtain ids records left where fits: "deltaFits s delta"
    and ups: "applyUpserts lib (jtoArray (jget delta ''upserts'')) {} (recordsOf s) = Some (ids, records)"
    and dels: "applyDeletes (jtoArray (jget delta ''deletedIntelIds'')) ids records = Some left"
    and s': "s' = \<lparr>is_revision = jtoInteger 0 (jget delta ''revision''), is_records = sortedRecords left,
       is_shareTargets = map jtoString (jtoArray (jget delta ''shareTargets''))\<rparr>"
    and v: "validState lib s'" by (rule applyIntelDelta_Some [OF assms(1)])
  have d: "distinct (map ic_id (is_records s))" using assms(2) by (simp add: validate_state_iff)
  have k: "keyed records" "i \<notin> upsertIds (jtoArray (jget delta ''upserts'')) \<Longrightarrow>
      map_of records i = map_of (recordsOf s) i" for i
    using applyUpserts_other [OF ups keyed_recordsOf [OF d]] by blast+
  have l: "keyed left" "i \<notin> jtoString ` set (jtoArray (jget delta ''deletedIntelIds'')) \<Longrightarrow>
      map_of left i = map_of records i" for i
    using applyDeletes_other [OF dels k(1)] by blast+
  have kept: "c \<in> set (is_records s') \<longleftrightarrow> c \<in> set (is_records s)"
    if "ic_id c \<notin> upsertIds (jtoArray (jget delta ''upserts''))"
      "ic_id c \<notin> jtoString ` set (jtoArray (jget delta ''deletedIntelIds''))" for c
    unfolding s' using k(2) [OF that(1)] l(2) [OF that(2)]
    by (simp add: set_sortedRecords [OF l(1)] map_of_recordsOf [OF d])
  have "is_revision s' = is_revision s \<longrightarrow> set (is_records s') = set (is_records s)"
  proof
    assume "is_revision s' = is_revision s"
    then have "jtoArray (jget delta ''upserts'') = []" "jtoArray (jget delta ''deletedIntelIds'') = []"
      using fits by (simp_all add: s' deltaFits_def)
    then show "set (is_records s') = set (is_records s)" using kept by (auto simp: upsertIds_def)
  qed
  moreover have "is_revision s \<le> is_revision s'" using fits by (simp add: s' deltaFits_def)
  ultimately show ?thesis using v kept unfolding validState_def by blast
qed

text \<open>Reading the JSON of a valid state gives the state.\<close>

theorem intel_state_codec:
  assumes "validateIntelState lib (intelStateToJson s)"
  shows "intelStateFromJson lib (intelStateToJson s) = Some s"
  using assms by (rule state_codec)

section \<open>Instances\<close>

definition clock_lib :: TimeLib where
  "clock_lib = \<lparr>time_parseMs = (\<lambda>s. if s = ''z'' then Some (0, 0) else None), time_parseSec = (\<lambda>s. None),
     time_format = (\<lambda>t. ''z'')\<rparr>"

definition a_report :: "string \<Rightarrow> string \<Rightarrow> IntelContact" where
  "a_report i freshness = \<lparr>ic_id = i, ic_type = ''manualReport'', ic_target = [], ic_attributes = [],
     ic_position = [(''x'', jint 3), (''y'', jint 4)], ic_sourceSeat = ''s1'', ic_sourceUnit = [],
     ic_firstDiscoveredAt = ''z'', ic_lastObservedAt = ''z'', ic_receivedAt = ''z'', ic_confidence = 50,
     ic_freshness = freshness, ic_note = ''n'', ic_propagation = [], ic_actionable = False\<rparr>"

definition state_a :: IntelState where
  "state_a = \<lparr>is_revision = 1, is_records = [a_report ''i1'' ''live'', a_report ''i2'' ''live''], is_shareTargets = [''s2'']\<rparr>"

definition state_b :: IntelState where
  "state_b = \<lparr>is_revision = 3, is_records = [a_report ''i3'' ''live'', a_report ''i1'' ''archived''], is_shareTargets = []\<rparr>"

lemma intel_delta_roundtrip_witness:
  "applyIntelDelta clock_lib state_a (makeIntelDelta clock_lib state_a state_b) =
     Some (state_b\<lparr>is_records := sort_key ic_id (is_records state_b)\<rparr>)"
  by (rule intel_delta_roundtrip) code_simp

lemma intel_state_codec_witness: "intelStateFromJson clock_lib (intelStateToJson state_a) = Some state_a"
  by (rule intel_state_codec) code_simp

lemma intel_delta_applied_witness:
  "is_revision state_a \<le> is_revision (the (applyIntelDelta clock_lib state_a (makeIntelDelta clock_lib state_a state_b)))"
proof -
  have "applyIntelDelta clock_lib state_a (makeIntelDelta clock_lib state_a state_b) =
      Some (the (applyIntelDelta clock_lib state_a (makeIntelDelta clock_lib state_a state_b)))"
    by code_simp
  moreover have "validateIntelState clock_lib (intelStateToJson state_a)" by code_simp
  ultimately show ?thesis by (rule intel_delta_applied [THEN conjunct2, THEN conjunct1])
qed

end
