(* ===== verification/IntelLedgerProps.thy ===== *)
theory IntelLedgerProps
  imports IntelLedger IntelProtocolProps
begin

text \<open>
  What the intelligence ledger keeps: the locale states which laws of a property of seat ledgers make it
  an invariant of every sequence of calls; it is interpreted on the histories and on the contacts. Then
  sharing, ageing, the pages of the history, checkpoints, and three behaviours that break what the
  callers rely on.
\<close>

declare map_of_eq_Some_iff [simp del] Some_eq_map_of_iff [simp del]

lemma find_in: "find P xs = Some x \<Longrightarrow> x \<in> set xs \<and> P x"
  by (auto simp: find_Some_iff)

section \<open>Calls\<close>

datatype LedgerCall = Clear | SetConfig IntelConfig | EnsureSeat string | RemoveSeat string
  | Observe string string jobject jobject string int
  | Report string string string jobject string int
  | Share string string string string bool string string int
  | Advance int

primrec ledger_call :: "TimeLib \<Rightarrow> LedgerCall \<Rightarrow> IntelLedger \<Rightarrow> IntelLedger" where
  "ledger_call lib Clear g = clearLedger g"
| "ledger_call lib (SetConfig cfg) g = setConfig cfg g"
| "ledger_call lib (EnsureSeat seat) g = ensureSeat seat g"
| "ledger_call lib (RemoveSeat seat) g = removeSeat seat g"
| "ledger_call lib (Observe seat target known pos unit tm) g = fst (observeSensor lib seat target known pos unit tm g)"
| "ledger_call lib (Report seat category title pos note tm) g =
     fst (createManualReport lib seat category title pos note tm g)"
| "ledger_call lib (Share sender recipient sside rside reachable i note tm) g =
     fst (share lib sender recipient sside rside reachable i note tm g)"
| "ledger_call lib (Advance tm) g = fst (advanceLedger lib tm g)"

definition run_ledger :: "TimeLib \<Rightarrow> LedgerCall list \<Rightarrow> IntelLedger" where
  "run_ledger lib calls = fold (ledger_call lib) calls emptyIntelLedger"

section \<open>Projections\<close>

lemma bump_sel [simp]: "sl_history (bump l) = sl_history l" "sl_nextHistory (bump l) = sl_nextHistory l"
  "sl_nextIntel (bump l) = sl_nextIntel l" "is_records (sl_state (bump l)) = is_records (sl_state l)"
  "is_revision (sl_state (bump l)) = is_revision (sl_state l) + 1"
  by (simp_all add: bump_def)

lemma withRecords_sel [simp]: "sl_history (withRecords f l) = sl_history l"
  "sl_nextHistory (withRecords f l) = sl_nextHistory l" "sl_nextIntel (withRecords f l) = sl_nextIntel l"
  "is_records (sl_state (withRecords f l)) = f (is_records (sl_state l))"
  "is_revision (sl_state (withRecords f l)) = is_revision (sl_state l)"
  by (simp_all add: withRecords_def)

lemma recordEntry_sel [simp]: "sl_state (recordEntry h l) = sl_state l" "sl_nextIntel (recordEntry h l) = sl_nextIntel l"
  by (simp_all add: recordEntry_def)

lemma seatLedger_ensure: "seatLedger (ensureSeat seat g) i = seatLedger g i"
  by (simp add: ensureSeat_def seatLedger_def update_conv' split: option.splits)

lemma seatLedger_setSeat: "seatLedger (setSeat seat l g) i = (if i = seat then l else seatLedger g i)"
  by (simp add: setSeat_def seatLedger_def update_conv')

lemma config_kept [simp]: "lg_config (setSeat seat l g) = lg_config g" "lg_config (ensureSeat seat g) = lg_config g"
  by (simp_all add: setSeat_def ensureSeat_def)

lemma updateFirst_all: "list_all Q xs \<Longrightarrow> (\<And>x. P x \<Longrightarrow> Q x \<Longrightarrow> Q (f x)) \<Longrightarrow> list_all Q (updateFirst P f xs)"
  by (induction xs) auto

lemma length_updateFirst [simp]: "length (updateFirst P f xs) = length xs"
  by (induction xs) auto

lemma updateFirst_nth: "i < length xs \<Longrightarrow> updateFirst P f xs ! i = xs ! i \<or> updateFirst P f xs ! i = f (xs ! i)"
  by (induction xs arbitrary: i) (auto simp: nth_Cons split: nat.splits)

section \<open>Invariants of the seats\<close>

definition config_ok :: "IntelConfig \<Rightarrow> bool" where
  "config_ok cfg \<longleftrightarrow> 0 < cfg_stale cfg \<and> cfg_stale cfg < cfg_archive cfg"

definition seats_all :: "(SeatLedger \<Rightarrow> bool) \<Rightarrow> IntelLedger \<Rightarrow> bool" where
  "seats_all P g \<longleftrightarrow> config_ok (lg_config g) \<and> distinct (map fst (lg_seats g))
     \<and> (\<forall>seat l. map_of (lg_seats g) seat = Some l \<longrightarrow> seat \<noteq> [] \<and> P l)"

text \<open>\<open>P\<close> is kept by every write the operations make to a seat ledger, where \<open>Q\<close> is what it asks of the
  contacts.\<close>

locale ledger_kept =
  fixes P :: "SeatLedger \<Rightarrow> bool" and Q :: "IntelContact \<Rightarrow> bool"
  assumes new: "P newSeatLedger"
    and recorded: "P l \<Longrightarrow> ih_id h = [] \<Longrightarrow> P (recordEntry h l)"
    and bumped: "P l \<Longrightarrow> P (bump l)"
    and counted: "P l \<Longrightarrow> P (l\<lparr>sl_nextIntel := n\<rparr>)"
    and contacts: "P l \<Longrightarrow> list_all Q (is_records (sl_state l))"
    and changed: "P l \<Longrightarrow> list_all Q (f (is_records (sl_state l))) \<Longrightarrow> P (withRecords f l)"
    and discovered: "Q (refreshContact known pos seat unit now (discoveredContact i target now))"
    and refreshed: "Q c \<Longrightarrow> ic_id c = sensorId seat target \<Longrightarrow> Q (refreshContact known pos seat unit now c)"
    and reported: "Q (reportedContact (manualId seat n) seat category title pos note now)"
    and copied: "Q c \<Longrightarrow> Q (receiveContact sender i note now (copiedContact recipient c))"
    and merged: "Q source \<Longrightarrow> Q c \<Longrightarrow>
      ic_id c = ic_id source \<or> ic_type c = ''sensorContact'' \<and> ic_type source = ''sensorContact'' \<Longrightarrow>
      Q (receiveContact sender i note now (mergeContact source note c))"
    and aged: "config_ok cfg \<Longrightarrow> Q c \<Longrightarrow> ageContact lib cfg tm c = Some (d, e) \<Longrightarrow> Q d"
begin

lemma observed: "P l \<Longrightarrow> P (fst (observeContact lib seat target known pos unit tm l))"
proof (cases "findContact (sl_state l) (sensorId seat target)")
  case None
  assume l: "P l"
  have "P (withRecords (\<lambda>cs. cs @ [refreshContact known pos seat unit (time_format lib tm)
      (discoveredContact (sensorId seat target) target (time_format lib tm))]) l)"
    by (rule changed [OF l]) (simp add: contacts [OF l] discovered)
  with None show ?thesis
    by (simp add: observeContact_def Let_def bumped recorded sensorEntry_def)
next
  case (Some c)
  assume l: "P l"
  let ?r = "refreshContact known pos seat unit (time_format lib tm)"
  let ?h = "sensorEntry ''updated'' (sensorId seat target) (time_format lib tm) seat unit pos known target"
  have upd: "P (bump (withRecords (updateFirst (\<lambda>c. ic_id c = sensorId seat target) ?r) m))" if "P m" for m
    by (intro bumped changed [OF that] updateFirst_all [OF contacts [OF that]]) (rule refreshed)
  have "P (recordEntry ?h l)" by (rule recorded [OF l]) (simp add: sensorEntry_def)
  with l Some upd show ?thesis by (simp add: observeContact_def Let_def)
qed

lemma received:
  assumes l: "P l" and q: "Q source" and i: "ic_id source = i"
  shows "P (receiveShare sender recipient i note now source l)"
proof (cases "mergesInto (sl_state l) i source")
  case None
  have "P (withRecords (\<lambda>cs. cs @ [receiveContact sender i note now (copiedContact recipient source)]) l)"
    by (rule changed [OF l]) (simp add: contacts [OF l] copied [OF q])
  with None show ?thesis by (simp add: receiveShare_def Let_def bumped recorded receivedEntry_def)
next
  case (Some p)
  have "ic_id c = ic_id source \<or> ic_type c = ''sensorContact'' \<and> ic_type source = ''sensorContact''" if "p c" for c
    using Some i that by (auto simp: mergesInto_def sensorOf_def split: if_splits)
  then have "P (withRecords (updateFirst p (\<lambda>c. receiveContact sender i note now (mergeContact source note c))) l)"
    by (intro changed [OF l] updateFirst_all [OF contacts [OF l]]) (rule merged [OF q], simp_all)
  with Some show ?thesis by (simp add: receiveShare_def Let_def bumped recorded receivedEntry_def)
qed

lemma aged_list:
  "config_ok cfg \<Longrightarrow> list_all Q cs \<Longrightarrow> P l \<Longrightarrow> ageContacts lib cfg now cs l = (ds, l', n) \<Longrightarrow>
     P l' \<and> list_all Q ds"
proof (induction cs arbitrary: l l' ds n)
  case (Cons c cs)
  show ?case
  proof (cases "ageContact lib cfg now c")
    case None
    with Cons show ?thesis by (fastforce split: prod.splits)
  next
    case (Some dh)
    obtain d h where dh: "dh = (d, h)" by (cases dh)
    obtain ds' where rest: "ageContacts lib cfg now cs (bump (case h of None \<Rightarrow> l | Some h \<Rightarrow> recordEntry h l)) = (ds', l', n - 1)"
      and ds: "ds = d # ds'"
      using Cons.prems(4) Some dh by (auto split: prod.splits)
    have "ih_id k = []" if "h = Some k" for k
      using Some dh that by (auto simp: ageContact_def agedEntry_def Let_def split: option.splits if_splits)
    then have "P (bump (case h of None \<Rightarrow> l | Some h \<Rightarrow> recordEntry h l))"
      using Cons.prems(3) by (auto split: option.splits intro: bumped recorded)
    then show ?thesis
      using Cons.IH [OF Cons.prems(1) _ _ rest] Cons.prems(1,2) aged Some dh ds by auto
  qed
qed simp

lemma aged_seat: "config_ok cfg \<Longrightarrow> P l \<Longrightarrow> P (fst (ageSeat lib cfg now l))"
  unfolding ageSeat_def using aged_list [of cfg _ l lib now] contacts [of l]
  by (auto split: prod.splits intro!: changed)

lemma ensured: "seats_all P g \<Longrightarrow> seats_all P (ensureSeat seat g)"
  by (simp add: seats_all_def ensureSeat_def distinct_update update_conv' new)

lemma seat_kept: "seats_all P g \<Longrightarrow> P (seatLedger g seat)"
  by (simp add: seats_all_def seatLedger_def new split: option.splits)

lemma set_kept: "seats_all P g \<Longrightarrow> seat \<noteq> [] \<Longrightarrow> P l \<Longrightarrow> seats_all P (setSeat seat l g)"
  by (simp add: seats_all_def setSeat_def distinct_update update_conv')

lemma observe_kept:
  assumes "seats_all P g"
  shows "seats_all P (fst (observeSensor lib seat target known pos unit tm g))"
proof -
  obtain l code ch where o: "observeContact lib seat target known (positionObject pos) unit tm
      (seatLedger (ensureSeat seat g) seat) = (l, code, ch)" by (rule prod_cases3)
  have "P (fst (observeContact lib seat target known (positionObject pos) unit tm (seatLedger (ensureSeat seat g) seat)))"
    by (intro observed seat_kept ensured assms)
  then show ?thesis
    using set_kept [OF ensured [OF assms, of seat], of seat] assms
    by (simp add: observeSensor_def Let_def o)
qed

lemma report_kept:
  assumes "seats_all P g"
  shows "seats_all P (fst (createManualReport lib seat category title pos note tm g))"
proof -
  let ?l = "seatLedger (ensureSeat seat g) seat"
  have l: "P ?l" by (intro seat_kept ensured assms)
  have "P (bump (recordEntry (reportEntry c)
      (withRecords (\<lambda>cs. cs @ [reportedContact (manualId seat k) seat category title p note now])
        (?l\<lparr>sl_nextIntel := n\<rparr>))))" for c k p now n
    by (intro bumped recorded changed counted l) (simp_all add: reportEntry_def contacts [OF l] reported)
  then show ?thesis
    using set_kept [OF ensured [OF assms, of seat], of seat] assms ensured [OF assms, of seat]
    by (simp add: createManualReport_def Let_def)
qed

lemma share_kept:
  assumes g: "seats_all P g"
  shows "seats_all P (fst (share lib sender recipient sside rside reachable i note tm g))"
proof (cases "map_of (lg_seats g) sender")
  case (Some sl)
  have sl: "P sl" using g Some by (simp add: seats_all_def)
  show ?thesis
  proof (cases "findContact (sl_state sl) i")
    case (Some source)
    have q: "Q source"
      using contacts [OF sl] find_in [of _ "is_records (sl_state sl)" source] Some
      unfolding findContact_def list_all_iff by blast
    have i: "ic_id source = i" using Some by (auto simp: findContact_def dest: find_in)
    have r: "P (receiveShare sender recipient i note (time_format lib tm) source (seatLedger (ensureSeat recipient g) recipient))"
      by (intro received seat_kept ensured g q i)
    have s: "P (bump (recordEntry (sharedEntry i (time_format lib tm) recipient note sender source) sl))"
      by (intro bumped recorded sl) (simp add: sharedEntry_def)
    have "sender \<noteq> [] \<Longrightarrow> recipient \<noteq> [] \<Longrightarrow>
        seats_all P (setSeat recipient (receiveShare sender recipient i note (time_format lib tm) source
          (seatLedger (ensureSeat recipient g) recipient))
          (setSeat sender (bump (recordEntry (sharedEntry i (time_format lib tm) recipient note sender source) sl))
            (ensureSeat recipient g)))"
      by (intro set_kept ensured g s r)
    then show ?thesis
      using g ensured [OF g] Some \<open>map_of (lg_seats g) sender = Some sl\<close> by (simp add: share_def Let_def)
  qed (use g Some in \<open>simp add: share_def\<close>)
qed (use g in \<open>simp add: share_def\<close>)

lemma advance_kept:
  assumes g: "seats_all P g"
  shows "seats_all P (fst (advanceLedger lib now g))"
proof -
  have "config_ok (lg_config g)" using g by (simp add: seats_all_def)
  then show ?thesis
    using g by (auto simp: seats_all_def advanceLedger_def comp_def map_of_map case_prod_beta intro: aged_seat)
qed

lemma cleared: "seats_all P g \<Longrightarrow> seats_all P (clearLedger g)"
  by (simp add: seats_all_def clearLedger_def)

lemma call_kept: "seats_all P g \<Longrightarrow> seats_all P (ledger_call lib call g)"
proof (cases call)
  case (SetConfig cfg)
  then show "seats_all P g \<Longrightarrow> ?thesis" by (simp add: setConfig_def seats_all_def config_ok_def)
next
  case (RemoveSeat seat)
  then show "seats_all P g \<Longrightarrow> ?thesis" by (simp add: removeSeat_def seats_all_def distinct_delete delete_conv')
qed (simp_all add: observe_kept report_kept share_kept advance_kept ensured cleared)

lemma run_kept: "seats_all P (run_ledger lib calls)"
proof -
  have "seats_all P g \<Longrightarrow> seats_all P (fold (ledger_call lib) calls g)" for g
    by (induction calls arbitrary: g) (simp_all add: call_kept)
  moreover have "seats_all P emptyIntelLedger"
    by (simp add: seats_all_def emptyIntelLedger_def defaultIntelConfig_def config_ok_def)
  ultimately show ?thesis by (simp add: run_ledger_def)
qed

end

section \<open>Histories\<close>

abbreviation hid :: "nat \<Rightarrow> string" where
  "hid n \<equiv> ''ih_'' @ number n"

text \<open>The history holds the newest entries, numbered without gaps up to the counter.\<close>

definition history_ok :: "SeatLedger \<Rightarrow> bool" where
  "history_ok l \<longleftrightarrow> 1 \<le> sl_nextHistory l \<and> 0 \<le> is_revision (sl_state l)
     \<and> length (sl_history l) = min 256 (sl_nextHistory l - 1)
     \<and> map ih_id (sl_history l) = map hid [sl_nextHistory l - length (sl_history l)..<sl_nextHistory l]"

lemma history_ok_record:
  assumes l: "history_ok l" and h: "ih_id h = []"
  shows "history_ok (recordEntry h l)"
proof -
  let ?n = "sl_nextHistory l" and ?hs = "sl_history l"
  let ?new = "?hs @ [h\<lparr>ih_id := hid ?n\<rparr>]"
  have n: "1 \<le> ?n" "length ?hs = min 256 (?n - 1)" using l by (simp_all add: history_ok_def)
  have "map ih_id ?new = map hid [?n - length ?hs..<Suc ?n]"
    using l by (simp add: history_ok_def)
  then have "map ih_id (lastEntries ?new) = map hid (drop (length ?new - 256) [?n - length ?hs..<Suc ?n])"
    unfolding lastEntries_def by (simp only: drop_map [symmetric])
  also have "drop (length ?new - 256) [?n - length ?hs..<Suc ?n] = [Suc ?n - length (lastEntries ?new)..<Suc ?n]"
  proof -
    have "length ?hs \<le> ?n" using n by simp
    then show ?thesis by (simp add: lastEntries_def drop_upt del: upt_Suc)
  qed
  finally show ?thesis
    using l h n by (simp add: history_ok_def recordEntry_def lastEntries_def del: upt_Suc)
qed

interpretation histories: ledger_kept history_ok "\<lambda>_. True"
  by (unfold_locales, simp_all add: history_ok_record list_all_iff) (simp_all add: history_ok_def newSeatLedger_def)

section \<open>Contacts\<close>

definition contact_ok :: "IntelContact \<Rightarrow> bool" where
  "contact_ok c \<longleftrightarrow> 0 \<le> ic_confidence c \<and> ic_confidence c \<le> 100
     \<and> ic_freshness c \<in> {''live'', ''stale'', ''archived''}
     \<and> (ic_type c = ''sensorContact'' \<or> ic_type c = ''manualReport'' \<and> take 1 (ic_id c) = ''m'')
     \<and> (ic_actionable c \<longrightarrow> ic_freshness c = ''live'' \<and> ic_type c = ''sensorContact'')"

definition contacts_ok :: "SeatLedger \<Rightarrow> bool" where
  "contacts_ok l \<longleftrightarrow> list_all contact_ok (is_records (sl_state l))"

lemma decayed_nonneg: "0 \<le> decayedConfidence cfg c age"
  by (simp add: decayedConfidence_def)

lemma nextConfidence_falls: "0 \<le> ic_confidence c \<Longrightarrow>
  0 \<le> nextConfidence cfg c age \<and> nextConfidence cfg c age \<le> ic_confidence c"
  using decayed_nonneg [of cfg c age] by (simp add: nextConfidence_def Let_def min_def)

lemma aged_ok:
  assumes cfg: "config_ok cfg" and c: "contact_ok c" and a: "ageContact lib cfg now c = Some (d, e)"
  shows "contact_ok d"
proof -
  obtain t z where t: "time_parseMs lib (ic_lastObservedAt c) = Some (t, z)"
    using a by (auto simp: ageContact_def split: option.splits)
  let ?age = "ageAt now t"
  have d: "d = c\<lparr>ic_confidence := nextConfidence cfg c ?age\<rparr>
      \<or> d = c\<lparr>ic_freshness := freshnessForAge ?age cfg,
          ic_actionable := (freshnessForAge ?age cfg = ''live'' \<and> ic_type c = ''sensorContact''),
          ic_confidence := nextConfidence cfg c ?age\<rparr>"
    using a t by (simp add: ageContact_def Let_def split: if_splits)
  have "0 \<le> nextConfidence cfg c ?age \<and> nextConfidence cfg c ?age \<le> 100"
    using c nextConfidence_falls [of c cfg ?age] by (simp add: contact_ok_def)
  then show ?thesis using d c by (elim disjE) (auto simp: contact_ok_def freshnessForAge_def)
qed

interpretation contacts: ledger_kept contacts_ok contact_ok
proof unfold_locales
  show "contact_ok (receiveContact sender i nt now (mergeContact source nt c))"
    if "contact_ok source" "contact_ok c"
      "ic_id c = ic_id source \<or> ic_type c = ''sensorContact'' \<and> ic_type source = ''sensorContact''"
    for sender i nt now source c
    using that by (auto simp: contact_ok_def receiveContact_def mergeContact_def Let_def min_def)
  show "contact_ok d" if "config_ok cfg" "contact_ok c" "ageContact lib cfg tm c = Some (d, e)" for cfg c lib tm d e
    using that by (rule aged_ok)
qed (auto simp: contacts_ok_def newSeatLedger_def contact_ok_def refreshContact_def discoveredContact_def
    reportedContact_def manualId_def copiedContact_def receiveContact_def sensorId_def Let_def)

text \<open>C14. After every sequence of calls the history of every seat holds its newest entries, at most 256,
  numbered without gaps; every contact has a confidence from 0 to 100 and a known freshness, and only
  live sensor contacts are actionable.\<close>

theorem ledger_invariant: "seats_all (\<lambda>l. history_ok l \<and> contacts_ok l) (run_ledger lib calls)"
  using histories.run_kept [of lib calls] contacts.run_kept [of lib calls] unfolding seats_all_def by blast

section \<open>Sharing\<close>

lemma receive_sel [simp]: "ic_confidence (receiveContact sender i nt now c) = ic_confidence c"
  "ic_confidence (copiedContact recipient c) = ic_confidence c"
  "ic_confidence (mergeContact source nt c) = min (ic_confidence c) (ic_confidence source)"
  by (simp_all add: receiveContact_def copiedContact_def mergeContact_def Let_def)

lemma receiveShare_records:
  fixes l
  defines "old \<equiv> is_records (sl_state l)"
  assumes r: "is_records (sl_state (receiveShare sender recipient i nt now source l)) = rs"
  shows "length old \<le> length rs" "length rs \<le> Suc (length old)"
    "k < length old \<Longrightarrow> rs ! k = old ! k \<or> ic_confidence (rs ! k) = min (ic_confidence (old ! k)) (ic_confidence source)"
    "c \<in> set (drop (length old) rs) \<Longrightarrow> ic_confidence c = ic_confidence source"
proof -
  show "length old \<le> length rs" "length rs \<le> Suc (length old)"
    unfolding r [symmetric] old_def by (simp_all add: receiveShare_def Let_def split: option.splits)
  show "rs ! k = old ! k \<or> ic_confidence (rs ! k) = min (ic_confidence (old ! k)) (ic_confidence source)"
    if "k < length old"
  proof (cases "mergesInto (sl_state l) i source")
    case None
    with that show ?thesis
      unfolding r [symmetric] old_def by (simp add: receiveShare_def Let_def nth_append)
  next
    case (Some P)
    have rs: "rs = updateFirst P (\<lambda>c. receiveContact sender i nt now (mergeContact source nt c)) old"
      unfolding r [symmetric] old_def using Some by (simp add: receiveShare_def Let_def)
    show ?thesis
      using updateFirst_nth [OF that, of P "\<lambda>c. receiveContact sender i nt now (mergeContact source nt c)"]
      unfolding rs by (elim disjE) simp_all
  qed
  show "ic_confidence c = ic_confidence source" if "c \<in> set (drop (length old) rs)"
  proof (cases "mergesInto (sl_state l) i source")
    case None
    have "rs = old @ [receiveContact sender i nt now (copiedContact recipient source)]"
      unfolding r [symmetric] old_def using None by (simp add: receiveShare_def Let_def)
    with that show ?thesis by simp
  next
    case (Some P)
    have "length rs = length old"
      unfolding r [symmetric] old_def using Some by (simp add: receiveShare_def Let_def)
    with that show ?thesis by simp
  qed
qed

lemma share_ok:
  assumes s: "share lib sender recipient sside rside reachable i nt tm g = (g', r)" and ok: "lr_ok r"
  obtains sl source where "map_of (lg_seats g) sender = Some sl" "findContact (sl_state sl) i = Some source"
    "ic_freshness source \<noteq> ''archived''" "sender \<noteq> recipient" "reachable" "sside = rside"
    "g' = setSeat recipient (receiveShare sender recipient i nt (time_format lib tm) source (seatLedger g recipient))
       (setSeat sender (bump (recordEntry (sharedEntry i (time_format lib tm) recipient nt sender source) sl))
          (ensureSeat recipient g))"
proof -
  have allowed: "\<not> (sender = [] \<or> recipient = [] \<or> sender = recipient \<or> sside = [] \<or> sside \<noteq> rside
      \<or> \<not> reachable \<or> 500 < length nt)"
    using s ok by (auto simp: share_def ledgerFailure_def split: if_splits)
  then obtain sl where sl: "map_of (lg_seats g) sender = Some sl"
    using s ok by (cases "map_of (lg_seats g) sender") (auto simp: share_def ledgerFailure_def)
  then obtain source where so: "findContact (sl_state sl) i = Some source"
    using allowed s ok by (cases "findContact (sl_state sl) i") (auto simp: share_def ledgerFailure_def)
  have "ic_freshness source \<noteq> ''archived''"
    using allowed s ok sl so by (auto simp: share_def ledgerFailure_def)
  moreover have "g' = setSeat recipient (receiveShare sender recipient i nt (time_format lib tm) source (seatLedger g recipient))
       (setSeat sender (bump (recordEntry (sharedEntry i (time_format lib tm) recipient nt sender source) sl))
          (ensureSeat recipient g))"
    using allowed s ok sl so calculation
    by (simp add: share_def ledgerFailure_def Let_def seatLedger_ensure split: if_splits) auto
  ultimately show ?thesis using that sl so allowed by blast
qed

text \<open>An accepted share goes from a seat that has the contact, not archived, to another one it can
  reach on its own side. It raises no confidence of the recipient: each of its contacts keeps its
  confidence or falls, and a new one has that of the sender's contact. The sender's contacts and the
  other seats stay as they are.\<close>

theorem share_confidence:
  assumes "share lib sender recipient sside rside reachable i nt tm g = (g', r)" and "lr_ok r"
    and "old = is_records (stateOf g recipient)" and "new = is_records (stateOf g' recipient)"
  shows "\<exists>source \<in> set (is_records (stateOf g sender)). ic_id source = i \<and> ic_freshness source \<noteq> ''archived''
    \<and> reachable \<and> sside = rside \<and> length old \<le> length new \<and> length new \<le> Suc (length old)
    \<and> (\<forall>k < length old. ic_confidence (new ! k) \<le> ic_confidence (old ! k))
    \<and> (\<forall>c \<in> set (drop (length old) new). ic_confidence c = ic_confidence source)
    \<and> is_records (stateOf g' sender) = is_records (stateOf g sender)
    \<and> (\<forall>seat. seat \<noteq> sender \<and> seat \<noteq> recipient \<longrightarrow> seatLedger g' seat = seatLedger g seat)"
proof -
  obtain sl source where s: "map_of (lg_seats g) sender = Some sl" "findContact (sl_state sl) i = Some source"
      "ic_freshness source \<noteq> ''archived''" "sender \<noteq> recipient" "reachable" "sside = rside"
    and g': "g' = setSeat recipient (receiveShare sender recipient i nt (time_format lib tm) source (seatLedger g recipient))
       (setSeat sender (bump (recordEntry (sharedEntry i (time_format lib tm) recipient nt sender source) sl))
          (ensureSeat recipient g))"
    by (rule share_ok [OF assms(1,2)])
  have sl: "seatLedger g sender = sl" using s(1) by (simp add: seatLedger_def)
  have source: "source \<in> set (is_records (stateOf g sender))" "ic_id source = i"
    using find_in [OF s(2) [unfolded findContact_def]] by (simp_all add: stateOf_def sl)
  have "new = is_records (sl_state (receiveShare sender recipient i nt (time_format lib tm) source (seatLedger g recipient)))"
    by (simp add: assms(4) stateOf_def g' seatLedger_setSeat)
  note rs = receiveShare_records [OF this [symmetric], folded assms(3) [unfolded stateOf_def]]
  have "ic_confidence (new ! k) \<le> ic_confidence (old ! k)" if "k < length old" for k
    using rs(3) [OF that] by auto
  moreover have "seatLedger g' seat = seatLedger g seat" if "seat \<noteq> sender \<and> seat \<noteq> recipient" for seat
    using that by (simp add: g' seatLedger_setSeat seatLedger_ensure)
  moreover have "is_records (stateOf g' sender) = is_records (stateOf g sender)"
    using s(4) by (simp add: stateOf_def g' seatLedger_setSeat sl)
  ultimately show ?thesis using source s(3,5,6) rs(1,2,4) by blast
qed

end
