(* ===== verification/IntelLedgerPages.thy ===== *)
theory IntelLedgerPages
  imports IntelLedgerProps
begin

text \<open>
  Reading a history page by page, ageing, checkpoints of the intelligence ledger, and what it does at
  its edges.
\<close>

section \<open>Numbers as cursors\<close>

lemma to_longlong_number: "n < 2 ^ 63 \<Longrightarrow> to_longlong (number n) = Some (int n)"
proof -
  assume n: "n < 2 ^ 63"
  have "hd (number n) \<in> set (number n)" by (rule hd_in_set) simp
  then have "48 \<le> code_of (hd (number n))" by (blast dest: number_codes)
  then have "hd (number n) \<noteq> CHR ''-''" by auto
  then show ?thesis using n by (simp add: to_longlong_def qstring_simps digits_val_number)
qed

lemma historySequence_hid: "1 \<le> n \<Longrightarrow> n < 2 ^ 63 \<Longrightarrow> historySequence (hid n) = int n"
  by (simp add: historySequence_def starts_with_def to_longlong_number)

lemma parsedCursor_number: "n < 2 ^ 63 \<Longrightarrow> parsedCursor (number n) = int n"
  by (simp add: parsedCursor_def to_longlong_number)

section \<open>One page\<close>

abbreviation seq :: "IntelHistoryEntry \<Rightarrow> int" where
  "seq h \<equiv> historySequence (ih_id h)"

definition after :: "TimeLib \<Rightarrow> IntelHistoryQuery \<Rightarrow> int \<Rightarrow> IntelHistoryEntry list \<Rightarrow> IntelHistoryEntry list" where
  "after lib q cursor hs = filter (\<lambda>h. cursor < seq h \<and> queryMatches lib q h) hs"

lemma fillPage_after:
  "length (hp_entries page) \<le> most \<Longrightarrow>
   fillPage lib q cursor most seen hs page =
     (let k = most - length (hp_entries page); m = after lib q cursor hs in
      if length m \<le> k then page\<lparr>hp_entries := hp_entries page @ m\<rparr>
      else page\<lparr>hp_entries := hp_entries page @ take k m, hp_hasMore := True,
             hp_nextCursor := number (nat (if k = 0 then seen else seq (m ! (k - 1))))\<rparr>)"
proof (induction hs arbitrary: seen page)
  case Nil
  then show ?case by (simp add: after_def)
next
  case (Cons h hs)
  show ?case
  proof (cases "seq h \<le> cursor \<or> \<not> queryMatches lib q h")
    case True
    then show ?thesis using Cons by (auto simp: after_def Let_def)
  next
    case False
    then have m: "after lib q cursor (h # hs) = h # after lib q cursor hs" by (simp add: after_def)
    show ?thesis
    proof (cases "most \<le> length (hp_entries page)")
      case True
      then show ?thesis using False Cons.prems by (simp add: m Let_def)
    next
      case less: False
      obtain k where k: "most - length (hp_entries page) = Suc k" using less by (metis Suc_diff_Suc not_le)
      have "most - Suc (length (hp_entries page)) = k" using k by simp
      then show ?thesis
        using False less Cons.IH [of "page\<lparr>hp_entries := hp_entries page @ [h]\<rparr>" "seq h"]
        by (auto simp: m k Let_def nth_Cons split: nat.splits)
    qed
  qed
qed

lemma take_strict:
  assumes "sorted_wrt (\<lambda>a b. f a < (f b :: int)) xs" "0 < k" "k \<le> length xs"
  shows "filter (\<lambda>x. f (xs ! (k - 1)) < f x) xs = drop k xs"
  using assms
proof (induction xs arbitrary: k)
  case (Cons x xs)
  show ?case
  proof (cases "k = 1")
    case True
    with Cons.prems show ?thesis by (simp add: filter_id_conv)
  next
    case False
    then obtain j where j: "k = Suc j" "0 < j" using Cons.prems(2) by (cases k) auto
    have "j \<le> length xs" using Cons.prems(3) j by simp
    then have "xs ! (j - 1) \<in> set xs" using j by (intro nth_mem) simp
    then have "f x < f (xs ! (j - 1))" using Cons.prems(1) by simp
    with Cons j \<open>j \<le> length xs\<close> show ?thesis by (simp add: not_less less_imp_le)
  qed
qed simp

section \<open>All pages\<close>

text \<open>A client that asks for the next page until there is none; \<open>None\<close> when the fuel does not suffice.\<close>

fun collectPages :: "TimeLib \<Rightarrow> IntelLedger \<Rightarrow> string \<Rightarrow> nat \<Rightarrow> IntelHistoryQuery \<Rightarrow> IntelHistoryEntry list option" where
  "collectPages lib g seat 0 q = None"
| "collectPages lib g seat (Suc fuel) q =
     (let page = historyPage lib g seat q in
      if hp_hasMore page
      then map_option ((@) (hp_entries page)) (collectPages lib g seat fuel (q\<lparr>hq_cursor := hp_nextCursor page\<rparr>))
      else Some (hp_entries page))"

definition numbered :: "IntelHistoryEntry list \<Rightarrow> bool" where
  "numbered hs \<longleftrightarrow> sorted_wrt (\<lambda>a b. seq a < seq b) hs \<and> (\<forall>h \<in> set hs. 0 < seq h \<and> seq h < 2 ^ 63)"

lemma history_numbered:
  assumes "history_ok l" "sl_nextHistory l \<le> 2 ^ 63"
  shows "numbered (sl_history l)"
proof -
  let ?hs = "sl_history l" and ?a = "sl_nextHistory l - length (sl_history l)"
  have ids: "map ih_id ?hs = map hid [?a..<sl_nextHistory l]" and a: "1 \<le> ?a"
    using assms(1) unfolding history_ok_def by (blast, linarith)
  have "map seq ?hs = map historySequence (map ih_id ?hs)" by simp
  also have "\<dots> = map int [?a..<sl_nextHistory l]"
    unfolding ids map_map by (rule map_cong) (use a assms(2) in \<open>auto simp: historySequence_hid [simplified]\<close>)
  finally have s: "map seq ?hs = map int [?a..<sl_nextHistory l]" .
  have "sorted_wrt (\<lambda>a b. a < b) (map seq ?hs)"
    unfolding s by (simp add: sorted_wrt_map sorted_wrt_upt)
  moreover have "0 < x \<and> x < 2 ^ 63" if "x \<in> set (map seq ?hs)" for x
    using that a assms(2) unfolding s by auto
  ultimately show ?thesis by (auto simp: numbered_def sorted_wrt_map)
qed

lemma queryMatches_cursor [simp]: "queryMatches lib (q\<lparr>hq_cursor := s\<rparr>) = queryMatches lib q"
  by (rule ext) (simp add: queryMatches_def inPeriod_def)

lemma after_cursor [simp]: "after lib (q\<lparr>hq_cursor := s\<rparr>) = after lib q"
  by (intro ext) (simp add: after_def)

lemma historyPage_seat:
  fixes q :: IntelHistoryQuery and l :: SeatLedger and lib :: TimeLib
  assumes "map_of (lg_seats g) seat = Some l"
  defines "k \<equiv> nat (max 1 (min 200 (hq_pageSize q)))" and "m \<equiv> after lib q (parsedCursor (hq_cursor q)) (sl_history l)"
  shows "historyPage lib g seat q = (if length m \<le> k
      then \<lparr>hp_entries = m, hp_nextCursor = [], hp_hasMore = False, hp_revision = is_revision (stateOf g seat)\<rparr>
      else \<lparr>hp_entries = take k m, hp_nextCursor = number (nat (seq (m ! (k - 1)))), hp_hasMore = True,
             hp_revision = is_revision (stateOf g seat)\<rparr>)"
  using assms by (simp add: historyPage_def fillPage_after Let_def)

lemma collect_after:
  assumes l: "map_of (lg_seats g) seat = Some l" and hs: "numbered (sl_history l)"
  shows "length (after lib q (parsedCursor (hq_cursor q)) (sl_history l)) < fuel \<Longrightarrow>
    collectPages lib g seat fuel q = Some (after lib q (parsedCursor (hq_cursor q)) (sl_history l))"
proof (induction fuel arbitrary: q)
  case (Suc fuel)
  define k where "k = nat (max 1 (min 200 (hq_pageSize q)))"
  define m where "m = after lib q (parsedCursor (hq_cursor q)) (sl_history l)"
  note page = historyPage_seat [OF l, of lib q, folded k_def m_def]
  show ?case
  proof (cases "length m \<le> k")
    case True
    then show ?thesis unfolding m_def [symmetric] by (simp add: page)
  next
    case False
    let ?last = "m ! (k - 1)" and ?q = "q\<lparr>hq_cursor := number (nat (seq (m ! (k - 1))))\<rparr>"
    have k: "0 < k" "k \<le> length m" using False by (simp_all add: k_def)
    then have "?last \<in> set m" by (intro nth_mem) simp
    then have "?last \<in> set (sl_history l)" and later: "parsedCursor (hq_cursor q) < seq ?last"
      unfolding m_def after_def by simp_all
    then have "0 < seq ?last \<and> seq ?last < 2 ^ 63" using hs unfolding numbered_def by blast
    then have cursor: "parsedCursor (hq_cursor ?q) = seq ?last"
      using parsedCursor_number [of "nat (seq ?last)"] by (simp add: nat_less_iff)
    have "after lib ?q (seq ?last) (sl_history l) = filter (\<lambda>h. seq ?last < seq h) m"
      using later unfolding m_def after_def by (auto simp: filter_filter intro: filter_cong)
    also have "\<dots> = drop k m"
      using hs k by (intro take_strict) (simp_all add: m_def after_def numbered_def sorted_wrt_filter)
    finally have rest: "after lib ?q (parsedCursor (hq_cursor ?q)) (sl_history l) = drop k m"
      unfolding cursor .
    have "length (drop k m) < fuel" using Suc.prems k unfolding m_def [symmetric] by simp
    then have "collectPages lib g seat fuel ?q = Some (drop k m)"
      using Suc.IH [of ?q] unfolding rest by simp
    then show ?thesis using False unfolding m_def [symmetric] by (simp add: page)
  qed
qed simp

text \<open>C22. In a ledger that satisfies the invariant, asking from the empty cursor for page after page ends,
  within one more page than there are entries, and gives exactly the entries that match the query, each
  once and in their order.\<close>

theorem history_pages_complete:
  assumes "seats_all history_ok g" and "map_of (lg_seats g) seat = Some l" and "sl_nextHistory l \<le> 2 ^ 63"
    and "hq_cursor q = []"
  shows "collectPages lib g seat (Suc (length (sl_history l))) q = Some (filter (queryMatches lib q) (sl_history l))"
proof -
  have n: "numbered (sl_history l)"
    using assms by (intro history_numbered) (auto simp: seats_all_def)
  have "after lib q (parsedCursor (hq_cursor q)) (sl_history l) = filter (queryMatches lib q) (sl_history l)"
    unfolding after_def by (rule filter_cong) (use n assms(4) in \<open>auto simp: parsedCursor_def numbered_def\<close>)
  then show ?thesis
    using collect_after [OF assms(2) n, of lib q "Suc (length (sl_history l))"] length_filter_le
    by (simp add: le_imp_less_Suc del: collectPages.simps)
qed

section \<open>Ageing\<close>

definition agedContact :: "TimeLib \<Rightarrow> IntelConfig \<Rightarrow> int \<Rightarrow> IntelContact \<Rightarrow> IntelContact" where
  "agedContact lib cfg now c = (case ageContact lib cfg now c of None \<Rightarrow> c | Some (d, e) \<Rightarrow> d)"

lemma ageContacts_fst: "fst (ageContacts lib cfg now cs l) = map (agedContact lib cfg now) cs"
  by (induction cs arbitrary: l) (simp_all add: agedContact_def split: option.splits prod.splits, metis fst_conv)

lemma ageContacts_idle:
  "\<forall>c \<in> set cs. ageContact lib cfg now c = None \<Longrightarrow> ageContacts lib cfg now cs l = (cs, l, 0)"
  by (induction cs arbitrary: l) auto

lemma ageSeat_records:
  "is_records (sl_state (fst (ageSeat lib cfg now l))) = map (agedContact lib cfg now) (is_records (sl_state l))"
  using ageContacts_fst [of lib cfg now "is_records (sl_state l)" l]
  by (simp add: ageSeat_def case_prod_beta)

lemma nextConfidence_again:
  "nextConfidence cfg (c\<lparr>ic_confidence := nextConfidence cfg c age\<rparr>) age = nextConfidence cfg c age"
  by (simp add: nextConfidence_def decayedConfidence_def Let_def)

lemma nextConfidence_only: "nextConfidence cfg (c\<lparr>ic_freshness := f, ic_actionable := a, ic_confidence := x\<rparr>) age =
  nextConfidence cfg (c\<lparr>ic_confidence := x\<rparr>) age"
  by (simp add: nextConfidence_def decayedConfidence_def Let_def)

lemma agedContact_readable:
  assumes "time_parseMs lib (ic_lastObservedAt c) = Some (t, z)"
  shows "ic_freshness (agedContact lib cfg now c) = freshnessForAge (ageAt now t) cfg
    \<and> \<bar>ic_confidence (agedContact lib cfg now c) - nextConfidence cfg c (ageAt now t)\<bar> < 1 / 2"
  using assms by (auto simp: agedContact_def ageContact_def Let_def abs_minus_commute)

lemma agedContact_again: "ageContact lib cfg now (agedContact lib cfg now c) = None"
proof (cases "time_parseMs lib (ic_lastObservedAt c)")
  case None
  then show ?thesis by (simp add: agedContact_def ageContact_def)
next
  case (Some tz)
  obtain t z where tz: "tz = (t, z)" by (cases tz)
  show ?thesis
    using Some tz
    by (simp add: agedContact_def ageContact_def Let_def nextConfidence_only nextConfidence_again)
qed

lemma withRecords_same: "withRecords (\<lambda>_. is_records (sl_state l)) l = l"
  by (simp add: withRecords_def)

lemma ageSeat_again: "ageSeat lib cfg now (fst (ageSeat lib cfg now l)) = (fst (ageSeat lib cfg now l), 0)"
proof -
  let ?l = "fst (ageSeat lib cfg now l)"
  have "ageContacts lib cfg now (is_records (sl_state ?l)) ?l = (is_records (sl_state ?l), ?l, 0)"
    by (rule ageContacts_idle) (simp add: ageSeat_records agedContact_again)
  then show ?thesis unfolding ageSeat_def [of lib cfg now ?l] by (simp add: withRecords_same)
qed

lemma seatLedger_advance:
  "seatLedger (fst (advanceLedger lib now g)) seat =
     (if map_of (lg_seats g) seat = None then newSeatLedger
      else fst (ageSeat lib (lg_config g) now (seatLedger g seat)))"
  by (simp add: advanceLedger_def seatLedger_def map_of_map case_prod_beta' [symmetric] split: option.split)

text \<open>Ageing gives every contact whose time stamp is readable the freshness of its age and, within half
  a point, the confidence that decays to zero between the two limits; no confidence rises. Ageing again
  at the same instant changes nothing and reports no change.\<close>

theorem ageing_settles:
  "advanceLedger lib now (fst (advanceLedger lib now g)) = (fst (advanceLedger lib now g), 0)
   \<and> (\<forall>seat k t z. k < length (is_records (stateOf g seat))
        \<and> time_parseMs lib (ic_lastObservedAt (is_records (stateOf g seat) ! k)) = Some (t, z)
      \<longrightarrow> ic_freshness (is_records (stateOf (fst (advanceLedger lib now g)) seat) ! k)
            = freshnessForAge (ageAt now t) (lg_config g)
        \<and> \<bar>ic_confidence (is_records (stateOf (fst (advanceLedger lib now g)) seat) ! k)
            - nextConfidence (lg_config g) (is_records (stateOf g seat) ! k) (ageAt now t)\<bar> < 1 / 2)"
proof (intro conjI allI impI)
  show "advanceLedger lib now (fst (advanceLedger lib now g)) = (fst (advanceLedger lib now g), 0)"
    by (simp add: advanceLedger_def comp_def case_prod_beta ageSeat_again)
next
  fix seat k t z
  let ?c = "is_records (stateOf g seat) ! k" and ?d = "is_records (stateOf (fst (advanceLedger lib now g)) seat) ! k"
  assume a: "k < length (is_records (stateOf g seat)) \<and> time_parseMs lib (ic_lastObservedAt ?c) = Some (t, z)"
  then obtain l where l: "map_of (lg_seats g) seat = Some l"
    by (auto simp: stateOf_def seatLedger_def newSeatLedger_def split: option.splits)
  then have d: "?d = agedContact lib (lg_config g) now ?c"
    using a l by (simp add: stateOf_def seatLedger_advance ageSeat_records)
  show "ic_freshness ?d = freshnessForAge (ageAt now t) (lg_config g)"
    and "\<bar>ic_confidence ?d - nextConfidence (lg_config g) ?c (ageAt now t)\<bar> < 1 / 2"
    using agedContact_readable [of lib ?c t z] a unfolding d by blast+
qed

section \<open>Checkpoints\<close>

definition savableSeat :: "TimeLib \<Rightarrow> SeatLedger \<Rightarrow> bool" where
  "savableSeat lib l \<longleftrightarrow> validateIntelState lib (intelStateToJson (sl_state l))
     \<and> list_all (\<lambda>h. validateIntelHistoryEntry lib (historyToJson h)) (sl_history l) \<and> length (sl_history l) \<le> 256
     \<and> 1 \<le> sl_nextIntel l \<and> sl_nextIntel l < 2 ^ 64 \<and> 1 \<le> sl_nextHistory l \<and> sl_nextHistory l < 2 ^ 64"

lemma counter_roundtrip: "1 \<le> n \<Longrightarrow> n < 2 ^ 64 \<Longrightarrow> counterFromJson (counterToJson n) = n"
proof -
  assume n: "1 \<le> n" "n < 2 ^ 64"
  have "jtoInteger 1 (counterToJson n) = (if n < 2 ^ 63 then int n else int n - 2 ^ 64)"
    unfolding counterToJson_def by (rule jtoInteger_jint) (use n in auto)
  moreover have "(if n < 2 ^ 63 then int n else int n - 2 ^ 64) mod 2 ^ 64 = int n"
  proof (cases "n < 2 ^ 63")
    case False
    have "(int n - 2 ^ 64) mod 2 ^ 64 = int n mod 2 ^ 64" by simp
    with False n show ?thesis by simp
  qed (use n in simp)
  ultimately show ?thesis using n by (simp add: counterFromJson_def)
qed

lemma restoreHistory_entries:
  "list_all (\<lambda>h. validateIntelHistoryEntry lib (historyToJson h)) hs \<Longrightarrow>
     restoreHistory lib (map (\<lambda>h. JObj (historyToJson h)) hs) = Some hs"
  by (induction hs) (simp_all add: historyFromJson_def)

lemma restoreSeat_savable:
  assumes "savableSeat lib l"
  shows "restoreSeat lib (seatToJson l) = Some l"
  using assms counter_roundtrip [of "sl_nextIntel l"] counter_roundtrip [of "sl_nextHistory l"]
  by (cases l) (simp add: savableSeat_def restoreSeat_def seatToJson_def json_simps state_codec restoreHistory_entries
      lastEntries_def)

lemma restoreSeats_savable:
  "\<forall>k \<in> set ks. k \<noteq> [] \<and> savableSeat lib (f k) \<Longrightarrow>
     restoreSeats lib (map (\<lambda>k. (k, JObj (seatToJson (f k)))) ks) = Some (map (\<lambda>k. (k, f k)) ks)"
  by (induction ks) (simp_all add: restoreSeat_savable)

lemma restoreSeats_None: "k \<in> set ks \<Longrightarrow> restoreSeat lib (seatToJson (f k)) = None \<Longrightarrow>
  restoreSeats lib (map (\<lambda>k. (k, JObj (seatToJson (f k)))) ks) = None"
  by (induction ks) (auto split: option.splits)

text \<open>The checkpoint of a ledger whose seats validate is accepted, whatever ledger it replaces, and gives
  every seat and the configuration back.\<close>

theorem ledger_checkpoint_roundtrip:
  assumes "seats_all (savableSeat lib) g"
  shows "\<exists>g'. restoreLedger lib (ledgerToJson g) g0 = Some g' \<and> map_of (lg_seats g') = map_of (lg_seats g)
    \<and> lg_config g' = lg_config g"
proof -
  let ?ks = "sort (map fst (lg_seats g))"
  have "k \<noteq> [] \<and> savableSeat lib (seatLedger g k)" if "k \<in> set ?ks" for k
  proof -
    obtain l where "map_of (lg_seats g) k = Some l"
      using \<open>k \<in> set ?ks\<close> by (cases "map_of (lg_seats g) k") (auto simp: map_of_eq_None_iff)
    then show ?thesis using assms by (simp add: seats_all_def seatLedger_def)
  qed
  then have s: "restoreSeats lib (map (\<lambda>k. (k, JObj (seatToJson (seatLedger g k)))) ?ks) =
      Some (map (\<lambda>k. (k, seatLedger g k)) ?ks)"
    by (intro restoreSeats_savable) blast
  have c: "0 < cfg_stale (lg_config g)" "cfg_stale (lg_config g) < cfg_archive (lg_config g)"
    using assms by (simp_all add: seats_all_def config_ok_def)
  have r: "restoreLedger lib (ledgerToJson g) g0 = Some \<lparr>lg_seats = map (\<lambda>k. (k, seatLedger g k)) ?ks, lg_config = lg_config g\<rparr>"
    using c s by (cases "lg_config g") (simp add: restoreLedger_def ledgerToJson_def json_simps)
  have "map_of (map (\<lambda>k. (k, seatLedger g k)) ?ks) k = map_of (lg_seats g) k" for k
  proof -
    have "k \<in> set ?ks \<longleftrightarrow> map_of (lg_seats g) k \<noteq> None" by (simp add: map_of_eq_None_iff)
    then show ?thesis unfolding map_of_map_restrict
      by (cases "map_of (lg_seats g) k") (simp_all add: restrict_map_def seatLedger_def)
  qed
  with r show ?thesis by auto
qed

section \<open>At the edges\<close>

lemma observe_new:
  assumes "seat \<noteq> []" "target \<noteq> []" "unit \<noteq> []" "ledgerPosition pos"
    and "findContact (stateOf g seat) (sensorId seat target) = None"
    and o: "observeSensor lib seat target known pos unit tm g = (g', r)"
  shows "lr_ok r" "length (is_records (stateOf g' seat)) = Suc (length (is_records (stateOf g seat)))"
    "map_of (lg_seats g') seat = Some (seatLedger g' seat)"
  using assms
  by (auto simp: observeSensor_def Let_def observeContact_def stateOf_def seatLedger_ensure seatLedger_setSeat)
    (auto simp: setSeat_def update_conv' seatLedger_def)

text \<open>An observation of a new target by a seat that already has 4096 contacts is accepted, although manual
  reports and shares are refused there. The seat then has a state that no client accepts, every delta
  towards it is empty, and the checkpoint of the ledger is refused by every restore.\<close>

theorem observation_beyond_capacity:
  assumes "length (is_records (stateOf g seat)) = 4096"
    and "findContact (stateOf g seat) (sensorId seat target) = None"
    and "seat \<noteq> []" "target \<noteq> []" "unit \<noteq> []" "ledgerPosition pos"
    and "observeSensor lib seat target known pos unit tm g = (g', r)"
  shows "lr_ok r \<and> \<not> validateIntelState lib (intelStateToJson (stateOf g' seat))
    \<and> makeIntelDelta lib before (stateOf g' seat) = [] \<and> restoreLedger lib (ledgerToJson g') g0 = None"
proof -
  note o = observe_new [OF assms(3-6,2,7)]
  have invalid: "\<not> validateIntelState lib (intelStateToJson (stateOf g' seat))"
    using o(2) assms(1) by (simp add: validate_state_iff)
  have "restoreSeat lib (seatToJson (seatLedger g' seat)) = None"
    using invalid by (simp add: restoreSeat_def seatToJson_def json_simps intelStateFromJson_def stateOf_def)
  moreover have "seat \<in> set (sort (map fst (lg_seats g')))"
    using o(3) by (auto dest: map_of_SomeD intro: rev_image_eqI)
  ultimately have "restoreSeats lib (map (\<lambda>k. (k, JObj (seatToJson (seatLedger g' k)))) (sort (map fst (lg_seats g')))) = None"
    by (intro restoreSeats_None [of seat]) simp_all
  then have "restoreLedger lib (ledgerToJson g') g0 = None"
    by (simp add: restoreLedger_def ledgerToJson_def json_simps Let_def)
  moreover have "makeIntelDelta lib before (stateOf g' seat) = []"
    using invalid by (simp add: makeIntelDelta_def)
  ultimately show ?thesis using o(1) invalid by blast
qed

text \<open>An observation can be due for the history but not for the contact. It is then written to the
  history and answered as an update, while the contact, the revision and the flag \<open>changed\<close> say that
  nothing has happened.\<close>

theorem observation_logged_not_stored:
  assumes "findContact (stateOf g seat) (sensorId seat target) = Some c"
    and "historyDue lib (seatLedger g seat) c known (positionObject pos) unit tm"
    and "\<not> observationDue lib c known (positionObject pos) unit tm"
    and "seat \<noteq> []" "target \<noteq> []" "unit \<noteq> []" "ledgerPosition pos"
    and "observeSensor lib seat target known pos unit tm g = (g', r)"
  shows "lr_ok r \<and> lr_code r = ''UPDATED'' \<and> \<not> lr_changed r \<and> stateOf g' seat = stateOf g seat
    \<and> sl_nextHistory (seatLedger g' seat) = sl_nextHistory (seatLedger g seat) + 1"
  using assms
  by (auto simp: observeSensor_def Let_def observeContact_def stateOf_def seatLedger_ensure seatLedger_setSeat
      recordEntry_def sensorEntry_def)

text \<open>The id of a sensor contact does not determine seat and target. Here the seat \<open>a\<close> tracks the target
  \<open>b_c\<close> and the seat \<open>a_b\<close> the target \<open>c\<close>; both contacts have the same id, and sharing the second with
  \<open>a\<close> replaces the first: \<open>a\<close> has lost its own target.\<close>

theorem share_replaces_other_target:
  "map (\<lambda>c. (ic_id c, ic_target c)) (is_records (stateOf (run_ledger clock_lib
      [Observe ''a'' ''b_c'' [] [(''x'', jint 1), (''y'', jint 1)] ''u1'' 0,
       Observe ''a_b'' ''c'' [] [(''x'', jint 9), (''y'', jint 9)] ''u2'' 0]) ''a''))
     = [(''sensor_a_b_c'', ''b_c'')]
   \<and> map (\<lambda>c. (ic_id c, ic_target c)) (is_records (stateOf (run_ledger clock_lib
      [Observe ''a'' ''b_c'' [] [(''x'', jint 1), (''y'', jint 1)] ''u1'' 0,
       Observe ''a_b'' ''c'' [] [(''x'', jint 9), (''y'', jint 9)] ''u2'' 0,
       Share ''a_b'' ''a'' ''red'' ''red'' True ''sensor_a_b_c'' [] 0]) ''a''))
     = [(''sensor_a_b_c'', ''c'')]"
  by code_simp

section \<open>Instances\<close>

definition exStamps :: "(string \<times> int) list" where
  "exStamps = [(''a'', 0), (''b'', 1), (''c'', 4000), (''d'', 5000), (''e'', 20000)]"

definition ms_lib :: TimeLib where
  "ms_lib = \<lparr>time_parseMs = (\<lambda>s. map_option (\<lambda>n. (n, 0)) (map_of exStamps s)), time_parseSec = (\<lambda>s. None),
     time_format = (\<lambda>t. case find (\<lambda>(s, n). n = t) exStamps of None \<Rightarrow> ''z'' | Some (s, n) \<Rightarrow> s)\<rparr>"

definition at_xy :: "int \<Rightarrow> int \<Rightarrow> jobject" where
  "at_xy x y = [(''x'', jint x), (''y'', jint y)]"

definition exCalls :: "LedgerCall list" where
  "exCalls = [Observe ''s1'' ''t1'' [] (at_xy 5 6) ''u1'' 0, Report ''s2'' ''tank'' ''seen'' (at_xy 7 8) [] 1,
     Observe ''s1'' ''t1'' [] (at_xy 5 6) ''u1'' 4000]"

abbreviation exLedger :: IntelLedger where
  "exLedger \<equiv> run_ledger ms_lib exCalls"

lemma share_confidence_witness:
  "\<exists>source \<in> set (is_records (stateOf exLedger ''s1'')). ic_id source = ''sensor_s1_t1''"
proof -
  let ?s = "share ms_lib ''s1'' ''s2'' ''red'' ''red'' True ''sensor_s1_t1'' [] 5000 exLedger"
  have "lr_ok (snd ?s)" by code_simp
  note shared = share_confidence [OF prod.collapse [symmetric] this refl refl]
  show ?thesis by (rule bexE [OF shared], elim conjE, rule bexI, assumption, assumption)
qed

lemma exLedger_known: "map_of (lg_seats exLedger) ''s1'' \<noteq> None"
proof -
  have "list_ex (\<lambda>(seat, l). seat = ''s1'') (lg_seats exLedger)" by code_simp
  then show ?thesis by (auto simp: list_ex_iff map_of_eq_None_iff intro: rev_image_eqI)
qed

lemma exLedger_seat: "map_of (lg_seats exLedger) ''s1'' = Some (seatLedger exLedger ''s1'')"
  using exLedger_known by (auto simp: seatLedger_def)

lemma exLedger_counter: "sl_nextHistory (seatLedger exLedger ''s1'') = 2"
  by code_simp

definition exQuery :: IntelHistoryQuery where
  "exQuery = \<lparr>hq_cursor = [], hq_pageSize = 1, hq_target = [], hq_type = [], hq_freshness = [], hq_sourceSeat = [],
     hq_from = [], hq_to = []\<rparr>"

lemma history_pages_complete_witness:
  "collectPages ms_lib exLedger ''s1'' (Suc (length (sl_history (seatLedger exLedger ''s1'')))) exQuery
    = Some (filter (queryMatches ms_lib exQuery) (sl_history (seatLedger exLedger ''s1'')))"
proof (rule history_pages_complete [OF histories.run_kept exLedger_seat])
  show "sl_nextHistory (seatLedger exLedger ''s1'') \<le> 2 ^ 63" unfolding exLedger_counter by simp
  show "hq_cursor exQuery = []" by (simp add: exQuery_def)
qed

lemma ageing_settles_witness:
  "ic_freshness (is_records (stateOf (fst (advanceLedger ms_lib 20000 exLedger)) ''s1'') ! 0) = ''stale''"
proof -
  have "0 < length (is_records (stateOf exLedger ''s1''))
      \<and> time_parseMs ms_lib (ic_lastObservedAt (is_records (stateOf exLedger ''s1'') ! 0)) = Some (4000, 0)"
    by code_simp
  moreover have "freshnessForAge (ageAt 20000 4000) (lg_config exLedger) = ''stale''" by code_simp
  ultimately show ?thesis
    using ageing_settles [THEN conjunct2, rule_format, of 0 exLedger "''s1''" ms_lib 4000 0 20000] by simp
qed

lemma ledger_checkpoint_roundtrip_witness:
  "\<exists>g'. restoreLedger clock_lib (ledgerToJson (run_ledger clock_lib exCalls)) emptyIntelLedger = Some g'
    \<and> map_of (lg_seats g') = map_of (lg_seats (run_ledger clock_lib exCalls))
    \<and> lg_config g' = lg_config (run_ledger clock_lib exCalls)"
proof (rule ledger_checkpoint_roundtrip)
  have "list_all (\<lambda>(seat, l). seat \<noteq> [] \<and> validateIntelState clock_lib (intelStateToJson (sl_state l))
        \<and> list_all (\<lambda>h. validateIntelHistoryEntry clock_lib (historyToJson h)) (sl_history l)
        \<and> length (sl_history l) \<le> 3 \<and> 1 \<le> sl_nextIntel l \<and> sl_nextIntel l \<le> 3
        \<and> 1 \<le> sl_nextHistory l \<and> sl_nextHistory l \<le> 3) (lg_seats (run_ledger clock_lib exCalls))"
    by code_simp
  moreover have "distinct (map fst (lg_seats (run_ledger clock_lib exCalls)))" by code_simp
  moreover have "config_ok (lg_config (run_ledger clock_lib exCalls))" by code_simp
  ultimately show "seats_all (savableSeat clock_lib) (run_ledger clock_lib exCalls)"
    unfolding seats_all_def savableSeat_def by (fastforce simp: list_all_iff dest: map_of_SomeD)
qed

definition fullLedger :: IntelLedger where
  "fullLedger = \<lparr>lg_seats = [(''s1'', newSeatLedger\<lparr>sl_state :=
     \<lparr>is_revision = 1, is_records = replicate 4096 (a_report ''i1'' ''live''), is_shareTargets = []\<rparr>\<rparr>)],
     lg_config = defaultIntelConfig\<rparr>"

lemma observation_beyond_capacity_witness:
  "restoreLedger ms_lib (ledgerToJson (fst (observeSensor ms_lib ''s1'' ''t1'' [] (at_xy 1 2) ''u1'' 0 fullLedger)))
     emptyIntelLedger = None"
proof -
  have "stateOf fullLedger ''s1'' =
      \<lparr>is_revision = 1, is_records = replicate 4096 (a_report ''i1'' ''live''), is_shareTargets = []\<rparr>"
    by (simp add: fullLedger_def stateOf_def seatLedger_def)
  then have "length (is_records (stateOf fullLedger ''s1'')) = 4096"
    "findContact (stateOf fullLedger ''s1'') (sensorId ''s1'' ''t1'') = None"
    by (simp_all add: findContact_def find_None_iff a_report_def sensorId_def)
  then have "lr_ok (snd (observeSensor ms_lib ''s1'' ''t1'' [] (at_xy 1 2) ''u1'' 0 fullLedger))
    \<and> \<not> validateIntelState ms_lib (intelStateToJson
        (stateOf (fst (observeSensor ms_lib ''s1'' ''t1'' [] (at_xy 1 2) ''u1'' 0 fullLedger)) ''s1''))
    \<and> makeIntelDelta ms_lib state_a (stateOf (fst (observeSensor ms_lib ''s1'' ''t1'' [] (at_xy 1 2) ''u1'' 0 fullLedger)) ''s1'') = []
    \<and> restoreLedger ms_lib (ledgerToJson (fst (observeSensor ms_lib ''s1'' ''t1'' [] (at_xy 1 2) ''u1'' 0 fullLedger)))
        emptyIntelLedger = None"
    by (rule observation_beyond_capacity [OF _ _ _ _ _ _ prod.collapse [symmetric]])
      (simp_all add: at_xy_def ledgerPosition_def notNegative_def json_simps jint_def)
  then show ?thesis by blast
qed

lemma observation_logged_not_stored_witness:
  "\<not> lr_changed (snd (observeSensor ms_lib ''s1'' ''t1'' [] (at_xy 6 6) ''u1'' 5000 exLedger))"
proof -
  let ?c = "the (findContact (stateOf exLedger ''s1'') (sensorId ''s1'' ''t1''))"
  have "findContact (stateOf exLedger ''s1'') (sensorId ''s1'' ''t1'') = Some ?c" by code_simp
  moreover have "historyDue ms_lib (seatLedger exLedger ''s1'') ?c [] (positionObject (at_xy 6 6)) ''u1'' 5000" by code_simp
  moreover have "\<not> observationDue ms_lib ?c [] (positionObject (at_xy 6 6)) ''u1'' 5000" by code_simp
  moreover have "ledgerPosition (at_xy 6 6)" by code_simp
  ultimately show ?thesis
    using observation_logged_not_stored [OF _ _ _ _ _ _ _ prod.collapse [symmetric]] by blast
qed

end
