(* ===== verification/RoomState.thy ===== *)
theory RoomState
  imports Json "HOL-Library.AList" "HOL-Library.List_Lexorder" "HOL-Library.Char_ord" "HOL-Library.Word"
begin

text \<open>
  The state of the authoritative room (\<open>src/server/game/AuthoritativeRoom.cpp\<close>, \<open>AuthoritativeRoom.h\<close>):
  seats, transfers, remembered operations, and their JSON.

  A hash table is a list of pairs with distinct keys; its order stands for the order of the iteration.
  Coordinates are finite and exact, the revision and the number of the next unit (64 bits in the code) do
  not wrap, user ids are integers. A scenario unit has the fields the room reads. The Chinese names of
  the seats without a player are replaced by \<open>fixed\<close>, \<open>auto\<close> and \<open>server\<close>.
\<close>

unbundle bit_operations_syntax

record RoomPos =
  rp_x :: rat
  rp_y :: rat
  rp_alt :: rat

definition origin :: RoomPos where
  "origin = \<lparr>rp_x = 0, rp_y = 0, rp_alt = 0\<rparr>"

record ScenarioUnit =
  su_id :: string
  su_kind :: string
  su_side :: string
  su_pos :: RoomPos
  su_maxHp :: rat

record Seat =
  st_id :: string
  st_type :: string
  st_side :: string
  st_user :: int
  st_humanUser :: int
  st_username :: string
  st_ctype :: string
  st_cid :: string
  st_mode :: string
  st_template :: string
  st_source :: string
  st_unit :: string
  st_unitName :: string
  st_pos :: RoomPos
  st_connected :: bool
  st_deployed :: bool
  st_ready :: bool
  st_revision :: nat
  st_pending :: bool
  st_redeploy :: bool

definition noSeat :: Seat where
  "noSeat = \<lparr>st_id = [], st_type = [], st_side = [], st_user = 0, st_humanUser = 0, st_username = [],
     st_ctype = ''human'', st_cid = [], st_mode = ''human'', st_template = [], st_source = [], st_unit = [],
     st_unitName = [], st_pos = origin, st_connected = True, st_deployed = False, st_ready = False,
     st_revision = 0, st_pending = False, st_redeploy = False\<rparr>"

record RoomResult =
  rr_ok :: bool
  rr_code :: string
  rr_revision :: nat
  rr_duplicate :: bool
  rr_successor :: int
  rr_forfeit :: bool
  rr_winner :: string

record Transfer =
  tr_user :: int
  tr_target :: string
  tr_template :: string
  tr_revision :: nat

record Room =
  rm_templates :: "(string \<times> ScenarioUnit) list"
  rm_sources :: "(string \<times> ScenarioUnit) list"
  rm_seatSources :: "(string \<times> string) list"
  rm_limits :: "(string \<times> int) list"
  rm_seats :: "(string \<times> Seat) list"
  rm_transfers :: "(int \<times> Transfer) list"
  rm_operations :: "(string \<times> RoomResult) list"
  rm_order :: "string list"
  rm_departed :: "int list"
  rm_phase :: string
  rm_mode :: string
  rm_vmf :: bool
  rm_winner :: string
  rm_revision :: nat
  rm_nextUnit :: nat
  rm_rng :: "64 word"

definition newRoom :: "64 word \<Rightarrow> Room" where
  "newRoom seed = \<lparr>rm_templates = [], rm_sources = [], rm_seatSources = [], rm_limits = [], rm_seats = [],
     rm_transfers = [], rm_operations = [], rm_order = [], rm_departed = [], rm_phase = ''preparing'',
     rm_mode = ''pvp'', rm_vmf = False, rm_winner = [], rm_revision = 1, rm_nextUnit = 1,
     rm_rng = (if seed = 0 then 1 else seed)\<rparr>"

section \<open>Results\<close>

definition result :: "bool \<Rightarrow> string \<Rightarrow> nat \<Rightarrow> bool \<Rightarrow> RoomResult" where
  "result okay code revision duplicate = \<lparr>rr_ok = okay, rr_code = code, rr_revision = revision,
     rr_duplicate = duplicate, rr_successor = 0, rr_forfeit = False, rr_winner = []\<rparr>"

definition failed :: "string \<Rightarrow> Room \<Rightarrow> Room \<times> RoomResult" where
  "failed code r = (r, result False code (rm_revision r) False)"

definition unchanged :: "Room \<Rightarrow> Room \<times> RoomResult" where
  "unchanged r = (r, result True [] (rm_revision r) True)"

definition succeed :: "Room \<Rightarrow> Room \<times> RoomResult" where
  "succeed r = (r\<lparr>rm_revision := rm_revision r + 1\<rparr>, result True [] (rm_revision r + 1) False)"

section \<open>Seats\<close>

definition seatOf :: "Room \<Rightarrow> string \<Rightarrow> Seat" where
  "seatOf r i = (case map_of (rm_seats r) i of None \<Rightarrow> noSeat | Some s \<Rightarrow> s)"

definition hasSeat :: "Room \<Rightarrow> string \<Rightarrow> bool" where
  "hasSeat r i \<longleftrightarrow> map_of (rm_seats r) i \<noteq> None"

definition putSeat :: "string \<Rightarrow> Seat \<Rightarrow> Room \<Rightarrow> Room" where
  "putSeat i s r = r\<lparr>rm_seats := AList.update i s (rm_seats r)\<rparr>"

definition dropSeat :: "string \<Rightarrow> Room \<Rightarrow> Room" where
  "dropSeat i r = r\<lparr>rm_seats := AList.delete i (rm_seats r)\<rparr>"

definition dropSeats :: "(Seat \<Rightarrow> bool) \<Rightarrow> Room \<Rightarrow> Room" where
  "dropSeats P r = r\<lparr>rm_seats := filter (\<lambda>(i, s). \<not> P s) (rm_seats r)\<rparr>"

definition eachSeat :: "(Seat \<Rightarrow> Seat) \<Rightarrow> Room \<Rightarrow> Room" where
  "eachSeat f r = r\<lparr>rm_seats := map (\<lambda>(i, s). (i, f s)) (rm_seats r)\<rparr>"

definition changeSeat :: "string \<Rightarrow> (Seat \<Rightarrow> Seat) \<Rightarrow> Room \<Rightarrow> Room" where
  "changeSeat i f r = putSeat i (f (seatOf r i)) r"

definition dropTransfer :: "int \<Rightarrow> Room \<Rightarrow> Room" where
  "dropTransfer u r = r\<lparr>rm_transfers := AList.delete u (rm_transfers r)\<rparr>"

definition depart :: "int \<Rightarrow> Room \<Rightarrow> Room" where
  "depart u r = r\<lparr>rm_departed := List.insert u (rm_departed r)\<rparr>"

definition seatForUser :: "Room \<Rightarrow> int \<Rightarrow> string" where
  "seatForUser r u = (if u \<le> 0 then []
     else case find (\<lambda>(i, s). st_ctype s = ''human'' \<and> st_user s = u) (rm_seats r) of None \<Rightarrow> [] | Some (i, s) \<Rightarrow> i)"

definition hasUser :: "Room \<Rightarrow> int \<Rightarrow> bool" where
  "hasUser r u \<longleftrightarrow> seatForUser r u \<noteq> []"

definition isAiSeat :: "Room \<Rightarrow> string \<Rightarrow> bool" where
  "isAiSeat r i \<longleftrightarrow> hasSeat r i \<and> st_ctype (seatOf r i) = ''ai''"

section \<open>Seat ids\<close>

definition typeForTemplate :: "string \<Rightarrow> string" where
  "typeForTemplate t =
     (if t = ''commandpost'' then ''commander'' else if t = ''attackuav'' then ''attack''
      else if t = ''reconuav'' then ''recon'' else if t = ''groundscout'' then ''ground''
      else if t = ''jammeruav'' then ''jammer'' else [])"

definition templateForType :: "string \<Rightarrow> string" where
  "templateForType t =
     (if t = ''commander'' then ''commandpost'' else if t = ''attack'' then ''attackuav''
      else if t = ''recon'' then ''reconuav'' else if t = ''ground'' then ''groundscout''
      else if t = ''jammer'' then ''jammeruav'' else [])"

definition canonicalSeatId :: "string \<Rightarrow> string \<Rightarrow> nat \<Rightarrow> string" where
  "canonicalSeatId side type index =
     (if type = ''commander'' then side @ ''_commander'' else side @ ''_'' @ type @ ''_'' @ number index)"

definition seatParts :: "string \<Rightarrow> string list" where
  "seatParts i = filter (\<lambda>p. p \<noteq> []) (split_char (CHR ''_'') i)"

definition partAt :: "string list \<Rightarrow> nat \<Rightarrow> string" where
  "partAt ps n = (if n < length ps then ps ! n else [])"

definition limitOf :: "(string \<times> int) list \<Rightarrow> string \<Rightarrow> int" where
  "limitOf limits base = (case map_of limits base of None \<Rightarrow> 0 | Some n \<Rightarrow> n)"

definition indexOfParts :: "string list \<Rightarrow> int" where
  "indexOfParts ps = (case to_int (partAt ps 2) of None \<Rightarrow> 0 | Some n \<Rightarrow> n)"

text \<open>The first seats of the three types that the single-sided profile always provides.\<close>

definition provisioned :: "bool \<Rightarrow> string \<Rightarrow> string \<Rightarrow> int \<Rightarrow> bool" where
  "provisioned vmf side type index \<longleftrightarrow> vmf \<and> side = ''red'' \<and> index = 1 \<and> type \<in> {''recon'', ''attack'', ''ground''}"

definition withinLimits :: "Room \<Rightarrow> bool \<Rightarrow> string list \<Rightarrow> string \<Rightarrow> bool" where
  "withinLimits r vmf ps type \<longleftrightarrow> rm_limits r = []
     \<or> (let index = (if type = ''commander'' then 1 else indexOfParts ps)
        in provisioned (rm_vmf r \<or> vmf) (ps ! 0) type index
           \<or> index \<le> limitOf (rm_limits r) (ps ! 0 @ ''_'' @ ps ! 1))"

definition validSeatTemplate :: "Room \<Rightarrow> bool \<Rightarrow> string \<Rightarrow> string \<Rightarrow> (string \<times> string) option" where
  "validSeatTemplate r vmf i t =
     (let ps = seatParts i; type = typeForTemplate t in
      if length ps < 2 \<or> 3 < length ps \<or> map_of (rm_templates r) t = None then None
      else if ps ! 0 \<noteq> ''red'' \<and> ps ! 0 \<noteq> ''blue'' then None
      else if type = [] \<or> ps ! 1 \<noteq> type then None
      else if type = ''commander'' \<and> length ps \<noteq> 2 then None
      else if type \<noteq> ''commander'' \<and> indexOfParts ps \<le> 0 then None
      else if \<not> withinLimits r vmf ps type then None
      else Some (ps ! 0, type))"

section \<open>Scenario units\<close>

definition noUnit :: ScenarioUnit where
  "noUnit = \<lparr>su_id = [], su_kind = [], su_side = [], su_pos = origin, su_maxHp = 100\<rparr>"

definition unitIn :: "(string \<times> ScenarioUnit) list \<Rightarrow> string \<Rightarrow> ScenarioUnit" where
  "unitIn units i = (case map_of units i of None \<Rightarrow> noUnit | Some u \<Rightarrow> u)"

definition sourceUnitIdForSeat :: "Room \<Rightarrow> string \<Rightarrow> string" where
  "sourceUnitIdForSeat r i = (case map_of (rm_seatSources r) i of None \<Rightarrow> [] | Some s \<Rightarrow> s)"

definition sourceUnitForSeat :: "Room \<Rightarrow> Seat \<Rightarrow> ScenarioUnit option" where
  "sourceUnitForSeat r s =
     map_of (rm_sources r) (if st_source s = [] then sourceUnitIdForSeat r (st_id s) else st_source s)"

definition allocateUnitId :: "string \<Rightarrow> string \<Rightarrow> Room \<Rightarrow> string \<times> Room" where
  "allocateUnitId side t r = (side @ ''_'' @ t @ ''_'' @ number (rm_nextUnit r), r\<lparr>rm_nextUnit := rm_nextUnit r + 1\<rparr>)"

section \<open>JSON\<close>

definition posToJson :: "RoomPos \<Rightarrow> json" where
  "posToJson p = JObj [(''x'', JNum (rp_x p)), (''y'', JNum (rp_y p)), (''alt'', JNum (rp_alt p))]"

definition seatProjectionOf :: "bool \<Rightarrow> Seat \<Rightarrow> jobject" where
  "seatProjectionOf vmf s =
     [(''seatId'', JStr (st_id s)), (''seatType'', JStr (st_type s)), (''side'', JStr (st_side s)),
      (''userId'', jint (st_user s)), (''humanUserId'', jint (st_humanUser s)), (''username'', JStr (st_username s)),
      (''controllerType'', JStr (st_ctype s)), (''controllerId'', JStr (st_cid s)), (''controlMode'', JStr (st_mode s)),
      (''claimable'', JBool (vmf \<and> st_side s = ''red'' \<and> st_ctype s = ''placeholder'')), (''occupied'', JBool True),
      (''connected'', JBool (st_connected s)), (''commander'', JBool (st_type s = ''commander'')),
      (''selectedTemplate'', JStr (st_template s)), (''sourceUnitId'', JStr (st_source s)),
      (''unitId'', JStr (st_unit s)), (''unitName'', JStr (st_unitName s)), (''position'', posToJson (st_pos s)),
      (''deployed'', JBool (st_deployed s)), (''ready'', JBool (st_ready s)),
      (''pendingTransfer'', JBool (st_pending s)), (''redeployRequested'', JBool (st_redeploy s)),
      (''revision'', jnat (st_revision s))]"

definition seatProjection :: "Room \<Rightarrow> json list" where
  "seatProjection r = map (\<lambda>i. JObj (seatProjectionOf (rm_vmf r) (seatOf r i))) (sort (map fst (rm_seats r)))"

definition transferToJson :: "Transfer \<Rightarrow> json" where
  "transferToJson t = JObj [(''userId'', jint (tr_user t)), (''targetSeatId'', JStr (tr_target t)),
     (''templateId'', JStr (tr_template t)), (''revision'', jnat (tr_revision t))]"

definition operationToJson :: "Room \<Rightarrow> string \<Rightarrow> json" where
  "operationToJson r i = JObj [(''operationId'', JStr i),
     (''revision'', jnat (case map_of (rm_operations r) i of None \<Rightarrow> 0 | Some x \<Rightarrow> rr_revision x))]"

definition roomToJson :: "Room \<Rightarrow> jobject" where
  "roomToJson r =
     [(''schemaVersion'', jint 2), (''mode'', JStr (rm_mode r)),
      (''operationMode'', JStr (if rm_vmf r then ''vmf-single-side'' else ''standard'')),
      (''phase'', JStr (rm_phase r)), (''winner'', JStr (rm_winner r)), (''revision'', jnat (rm_revision r)),
      (''nextUnitSequence'', jnat (rm_nextUnit r)), (''rngState'', jint (sint (rm_rng r))),
      (''seats'', JArr (seatProjection r)), (''transfers'', JArr (map (\<lambda>(u, t). transferToJson t) (rm_transfers r))),
      (''operations'', JArr (map (operationToJson r) (rm_order r)))]"

definition pendingTransferJson :: "Room \<Rightarrow> int \<Rightarrow> jobject" where
  "pendingTransferJson r u =
     (case map_of (rm_transfers r) u of
        None \<Rightarrow> []
      | Some t \<Rightarrow> [(''userId'', jint u), (''sourceSeatId'', JStr (seatForUser r u)),
          (''sourceSide'', JStr (st_side (seatOf r (seatForUser r u)))), (''targetSeatId'', JStr (tr_target t)),
          (''templateId'', JStr (tr_template t)), (''revision'', jnat (tr_revision t))])"

section \<open>Restoring\<close>

text \<open>\<open>toString(default)\<close> and a field with a default when it is absent.\<close>

definition stringOr :: "string \<Rightarrow> json \<Rightarrow> string" where
  "stringOr d v = (if isJStr v then jtoString v else d)"

definition fieldOr :: "string \<Rightarrow> jobject \<Rightarrow> string \<Rightarrow> string" where
  "fieldOr d ob k = (if jcontains ob k then jtoString (jget ob k) else d)"

definition jsonInteger :: "jobject \<Rightarrow> string \<Rightarrow> int" where
  "jsonInteger ob k = jtoInteger 0 (jget ob k)"

definition intText :: "int \<Rightarrow> string" where
  "intText n = (if n < 0 then ''-'' @ number (nat (- n)) else number (nat n))"

definition readSeat :: "Room \<Rightarrow> jobject \<Rightarrow> Seat" where
  "readSeat r ob =
     (let user = jsonInteger ob ''userId''; ctype = fieldOr ''human'' ob ''controllerType'';
          i = jtoString (jget ob ''seatId''); source = jtoString (jget ob ''sourceUnitId'');
          pos = jtoObject (jget ob ''position'')
      in \<lparr>st_id = i, st_type = jtoString (jget ob ''seatType''), st_side = jtoString (jget ob ''side''),
          st_user = user,
          st_humanUser = (if jcontains ob ''humanUserId'' then jsonInteger ob ''humanUserId'' else user),
          st_username = jtoString (jget ob ''username''), st_ctype = ctype,
          st_cid = fieldOr (intText user) ob ''controllerId'',
          st_mode = fieldOr (if ctype = ''placeholder'' then ''vmf-auto'' else if ctype = ''ai'' then ''ai'' else ''human'')
             ob ''controlMode'',
          st_template = jtoString (jget ob ''selectedTemplate''),
          st_source = (if source = [] then sourceUnitIdForSeat r i else source),
          st_unit = jtoString (jget ob ''unitId''), st_unitName = jtoString (jget ob ''unitName''),
          st_pos = \<lparr>rp_x = jtoDouble 0 (jget pos ''x''), rp_y = jtoDouble 0 (jget pos ''y''),
                    rp_alt = jtoDouble 0 (jget pos ''alt'')\<rparr>,
          st_connected = jtoBool False (jget ob ''connected''), st_deployed = jtoBool False (jget ob ''deployed''),
          st_ready = jtoBool False (jget ob ''ready''), st_revision = nat (jsonInteger ob ''revision'' mod 2 ^ 64),
          st_pending = jtoBool False (jget ob ''pendingTransfer''),
          st_redeploy = jtoBool False (jget ob ''redeployRequested'')\<rparr>)"

definition controllerValid :: "Seat \<Rightarrow> bool" where
  "controllerValid s \<longleftrightarrow>
     (if st_ctype s = ''ai'' \<or> st_ctype s = ''placeholder'' then st_user s = 0 \<and> st_humanUser s = 0
      else st_ctype s = ''human'' \<and> 0 < st_user s \<and> st_humanUser s = st_user s)
     \<and> trimmed (st_cid s) \<noteq> []"

definition seatValid :: "Room \<Rightarrow> bool \<Rightarrow> Seat \<Rightarrow> bool" where
  "seatValid r vmf s \<longleftrightarrow> controllerValid s
     \<and> st_mode s \<in> {''human'', ''ai'', ''vmf-auto'', ''fixed-target''}
     \<and> (vmf \<and> st_side s = ''blue'' \<longrightarrow> st_mode s = ''fixed-target'')
     \<and> validSeatTemplate r vmf (st_id s) (st_template s) = Some (st_side s, st_type s)
     \<and> (st_source s \<noteq> [] \<longrightarrow>
          su_id (unitIn (rm_sources r) (st_source s)) \<noteq> []
          \<and> su_side (unitIn (rm_sources r) (st_source s)) = st_side s
          \<and> su_kind (unitIn (rm_sources r) (st_source s)) = st_template s)
     \<and> (st_ready s \<longrightarrow> st_deployed s)"

definition adoptSeat :: "Room \<Rightarrow> bool \<Rightarrow> Seat \<Rightarrow> Seat" where
  "adoptSeat r vmf s =
     (let source = unitIn (rm_sources r) (st_source s) in
      if vmf \<and> su_id source \<noteq> []
      then s\<lparr>st_unit := su_id source, st_pos := su_pos source, st_deployed := True,
             st_ready := (st_ctype s = ''placeholder'' \<or> st_ready s)\<rparr>
      else s)"

fun restoreRoomSeats :: "Room \<Rightarrow> bool \<Rightarrow> json list \<Rightarrow> (string \<times> Seat) list \<Rightarrow> (string \<times> Seat) list option" where
  "restoreRoomSeats r vmf [] seats = Some seats"
| "restoreRoomSeats r vmf (v # vs) seats =
     (let s = readSeat r (jtoObject v) in
      if map_of seats (st_id s) = None \<and> seatValid r vmf s
      then restoreRoomSeats r vmf vs (AList.update (st_id s) (adoptSeat r vmf s) seats)
      else None)"

fun restoreTransfers :: "json list \<Rightarrow> Room \<Rightarrow> Room \<times> bool" where
  "restoreTransfers [] r = (r, True)"
| "restoreTransfers (v # vs) r =
     (let ob = jtoObject v; u = jsonInteger ob ''userId''; target = jtoString (jget ob ''targetSeatId'');
          t = jtoString (jget ob ''templateId''); rev = jsonInteger ob ''revision''
      in if u \<le> 0 \<or> \<not> hasUser r u \<or> target = [] \<or> map_of (rm_templates r) t = None \<or> rev \<le> 0 then (r, False)
         else restoreTransfers vs (r\<lparr>rm_transfers :=
           AList.update u \<lparr>tr_user = u, tr_target = target, tr_template = t, tr_revision = nat rev\<rparr> (rm_transfers r)\<rparr>))"

definition rememberOperation :: "string \<Rightarrow> RoomResult \<Rightarrow> string list \<Rightarrow> Room \<Rightarrow> Room" where
  "rememberOperation i x order r =
     (let order' = order @ [i] in
      r\<lparr>rm_operations := fold AList.delete (take (length order' - 256) order') (AList.update i x (rm_operations r)),
        rm_order := drop (length order' - 256) order'\<rparr>)"

fun restoreOperations :: "json list \<Rightarrow> Room \<Rightarrow> Room" where
  "restoreOperations [] r = r"
| "restoreOperations (v # vs) r =
     (let ob = jtoObject v; i = jtoString (jget ob ''operationId''); rev = jsonInteger ob ''revision''
      in restoreOperations vs
           (if i \<noteq> [] \<and> 0 < rev
            then rememberOperation i (result True [] (nat rev) False) (removeAll i (rm_order r)) r else r))"

definition headerValid :: "jobject \<Rightarrow> bool" where
  "headerValid ob \<longleftrightarrow>
     (let schema = jtoInt 0 (jget ob ''schemaVersion'') in schema = 1 \<or> schema = 2)
     \<and> 0 < jsonInteger ob ''revision'' \<and> 0 < jsonInteger ob ''nextUnitSequence''
     \<and> (word_of_int (jsonInteger ob ''rngState'') :: 64 word) \<noteq> 0
     \<and> fieldOr ''pvp'' ob ''mode'' \<in> {''pvp'', ''pve''}
     \<and> stringOr ''standard'' (jget ob ''operationMode'') \<in> {''standard'', ''vmf-single-side''}
     \<and> jtoString (jget ob ''phase'') \<in> {''preparing'', ''running'', ''paused'', ''finished''}"

definition restoreRoom :: "jobject \<Rightarrow> Room \<Rightarrow> Room \<times> bool" where
  "restoreRoom ob r =
     (let mode = fieldOr ''pvp'' ob ''mode'';
          vmf = (stringOr ''standard'' (jget ob ''operationMode'') = ''vmf-single-side'')
      in if \<not> headerValid ob then (r, False)
         else case restoreRoomSeats r vmf (jtoArray (jget ob ''seats'')) [] of
                None \<Rightarrow> (r, False)
              | Some seats \<Rightarrow>
                  (let r1 = r\<lparr>rm_seats := seats, rm_phase := jtoString (jget ob ''phase''),
                         rm_mode := (if vmf \<and> mode = ''pve'' then ''pvp'' else mode), rm_vmf := vmf,
                         rm_winner := jtoString (jget ob ''winner''), rm_revision := nat (jsonInteger ob ''revision''),
                         rm_nextUnit := nat (jsonInteger ob ''nextUnitSequence''),
                         rm_rng := word_of_int (jsonInteger ob ''rngState''), rm_transfers := []\<rparr>
                   in case restoreTransfers (jtoArray (jget ob ''transfers'')) r1 of
                        (r2, okay) \<Rightarrow>
                          if \<not> okay then (r2, False)
                          else (restoreOperations (jtoArray (jget ob ''operations''))
                                  (r2\<lparr>rm_operations := [], rm_order := []\<rparr>), True)))"

end
