(* ===== verification/Room.thy ===== *)
theory Room
  imports RoomState "HOL-Library.Product_Lexorder"
begin

text \<open>
  The operations of the authoritative room (\<open>src/server/game/AuthoritativeRoom.cpp\<close>): modes, rosters of
  server-owned seats, claiming, transfers, leaving, deployment, readiness and the phases of a match.
  Every operation takes the room and gives the room it leaves with the result it returns.
\<close>

text \<open>What follows a call that has succeeded.\<close>

definition andThen :: "Room \<times> RoomResult \<Rightarrow> (Room \<Rightarrow> Room \<times> RoomResult) \<Rightarrow> Room \<times> RoomResult" where
  "andThen x f = (case x of (r, res) \<Rightarrow> if rr_ok res then f r else (r, res))"

section \<open>Configuration\<close>

definition setTemplateCatalog :: "(string \<times> ScenarioUnit) list \<Rightarrow> Room \<Rightarrow> Room \<times> bool" where
  "setTemplateCatalog catalog r =
     (if list_all (\<lambda>i. su_kind (unitIn catalog i) = i \<and> 0 < su_maxHp (unitIn catalog i))
           [''commandpost'', ''attackuav'', ''reconuav'', ''groundscout'', ''jammeruav'']
      then (r\<lparr>rm_templates := catalog\<rparr>, True) else (r, False))"

definition limitValid :: "string \<times> int \<Rightarrow> bool" where
  "limitValid = (\<lambda>(base, n). let ps = seatParts base in
     length ps = 2 \<and> (ps ! 0 = ''red'' \<or> ps ! 0 = ''blue'')
     \<and> ps ! 1 \<in> {''commander'', ''attack'', ''recon'', ''ground'', ''jammer''}
     \<and> (ps ! 1 = ''commander'' \<longrightarrow> n = 1) \<and> 0 \<le> n \<and> n \<le> 64)"

definition seatInLimits :: "Room \<Rightarrow> (string \<times> int) list \<Rightarrow> Seat \<Rightarrow> bool" where
  "seatInLimits r limits s =
     (let ps = seatParts (st_id s);
          index = (if length ps = 2 then 1 else case to_int (partAt ps 2) of None \<Rightarrow> -1 | Some n \<Rightarrow> n)
      in 2 \<le> length ps \<and> 0 < index
         \<and> (provisioned (rm_vmf r) (st_side s) (st_type s) index \<or> index \<le> limitOf limits (ps ! 0 @ ''_'' @ ps ! 1)))"

definition setSeatLimits :: "(string \<times> int) list \<Rightarrow> Room \<Rightarrow> Room \<times> bool" where
  "setSeatLimits limits r =
     (if list_all limitValid limits \<and> list_all (\<lambda>(i, s). seatInLimits r limits s) (rm_seats r)
      then (r\<lparr>rm_limits := limits\<rparr>, True) else (r, False))"

section \<open>Scenario units\<close>

text \<open>The units a seat can be bound to, and their ids by side and type. \<open>None\<close>: the list is refused.\<close>

fun collectUnits :: "ScenarioUnit list \<Rightarrow> (string \<times> ScenarioUnit) list \<Rightarrow> ((string \<times> string) \<times> string list) list
    \<Rightarrow> ((string \<times> ScenarioUnit) list \<times> ((string \<times> string) \<times> string list) list) option" where
  "collectUnits [] sources buckets = Some (sources, buckets)"
| "collectUnits (u # us) sources buckets =
     (let type = typeForTemplate (su_kind u); key = (su_side u, type) in
      if type = [] then collectUnits us sources buckets
      else if trimmed (su_id u) = [] \<or> map_of sources (su_id u) \<noteq> None \<or> (su_side u \<noteq> ''red'' \<and> su_side u \<noteq> ''blue'')
           then None
           else collectUnits us (AList.update (su_id u) u sources)
                  (AList.update key ((case map_of buckets key of None \<Rightarrow> [] | Some is \<Rightarrow> is) @ [su_id u]) buckets))"

text \<open>The seats that have a unit: the bindings they keep, and the seats to be removed.\<close>

definition bindingKept :: "(string \<times> ScenarioUnit) list \<Rightarrow> Seat \<Rightarrow> bool" where
  "bindingKept sources s \<longleftrightarrow> (let u = unitIn sources (st_source s) in
     su_id u \<noteq> [] \<and> su_side u = st_side s \<and> typeForTemplate (su_kind u) = st_type s)"

fun keepBindings :: "bool \<Rightarrow> (string \<times> ScenarioUnit) list \<Rightarrow> (string \<times> Seat) list \<Rightarrow> (string \<times> string) list \<Rightarrow> string list
    \<Rightarrow> ((string \<times> string) list \<times> string list) option" where
  "keepBindings vmf sources [] bindings stale = Some (bindings, stale)"
| "keepBindings vmf sources ((i, s) # rest) bindings stale =
     (if st_source s = [] then keepBindings vmf sources rest bindings stale
      else if bindingKept sources s
           then keepBindings vmf sources rest (AList.update (st_id s) (st_source s) bindings) stale
           else if vmf \<and> st_ctype s = ''placeholder'' then keepBindings vmf sources rest bindings (stale @ [st_id s])
           else None)"

text \<open>The search for the next free seat id does not end for a second commander: \<open>None\<close>.\<close>

partial_function (option) freeSeatId :: "string \<Rightarrow> string \<Rightarrow> nat \<Rightarrow> (string \<times> string) list \<Rightarrow> (string \<times> nat) option" where
  "freeSeatId side type next bindings =
     (if map_of bindings (canonicalSeatId side type next) = None
      then Some (canonicalSeatId side type next, next + 1)
      else freeSeatId side type (next + 1) bindings)"

declare freeSeatId.simps [code]

fun bindBucket :: "string \<Rightarrow> string \<Rightarrow> string list \<Rightarrow> string list \<Rightarrow> nat \<Rightarrow> (string \<times> string) list
    \<Rightarrow> (string \<times> string) list option" where
  "bindBucket side type assigned [] next bindings = Some bindings"
| "bindBucket side type assigned (u # us) next bindings =
     (if u \<in> set assigned then bindBucket side type assigned us next bindings
      else case freeSeatId side type next bindings of
             None \<Rightarrow> None
           | Some (i, next') \<Rightarrow> bindBucket side type assigned us next' (AList.update i u bindings))"

fun bindBuckets :: "string list \<Rightarrow> ((string \<times> string) \<times> string list) list \<Rightarrow> (string \<times> string) list
    \<Rightarrow> (string \<times> string) list option" where
  "bindBuckets assigned [] bindings = Some bindings"
| "bindBuckets assigned (((side, type), us) # rest) bindings =
     (case bindBucket side type assigned (sort us) 1 bindings of
        None \<Rightarrow> None
      | Some bindings' \<Rightarrow> bindBuckets assigned rest bindings')"

definition bindSeat :: "Room \<Rightarrow> string \<Rightarrow> Seat \<Rightarrow> Seat" where
  "bindSeat r i s =
     (let source = (if st_source s = [] then sourceUnitIdForSeat r i else st_source s); u = unitIn (rm_sources r) source
      in if source = [] then s
         else (let s' = s\<lparr>st_source := source, st_template := su_kind u, st_unit := su_id u\<rparr>
               in if rm_vmf r
                  then s'\<lparr>st_pos := su_pos u, st_deployed := True, st_ready := (st_ctype s \<noteq> ''human''),
                          st_revision := rm_revision r + 1\<rparr>
                  else s'))"

text \<open>The outer option is \<open>None\<close> when the call does not return.\<close>

definition setScenarioUnits :: "ScenarioUnit list \<Rightarrow> Room \<Rightarrow> (Room \<times> bool) option" where
  "setScenarioUnits units r =
     (case collectUnits units [] [] of
        None \<Rightarrow> Some (r, False)
      | Some (sources, buckets) \<Rightarrow>
          (case keepBindings (rm_vmf r) sources (rm_seats r) [] [] of
             None \<Rightarrow> Some (r, False)
           | Some (kept, stale) \<Rightarrow>
               (case bindBuckets (map snd kept) buckets kept of
                  None \<Rightarrow> None
                | Some bindings \<Rightarrow>
                    (let r1 = fold dropSeat stale (r\<lparr>rm_sources := sources, rm_seatSources := bindings\<rparr>)
                     in Some (r1\<lparr>rm_seats := map (\<lambda>(i, s). (i, bindSeat r1 i s)) (rm_seats r1)\<rparr>, True)))))"

section \<open>Server-owned seats\<close>

definition aiSeat :: "Room \<Rightarrow> string \<Rightarrow> string \<Rightarrow> string \<Rightarrow> string \<Rightarrow> string \<Rightarrow> Seat" where
  "aiSeat r i side type t unit = noSeat\<lparr>st_id := i, st_type := type, st_side := side, st_username := ''AI'',
     st_ctype := ''ai'', st_cid := ''ai:'' @ i, st_mode := ''ai'', st_template := t, st_unit := unit,
     st_revision := rm_revision r + 1\<rparr>"

definition installAiSeat :: "string \<Rightarrow> string \<Rightarrow> Room \<Rightarrow> Room \<times> RoomResult" where
  "installAiSeat i t r =
     (case validSeatTemplate r False i t of
        None \<Rightarrow> failed ''INVALID_AI_SEAT'' r
      | Some (side, type) \<Rightarrow>
          if side \<noteq> ''blue'' then failed ''INVALID_AI_SEAT'' r
          else if hasSeat r i \<and> st_ctype (seatOf r i) \<noteq> ''ai'' then failed ''SIDE_RESERVED_FOR_AI'' r
          else if st_ctype (seatOf r i) = ''ai'' \<and> st_template (seatOf r i) = t then unchanged r
          else (case (if type = ''commander'' then (''blue_cp'', r) else allocateUnitId side t r) of
                  (unit, r') \<Rightarrow> succeed (putSeat i (aiSeat r' i side type t unit) r')))"

definition installVmfSeat :: "string \<Rightarrow> string \<Rightarrow> string \<Rightarrow> Room \<Rightarrow> Room \<times> RoomResult" where
  "installVmfSeat i t mode r =
     (case validSeatTemplate r False i t of
        None \<Rightarrow> failed ''INVALID_VMF_SEAT'' r
      | Some (side, type) \<Rightarrow>
          if \<not> rm_vmf r \<or> (mode \<noteq> ''vmf-auto'' \<and> mode \<noteq> ''fixed-target'')
             \<or> (mode = ''vmf-auto'' \<and> side \<noteq> ''red'') \<or> (mode = ''fixed-target'' \<and> side \<noteq> ''blue'')
          then failed ''INVALID_VMF_SEAT'' r
          else if hasSeat r i \<and> st_ctype (seatOf r i) = ''human''
          then (if side \<noteq> ''red'' then failed ''SIDE_RESERVED_FOR_FIXED_TARGET'' r
                else unchanged (changeSeat i (\<lambda>s. s\<lparr>st_mode := ''human''\<rparr>) r))
          else
            (let sourceId = sourceUnitIdForSeat r i; source = map_of (rm_sources r) sourceId; old = seatOf r i;
                 kind = (case source of None \<Rightarrow> t | Some u \<Rightarrow> su_kind u)
             in if hasSeat r i \<and> st_ctype old = ''placeholder'' \<and> st_mode old = mode \<and> st_source old = sourceId
                   \<and> st_template old = kind
                then unchanged r
                else succeed (putSeat i (noSeat\<lparr>st_id := i, st_type := type, st_side := side,
                  st_username := (if mode = ''fixed-target'' then ''fixed'' else ''auto''), st_ctype := ''placeholder'',
                  st_cid := ''vmf:'' @ i, st_mode := mode, st_template := kind, st_source := sourceId,
                  st_unit := (case source of Some u \<Rightarrow> su_id u
                    | None \<Rightarrow> if type = ''commander'' then side @ ''_cp'' else ''vmf_auto_'' @ side @ ''_'' @ type),
                  st_pos := (case source of Some u \<Rightarrow> su_pos u | None \<Rightarrow> su_pos (unitIn (rm_templates r) t)),
                  st_deployed := True, st_ready := True, st_revision := rm_revision r + 1\<rparr>) r)))"

text \<open>The fixed targets: every blue seat that has a source unit.\<close>

fun installTargets :: "(string \<times> string) list \<Rightarrow> string list \<Rightarrow> Room \<Rightarrow> (Room \<times> string list) + (Room \<times> RoomResult)" where
  "installTargets [] desired r = Inl (r, desired)"
| "installTargets ((i, source) # rest) desired r =
     (let u = unitIn (rm_sources r) source in
      if partAt (seatParts i) 0 \<noteq> ''blue'' \<or> su_id u = [] then installTargets rest desired r
      else case installVmfSeat i (su_kind u) ''fixed-target'' r of
             (r', res) \<Rightarrow> if rr_ok res then installTargets rest (i # desired) r' else Inr (r', res))"

fun installAutomation :: "string list \<Rightarrow> Room \<Rightarrow> Room \<times> RoomResult" where
  "installAutomation [] r = unchanged r"
| "installAutomation (type # types) r =
     (if list_ex (\<lambda>(i, s). st_side s = ''red'' \<and> st_type s = type) (rm_seats r) then installAutomation types r
      else andThen (installVmfSeat (canonicalSeatId ''red'' type 1) (templateForType type) ''vmf-auto'' r)
             (installAutomation types))"

definition syncVmfRoster :: "Room \<Rightarrow> Room \<times> RoomResult" where
  "syncVmfRoster r =
     (if \<not> rm_vmf r then unchanged r
      else if rm_phase r \<notin> {''preparing'', ''running'', ''paused''} then failed ''SEAT_LOCKED'' r
      else case installTargets (rm_seatSources r) [] r of
             Inr x \<Rightarrow> x
           | Inl (r1, desired) \<Rightarrow>
               andThen (installAutomation [''recon'', ''attack'', ''ground'']
                   (dropSeats (\<lambda>s. st_side s = ''blue'' \<and> st_id s \<notin> set desired) r1))
                 (\<lambda>r2. if roomToJson r = roomToJson r2 then unchanged r2
                       else (r2, result True [] (rm_revision r2) False)))"

definition convertToVmfAutomation :: "string \<Rightarrow> Room \<Rightarrow> Room \<times> RoomResult" where
  "convertToVmfAutomation i r =
     (if \<not> rm_vmf r \<or> \<not> hasSeat r i \<or> st_side (seatOf r i) \<noteq> ''red'' then failed ''INVALID_VMF_SEAT'' r
      else
        (let u = st_user (seatOf r i) in
         succeed (depart u (dropTransfer u (changeSeat i (\<lambda>s. s\<lparr>st_user := 0, st_humanUser := 0,
           st_username := ''auto'', st_ctype := ''placeholder'', st_cid := ''vmf:'' @ i, st_mode := ''vmf-auto'',
           st_connected := True, st_ready := True, st_pending := False, st_redeploy := False,
           st_revision := rm_revision r + 1\<rparr>) r)))))"

fun mirrorSeats :: "string list \<Rightarrow> string list \<Rightarrow> Room \<Rightarrow> (Room \<times> string list) + (Room \<times> RoomResult)" where
  "mirrorSeats [] desired r = Inl (r, desired)"
| "mirrorSeats (i # is) desired r =
     (let s = seatOf r i in
      if st_side s \<noteq> ''red'' \<or> st_type s = ''commander'' \<or> st_ctype s \<noteq> ''human'' then mirrorSeats is desired r
      else case installAiSeat (''blue_'' @ drop 4 i) (st_template s) r of
             (r', res) \<Rightarrow> if rr_ok res then mirrorSeats is ((''blue_'' @ drop 4 i) # desired) r' else Inr (r', res))"

definition syncAiRoster :: "Room \<Rightarrow> Room \<times> RoomResult" where
  "syncAiRoster r =
     (if rm_mode r \<noteq> ''pve'' then unchanged r
      else if rm_phase r \<noteq> ''preparing'' then failed ''SEAT_LOCKED'' r
      else andThen (installAiSeat ''blue_commander'' ''commandpost'' r)
        (\<lambda>r1. case mirrorSeats (sort (map fst (rm_seats r1))) [''blue_commander''] r1 of
           Inr x \<Rightarrow> x
         | Inl (r2, desired) \<Rightarrow>
             (let r3 = dropSeats (\<lambda>s. st_ctype s = ''ai'' \<and> st_id s \<notin> set desired) r2
              in if roomToJson r = roomToJson r3 then unchanged r3
                 else succeed (eachSeat (\<lambda>s. s\<lparr>st_ready := False, st_revision := rm_revision r3 + 1\<rparr>) r3))))"

text \<open>The roster that belongs to the mode, synchronised after a seat has been left in preparation.\<close>

definition syncRoster :: "Room \<Rightarrow> Room \<times> RoomResult" where
  "syncRoster r = (if rm_vmf r then syncVmfRoster r else syncAiRoster r)"

definition rosterPending :: "Room \<Rightarrow> bool" where
  "rosterPending r \<longleftrightarrow> rm_phase r = ''preparing'' \<and> (rm_vmf r \<or> rm_mode r = ''pve'')"

definition placeholderTemplate :: "string \<Rightarrow> string" where
  "placeholderTemplate type = (if type = ''attack'' then ''attackuav'' else if type = ''recon'' then ''reconuav''
     else if type = ''ground'' then ''groundscout'' else ''jammeruav'')"

definition installPlaceholder :: "string \<Rightarrow> string \<Rightarrow> nat \<Rightarrow> Room \<Rightarrow> Room" where
  "installPlaceholder side type index r =
     (let i = side @ ''_'' @ type @ ''_'' @ number index; t = placeholderTemplate type in
      if hasSeat r i then r
      else case allocateUnitId side t r of (unit, r') \<Rightarrow>
        putSeat i (noSeat\<lparr>st_id := i, st_type := type, st_side := side, st_username := ''server'',
          st_ctype := ''placeholder'', st_cid := ''placeholder:'' @ i, st_mode := ''vmf-auto'', st_template := t,
          st_unit := unit, st_pos := su_pos (unitIn (rm_templates r) t), st_deployed := True, st_ready := True,
          st_revision := rm_revision r + 1\<rparr>) r')"

definition installLimit :: "string \<times> int \<Rightarrow> Room \<Rightarrow> Room" where
  "installLimit = (\<lambda>(base, n) r. let ps = seatParts base in
     if length ps \<noteq> 2 \<or> ps ! 1 = ''commander'' then r
     else fold (installPlaceholder (ps ! 0) (ps ! 1)) [1..<Suc (nat n)] r)"

definition installPlaceholdersForMissing :: "Room \<Rightarrow> Room \<times> RoomResult" where
  "installPlaceholdersForMissing r =
     (if rm_phase r \<noteq> ''preparing'' \<and> rm_phase r \<noteq> ''running'' then failed ''SEAT_LOCKED'' r
      else if rm_vmf r then syncVmfRoster r
      else (let r1 = fold installLimit (rm_limits r) r
            in if roomToJson r = roomToJson r1 then unchanged r1 else succeed r1))"

definition removePlaceholders :: "Room \<Rightarrow> Room \<times> RoomResult" where
  "removePlaceholders r =
     (if rm_phase r \<noteq> ''preparing'' then failed ''SEAT_LOCKED'' r
      else if \<not> list_ex (\<lambda>(i, s). st_ctype s = ''placeholder'') (rm_seats r) then unchanged r
      else succeed (dropSeats (\<lambda>s. st_ctype s = ''placeholder'') r))"

definition setMode :: "string \<Rightarrow> Room \<Rightarrow> Room \<times> RoomResult" where
  "setMode mode r =
     (if rm_phase r \<noteq> ''preparing'' then failed ''SEAT_LOCKED'' r
      else if mode \<noteq> ''pvp'' \<and> mode \<noteq> ''pve'' then failed ''INVALID_ROOM_MODE'' r
      else if rm_vmf r \<and> mode = ''pve'' then failed ''VMF_PVE_CONFLICT'' r
      else if rm_mode r = mode then (if mode = ''pve'' then syncAiRoster r else unchanged r)
      else if mode = ''pvp'' then succeed (dropSeats (\<lambda>s. st_ctype s = ''ai'') (r\<lparr>rm_mode := mode\<rparr>))
      else case syncAiRoster (r\<lparr>rm_mode := mode\<rparr>) of
             (r', res) \<Rightarrow> if rr_ok res then (r', res) else (fst (restoreRoom (roomToJson r) r'), res))"

definition setVmfSingleSide :: "bool \<Rightarrow> Room \<Rightarrow> Room \<times> RoomResult" where
  "setVmfSingleSide enabled r =
     (if rm_phase r \<noteq> ''preparing'' \<and> rm_vmf r \<noteq> enabled then failed ''SEAT_LOCKED'' r
      else if enabled \<and> rm_mode r = ''pve'' then failed ''VMF_PVE_CONFLICT'' r
      else if enabled \<and> list_ex (\<lambda>(i, s). st_side s = ''blue'' \<and> st_ctype s = ''human'') (rm_seats r)
           then failed ''BLUE_SEATS_OCCUPIED'' r
      else if rm_vmf r = enabled then (if enabled then syncVmfRoster r else unchanged r)
      else if enabled then syncVmfRoster (r\<lparr>rm_vmf := enabled\<rparr>)
      else succeed (dropSeats (\<lambda>s. st_ctype s = ''placeholder'') (r\<lparr>rm_vmf := enabled\<rparr>)))"

section \<open>AI deployment\<close>

definition deterministicSeed :: "string \<Rightarrow> 64 word \<Rightarrow> 64 word" where
  "deterministicSeed value generation =
     (let hash = fold (\<lambda>c h. (h XOR of_nat (code_of c)) * 1099511628211) value (1469598103934665603 XOR generation)
      in if hash = 0 then 1 else hash)"

definition xorshift :: "64 word \<Rightarrow> 64 word" where
  "xorshift x = (let a = x XOR push_bit 13 x; b = a XOR drop_bit 7 a in b XOR push_bit 17 b)"

definition validAiPosition :: "rat \<Rightarrow> rat \<Rightarrow> RoomPos list \<Rightarrow> RoomPos \<Rightarrow> bool" where
  "validAiPosition w h placements p \<longleftrightarrow> 0 \<le> rp_x p \<and> 0 \<le> rp_y p \<and> rp_x p \<le> w \<and> rp_y p \<le> h
     \<and> list_all (\<lambda>q. 80 * 80 \<le> (rp_x p - rp_x q) ^ 2 + (rp_y p - rp_y q) ^ 2) placements"

text \<open>\<open>fmod\<close> for a positive divisor.\<close>

definition fmod_rat :: "rat \<Rightarrow> rat \<Rightarrow> rat" where
  "fmod_rat a b = a - b * of_int \<lfloor>a / b\<rfloor>"

definition candidatePos :: "rat \<Rightarrow> rat \<Rightarrow> rat \<Rightarrow> 64 word \<Rightarrow> RoomPos" where
  "candidatePos w h alt seed =
     \<lparr>rp_x = fmod_rat (of_nat (unat (seed mod 1000000)) / 1000000 * w) w,
      rp_y = fmod_rat (of_nat (unat (drop_bit 20 seed mod 1000000)) / 1000000 * h) h, rp_alt = alt\<rparr>"

fun tryPlace :: "nat \<Rightarrow> rat \<Rightarrow> rat \<Rightarrow> rat \<Rightarrow> RoomPos list \<Rightarrow> 64 word \<Rightarrow> RoomPos option" where
  "tryPlace 0 w h alt placements seed = None"
| "tryPlace (Suc n) w h alt placements seed =
     (let seed' = xorshift seed; p = candidatePos w h alt seed' in
      if validAiPosition w h placements p then Some p else tryPlace n w h alt placements seed')"

definition placeAi :: "rat \<Rightarrow> rat \<Rightarrow> 64 word \<Rightarrow> RoomPos list \<Rightarrow> Room \<Rightarrow> Seat \<Rightarrow> RoomPos option" where
  "placeAi w h generation placements r s =
     (let p = su_pos (unitIn (rm_templates r) (st_template s)) in
      if validAiPosition w h placements p then Some p
      else tryPlace 64 w h (rp_alt p) placements (deterministicSeed (st_cid s) generation))"

fun deployAll :: "rat \<Rightarrow> rat \<Rightarrow> 64 word \<Rightarrow> string list \<Rightarrow> RoomPos list \<Rightarrow> Room \<Rightarrow> Room + Room" where
  "deployAll w h generation [] placements r = Inr r"
| "deployAll w h generation (i # is) placements r =
     (case placeAi w h generation placements r (seatOf r i) of
        None \<Rightarrow> Inl r
      | Some p \<Rightarrow> deployAll w h generation is (p # placements)
          (changeSeat i (\<lambda>s. s\<lparr>st_pos := p, st_deployed := True, st_ready := True, st_revision := rm_revision r + 1\<rparr>) r))"

definition deployAiSeats :: "rat \<Rightarrow> rat \<Rightarrow> 64 word \<Rightarrow> Room \<Rightarrow> Room \<times> RoomResult" where
  "deployAiSeats w h generation r =
     (if rm_mode r \<noteq> ''pve'' \<or> rm_phase r \<noteq> ''preparing'' then failed ''SEAT_LOCKED'' r
      else if w \<le> 0 \<or> h \<le> 0 then failed ''AI_DEPLOYMENT_FAILED'' r
      else
        (let placements = map (\<lambda>(i, s). st_pos s) (filter (\<lambda>(i, s). st_ctype s \<noteq> ''ai'' \<and> st_deployed s) (rm_seats r));
             ais = sort (map fst (filter (\<lambda>(i, s). st_ctype s = ''ai'') (rm_seats r)))
         in case deployAll w h generation ais placements r of
              Inl r' \<Rightarrow> failed ''AI_DEPLOYMENT_FAILED'' (fst (restoreRoom (roomToJson r) r'))
            | Inr r' \<Rightarrow> succeed r'))"

section \<open>Claiming and transfers\<close>

definition mirrorMissing :: "Room \<Rightarrow> string \<Rightarrow> string \<Rightarrow> string \<Rightarrow> bool" where
  "mirrorMissing r side i t \<longleftrightarrow> rm_mode r = ''pve'' \<and> side = ''red'' \<and> validSeatTemplate r False (''blue_'' @ drop 4 i) t = None"

definition claimRefusal :: "Room \<Rightarrow> int \<Rightarrow> string \<Rightarrow> string \<Rightarrow> string \<Rightarrow> string \<Rightarrow> string option" where
  "claimRefusal r u side type i t =
     (if rm_vmf r \<and> side \<noteq> ''red'' then Some ''SIDE_RESERVED_FOR_FIXED_TARGET''
      else if rm_mode r = ''pve'' \<and> side = ''blue'' then Some ''SIDE_RESERVED_FOR_AI''
      else if mirrorMissing r side i t then Some ''AI_ROSTER_MISMATCH''
      else if hasSeat r i \<and> st_ctype (seatOf r i) \<noteq> ''placeholder'' \<and> st_user (seatOf r i) \<noteq> u then Some ''SEAT_OCCUPIED''
      else if type = ''commander'' \<and> side = ''blue'' \<and> \<not> hasSeat r ''red_commander'' then Some ''COMMANDER_PRIORITY''
      else if type \<noteq> ''commander'' \<and> (\<not> hasSeat r ''red_commander'' \<or> (\<not> rm_vmf r \<and> \<not> hasSeat r ''blue_commander''))
           then Some ''COMMANDER_PRIORITY''
      else if seatForUser r u \<noteq> [] \<and> seatForUser r u \<noteq> i then Some ''TRANSFER_REQUIRED''
      else None)"

definition claimedSeat :: "Room \<Rightarrow> int \<Rightarrow> string \<Rightarrow> string \<Rightarrow> string \<Rightarrow> string \<Rightarrow> string \<Rightarrow> Seat \<times> Room" where
  "claimedSeat r u name i side type t =
     (let old = seatOf r i;
          s = noSeat\<lparr>st_id := i, st_type := type, st_side := side, st_user := u, st_humanUser := u, st_username := name,
                st_cid := intText u,
                st_source := (if st_source old = [] then sourceUnitIdForSeat r i else st_source old)\<rparr>;
          source = sourceUnitForSeat r s;
          (unit, r') = (if st_unit old \<noteq> [] then (st_unit old, r)
                        else case source of Some v \<Rightarrow> (su_id v, r) | None \<Rightarrow> allocateUnitId side t r)
      in (s\<lparr>st_template := (case source of Some v \<Rightarrow> su_kind v | None \<Rightarrow> t), st_unit := unit,
            st_deployed := (rm_vmf r \<or> st_deployed old),
            st_pos := (case source of Some v \<Rightarrow> if rm_vmf r then su_pos v else st_pos old | None \<Rightarrow> st_pos old),
            st_unitName := st_unitName old, st_revision := rm_revision r + 1\<rparr>, r'))"

definition unreadyCommander :: "string \<Rightarrow> Room \<Rightarrow> Room" where
  "unreadyCommander i r = (if hasSeat r i \<and> st_ready (seatOf r i)
     then changeSeat i (\<lambda>s. s\<lparr>st_ready := False, st_revision := rm_revision r + 1\<rparr>) r else r)"

definition claimSeat :: "int \<Rightarrow> string \<Rightarrow> string \<Rightarrow> string \<Rightarrow> Room \<Rightarrow> Room \<times> RoomResult" where
  "claimSeat u name i t r =
     (if (rm_phase r \<noteq> ''preparing'' \<and> \<not> (hasSeat r i \<and> st_ctype (seatOf r i) = ''placeholder''))
         \<or> u \<le> 0 \<or> trimmed name = []
      then failed ''INVALID_STATE'' r
      else case validSeatTemplate r False i t of
        None \<Rightarrow> failed ''INVALID_TEMPLATE'' r
      | Some (side, type) \<Rightarrow>
          (case claimRefusal r u side type i t of
             Some code \<Rightarrow> failed code r
           | None \<Rightarrow>
               if seatForUser r u = i then unchanged r
               else
                 (let (s, r1) = claimedSeat r u name i side type t; r2 = putSeat i s r1;
                      r3 = (if type \<noteq> ''commander'' then unreadyCommander (side @ ''_commander'') r2 else r2);
                      (r4, res) = succeed (r3\<lparr>rm_departed := removeAll u (rm_departed r3)\<rparr>)
                  in if rm_mode r \<noteq> ''pve'' \<or> side \<noteq> ''red'' then (r4, res)
                     else case syncAiRoster r4 of
                       (r5, roster) \<Rightarrow> if rr_ok roster then (r5, roster)
                                        else (fst (restoreRoom (roomToJson r) r5), roster))))"

definition requestTransfer :: "int \<Rightarrow> string \<Rightarrow> string \<Rightarrow> Room \<Rightarrow> Room \<times> RoomResult" where
  "requestTransfer u target t r =
     (let current = seatForUser r u; source = seatOf r current in
      if rm_phase r \<noteq> ''preparing'' then failed ''SEAT_LOCKED'' r
      else if current = [] then failed ''SEAT_REQUIRED'' r
      else if st_type source = ''commander'' then failed ''SUCCESSOR_REQUIRED'' r
      else if map_of (rm_transfers r) u \<noteq> None then failed ''TRANSFER_ALREADY_PENDING'' r
      else case validSeatTemplate r False target t of
        None \<Rightarrow> failed ''INVALID_TRANSFER'' r
      | Some (side, type) \<Rightarrow>
          if side \<noteq> st_side source \<or> type = ''commander'' \<or> hasSeat r target then failed ''INVALID_TRANSFER'' r
          else if mirrorMissing r side target t then failed ''AI_ROSTER_MISMATCH'' r
          else
            (let (r1, res) = succeed r in
             (changeSeat current (\<lambda>s. s\<lparr>st_pending := True\<rparr>)
                (r1\<lparr>rm_transfers := AList.update u
                   \<lparr>tr_user = u, tr_target = target, tr_template = t, tr_revision = rr_revision res\<rparr> (rm_transfers r1)\<rparr>),
              res\<lparr>rr_ok := False, rr_code := ''TRANSFER_PENDING''\<rparr>)))"

definition invalidateTransfer :: "int \<Rightarrow> string \<Rightarrow> Room \<Rightarrow> Room \<times> RoomResult" where
  "invalidateTransfer u code r =
     (let i = seatForUser r u in
      if map_of (rm_transfers r) u = None then failed code r
      else let r1 = dropTransfer u r in
           succeed (if i \<noteq> [] then changeSeat i (\<lambda>s. s\<lparr>st_pending := False\<rparr>) r1 else r1))"

text \<open>A stale request also removes the transfer it names.\<close>

definition staleTransfer :: "int \<Rightarrow> Room \<Rightarrow> Room \<times> RoomResult" where
  "staleTransfer u r = failed ''STALE_TRANSFER'' (fst (invalidateTransfer u ''STALE_TRANSFER'' r))"

definition transferRevision :: "Room \<Rightarrow> int \<Rightarrow> nat" where
  "transferRevision r u = (case map_of (rm_transfers r) u of None \<Rightarrow> 0 | Some t \<Rightarrow> tr_revision t)"

definition cancelTransfer :: "int \<Rightarrow> nat \<Rightarrow> Room \<Rightarrow> Room \<times> RoomResult" where
  "cancelTransfer u requested r =
     (if map_of (rm_transfers r) u = None \<or> transferRevision r u \<noteq> requested then staleTransfer u r
      else invalidateTransfer u ''TRANSFER_NOT_FOUND'' r)"

definition commandsUser :: "Room \<Rightarrow> int \<Rightarrow> int \<Rightarrow> bool" where
  "commandsUser r c u \<longleftrightarrow> seatForUser r c \<noteq> [] \<and> seatForUser r u \<noteq> []
     \<and> st_type (seatOf r (seatForUser r c)) = ''commander''
     \<and> st_side (seatOf r (seatForUser r c)) = st_side (seatOf r (seatForUser r u))"

definition rejectTransfer :: "int \<Rightarrow> int \<Rightarrow> nat \<Rightarrow> Room \<Rightarrow> Room \<times> RoomResult" where
  "rejectTransfer c u requested r =
     (if \<not> commandsUser r c u then failed ''PERMISSION_DENIED'' r
      else if map_of (rm_transfers r) u = None \<or> transferRevision r u \<noteq> requested \<or> requested \<noteq> rm_revision r
           then staleTransfer u r
      else invalidateTransfer u ''TRANSFER_NOT_FOUND'' r)"

definition approveTransfer :: "int \<Rightarrow> int \<Rightarrow> nat \<Rightarrow> Room \<Rightarrow> Room \<times> RoomResult" where
  "approveTransfer c u requested r =
     (if rm_phase r \<noteq> ''preparing'' then failed ''SEAT_LOCKED'' r
      else if \<not> commandsUser r c u then failed ''PERMISSION_DENIED'' r
      else case map_of (rm_transfers r) u of
        None \<Rightarrow> staleTransfer u r
      | Some t \<Rightarrow>
          if requested \<noteq> rm_revision r \<or> tr_revision t \<noteq> requested \<or> hasSeat r (tr_target t) then staleTransfer u r
          else
            (let i = seatForUser r u; s = seatOf r i; r1 = dropSeat i r in
             case validSeatTemplate r1 False (tr_target t) (tr_template t) of
               None \<Rightarrow> failed ''INVALID_TRANSFER'' (fst (invalidateTransfer u ''INVALID_TRANSFER'' (putSeat i s r1)))
             | Some (side, type) \<Rightarrow>
                 (let (unit, r2) = allocateUnitId side (tr_template t) (dropTransfer u r1);
                      s' = s\<lparr>st_id := tr_target t, st_type := type, st_template := tr_template t, st_unit := unit,
                             st_pos := origin, st_deployed := False, st_ready := False, st_pending := False,
                             st_revision := rm_revision r + 1\<rparr>;
                      (r3, res) = succeed (putSeat (tr_target t) s' r2)
                  in if rm_mode r = ''pve'' then syncAiRoster r3 else (r3, res))))"

section \<open>Leaving\<close>

definition promotedSeat :: "Room \<Rightarrow> Seat \<Rightarrow> string \<Rightarrow> string \<Rightarrow> Seat \<Rightarrow> Seat" where
  "promotedSeat r commander i unit s =
     (let s' = s\<lparr>st_id := i, st_type := ''commander'', st_pending := False, st_revision := rm_revision r + 1\<rparr> in
      if rm_phase r = ''preparing''
      then s'\<lparr>st_template := ''commandpost'', st_unit := unit, st_unitName := [], st_pos := origin,
              st_deployed := False, st_ready := False\<rparr>
      else s'\<lparr>st_template := st_template commander, st_unit := st_unit commander, st_unitName := st_unitName commander,
              st_pos := st_pos commander, st_deployed := st_deployed commander, st_ready := st_ready commander\<rparr>)"

definition promote :: "int \<Rightarrow> int \<Rightarrow> Room \<Rightarrow> Room \<times> RoomResult" where
  "promote c u r =
     (let ci = seatForUser r c; ui = seatForUser r u; commander = seatOf r ci; s = seatOf r ui in
      if ci = [] \<or> ui = [] then failed ''SUCCESSOR_NOT_FOUND'' r
      else if st_type commander \<noteq> ''commander'' \<or> st_type s = ''commander'' \<or> st_side commander \<noteq> st_side s
              \<or> \<not> st_connected s
           then failed ''INVALID_SUCCESSOR'' r
      else
        (let r1 = dropSeat ui (dropSeat ci r);
             (unit, r2) = (if rm_phase r = ''preparing'' then allocateUnitId (st_side s) ''commandpost'' r1 else ([], r1));
             (r3, res) = succeed (depart c (putSeat ci (promotedSeat r commander ci unit s) (dropTransfer u r2)))
         in if rosterPending r3
            then (case syncRoster r3 of
                    (r4, roster) \<Rightarrow> if rr_ok roster
                      then (r4, res\<lparr>rr_successor := u, rr_revision := rr_revision roster\<rparr>) else (r4, roster))
            else (r3, res\<lparr>rr_successor := u\<rparr>)))"

definition vacate :: "string \<Rightarrow> int \<Rightarrow> Room \<Rightarrow> Room \<times> RoomResult" where
  "vacate i u r =
     (let (r1, res) = succeed (depart u (dropSeat i r)) in if rosterPending r1 then syncRoster r1 else (r1, res))"

definition leave :: "int \<Rightarrow> int \<Rightarrow> Room \<Rightarrow> Room \<times> RoomResult" where
  "leave u successor r =
     (let i = seatForUser r u in
      if i = [] then unchanged r
      else if rm_vmf r \<and> rm_phase r \<noteq> ''preparing'' then convertToVmfAutomation i r
      else if st_type (seatOf r i) = ''commander''
           then (if successor \<le> 0 then failed ''SUCCESSOR_REQUIRED'' r else promote u successor r)
      else vacate i u (dropTransfer u r))"

definition chooseSuccessor :: "string \<Rightarrow> Room \<Rightarrow> Room \<times> int" where
  "chooseSuccessor side r =
     (let candidates = sort (map (\<lambda>(i, s). st_user s) (filter (\<lambda>(i, s). st_ctype s = ''human'' \<and> 0 < st_user s
            \<and> st_side s = side \<and> st_type s \<noteq> ''commander'' \<and> st_connected s) (rm_seats r)));
          rng = xorshift (rm_rng r)
      in if candidates = [] then (r, 0)
         else (r\<lparr>rm_rng := rng\<rparr>, candidates ! unat (rng mod of_nat (length candidates))))"

definition leaveRoom :: "int \<Rightarrow> Room \<Rightarrow> Room \<times> RoomResult" where
  "leaveRoom u r =
     (let i = seatForUser r u in
      if i = [] then unchanged r
      else if rm_vmf r \<and> rm_phase r \<noteq> ''preparing'' then convertToVmfAutomation i r
      else if st_type (seatOf r i) \<noteq> ''commander'' then leave u 0 r
      else case chooseSuccessor (st_side (seatOf r i)) r of
        (r1, successor) \<Rightarrow>
          if 0 < successor then promote u successor r1
          else if rm_phase r1 \<noteq> ''preparing'' then failed ''SUCCESSOR_REQUIRED'' r1
          else vacate i u r1)"

definition disconnect :: "int \<Rightarrow> Room \<Rightarrow> Room \<times> RoomResult" where
  "disconnect u r =
     (let i = seatForUser r u; s = seatOf r i in
      if i = [] then (r, result True [] (rm_revision r) (u \<in> set (rm_departed r)))
      else if rm_vmf r \<and> rm_phase r \<noteq> ''preparing'' then convertToVmfAutomation i r
      else if st_type s \<noteq> ''commander'' then leave u 0 r
      else case chooseSuccessor (st_side s) r of
        (r1, successor) \<Rightarrow>
          if 0 < successor then promote u successor r1
          else if rm_phase r1 = ''preparing'' then vacate i u r1
          else if rm_phase r1 = ''finished'' then unchanged r1
          else
            (let winner = (if st_side s = ''red'' then ''blue'' else ''red'');
                 (r2, res) = succeed (depart u (dropSeat i r1)\<lparr>rm_phase := ''finished'', rm_winner := winner\<rparr>)
             in (r2, res\<lparr>rr_forfeit := True, rr_winner := winner\<rparr>)))"

definition removeUser :: "int \<Rightarrow> Room \<Rightarrow> Room \<times> bool" where
  "removeUser u r =
     (let i = seatForUser r u in
      if i = [] then (r, False)
      else
        (let r1 = (dropTransfer u (dropSeat i r))\<lparr>rm_revision := rm_revision r + 1\<rparr>
         in (if rosterPending r1 then fst (syncRoster r1) else r1, True)))"

section \<open>Deployment and readiness\<close>

definition deploySeat :: "string \<Rightarrow> RoomPos \<Rightarrow> Room \<Rightarrow> Room \<times> RoomResult" where
  "deploySeat i p r = succeed (changeSeat i (\<lambda>s. s\<lparr>st_pos := p, st_deployed := True, st_ready := False,
     st_revision := rm_revision r + 1\<rparr>) r)"

definition deploy :: "int \<Rightarrow> string \<Rightarrow> RoomPos \<Rightarrow> Room \<Rightarrow> Room \<times> RoomResult" where
  "deploy c i p r =
     (let ci = seatForUser r c in
      if ci = [] \<or> \<not> hasSeat r i \<or> st_type (seatOf r ci) \<noteq> ''commander'' \<or> st_side (seatOf r ci) \<noteq> st_side (seatOf r i)
         \<or> rp_x p < 0 \<or> rp_y p < 0
      then failed ''INVALID_DEPLOYMENT'' r else deploySeat i p r)"

definition deployInitial :: "string \<Rightarrow> RoomPos \<Rightarrow> Room \<Rightarrow> Room \<times> RoomResult" where
  "deployInitial i p r =
     (if rm_phase r \<noteq> ''preparing'' \<or> \<not> hasSeat r i \<or> rp_x p < 0 \<or> rp_y p < 0
      then failed ''INVALID_DEPLOYMENT'' r else deploySeat i p r)"

definition setReady :: "int \<Rightarrow> bool \<Rightarrow> Room \<Rightarrow> Room \<times> RoomResult" where
  "setReady u ready r =
     (let i = seatForUser r u; cur = seatOf r i in
      if i = [] \<or> (ready \<and> \<not> st_deployed cur) then failed ''NOT_DEPLOYED'' r
      else if ready \<and> st_type cur = ''commander''
              \<and> list_ex (\<lambda>(j, s). st_side s = st_side cur \<and> st_type s \<noteq> ''commander'' \<and> st_ctype s \<noteq> ''placeholder''
                    \<and> (\<not> st_deployed s \<or> \<not> st_ready s)) (rm_seats r)
           then failed ''FRIENDLY_SEATS_NOT_READY'' r
      else if st_ready cur = ready then unchanged r
      else succeed (changeSeat i (\<lambda>s. s\<lparr>st_ready := ready, st_revision := rm_revision r + 1\<rparr>) r))"

definition setUnitName :: "int \<Rightarrow> string \<Rightarrow> Room \<Rightarrow> Room \<times> RoomResult" where
  "setUnitName u name r =
     (let i = seatForUser r u; name' = trimmed name in
      if rm_phase r \<noteq> ''preparing'' \<or> i = [] \<or> name' = [] \<or> 128 < length name' then failed ''INVALID_UNIT_NAME'' r
      else if st_unitName (seatOf r i) = name' then unchanged r
      else succeed (changeSeat i (\<lambda>s. s\<lparr>st_unitName := name', st_revision := rm_revision r + 1\<rparr>) r))"

definition humanRedCommander :: "Room \<Rightarrow> bool" where
  "humanRedCommander r \<longleftrightarrow> st_ctype (seatOf r ''red_commander'') = ''human'' \<and> 0 < st_user (seatOf r ''red_commander'')"

definition commandersPresent :: "Room \<Rightarrow> bool" where
  "commandersPresent r \<longleftrightarrow> (if rm_vmf r then humanRedCommander r \<and> hasSeat r ''blue_commander''
     else hasSeat r ''red_commander'' \<and> hasSeat r ''blue_commander'')"

definition allReady :: "Room \<Rightarrow> bool" where
  "allReady r \<longleftrightarrow> commandersPresent r \<and> rm_seats r \<noteq> [] \<and> list_all (\<lambda>(i, s). st_deployed s \<and> st_ready s) (rm_seats r)"

definition readiness :: "Room \<Rightarrow> jobject" where
  "readiness r = [(''commandersPresent'', JBool (commandersPresent r)),
     (''humanRedCommanderReady'', JBool (humanRedCommander r \<and> st_deployed (seatOf r ''red_commander'')
        \<and> st_ready (seatOf r ''red_commander''))),
     (''allOccupiedDeployed'', JBool (allReady r)), (''ready'', JBool (allReady r))]"

definition clearReadiness :: "Room \<Rightarrow> Room" where
  "clearReadiness r = (eachSeat (\<lambda>s. s\<lparr>st_ready := (rm_vmf r \<and> st_ctype s = ''placeholder''),
     st_revision := rm_revision r + 1\<rparr>) r)\<lparr>rm_revision := rm_revision r + 1\<rparr>"

section \<open>The match\<close>

definition startMatch :: "Room \<Rightarrow> Room \<times> RoomResult" where
  "startMatch r = (if (rm_phase r \<noteq> ''preparing'' \<and> rm_phase r \<noteq> ''paused'') \<or> \<not> jtoBool False (jget (readiness r) ''ready'')
     then failed ''NOT_READY'' r else succeed (r\<lparr>rm_phase := ''running''\<rparr>))"

definition pauseMatch :: "Room \<Rightarrow> Room \<times> RoomResult" where
  "pauseMatch r = (if rm_phase r \<noteq> ''running'' then failed ''INVALID_STATE'' r else succeed (r\<lparr>rm_phase := ''paused''\<rparr>))"

definition finishMatch :: "string \<Rightarrow> Room \<Rightarrow> Room \<times> RoomResult" where
  "finishMatch winner r =
     (if winner \<noteq> ''red'' \<and> winner \<noteq> ''blue'' \<and> winner \<noteq> ''draw'' then failed ''INVALID_RESULT'' r
      else if rm_phase r = ''finished''
           then (if rm_winner r \<noteq> winner then failed ''RESULT_CONFLICT'' r
                 else (case unchanged r of (r, res) \<Rightarrow> (r, res\<lparr>rr_winner := rm_winner r\<rparr>)))
      else (case succeed (r\<lparr>rm_phase := ''finished'', rm_winner := winner\<rparr>) of
              (r, res) \<Rightarrow> (r, res\<lparr>rr_winner := rm_winner r\<rparr>)))"

definition roomStatus :: "Room \<Rightarrow> string" where
  "roomStatus r = (if rm_phase r = ''preparing'' \<and> jtoBool False (jget (readiness r) ''ready'') then ''ready'' else rm_phase r)"

definition undeploy :: "Room \<Rightarrow> Seat \<Rightarrow> Seat" where
  "undeploy r s = s\<lparr>st_pos := origin, st_deployed := False, st_ready := False, st_pending := False,
     st_redeploy := False, st_revision := rm_revision r + 1\<rparr>"

fun clearSeats :: "string list \<Rightarrow> Room \<Rightarrow> Room" where
  "clearSeats [] r = r"
| "clearSeats (i # is) r =
     (let s = seatOf r i;
          (unit, r1) = (case sourceUnitForSeat r s of
             Some u \<Rightarrow> (su_id u, r) | None \<Rightarrow> allocateUnitId (st_side s) (st_template s) r)
      in clearSeats is (putSeat i (undeploy r (s\<lparr>st_unit := unit\<rparr>)) r1))"

definition clearDeployment :: "Room \<Rightarrow> Room" where
  "clearDeployment r = clearSeats (map fst (rm_seats r)) r"

definition requestRedeploy :: "int \<Rightarrow> Room \<Rightarrow> Room \<times> RoomResult" where
  "requestRedeploy u r =
     (let i = seatForUser r u in
      if rm_phase r \<noteq> ''preparing'' \<or> i = [] \<or> \<not> st_deployed (seatOf r i) then failed ''NOT_DEPLOYED'' r
      else if st_redeploy (seatOf r i) then unchanged r
      else succeed (changeSeat i (\<lambda>s. s\<lparr>st_redeploy := True, st_revision := rm_revision r + 1\<rparr>) r))"

text \<open>The seat to redeploy: the given one, or the only one of the side that has asked.\<close>

definition redeployTarget :: "Room \<Rightarrow> string \<Rightarrow> string \<Rightarrow> string option" where
  "redeployTarget r side requested =
     (if requested \<noteq> [] then Some requested
      else case map (\<lambda>(i, s). st_id s) (filter (\<lambda>(i, s). st_side s = side \<and> st_redeploy s) (rm_seats r)) of
             [] \<Rightarrow> Some [] | [i] \<Rightarrow> Some i | _ \<Rightarrow> None)"

definition redeploy :: "int \<Rightarrow> string \<Rightarrow> Room \<Rightarrow> Room \<times> RoomResult" where
  "redeploy c requested r =
     (let ci = seatForUser r c in
      if rm_phase r \<noteq> ''preparing'' \<or> ci = [] \<or> st_type (seatOf r ci) \<noteq> ''commander'' then failed ''PERMISSION_DENIED'' r
      else case redeployTarget r (st_side (seatOf r ci)) requested of
        None \<Rightarrow> failed ''TARGET_REQUIRED'' r
      | Some i \<Rightarrow>
          if \<not> hasSeat r i then failed ''INVALID_REDEPLOY_TARGET'' r
          else if st_side (seatOf r i) \<noteq> st_side (seatOf r ci) \<or> \<not> st_deployed (seatOf r i)
               then failed ''INVALID_REDEPLOY_TARGET'' r
          else
            (let r1 = changeSeat i (undeploy r) (dropTransfer (st_user (seatOf r i)) r)
             in succeed (if i \<noteq> ci then unreadyCommander ci r1 else r1)))"

definition applyOperation :: "string \<Rightarrow> string \<Rightarrow> nat \<Rightarrow> Room \<Rightarrow> Room \<times> RoomResult" where
  "applyOperation i action requested r =
     (if trimmed i = [] then failed ''INVALID_OPERATION'' r
      else case map_of (rm_operations r) i of
        Some res \<Rightarrow> (r, res\<lparr>rr_duplicate := True\<rparr>)
      | None \<Rightarrow>
          if requested \<noteq> rm_revision r then failed ''STALE_REVISION'' r
          else if action \<noteq> ''reset'' \<and> action \<noteq> ''redeploy'' then failed ''INVALID_OPERATION'' r
          else
            (let r1 = r\<lparr>rm_phase := ''preparing'', rm_winner := [], rm_transfers := []\<rparr>;
                 cleared = (if action = ''redeploy'' then unchanged (clearDeployment r1)
                            else if rosterPending r1 then syncRoster (r1\<lparr>rm_seats := []\<rparr>)
                            else unchanged (r1\<lparr>rm_seats := []\<rparr>))
             in andThen cleared (\<lambda>r2.
                  case succeed r2 of (r3, res) \<Rightarrow> (rememberOperation i res (rm_order r3) r3, res))))"

end
