(* ===== verification/RoomProps.thy ===== *)
theory RoomProps
  imports Room
begin

text \<open>
  What every operation of the authoritative room keeps (\<open>room_ok\<close>): every seat is stored under its id,
  which names its side and type, no user has two seats, seats of the AI exist only in the mode against the
  AI, the single-sided profile has no blue player, every pending transfer belongs to a seated user of the
  side of its target who is no commander, and the operations that are remembered are the newest 256.
\<close>

declare map_of_eq_Some_iff [simp del] Some_eq_map_of_iff [simp del]

section \<open>Looking seats up\<close>

abbreviation look :: "Room \<Rightarrow> string \<Rightarrow> Seat option" where
  "look r i \<equiv> map_of (rm_seats r) i"

definition ident :: "Seat \<Rightarrow> string \<times> string \<times> int \<times> string \<times> string" where
  "ident s = (st_id s, st_ctype s, st_user s, st_side s, st_type s)"

lemma ident_eq: "ident s = ident t \<longleftrightarrow> st_id s = st_id t \<and> st_ctype s = st_ctype t \<and> st_user s = st_user t
  \<and> st_side s = st_side t \<and> st_type s = st_type t"
  by (simp add: ident_def)

lemma rest_put [simp]: "rm_mode (putSeat i s r) = rm_mode r" "rm_vmf (putSeat i s r) = rm_vmf r"
  "rm_phase (putSeat i s r) = rm_phase r" "rm_transfers (putSeat i s r) = rm_transfers r"
  "rm_order (putSeat i s r) = rm_order r" "rm_winner (putSeat i s r) = rm_winner r"
  "rm_operations (putSeat i s r) = rm_operations r" "rm_limits (putSeat i s r) = rm_limits r" "rm_revision (putSeat i s r) = rm_revision r"
  by (simp_all add: putSeat_def)

lemma look_put [simp]: "look (putSeat i s r) j = (if j = i then Some s else look r j)"
  by (simp add: putSeat_def update_conv')

lemma rest_change [simp]: "rm_mode (changeSeat i f r) = rm_mode r" "rm_vmf (changeSeat i f r) = rm_vmf r"
  "rm_phase (changeSeat i f r) = rm_phase r" "rm_transfers (changeSeat i f r) = rm_transfers r"
  "rm_order (changeSeat i f r) = rm_order r" "rm_winner (changeSeat i f r) = rm_winner r"
  "rm_operations (changeSeat i f r) = rm_operations r" "rm_limits (changeSeat i f r) = rm_limits r" "rm_revision (changeSeat i f r) = rm_revision r"
  by (simp_all add: changeSeat_def)

lemma look_change: "hasSeat r i \<Longrightarrow> look (changeSeat i f r) j = (if j = i then map_option f (look r i) else look r j)"
  by (auto simp: changeSeat_def seatOf_def hasSeat_def)

lemma rest_drop [simp]: "rm_mode (dropSeat i r) = rm_mode r" "rm_vmf (dropSeat i r) = rm_vmf r"
  "rm_phase (dropSeat i r) = rm_phase r" "rm_transfers (dropSeat i r) = rm_transfers r"
  "rm_order (dropSeat i r) = rm_order r" "rm_winner (dropSeat i r) = rm_winner r"
  "rm_operations (dropSeat i r) = rm_operations r" "rm_limits (dropSeat i r) = rm_limits r" "rm_revision (dropSeat i r) = rm_revision r"
  by (simp_all add: dropSeat_def)

lemma look_drop [simp]: "look (dropSeat i r) j = (if j = i then None else look r j)"
  by (simp add: dropSeat_def delete_conv')

lemma rest_dropSeats [simp]: "rm_mode (dropSeats P r) = rm_mode r" "rm_vmf (dropSeats P r) = rm_vmf r"
  "rm_phase (dropSeats P r) = rm_phase r" "rm_transfers (dropSeats P r) = rm_transfers r"
  "rm_order (dropSeats P r) = rm_order r" "rm_winner (dropSeats P r) = rm_winner r"
  "rm_operations (dropSeats P r) = rm_operations r" "rm_limits (dropSeats P r) = rm_limits r" "rm_revision (dropSeats P r) = rm_revision r"
  by (simp_all add: dropSeats_def)

lemma map_of_filter_snd:
  assumes "distinct (map fst xs)"
  shows "map_of (filter (\<lambda>(i, s). \<not> P s) xs) j =
    (case map_of xs j of None \<Rightarrow> None | Some s \<Rightarrow> if P s then None else Some s)"
  using assms
proof (induction xs)
  case (Cons x xs)
  obtain i s where x: "x = (i, s)" by (cases x)
  have "map_of xs i = None" using Cons.prems by (simp add: x map_of_eq_None_iff)
  show ?case
  proof (cases "j = i")
    case True
    have "map_of (filter (\<lambda>(i, s). \<not> P s) xs) i = None"
      using Cons.prems by (auto simp: x map_of_eq_None_iff)
    then show ?thesis using True by (simp add: x)
  next
    case False
    then show ?thesis using Cons by (simp add: x)
  qed
qed simp

lemma look_dropSeats: "distinct (map fst (rm_seats r)) \<Longrightarrow> look (dropSeats P r) j =
  (case look r j of None \<Rightarrow> None | Some s \<Rightarrow> if P s then None else Some s)"
  by (simp add: dropSeats_def map_of_filter_snd)

lemma rest_each [simp]: "rm_mode (eachSeat f r) = rm_mode r" "rm_vmf (eachSeat f r) = rm_vmf r"
  "rm_phase (eachSeat f r) = rm_phase r" "rm_transfers (eachSeat f r) = rm_transfers r"
  "rm_order (eachSeat f r) = rm_order r" "rm_winner (eachSeat f r) = rm_winner r"
  "rm_operations (eachSeat f r) = rm_operations r" "rm_limits (eachSeat f r) = rm_limits r" "rm_revision (eachSeat f r) = rm_revision r"
  by (simp_all add: eachSeat_def)

lemma look_each: "look (eachSeat f r) j = map_option f (look r j)"
  by (simp add: eachSeat_def map_of_map)

lemma keys_kept: "distinct (map fst (rm_seats r)) \<Longrightarrow> distinct (map fst (rm_seats (putSeat i s r)))"
  "distinct (map fst (rm_seats r)) \<Longrightarrow> distinct (map fst (rm_seats (changeSeat i f r)))"
  "distinct (map fst (rm_seats r)) \<Longrightarrow> distinct (map fst (rm_seats (dropSeat i r)))"
  "distinct (map fst (rm_seats r)) \<Longrightarrow> distinct (map fst (rm_seats (dropSeats P r)))"
  "distinct (map fst (rm_seats r)) \<Longrightarrow> distinct (map fst (rm_seats (eachSeat f r)))"
  by (simp_all add: putSeat_def changeSeat_def dropSeat_def dropSeats_def eachSeat_def distinct_update distinct_delete
      comp_def case_prod_beta distinct_map_filter)

lemma rest_transfer [simp]: "rm_mode (dropTransfer u r) = rm_mode r" "rm_vmf (dropTransfer u r) = rm_vmf r"
  "rm_phase (dropTransfer u r) = rm_phase r" "rm_seats (dropTransfer u r) = rm_seats r"
  "rm_order (dropTransfer u r) = rm_order r" "rm_winner (dropTransfer u r) = rm_winner r"
  "rm_operations (dropTransfer u r) = rm_operations r" "rm_limits (dropTransfer u r) = rm_limits r" "rm_revision (dropTransfer u r) = rm_revision r"
  "rm_transfers (dropTransfer u r) = AList.delete u (rm_transfers r)"
  by (simp_all add: dropTransfer_def)

lemma rest_depart [simp]: "rm_mode (depart u r) = rm_mode r" "rm_vmf (depart u r) = rm_vmf r"
  "rm_phase (depart u r) = rm_phase r" "rm_seats (depart u r) = rm_seats r" "rm_order (depart u r) = rm_order r" "rm_winner (depart u r) = rm_winner r"
  "rm_operations (depart u r) = rm_operations r" "rm_limits (depart u r) = rm_limits r"
  "rm_revision (depart u r) = rm_revision r" "rm_transfers (depart u r) = rm_transfers r"
  by (simp_all add: depart_def)

lemma outcome_simps [simp]: "fst (failed code r) = r" "fst (unchanged r) = r"
  "fst (succeed r) = r\<lparr>rm_revision := rm_revision r + 1\<rparr>" "rr_ok (snd (succeed r))" "rr_ok (snd (unchanged r))"
  "\<not> rr_ok (snd (failed code r))"
  by (simp_all add: failed_def unchanged_def succeed_def result_def)

lemma allocate_rest [simp]: "rm_seats (snd (allocateUnitId side t r)) = rm_seats r"
  "rm_mode (snd (allocateUnitId side t r)) = rm_mode r" "rm_vmf (snd (allocateUnitId side t r)) = rm_vmf r"
  "rm_phase (snd (allocateUnitId side t r)) = rm_phase r" "rm_order (snd (allocateUnitId side t r)) = rm_order r"
  "rm_transfers (snd (allocateUnitId side t r)) = rm_transfers r" "rm_winner (snd (allocateUnitId side t r)) = rm_winner r"
  "rm_operations (snd (allocateUnitId side t r)) = rm_operations r" "rm_limits (snd (allocateUnitId side t r)) = rm_limits r"
  by (simp_all add: allocateUnitId_def)

section \<open>The invariant\<close>

abbreviation isHuman :: "Seat \<Rightarrow> bool" where
  "isHuman s \<equiv> st_ctype s = ''human''"

definition occupant_ok :: "Seat \<Rightarrow> bool" where
  "occupant_ok s \<longleftrightarrow> isHuman s \<and> 0 < st_user s \<or> st_ctype s \<in> {''ai'', ''placeholder''} \<and> st_user s = 0"

definition names_seat :: "string \<Rightarrow> string \<Rightarrow> string \<Rightarrow> bool" where
  "names_seat i side type \<longleftrightarrow> i \<noteq> [] \<and> partAt (seatParts i) 0 = side \<and> partAt (seatParts i) 1 = type
     \<and> side \<in> {''red'', ''blue''} \<and> type \<in> {''commander'', ''attack'', ''recon'', ''ground'', ''jammer''}"

definition seat_fits :: "Room \<Rightarrow> string \<Rightarrow> Seat \<Rightarrow> bool" where
  "seat_fits r i s \<longleftrightarrow> st_id s = i \<and> names_seat i (st_side s) (st_type s) \<and> occupant_ok s
     \<and> (st_ctype s = ''ai'' \<longrightarrow> rm_mode r = ''pve'') \<and> (rm_vmf r \<and> st_side s = ''blue'' \<longrightarrow> \<not> isHuman s)"

definition one_seat_each :: "Room \<Rightarrow> bool" where
  "one_seat_each r \<longleftrightarrow> (\<forall>i j s t. look r i = Some s \<and> look r j = Some t \<and> isHuman s \<and> isHuman t
     \<and> st_user s = st_user t \<longrightarrow> i = j)"

definition seats_ok :: "Room \<Rightarrow> bool" where
  "seats_ok r \<longleftrightarrow> distinct (map fst (rm_seats r)) \<and> (\<forall>i s. look r i = Some s \<longrightarrow> seat_fits r i s) \<and> one_seat_each r"

text \<open>The user of a transfer has a seat of the side of the target and is no commander.\<close>

definition movable :: "Room \<Rightarrow> Transfer \<Rightarrow> bool" where
  "movable r t \<longleftrightarrow> (\<exists>i s. look r i = Some s \<and> isHuman s \<and> st_user s = tr_user t \<and> st_type s \<noteq> ''commander''
     \<and> st_side s = partAt (seatParts (tr_target t)) 0)"

definition transfers_ok :: "Room \<Rightarrow> bool" where
  "transfers_ok r \<longleftrightarrow> distinct (map fst (rm_transfers r))
     \<and> (\<forall>u t. map_of (rm_transfers r) u = Some t \<longrightarrow> tr_user t = u \<and> movable r t)"

definition operations_ok :: "Room \<Rightarrow> bool" where
  "operations_ok r \<longleftrightarrow> distinct (rm_order r) \<and> length (rm_order r) \<le> 256
     \<and> dom (map_of (rm_operations r)) = set (rm_order r)"

definition match_ok :: "Room \<Rightarrow> bool" where
  "match_ok r \<longleftrightarrow> rm_phase r \<in> {''preparing'', ''running'', ''paused'', ''finished''} \<and> rm_mode r \<in> {''pvp'', ''pve''}
     \<and> (rm_vmf r \<longrightarrow> rm_mode r = ''pvp'')
     \<and> rm_winner r \<in> (if rm_phase r = ''finished'' then {''red'', ''blue'', ''draw''} else {[]})"

definition limits_ok :: "Room \<Rightarrow> bool" where
  "limits_ok r \<longleftrightarrow> list_all limitValid (rm_limits r)"

definition room_ok :: "Room \<Rightarrow> bool" where
  "room_ok r \<longleftrightarrow> seats_ok r \<and> transfers_ok r \<and> operations_ok r \<and> match_ok r \<and> limits_ok r"

text \<open>Rooms that differ in nothing the invariant speaks of.\<close>

definition alike :: "Room \<Rightarrow> Room \<Rightarrow> bool" where
  "alike r r' \<longleftrightarrow> (\<forall>i. map_option ident (look r' i) = map_option ident (look r i))
     \<and> (distinct (map fst (rm_seats r)) \<longrightarrow> distinct (map fst (rm_seats r')))
     \<and> rm_transfers r' = rm_transfers r \<and> rm_mode r' = rm_mode r \<and> rm_vmf r' = rm_vmf r
     \<and> rm_phase r' = rm_phase r \<and> rm_winner r' = rm_winner r \<and> rm_order r' = rm_order r
     \<and> rm_operations r' = rm_operations r \<and> rm_limits r' = rm_limits r"

lemma alike_refl [simp]: "alike r r"
  by (simp add: alike_def)

lemma alike_trans: "alike r s \<Longrightarrow> alike s t \<Longrightarrow> alike r t"
  by (simp add: alike_def)

lemma alike_ident: "alike r r' \<Longrightarrow> map_option ident (look r' i) = map_option ident (look r i)"
  unfolding alike_def by blast

lemma alike_look: "alike r r' \<Longrightarrow> look r' i = Some s' \<Longrightarrow> \<exists>s. look r i = Some s \<and> ident s' = ident s"
  using alike_ident [of r r' i] by (cases "look r i") simp_all

lemma alike_look': "alike r r' \<Longrightarrow> look r i = Some s \<Longrightarrow> \<exists>s'. look r' i = Some s' \<and> ident s' = ident s"
  using alike_ident [of r r' i] by (cases "look r' i") simp_all

lemma fits_ident: "seat_fits r i s \<Longrightarrow> ident s' = ident s \<Longrightarrow> rm_mode r' = rm_mode r \<Longrightarrow> rm_vmf r' = rm_vmf r \<Longrightarrow>
  seat_fits r' i s'"
  unfolding seat_fits_def occupant_ok_def ident_eq by metis

lemma seats_okI:
  assumes "distinct (map fst (rm_seats r))" "\<And>i s. look r i = Some s \<Longrightarrow> seat_fits r i s"
    "\<And>i j s t. look r i = Some s \<Longrightarrow> look r j = Some t \<Longrightarrow> isHuman s \<Longrightarrow> isHuman t \<Longrightarrow> st_user s = st_user t \<Longrightarrow> i = j"
  shows "seats_ok r"
  unfolding seats_ok_def one_seat_each_def using assms by blast

lemma seats_okD:
  assumes "seats_ok r"
  shows "distinct (map fst (rm_seats r))" "look r i = Some s \<Longrightarrow> seat_fits r i s"
    "look r i = Some s \<Longrightarrow> look r j = Some t \<Longrightarrow> isHuman s \<Longrightarrow> isHuman t \<Longrightarrow> st_user s = st_user t \<Longrightarrow> i = j"
  using assms unfolding seats_ok_def one_seat_each_def by blast+

lemma alike_seats:
  assumes a: "alike r r'" and ok: "seats_ok r"
  shows "seats_ok r'"
proof (rule seats_okI)
  show "distinct (map fst (rm_seats r'))" using a seats_okD(1) [OF ok] unfolding alike_def by blast
  have m: "rm_mode r' = rm_mode r" "rm_vmf r' = rm_vmf r" using a by (simp_all add: alike_def)
  show "seat_fits r' i s'" if h: "look r' i = Some s'" for i s'
  proof -
    obtain s where s: "look r i = Some s" "ident s' = ident s" using alike_look [OF a h] by blast
    show ?thesis by (rule fits_ident [OF seats_okD(2) [OF ok s(1)] s(2) m])
  qed
  show "i = j" if h: "look r' i = Some s" "look r' j = Some t" "isHuman s" "isHuman t" "st_user s = st_user t"
    for i j s t
  proof -
    obtain s0 where s: "look r i = Some s0" "ident s = ident s0" using alike_look [OF a h(1)] by blast
    obtain t0 where t: "look r j = Some t0" "ident t = ident t0" using alike_look [OF a h(2)] by blast
    show ?thesis by (rule seats_okD(3) [OF ok s(1) t(1)]) (use h s(2) t(2) in \<open>simp_all add: ident_eq\<close>)
  qed
qed

lemma alike_movable:
  assumes a: "alike r r'" and "movable r t"
  shows "movable r' t"
proof -
  obtain i s where s: "look r i = Some s" "isHuman s" "st_user s = tr_user t" "st_type s \<noteq> ''commander''"
    "st_side s = partAt (seatParts (tr_target t)) 0" using assms(2) unfolding movable_def by blast
  obtain s' where t: "look r' i = Some s'" "ident s' = ident s" using alike_look' [OF a s(1)] by blast
  show ?thesis unfolding movable_def using s t by (intro exI [of _ i] exI [of _ s']) (simp add: ident_eq)
qed

lemma transfers_okI:
  assumes "transfers_ok r" "rm_transfers r' = rm_transfers r" "\<And>t. movable r t \<Longrightarrow> movable r' t"
  shows "transfers_ok r'"
  using assms unfolding transfers_ok_def by auto

lemma alike_ok:
  assumes a: "alike r r'" and ok: "room_ok r"
  shows "room_ok r'"
proof -
  have e: "rm_transfers r' = rm_transfers r" "rm_mode r' = rm_mode r" "rm_vmf r' = rm_vmf r" "rm_phase r' = rm_phase r"
    "rm_winner r' = rm_winner r" "rm_order r' = rm_order r" "rm_operations r' = rm_operations r" "rm_limits r' = rm_limits r"
    using a by (simp_all add: alike_def)
  have "transfers_ok r'" using transfers_okI [OF _ e(1) alike_movable [OF a]] ok unfolding room_ok_def by blast
  moreover have "seats_ok r'" using ok alike_seats [OF a] unfolding room_ok_def by blast
  ultimately show ?thesis using ok unfolding room_ok_def operations_ok_def match_ok_def limits_ok_def e by blast
qed

lemma alike_same: "rm_seats r' = rm_seats r \<Longrightarrow> rm_transfers r' = rm_transfers r \<Longrightarrow> rm_mode r' = rm_mode r \<Longrightarrow>
  rm_vmf r' = rm_vmf r \<Longrightarrow> rm_phase r' = rm_phase r \<Longrightarrow> rm_winner r' = rm_winner r \<Longrightarrow> rm_order r' = rm_order r \<Longrightarrow>
  rm_operations r' = rm_operations r \<Longrightarrow> rm_limits r' = rm_limits r \<Longrightarrow> alike r r'"
  by (simp add: alike_def)

lemma alike_put: "hasSeat r i \<Longrightarrow> ident s = ident (seatOf r i) \<Longrightarrow> alike r (putSeat i s r)"
  by (auto simp: alike_def keys_kept hasSeat_def seatOf_def)

lemma alike_change: "hasSeat r i \<Longrightarrow> (\<And>s. ident (f s) = ident s) \<Longrightarrow> alike r (changeSeat i f r)"
  unfolding changeSeat_def by (rule alike_put)

lemma alike_each: "(\<And>s. ident (f s) = ident s) \<Longrightarrow> alike r (eachSeat f r)"
  by (simp add: alike_def look_each keys_kept option.map_comp comp_def)

lemma alike_other [simp]: "alike r (r\<lparr>rm_revision := n\<rparr>)" "alike r (r\<lparr>rm_nextUnit := n\<rparr>)"
  "alike r (r\<lparr>rm_departed := d\<rparr>)" "alike r (r\<lparr>rm_rng := x\<rparr>)" "alike r (r\<lparr>rm_templates := ts\<rparr>)"
  "alike r (r\<lparr>rm_sources := ss, rm_seatSources := bs\<rparr>)" "alike r (depart u r)"
  "alike r (snd (allocateUnitId side t r))"
  by (rule alike_same; simp)+

lemmas ok_other [simp, intro] = alike_other [THEN alike_ok]

lemma ok_change: "room_ok r \<Longrightarrow> hasSeat r i \<Longrightarrow> (\<And>s. ident (f s) = ident s) \<Longrightarrow> room_ok (changeSeat i f r)"
  by (rule alike_ok [OF alike_change])

lemma ok_each: "room_ok r \<Longrightarrow> (\<And>s. ident (f s) = ident s) \<Longrightarrow> room_ok (eachSeat f r)"
  by (rule alike_ok [OF alike_each])

section \<open>Changing one part\<close>

lemma room_okD:
  assumes "room_ok r"
  shows "seats_ok r" "transfers_ok r" "operations_ok r" "match_ok r" "limits_ok r"
    "distinct (map fst (rm_seats r))" "look r i = Some s \<Longrightarrow> seat_fits r i s"
    "look r i = Some s \<Longrightarrow> look r j = Some t \<Longrightarrow> isHuman s \<Longrightarrow> isHuman t \<Longrightarrow> st_user s = st_user t \<Longrightarrow> i = j"
  using assms seats_okD [of r] unfolding room_ok_def by blast+

lemma room_ok_seats:
  assumes "room_ok r" "seats_ok r'" "\<And>t. map_of (rm_transfers r) (tr_user t) = Some t \<Longrightarrow> movable r t \<Longrightarrow> movable r' t"
    "rm_transfers r' = rm_transfers r" "rm_mode r' = rm_mode r" "rm_vmf r' = rm_vmf r" "rm_phase r' = rm_phase r"
    "rm_winner r' = rm_winner r" "rm_order r' = rm_order r" "rm_operations r' = rm_operations r" "rm_limits r' = rm_limits r"
  shows "room_ok r'"
proof -
  have t: "distinct (map fst (rm_transfers r))" "\<And>u t. map_of (rm_transfers r) u = Some t \<Longrightarrow> tr_user t = u \<and> movable r t"
    using assms(1) unfolding room_ok_def transfers_ok_def by blast+
  have "transfers_ok r'" unfolding transfers_ok_def assms(4) using t assms(3) by blast
  moreover have "operations_ok r'" "match_ok r'" "limits_ok r'"
    using room_okD(3-5) [OF assms(1)] unfolding operations_ok_def match_ok_def limits_ok_def assms(5-) by blast+
  ultimately show ?thesis using assms(2) unfolding room_ok_def by blast
qed

end
