(* ===== verification/RoomInvariant.thy ===== *)
theory RoomInvariant
  imports RoomProps
begin

text \<open>
  The invariant of the authoritative room is kept by every operation: first the elementary changes (a seat
  put, dropped or changed, a transfer, the phase, a remembered operation), then one lemma per operation.
\<close>

declare map_of_eq_Some_iff [simp del] Some_eq_map_of_iff [simp del]

named_theorems room_intros \<open>operations that keep the invariant\<close>

section \<open>Elementary changes\<close>

lemma seats_ok_same:
  assumes "rm_seats r' = rm_seats r" "rm_mode r' = rm_mode r" "rm_vmf r' = rm_vmf r"
  shows "seats_ok r' \<longleftrightarrow> seats_ok r"
  unfolding seats_ok_def one_seat_each_def seat_fits_def assms ..

lemma seat_fits_cong: "seat_fits r i s \<Longrightarrow> rm_mode r' = rm_mode r \<Longrightarrow> rm_vmf r' = rm_vmf r \<Longrightarrow> seat_fits r' i s"
  unfolding seat_fits_def by simp

lemma put_seats_ok:
  assumes ok: "seats_ok r" and fits: "seat_fits r i s"
    and own: "\<And>j t. look r j = Some t \<Longrightarrow> isHuman t \<Longrightarrow> isHuman s \<Longrightarrow> st_user t = st_user s \<Longrightarrow> j = i"
  shows "seats_ok (putSeat i s r)"
proof (rule seats_okI)
  show "distinct (map fst (rm_seats (putSeat i s r)))" by (rule keys_kept(1) [OF seats_okD(1) [OF ok]])
  show "seat_fits (putSeat i s r) j t" if h: "look (putSeat i s r) j = Some t" for j t
  proof (rule seat_fits_cong)
    show "seat_fits r j t" using h fits seats_okD(2) [OF ok] by (simp split: if_splits)
  qed simp_all
  show "j = k" if h: "look (putSeat i s r) j = Some t" "look (putSeat i s r) k = Some v" "isHuman t" "isHuman v"
    "st_user t = st_user v" for j k t v
    using h own [of j t] own [of k v] seats_okD(3) [OF ok, of j t k v] by (simp split: if_splits)
qed

lemma put_ok:
  assumes ok: "room_ok r" and fits: "seat_fits r i s"
    and own: "\<And>j t. look r j = Some t \<Longrightarrow> isHuman t \<Longrightarrow> isHuman s \<Longrightarrow> st_user t = st_user s \<Longrightarrow> j = i"
    and old: "\<And>t. look r i = Some t \<Longrightarrow> isHuman t \<Longrightarrow> map_of (rm_transfers r) (st_user t) = None"
  shows "room_ok (putSeat i s r)"
proof (rule room_ok_seats [OF ok])
  show "seats_ok (putSeat i s r)" by (rule put_seats_ok [OF room_okD(1) [OF ok] fits]) (rule own)
  fix t assume t: "map_of (rm_transfers r) (tr_user t) = Some t" "movable r t"
  obtain j v where v: "look r j = Some v" "isHuman v" "st_user v = tr_user t" "st_type v \<noteq> ''commander''"
    "st_side v = partAt (seatParts (tr_target t)) 0" using t(2) unfolding movable_def by blast
  have "j \<noteq> i" using old [of v] v t(1) by auto
  then show "movable (putSeat i s r) t" using v unfolding movable_def by (intro exI [of _ j] exI [of _ v]) simp
qed simp_all

text \<open>A seat without a player may always be replaced by another one.\<close>

lemma put_server_ok:
  assumes ok: "room_ok r" and fits: "seat_fits r i s" and server: "\<not> isHuman s"
    and old: "hasSeat r i \<Longrightarrow> \<not> isHuman (seatOf r i)"
  shows "room_ok (putSeat i s r)"
proof (rule put_ok [OF ok fits])
  show "map_of (rm_transfers r) (st_user t) = None" if h: "look r i = Some t" "isHuman t" for t
    using h old by (simp add: hasSeat_def seatOf_def)
qed (use server in simp)

lemma seats_ok_sub:
  assumes ok: "seats_ok r" and keys: "distinct (map fst (rm_seats r'))" and "rm_mode r' = rm_mode r" "rm_vmf r' = rm_vmf r"
    and sub: "\<And>i s. look r' i = Some s \<Longrightarrow> look r i = Some s"
  shows "seats_ok r'"
proof (rule seats_okI [OF keys])
  show "seat_fits r' i s" if h: "look r' i = Some s" for i s
    by (rule seat_fits_cong [OF seats_okD(2) [OF ok sub [OF h]] assms(3,4)])
  show "i = j" if h: "look r' i = Some s" "look r' j = Some t" "isHuman s" "isHuman t" "st_user s = st_user t" for i j s t
    by (rule seats_okD(3) [OF ok sub [OF h(1)] sub [OF h(2)] h(3-5)])
qed

lemma drop_ok:
  assumes ok: "room_ok r"
    and old: "\<And>s. look r i = Some s \<Longrightarrow> isHuman s \<Longrightarrow> st_type s \<noteq> ''commander'' \<Longrightarrow> map_of (rm_transfers r) (st_user s) = None"
  shows "room_ok (dropSeat i r)"
proof (rule room_ok_seats [OF ok])
  show "seats_ok (dropSeat i r)"
    by (rule seats_ok_sub [OF room_okD(1) [OF ok] keys_kept(3) [OF room_okD(6) [OF ok]]]) (simp_all split: if_splits)
  fix t assume t: "map_of (rm_transfers r) (tr_user t) = Some t" "movable r t"
  obtain j v where v: "look r j = Some v" "isHuman v" "st_user v = tr_user t" "st_type v \<noteq> ''commander''"
    "st_side v = partAt (seatParts (tr_target t)) 0" using t(2) unfolding movable_def by blast
  have "j \<noteq> i" using old [of v] v t(1) by auto
  then show "movable (dropSeat i r) t" using v unfolding movable_def by (intro exI [of _ j] exI [of _ v]) simp
qed simp_all

lemma dropSeats_ok:
  assumes ok: "room_ok r" and server: "\<And>i s. look r i = Some s \<Longrightarrow> P s \<Longrightarrow> \<not> isHuman s"
  shows "room_ok (dropSeats P r)"
proof (rule room_ok_seats [OF ok])
  note look_dropSeats' = look_dropSeats [OF room_okD(6) [OF ok]]
  show "seats_ok (dropSeats P r)"
    by (rule seats_ok_sub [OF room_okD(1) [OF ok] keys_kept(4) [OF room_okD(6) [OF ok]]])
      (simp_all add: look_dropSeats' split: option.splits if_splits)
  fix t assume t: "movable r t"
  obtain j v where v: "look r j = Some v" "isHuman v" "st_user v = tr_user t" "st_type v \<noteq> ''commander''"
    "st_side v = partAt (seatParts (tr_target t)) 0" using t unfolding movable_def by blast
  have "\<not> P v" using server [OF v(1)] v(2) by blast
  then show "movable (dropSeats P r) t" using v unfolding movable_def
    by (intro exI [of _ j] exI [of _ v]) (simp add: look_dropSeats')
qed simp_all

lemma transfers_sub:
  assumes ok: "room_ok r" and d: "distinct (map fst ts)" and sub: "\<And>u t. map_of ts u = Some t \<Longrightarrow> map_of (rm_transfers r) u = Some t"
  shows "room_ok (r\<lparr>rm_transfers := ts\<rparr>)"
proof -
  have m: "movable (r\<lparr>rm_transfers := ts\<rparr>) t \<longleftrightarrow> movable r t" for t by (simp add: movable_def)
  have "transfers_ok (r\<lparr>rm_transfers := ts\<rparr>)"
    using room_okD(2) [OF ok] d sub unfolding transfers_ok_def m by simp blast
  moreover have "seats_ok (r\<lparr>rm_transfers := ts\<rparr>)"
    by (subst seats_ok_same [of _ r]) (simp_all add: room_okD(1) [OF ok])
  ultimately show ?thesis using room_okD(3-5) [OF ok] unfolding room_ok_def operations_ok_def match_ok_def limits_ok_def by simp
qed

lemma dropTransfer_ok [room_intros]: "room_ok r \<Longrightarrow> room_ok (dropTransfer u r)"
  unfolding dropTransfer_def
  by (rule transfers_sub) (use room_okD(2) [of r] in \<open>auto simp: transfers_ok_def distinct_delete delete_conv' split: if_splits\<close>)

lemma addTransfer_ok:
  assumes ok: "room_ok r" and "tr_user t = u" "movable r t"
  shows "room_ok (r\<lparr>rm_transfers := AList.update u t (rm_transfers r)\<rparr>)"
proof -
  let ?r = "r\<lparr>rm_transfers := AList.update u t (rm_transfers r)\<rparr>"
  have m: "movable ?r t \<longleftrightarrow> movable r t" for t by (simp add: movable_def)
  have "transfers_ok ?r"
    unfolding transfers_ok_def m using room_okD(2) [OF ok] assms(2,3)
    by (auto simp: transfers_ok_def update_conv' distinct_update split: if_splits)
  moreover have "seats_ok ?r" by (subst seats_ok_same [of _ r]) (simp_all add: room_okD(1) [OF ok])
  ultimately show ?thesis using room_okD(3-5) [OF ok] unfolding room_ok_def operations_ok_def match_ok_def limits_ok_def by simp
qed

lemma phase_ok:
  assumes ok: "room_ok r" and p: "p \<in> {''preparing'', ''running'', ''paused'', ''finished''}"
    "w \<in> (if p = ''finished'' then {''red'', ''blue'', ''draw''} else {[]})"
  shows "room_ok (r\<lparr>rm_phase := p, rm_winner := w\<rparr>)"
proof -
  let ?r = "r\<lparr>rm_phase := p, rm_winner := w\<rparr>"
  have "seats_ok ?r" by (subst seats_ok_same [of _ r]) (simp_all add: room_okD(1) [OF ok])
  moreover have "transfers_ok ?r" using room_okD(2) [OF ok] by (rule transfers_okI) (simp_all add: movable_def)
  moreover have "match_ok ?r" using room_okD(4) [OF ok] p unfolding match_ok_def by simp
  ultimately show ?thesis using room_okD(3,5) [OF ok] unfolding room_ok_def operations_ok_def limits_ok_def by simp
qed

lemma limits_ok:
  assumes ok: "room_ok r" and "list_all limitValid ls"
  shows "room_ok (r\<lparr>rm_limits := ls\<rparr>)"
proof -
  let ?r = "r\<lparr>rm_limits := ls\<rparr>"
  have "seats_ok ?r" by (subst seats_ok_same [of _ r]) (simp_all add: room_okD(1) [OF ok])
  moreover have "transfers_ok ?r" using room_okD(2) [OF ok] by (rule transfers_okI) (simp_all add: movable_def)
  ultimately show ?thesis using room_okD(3,4) [OF ok] assms(2)
    unfolding room_ok_def operations_ok_def match_ok_def RoomProps.limits_ok_def by simp
qed

section \<open>Rooms that differ in seats only\<close>

text \<open>What a change of seats, transfers and counters leaves; the revision does not fall.\<close>

definition calm :: "Room \<Rightarrow> Room \<Rightarrow> bool" where
  "calm r r' \<longleftrightarrow> rm_phase r' = rm_phase r \<and> rm_winner r' = rm_winner r \<and> rm_mode r' = rm_mode r \<and> rm_vmf r' = rm_vmf r
     \<and> rm_limits r' = rm_limits r \<and> rm_revision r \<le> rm_revision r' \<and> set (rm_order r') \<subseteq> set (rm_order r)"

definition good :: "Room \<Rightarrow> Room \<Rightarrow> bool" where
  "good r0 r \<longleftrightarrow> room_ok r \<and> calm r0 r"

lemma good_refl: "room_ok r \<Longrightarrow> good r r"
  by (simp add: good_def calm_def)

lemma goodD: "good r0 r \<Longrightarrow> room_ok r" "good r0 r \<Longrightarrow> rm_phase r = rm_phase r0" "good r0 r \<Longrightarrow> rm_mode r = rm_mode r0"
  "good r0 r \<Longrightarrow> rm_vmf r = rm_vmf r0" "good r0 r \<Longrightarrow> rm_winner r = rm_winner r0" "good r0 r \<Longrightarrow> rm_revision r0 \<le> rm_revision r"
  "good r0 r \<Longrightarrow> rm_limits r = rm_limits r0" "good r0 r \<Longrightarrow> set (rm_order r) \<subseteq> set (rm_order r0)"
  by (simp_all add: good_def calm_def)

lemma good_calm: "good r0 r \<Longrightarrow> room_ok r' \<Longrightarrow> calm r r' \<Longrightarrow> good r0 r'"
  by (auto simp: good_def calm_def)

lemma good_alike: "good r0 r \<Longrightarrow> alike r r' \<Longrightarrow> rm_revision r \<le> rm_revision r' \<Longrightarrow> good r0 r'"
  by (rule good_calm, assumption, rule alike_ok) (auto simp: calm_def alike_def good_def)

lemma revision_simps [simp]: "rm_revision (dropTransfer u r) = rm_revision r" "rm_revision (depart u r) = rm_revision r"
  "rm_revision (snd (allocateUnitId side t r)) = rm_revision r"
  by (simp_all add: dropTransfer_def depart_def allocateUnitId_def)

lemma good_result [room_intros]: "good r0 r \<Longrightarrow> good r0 (fst (succeed r))" "good r0 r \<Longrightarrow> good r0 (fst (failed code r))"
  "good r0 r \<Longrightarrow> good r0 (fst (unchanged r))"
  by (simp_all add: good_alike [OF _ alike_other(1)])

lemma good_other [room_intros]: "good r0 r \<Longrightarrow> good r0 (r\<lparr>rm_nextUnit := n\<rparr>)" "good r0 r \<Longrightarrow> good r0 (r\<lparr>rm_departed := d\<rparr>)"
  "good r0 r \<Longrightarrow> good r0 (r\<lparr>rm_rng := x\<rparr>)" "good r0 r \<Longrightarrow> good r0 (depart u r)"
  "good r0 r \<Longrightarrow> rm_revision r \<le> n' \<Longrightarrow> good r0 (r\<lparr>rm_revision := n'\<rparr>)"
  "good r0 r \<Longrightarrow> good r0 (snd (allocateUnitId side t r))"
  by (erule good_alike; simp)+

lemma good_dropTransfer [room_intros]: "good r0 r \<Longrightarrow> good r0 (dropTransfer u r)"
  by (rule good_calm, assumption) (simp_all add: dropTransfer_ok [OF goodD(1)] calm_def)

lemma good_change [room_intros]: "good r0 r \<Longrightarrow> hasSeat r i \<Longrightarrow> (\<And>s. ident (f s) = ident s) \<Longrightarrow> good r0 (changeSeat i f r)"
  by (erule good_alike) (simp_all add: alike_change)

lemma good_each [room_intros]: "good r0 r \<Longrightarrow> (\<And>s. ident (f s) = ident s) \<Longrightarrow> good r0 (eachSeat f r)"
  by (erule good_alike) (simp_all add: alike_each)

lemma good_server [room_intros]: "good r0 r \<Longrightarrow> seat_fits r i s \<Longrightarrow> \<not> isHuman s \<Longrightarrow> (hasSeat r i \<Longrightarrow> \<not> isHuman (seatOf r i)) \<Longrightarrow>
  good r0 (putSeat i s r)"
  by (rule good_calm, assumption) (simp_all add: put_server_ok [OF goodD(1)] calm_def)

lemma good_dropSeats [room_intros]: "good r0 r \<Longrightarrow> (\<And>i s. look r i = Some s \<Longrightarrow> P s \<Longrightarrow> \<not> isHuman s) \<Longrightarrow> good r0 (dropSeats P r)"
  by (rule good_calm, assumption) (auto simp: calm_def intro: dropSeats_ok goodD(1))

lemma good_andThen: "good r0 (fst x) \<Longrightarrow> (\<And>r. good r0 r \<Longrightarrow> good r0 (fst (f r))) \<Longrightarrow> good r0 (fst (andThen x f))"
  by (cases x) (simp add: andThen_def)

section \<open>Looking users and seat ids up\<close>

lemma find_member: "find P xs = Some x \<Longrightarrow> x \<in> set xs \<and> P x"
  by (auto simp: find_Some_iff)

lemma has_look: "hasSeat r i \<longleftrightarrow> (\<exists>s. look r i = Some s)"
  by (auto simp: hasSeat_def)

lemma look_seat: "look r i = Some s \<Longrightarrow> seatOf r i = s"
  by (simp add: seatOf_def)

lemma seat_of_user:
  assumes "room_ok r" "seatForUser r u \<noteq> []"
  shows "look r (seatForUser r u) = Some (seatOf r (seatForUser r u))" "isHuman (seatOf r (seatForUser r u))"
    "st_user (seatOf r (seatForUser r u)) = u" "0 < u"
proof -
  obtain x where x: "find (\<lambda>(i, s). st_ctype s = ''human'' \<and> st_user s = u) (rm_seats r) = Some x"
    using assms(2) unfolding seatForUser_def by (cases "find (\<lambda>(i, s). st_ctype s = ''human'' \<and> st_user s = u) (rm_seats r)")
      (auto split: if_splits)
  obtain i s where xs: "x = (i, s)" by (cases x)
  have u: "0 < u" using assms(2) unfolding seatForUser_def by (auto split: if_splits)
  then have i: "seatForUser r u = i" using x xs unfolding seatForUser_def by simp
  have m: "(i, s) \<in> set (rm_seats r)" "isHuman s" "st_user s = u"
    using x xs by (auto dest!: find_member)
  then have "look r i = Some s" using room_okD(6) [OF assms(1)] by (simp add: map_of_is_SomeI)
  then show "look r (seatForUser r u) = Some (seatOf r (seatForUser r u))" "isHuman (seatOf r (seatForUser r u))"
    "st_user (seatOf r (seatForUser r u)) = u" "0 < u"
    using i m u by (simp_all add: look_seat)
qed

lemma has_seat_of_user: "room_ok r \<Longrightarrow> seatForUser r u \<noteq> [] \<Longrightarrow> hasSeat r (seatForUser r u)"
  using seat_of_user(1) [of r u] by (auto simp: has_look)

lemma no_seat_of_user:
  assumes "room_ok r" "seatForUser r u = []" "0 < u" "look r j = Some t" "isHuman t"
  shows "st_user t \<noteq> u"
proof
  assume u: "st_user t = u"
  have m: "(j, t) \<in> set (rm_seats r)" using assms(4) by (rule map_of_SomeD)
  then have "find (\<lambda>(i, s). st_ctype s = ''human'' \<and> st_user s = u) (rm_seats r) \<noteq> None"
    using assms(5) u by (auto simp: find_None_iff)
  then obtain i s where x: "find (\<lambda>(i, s). st_ctype s = ''human'' \<and> st_user s = u) (rm_seats r) = Some (i, s)" by auto
  then have "(i, s) \<in> set (rm_seats r)" by (auto dest!: find_member)
  then have "look r i = Some s" using room_okD(6) [OF assms(1)] by (simp add: map_of_is_SomeI)
  then have "i \<noteq> []" using room_okD(7) [OF assms(1)] unfolding seat_fits_def names_seat_def by blast
  then show False using assms(2,3) x unfolding seatForUser_def by simp
qed

lemma template_names:
  assumes "validSeatTemplate r v i t = Some (side, type)"
  shows "names_seat i side type" "typeForTemplate t = type"
proof -
  have "typeForTemplate t \<in> {[], ''commander'', ''attack'', ''recon'', ''ground'', ''jammer''}" by (simp add: typeForTemplate_def)
  moreover have "seatParts [] = []" by (simp add: seatParts_def)
  then have "i \<noteq> []" using assms by (auto simp: validSeatTemplate_def Let_def)
  ultimately show "names_seat i side type" "typeForTemplate t = type"
    using assms by (auto simp: validSeatTemplate_def Let_def names_seat_def partAt_def split: if_splits)
qed

section \<open>The rosters\<close>

lemma fits_server:
  "names_seat i (st_side s) (st_type s) \<Longrightarrow> st_id s = i \<Longrightarrow> st_ctype s = ''placeholder'' \<Longrightarrow> st_user s = 0 \<Longrightarrow> seat_fits r i s"
  "names_seat i (st_side s) (st_type s) \<Longrightarrow> st_id s = i \<Longrightarrow> st_ctype s = ''ai'' \<Longrightarrow> st_user s = 0 \<Longrightarrow> rm_mode r = ''pve'' \<Longrightarrow>
     seat_fits r i s"
  by (simp_all add: seat_fits_def occupant_ok_def)

lemma noSeat_simps [simp]: "st_user noSeat = 0" "st_ctype noSeat = ''human''"
  by (simp_all add: noSeat_def)

lemma aiSeat_simps [simp]: "st_ctype (aiSeat r i side type t unit) = ''ai''" "st_user (aiSeat r i side type t unit) = 0"
  "st_id (aiSeat r i side type t unit) = i" "st_side (aiSeat r i side type t unit) = side"
  "st_type (aiSeat r i side type t unit) = type"
  by (simp_all add: aiSeat_def)

lemma has_nextUnit [simp]: "hasSeat (r\<lparr>rm_nextUnit := n\<rparr>) i = hasSeat r i" "seatOf (r\<lparr>rm_nextUnit := n\<rparr>) i = seatOf r i"
  by (simp_all add: hasSeat_def seatOf_def)

lemma installAiSeat_good [room_intros]:
  assumes g: "good r0 r" and pve: "rm_mode r0 = ''pve''"
  shows "good r0 (fst (installAiSeat i t r))"
proof (cases "validSeatTemplate r False i t")
  case None
  then show ?thesis by (simp add: installAiSeat_def g)
next
  case (Some st)
  obtain side type where st: "st = (side, type)" by (cases st)
  note names = template_names(1) [OF Some [unfolded st]]
  let ?p = "if type = ''commander'' then (''blue_cp'', r) else allocateUnitId side t r"
  have p: "good r0 (snd ?p)" using g by (simp add: room_intros)
  have h: "hasSeat (snd ?p) i = hasSeat r i" "seatOf (snd ?p) i = seatOf r i"
    by (simp_all add: allocateUnitId_def)
  show ?thesis
  proof (cases "side \<noteq> ''blue'' \<or> hasSeat r i \<and> st_ctype (seatOf r i) \<noteq> ''ai''
      \<or> st_ctype (seatOf r i) = ''ai'' \<and> st_template (seatOf r i) = t")
    case True
    then show ?thesis using Some st g by (auto simp: installAiSeat_def)
  next
    case False
    have "good r0 (putSeat i (aiSeat (snd ?p) i side type t (fst ?p)) (snd ?p))"
      by (rule good_server [OF p fits_server(2)]) (use False names pve goodD(3) [OF p] h in simp_all)
    then have "good r0 (fst (succeed (putSeat i (aiSeat (snd ?p) i side type t (fst ?p)) (snd ?p))))"
      by (rule good_result)
    then show ?thesis using False Some st by (auto simp: installAiSeat_def split_beta)
  qed
qed

lemma installVmfSeat_good [room_intros]:
  assumes g: "good r0 r"
  shows "good r0 (fst (installVmfSeat i t m r))"
proof (cases "validSeatTemplate r False i t")
  case None
  then show ?thesis by (simp add: installVmfSeat_def g)
next
  case (Some st)
  obtain side type where st: "st = (side, type)" by (cases st)
  note names = template_names(1) [OF Some [unfolded st]]
  have h: "good r0 (changeSeat i (\<lambda>s. s\<lparr>st_mode := ''human''\<rparr>) r)" if "hasSeat r i"
    by (intro good_change g that) (simp add: ident_def)
  have p: "good r0 (fst (succeed (putSeat i s r)))" if "\<not> (hasSeat r i \<and> isHuman (seatOf r i))" "st_ctype s = ''placeholder''"
    "st_id s = i" "st_side s = side" "st_type s = type" "st_user s = 0" for s
    by (intro good_result(1) good_server g fits_server(1)) (use that names in simp_all)
  have u: "good r0 (fst (unchanged r))" "good r0 (fst (failed code r))" for code using g by simp_all
  show ?thesis
  proof (cases "hasSeat r i \<and> isHuman (seatOf r i)")
    case True
    then show ?thesis by (simp add: installVmfSeat_def Some st g h)
  next
    case False
    show ?thesis unfolding installVmfSeat_def Some st
      by (simp only: option.case prod.case False if_False Let_def split: if_split)
        (intro impI conjI u p; (rule False)?; simp add: noSeat_def)
  qed
qed

lemma installTargets_good:
  "good r0 r \<Longrightarrow> case installTargets bs desired r of Inl (r', d) \<Rightarrow> good r0 r' | Inr (r', res) \<Rightarrow> good r0 r'"
proof (induction bs desired r rule: installTargets.induct)
  case (2 i source rest desired r)
  obtain r' res where x: "installVmfSeat i (su_kind (unitIn (rm_sources r) source)) ''fixed-target'' r = (r', res)"
    by (cases "installVmfSeat i (su_kind (unitIn (rm_sources r) source)) ''fixed-target'' r")
  have "good r0 r'" using installVmfSeat_good [OF 2(3)] x by (metis fst_conv)
  then show ?case using 2 x by (auto simp: Let_def)
qed simp

lemma installAutomation_good: "good r0 r \<Longrightarrow> good r0 (fst (installAutomation types r))"
proof (induction types arbitrary: r)
  case (Cons type types)
  then show ?case by (auto intro!: good_andThen installVmfSeat_good)
qed (simp add: good_result)

lemma vmf_blue_server: "good r0 r \<Longrightarrow> rm_vmf r0 \<Longrightarrow> look r i = Some s \<Longrightarrow> st_side s = ''blue'' \<Longrightarrow> \<not> isHuman s"
  using room_okD(7) [OF goodD(1)] goodD(4) unfolding seat_fits_def by blast

lemma syncVmfRoster_good [room_intros]:
  assumes g: "good r0 r"
  shows "good r0 (fst (syncVmfRoster r))"
proof -
  have t: "case installTargets (rm_seatSources r) [] r of Inl (r', d) \<Rightarrow> good r0 r' | Inr (r', res) \<Rightarrow> good r0 r'"
    by (rule installTargets_good [OF g])
  show ?thesis
  proof (cases "installTargets (rm_seatSources r) [] r")
    case (Inr x)
    then show ?thesis using t g by (auto simp: syncVmfRoster_def split: prod.splits)
  next
    case (Inl y)
    obtain r1 d where y: "y = (r1, d)" by (cases y)
    have g1: "good r0 r1" using t Inl y by simp
    show ?thesis
    proof (cases "rm_vmf r")
      case True
      have "good r0 (dropSeats (\<lambda>s. st_side s = ''blue'' \<and> st_id s \<notin> set d) r1)"
        by (rule good_dropSeats [OF g1]) (use vmf_blue_server [OF g1] True goodD(4) [OF g] in blast)
      then have "good r0 (fst (andThen (installAutomation [''recon'', ''attack'', ''ground'']
          (dropSeats (\<lambda>s. st_side s = ''blue'' \<and> st_id s \<notin> set d) r1))
        (\<lambda>r2. if roomToJson r = roomToJson r2 then unchanged r2 else (r2, result True [] (rm_revision r2) False))))"
        by (intro good_andThen installAutomation_good) simp_all
      then show ?thesis using Inl y True g by (simp add: syncVmfRoster_def del: installAutomation.simps)
    qed (simp add: syncVmfRoster_def g)
  qed
qed

lemma mirrorSeats_good:
  assumes "rm_mode r0 = ''pve''"
  shows "good r0 r \<Longrightarrow> case mirrorSeats is desired r of Inl (r', d) \<Rightarrow> good r0 r' | Inr (r', res) \<Rightarrow> good r0 r'"
proof (induction "is" desired r rule: mirrorSeats.induct)
  case (2 i ids desired r)
  obtain r' res where x: "installAiSeat (''blue_'' @ drop 4 i) (st_template (seatOf r i)) r = (r', res)"
    by (cases "installAiSeat (''blue_'' @ drop 4 i) (st_template (seatOf r i)) r")
  have "good r0 r'" using installAiSeat_good [OF 2(3) assms] x by (metis fst_conv)
  then show ?case using 2 x by (auto simp: Let_def)
qed simp

lemma syncAiRoster_good [room_intros]:
  assumes g: "good r0 r"
  shows "good r0 (fst (syncAiRoster r))"
proof (cases "rm_mode r0 = ''pve'' \<and> rm_phase r = ''preparing''")
  case False
  then show ?thesis using g goodD(3) [OF g] by (auto simp: syncAiRoster_def)
next
  case True
  have step: "good r0 (fst (case mirrorSeats (sort (map fst (rm_seats r1))) [''blue_commander''] r1 of
           Inr x \<Rightarrow> x
         | Inl (r2, desired) \<Rightarrow>
             (let r3 = dropSeats (\<lambda>s. st_ctype s = ''ai'' \<and> st_id s \<notin> set desired) r2
              in if roomToJson r = roomToJson r3 then unchanged r3
                 else succeed (eachSeat (\<lambda>s. s\<lparr>st_ready := False, st_revision := rm_revision r3 + 1\<rparr>) r3))))"
    if g1: "good r0 r1" for r1
  proof (cases "mirrorSeats (sort (map fst (rm_seats r1))) [''blue_commander''] r1")
    case (Inr x)
    then show ?thesis using mirrorSeats_good [OF conjunct1 [OF True] g1, of "sort (map fst (rm_seats r1))" "[''blue_commander'']"]
      by (auto split: prod.splits)
  next
    case (Inl y)
    obtain r2 d where y: "y = (r2, d)" by (cases y)
    have g2: "good r0 r2" using mirrorSeats_good [OF conjunct1 [OF True] g1, of "sort (map fst (rm_seats r1))" "[''blue_commander'']"]
      Inl y by simp
    have g3: "good r0 (dropSeats (\<lambda>s. st_ctype s = ''ai'' \<and> st_id s \<notin> set d) r2)" by (rule good_dropSeats [OF g2]) auto
    then have "good r0 (fst (succeed (eachSeat (\<lambda>s. s\<lparr>st_ready := False, st_revision := n\<rparr>)
      (dropSeats (\<lambda>s. st_ctype s = ''ai'' \<and> st_id s \<notin> set d) r2))))" for n
      by (intro good_result(1) good_each) (simp_all add: ident_def)
    then show ?thesis using Inl y g3 by (simp add: Let_def del: outcome_simps(3))
  qed
  have "good r0 (fst (installAiSeat ''blue_commander'' ''commandpost'' r))" by (rule installAiSeat_good [OF g conjunct1 [OF True]])
  then show ?thesis unfolding syncAiRoster_def using True goodD(3) [OF g] by (auto intro!: good_andThen step)
qed

lemma syncRoster_good [room_intros]: "good r0 r \<Longrightarrow> good r0 (fst (syncRoster r))"
  by (simp add: syncRoster_def syncVmfRoster_good syncAiRoster_good)

end
