(* ===== verification/RoomCalls.thy ===== *)
theory RoomCalls
  imports RoomInvariant
begin

text \<open>
  The invariant of the authoritative room for the calls of players: claiming, transfers, leaving,
  deployment and readiness, and for the restoring of a checkpoint that a failed call undoes.
\<close>

declare map_of_eq_Some_iff [simp del] Some_eq_map_of_iff [simp del]

section \<open>Seats with a player\<close>

lemma good_put: "good r0 r \<Longrightarrow> seat_fits r i s \<Longrightarrow>
  (\<And>j t. look r j = Some t \<Longrightarrow> isHuman t \<Longrightarrow> isHuman s \<Longrightarrow> st_user t = st_user s \<Longrightarrow> j = i) \<Longrightarrow>
  (\<And>t. look r i = Some t \<Longrightarrow> isHuman t \<Longrightarrow> map_of (rm_transfers r) (st_user t) = None) \<Longrightarrow> good r0 (putSeat i s r)"
  by (rule good_calm, assumption) (auto simp: calm_def intro: put_ok goodD(1))

lemma good_drop: "good r0 r \<Longrightarrow>
  (\<And>s. look r i = Some s \<Longrightarrow> isHuman s \<Longrightarrow> st_type s \<noteq> ''commander'' \<Longrightarrow> map_of (rm_transfers r) (st_user s) = None) \<Longrightarrow>
  good r0 (dropSeat i r)"
  by (rule good_calm, assumption) (auto simp: calm_def intro: drop_ok goodD(1))

lemma dropTransfer_none [simp]: "map_of (AList.delete u ts) u = None"
  by (simp add: delete_conv')

lemma commutes: "dropTransfer u (putSeat i s r) = putSeat i s (dropTransfer u r)"
  "dropTransfer u (dropSeat i r) = dropSeat i (dropTransfer u r)"
  "dropTransfer u (snd (allocateUnitId side t r)) = snd (allocateUnitId side t (dropTransfer u r))"
  by (simp_all add: dropTransfer_def putSeat_def dropSeat_def allocateUnitId_def)

lemma seat_dropTransfer [simp]: "seatOf (dropTransfer u r) i = seatOf r i" "hasSeat (dropTransfer u r) i = hasSeat r i"
  "seatForUser (dropTransfer u r) v = seatForUser r v"
  by (simp_all add: seatOf_def hasSeat_def seatForUser_def)

lemma convert_good:
  assumes g: "good r0 r"
  shows "good r0 (fst (convertToVmfAutomation i r))"
proof (cases "\<not> rm_vmf r \<or> \<not> hasSeat r i \<or> st_side (seatOf r i) \<noteq> ''red''")
  case True
  then show ?thesis using g by (simp add: convertToVmfAutomation_def)
next
  case False
  then obtain s where s: "look r i = Some s" by (auto simp: has_look)
  have fits: "seat_fits r i s" by (rule room_okD(7) [OF goodD(1) [OF g] s])
  let ?s = "s\<lparr>st_user := 0, st_humanUser := 0, st_username := ''auto'', st_ctype := ''placeholder'', st_cid := ''vmf:'' @ i,
    st_mode := ''vmf-auto'', st_connected := True, st_ready := True, st_pending := False, st_redeploy := False,
    st_revision := rm_revision r + 1\<rparr>"
  have "good r0 (putSeat i ?s (dropTransfer (st_user s) r))"
  proof (rule good_put [OF good_dropTransfer [OF g]])
    show "seat_fits (dropTransfer (st_user s) r) i ?s"
      by (rule fits_server(1)) (use fits in \<open>simp_all add: seat_fits_def\<close>)
  qed (use s in simp_all)
  then have "good r0 (fst (succeed (depart (st_user s) (putSeat i ?s (dropTransfer (st_user s) r)))))"
    by (intro good_result(1) good_other(4))
  then show ?thesis using False
    by (simp add: convertToVmfAutomation_def changeSeat_def look_seat [OF s] commutes(1) Let_def del: outcome_simps(3))
qed

lemma vacate_good:
  assumes g: "good r0 r"
    and old: "\<And>s. look r i = Some s \<Longrightarrow> isHuman s \<Longrightarrow> st_type s \<noteq> ''commander'' \<Longrightarrow> map_of (rm_transfers r) (st_user s) = None"
  shows "good r0 (fst (vacate i u r))"
proof -
  have d: "good r0 (fst (succeed (depart u (dropSeat i r))))"
    by (intro good_result(1) good_other(4) good_drop [OF g] old)
  show ?thesis using syncRoster_good [OF d] d by (auto simp: vacate_def split_beta Let_def simp del: outcome_simps(3))
qed

section \<open>Succession\<close>

lemma promote_good:
  assumes g: "good r0 r"
  shows "good r0 (fst (promote c u r))"
proof (cases "seatForUser r c = [] \<or> seatForUser r u = [] \<or> st_type (seatOf r (seatForUser r c)) \<noteq> ''commander''
    \<or> st_type (seatOf r (seatForUser r u)) = ''commander''
    \<or> st_side (seatOf r (seatForUser r c)) \<noteq> st_side (seatOf r (seatForUser r u)) \<or> \<not> st_connected (seatOf r (seatForUser r u))")
  case True
  then show ?thesis using g by (auto simp: promote_def Let_def)
next
  case False
  note ok = goodD(1) [OF g]
  define ci ui where i: "ci = seatForUser r c" "ui = seatForUser r u"
  define cs s where cs: "cs = seatOf r ci" "s = seatOf r ui"
  have lc: "look r ci = Some cs" "isHuman cs" "st_user cs = c" and ls: "look r ui = Some s" "isHuman s" "st_user s = u"
    using seat_of_user [OF ok, of c] seat_of_user [OF ok, of u] False by (simp_all add: i cs)
  have fc: "seat_fits r ci cs" and fs: "seat_fits r ui s" using room_okD(7) [OF ok] lc(1) ls(1) by blast+
  let ?d = "dropSeat ui (dropSeat ci (dropTransfer u r))"
  let ?e = "dropSeat ui (dropSeat ci r)"
  obtain unit q where q: "(if rm_phase r = ''preparing'' then allocateUnitId (st_side s) ''commandpost'' ?e else ([], ?e)) = (unit, q)"
    by fastforce
  define p where "p = dropTransfer u q"
  have "q = (if rm_phase r = ''preparing'' then snd (allocateUnitId (st_side s) ''commandpost'' ?e) else ?e)"
    using arg_cong [OF q, of snd] by (simp split: if_splits)
  then have p: "p = (if rm_phase r = ''preparing'' then snd (allocateUnitId (st_side s) ''commandpost'' ?d) else ?d)"
    by (simp add: p_def commutes)
  have "good r0 (dropSeat ci (dropTransfer u r))"
    by (rule good_drop [OF good_dropTransfer [OF g]]) (use False lc(1) cs i in simp)
  then have "good r0 ?d" by (rule good_drop) (use ls in \<open>simp split: if_splits\<close>)
  then have gp: "good r0 p" by (simp add: p good_other)
  have lp: "look (p) j = (if j = ui \<or> j = ci then None else look r j)" for j by (simp add: p)
  let ?s = "promotedSeat r cs ci unit s"
  have s': "st_id ?s = ci" "st_type ?s = ''commander''" "st_side ?s = st_side s" "st_ctype ?s = st_ctype s" "st_user ?s = st_user s"
    by (simp_all add: promotedSeat_def Let_def)
  have "good r0 (putSeat ci ?s (p))"
  proof (rule good_put [OF gp])
    have "names_seat ci (st_side s) ''commander''" using fc False by (simp add: seat_fits_def i cs)
    then show "seat_fits (p) ci ?s" using fs goodD(3,4) [OF gp] goodD(3,4) [OF g]
      unfolding seat_fits_def occupant_ok_def s' by auto
    show "j = ci" if h: "look (p) j = Some t" "isHuman t" "isHuman ?s" "st_user t = st_user ?s" for j t
      using h room_okD(8) [OF ok, of j t ui s] ls unfolding s' lp by (simp split: if_splits)
  qed (simp add: lp)
  then have gs: "good r0 (fst (succeed (depart c (putSeat ci ?s (p)))))" by (intro good_result(1) good_other(4))
  have F: "(ci = [] \<or> ui = []) = False" "(st_type cs \<noteq> ''commander'' \<or> st_type s = ''commander'' \<or> st_side cs \<noteq> st_side s
      \<or> \<not> st_connected s) = False"
    using False by (simp_all add: i cs)
  have S: "(succeed x) = (fst (succeed x), snd (succeed x))" for x by (rule prod.collapse [symmetric])
  show ?thesis
    unfolding promote_def Let_def i [symmetric] cs [symmetric] q F if_False prod.case p_def [symmetric]
    by (subst S) (use gs syncRoster_good [OF gs] in \<open>auto simp del: outcome_simps(3) split: prod.splits\<close>)
qed

lemma no_transfer_commander:
  "good r0 r \<Longrightarrow> seatForUser r u \<noteq> [] \<Longrightarrow> st_type (seatOf r (seatForUser r u)) = ''commander'' \<Longrightarrow>
   look r (seatForUser r u) = Some s \<Longrightarrow> st_type s \<noteq> ''commander'' \<Longrightarrow> P"
  by (simp add: look_seat)

lemma leave_good:
  assumes g: "good r0 r"
  shows "good r0 (fst (leave u successor r))"
proof -
  have "good r0 (fst (vacate (seatForUser r u) u (dropTransfer u r)))" if "seatForUser r u \<noteq> []"
  proof (rule vacate_good [OF good_dropTransfer [OF g]])
    show "map_of (rm_transfers (dropTransfer u r)) (st_user s) = None" if h: "look (dropTransfer u r) (seatForUser r u) = Some s" for s
      using h seat_of_user(1,3) [OF goodD(1) [OF g] \<open>seatForUser r u \<noteq> []\<close>] by simp
  qed
  then show ?thesis using g by (auto simp: leave_def Let_def intro: convert_good promote_good)
qed

lemma chooseSuccessor_good: "good r0 r \<Longrightarrow> good r0 (fst (chooseSuccessor side r))"
  by (simp add: chooseSuccessor_def Let_def good_other)

lemma seat_rng [simp]: "seatOf (r\<lparr>rm_rng := x\<rparr>) i = seatOf r i" "seatForUser (r\<lparr>rm_rng := x\<rparr>) u = seatForUser r u"
  by (simp_all add: seatOf_def seatForUser_def)

lemma chooseSuccessor_seat: "seatOf (fst (chooseSuccessor side r)) i = seatOf r i"
  by (simp add: chooseSuccessor_def Let_def)

text \<open>The commander of a side leaves its seat empty.\<close>

lemma vacate_commander:
  assumes g: "good r0 r" and "st_type (seatOf r i) = ''commander''"
  shows "good r0 (fst (vacate i u r))"
  by (rule vacate_good [OF g]) (use assms(2) in \<open>simp add: look_seat\<close>)

lemma leaveRoom_good:
  assumes g: "good r0 r"
  shows "good r0 (fst (leaveRoom u r))"
proof -
  obtain r1 v where c: "chooseSuccessor (st_side (seatOf r (seatForUser r u))) r = (r1, v)" by fastforce
  have g1: "good r0 r1" using chooseSuccessor_good [OF g, of "st_side (seatOf r (seatForUser r u))"] c by simp
  have s1: "seatOf r1 i = seatOf r i" for i using chooseSuccessor_seat [of "st_side (seatOf r (seatForUser r u))" r i] c by simp
  show ?thesis
    using g g1 c by (auto simp: leaveRoom_def Let_def s1 intro: convert_good promote_good leave_good vacate_commander)
qed

lemma removeUser_good:
  assumes g: "good r0 r"
  shows "good r0 (fst (removeUser u r))"
proof (cases "seatForUser r u = []")
  case False
  let ?d = "dropTransfer u (dropSeat (seatForUser r u) r)"
  have "good r0 ?d" unfolding commutes
    by (rule good_drop [OF good_dropTransfer [OF g]]) (use seat_of_user(1,3) [OF goodD(1) [OF g] False] in simp)
  then have d: "good r0 (?d\<lparr>rm_revision := rm_revision r + 1\<rparr>)" by (rule good_other) (simp add: dropSeat_def)
  show ?thesis using False d syncRoster_good [OF d] by (simp add: removeUser_def Let_def)
qed (simp add: removeUser_def g)

section \<open>Transfers\<close>

lemma invalidate_good:
  assumes g: "good r0 r"
  shows "good r0 (fst (invalidateTransfer u code r))"
proof -
  have "good r0 (changeSeat (seatForUser r u) (\<lambda>s. s\<lparr>st_pending := False\<rparr>) (dropTransfer u r))" if "seatForUser r u \<noteq> []"
    by (rule good_change [OF good_dropTransfer [OF g]]) (use has_seat_of_user [OF goodD(1) [OF g] that] in \<open>simp_all add: ident_def\<close>)
  then show ?thesis using g good_dropTransfer [OF g]
    by (auto simp: invalidateTransfer_def Let_def simp del: outcome_simps(3) intro!: good_result)
qed

lemma stale_good: "good r0 r \<Longrightarrow> good r0 (fst (staleTransfer u r))"
  by (simp add: staleTransfer_def invalidate_good)

lemma cancel_good: "good r0 r \<Longrightarrow> good r0 (fst (cancelTransfer u n r))"
  by (simp add: cancelTransfer_def invalidate_good stale_good)

lemma reject_good: "good r0 r \<Longrightarrow> good r0 (fst (rejectTransfer c u n r))"
  by (simp add: rejectTransfer_def invalidate_good stale_good)

lemma good_addTransfer: "good r0 r \<Longrightarrow> tr_user t = u \<Longrightarrow> movable r t \<Longrightarrow>
  good r0 (r\<lparr>rm_transfers := AList.update u t (rm_transfers r)\<rparr>)"
  by (rule good_calm, assumption) (auto simp: calm_def intro: addTransfer_ok goodD(1))

lemma request_good:
  assumes g: "good r0 r"
  shows "good r0 (fst (requestTransfer u target t r))"
proof (cases "rm_phase r \<noteq> ''preparing'' \<or> seatForUser r u = [] \<or> st_type (seatOf r (seatForUser r u)) = ''commander''
    \<or> map_of (rm_transfers r) u \<noteq> None")
  case True
  then show ?thesis using g by (auto simp: requestTransfer_def Let_def)
next
  case False
  let ?i = "seatForUser r u"
  note su = seat_of_user [OF goodD(1) [OF g], of u]
  show ?thesis
  proof (cases "validSeatTemplate r False target t")
    case None
    then show ?thesis using False g by (auto simp: requestTransfer_def Let_def)
  next
    case (Some st)
    obtain side type where st: "st = (side, type)" by (cases st)
    have names: "partAt (seatParts target) 0 = side" using template_names(1) [OF Some [unfolded st]] by (simp add: names_seat_def)
    define r1 where "r1 = r\<lparr>rm_revision := rm_revision r + 1\<rparr>"
    define r2 where "r2 = r1\<lparr>rm_transfers := AList.update u \<lparr>tr_user = u, tr_target = target, tr_template = t,
      tr_revision = rm_revision r + 1\<rparr> (rm_transfers r1)\<rparr>"
    have g1: "good r0 r1" unfolding r1_def by (rule good_other(5) [OF g]) simp
    have "good r0 (changeSeat ?i (\<lambda>s. s\<lparr>st_pending := True\<rparr>) r2)" if "side = st_side (seatOf r ?i)"
    proof (rule good_change)
      show "good r0 r2" unfolding r2_def
      proof (rule good_addTransfer [OF g1])
        show "movable r1 \<lparr>tr_user = u, tr_target = target, tr_template = t, tr_revision = rm_revision r + 1\<rparr>"
          unfolding movable_def using su False that names
          by (intro exI [of _ ?i] exI [of _ "seatOf r ?i"]) (simp add: r1_def)
      qed simp
      show "hasSeat r2 ?i" using has_seat_of_user [OF goodD(1) [OF g], of u] False by (simp add: r2_def r1_def hasSeat_def)
    qed (simp add: ident_def)
    then show ?thesis using False Some st g
      by (simp add: requestTransfer_def Let_def succeed_def result_def r1_def [symmetric] r2_def [symmetric])
        (simp add: r2_def r1_def)
  qed
qed

lemma transfer_seat:
  assumes ok: "room_ok r" and t: "map_of (rm_transfers r) u = Some t" and u: "seatForUser r u \<noteq> []"
  shows "st_side (seatOf r (seatForUser r u)) = partAt (seatParts (tr_target t)) 0"
proof -
  note su = seat_of_user [OF ok u]
  obtain i s where s: "look r i = Some s" "isHuman s" "st_user s = tr_user t" "st_side s = partAt (seatParts (tr_target t)) 0"
    and tu: "tr_user t = u"
    using room_okD(2) [OF ok] t unfolding transfers_ok_def movable_def by blast
  have "i = seatForUser r u" by (rule room_okD(8) [OF ok s(1) su(1) s(2) su(2)]) (simp add: s(3) tu su(3))
  then show ?thesis using s(1,4) by (simp add: look_seat)
qed

lemma alike_reput: "look r i = Some s \<Longrightarrow> alike r (putSeat i s (dropSeat i r))"
  by (auto simp: alike_def keys_kept)

lemma approve_good:
  assumes g: "good r0 r"
  shows "good r0 (fst (approveTransfer c u n r))"
proof (cases "rm_phase r \<noteq> ''preparing'' \<or> \<not> commandsUser r c u")
  case True
  then show ?thesis using g by (auto simp: approveTransfer_def)
next
  case False
  note ok = goodD(1) [OF g]
  define i where i: "i = seatForUser r u"
  have ne: "seatForUser r u \<noteq> []" using False by (simp add: commandsUser_def)
  note su = seat_of_user [OF ok ne, folded i]
  show ?thesis
  proof (cases "map_of (rm_transfers r) u")
    case None
    then show ?thesis using False g by (simp add: approveTransfer_def stale_good)
  next
    case (Some t)
    show ?thesis
    proof (cases "n \<noteq> rm_revision r \<or> tr_revision t \<noteq> n \<or> hasSeat r (tr_target t)")
      case True
      then show ?thesis using False Some g by (simp add: approveTransfer_def stale_good)
    next
      case fresh: False
      let ?d = "dropSeat i r"
      have re: "good r0 (putSeat i (seatOf r i) ?d)"
        by (rule good_alike [OF g alike_reput [OF su(1)]]) (simp add: rest_put(6))
      show ?thesis
      proof (cases "validSeatTemplate ?d False (tr_target t) (tr_template t)")
        case None
        then show ?thesis using False Some fresh invalidate_good [OF re]
          by (simp add: approveTransfer_def Let_def i [symmetric])
      next
        case v: (Some st)
        obtain side type where st: "st = (side, type)" by (cases st)
        note names = template_names(1) [OF v [unfolded st]]
        let ?a = "allocateUnitId side (tr_template t) (dropTransfer u ?d)"
        let ?s = "(seatOf r i)\<lparr>st_id := tr_target t, st_type := type, st_template := tr_template t, st_unit := fst ?a,
          st_pos := origin, st_deployed := False, st_ready := False, st_pending := False, st_revision := rm_revision r + 1\<rparr>"
        have "good r0 (dropTransfer u ?d)" unfolding commutes
          by (rule good_drop [OF good_dropTransfer [OF g]]) (use su in simp)
        then have gd: "good r0 (snd ?a)" by (rule good_other)
        have ld: "look (snd ?a) j = (if j = i then None else look r j)" for j by simp
        have "good r0 (putSeat (tr_target t) ?s (snd ?a))"
        proof (rule good_put [OF gd])
          have "st_side (seatOf r i) = side" using transfer_seat [OF ok Some ne] names by (simp add: i names_seat_def)
          then show "seat_fits (snd ?a) (tr_target t) ?s"
            using room_okD(7) [OF ok su(1)] names unfolding seat_fits_def occupant_ok_def by simp
          show "j = tr_target t" if h: "look (snd ?a) j = Some v" "isHuman v" "isHuman ?s" "st_user v = st_user ?s" for j v
            using h room_okD(8) [OF ok _ su(1), of j v] su unfolding ld by (simp split: if_splits)
          show "map_of (rm_transfers (snd ?a)) (st_user v) = None" if h: "look (snd ?a) (tr_target t) = Some v" for v
            using h fresh unfolding ld by (auto simp: hasSeat_def split: if_splits)
        qed
        then have gs: "good r0 (fst (succeed (putSeat (tr_target t) ?s (snd ?a))))" by (rule good_result)
        show ?thesis
          using False Some fresh v st gs syncAiRoster_good [OF gs]
          by (simp add: approveTransfer_def Let_def i [symmetric] split_beta del: outcome_simps(3))
      qed
    qed
  qed
qed

section \<open>Deployment and readiness\<close>

lemma deploySeat_good: "good r0 r \<Longrightarrow> hasSeat r i \<Longrightarrow> good r0 (fst (deploySeat i p r))"
  unfolding deploySeat_def by (intro good_result good_change) (simp_all add: ident_def)

lemma deployment_good: "good r0 r \<Longrightarrow> good r0 (fst (deploy c i p r))" "good r0 r \<Longrightarrow> good r0 (fst (deployInitial i p r))"
  by (auto simp: deploy_def deployInitial_def Let_def deploySeat_good)

text \<open>The changes of the seat of a user.\<close>

lemma change_own: "good r0 r \<Longrightarrow> seatForUser r u \<noteq> [] \<Longrightarrow> (\<And>s. ident (f s) = ident s) \<Longrightarrow>
  good r0 (fst (succeed (changeSeat (seatForUser r u) f r)))"
  using has_seat_of_user [OF goodD(1), of r0 r u] by (intro good_result good_change)

lemma ready_good: "good r0 r \<Longrightarrow> good r0 (fst (setReady u b r))"
  using change_own [of r0 r u] by (simp add: setReady_def Let_def ident_def del: outcome_simps(3))

lemma name_good: "good r0 r \<Longrightarrow> good r0 (fst (setUnitName u name r))"
  using change_own [of r0 r u] by (simp add: setUnitName_def Let_def ident_def del: outcome_simps(3))

lemma requestRedeploy_good: "good r0 r \<Longrightarrow> good r0 (fst (requestRedeploy u r))"
  using change_own [of r0 r u] by (simp add: requestRedeploy_def Let_def ident_def del: outcome_simps(3))

lemma clearReadiness_good: "good r0 r \<Longrightarrow> good r0 (clearReadiness r)"
  unfolding clearReadiness_def by (rule good_other(5) [OF good_each]) (simp_all add: ident_def)

lemma unready_good: "good r0 r \<Longrightarrow> good r0 (unreadyCommander i r)"
  by (simp add: unreadyCommander_def good_change ident_def)

lemma redeploy_good:
  assumes g: "good r0 r"
  shows "good r0 (fst (redeploy c requested r))"
proof -
  have d: "good r0 (changeSeat i (undeploy r) (dropTransfer (st_user (seatOf r i)) r))" if "hasSeat r i" for i
    by (rule good_change [OF good_dropTransfer [OF g]]) (use that in \<open>simp_all add: undeploy_def ident_def\<close>)
  then have "good r0 (fst (succeed (if i \<noteq> ci then unreadyCommander ci (changeSeat i (undeploy r) (dropTransfer (st_user (seatOf r i)) r))
      else changeSeat i (undeploy r) (dropTransfer (st_user (seatOf r i)) r))))" if "hasSeat r i" for i ci
    by (intro good_result) (use d [OF that] in \<open>auto intro: unready_good\<close>)
  then show ?thesis using g unfolding redeploy_def Let_def
    by (simp split: option.split del: outcome_simps(3))
qed

lemma clearSeats_good: "good r0 r \<Longrightarrow> (\<And>i. i \<in> set is \<Longrightarrow> hasSeat r i) \<Longrightarrow> good r0 (clearSeats is r)"
proof (induction "is" arbitrary: r)
  case (Cons i ids)
  obtain unit r1 where u: "(case sourceUnitForSeat r (seatOf r i) of Some u \<Rightarrow> (su_id u, r)
    | None \<Rightarrow> allocateUnitId (st_side (seatOf r i)) (st_template (seatOf r i)) r) = (unit, r1)" by fastforce
  have r1: "good r0 r1" "hasSeat r1 j = hasSeat r j" "seatOf r1 j = seatOf r j" for j
    using u Cons.prems(1) by (auto simp: allocateUnitId_def good_other split: option.splits)
  have p: "good r0 (putSeat i (undeploy r ((seatOf r i)\<lparr>st_unit := unit\<rparr>)) r1)"
    by (rule good_alike [OF r1(1) alike_put])
      (use Cons.prems(2) in \<open>simp_all add: r1 undeploy_def ident_def putSeat_def\<close>)
  have h: "hasSeat (putSeat i (undeploy r ((seatOf r i)\<lparr>st_unit := unit\<rparr>)) r1) j" if "j \<in> set ids" for j
    using Cons.prems(2) [of j] that r1(2) by (simp add: hasSeat_def)
  show ?case using Cons.IH [OF p h] u by (simp add: Let_def)
qed simp

lemma clearDeployment_good: "good r0 r \<Longrightarrow> good r0 (clearDeployment r)"
  unfolding clearDeployment_def by (rule clearSeats_good) (auto simp: hasSeat_def map_of_eq_None_iff)

section \<open>Restoring what a failed call has changed\<close>

lemma integer_or_zero: "jtoInteger 0 (jint n) = n \<or> jtoInteger 0 (jint n) = 0"
  by (simp add: jint_def)

lemma read_ident:
  assumes "controllerValid (readSeat r0 (seatProjectionOf vmf s))" "occupant_ok s"
  shows "ident (readSeat r0 (seatProjectionOf vmf s)) = ident s"
proof -
  let ?ob = "seatProjectionOf vmf s"
  have f: "st_id (readSeat r0 ob) = jtoString (jget ob ''seatId'')" "st_ctype (readSeat r0 ob) = fieldOr ''human'' ob ''controllerType''"
    "st_user (readSeat r0 ob) = jtoInteger 0 (jget ob ''userId'')" "st_side (readSeat r0 ob) = jtoString (jget ob ''side'')"
    "st_type (readSeat r0 ob) = jtoString (jget ob ''seatType'')" for ob
    by (simp_all add: readSeat_def Let_def jsonInteger_def)
  have e: "st_id (readSeat r0 ?ob) = st_id s" "st_ctype (readSeat r0 ?ob) = st_ctype s" "st_user (readSeat r0 ?ob) = jtoInteger 0 (jint (st_user s))"
    "st_side (readSeat r0 ?ob) = st_side s" "st_type (readSeat r0 ?ob) = st_type s"
    unfolding f fieldOr_def by (simp_all add: seatProjectionOf_def json_simps)
  have "jtoInteger 0 (jint (st_user s)) = st_user s"
    using assms integer_or_zero [of "st_user s"] unfolding controllerValid_def occupant_ok_def e by auto
  then show ?thesis unfolding ident_def e by simp
qed

lemma adopt_ident: "ident (adoptSeat r vmf s) = ident s"
  by (simp add: adoptSeat_def Let_def ident_def)

lemma restored_seats:
  assumes "restoreRoomSeats r0 vmf (map (\<lambda>s. JObj (seatProjectionOf vmf' s)) ss) seats = Some seats'"
    "\<And>s. s \<in> set ss \<Longrightarrow> occupant_ok s" "distinct (map fst seats)"
  shows "distinct (map fst seats') \<and> (\<forall>i. map_option ident (map_of seats' i) =
    (case find (\<lambda>s. st_id s = i) ss of Some s \<Rightarrow> Some (ident s) | None \<Rightarrow> map_option ident (map_of seats i)))
    \<and> (\<forall>s \<in> set ss. map_of seats (st_id s) = None)"
  using assms
proof (induction ss arbitrary: seats)
  case (Cons s ss)
  let ?s = "readSeat r0 (seatProjectionOf vmf' s)"
  have v: "map_of seats (st_id ?s) = None" "seatValid r0 vmf ?s"
    and rest: "restoreRoomSeats r0 vmf (map (\<lambda>s. JObj (seatProjectionOf vmf' s)) ss)
      (AList.update (st_id ?s) (adoptSeat r0 vmf ?s) seats) = Some seats'"
    using Cons.prems(1) by (auto simp: Let_def split: if_splits)
  have i: "ident ?s = ident s" using read_ident v(2) Cons.prems(2) by (simp add: seatValid_def)
  then have id: "st_id ?s = st_id s" by (simp add: ident_eq)
  have IH: "distinct (map fst seats')" "\<And>i. map_option ident (map_of seats' i) =
    (case find (\<lambda>s. st_id s = i) ss of Some s \<Rightarrow> Some (ident s)
     | None \<Rightarrow> map_option ident (map_of (AList.update (st_id ?s) (adoptSeat r0 vmf ?s) seats) i))"
    "\<And>t. t \<in> set ss \<Longrightarrow> map_of (AList.update (st_id ?s) (adoptSeat r0 vmf ?s) seats) (st_id t) = None"
    using Cons.IH [OF rest] Cons.prems(2,3) by (auto simp: distinct_update)
  have "map_of seats (st_id t) = None \<and> st_id t \<noteq> st_id s" if "t \<in> set ss" for t
    using IH(3) [OF that] by (simp add: update_conv' id split: if_splits)
  moreover have "find (\<lambda>t. st_id t = st_id s) ss = None"
    using calculation by (auto simp: find_None_iff)
  ultimately show ?case
    using IH(1,2) v(1) by (auto simp: update_conv' id adopt_ident i split: option.split)
qed simp

lemma projected_seats: "seatProjection r = map (\<lambda>s. JObj (seatProjectionOf (rm_vmf r) s)) (map (seatOf r) (sort (map fst (rm_seats r))))"
  by (simp add: seatProjection_def)

lemma find_seat:
  assumes ok: "room_ok r"
  shows "find (\<lambda>s. st_id s = i) (map (seatOf r) (sort (map fst (rm_seats r)))) = look r i"
proof -
  have id: "st_id (seatOf r j) = j" if h: "j \<in> fst ` set (rm_seats r)" for j
  proof -
    obtain s where s: "look r j = Some s" using h map_of_eq_None_iff [of "rm_seats r" j] by auto
    show ?thesis using room_okD(7) [OF ok s] by (simp add: look_seat [OF s] seat_fits_def)
  qed
  show ?thesis
  proof (cases "look r i")
    case None
    have "find (\<lambda>s. st_id s = i) (map (seatOf r) (sort (map fst (rm_seats r)))) = None"
      using None id by (auto simp: find_None_iff map_of_eq_None_iff)
    then show ?thesis using None by simp
  next
    case (Some s)
    have m: "i \<in> fst ` set (rm_seats r)" using Some map_of_eq_None_iff [of "rm_seats r" i] by auto
    have ex: "seatOf r i \<in> set (map (seatOf r) (sort (map fst (rm_seats r))))" using m by auto
    have "find (\<lambda>s. st_id s = i) (map (seatOf r) (sort (map fst (rm_seats r)))) \<noteq> None"
      unfolding find_None_iff using ex id [OF m] by blast
    then obtain t where t: "find (\<lambda>s. st_id s = i) (map (seatOf r) (sort (map fst (rm_seats r)))) = Some t" by blast
    obtain j where j: "j \<in> fst ` set (rm_seats r)" "t = seatOf r j" "st_id t = i" using find_member [OF t] by auto
    have "j = i" using id [OF j(1)] j(2,3) by simp
    then show ?thesis using t Some j(2) by (simp add: look_seat)
  qed
qed

lemma restored_alike:
  assumes ok: "room_ok r" and "restoreRoomSeats r' vmf (seatProjection r) [] = Some seats"
  shows "distinct (map fst seats)" "map_option ident (map_of seats i) = map_option ident (look r i)"
proof -
  have occ: "occupant_ok s" if h: "s \<in> set (map (seatOf r) (sort (map fst (rm_seats r))))" for s
  proof -
    obtain j where j: "j \<in> fst ` set (rm_seats r)" "s = seatOf r j" using h by auto
    then obtain t where "look r j = Some t" using map_of_eq_None_iff [of "rm_seats r" j] by auto
    then show ?thesis using room_okD(7) [OF ok] j(2) by (auto simp: look_seat seat_fits_def)
  qed
  have R: "distinct (map fst seats) \<and> (\<forall>i. map_option ident (map_of seats i) =
    (case look r i of Some s \<Rightarrow> Some (ident s) | None \<Rightarrow> map_option ident (map_of [] i)))"
    using restored_seats [OF assms(2) [unfolded projected_seats] occ] unfolding find_seat [OF ok] by simp
  show "distinct (map fst seats)" using R by blast
  have "map_option ident (map_of seats i) = (case look r i of None \<Rightarrow> map_option ident (map_of [] i) | Some s \<Rightarrow> Some (ident s))"
    using R by blast
  then show "map_option ident (map_of seats i) = map_option ident (look r i)" by (simp split: option.splits)
qed

lemma movable_cong: "tr_user t' = tr_user t \<Longrightarrow> tr_target t' = tr_target t \<Longrightarrow> movable r t \<Longrightarrow> movable r t'"
  by (simp add: movable_def)

lemma transfer_fields: "jsonInteger (jtoObject (transferToJson t)) ''userId'' = jtoInteger 0 (jint (tr_user t))"
  "jget (jtoObject (transferToJson t)) ''targetSeatId'' = JStr (tr_target t)"
  "jget (jtoObject (transferToJson t)) ''templateId'' = JStr (tr_template t)"
  "jsonInteger (jtoObject (transferToJson t)) ''revision'' = jtoInteger 0 (jnat (tr_revision t))"
  by (simp_all add: transferToJson_def jsonInteger_def json_simps)

lemma restoreTransfers_good:
  assumes "good r0 r" "\<And>t. t \<in> set ts \<Longrightarrow> movable r t"
  shows "good r0 (fst (restoreTransfers (map transferToJson ts) r))"
  using assms
proof (induction ts arbitrary: r)
  case (Cons t ts)
  let ?u = "jtoInteger 0 (jint (tr_user t))"
  let ?t = "\<lparr>tr_user = ?u, tr_target = tr_target t, tr_template = tr_template t, tr_revision = nat (jtoInteger 0 (jnat (tr_revision t)))\<rparr>"
  let ?r = "r\<lparr>rm_transfers := AList.update ?u ?t (rm_transfers r)\<rparr>"
  have "good r0 (fst (restoreTransfers (map transferToJson ts) ?r))" if "?u > 0"
  proof (rule Cons.IH)
    have "?u = tr_user t" using integer_or_zero [of "tr_user t"] that unfolding less_le by metis
    with Cons.prems(2) [of t] have "movable r ?t" by (simp add: movable_def)
    then show "good r0 ?r" by (intro good_addTransfer [OF Cons.prems(1)]) simp_all
    show "movable ?r v" if "v \<in> set ts" for v using Cons.prems(2) [of v] that by (simp add: movable_def)
  qed
  then show ?case using Cons.prems(1)
    by (simp add: Let_def transfer_fields not_le del: map_map)
qed simp

section \<open>Remembered operations\<close>

lemma map_of_fold_delete: "map_of (fold AList.delete ks xs) = (map_of xs) |` (- set ks)"
  by (induction ks arbitrary: xs) (auto simp: delete_conv' restrict_map_def)

lemma remember_operations:
  assumes "operations_ok r" "order = removeAll i (rm_order r)"
  shows "operations_ok (rememberOperation i x order r)"
proof -
  define order' where "order' = order @ [i]"
  let ?k = "length order' - 256"
  have d: "distinct order'" and set: "set order' = insert i (set (rm_order r))"
    using assms by (auto simp: order'_def operations_ok_def distinct_removeAll)
  have "set (drop ?k order') = set order' - set (take ?k order')"
    using d set_take_disj_set_drop_if_distinct [of order' ?k ?k] set_append [of "take ?k order'" "drop ?k order'"] by auto
  moreover have "dom (map_of (fold AList.delete (take ?k order') (AList.update i x (rm_operations r)))) =
      insert i (set (rm_order r)) - set (take ?k order')"
    using assms(1) by (auto simp: map_of_fold_delete update_conv' operations_ok_def)
  ultimately show ?thesis using d set
    by (simp add: operations_ok_def rememberOperation_def Let_def order'_def [symmetric] distinct_drop)
qed

lemma remember_rest: "rm_seats (rememberOperation i x order r) = rm_seats r" "rm_transfers (rememberOperation i x order r) = rm_transfers r"
  "rm_mode (rememberOperation i x order r) = rm_mode r" "rm_vmf (rememberOperation i x order r) = rm_vmf r"
  "rm_phase (rememberOperation i x order r) = rm_phase r" "rm_winner (rememberOperation i x order r) = rm_winner r"
  "rm_limits (rememberOperation i x order r) = rm_limits r" "rm_revision (rememberOperation i x order r) = rm_revision r"
  by (simp_all add: rememberOperation_def Let_def)

lemma remember_room:
  assumes ok: "room_ok r" and "order = removeAll i (rm_order r)"
  shows "room_ok (rememberOperation i x order r)"
proof -
  let ?r = "rememberOperation i x order r"
  have "seats_ok ?r" using room_okD(1) [OF ok] by (subst seats_ok_same [of _ r]) (simp_all add: remember_rest)
  moreover have "transfers_ok ?r" using room_okD(2) [OF ok] by (rule transfers_okI) (simp_all add: remember_rest movable_def)
  moreover have "operations_ok ?r" by (rule remember_operations [OF room_okD(3) [OF ok] assms(2)])
  ultimately show ?thesis using room_okD(4,5) [OF ok] unfolding room_ok_def match_ok_def limits_ok_def remember_rest by blast
qed

lemma good_remember:
  assumes g: "good r0 r" and "order = removeAll i (rm_order r)" and own: "i \<in> set (rm_order r0)"
  shows "good r0 (rememberOperation i x order r)"
proof -
  have "set (rm_order (rememberOperation i x order r)) \<subseteq> set (rm_order r0)"
    using assms(2) own goodD(8) [OF g] set_drop_subset [of "length (order @ [i]) - 256" "order @ [i]"]
    by (auto simp: rememberOperation_def Let_def)
  then show ?thesis using g remember_room [OF goodD(1) [OF g] assms(2)] by (simp add: good_def calm_def remember_rest)
qed

lemma operation_id: "jtoString (jget (jtoObject (operationToJson r i)) ''operationId'') = i"
  by (simp add: operationToJson_def json_simps)

lemma restoreOperations_good: "good r0 r \<Longrightarrow> set is \<subseteq> set (rm_order r0) \<Longrightarrow>
  good r0 (restoreOperations (map (operationToJson r') is) r)"
proof (induction "is" arbitrary: r)
  case (Cons i ids)
  show ?case unfolding list.map restoreOperations.simps(2) Let_def operation_id
    by (rule Cons.IH) (use Cons.prems in \<open>simp_all add: good_remember\<close>)
qed simp

end
