(* ===== verification/RoomModes.thy ===== *)
theory RoomModes
  imports RoomCalls
begin

text \<open>
  The invariant of the authoritative room for calls that roll back, for modes, rosters and configuration,
  and for the phases of a match.
\<close>

declare map_of_eq_Some_iff [simp del] Some_eq_map_of_iff [simp del]

section \<open>Rolling back\<close>

lemma room_fields: "jget (roomToJson r) ''mode'' = JStr (rm_mode r)" "jcontains (roomToJson r) ''mode''"
  "jget (roomToJson r) ''operationMode'' = JStr (if rm_vmf r then ''vmf-single-side'' else ''standard'')"
  "jget (roomToJson r) ''phase'' = JStr (rm_phase r)" "jget (roomToJson r) ''winner'' = JStr (rm_winner r)"
  "jget (roomToJson r) ''revision'' = jnat (rm_revision r)" "jget (roomToJson r) ''nextUnitSequence'' = jnat (rm_nextUnit r)"
  "jget (roomToJson r) ''rngState'' = jint (sint (rm_rng r))" "jget (roomToJson r) ''seats'' = JArr (seatProjection r)"
  "jget (roomToJson r) ''transfers'' = JArr (map (\<lambda>(u, t). transferToJson t) (rm_transfers r))"
  "jget (roomToJson r) ''operations'' = JArr (map (operationToJson r) (rm_order r))"
  "jget (roomToJson r) ''schemaVersion'' = jint 2"
  by (simp_all add: roomToJson_def json_simps)

lemma restored_revision: "headerValid (roomToJson r) \<Longrightarrow> nat (jsonInteger (roomToJson r) ''revision'') = rm_revision r"
  using integer_or_zero [of "int (rm_revision r)"]
  by (simp add: headerValid_def jsonInteger_def room_fields jnat_def jint_def Let_def split: if_splits)

lemma restored_mode: "room_ok r \<Longrightarrow> fieldOr ''pvp'' (roomToJson r) ''mode'' = rm_mode r"
  "(stringOr ''standard'' (jget (roomToJson r) ''operationMode'') = ''vmf-single-side'') = rm_vmf r"
  by (simp_all add: fieldOr_def stringOr_def room_fields)

text \<open>A room is brought back with everything the invariant speaks of, or it is kept.\<close>

lemma rollback_gen:
  assumes ok: "room_ok r" and ok': "room_ok r'"
  shows "fst (restoreRoom (roomToJson r) r') = r'
    \<or> good (r\<lparr>rm_limits := rm_limits r', rm_order := rm_order r @ rm_order r'\<rparr>) (fst (restoreRoom (roomToJson r) r'))"
    (is "_ \<or> good ?q _")
proof (cases "headerValid (roomToJson r) \<and> restoreRoomSeats r' (rm_vmf r) (seatProjection r) [] \<noteq> None")
  case False
  then show ?thesis using restored_mode(2) [of r] by (auto simp: restoreRoom_def Let_def room_fields(9) split: option.splits)
next
  case True
  then obtain seats where s: "restoreRoomSeats r' (rm_vmf r) (seatProjection r) [] = Some seats" by blast
  have h: "headerValid (roomToJson r)" using True by blast
  have mode: "(if rm_vmf r \<and> rm_mode r = ''pve'' then ''pvp'' else rm_mode r) = rm_mode r"
    using room_okD(4) [OF ok] by (auto simp: match_ok_def)
  define r1 where "r1 = r'\<lparr>rm_seats := seats, rm_phase := rm_phase r, rm_mode := rm_mode r, rm_vmf := rm_vmf r,
    rm_winner := rm_winner r, rm_revision := rm_revision r, rm_nextUnit := nat (jsonInteger (roomToJson r) ''nextUnitSequence''),
    rm_rng := word_of_int (jsonInteger (roomToJson r) ''rngState''), rm_transfers := []\<rparr>"
  define r0 where "r0 = r\<lparr>rm_transfers := [], rm_order := rm_order r', rm_operations := rm_operations r', rm_limits := rm_limits r'\<rparr>"
  have "seats_ok r0" using room_okD(1) [OF ok] by (subst seats_ok_same [of _ r]) (simp_all add: r0_def)
  then have "room_ok r0" using room_okD(3,5) [OF ok'] room_okD(4) [OF ok]
    unfolding room_ok_def transfers_ok_def operations_ok_def match_ok_def limits_ok_def by (simp add: r0_def)
  moreover have al: "alike r0 r1" using restored_alike [OF ok s] by (simp add: alike_def r0_def r1_def)
  ultimately have ok1: "room_ok r1" by (rule alike_ok [rotated])
  have g1: "good ?q r1" using ok1 by (simp add: good_def calm_def r1_def)
  have mv: "movable r1 t" if h: "t \<in> set (map snd (rm_transfers r))" for t
  proof -
    obtain u where "(u, t) \<in> set (rm_transfers r)" using h by auto
    then have "map_of (rm_transfers r) u = Some t" using room_okD(2) [OF ok] by (simp add: transfers_ok_def)
    then have "movable r t" using room_okD(2) [OF ok] unfolding transfers_ok_def by blast
    then have "movable r0 t" by (simp add: movable_def r0_def)
    then show ?thesis by (rule alike_movable [OF al])
  qed
  have tr: "map (\<lambda>(u, t). transferToJson t) (rm_transfers r) = map transferToJson (map snd (rm_transfers r))" by auto
  have g2: "good ?q (fst (restoreTransfers (map transferToJson (map snd (rm_transfers r))) r1))"
    by (rule restoreTransfers_good [OF g1 mv])
  obtain r2 okay where r2: "restoreTransfers (map transferToJson (map snd (rm_transfers r))) r1 = (r2, okay)" by fastforce
  have clear: "good ?q (x\<lparr>rm_operations := [], rm_order := []\<rparr>)" if g: "good ?q x" for x
  proof -
    let ?x = "x\<lparr>rm_operations := [], rm_order := []\<rparr>"
    have "seats_ok ?x" using room_okD(1) [OF goodD(1) [OF g]] by (subst seats_ok_same [of _ x]) simp_all
    moreover have "transfers_ok ?x" using room_okD(2) [OF goodD(1) [OF g]] by (rule transfers_okI) (simp_all add: movable_def)
    ultimately have "room_ok ?x" using room_okD(4,5) [OF goodD(1) [OF g]]
      unfolding room_ok_def operations_ok_def match_ok_def limits_ok_def by simp
    then show ?thesis by (rule good_calm [OF g]) (simp add: calm_def)
  qed
  have e: "restoreRoom (roomToJson r) r' = (if \<not> okay then (r2, False)
      else (restoreOperations (map (operationToJson r) (rm_order r)) (r2\<lparr>rm_operations := [], rm_order := []\<rparr>), True))"
    unfolding restoreRoom_def Let_def restored_mode(1) [OF ok] restored_mode(2)
    unfolding room_fields jtoArray.simps s tr
      jtoString.simps restored_revision [OF h] mode
    using h r2 by (simp add: r1_def del: map_map)
  have "good ?q (restoreOperations (map (operationToJson r) (rm_order r)) (x\<lparr>rm_operations := [], rm_order := []\<rparr>))"
    if "good ?q x" for x by (rule restoreOperations_good [OF clear [OF that]]) simp
  then have "good ?q (fst (restoreRoom (roomToJson r) r'))" using g2 r2 unfolding e by simp
  then show ?thesis ..
qed

lemma rollback:
  assumes "room_ok r" "room_ok r'" "rm_limits r' = rm_limits r" "set (rm_order r') \<subseteq> set (rm_order r)"
  shows "fst (restoreRoom (roomToJson r) r') = r' \<or> good r (fst (restoreRoom (roomToJson r) r'))"
  using rollback_gen [OF assms(1,2)] assms(3,4) by (auto simp: good_def calm_def)

lemma rollback_good:
  assumes g: "good r0 r" and g': "good r r'"
  shows "good r0 (fst (restoreRoom (roomToJson r) r'))"
proof -
  have "good r (fst (restoreRoom (roomToJson r) r'))"
    using rollback [OF goodD(1) [OF g] goodD(1) [OF g'] goodD(7,8) [OF g']] g' by auto
  then show ?thesis using g by (auto simp: good_def calm_def)
qed

section \<open>Claiming\<close>

lemma claimed_seat:
  assumes "claimedSeat r u name i side type t = (s, r1)" and g: "good r0 r"
  shows "good r0 r1" "look r1 j = look r j" "st_id s = i" "st_user s = u" "st_ctype s = ''human''" "st_side s = side"
    "st_type s = type" "rm_transfers r1 = rm_transfers r" "hasSeat r1 j = hasSeat r j"
  using assms by (auto simp: claimedSeat_def Let_def noSeat_def split_beta hasSeat_def split: if_splits option.splits intro: good_other)

lemma seatOf_put [simp]: "seatOf (putSeat i s r) i = s" "hasSeat (putSeat i s r) i"
  by (simp_all add: seatOf_def hasSeat_def)

lemma claim_good:
  assumes g: "good r0 r"
  shows "good r0 (fst (claimSeat u name i t r))"
proof (cases "(rm_phase r \<noteq> ''preparing'' \<and> \<not> (hasSeat r i \<and> st_ctype (seatOf r i) = ''placeholder'')) \<or> u \<le> 0 \<or> trimmed name = []
    \<or> validSeatTemplate r False i t = None")
  case True
  then show ?thesis using g by (auto simp: claimSeat_def split: option.splits)
next
  case False
  then obtain side type where v: "validSeatTemplate r False i t = Some (side, type)" by auto
  note names = template_names(1) [OF v]
  note ok = goodD(1) [OF g]
  have u: "0 < u" using False by simp
  show ?thesis
  proof (cases "claimRefusal r u side type i t \<noteq> None \<or> seatForUser r u = i")
    case True
    then show ?thesis using False v g by (auto simp: claimSeat_def split: option.splits)
  next
    case free: False
    have R: "\<not> (rm_vmf r \<and> side \<noteq> ''red'')" "\<not> (rm_mode r = ''pve'' \<and> side = ''blue'')"
      "\<not> (hasSeat r i \<and> st_ctype (seatOf r i) \<noteq> ''placeholder'' \<and> st_user (seatOf r i) \<noteq> u)" "seatForUser r u = []"
      using free by (auto simp: claimRefusal_def split: if_splits)
    have old: "\<not> isHuman s" if h: "look r i = Some s" for s
    proof
      assume hs: "isHuman s"
      then have "st_user s = u" using R(3) h by (auto simp: has_look look_seat)
      then show False using no_seat_of_user [OF ok R(4) u h hs] by simp
    qed
    obtain s r1 where c: "claimedSeat r u name i side type t = (s, r1)" by fastforce
    define r3 where "r3 = (if type \<noteq> ''commander'' then unreadyCommander (side @ ''_commander'') (putSeat i s r1) else putSeat i s r1)"
    obtain r4 res where r4: "succeed (r3\<lparr>rm_departed := removeAll u (rm_departed r3)\<rparr>) = (r4, res)" by fastforce
    have all: "good q r4" if q: "good q r" for q
    proof -
      note C = claimed_seat [OF c q]
      have fits: "seat_fits r1 i s"
        using names u R(1) goodD(3,4) [OF C(1)] goodD(3,4) [OF q] unfolding seat_fits_def occupant_ok_def by (auto simp: C)
      have "good q (putSeat i s r1)"
        by (rule good_put [OF C(1) fits]) (use no_seat_of_user [OF ok R(4) u] old in \<open>auto simp: C\<close>)
      then have "good q r3" by (simp add: r3_def unready_good)
      then have "good q (fst (succeed (r3\<lparr>rm_departed := removeAll u (rm_departed r3)\<rparr>)))" by (intro good_result good_other)
      then show ?thesis using r4 by simp
    qed
    note g4' = all [OF g]
    obtain r5 roster where r5: "syncAiRoster r4 = (r5, roster)" by fastforce
    have g5: "good r0 r5" "good r r5" using syncAiRoster_good [OF g4'] syncAiRoster_good [OF all [OF good_refl [OF ok]]] r5 by simp_all
    have "claimSeat u name i t r = (if rm_mode r \<noteq> ''pve'' \<or> side \<noteq> ''red'' then (r4, res)
        else if rr_ok roster then (r5, roster) else (fst (restoreRoom (roomToJson r) r5), roster))"
      using False v free c r4 r5 by (auto simp: claimSeat_def Let_def r3_def)
    then show ?thesis using g4' g5 rollback_good [OF g g5(2)] by simp
  qed
qed

section \<open>Deployment of the AI\<close>

lemma deployAll_good:
  assumes "good r0 r" "\<And>i. i \<in> set is \<Longrightarrow> hasSeat r i"
  shows "case deployAll w h generation is placements r of Inl r' \<Rightarrow> good r0 r' | Inr r' \<Rightarrow> good r0 r'"
  using assms
proof (induction "is" arbitrary: placements r)
  case (Cons i ids)
  let ?r = "\<lambda>p. changeSeat i (\<lambda>s. s\<lparr>st_pos := p, st_deployed := True, st_ready := True, st_revision := rm_revision r + 1\<rparr>) r"
  have h: "hasSeat (?r p) j" if "j \<in> set ids" for j p
    using Cons.prems(2) [of j] Cons.prems(2) [of i] that by (auto simp: hasSeat_def look_change)
  have g: "good r0 (?r p)" for p by (rule good_change) (use Cons.prems in \<open>auto simp: ident_def\<close>)
  show ?case using Cons.IH [OF g h] Cons.prems(1) by (simp split: option.split)
qed simp

lemma deployAi_good:
  assumes g: "good r0 r"
  shows "good r0 (fst (deployAiSeats w h generation r))"
proof -
  let ?ais = "sort (map fst (filter (\<lambda>(i, s). st_ctype s = ''ai'') (rm_seats r)))"
  let ?ps = "map (\<lambda>(i, s). st_pos s) (filter (\<lambda>(i, s). st_ctype s \<noteq> ''ai'' \<and> st_deployed s) (rm_seats r))"
  have has: "hasSeat r i" if "i \<in> set ?ais" for i
    using that by (force simp: hasSeat_def map_of_eq_None_iff)
  note D = deployAll_good [OF g has, of ?ais w h generation ?ps, simplified]
  note D' = deployAll_good [OF good_refl [OF goodD(1) [OF g]] has, of ?ais w h generation ?ps, simplified]
  show ?thesis
  proof (cases "deployAll w h generation ?ais ?ps r")
    case (Inl r')
    then have "good r r'" using D' by simp
    then show ?thesis using Inl g rollback_good [OF g, of r'] by (simp add: deployAiSeats_def Let_def)
  next
    case (Inr r')
    then have "good r0 (fst (succeed r'))" using D by (simp add: good_result del: outcome_simps(3))
    then show ?thesis using Inr g by (simp add: deployAiSeats_def Let_def del: outcome_simps(3))
  qed
qed

section \<open>Modes\<close>

lemma mode_ok:
  assumes ok: "room_ok r" and m: "m \<in> {''pvp'', ''pve''}" "rm_vmf r \<longrightarrow> m = ''pvp''"
    and noai: "\<And>i s. look r i = Some s \<Longrightarrow> st_ctype s = ''ai'' \<Longrightarrow> m = ''pve''"
  shows "room_ok (r\<lparr>rm_mode := m\<rparr>)"
proof -
  let ?r = "r\<lparr>rm_mode := m\<rparr>"
  have "seats_ok ?r"
  proof (rule seats_okI)
    show "seat_fits ?r i s" if "look ?r i = Some s" for i s
      using that room_okD(7) [OF ok, of i s] noai [of i s] by (simp add: seat_fits_def)
  qed (use room_okD(6,8) [OF ok] in auto)
  moreover have "transfers_ok ?r" using room_okD(2) [OF ok] by (rule transfers_okI) (simp_all add: movable_def)
  moreover have "match_ok ?r" using room_okD(4) [OF ok] m unfolding match_ok_def by simp
  ultimately show ?thesis using room_okD(3,5) [OF ok] unfolding room_ok_def operations_ok_def limits_ok_def by simp
qed

lemma vmf_ok:
  assumes ok: "room_ok r" and m: "b \<longrightarrow> rm_mode r = ''pvp''"
    and noblue: "\<And>i s. b \<Longrightarrow> look r i = Some s \<Longrightarrow> st_side s = ''blue'' \<Longrightarrow> \<not> isHuman s"
  shows "room_ok (r\<lparr>rm_vmf := b\<rparr>)"
proof -
  let ?r = "r\<lparr>rm_vmf := b\<rparr>"
  have "seats_ok ?r"
  proof (rule seats_okI)
    show "seat_fits ?r i s" if "look ?r i = Some s" for i s
      using that room_okD(7) [OF ok, of i s] noblue [of i s] by (simp add: seat_fits_def)
  qed (use room_okD(6,8) [OF ok] in auto)
  moreover have "transfers_ok ?r" using room_okD(2) [OF ok] by (rule transfers_okI) (simp_all add: movable_def)
  moreover have "match_ok ?r" using room_okD(4) [OF ok] m unfolding match_ok_def by simp
  ultimately show ?thesis using room_okD(3,5) [OF ok] unfolding room_ok_def operations_ok_def limits_ok_def by simp
qed

text \<open>A step that keeps the invariant and the phase; the revision does not fall.\<close>

definition fair :: "Room \<Rightarrow> Room \<Rightarrow> bool" where
  "fair r r' \<longleftrightarrow> room_ok r' \<and> rm_revision r \<le> rm_revision r' \<and> rm_phase r' = rm_phase r \<and> rm_winner r' = rm_winner r"

lemma good_fair: "good r r' \<Longrightarrow> fair r r'"
  by (simp add: fair_def goodD)

lemma fair_trans: "rm_revision r \<le> rm_revision s \<Longrightarrow> rm_phase s = rm_phase r \<Longrightarrow> rm_winner s = rm_winner r \<Longrightarrow> fair s t \<Longrightarrow> fair r t"
  by (simp add: fair_def)

lemma modes_of: "room_ok r \<Longrightarrow> rm_mode r = ''pvp'' \<or> rm_mode r = ''pve''"
  using room_okD(4) [of r] by (auto simp: match_ok_def)

lemma setMode_fair:
  assumes ok: "room_ok r"
  shows "fair r (fst (setMode m r))"
proof (cases "rm_phase r \<noteq> ''preparing'' \<or> m \<notin> {''pvp'', ''pve''} \<or> rm_vmf r \<and> m = ''pve'' \<or> rm_mode r = m")
  case True
  then show ?thesis using good_refl [OF ok] by (auto simp: setMode_def intro!: good_fair syncAiRoster_good)
next
  case False
  show ?thesis
  proof (cases "m = ''pvp''")
    case True
    let ?d = "dropSeats (\<lambda>s. st_ctype s = ''ai'') r"
    have d: "room_ok ?d" by (rule dropSeats_ok [OF ok]) auto
    have "room_ok (?d\<lparr>rm_mode := m\<rparr>)"
      by (rule mode_ok [OF d]) (use True in \<open>auto simp: look_dropSeats [OF room_okD(6) [OF ok]] split: option.splits if_splits\<close>)
    moreover have "dropSeats (\<lambda>s. st_ctype s = ''ai'') (r\<lparr>rm_mode := m\<rparr>) = ?d\<lparr>rm_mode := m\<rparr>" by (simp add: dropSeats_def)
    ultimately show ?thesis using False True by (simp add: setMode_def fair_def)
  next
    case pve: False
    have pvp: "rm_mode r = ''pvp''" using modes_of [OF ok] False pve by auto
    have okm: "room_ok (r\<lparr>rm_mode := m\<rparr>)"
      by (rule mode_ok [OF ok]) (use False pve in auto)
    obtain r' res where s: "syncAiRoster (r\<lparr>rm_mode := m\<rparr>) = (r', res)" by fastforce
    have g: "good (r\<lparr>rm_mode := m\<rparr>) r'" using syncAiRoster_good [OF good_refl [OF okm]] s by simp
    then have f: "fair r r'" by (intro fair_trans [OF _ _ _ good_fair]) simp_all
    have "fair r (fst (restoreRoom (roomToJson r) r'))"
      using rollback [OF ok goodD(1) [OF g]] goodD(7,8) [OF g] f good_fair by auto
    then show ?thesis using False pve s f by (simp add: setMode_def)
  qed
qed

lemma setVmf_fair:
  assumes ok: "room_ok r"
  shows "fair r (fst (setVmfSingleSide b r))"
proof (cases "rm_phase r \<noteq> ''preparing'' \<and> rm_vmf r \<noteq> b \<or> b \<and> rm_mode r = ''pve''
    \<or> b \<and> list_ex (\<lambda>(i, s). st_side s = ''blue'' \<and> st_ctype s = ''human'') (rm_seats r) \<or> rm_vmf r = b")
  case True
  then show ?thesis using good_refl [OF ok] by (auto simp: setVmfSingleSide_def intro!: good_fair syncVmfRoster_good)
next
  case False
  show ?thesis
  proof (cases b)
    case True
    have "room_ok (r\<lparr>rm_vmf := True\<rparr>)"
    proof (rule vmf_ok [OF ok])
      show "True \<longrightarrow> rm_mode r = ''pvp''" using modes_of [OF ok] False True by auto
      show "\<not> isHuman s" if h: "look r i = Some s" "st_side s = ''blue''" for i s
        using map_of_SomeD [OF h(1)] h(2) False True by (auto simp: list_ex_iff)
    qed
    then have "good (r\<lparr>rm_vmf := True\<rparr>) (fst (syncVmfRoster (r\<lparr>rm_vmf := True\<rparr>)))" by (intro syncVmfRoster_good good_refl)
    then have "fair r (fst (syncVmfRoster (r\<lparr>rm_vmf := True\<rparr>)))" by (intro fair_trans [OF _ _ _ good_fair]) simp_all
    then show ?thesis using False True good_fair [OF good_refl [OF ok]] by (simp add: setVmfSingleSide_def)
  next
    case off: False
    let ?d = "dropSeats (\<lambda>s. st_ctype s = ''placeholder'') r"
    have d: "room_ok ?d" by (rule dropSeats_ok [OF ok]) auto
    have "room_ok (?d\<lparr>rm_vmf := False\<rparr>)" by (rule vmf_ok [OF d]) simp_all
    moreover have "dropSeats (\<lambda>s. st_ctype s = ''placeholder'') (r\<lparr>rm_vmf := False\<rparr>) = ?d\<lparr>rm_vmf := False\<rparr>"
      by (simp add: dropSeats_def)
    ultimately show ?thesis using False off ok by (simp add: setVmfSingleSide_def fair_def)
  qed
qed

section \<open>Placeholders\<close>

lemma split_char_none: "c \<notin> set s \<Longrightarrow> split_char c s = [s]"
  by (induction s) auto

lemma split_char_some: "c \<notin> set p \<Longrightarrow> split_char c (p @ c # s) = p # split_char c s"
  by (induction p) auto

lemma placeholder_parts:
  assumes "side \<in> {''red'', ''blue''}" "type \<in> {''attack'', ''recon'', ''ground'', ''jammer''}"
  shows "names_seat (side @ ''_'' @ type @ ''_'' @ s) side type"
proof -
  have "CHR ''_'' \<notin> set side" "CHR ''_'' \<notin> set type" "side \<noteq> []" "type \<noteq> []" using assms by auto
  then show ?thesis using assms by (auto simp: names_seat_def partAt_def seatParts_def split_char_some)
qed

lemma installPlaceholder_good:
  assumes "good r0 r" "side \<in> {''red'', ''blue''}" "type \<in> {''attack'', ''recon'', ''ground'', ''jammer''}"
  shows "good r0 (installPlaceholder side type n r)"
proof -
  let ?i = "side @ ''_'' @ type @ ''_'' @ number n" and ?t = "placeholderTemplate type"
  obtain unit r' where a: "allocateUnitId side ?t r = (unit, r')" by fastforce
  have g: "good r0 r'" using good_other(6) [OF assms(1), of side ?t] a by simp
  have h: "hasSeat r' ?i = hasSeat r ?i" using a by (auto simp: allocateUnitId_def)
  have "good r0 (putSeat ?i s r')" if "\<not> hasSeat r ?i" "st_id s = ?i" "st_type s = type" "st_side s = side"
    "st_ctype s = ''placeholder''" "st_user s = 0" for s
    by (rule good_server [OF g fits_server(1)]) (use that h placeholder_parts [OF assms(2,3)] in simp_all)
  then show ?thesis using a assms(1) by (simp add: installPlaceholder_def Let_def)
qed

lemma fold_good: "(\<And>x r. x \<in> set xs \<Longrightarrow> good r0 r \<Longrightarrow> good r0 (f x r)) \<Longrightarrow> good r0 r \<Longrightarrow> good r0 (fold f xs r)"
  by (induction xs arbitrary: r) auto

lemma installLimit_good:
  assumes "limitValid x" "good r0 r"
  shows "good r0 (installLimit x r)"
proof -
  obtain base n where x: "x = (base, n)" by (cases x)
  show ?thesis using assms x unfolding installLimit_def limitValid_def Let_def
    by (auto intro!: fold_good installPlaceholder_good)
qed

lemma installPlaceholders_good:
  assumes g: "good r0 r"
  shows "good r0 (fst (installPlaceholdersForMissing r))"
proof -
  have "good r0 (fold installLimit (rm_limits r) r)"
    by (rule fold_good [OF _ g]) (use room_okD(5) [OF goodD(1) [OF g]] in \<open>auto simp: limits_ok_def list_all_iff intro: installLimit_good\<close>)
  then show ?thesis using g syncVmfRoster_good [OF g]
    by (simp add: installPlaceholdersForMissing_def Let_def good_result del: outcome_simps(3))
qed

lemma removePlaceholders_good: "good r0 r \<Longrightarrow> good r0 (fst (removePlaceholders r))"
  by (auto simp: removePlaceholders_def simp del: outcome_simps(3) intro!: good_result good_dropSeats)

end
