(* ===== verification/RoomMatch.thy ===== *)
theory RoomMatch
  imports RoomModes
begin

text \<open>
  The room as a state machine: a step per call, the rooms that can be reached, the invariant of these
  rooms, the order of the phases of a match and the revision.
\<close>

declare map_of_eq_Some_iff [simp del] Some_eq_map_of_iff [simp del]

section \<open>Configuration\<close>

lemma limits_fair: "room_ok r \<Longrightarrow> fair r (fst (setSeatLimits ls r))"
  by (auto simp: setSeatLimits_def fair_def limits_ok)

lemma catalog_fair: "room_ok r \<Longrightarrow> fair r (fst (setTemplateCatalog ts r))"
  by (auto simp: setTemplateCatalog_def fair_def)

lemma stale_servers:
  assumes "keepBindings vmf sources seats bindings stale = Some (kept, stale')" "i \<in> set stale'"
  shows "i \<in> set stale \<or> (\<exists>(j, s) \<in> set seats. st_id s = i \<and> st_ctype s = ''placeholder'')"
  using assms
  by (induction vmf sources seats bindings stale rule: keepBindings.induct) (fastforce split: if_splits)+

lemma drop_stale:
  assumes "good r0 r" "\<And>i s. i \<in> set is \<Longrightarrow> look r i = Some s \<Longrightarrow> \<not> isHuman s"
  shows "good r0 (fold dropSeat is r)"
  using assms
proof (induction "is" arbitrary: r)
  case (Cons i ids)
  have g: "good r0 (dropSeat i r)" by (rule good_drop [OF Cons.prems(1)]) (use Cons.prems(2) in auto)
  have "good r0 (fold dropSeat ids (dropSeat i r))"
    by (rule Cons.IH [OF g]) (use Cons.prems(2) in \<open>auto split: if_splits\<close>)
  then show ?case by simp
qed simp

lemma alike_bind: "alike r (r\<lparr>rm_seats := map (\<lambda>(i, s). (i, bindSeat r' i s)) (rm_seats r)\<rparr>)"
proof -
  have "ident (bindSeat r' i s) = ident s" for i s by (simp add: bindSeat_def ident_def Let_def)
  moreover have "map_of (map (\<lambda>(i, s). (i, bindSeat r' i s)) xs) j = map_option (bindSeat r' j) (map_of xs j)" for xs j
    by (induction xs) auto
  ultimately show ?thesis by (simp add: alike_def comp_def case_prod_beta option.map_comp)
qed

lemma scenario_fair:
  assumes ok: "room_ok r" and s: "setScenarioUnits units r = Some (r', b)"
  shows "fair r r'"
proof (cases "b")
  case False
  then show ?thesis using s good_fair [OF good_refl [OF ok]] by (auto simp: setScenarioUnits_def Let_def split: option.splits)
next
  case True
  obtain sources kept stale bindings where k: "keepBindings (rm_vmf r) sources (rm_seats r) [] [] = Some (kept, stale)"
    and r': "r' = (fold dropSeat stale (r\<lparr>rm_sources := sources, rm_seatSources := bindings\<rparr>))\<lparr>rm_seats :=
      map (\<lambda>(i, s). (i, bindSeat (fold dropSeat stale (r\<lparr>rm_sources := sources, rm_seatSources := bindings\<rparr>)) i s))
        (rm_seats (fold dropSeat stale (r\<lparr>rm_sources := sources, rm_seatSources := bindings\<rparr>)))\<rparr>"
    using s True by (auto simp: setScenarioUnits_def Let_def split: option.splits)
  let ?r = "r\<lparr>rm_sources := sources, rm_seatSources := bindings\<rparr>"
  have g: "good r ?r" by (rule good_alike [OF good_refl [OF ok]]) simp_all
  have "good r (fold dropSeat stale ?r)"
  proof (rule drop_stale [OF g])
    fix i t assume i: "i \<in> set stale" "look ?r i = Some t"
    obtain j v where j: "(j, v) \<in> set (rm_seats r)" "st_id v = i" "st_ctype v = ''placeholder''"
      using stale_servers [OF k i(1)] by auto
    have "look r j = Some v" using j(1) room_okD(6) [OF ok] by (simp add: map_of_is_SomeI)
    then show "\<not> isHuman t" using room_okD(7) [OF ok, of j v] j i(2) by (simp add: seat_fits_def)
  qed
  then have "good r r'" unfolding r' by (rule good_alike [OF _ alike_bind]) simp
  then show ?thesis by (rule good_fair)
qed

section \<open>Phases\<close>

lemma good_phase:
  assumes ok: "room_ok r" "p \<in> {''preparing'', ''running'', ''paused'', ''finished''}"
    "rm_winner r \<in> (if p = ''finished'' then {''red'', ''blue'', ''draw''} else {[]})"
  shows "room_ok (fst (succeed (r\<lparr>rm_phase := p\<rparr>)))"
proof -
  have "r\<lparr>rm_phase := p, rm_winner := rm_winner r\<rparr> = r\<lparr>rm_phase := p\<rparr>" by simp
  then have "room_ok (r\<lparr>rm_phase := p\<rparr>)" using phase_ok [OF assms] by simp
  then show ?thesis by (simp add: ok_other)
qed

lemma start_step:
  assumes ok: "room_ok r"
  shows "room_ok (fst (startMatch r))" "rm_revision r \<le> rm_revision (fst (startMatch r))"
    "fst (startMatch r) = r \<or> rm_phase (fst (startMatch r)) = ''running'' \<and> rm_phase r \<in> {''preparing'', ''paused''}
       \<and> allReady (fst (startMatch r))"
proof -
  have w: "rm_winner r = []" if "rm_phase r = ''preparing'' \<or> rm_phase r = ''paused''"
    using room_okD(4) [OF ok] that by (auto simp: match_ok_def)
  have a: "allReady (r\<lparr>rm_phase := p, rm_revision := n\<rparr>) = allReady r" for p n
    by (simp add: allReady_def commandersPresent_def humanRedCommander_def hasSeat_def seatOf_def)
  have rd: "jtoBool False (jget (readiness r) ''ready'') = allReady r" by (simp add: readiness_def json_simps)
  show "room_ok (fst (startMatch r))"
    using ok good_phase [OF ok, of "''running''"] w by (auto simp: startMatch_def simp del: outcome_simps(3))
  show "rm_revision r \<le> rm_revision (fst (startMatch r))" by (simp add: startMatch_def)
  show "fst (startMatch r) = r \<or> rm_phase (fst (startMatch r)) = ''running'' \<and> rm_phase r \<in> {''preparing'', ''paused''}
       \<and> allReady (fst (startMatch r))"
    by (auto simp: startMatch_def rd a)
qed

lemma pause_step:
  assumes ok: "room_ok r"
  shows "room_ok (fst (pauseMatch r))" "rm_revision r \<le> rm_revision (fst (pauseMatch r))"
    "fst (pauseMatch r) = r \<or> rm_phase (fst (pauseMatch r)) = ''paused'' \<and> rm_phase r = ''running''"
proof -
  have w: "rm_winner r = []" if "rm_phase r = ''running''" using room_okD(4) [OF ok] that by (auto simp: match_ok_def)
  show "room_ok (fst (pauseMatch r))"
    using ok good_phase [OF ok, of "''paused''"] w by (auto simp: pauseMatch_def simp del: outcome_simps(3))
qed (auto simp: pauseMatch_def)

lemma finish_step:
  assumes ok: "room_ok r"
  shows "room_ok (fst (finishMatch w r))" "rm_revision r \<le> rm_revision (fst (finishMatch w r))"
    "fst (finishMatch w r) = r \<or> rm_phase (fst (finishMatch w r)) = ''finished'' \<and> rm_phase r \<noteq> ''finished''"
proof -
  have "room_ok (r\<lparr>rm_phase := ''finished'', rm_winner := w\<rparr>)" if "w = ''red'' \<or> w = ''blue'' \<or> w = ''draw''"
    by (rule phase_ok [OF ok]) (use that in auto)
  then show "room_ok (fst (finishMatch w r))" using ok by (auto simp: finishMatch_def unchanged_def succeed_def)
qed (auto simp: finishMatch_def unchanged_def succeed_def)

lemma disconnect_step:
  assumes ok: "room_ok r"
  shows "room_ok (fst (disconnect u r)) \<and> rm_revision r \<le> rm_revision (fst (disconnect u r))
    \<and> (rm_phase (fst (disconnect u r)) = rm_phase r \<or> rm_phase (fst (disconnect u r)) = ''finished'')"
proof -
  have F: "room_ok (fst x) \<and> rm_revision r \<le> rm_revision (fst x) \<and> (rm_phase (fst x) = rm_phase r \<or> rm_phase (fst x) = ''finished'')"
    if "good r (fst x)" for x :: "Room \<times> RoomResult" using that by (simp add: goodD)
  note g = good_refl [OF ok]
  let ?i = "seatForUser r u"
  obtain r1 v where c: "chooseSuccessor (st_side (seatOf r ?i)) r = (r1, v)" by fastforce
  have g1: "good r r1" using chooseSuccessor_good [OF g, of "st_side (seatOf r ?i)"] c by simp
  have s1: "seatOf r1 i = seatOf r i" for i using chooseSuccessor_seat [of "st_side (seatOf r ?i)" r i] c by simp
  show ?thesis
  proof (cases "?i \<noteq> [] \<and> \<not> (rm_vmf r \<and> rm_phase r \<noteq> ''preparing'') \<and> st_type (seatOf r ?i) = ''commander'' \<and> v \<le> 0
      \<and> rm_phase r \<noteq> ''preparing'' \<and> rm_phase r \<noteq> ''finished''")
    case False
    have "good r (fst (disconnect u r))"
      using False g g1 c goodD(2) [OF g1]
      by (auto simp: disconnect_def Let_def s1 not_less intro: convert_good promote_good leave_good vacate_commander)
    then show ?thesis by (rule F)
  next
    case True
    let ?w = "if st_side (seatOf r ?i) = ''red'' then ''blue'' else ''red''"
    have "good r (dropSeat ?i r1)" by (rule good_drop [OF g1]) (use True s1 in \<open>auto simp: look_seat [symmetric] dest: look_seat\<close>)
    then have d: "room_ok (dropSeat ?i r1)" by (rule goodD)
    have "room_ok ((depart u (dropSeat ?i r1))\<lparr>rm_phase := ''finished'', rm_winner := ?w\<rparr>)"
      by (rule phase_ok) (auto simp: ok_other d)
    then have "room_ok (fst (succeed ((depart u (dropSeat ?i r1))\<lparr>rm_phase := ''finished'', rm_winner := ?w\<rparr>)))"
      by (simp add: ok_other)
    moreover have "fst (disconnect u r) = fst (succeed ((depart u (dropSeat ?i r1))\<lparr>rm_phase := ''finished'', rm_winner := ?w\<rparr>))"
      using True c goodD(2) [OF g1] by (auto simp: disconnect_def Let_def split_beta)
    ultimately show ?thesis using goodD(6) [OF g1] by (simp add: depart_def dropSeat_def)
  qed
qed

lemma operation_step:
  assumes ok: "room_ok r"
  shows "room_ok (fst (applyOperation i action n r)) \<and> rm_revision r \<le> rm_revision (fst (applyOperation i action n r))
    \<and> (fst (applyOperation i action n r) = r \<or> rm_phase (fst (applyOperation i action n r)) = ''preparing'')"
proof (cases "trimmed i = [] \<or> map_of (rm_operations r) i \<noteq> None \<or> n \<noteq> rm_revision r \<or> action \<noteq> ''reset'' \<and> action \<noteq> ''redeploy''")
  case True
  then show ?thesis using ok by (auto simp: applyOperation_def split: option.splits)
next
  case False
  define r1 where "r1 = r\<lparr>rm_phase := ''preparing'', rm_winner := [], rm_transfers := []\<rparr>"
  have "room_ok (r\<lparr>rm_phase := ''preparing'', rm_winner := []\<rparr>)" by (rule phase_ok [OF ok]) auto
  then have "room_ok ((r\<lparr>rm_phase := ''preparing'', rm_winner := []\<rparr>)\<lparr>rm_transfers := []\<rparr>)" by (rule transfers_sub) auto
  then have ok1: "room_ok r1" by (simp add: r1_def)
  note g = good_refl [OF ok1]
  have e: "room_ok (r1\<lparr>rm_seats := []\<rparr>)"
    using room_okD(3-5) [OF ok1] unfolding room_ok_def operations_ok_def match_ok_def limits_ok_def
    by (simp add: seats_ok_def one_seat_each_def transfers_ok_def r1_def)
  have ge: "good r1 (r1\<lparr>rm_seats := []\<rparr>)" by (rule good_calm [OF g e]) (simp add: calm_def)
  define cleared where "cleared = (if action = ''redeploy'' then unchanged (clearDeployment r1)
                            else if rosterPending r1 then syncRoster (r1\<lparr>rm_seats := []\<rparr>)
                            else unchanged (r1\<lparr>rm_seats := []\<rparr>))"
  have gc: "good r1 (fst cleared)"
    using clearDeployment_good [OF g] syncRoster_good [OF ge] ge by (simp add: cleared_def)
  have i: "i \<notin> set (rm_order r1)" using False room_okD(3) [OF ok] by (auto simp: operations_ok_def r1_def)
  have last: "P (fst (andThen cleared (\<lambda>r2. case succeed r2 of (r3, res) \<Rightarrow> (rememberOperation i res (rm_order r3) r3, res))))"
    if "P (fst cleared)" "\<And>r2. P r2 \<Longrightarrow> good r1 r2 \<Longrightarrow> P (rememberOperation i (snd (succeed r2)) (rm_order r2) (fst (succeed r2)))" for P
    using that gc by (cases cleared) (simp add: andThen_def succeed_def)
  have rem: "room_ok (rememberOperation i x (rm_order r2) (fst (succeed r2)))" if g2: "good r1 r2" for x r2
  proof (rule remember_room)
    have "i \<notin> set (rm_order r2)" using i goodD(8) [OF g2] by blast
    then show "rm_order r2 = removeAll i (rm_order (fst (succeed r2)))" by (simp add: removeAll_id)
  qed (simp add: ok_other goodD(1) [OF g2])
  have e: "applyOperation i action n r = andThen cleared (\<lambda>r2. case succeed r2 of (r3, res) \<Rightarrow>
      (rememberOperation i res (rm_order r3) r3, res))"
    using False by (auto simp: applyOperation_def Let_def r1_def [symmetric] cleared_def)
  show ?thesis unfolding e
    by (rule last) (use gc rem goodD(1,2,6) [OF gc] goodD(2,6) in \<open>auto simp: r1_def remember_rest dest: goodD(2,6)\<close>)
qed

section \<open>Steps\<close>

text \<open>One rule per call of the server; a call of \<open>setScenarioUnits\<close> that does not return is no step.\<close>

inductive room_step :: "Room \<Rightarrow> Room \<Rightarrow> bool" where
  catalog: "room_step r (fst (setTemplateCatalog ts r))"
| limits: "room_step r (fst (setSeatLimits ls r))"
| units: "setScenarioUnits us r = Some (r', okay) \<Longrightarrow> room_step r r'"
| mode: "room_step r (fst (setMode m r))"
| profile: "room_step r (fst (setVmfSingleSide b r))"
| roster: "room_step r (fst (syncAiRoster r))"
| placeholders: "room_step r (fst (installPlaceholdersForMissing r))"
| no_placeholders: "room_step r (fst (removePlaceholders r))"
| ai_deployment: "room_step r (fst (deployAiSeats w h generation r))"
| claim: "room_step r (fst (claimSeat u name i t r))"
| request: "room_step r (fst (requestTransfer u i t r))"
| cancel: "room_step r (fst (cancelTransfer u n r))"
| reject: "room_step r (fst (rejectTransfer c u n r))"
| approve: "room_step r (fst (approveTransfer c u n r))"
| leaving: "room_step r (fst (leave u v r))"
| leaving_room: "room_step r (fst (leaveRoom u r))"
| disconnection: "room_step r (fst (disconnect u r))"
| removal: "room_step r (fst (removeUser u r))"
| deployment: "room_step r (fst (deploy c i p r))"
| first_deployment: "room_step r (fst (deployInitial i p r))"
| asking: "room_step r (fst (requestRedeploy u r))"
| redeployment: "room_step r (fst (redeploy c i r))"
| naming: "room_step r (fst (setUnitName u name r))"
| readying: "room_step r (fst (setReady u b r))"
| unreadying: "room_step r (clearReadiness r)"
| starting: "room_step r (fst (startMatch r))"
| pausing: "room_step r (fst (pauseMatch r))"
| finishing: "room_step r (fst (finishMatch w r))"
| operation: "room_step r (fst (applyOperation i action n r))"

text \<open>How the phase may change in one step.\<close>

definition phase_change :: "Room \<Rightarrow> Room \<Rightarrow> bool" where
  "phase_change r r' \<longleftrightarrow> rm_phase r' = rm_phase r
     \<or> rm_phase r' = ''running'' \<and> rm_phase r \<in> {''preparing'', ''paused''} \<and> allReady r'
     \<or> rm_phase r' = ''paused'' \<and> rm_phase r = ''running'' \<or> rm_phase r' \<in> {''finished'', ''preparing''}"

lemma fair_change: "fair r r' \<Longrightarrow> room_ok r' \<and> rm_revision r \<le> rm_revision r' \<and> phase_change r r'"
  by (simp add: fair_def phase_change_def)

lemma good_change': "good r r' \<Longrightarrow> room_ok r' \<and> rm_revision r \<le> rm_revision r' \<and> phase_change r r'"
  by (rule fair_change [OF good_fair])

lemma phase_change_refl: "phase_change r r"
  by (simp add: phase_change_def)

lemma step_ok:
  assumes "room_step r r'" "room_ok r"
  shows "room_ok r' \<and> rm_revision r \<le> rm_revision r' \<and> phase_change r r'"
  using assms
proof (induction rule: room_step.induct)
  case (catalog r ts) then show ?case by (intro fair_change catalog_fair)
next
  case (limits r ls) then show ?case by (intro fair_change limits_fair)
next
  case (units us r r' okay) then show ?case by (intro fair_change scenario_fair)
next
  case (mode r m) then show ?case by (intro fair_change setMode_fair)
next
  case (profile r b) then show ?case by (intro fair_change setVmf_fair)
next
  case (roster r) then show ?case by (intro good_change' syncAiRoster_good good_refl)
next
  case (placeholders r) then show ?case by (intro good_change' installPlaceholders_good good_refl)
next
  case (no_placeholders r) then show ?case by (intro good_change' removePlaceholders_good good_refl)
next
  case (ai_deployment r w h generation) then show ?case by (intro good_change' deployAi_good good_refl)
next
  case (claim r u name i t) then show ?case by (intro good_change' claim_good good_refl)
next
  case (request r u i t) then show ?case by (intro good_change' request_good good_refl)
next
  case (cancel r u n) then show ?case by (intro good_change' cancel_good good_refl)
next
  case (reject r c u n) then show ?case by (intro good_change' reject_good good_refl)
next
  case (approve r c u n) then show ?case by (intro good_change' approve_good good_refl)
next
  case (leaving r u v) then show ?case by (intro good_change' leave_good good_refl)
next
  case (leaving_room r u) then show ?case by (intro good_change' leaveRoom_good good_refl)
next
  case (disconnection r u)
  then show ?case using disconnect_step [of r u] by (auto simp: phase_change_def)
next
  case (removal r u) then show ?case by (intro good_change' removeUser_good good_refl)
next
  case (deployment r c i p) then show ?case by (intro good_change' deployment_good good_refl)
next
  case (first_deployment r i p) then show ?case by (intro good_change' deployment_good good_refl)
next
  case (asking r u) then show ?case by (intro good_change' requestRedeploy_good good_refl)
next
  case (redeployment r c i) then show ?case by (intro good_change' redeploy_good good_refl)
next
  case (naming r u name) then show ?case by (intro good_change' name_good good_refl)
next
  case (readying r u b) then show ?case by (intro good_change' ready_good good_refl)
next
  case (unreadying r) then show ?case by (intro good_change' clearReadiness_good good_refl)
next
  case (starting r) then show ?case using start_step [of r] by (auto simp: phase_change_def)
next
  case (pausing r) then show ?case using pause_step [of r] by (auto simp: phase_change_def)
next
  case (finishing r w) then show ?case using finish_step [of r w] by (auto simp: phase_change_def)
next
  case (operation r i action n) then show ?case using operation_step [of r i action n] by (auto simp: phase_change_def)
qed

text \<open>The rooms that calls and the checkpoints of other such rooms lead to.\<close>

inductive reachable :: "Room \<Rightarrow> bool" where
  created: "reachable (newRoom seed)"
| called: "reachable r \<Longrightarrow> room_step r r' \<Longrightarrow> reachable r'"
| restored: "reachable r \<Longrightarrow> reachable r' \<Longrightarrow> reachable (fst (restoreRoom (roomToJson r) r'))"

lemma new_ok: "room_ok (newRoom seed)"
  by (simp add: newRoom_def room_ok_def seats_ok_def one_seat_each_def transfers_ok_def operations_ok_def match_ok_def limits_ok_def)

lemma reachable_ok: "reachable r \<Longrightarrow> room_ok r"
proof (induction rule: reachable.induct)
  case (restored r r')
  then show ?case using rollback_gen [of r r'] goodD(1) by auto
qed (simp_all add: new_ok step_ok)

end
