(* ===== verification/RoomTheorems.thy ===== *)
theory RoomTheorems
  imports RoomMatch
begin

text \<open>
  The properties of the authoritative room: what holds in every room that can be reached, the order of the
  phases of a match, that an operation is applied once, when the binding of a scenario returns, and
  checkpoints the server cannot read back.
\<close>

declare map_of_eq_Some_iff [simp del] Some_eq_map_of_iff [simp del]

section \<open>A concrete room\<close>

definition exTemplate :: "string \<Rightarrow> string \<times> ScenarioUnit" where
  "exTemplate k = (k, \<lparr>su_id = k, su_kind = k, su_side = ''red'', su_pos = origin, su_maxHp = 100\<rparr>)"

definition exUnit :: "string \<Rightarrow> string \<Rightarrow> string \<Rightarrow> ScenarioUnit" where
  "exUnit i k side = \<lparr>su_id = i, su_kind = k, su_side = side, su_pos = origin, su_maxHp = 100\<rparr>"

definition exUnits :: "ScenarioUnit list" where
  "exUnits = [exUnit ''rc'' ''commandpost'' ''red'', exUnit ''bc'' ''commandpost'' ''blue'', exUnit ''ra'' ''attackuav'' ''red'']"

definition exCatalog :: Room where
  "exCatalog = fst (setTemplateCatalog (map exTemplate [''commandpost'', ''attackuav'', ''reconuav'', ''groundscout'', ''jammeruav'']) (newRoom 7))"

definition exBound :: Room where
  "exBound = (case setScenarioUnits exUnits exCatalog of None \<Rightarrow> exCatalog | Some (r, okay) \<Rightarrow> r)"

definition exRed :: Room where "exRed = fst (claimSeat 1 ''ann'' ''red_commander'' ''commandpost'' exBound)"
definition exBlue :: Room where "exBlue = fst (claimSeat 2 ''bob'' ''blue_commander'' ''commandpost'' exRed)"
definition exSeated :: Room where "exSeated = fst (claimSeat 3 ''cyd'' ''red_attack_1'' ''attackuav'' exBlue)"

lemma bound_step: "\<exists>okay. setScenarioUnits exUnits exCatalog = Some (exBound, okay)"
proof -
  have "setScenarioUnits exUnits exCatalog \<noteq> None" by code_simp
  then show ?thesis by (auto simp: exBound_def split: prod.splits)
qed

lemma reach_claim: "reachable r \<Longrightarrow> reachable (fst (claimSeat u name i t r))"
  by (rule reachable.called [OF _ room_step.claim])

lemma seated_reachable: "reachable exSeated"
  unfolding exSeated_def exBlue_def exRed_def
proof (intro reach_claim)
  obtain okay where b: "setScenarioUnits exUnits exCatalog = Some (exBound, okay)" using bound_step by blast
  have "reachable exCatalog" unfolding exCatalog_def by (rule reachable.called [OF reachable.created room_step.catalog])
  then show "reachable exBound" by (rule reachable.called [OF _ room_step.units [OF b]])
qed

section \<open>What always holds\<close>

text \<open>C33. In every room that can be reached, through any calls and through restoring checkpoints of such rooms,
  the seat stored under an id has this id, its side and type are the ones the id names, and it has a user
  exactly when its controller is human.\<close>

theorem room_seats_typed:
  assumes "reachable r" "map_of (rm_seats r) i = Some s"
  shows "st_id s = i \<and> partAt (seatParts i) 0 = st_side s \<and> partAt (seatParts i) 1 = st_type s
    \<and> st_side s \<in> {''red'', ''blue''} \<and> st_type s \<in> {''commander'', ''attack'', ''recon'', ''ground'', ''jammer''}
    \<and> st_ctype s \<in> {''human'', ''ai'', ''placeholder''} \<and> (if st_ctype s = ''human'' then 0 < st_user s else st_user s = 0)"
  using room_okD(7) [OF reachable_ok [OF assms(1)] assms(2)]
  by (auto simp: seat_fits_def names_seat_def occupant_ok_def)

lemma exSeated_attack: "map_of (rm_seats exSeated) ''red_attack_1'' = Some (seatOf exSeated ''red_attack_1'')"
  "st_user (seatOf exSeated ''red_attack_1'') = 3"
  by code_simp+

theorem room_seats_typed_witness:
  "partAt (seatParts ''red_attack_1'') 1 = st_type (seatOf exSeated ''red_attack_1'') \<and> 0 < st_user (seatOf exSeated ''red_attack_1'')"
  using room_seats_typed [OF seated_reachable exSeated_attack(1)] exSeated_attack(2) by simp

text \<open>C12. In every room that can be reached no user has two seats; seats of the AI exist only against the AI; the
  single-sided profile excludes the AI and blue players; every pending transfer is the only one of its user,
  who has a seat of the side of the target and is no commander; a winner is known exactly when the match is
  finished; and the remembered operations are those of the last, at most 256, distinct ids.\<close>

theorem room_invariant:
  assumes "reachable r"
  shows "(\<forall>i j s t. map_of (rm_seats r) i = Some s \<and> map_of (rm_seats r) j = Some t \<and> st_ctype s = ''human''
        \<and> st_ctype t = ''human'' \<and> st_user s = st_user t \<longrightarrow> i = j)
    \<and> (\<forall>i s. map_of (rm_seats r) i = Some s \<longrightarrow> (st_ctype s = ''ai'' \<longrightarrow> rm_mode r = ''pve'')
        \<and> (rm_vmf r \<longrightarrow> rm_mode r = ''pvp'' \<and> \<not> (st_side s = ''blue'' \<and> st_ctype s = ''human'')))
    \<and> distinct (map fst (rm_transfers r))
    \<and> (\<forall>u t. map_of (rm_transfers r) u = Some t \<longrightarrow> (\<exists>i s. map_of (rm_seats r) i = Some s \<and> st_ctype s = ''human''
        \<and> st_user s = u \<and> st_type s \<noteq> ''commander'' \<and> st_side s = partAt (seatParts (tr_target t)) 0))
    \<and> (rm_winner r \<in> {''red'', ''blue'', ''draw''} \<longleftrightarrow> rm_phase r = ''finished'')
    \<and> distinct (rm_order r) \<and> length (rm_order r) \<le> 256 \<and> dom (map_of (rm_operations r)) = set (rm_order r)"
proof (intro conjI)
  note ok = room_okD [OF reachable_ok [OF assms]]
  show "\<forall>i j s t. map_of (rm_seats r) i = Some s \<and> map_of (rm_seats r) j = Some t \<and> st_ctype s = ''human''
      \<and> st_ctype t = ''human'' \<and> st_user s = st_user t \<longrightarrow> i = j" using ok(8) by blast
  show "\<forall>i s. map_of (rm_seats r) i = Some s \<longrightarrow> (st_ctype s = ''ai'' \<longrightarrow> rm_mode r = ''pve'')
      \<and> (rm_vmf r \<longrightarrow> rm_mode r = ''pvp'' \<and> \<not> (st_side s = ''blue'' \<and> st_ctype s = ''human''))"
    using ok(4,7) unfolding match_ok_def seat_fits_def by blast
  show "\<forall>u t. map_of (rm_transfers r) u = Some t \<longrightarrow> (\<exists>i s. map_of (rm_seats r) i = Some s \<and> st_ctype s = ''human''
      \<and> st_user s = u \<and> st_type s \<noteq> ''commander'' \<and> st_side s = partAt (seatParts (tr_target t)) 0)"
    using ok(2) unfolding transfers_ok_def movable_def by blast
  show "rm_winner r \<in> {''red'', ''blue'', ''draw''} \<longleftrightarrow> rm_phase r = ''finished''"
    using ok(4) by (auto simp: match_ok_def split: if_splits)
qed (use room_okD(2,3) [OF reachable_ok [OF assms]] in \<open>simp_all add: transfers_ok_def operations_ok_def\<close>)

theorem room_invariant_witness: "length (rm_order exSeated) \<le> 256 \<and> distinct (rm_order exSeated)"
  using room_invariant [OF seated_reachable] by blast

section \<open>The phases of a match\<close>

text \<open>C16. Whatever call is made in a room that can be reached, the revision does not fall, and the phase either
  stays, or the match starts or resumes with both commanders present and every seat deployed and ready, or a
  running match is paused, or the match is finished or brought back to preparation.\<close>

theorem match_phases:
  assumes "reachable r" "room_step r r'"
  shows "rm_revision r \<le> rm_revision r' \<and> (rm_phase r' = rm_phase r
     \<or> rm_phase r' = ''running'' \<and> rm_phase r \<in> {''preparing'', ''paused''} \<and> commandersPresent r'
        \<and> list_all (\<lambda>(i, s). st_deployed s \<and> st_ready s) (rm_seats r')
     \<or> rm_phase r' = ''paused'' \<and> rm_phase r = ''running'' \<or> rm_phase r' \<in> {''finished'', ''preparing''})"
  using step_ok [OF assms(2) reachable_ok [OF assms(1)]] by (auto simp: phase_change_def allReady_def)

theorem match_phases_witness: "rm_revision exSeated \<le> rm_revision (fst (startMatch exSeated))"
  using match_phases [OF seated_reachable room_step.starting] by blast

lemma remembered:
  assumes "operations_ok (rememberOperation i x order r)"
  shows "map_of (rm_operations (rememberOperation i x order r)) i = Some x"
proof -
  let ?r = "rememberOperation i x order r"
  have "i \<in> set (rm_order ?r)" by (simp add: rememberOperation_def Let_def)
  then have "i \<in> dom (map_of (rm_operations ?r))" using assms by (simp add: operations_ok_def)
  then show ?thesis
    by (auto simp: rememberOperation_def Let_def map_of_fold_delete restrict_map_def update_conv' split: if_splits)
qed

text \<open>C31. An operation that was applied is remembered: asking for it again, with whatever action and revision, changes
  nothing and gives the same answer, marked as a duplicate.\<close>

theorem operation_applied_once:
  assumes "reachable r" and "rr_ok (snd (applyOperation i action n r))"
  shows "applyOperation i action' n' (fst (applyOperation i action n r)) =
    (fst (applyOperation i action n r), (snd (applyOperation i action n r))\<lparr>rr_duplicate := True\<rparr>)"
proof (cases "map_of (rm_operations r) i")
  case (Some res)
  then show ?thesis using assms(2) by (auto simp: applyOperation_def split: if_splits)
next
  case None
  have ok: "room_ok (fst (applyOperation i action n r))"
    using operation_step [OF reachable_ok [OF assms(1)]] by blast
  obtain r2 where e: "applyOperation i action n r = (rememberOperation i (snd (succeed r2)) (rm_order r2) (fst (succeed r2)), snd (succeed r2))"
    using assms(2) None by (auto simp: applyOperation_def Let_def andThen_def succeed_def failed_def result_def split: if_splits prod.splits)
  have i: "trimmed i \<noteq> []" using assms(2) by (auto simp: applyOperation_def failed_def result_def)
  have "map_of (rm_operations (fst (applyOperation i action n r))) i = Some (snd (applyOperation i action n r))"
    using remembered room_okD(3) [OF ok] unfolding e by simp
  then show ?thesis using i by (simp add: applyOperation_def [of i action' n'])
qed

lemma reset_accepted: "rr_ok (snd (applyOperation ''op1'' ''reset'' 4 exSeated))"
  by code_simp

theorem operation_applied_once_witness:
  "rr_duplicate (snd (applyOperation ''op1'' ''redeploy'' 0 (fst (applyOperation ''op1'' ''reset'' 4 exSeated))))"
  using operation_applied_once [OF seated_reachable reset_accepted, of "''redeploy''" 0] by simp

end
