(* ===== verification/RoomBinding.thy ===== *)
theory RoomBinding
  imports RoomTheorems
begin

text \<open>
  The binding of seats to the units of a scenario: the search for free seat ids ends, except when a side has
  a second command post to bind.
\<close>

declare map_of_eq_Some_iff [simp del] Some_eq_map_of_iff [simp del]

section \<open>Free seat ids\<close>

lemma number_inj: "number m = number n \<longleftrightarrow> m = n"
  by (metis digits_val_number option.inject)

lemma freeSeatId_returns:
  "map_of b (canonicalSeatId side type m) = None \<Longrightarrow> n \<le> m \<Longrightarrow> freeSeatId side type n b \<noteq> None"
proof (induction "m - n" arbitrary: n)
  case 0
  then show ?case by (subst freeSeatId.simps) auto
next
  case (Suc k)
  show ?case
  proof (cases "map_of b (canonicalSeatId side type n) = None")
    case False
    then have "freeSeatId side type (n + 1) b \<noteq> None"
      using Suc by (intro Suc.hyps(1)) (auto simp: le_Suc_eq)
    then show ?thesis using False by (subst freeSeatId.simps) simp
  qed (subst freeSeatId.simps, simp)
qed

lemma freeSeatId_numbered:
  assumes "type \<noteq> ''commander''"
  shows "freeSeatId side type n b \<noteq> None"
proof -
  have "inj (canonicalSeatId side type)" using assms by (intro injI) (simp add: canonicalSeatId_def number_inj)
  then have "infinite (canonicalSeatId side type ` {n..})"
    by (simp add: finite_image_iff inj_on_subset infinite_Ici)
  then have "\<not> canonicalSeatId side type ` {n..} \<subseteq> dom (map_of b)" using finite_dom_map_of finite_subset by blast
  then obtain m where "n \<le> m" "map_of b (canonicalSeatId side type m) = None" by auto
  then show ?thesis using freeSeatId_returns by blast
qed

lemma freeSeatId_found: "freeSeatId side type n b = Some y \<Longrightarrow> map_of b (fst y) = None \<and> (\<exists>m. fst y = canonicalSeatId side type m)"
proof (erule freeSeatId.raw_induct [rotated, where P = "\<lambda>side type n b y. map_of b (fst y) = None \<and> (\<exists>m. fst y = canonicalSeatId side type m)"])
  fix f :: "string \<Rightarrow> string \<Rightarrow> nat \<Rightarrow> (string \<times> string) list \<Rightarrow> (string \<times> nat) option" and side type n b y
  assume IH: "\<And>side type n b y. f side type n b = Some y \<Longrightarrow> map_of b (fst y) = None \<and> (\<exists>m. fst y = canonicalSeatId side type m)"
    and y: "(if map_of b (canonicalSeatId side type n) = None then Some (canonicalSeatId side type n, n + 1) else f side type (n + 1) b) = Some y"
  show "map_of b (fst y) = None \<and> (\<exists>m. fst y = canonicalSeatId side type m)"
  proof (cases "map_of b (canonicalSeatId side type n) = None")
    case True
    then show ?thesis using y by auto
  next
    case False
    then have "f side type (n + 1) b = Some y" using y by (simp only: if_False)
    then show ?thesis by (rule IH)
  qed
qed

lemma freeSeatId_result: "freeSeatId side type n b = Some (i, k) \<Longrightarrow> map_of b i = None \<and> (\<exists>m. i = canonicalSeatId side type m)"
  using freeSeatId_found [of side type n b "(i, k)"] by simp

text \<open>For a command post there is only one id to try.\<close>

lemma freeSeatId_commander: "freeSeatId side ''commander'' n b \<noteq> None \<longleftrightarrow> map_of b (side @ ''_commander'') = None"
  using freeSeatId_result [of side "''commander''" n b] freeSeatId_returns [of b side "''commander''" n n]
  by (auto simp: canonicalSeatId_def)

section \<open>Buckets\<close>

lemma bindBucket_numbered: "type \<noteq> ''commander'' \<Longrightarrow> bindBucket side type assigned us n b \<noteq> None"
proof (induction us arbitrary: n b)
  case (Cons u us)
  then show ?case using freeSeatId_numbered [of type side n b] by (auto split: option.split)
qed simp

lemma bindBucket_commander:
  "length us \<le> 1 \<Longrightarrow> set us \<subseteq> set assigned \<or> map_of b (side @ ''_commander'') = None \<Longrightarrow>
   bindBucket side ''commander'' assigned us n b \<noteq> None"
  using freeSeatId_commander [of side n b] by (cases us) (auto split: option.splits)

lemma bindBucket_keys:
  "bindBucket side type assigned us n b = Some b' \<Longrightarrow> map_of b' i \<noteq> None \<Longrightarrow>
   map_of b i \<noteq> None \<or> (\<exists>m. i = canonicalSeatId side type m)"
proof (induction us arbitrary: n b)
  case (Cons u us)
  show ?case
  proof (cases "u \<in> set assigned")
    case True
    then show ?thesis using Cons by simp
  next
    case False
    then obtain j k where f: "freeSeatId side type n b = Some (j, k)"
      and r: "bindBucket side type assigned us k (AList.update j u b) = Some b'"
      using Cons.prems(1) by (auto split: option.splits)
    obtain m where m: "j = canonicalSeatId side type m" using freeSeatId_result [OF f] by blast
    have "map_of (AList.update j u b) i \<noteq> None \<or> (\<exists>m. i = canonicalSeatId side type m)"
      by (rule Cons.IH [OF r Cons.prems(2)])
    then show ?thesis using m by (auto simp: update_conv' split: if_splits)
  qed
qed simp

definition bucketOf :: "((string \<times> string) \<times> string list) list \<Rightarrow> string \<Rightarrow> string \<Rightarrow> string list" where
  "bucketOf buckets side type = (case map_of buckets (side, type) of None \<Rightarrow> [] | Some is \<Rightarrow> is)"

definition sidesOf :: "((string \<times> string) \<times> string list) list \<Rightarrow> bool" where
  "sidesOf buckets \<longleftrightarrow> (\<forall>(k, us) \<in> set buckets. fst k \<in> {''red'', ''blue''}
     \<and> snd k \<in> {''commander'', ''attack'', ''recon'', ''ground'', ''jammer''})"

lemma other_seat:
  assumes "side \<in> {''red'', ''blue''}" "type \<in> {''commander'', ''attack'', ''recon'', ''ground'', ''jammer''}"
    "side' \<in> {''red'', ''blue''}" "(side, type) \<noteq> (side', ''commander'')"
  shows "canonicalSeatId side type m \<noteq> side' @ ''_commander''"
proof (cases "type = ''commander''")
  case True
  then show ?thesis using assms(4) by (simp add: canonicalSeatId_def)
next
  case False
  then show ?thesis using assms(1-3) unfolding canonicalSeatId_def by (elim insertE emptyE; simp)
qed

lemma bindBuckets_returns:
  assumes "distinct (map fst buckets)" "sidesOf buckets"
    "\<And>side. side \<in> {''red'', ''blue''} \<Longrightarrow> length (bucketOf buckets side ''commander'') \<le> 1
       \<and> (set (bucketOf buckets side ''commander'') \<subseteq> set assigned \<or> map_of b (side @ ''_commander'') = None)"
  shows "bindBuckets assigned buckets b \<noteq> None"
  using assms
proof (induction assigned buckets b rule: bindBuckets.induct)
  case (2 assigned side type us rest b)
  have k: "side \<in> {''red'', ''blue''}" "type \<in> {''commander'', ''attack'', ''recon'', ''ground'', ''jammer''}"
    using 2(3) by (auto simp: sidesOf_def)
  have new: "map_of rest (side, type) = None" using 2(2) by (auto simp: map_of_eq_None_iff)
  have "bindBucket side type assigned (sort us) 1 b \<noteq> None"
  proof (cases "type = ''commander''")
    case True
    have "bucketOf (((side, type), us) # rest) side ''commander'' = us" by (simp add: bucketOf_def True)
    then have "length (sort us) \<le> 1" "set (sort us) \<subseteq> set assigned \<or> map_of b (side @ ''_commander'') = None"
      using 2(4) [OF k(1)] by simp_all
    then show ?thesis unfolding True by (rule bindBucket_commander)
  qed (rule bindBucket_numbered)
  then obtain b' where b': "bindBucket side type assigned (sort us) 1 b = Some b'" by blast
  have "bindBuckets assigned rest b' \<noteq> None"
  proof (rule 2(1) [OF b'])
    show "distinct (map fst rest)" "sidesOf rest" using 2(2,3) by (auto simp: sidesOf_def)
    fix s :: string assume s: "s \<in> {''red'', ''blue''}"
    show "length (bucketOf rest s ''commander'') \<le> 1
      \<and> (set (bucketOf rest s ''commander'') \<subseteq> set assigned \<or> map_of b' (s @ ''_commander'') = None)"
    proof (cases "(side, type) = (s, ''commander'')")
      case True
      then show ?thesis using new by (simp add: bucketOf_def)
    next
      case False
      have "bucketOf rest s ''commander'' = bucketOf (((side, type), us) # rest) s ''commander''"
        using False by (auto simp: bucketOf_def)
      moreover have "map_of b' (s @ ''_commander'') = None" if "map_of b (s @ ''_commander'') = None"
        using bindBucket_keys [OF b', of "s @ ''_commander''"] that other_seat [OF k s False] by metis
      ultimately show ?thesis using 2(4) [OF s] by metis
    qed
  qed
  then show ?case using b' by simp
qed simp

lemma collected:
  assumes "collectUnits us sources buckets = Some (sources', buckets')" "distinct (map fst buckets)" "sidesOf buckets"
  shows "distinct (map fst buckets')" "sidesOf buckets'"
    "type \<noteq> [] \<Longrightarrow> bucketOf buckets' side type = bucketOf buckets side type
       @ map su_id (filter (\<lambda>u. su_side u = side \<and> typeForTemplate (su_kind u) = type) us)"
    "map_of sources' i = Some u \<Longrightarrow> map_of sources i = Some u \<or> u \<in> set us \<and> su_id u = i"
proof -
  have "distinct (map fst buckets') \<and> sidesOf buckets' \<and> (\<forall>side type. type \<noteq> [] \<longrightarrow> bucketOf buckets' side type = bucketOf buckets side type
       @ map su_id (filter (\<lambda>u. su_side u = side \<and> typeForTemplate (su_kind u) = type) us))
    \<and> (\<forall>i u. map_of sources' i = Some u \<longrightarrow> map_of sources i = Some u \<or> u \<in> set us \<and> su_id u = i)"
    using assms
  proof (induction us sources buckets rule: collectUnits.induct)
    case (2 v us sources buckets)
    let ?type = "typeForTemplate (su_kind v)"
    show ?case
    proof (cases "?type = []")
      case True
      then have c: "collectUnits us sources buckets = Some (sources', buckets')" using 2(3) by simp
      show ?thesis using 2(1) [OF refl refl True c 2(4,5)] True by auto
    next
      case False
      let ?old = "case map_of buckets (su_side v, ?type) of None \<Rightarrow> [] | Some is \<Rightarrow> is"
      let ?b = "AList.update (su_side v, ?type) (?old @ [su_id v]) buckets"
      have g: "\<not> (trimmed (su_id v) = [] \<or> map_of sources (su_id v) \<noteq> None \<or> su_side v \<noteq> ''red'' \<and> su_side v \<noteq> ''blue'')"
        and c: "collectUnits us (AList.update (su_id v) v sources) ?b = Some (sources', buckets')"
        using 2(3) False by (auto simp: Let_def split: if_splits)
      have t: "?type \<in> {''commander'', ''attack'', ''recon'', ''ground'', ''jammer''}"
        using False by (auto simp: typeForTemplate_def split: if_splits)
      have d: "distinct (map fst ?b)" using 2(4) by (simp add: distinct_update)
      have s: "sidesOf ?b"
        unfolding sidesOf_def
      proof (clarify)
        fix x y us' assume m: "((x, y), us') \<in> set ?b"
        then have "map_of ?b (x, y) = Some us'" using d by (simp add: map_of_is_SomeI)
        then have "(x, y) = (su_side v, ?type) \<or> map_of buckets (x, y) = Some us'"
          by (auto simp: update_conv' split: if_splits)
        then show "fst (x, y) \<in> {''red'', ''blue''} \<and> snd (x, y) \<in> {''commander'', ''attack'', ''recon'', ''ground'', ''jammer''}"
          using g t 2(5) by (auto simp: sidesOf_def dest!: map_of_SomeD)
      qed
      have b: "bucketOf ?b side type = bucketOf buckets side type @ (if side = su_side v \<and> type = ?type then [su_id v] else [])"
        for side type by (auto simp: bucketOf_def update_conv')
      show ?thesis using 2(2) [OF refl refl False g c d s] unfolding b by (auto simp: update_conv' split: if_splits)
    qed
  qed simp
  then show "distinct (map fst buckets')" "sidesOf buckets'"
    "type \<noteq> [] \<Longrightarrow> bucketOf buckets' side type = bucketOf buckets side type
       @ map su_id (filter (\<lambda>u. su_side u = side \<and> typeForTemplate (su_kind u) = type) us)"
    "map_of sources' i = Some u \<Longrightarrow> map_of sources i = Some u \<or> u \<in> set us \<and> su_id u = i"
    by blast+
qed

section \<open>The binding returns\<close>

lemma kept_bindings:
  assumes "keepBindings vmf sources seats bindings stale = Some (kept, stale')" "map_of kept i = Some source"
  shows "map_of bindings i = Some source \<or> (\<exists>(j, s) \<in> set seats. st_id s = i \<and> st_source s = source \<and> bindingKept sources s)"
  using assms
proof (induction vmf sources seats bindings stale rule: keepBindings.induct)
  case (2 vmf sources j s rest bindings stale)
  then show ?case by (fastforce simp: update_conv' split: if_splits)
qed simp

definition postsOf :: "ScenarioUnit list \<Rightarrow> string \<Rightarrow> ScenarioUnit list" where
  "postsOf units side = filter (\<lambda>u. su_side u = side \<and> su_kind u = ''commandpost'') units"

lemma commander_kind: "typeForTemplate k = ''commander'' \<longleftrightarrow> k = ''commandpost''"
  by (simp add: typeForTemplate_def)

text \<open>A kept binding of the seat of the commander takes the only command post of the side.\<close>

lemma commander_bound:
  assumes ok: "room_ok r" and c: "collectUnits units [] [] = Some (sources, buckets)"
    and k: "keepBindings (rm_vmf r) sources (rm_seats r) [] [] = Some (kept, stale)"
    and side: "side \<in> {''red'', ''blue''}" and one: "length (postsOf units side) \<le> 1"
    and b: "map_of kept (side @ ''_commander'') = Some source"
  shows "set (bucketOf buckets side ''commander'') \<subseteq> set (map snd kept)"
proof -
  obtain j s where s: "(j, s) \<in> set (rm_seats r)" "st_id s = side @ ''_commander''" "st_source s = source" "bindingKept sources s"
    using kept_bindings [OF k b] by auto
  have l: "look r j = Some s" using s(1) room_okD(6) [OF ok] by (simp add: map_of_is_SomeI)
  have "names_seat (side @ ''_commander'') (st_side s) (st_type s)"
    using room_okD(7) [OF ok l] s(2) by (simp add: seat_fits_def)
  then have t: "st_side s = side" "st_type s = ''commander''"
    using side by (auto simp: names_seat_def seatParts_def partAt_def)
  obtain u where u: "map_of sources source = Some u" "su_side u = side" "typeForTemplate (su_kind u) = ''commander''"
    using s(3,4) t by (auto simp: bindingKept_def Let_def unitIn_def noUnit_def split: option.splits)
  have e: "distinct (map fst ([] :: ((string \<times> string) \<times> string list) list))" "sidesOf []" by (simp_all add: sidesOf_def)
  have m: "u \<in> set units" "su_id u = source" using collected(4) [OF c e u(1)] by simp_all
  then have p: "u \<in> set (postsOf units side)" using u by (simp add: postsOf_def commander_kind)
  then have "postsOf units side = [u]" using one by (cases "postsOf units side") auto
  then have "bucketOf buckets side ''commander'' = [source]"
    using collected(3) [OF c e, of "''commander''" side] m(2) by (simp add: postsOf_def commander_kind bucketOf_def)
  moreover have "source \<in> set (map snd kept)" using map_of_SomeD [OF b] by force
  ultimately show ?thesis by simp
qed

text \<open>C27. In a room that can be reached, binding the seats to a scenario with at most one command post on each side
  returns: the search for free seat ids ends for every unit.\<close>

theorem scenario_binding_returns:
  assumes "reachable r" "length (postsOf units ''red'') \<le> 1" "length (postsOf units ''blue'') \<le> 1"
  shows "\<exists>r' okay. setScenarioUnits units r = Some (r', okay)"
proof -
  note ok = reachable_ok [OF assms(1)]
  have "setScenarioUnits units r \<noteq> None"
  proof (cases "collectUnits units [] []")
    case (Some x)
    obtain sources buckets where x: "x = (sources, buckets)" by (cases x)
    note c = Some [unfolded x]
    show ?thesis
    proof (cases "keepBindings (rm_vmf r) sources (rm_seats r) [] []")
      case (Some y)
      obtain kept stale where y: "y = (kept, stale)" by (cases y)
      note k = Some [unfolded y]
      have e: "distinct (map fst ([] :: ((string \<times> string) \<times> string list) list))" "sidesOf []" by (simp_all add: sidesOf_def)
      have "bindBuckets (map snd kept) buckets kept \<noteq> None"
      proof (rule bindBuckets_returns [OF collected(1,2) [OF c e]])
        fix side :: string assume side: "side \<in> {''red'', ''blue''}"
        have one: "length (postsOf units side) \<le> 1" using assms(2,3) side by auto
        have "length (bucketOf buckets side ''commander'') \<le> 1"
          using one collected(3) [OF c e, of "''commander''" side] by (simp add: postsOf_def commander_kind bucketOf_def)
        moreover have "set (bucketOf buckets side ''commander'') \<subseteq> set (map snd kept) \<or> map_of kept (side @ ''_commander'') = None"
          using commander_bound [OF ok c k side one] by (cases "map_of kept (side @ ''_commander'')") auto
        ultimately show "length (bucketOf buckets side ''commander'') \<le> 1 \<and>
          (set (bucketOf buckets side ''commander'') \<subseteq> set (map snd kept) \<or> map_of kept (side @ ''_commander'') = None)" ..
      qed
      then show ?thesis using c k by (auto simp: setScenarioUnits_def Let_def)
    qed (simp add: setScenarioUnits_def c)
  qed (simp add: setScenarioUnits_def)
  then show ?thesis by auto
qed

theorem scenario_binding_returns_witness: "\<exists>r' okay. setScenarioUnits exUnits exSeated = Some (r', okay)"
  by (rule scenario_binding_returns [OF seated_reachable]) code_simp+

lemma two_commanders: "2 \<le> length us \<Longrightarrow> bindBucket side ''commander'' [] us n b = None"
proof (cases us)
  case (Cons u vs)
  assume "2 \<le> length us"
  then obtain v ws where v: "vs = v # ws" using Cons by (cases vs) auto
  have "map_of (AList.update (canonicalSeatId side ''commander'' m) u b) (side @ ''_commander'') \<noteq> None" for m
    by (simp add: canonicalSeatId_def update_conv')
  then have t: "freeSeatId side ''commander'' k (AList.update (canonicalSeatId side ''commander'' m) u b) = None" for k m
    using freeSeatId_commander by blast
  have "i = side @ ''_commander''" if "freeSeatId side ''commander'' n b = Some (i, k)" for i k
    using freeSeatId_result [OF that] by (auto simp: canonicalSeatId_def)
  then show ?thesis using t [unfolded canonicalSeatId_def] by (auto simp: Cons v split: option.split)
qed simp

lemma stuck_bucket:
  assumes "map_of buckets (side, ''commander'') = Some us" "2 \<le> length us"
  shows "bindBuckets [] buckets b = None"
  using assms
proof (induction "[] :: string list" buckets b rule: bindBuckets.induct)
  case (2 side' type us' rest b)
  show ?case
  proof (cases "(side', type) = (side, ''commander'')")
    case True
    then show ?thesis using 2(2,3) two_commanders [of "sort us'" side 1 b] by simp
  next
    case False
    then have "map_of rest (side, ''commander'') = Some us" using 2(2) by auto
    then show ?thesis using 2(1) [OF _ _ 2(3)] by (auto split: option.split)
  qed
qed simp

text \<open>Binding an empty room to a scenario with a second command post on some side does not return: the only id of
  the seat of a commander is taken by the first one, and the search tries it forever.\<close>

theorem second_command_post_diverges:
  assumes "collectUnits units [] [] \<noteq> None" "2 \<le> length (postsOf units side)"
  shows "setScenarioUnits units (newRoom seed) = None"
proof -
  obtain sources buckets where c: "collectUnits units [] [] = Some (sources, buckets)" using assms(1) by auto
  have e: "distinct (map fst ([] :: ((string \<times> string) \<times> string list) list))" "sidesOf []" by (simp_all add: sidesOf_def)
  have "length (bucketOf buckets side ''commander'') = length (postsOf units side)"
    using collected(3) [OF c e, of "''commander''" side] by (simp add: postsOf_def commander_kind bucketOf_def)
  then obtain us where "map_of buckets (side, ''commander'') = Some us" "2 \<le> length us"
    using assms(2) by (auto simp: bucketOf_def split: option.splits)
  then have "bindBuckets [] buckets [] = None" by (rule stuck_bucket)
  then show ?thesis by (simp add: setScenarioUnits_def c newRoom_def)
qed

theorem second_command_post_diverges_witness:
  "setScenarioUnits [exUnit ''a'' ''commandpost'' ''red'', exUnit ''b'' ''commandpost'' ''red''] (newRoom 7) = None"
  by (rule second_command_post_diverges [of _ "''red''"]) code_simp+

section \<open>A checkpoint that cannot be read back\<close>

lemma refused_seat:
  assumes "s \<in> set ss" "\<not> seatValid r vmf (readSeat r (seatProjectionOf v s))"
  shows "restoreRoomSeats r vmf (map (\<lambda>s. JObj (seatProjectionOf v s)) ss) seats = None"
  using assms(1)
proof (induction ss arbitrary: seats)
  case (Cons t ss)
  then show ?case using assms(2) by (auto simp: Let_def)
qed simp

lemma source_kept: "st_source s \<noteq> [] \<Longrightarrow> st_source (readSeat r (seatProjectionOf v s)) = st_source s"
  "st_template (readSeat r (seatProjectionOf v s)) = st_template s"
  by (simp_all add: readSeat_def Let_def) (simp_all add: seatProjectionOf_def json_simps)

text \<open>A seat whose template is not the kind of its source unit is refused with the whole checkpoint.\<close>

lemma wrong_source_refused:
  assumes "look r i = Some s" "st_source s \<noteq> []" "su_kind (unitIn (rm_sources r') (st_source s)) \<noteq> st_template s"
  shows "restoreRoom (roomToJson r) r' = (r', False)"
proof -
  have "\<not> seatValid r' vmf (readSeat r' (seatProjectionOf v s))" for vmf v
    using assms(2,3) by (simp add: seatValid_def source_kept)
  moreover have "i \<in> fst ` set (rm_seats r)" using map_of_SomeD [OF assms(1)] by force
  then have "s \<in> set (map (seatOf r) (sort (map fst (rm_seats r))))" using look_seat [OF assms(1)] by auto
  ultimately have "restoreRoomSeats r' vmf (seatProjection r) seats = None" for vmf seats
    unfolding projected_seats by (intro refused_seat) blast+
  then show ?thesis by (simp add: restoreRoom_def Let_def room_fields(9))
qed

text \<open>When a commander leaves a room in preparation and a player of the side whose seat is bound to a unit of the
  scenario succeeds, the new commander keeps this unit as the source of its seat: the checkpoint that the
  server writes then, restored by the server itself, is refused.\<close>

theorem succession_breaks_checkpoint:
  assumes "reachable r" "rm_phase r = ''preparing''" "\<not> rm_vmf r" "rm_mode r = ''pvp''" "rr_ok (snd (promote c u r))"
    and source: "st_source (seatOf r (seatForUser r u)) \<noteq> []"
      "su_kind (unitIn (rm_sources r) (st_source (seatOf r (seatForUser r u)))) \<noteq> ''commandpost''"
  shows "restoreRoom (roomToJson (fst (promote c u r))) (fst (promote c u r)) = (fst (promote c u r), False)"
proof -
  let ?r = "fst (promote c u r)"
  let ?ci = "seatForUser r c" and ?ui = "seatForUser r u"
  obtain unit where l: "look ?r ?ci = Some (promotedSeat r (seatOf r ?ci) ?ci unit (seatOf r ?ui))"
    and src: "rm_sources ?r = rm_sources r"
  proof -
    have "\<exists>unit. look ?r ?ci = Some (promotedSeat r (seatOf r ?ci) ?ci unit (seatOf r ?ui)) \<and> rm_sources ?r = rm_sources r"
      using assms(2-5) by (auto simp: promote_def Let_def rosterPending_def allocateUnitId_def failed_def result_def succeed_def
        depart_def putSeat_def dropSeat_def dropTransfer_def update_conv' split: if_splits)
    then show ?thesis using that by blast
  qed
  show ?thesis
    by (rule wrong_source_refused [OF l]) (use assms(2) source in \<open>simp_all add: promotedSeat_def src Let_def\<close>)
qed

theorem succession_breaks_checkpoint_witness:
  "restoreRoom (roomToJson (fst (promote 1 3 exSeated))) (fst (promote 1 3 exSeated)) = (fst (promote 1 3 exSeated), False)"
  by (rule succession_breaks_checkpoint [OF seated_reachable]) code_simp+

end
