(* ===== verification/ProtocolBase.thy ===== *)
theory ProtocolBase
  imports IntelProtocol
begin

text \<open>
  The checks of JSON values that the wire protocol is built from (\<open>src/src/protocol/Protocol.cpp\<close>,
  \<open>Protocol.h\<close>). The result of a validation is the code of the failure, or none; the texts for people are
  left out. An object lists its keys once, as \<open>QJsonObject\<close> does. The library that decodes and encodes base64 is
  a parameter.
\<close>

type_synonym Verdict = "string option"

definition valid :: Verdict where
  "valid = None"

definition invalid :: Verdict where
  "invalid = Some ''INVALID_PAYLOAD''"

section \<open>Values\<close>

definition protocolIdentifier :: "json \<Rightarrow> bool" where
  "protocolIdentifier v \<longleftrightarrow> isJStr v \<and> jtoString v \<noteq> [] \<and> length (jtoString v) \<le> 64"

definition validSeatIdentifier :: "json \<Rightarrow> bool" where
  "validSeatIdentifier v \<longleftrightarrow> protocolIdentifier v
     \<and> list_all (\<lambda>c. \<not> is_space c \<and> c \<noteq> CHR 0x00 \<and> is_print c) (jtoString v)"

definition validAccountText :: "json \<Rightarrow> bool \<Rightarrow> bool" where
  "validAccountText v allowEmpty \<longleftrightarrow> isJStr v \<and> (allowEmpty \<or> trimmed (jtoString v) \<noteq> [])"

definition maxSafeInteger :: int where
  "maxSafeInteger = 9007199254740991"

definition nonNegativeInteger :: "json \<Rightarrow> bool" where
  "nonNegativeInteger v \<longleftrightarrow> isJNum v \<and> 0 \<le> jtoDouble 0 v \<and> jtoDouble 0 v \<le> of_int maxSafeInteger
     \<and> of_int \<lfloor>jtoDouble 0 v\<rfloor> = jtoDouble 0 v"

definition positiveInteger :: "json \<Rightarrow> bool" where
  "positiveInteger v \<longleftrightarrow> nonNegativeInteger v \<and> 0 < jtoInteger 0 v"

text \<open>\<open>validFiniteNumber\<close> with the bounds that are given; numbers of JSON are finite.\<close>

definition numberFrom :: "rat \<Rightarrow> json \<Rightarrow> bool" where
  "numberFrom lo v \<longleftrightarrow> isJNum v \<and> lo \<le> jtoDouble 0 v"

definition numberIn :: "rat \<Rightarrow> rat \<Rightarrow> json \<Rightarrow> bool" where
  "numberIn lo hi v \<longleftrightarrow> isJNum v \<and> lo \<le> jtoDouble 0 v \<and> jtoDouble 0 v \<le> hi"

section \<open>Fields that may be absent\<close>

definition whenGiven :: "jobject \<Rightarrow> string \<Rightarrow> (json \<Rightarrow> bool) \<Rightarrow> bool" where
  "whenGiven ob field P \<longleftrightarrow> jcontains ob field \<longrightarrow> P (jget ob field)"

definition optionalString :: "jobject \<Rightarrow> string \<Rightarrow> nat \<Rightarrow> bool" where
  "optionalString ob field maximum \<longleftrightarrow> whenGiven ob field (\<lambda>v. validString v maximum True)"

definition optionalIdentifier :: "jobject \<Rightarrow> string \<Rightarrow> bool \<Rightarrow> bool" where
  "optionalIdentifier ob field allowEmpty \<longleftrightarrow>
     whenGiven ob field (\<lambda>v. (allowEmpty \<and> isJStr v \<and> jtoString v = []) \<or> protocolIdentifier v)"

definition optionalBools :: "jobject \<Rightarrow> string list \<Rightarrow> bool" where
  "optionalBools ob names \<longleftrightarrow> list_all (\<lambda>field. whenGiven ob field isJBool) names"

definition stringAmong :: "string set \<Rightarrow> json \<Rightarrow> bool" where
  "stringAmong names v \<longleftrightarrow> isJStr v \<and> jtoString v \<in> names"

section \<open>Wire bytes of VMF messages\<close>

record Base64 =
  b64_decode :: "string \<Rightarrow> nat list"
  b64_encode :: "nat list \<Rightarrow> string"

text \<open>The bits behind the bit length in the last byte are zero.\<close>

definition paddingZero :: "nat list \<Rightarrow> int \<Rightarrow> bool" where
  "paddingZero bytes bits \<longleftrightarrow> bits mod 8 \<noteq> 0 \<longrightarrow> last bytes mod 2 ^ nat (8 - bits mod 8) = 0"

definition validVmfWire :: "Base64 \<Rightarrow> jobject \<Rightarrow> bool" where
  "validVmfWire b payload \<longleftrightarrow>
     (let v = jget payload ''wireBytes''; encoded = jtoString v; bytes = b64_decode b encoded;
          bits = jtoInteger 0 (jget payload ''wireBitLength'')
      in isJStr v \<and> encoded \<noteq> [] \<and> length encoded \<le> 131072 * 4 div 3 + 4
         \<and> nonNegativeInteger (jget payload ''wireBitLength'')
         \<and> bytes \<noteq> [] \<and> length bytes \<le> 131072 \<and> b64_encode b bytes = encoded
         \<and> 0 < bits \<and> bits \<le> int (length bytes) * 8 \<and> paddingZero bytes bits)"

section \<open>Points and lists of ids\<close>

definition protocolPoint :: "json \<Rightarrow> bool" where
  "protocolPoint v \<longleftrightarrow> isJObj v \<and> isJNum (jget (jtoObject v) ''x'') \<and> isJNum (jget (jtoObject v) ''y'')"

definition validPointArray :: "json \<Rightarrow> bool \<Rightarrow> bool" where
  "validPointArray v requiresTime \<longleftrightarrow> isJArr v
     \<and> list_all (\<lambda>p. protocolPoint p \<and> (requiresTime \<longrightarrow> isJNum (jget (jtoObject p) ''time''))) (jtoArray v)"

fun freshIds :: "json list \<Rightarrow> string set \<Rightarrow> bool" where
  "freshIds [] ids = True"
| "freshIds (v # vs) ids = (protocolIdentifier v \<and> jtoString v \<notin> ids \<and> freshIds vs (insert (jtoString v) ids))"

definition observerUnitIdList :: "json \<Rightarrow> bool" where
  "observerUnitIdList v \<longleftrightarrow> isJArr v \<and> length (jtoArray v) \<le> 8 \<and> freshIds (jtoArray v) {}"

definition changedUnitIdList :: "json \<Rightarrow> bool" where
  "changedUnitIdList v \<longleftrightarrow> isJArr v \<and> length (jtoArray v) \<le> 512 \<and> freshIds (jtoArray v) {}"

definition observerUnitIds :: "json \<Rightarrow> string list" where
  "observerUnitIds v = map jtoString (jtoArray v)"

section \<open>Complexity\<close>

text \<open>Nodes counted so far, or none once a limit is passed.\<close>

fun countNodes :: "json \<Rightarrow> nat \<Rightarrow> nat \<Rightarrow> nat option"
  and countAll :: "json list \<Rightarrow> nat \<Rightarrow> nat \<Rightarrow> nat option"
  and countFields :: "jobject \<Rightarrow> nat \<Rightarrow> nat \<Rightarrow> nat option" where
  "countNodes v depth nodes =
     (if 16 < depth \<or> 262144 < nodes + 1 then None
      else case v of JArr vs \<Rightarrow> countAll vs (depth + 1) (nodes + 1)
           | JObj ob \<Rightarrow> countFields ob (depth + 1) (nodes + 1)
           | _ \<Rightarrow> Some (nodes + 1))"
| "countAll [] depth nodes = Some nodes"
| "countAll (v # vs) depth nodes =
     (case countNodes v depth nodes of None \<Rightarrow> None | Some n \<Rightarrow> countAll vs depth n)"
| "countFields [] depth nodes = Some nodes"
| "countFields ((k, v) # ob) depth nodes =
     (case countNodes v depth nodes of None \<Rightarrow> None | Some n \<Rightarrow> countFields ob depth n)"

definition validateComplexity :: "jobject \<Rightarrow> Verdict" where
  "validateComplexity envelope =
     (case countNodes (JObj envelope) 0 0 of None \<Rightarrow> Some ''MESSAGE_TOO_COMPLEX'' | Some n \<Rightarrow> valid)"

section \<open>Envelopes\<close>

definition clientTypes :: "string set" where
  "clientTypes = {''auth'', ''command'', ''control'', ''setReady'', ''chat'', ''scenarioUpsert'', ''scenarioRemove'',
     ''scenarioReplace'', ''resyncRequest'', ''ping'', ''heartbeat'', ''roomList'', ''joinRoom'', ''leaveRoom'',
     ''claimSeat'', ''releaseSeat'', ''seatReady'', ''deployment'', ''shareIntel'', ''createIntelReport'',
     ''requestIntelHistory'', ''mapMark'', ''setUnitName'', ''requestRedeploy'', ''redeploy'',
     ''setObserverTrajectories'', ''setObserverTrails'', ''vmfMessage'', ''vmfTaskCommand'', ''demoAction'', ''demoControl''}"

definition serverTypes :: "string set" where
  "serverTypes = {''welcome'', ''snapshot'', ''delta'', ''commandResult'', ''event'', ''chat'', ''pong'', ''error'',
     ''roomDirectory'', ''seatState'', ''deploymentPrompt'', ''intelShare'', ''intelHistoryPage'', ''vmfTaskResult'',
     ''vmfTrace'', ''vmfEvent'', ''demoState'', ''demoTrace'', ''demoResult'', ''demoError''}"

text \<open>A 64-bit integer passed as an \<open>int\<close>: the low 32 bits.\<close>

definition toCInt :: "int \<Rightarrow> int" where
  "toCInt n = (n + 2 ^ 31) mod 2 ^ 32 - 2 ^ 31"

definition supportedWireVersion :: "int \<Rightarrow> int \<Rightarrow> bool" where
  "supportedWireVersion protocol schema \<longleftrightarrow> (protocol = 8 \<and> schema = 8) \<or> (protocol = 7 \<and> schema = 7)
     \<or> (protocol = 6 \<and> schema = 6) \<or> (protocol = 4 \<and> schema = 4)"

definition validateCommon :: "jobject \<Rightarrow> bool \<Rightarrow> bool \<Rightarrow> Verdict" where
  "validateCommon envelope fromServer compatible =
     (let protocol = jget envelope ''protocolVersion''; schema = jget envelope ''schemaVersion'';
          type = jget envelope ''type''
      in if \<not> nonNegativeInteger protocol \<or> (\<not> compatible \<and> jtoInteger 0 protocol \<noteq> 8) then Some ''PROTOCOL_MISMATCH''
         else if \<not> nonNegativeInteger schema \<or> (\<not> compatible \<and> jtoInteger 0 schema \<noteq> 8)
            \<or> (compatible \<and> \<not> supportedWireVersion (toCInt (jtoInteger 0 protocol)) (toCInt (jtoInteger 0 schema)))
         then Some ''SCHEMA_MISMATCH''
         else if \<not> isJStr type \<or> jtoString type = [] then Some ''INVALID_ENVELOPE''
         else if jtoString type \<notin> (if fromServer then serverTypes else clientTypes) then Some ''UNKNOWN_MESSAGE''
         else if \<not> isJObj (jget envelope ''payload'') then Some ''INVALID_ENVELOPE''
         else valid)"

section \<open>Seats\<close>

record SeatProjection =
  sp_seatId :: string
  sp_seatType :: string
  sp_side :: string
  sp_slot :: int
  sp_capacity :: int
  sp_occupied :: bool
  sp_displayName :: string
  sp_ready :: bool
  sp_connected :: bool
  sp_deployed :: bool
  sp_pending :: bool
  sp_redeploy :: bool
  sp_unitId :: string
  sp_template :: string
  sp_unitName :: string
  sp_ctype :: string
  sp_mode :: string
  sp_claimable :: bool
  sp_source :: string

definition seatShape :: "jobject \<Rightarrow> bool" where
  "seatShape ob \<longleftrightarrow> protocolIdentifier (jget ob ''seatId'') \<and> optionalString ob ''seatType'' 64 \<and> optionalString ob ''side'' 64
     \<and> whenGiven ob ''displayName'' (\<lambda>v. validAccountText v True)
     \<and> whenGiven ob ''slot'' nonNegativeInteger \<and> whenGiven ob ''capacity'' nonNegativeInteger
     \<and> optionalBools ob [''occupied'', ''ready'', ''connected'', ''deployed'', ''pendingTransfer'', ''redeployRequested'']
     \<and> whenGiven ob ''controllerType'' (stringAmong {''human'', ''ai'', ''placeholder''})
     \<and> whenGiven ob ''controlMode'' (stringAmong {''human'', ''ai'', ''vmf-auto'', ''fixed-target''})
     \<and> optionalBools ob [''claimable'']
     \<and> optionalString ob ''sourceUnitId'' 64 \<and> optionalString ob ''unitId'' 64 \<and> optionalString ob ''selectedTemplate'' 64
     \<and> optionalString ob ''unitName'' 128"

definition textOr :: "string \<Rightarrow> json \<Rightarrow> string" where
  "textOr d v = (if isJStr v then jtoString v else d)"

definition readProjection :: "jobject \<Rightarrow> SeatProjection" where
  "readProjection ob =
     (let ctype = (if jcontains ob ''controllerType'' then jtoString (jget ob ''controllerType'') else ''human'');
          occupied = jtoBool False (jget ob ''occupied'')
      in \<lparr>sp_seatId = jtoString (jget ob ''seatId''), sp_seatType = jtoString (jget ob ''seatType''),
          sp_side = jtoString (jget ob ''side''), sp_slot = jtoInt 0 (jget ob ''slot''),
          sp_capacity = jtoInt 0 (jget ob ''capacity''), sp_occupied = occupied,
          sp_displayName = jtoString (jget ob ''displayName''), sp_ready = jtoBool False (jget ob ''ready''),
          sp_connected = jtoBool False (jget ob ''connected''), sp_deployed = jtoBool False (jget ob ''deployed''),
          sp_pending = jtoBool False (jget ob ''pendingTransfer''),
          sp_redeploy = jtoBool False (jget ob ''redeployRequested''), sp_unitId = jtoString (jget ob ''unitId''),
          sp_template = jtoString (jget ob ''selectedTemplate''), sp_unitName = jtoString (jget ob ''unitName''),
          sp_ctype = ctype, sp_mode = textOr (if ctype = ''ai'' then ''ai'' else ''human'') (jget ob ''controlMode''),
          sp_claimable = (if jcontains ob ''claimable'' then jtoBool False (jget ob ''claimable'') else \<not> occupied),
          sp_source = jtoString (jget ob ''sourceUnitId'')\<rparr>)"

definition projectSeat :: "jobject \<Rightarrow> SeatProjection option" where
  "projectSeat ob = (if seatShape ob then Some (readProjection ob) else None)"

fun projectEach :: "json list \<Rightarrow> SeatProjection list option" where
  "projectEach [] = Some []"
| "projectEach (v # vs) =
     (if \<not> isJObj v then None
      else case projectSeat (jtoObject v) of
        None \<Rightarrow> None
      | Some s \<Rightarrow> (case projectEach vs of None \<Rightarrow> None | Some ss \<Rightarrow> Some (s # ss)))"

definition projectSeats :: "json \<Rightarrow> SeatProjection list option" where
  "projectSeats v = (if isJArr v then projectEach (jtoArray v) else None)"

end
