(* ===== verification/ProtocolState.thy ===== *)
theory ProtocolState
  imports ProtocolBase "HOL-Library.AList"
begin

text \<open>
  The validation of the state a server projects to a client (\<open>src/src/protocol/Protocol.cpp\<close>): seat limits
  and parameters, trajectories, missiles, units, scenarios, workflows, the room and the full snapshot, with
  the narrower shapes for observers.
\<close>

section \<open>Room configuration\<close>

definition seatBaseKeys :: "string set" where
  "seatBaseKeys = {''red_commander'', ''red_attack'', ''red_recon'', ''red_ground'', ''red_jammer'',
     ''blue_commander'', ''blue_attack'', ''blue_recon'', ''blue_ground'', ''blue_jammer''}"

definition seatParameterKey :: "string \<Rightarrow> bool" where
  "seatParameterKey key \<longleftrightarrow>
     (let parts = split_char (CHR ''_'') key in
      (length parts = 2 \<or> length parts = 3) \<and> parts ! 0 @ ''_'' @ parts ! 1 \<in> seatBaseKeys
      \<and> (length parts = 3 \<longrightarrow> (case to_int (parts ! 2) of None \<Rightarrow> False | Some n \<Rightarrow> 0 < n \<and> n \<le> 64)))"

definition validRoomSeatLimits :: "json \<Rightarrow> bool \<Rightarrow> bool" where
  "validRoomSeatLimits v requireAll \<longleftrightarrow> isJObj v \<and> length (jtoObject v) \<le> 10
     \<and> (requireAll \<longrightarrow> length (jtoObject v) = 10)
     \<and> list_all (\<lambda>(k, n). k \<in> seatBaseKeys \<and> nonNegativeInteger n \<and> jtoInteger 0 n \<le> 64
          \<and> (ends_with k ''_commander'' \<longrightarrow> jtoInteger 0 n = 1)) (jtoObject v)
     \<and> (requireAll \<longrightarrow> (\<forall>k \<in> seatBaseKeys. jcontains (jtoObject v) k))"

definition validRoomSeatParameters :: "json \<Rightarrow> bool" where
  "validRoomSeatParameters v \<longleftrightarrow> isJObj v \<and> length (jtoObject v) \<le> 64
     \<and> list_all (\<lambda>(k, p). seatParameterKey k \<and> isJObj p \<and> hasOnlyFields (jtoObject p) {''communicationRange'', ''detectRange''}
          \<and> list_all (\<lambda>(_, x). numberIn 0 1000000 x) (jtoObject p)) (jtoObject v)"

section \<open>Trajectories\<close>

definition observerPosition :: "json \<Rightarrow> bool" where
  "observerPosition v \<longleftrightarrow> isJArr v \<and> 2 \<le> length (jtoArray v) \<and> length (jtoArray v) \<le> 3 \<and> list_all isJNum (jtoArray v)"

definition timeKey :: "jobject \<Rightarrow> string" where
  "timeKey point = (if jcontains point ''time'' then ''time'' else ''simTime'')"

definition trajectoryPoint :: "json \<Rightarrow> bool" where
  "trajectoryPoint v \<longleftrightarrow> isJObj v
     \<and> (let p = jtoObject v in hasOnlyFields p {''time'', ''simTime'', ''x'', ''y'', ''alt''}
        \<and> (jcontains p ''time'' \<or> jcontains p ''simTime'') \<and> isJNum (jget p (timeKey p))
        \<and> isJNum (jget p ''x'') \<and> isJNum (jget p ''y'') \<and> whenGiven p ''alt'' isJNum)"

text \<open>Trails or updates of selected units, one for each unit.\<close>

definition pointsOf :: "jobject \<Rightarrow> json list" where
  "pointsOf t = jtoArray (jget t ''points'')"

definition unitOf :: "jobject \<Rightarrow> string" where
  "unitOf t = jtoString (jget t ''unitId'')"

fun unitPoints :: "(jobject \<Rightarrow> bool) \<Rightarrow> string list \<Rightarrow> json list \<Rightarrow> string set \<Rightarrow> bool" where
  "unitPoints shape selected [] seen = True"
| "unitPoints shape selected (v # vs) seen =
     (isJObj v \<and> shape (jtoObject v) \<and> protocolIdentifier (jget (jtoObject v) ''unitId'')
      \<and> unitOf (jtoObject v) \<in> set selected \<and> unitOf (jtoObject v) \<notin> seen
      \<and> isJArr (jget (jtoObject v) ''points'') \<and> length (pointsOf (jtoObject v)) \<le> 90
      \<and> list_all trajectoryPoint (pointsOf (jtoObject v))
      \<and> unitPoints shape selected vs (insert (unitOf (jtoObject v)) seen))"

definition trailShape :: "jobject \<Rightarrow> bool" where
  "trailShape t \<longleftrightarrow> hasOnlyFields t {''unitId'', ''points''}"

definition observerTrajectoriesValid :: "json \<Rightarrow> bool" where
  "observerTrajectoriesValid v \<longleftrightarrow> isJObj v
     \<and> (let t = jtoObject v in hasOnlyFields t {''selectedUnitIds'', ''trails''} \<and> observerUnitIdList (jget t ''selectedUnitIds'')
        \<and> isJArr (jget t ''trails'') \<and> length (jtoArray (jget t ''trails'')) \<le> 8
        \<and> unitPoints trailShape (observerUnitIds (jget t ''selectedUnitIds'')) (jtoArray (jget t ''trails'')) {})"

definition updateShape :: "jobject \<Rightarrow> bool" where
  "updateShape u \<longleftrightarrow> hasOnlyFields u {''unitId'', ''points'', ''reset'', ''trimBefore''}
     \<and> whenGiven u ''reset'' isJBool \<and> whenGiven u ''trimBefore'' (numberFrom 0)"

definition observerTrajectoryDeltaValid :: "json \<Rightarrow> bool" where
  "observerTrajectoryDeltaValid v \<longleftrightarrow> isJObj v
     \<and> (let t = jtoObject v in hasOnlyFields t {''selectedUnitIds'', ''updates''} \<and> observerUnitIdList (jget t ''selectedUnitIds'')
        \<and> isJArr (jget t ''updates'') \<and> length (jtoArray (jget t ''updates'')) \<le> 8
        \<and> unitPoints updateShape (observerUnitIds (jget t ''selectedUnitIds'')) (jtoArray (jget t ''updates'')) {})"

section \<open>Missiles\<close>

definition sideValid :: "json \<Rightarrow> bool" where
  "sideValid v \<longleftrightarrow> jtoString v = ''red'' \<or> jtoString v = ''blue''"

definition terminalReasons :: "string set" where
  "terminalReasons = {''hit'', ''miss'', ''expired'', ''out_of_bounds'', ''out_of_range'', ''target_lost'', ''countermeasured''}"

definition projectileFields :: "string set" where
  "projectileFields = {''id'', ''side'', ''position'', ''headingRad'', ''speed'', ''age'', ''lifetime'', ''active'',
     ''terminalReason'', ''terminalAge'', ''resultSettled'', ''threatRadius'', ''attackerId'', ''targetId''}"

definition projectileShape :: "bool \<Rightarrow> json \<Rightarrow> bool" where
  "projectileShape anonymous v \<longleftrightarrow> isJObj v
     \<and> (let p = jtoObject v; active = jtoBool False (jget p ''active''); settled = jtoBool False (jget p ''resultSettled'');
            reason = jtoString (jget p ''terminalReason''); attacker = jtoString (jget p ''attackerId'');
            target = jtoString (jget p ''targetId'')
        in hasOnlyFields p projectileFields \<and> protocolIdentifier (jget p ''id'') \<and> observerPosition (jget p ''position'')
           \<and> isJNum (jget p ''headingRad'') \<and> numberFrom 0 (jget p ''speed'') \<and> numberFrom 0 (jget p ''age'')
           \<and> numberFrom (1 / 1000000) (jget p ''lifetime'') \<and> isJBool (jget p ''active'') \<and> isJBool (jget p ''resultSettled'')
           \<and> optionalString p ''terminalReason'' 64 \<and> whenGiven p ''terminalAge'' (numberFrom 0)
           \<and> whenGiven p ''threatRadius'' (numberFrom 0)
           \<and> optionalIdentifier p ''attackerId'' False \<and> optionalIdentifier p ''targetId'' False
           \<and> sideValid (jget p ''side'')
           \<and> (anonymous \<longrightarrow> \<not> jcontains p ''attackerId'' \<and> \<not> jcontains p ''targetId'')
           \<and> (if active then reason = [] \<and> \<not> settled else reason \<in> terminalReasons \<and> settled)
           \<and> (attacker = [] \<or> target = [] \<or> attacker \<noteq> target))"

fun projectileList :: "bool \<Rightarrow> json list \<Rightarrow> string set \<Rightarrow> nat \<Rightarrow> bool" where
  "projectileList anonymous [] ids active = True"
| "projectileList anonymous (v # vs) ids active =
     (let i = jtoString (jget (jtoObject v) ''id''); live = jtoBool False (jget (jtoObject v) ''active'');
          active' = (if live then active + 1 else active)
      in projectileShape anonymous v \<and> i \<notin> ids \<and> (live \<longrightarrow> active' \<le> 512)
         \<and> projectileList anonymous vs (insert i ids) active')"

definition projectileArray :: "json \<Rightarrow> bool \<Rightarrow> bool" where
  "projectileArray v anonymous \<longleftrightarrow> isJArr v \<and> length (jtoArray v) \<le> 1024 \<and> projectileList anonymous (jtoArray v) {} 0"

text \<open>The sides of the units of a list, added to those known; none if they contradict.\<close>

fun collectSides :: "json list \<Rightarrow> (string \<times> string) list \<Rightarrow> (string \<times> string) list option" where
  "collectSides [] sides = Some sides"
| "collectSides (v # vs) sides =
     (let unit = jtoObject v; i = jtoString (jget unit ''id''); side = jtoString (jget unit ''side'') in
      if \<not> isJObj v then None
      else if i = [] then collectSides vs sides
      else if \<not> protocolIdentifier (jget unit ''id'') \<or> \<not> sideValid (jget unit ''side'')
              \<or> (map_of sides i \<noteq> None \<and> map_of sides i \<noteq> Some side)
           then None
      else collectSides vs (AList.update i side sides))"

definition collectFrom :: "json \<Rightarrow> (string \<times> string) list \<Rightarrow> (string \<times> string) list option" where
  "collectFrom v sides = (if isJArr v then collectSides (jtoArray v) sides else None)"

definition unitSides :: "jobject \<Rightarrow> (string \<times> string) list option" where
  "unitSides payload =
     (case collectFrom (jget (jtoObject (jget payload ''scenario'')) ''units'') [] of
        None \<Rightarrow> None
      | Some sides \<Rightarrow> collectFrom (jget payload ''units'') sides)"

definition projectileFits :: "rat \<Rightarrow> rat \<Rightarrow> (string \<times> string) list \<Rightarrow> json \<Rightarrow> bool" where
  "projectileFits width height sides v \<longleftrightarrow>
     (let p = jtoObject v; pos = jtoArray (jget p ''position''); x = jtoDouble 0 (pos ! 0); y = jtoDouble 0 (pos ! 1);
          side = jtoString (jget p ''side''); attacker = jtoString (jget p ''attackerId''); target = jtoString (jget p ''targetId'')
      in 0 \<le> x \<and> x \<le> width \<and> 0 \<le> y \<and> y \<le> height
         \<and> (attacker \<noteq> [] \<longrightarrow> map_of sides attacker = Some side)
         \<and> (target \<noteq> [] \<longrightarrow> map_of sides target \<noteq> None \<and> map_of sides target \<noteq> Some side))"

definition projectedProjectiles :: "jobject \<Rightarrow> bool \<Rightarrow> bool" where
  "projectedProjectiles payload anonymous \<longleftrightarrow>
     (let projectiles = jget payload ''projectiles''; map' = jtoObject (jget (jtoObject (jget payload ''scenario'')) ''map'');
          width = jtoDouble (-1) (jget map' ''widthMeters''); height = jtoDouble (-1) (jget map' ''heightMeters'')
      in projectileArray projectiles anonymous
         \<and> (jtoArray projectiles \<noteq> [] \<longrightarrow> 0 < width \<and> 0 < height
            \<and> (case unitSides payload of None \<Rightarrow> False
               | Some sides \<Rightarrow> list_all (projectileFits width height sides) (jtoArray projectiles))))"

section \<open>Units\<close>

definition observerSubsystems :: "json \<Rightarrow> bool" where
  "observerSubsystems v \<longleftrightarrow> isJObj v \<and> length (jtoObject v) = 4
     \<and> hasOnlyFields (jtoObject v) {''sensor'', ''comms'', ''mobility'', ''weapon''}
     \<and> list_all (\<lambda>f. numberIn 0 1 (jget (jtoObject v) f)) [''sensor'', ''comms'', ''mobility'', ''weapon'']"

definition capabilityNames :: "string set" where
  "capabilityNames = {''assignTarget'', ''setFlightPlan'', ''unitOrder'', ''attackAt'', ''engageTarget'', ''moveTo'',
     ''withdraw'', ''setSpeed'', ''pursue'', ''guideAttack'', ''setSchedule'', ''halt'', ''service'', ''cancelEngagement'',
     ''setRoe'', ''activateCountermeasure'', ''activateScan'', ''attemptFieldRepair'', ''cancelService''}"

definition actionCapabilities :: "json \<Rightarrow> bool" where
  "actionCapabilities v \<longleftrightarrow> isJObj v \<and> length (jtoObject v) \<le> 32
     \<and> list_all (\<lambda>(k, c). k \<in> capabilityNames
          \<and> (isJBool c \<or> (isJObj c \<and> hasOnlyFields (jtoObject c) {''visible'', ''enabled'', ''reason''}
               \<and> isJBool (jget (jtoObject c) ''visible'') \<and> isJBool (jget (jtoObject c) ''enabled'')
               \<and> whenGiven (jtoObject c) ''reason'' (\<lambda>r. validString r 256 True)))) (jtoObject v)"

definition runtimeActionFields :: "json \<Rightarrow> bool" where
  "runtimeActionFields v \<longleftrightarrow> isJArr v
     \<and> list_all (\<lambda>u. isJObj u
          \<and> \<not> (jcontains (jtoObject u) ''actions'' \<and> jcontains (jtoObject u) ''actionCapabilities'')
          \<and> whenGiven (jtoObject u) ''actions'' actionCapabilities
          \<and> whenGiven (jtoObject u) ''actionCapabilities'' actionCapabilities) (jtoArray v)"

definition runtimeUnitFields :: "string set" where
  "runtimeUnitFields = {''id'', ''callsign'', ''kind'', ''side'', ''movable'', ''position'', ''detectRange'', ''attackRange'',
     ''commRange'', ''speed'', ''baseSpeed'', ''maxCommandedSpeed'', ''maxHp'', ''attackPower'', ''armor'', ''hp'', ''alive'',
     ''subsystems'', ''serviceRequested'', ''serviceProgress'', ''ammoRemaining'', ''ammoCapacity'', ''cooldownRemaining'',
     ''cooldownSec'', ''activeProjectileCount'', ''fuelRemaining'', ''fuelCapacity'', ''turnaroundProgress''}"

definition observerRuntimeUnit :: "json \<Rightarrow> bool" where
  "observerRuntimeUnit v \<longleftrightarrow> isJObj v
     \<and> (let u = jtoObject v in hasOnlyFields u runtimeUnitFields
        \<and> protocolIdentifier (jget u ''id'') \<and> protocolIdentifier (jget u ''kind'') \<and> validString (jget u ''callsign'') 128 True
        \<and> sideValid (jget u ''side'') \<and> isJBool (jget u ''movable'') \<and> observerPosition (jget u ''position'')
        \<and> isJBool (jget u ''alive'') \<and> isJBool (jget u ''serviceRequested'') \<and> observerSubsystems (jget u ''subsystems'')
        \<and> list_all (\<lambda>f. numberFrom 0 (jget u f)) [''detectRange'', ''attackRange'', ''commRange'', ''speed'', ''baseSpeed'',
             ''maxCommandedSpeed'', ''maxHp'', ''hp'', ''attackPower'']
        \<and> list_all (\<lambda>f. whenGiven u f (numberFrom 0)) [''cooldownRemaining'', ''cooldownSec'', ''fuelRemaining'', ''fuelCapacity'']
        \<and> numberIn 0 1 (jget u ''armor'') \<and> numberIn 0 1 (jget u ''serviceProgress'')
        \<and> whenGiven u ''turnaroundProgress'' (numberIn 0 1)
        \<and> list_all (\<lambda>f. whenGiven u f nonNegativeInteger) [''ammoRemaining'', ''ammoCapacity'', ''activeProjectileCount'']
        \<and> jtoDouble 0 (jget u ''hp'') \<le> jtoDouble 0 (jget u ''maxHp'')
        \<and> jtoInteger 0 (jget u ''ammoRemaining'') \<le> jtoInteger 0 (jget u ''ammoCapacity'')
        \<and> jtoDouble 0 (jget u ''fuelRemaining'') \<le> jtoDouble 0 (jget u ''fuelCapacity''))"

section \<open>Scenarios\<close>

definition scenarioUnitFields :: "string set" where
  "scenarioUnitFields = {''id'', ''vmfUrn'', ''callsign'', ''kind'', ''side'', ''x'', ''y'', ''alt'', ''detectRange'',
     ''attackRange'', ''commRange'', ''speed'', ''maxHp'', ''attackPower'', ''armor'', ''ammoCapacity'', ''initialAmmo'',
     ''cooldownSec'', ''fuelCapacitySec'', ''initialFuelSec''}"

definition observerScenarioUnit :: "json \<Rightarrow> bool" where
  "observerScenarioUnit v \<longleftrightarrow> isJObj v
     \<and> (let u = jtoObject v in hasOnlyFields u scenarioUnitFields
        \<and> protocolIdentifier (jget u ''id'') \<and> protocolIdentifier (jget u ''kind'')
        \<and> whenGiven u ''vmfUrn'' protocolIdentifier \<and> validString (jget u ''callsign'') 128 True \<and> sideValid (jget u ''side'')
        \<and> list_all (\<lambda>f. isJNum (jget u f)) [''x'', ''y'', ''alt'']
        \<and> list_all (\<lambda>f. numberFrom 0 (jget u f)) [''detectRange'', ''attackRange'', ''commRange'', ''speed'', ''maxHp'',
             ''attackPower'', ''cooldownSec'', ''fuelCapacitySec'', ''initialFuelSec'']
        \<and> numberIn 0 1 (jget u ''armor'') \<and> nonNegativeInteger (jget u ''ammoCapacity'') \<and> nonNegativeInteger (jget u ''initialAmmo'')
        \<and> jtoInteger 0 (jget u ''initialAmmo'') \<le> jtoInteger 0 (jget u ''ammoCapacity'')
        \<and> jtoDouble 0 (jget u ''initialFuelSec'') \<le> jtoDouble 0 (jget u ''fuelCapacitySec''))"

definition communicationPolicyValid :: "json \<Rightarrow> bool" where
  "communicationPolicyValid v \<longleftrightarrow>
     (let p = jtoObject v in hasOnlyFields p {''format'', ''vmfProfile'', ''ackTimeoutSec'', ''maxRetries'', ''automaticAck''}
      \<and> (jtoString (jget p ''format'') = ''native'' \<or> jtoString (jget p ''format'') = ''vmf-design-v1'')
      \<and> validString (jget p ''vmfProfile'') 64 True \<and> numberFrom (1 / 1000000) (jget p ''ackTimeoutSec'')
      \<and> nonNegativeInteger (jget p ''maxRetries'') \<and> isJBool (jget p ''automaticAck''))"

definition observerScenario :: "json \<Rightarrow> bool" where
  "observerScenario v \<longleftrightarrow> isJObj v
     \<and> (let s = jtoObject v; m = jtoObject (jget s ''map'')
        in hasOnlyFields s {''schemaVersion'', ''map'', ''units'', ''communicationPolicy''}
           \<and> nonNegativeInteger (jget s ''schemaVersion'') \<and> isJObj (jget s ''map'') \<and> isJArr (jget s ''units'')
           \<and> list_all observerScenarioUnit (jtoArray (jget s ''units''))
           \<and> length m = 4 \<and> hasOnlyFields m {''name'', ''widthMeters'', ''heightMeters'', ''backgroundResource''}
           \<and> validString (jget m ''name'') 96 True \<and> validString (jget m ''backgroundResource'') 512 True
           \<and> numberFrom 0 (jget m ''widthMeters'') \<and> numberFrom 0 (jget m ''heightMeters'')
           \<and> whenGiven s ''communicationPolicy'' communicationPolicyValid)"

section \<open>Workflows and the demonstration\<close>

definition workflowStages :: "string set" where
  "workflowStages = {''idle'', ''targetReported'', ''dispatchPending'', ''strikeDispatched'', ''groundGuidancePending'', ''engaging'',
     ''targetDestroyed'', ''withdrawPending'', ''withdrawn'', ''failed''}"

definition vmfWorkflowValid :: "json \<Rightarrow> bool" where
  "vmfWorkflowValid v \<longleftrightarrow> isJObj v
     \<and> (let w = jtoObject v
        in hasOnlyFields w {''taskId'', ''stage'', ''side'', ''reconId'', ''targetId'', ''attackerId'', ''guideId'', ''correlationId'',
             ''createdAt'', ''updatedAt''}
           \<and> list_all (\<lambda>f. optionalString w f 64) [''taskId'', ''stage'', ''side'', ''reconId'', ''targetId'', ''attackerId'',
                ''guideId'', ''correlationId'']
           \<and> jtoString (jget w ''stage'') \<in> workflowStages \<and> sideValid (jget w ''side'')
           \<and> whenGiven w ''createdAt'' (numberFrom 0) \<and> whenGiven w ''updatedAt'' (numberFrom 0)
           \<and> (jcontains w ''createdAt'' \<and> jcontains w ''updatedAt'' \<longrightarrow>
                jtoDouble 0 (jget w ''createdAt'') \<le> jtoDouble 0 (jget w ''updatedAt''))
           \<and> jtoString (jget w ''taskId'') \<noteq> [])"

definition vmfWorkflowMap :: "json \<Rightarrow> bool" where
  "vmfWorkflowMap v \<longleftrightarrow> isJObj v \<and> hasOnlyFields (jtoObject v) {''red'', ''blue''}
     \<and> vmfWorkflowValid (jget (jtoObject v) ''red'') \<and> vmfWorkflowValid (jget (jtoObject v) ''blue'')"

definition vmfAutomationValid :: "json \<Rightarrow> bool" where
  "vmfAutomationValid v \<longleftrightarrow> isJObj v \<and> hasOnlyFields (jtoObject v) {''enabled'', ''humanStagesRemainManual'', ''timeoutTakeover''}
     \<and> optionalBools (jtoObject v) [''enabled'', ''humanStagesRemainManual'', ''timeoutTakeover'']"

definition demoPhases :: "string set" where
  "demoPhases = {''target-report'', ''route-planning'', ''guidance-command'', ''ground-guidance'', ''destruction-confirmation'', ''return''}"

definition demoActions :: "string set" where
  "demoActions = {''reportTarget'', ''planRoute'', ''acceptRoute'', ''issueGuidance'', ''acknowledgeGuidance'', ''identityHello'',
     ''identityConfirm'', ''sendGuidancePackage'', ''acceptGuidance'', ''reportAttackReady'', ''authorizeAttack'', ''simulateAttack'',
     ''reportBattleDamage'', ''confirmDamageAssessment'', ''confirmTargetDestroyed'', ''withdraw'', ''confirmReturned''}"

definition shortArray :: "nat \<Rightarrow> json \<Rightarrow> bool" where
  "shortArray n v \<longleftrightarrow> isJArr v \<and> length (jtoArray v) \<le> n"

definition demoArchive :: "json \<Rightarrow> bool" where
  "demoArchive v \<longleftrightarrow> isJObj v
     \<and> whenGiven (jtoObject v) ''reportCount'' (\<lambda>n. nonNegativeInteger n \<and> jtoInteger 0 n \<le> 128)
     \<and> whenGiven (jtoObject v) ''reports'' (shortArray 128)"

definition demoStateValid :: "json \<Rightarrow> bool" where
  "demoStateValid v \<longleftrightarrow> isJObj v
     \<and> (let s = jtoObject v; expected = jtoString (jget s ''expectedAction'')
        in jtoInt 0 (jget s ''schemaVersion'') = 2 \<and> jtoString (jget s ''profile'') = ''vmf-demo-v2''
           \<and> positiveInteger (jget s ''generation'') \<and> positiveInteger (jget s ''revision'')
           \<and> jtoString (jget s ''phase'') \<in> demoPhases
           \<and> jtoString (jget s ''status'') \<in> {''active'', ''paused'', ''completed'', ''cancelled''}
           \<and> optionalString s ''substep'' 64 \<and> optionalString s ''activeSeat'' 64 \<and> optionalString s ''expectedAction'' 64
           \<and> isJArr (jget s ''phases'') \<and> length (jtoArray (jget s ''phases'')) = 6
           \<and> isJObj (jget s ''targetState'') \<and> isJObj (jget s ''task'')
           \<and> shortArray 128 (jget s ''reports'') \<and> shortArray 20 (jget s ''archive'')
           \<and> nonNegativeInteger (jget s ''cancelUntilMs'') \<and> nonNegativeInteger (jget s ''cancelledGeneration'')
           \<and> \<not> (expected = [] \<and> jtoString (jget s ''status'') = ''active'')
           \<and> list_all demoArchive (jtoArray (jget s ''archive''))
           \<and> (expected \<noteq> [] \<longrightarrow> expected \<in> demoActions)
           \<and> whenGiven s ''traces'' (shortArray 200))"

end
