(* ===== verification/ProtocolSnapshot.thy ===== *)
theory ProtocolSnapshot
  imports ProtocolState
begin

text \<open>
  The state of a room and the full snapshot as the server projects them to a client
  (\<open>src/src/protocol/Protocol.cpp\<close>): the life cycle of the room, the narrower shapes an observer may
  receive, and the snapshot that both must satisfy.
\<close>

section \<open>Shapes for observers\<close>

definition profileNames :: "string set" where
  "profileNames = {''native'', ''vmf-guided-strike-v1'', ''vmf-demo-v2''}"

definition operationModes :: "string set" where
  "operationModes = {''standard'', ''vmf-single-side''}"

definition observerRoomFields :: "string set" where
  "observerRoomFields = {''phase'', ''roomId'', ''roomName'', ''roomStatus'', ''roomMode'', ''aiDifficulty'', ''aiEngine'',
     ''configVersion'', ''running'', ''simTime'', ''speed'', ''scenarioRevision'', ''stateRevision'', ''observer'',
     ''vmfWorkflows'', ''protocolProfile'', ''operationMode'', ''participantSide'', ''fixedTargetSide'',
     ''scenarioEditable'', ''vmfAutomation'', ''vmfTasks'', ''demoState''}"

definition observerRoomState :: "jobject \<Rightarrow> bool" where
  "observerRoomState room \<longleftrightarrow> hasOnlyFields room observerRoomFields
     \<and> isJBool (jget room ''observer'') \<and> jtoBool False (jget room ''observer'')
     \<and> whenGiven room ''vmfWorkflows'' isJObj
     \<and> whenGiven room ''protocolProfile'' (stringAmong profileNames)
     \<and> whenGiven room ''operationMode'' (stringAmong operationModes)
     \<and> whenGiven room ''participantSide'' (stringAmong {'''', ''red''})
     \<and> whenGiven room ''fixedTargetSide'' (stringAmong {'''', ''blue''})
     \<and> whenGiven room ''scenarioEditable'' isJBool
     \<and> whenGiven room ''vmfAutomation'' vmfAutomationValid
     \<and> whenGiven room ''vmfTasks'' isJObj
     \<and> whenGiven room ''demoState'' demoStateValid"

definition observerUnits :: "json \<Rightarrow> bool" where
  "observerUnits v \<longleftrightarrow> isJArr v \<and> list_all observerRuntimeUnit (jtoArray v)"

definition emptyArray :: "json \<Rightarrow> bool" where
  "emptyArray v \<longleftrightarrow> isJArr v \<and> jtoArray v = []"

definition observerSnapshotFields :: "string set" where
  "observerSnapshotFields = {''schemaVersion'', ''stateRevision'', ''scenario'', ''units'', ''projectiles'', ''roomState'',
     ''observerTrajectories'', ''intelState'', ''mapMarks''}"

definition observerSnapshot :: "jobject \<Rightarrow> jobject \<Rightarrow> bool" where
  "observerSnapshot payload room \<longleftrightarrow> hasOnlyFields payload observerSnapshotFields \<and> observerRoomState room
     \<and> observerScenario (jget payload ''scenario'') \<and> observerUnits (jget payload ''units'')
     \<and> projectedProjectiles payload True
     \<and> whenGiven payload ''observerTrajectories'' observerTrajectoriesValid
     \<and> whenGiven payload ''mapMarks'' emptyArray"

definition observerDeltaFields :: "string set" where
  "observerDeltaFields = {''schemaVersion'', ''baseStateRevision'', ''stateRevision'', ''scenarioRevision'', ''units'',
     ''changedUnitIds'', ''projectiles'', ''roomState'', ''observerTrajectoryDelta'', ''mapMarks''}"

definition observerDelta :: "jobject \<Rightarrow> jobject \<Rightarrow> bool" where
  "observerDelta payload room \<longleftrightarrow> hasOnlyFields payload observerDeltaFields \<and> observerRoomState room
     \<and> observerUnits (jget payload ''units'')
     \<and> whenGiven payload ''changedUnitIds'' changedUnitIdList
     \<and> whenGiven payload ''observerTrajectoryDelta'' observerTrajectoryDeltaValid
     \<and> whenGiven payload ''projectiles'' (\<lambda>v. projectileArray v True)
     \<and> whenGiven payload ''mapMarks'' emptyArray"

section \<open>The life cycle of a room\<close>

record RoomLifecycle =
  rl_phase :: string
  rl_roomId :: string
  rl_roomName :: string
  rl_description :: string
  rl_scenarioId :: string
  rl_status :: string
  rl_mode :: string
  rl_difficulty :: string
  rl_engine :: string
  rl_configVersion :: int
  rl_observer :: bool
  rl_redReady :: bool
  rl_blueReady :: bool
  rl_running :: bool
  rl_readyForSim :: bool
  rl_cpIssues :: string
  rl_simTime :: rat
  rl_speed :: rat
  rl_scenarioRevision :: int
  rl_stateRevision :: int
  rl_seats :: "SeatProjection list"
  rl_seatLimits :: jobject
  rl_seatParameters :: jobject
  rl_workflow :: jobject
  rl_workflows :: jobject
  rl_profile :: string
  rl_operationMode :: string
  rl_participantSide :: string
  rl_fixedTargetSide :: string
  rl_scenarioEditable :: bool
  rl_automation :: jobject
  rl_tasks :: jobject
  rl_demoState :: jobject

text \<open>The fields before the phase, in the order of the code.\<close>

definition roomFieldsValid :: "jobject \<Rightarrow> bool" where
  "roomFieldsValid room \<longleftrightarrow>
     list_all (\<lambda>f. optionalString room f 512) [''phase'', ''roomName'', ''roomStatus'', ''cpIssues'']
     \<and> optionalIdentifier room ''roomId'' False \<and> optionalIdentifier room ''phase'' False
     \<and> optionalIdentifier room ''roomStatus'' False
     \<and> whenGiven room ''roomMode'' (stringAmong {''pvp'', ''pve''})
     \<and> whenGiven room ''aiDifficulty'' (stringAmong {''easy'', ''normal'', ''hard''})
     \<and> whenGiven room ''aiEngine'' (stringAmong {''rules'', ''ollama''})
     \<and> whenGiven room ''configVersion'' nonNegativeInteger
     \<and> whenGiven room ''roomDescription'' (\<lambda>v. validString v 512 True)
     \<and> whenGiven room ''scenarioId'' (\<lambda>v. validString v 128 False)
     \<and> whenGiven room ''seatLimits'' (\<lambda>v. validRoomSeatLimits v False)
     \<and> whenGiven room ''seatParameters'' validRoomSeatParameters
     \<and> whenGiven room ''vmfWorkflow'' vmfWorkflowValid
     \<and> whenGiven room ''vmfWorkflows'' vmfWorkflowMap
     \<and> whenGiven room ''protocolProfile'' (\<lambda>v. validString v 64 False \<and> jtoString v \<in> profileNames)
     \<and> whenGiven room ''operationMode'' (stringAmong operationModes)
     \<and> whenGiven room ''participantSide'' (stringAmong {'''', ''red''})
     \<and> whenGiven room ''fixedTargetSide'' (stringAmong {'''', ''blue''})
     \<and> whenGiven room ''scenarioEditable'' isJBool
     \<and> whenGiven room ''vmfAutomation'' vmfAutomationValid
     \<and> whenGiven room ''vmfTasks'' isJObj
     \<and> whenGiven room ''demoState'' demoStateValid"

definition lifecycleValid :: "jobject \<Rightarrow> bool" where
  "lifecycleValid room \<longleftrightarrow> roomFieldsValid room
     \<and> textOr ''preparing'' (jget room ''phase'') \<in> {''preparing'', ''running'', ''paused'', ''finished''}
     \<and> optionalBools room [''redReady'', ''blueReady'', ''running'', ''readyForSim'']
     \<and> optionalBools room [''observer'']
     \<and> whenGiven room ''scenarioRevision'' nonNegativeInteger \<and> whenGiven room ''stateRevision'' nonNegativeInteger
     \<and> whenGiven room ''simTime'' isJNum \<and> whenGiven room ''speed'' isJNum"

definition seatsGiven :: "jobject \<Rightarrow> SeatProjection list option" where
  "seatsGiven room = (if jcontains room ''seats'' then projectSeats (jget room ''seats'') else Some [])"

definition textIfGiven :: "string \<Rightarrow> jobject \<Rightarrow> string \<Rightarrow> string" where
  "textIfGiven d ob field = (if jcontains ob field then jtoString (jget ob field) else d)"

definition readLifecycle :: "jobject \<Rightarrow> SeatProjection list \<Rightarrow> RoomLifecycle" where
  "readLifecycle room seats =
     \<lparr>rl_phase = textOr ''preparing'' (jget room ''phase''), rl_roomId = jtoString (jget room ''roomId''),
      rl_roomName = jtoString (jget room ''roomName''), rl_description = jtoString (jget room ''roomDescription''),
      rl_scenarioId = textOr ''default'' (jget room ''scenarioId''), rl_status = jtoString (jget room ''roomStatus''),
      rl_mode = textIfGiven ''pvp'' room ''roomMode'', rl_difficulty = textIfGiven ''normal'' room ''aiDifficulty'',
      rl_engine = textIfGiven ''rules'' room ''aiEngine'', rl_configVersion = jtoInteger 1 (jget room ''configVersion''),
      rl_observer = jtoBool False (jget room ''observer''), rl_redReady = jtoBool False (jget room ''redReady''),
      rl_blueReady = jtoBool False (jget room ''blueReady''), rl_running = jtoBool False (jget room ''running''),
      rl_readyForSim = jtoBool False (jget room ''readyForSim''), rl_cpIssues = jtoString (jget room ''cpIssues''),
      rl_simTime = jtoDouble 0 (jget room ''simTime''), rl_speed = jtoDouble 1 (jget room ''speed''),
      rl_scenarioRevision = jtoInteger 0 (jget room ''scenarioRevision''),
      rl_stateRevision = jtoInteger 0 (jget room ''stateRevision''), rl_seats = seats,
      rl_seatLimits = jtoObject (jget room ''seatLimits''), rl_seatParameters = jtoObject (jget room ''seatParameters''),
      rl_workflow = jtoObject (jget room ''vmfWorkflow''), rl_workflows = jtoObject (jget room ''vmfWorkflows''),
      rl_profile = textOr ''native'' (jget room ''protocolProfile''),
      rl_operationMode = textOr ''standard'' (jget room ''operationMode''),
      rl_participantSide = jtoString (jget room ''participantSide''),
      rl_fixedTargetSide = jtoString (jget room ''fixedTargetSide''),
      rl_scenarioEditable = jtoBool False (jget room ''scenarioEditable''),
      rl_automation = jtoObject (jget room ''vmfAutomation''), rl_tasks = jtoObject (jget room ''vmfTasks''),
      rl_demoState = jtoObject (jget room ''demoState'')\<rparr>"

definition projectRoomLifecycle :: "jobject \<Rightarrow> RoomLifecycle option" where
  "projectRoomLifecycle room =
     (if \<not> lifecycleValid room then None
      else case seatsGiven room of None \<Rightarrow> None | Some seats \<Rightarrow> Some (readLifecycle room seats))"

section \<open>The full snapshot\<close>

definition projectSnapshot :: "jobject \<Rightarrow> RoomLifecycle option" where
  "projectSnapshot payload =
     (let room = jtoObject (jget payload ''roomState'') in
      if \<not> isJObj (jget payload ''roomState'') then None
      else if jcontains room ''stateRevision'' \<and> jcontains payload ''stateRevision''
              \<and> jget room ''stateRevision'' \<noteq> jget payload ''stateRevision''
           then None
      else projectRoomLifecycle room)"

definition snapshotShape :: "jobject \<Rightarrow> int \<Rightarrow> bool" where
  "snapshotShape payload schema \<longleftrightarrow> supportedWireVersion schema schema
     \<and> nonNegativeInteger (jget payload ''schemaVersion'') \<and> jtoInteger 0 (jget payload ''schemaVersion'') = schema
     \<and> nonNegativeInteger (jget payload ''stateRevision'') \<and> 0 < jtoInteger 0 (jget payload ''stateRevision'')
     \<and> isJObj (jget payload ''scenario'') \<and> isJArr (jget payload ''units'')
     \<and> runtimeActionFields (jget payload ''units'') \<and> isJArr (jget payload ''projectiles'')
     \<and> isJObj (jget payload ''roomState'')
     \<and> whenGiven payload ''messages'' isJArr \<and> whenGiven payload ''mapMarks'' isJArr"

definition isObserver :: "jobject \<Rightarrow> bool" where
  "isObserver payload \<longleftrightarrow> jtoBool False (jget (jtoObject (jget payload ''roomState'')) ''observer'')"

definition validateSnapshotState :: "TimeLib \<Rightarrow> jobject \<Rightarrow> int \<Rightarrow> Verdict" where
  "validateSnapshotState lib payload schema =
     (if \<not> snapshotShape payload schema then invalid
      else if projectSnapshot payload = None then invalid
      else if jcontains payload ''intelState''
              \<and> (schema < 5 \<or> isObserver payload \<or> \<not> validateIntelState lib (jtoObject (jget payload ''intelState'')))
           then invalid
      else if \<not> projectedProjectiles payload (isObserver payload) then invalid
      else if isObserver payload \<and> \<not> observerSnapshot payload (jtoObject (jget payload ''roomState'')) then invalid
      else valid)"

end
