(* ===== verification/ProtocolMessages.thy ===== *)
theory ProtocolMessages
  imports ProtocolSnapshot
begin

text \<open>
  The messages of the wire protocol (\<open>src/src/protocol/Protocol.cpp\<close>): the payload of every type in both
  directions, the projections of the smaller server messages, and the envelopes. One definition for each
  payload that has more than a field or two; the two functions that choose among them follow the order of
  the code. A verdict is the code of the failure, or none.
\<close>

definition verdict :: "bool \<Rightarrow> Verdict" where
  "verdict b = (if b then valid else invalid)"

section \<open>Server messages with a projection\<close>

record SeatDirectory =
  sd_roomId :: string
  sd_yourSeatId :: string
  sd_seats :: "SeatProjection list"

definition projectSeatDirectory :: "jobject \<Rightarrow> SeatDirectory option" where
  "projectSeatDirectory p =
     (if \<not> protocolIdentifier (jget p ''roomId'') \<or> \<not> optionalIdentifier p ''yourSeatId'' True then None
      else case projectSeats (jget p ''seats'') of
        None \<Rightarrow> None
      | Some seats \<Rightarrow> Some \<lparr>sd_roomId = jtoString (jget p ''roomId''),
          sd_yourSeatId = jtoString (jget p ''yourSeatId''), sd_seats = seats\<rparr>)"

record DeploymentPrompt =
  dp_unitId :: string
  dp_seatId :: string
  dp_target :: string
  dp_message :: string

definition projectDeploymentPrompt :: "jobject \<Rightarrow> DeploymentPrompt option" where
  "projectDeploymentPrompt p =
     (if \<not> protocolIdentifier (jget p ''unitId'') \<or> \<not> validString (jget p ''message'') 512 False
         \<or> \<not> optionalIdentifier p ''seatId'' False \<or> \<not> optionalIdentifier p ''targetSeatId'' False
      then None
      else Some \<lparr>dp_unitId = jtoString (jget p ''unitId''), dp_seatId = jtoString (jget p ''seatId''),
        dp_target = jtoString (jget p ''targetSeatId''), dp_message = jtoString (jget p ''message'')\<rparr>)"

record IntelShare =
  is_sender :: string
  is_intelId :: string
  is_target :: string
  is_sharedAt :: string
  is_note :: string

definition projectIntelShare :: "jobject \<Rightarrow> IntelShare option" where
  "projectIntelShare p =
     (if \<not> protocolIdentifier (jget p ''intelId'') \<or> \<not> protocolIdentifier (jget p ''senderSeatId'')
         \<or> \<not> optionalIdentifier p ''targetId'' True \<or> \<not> optionalString p ''sharedAt'' 64 \<or> \<not> optionalString p ''note'' 1024
      then None
      else Some \<lparr>is_sender = jtoString (jget p ''senderSeatId''), is_intelId = jtoString (jget p ''intelId''),
        is_target = jtoString (jget p ''targetId''), is_sharedAt = jtoString (jget p ''sharedAt''),
        is_note = jtoString (jget p ''note'')\<rparr>)"

record CommandResultProjection =
  cr_commandId :: string
  cr_accepted :: bool
  cr_code :: string
  cr_message :: string
  cr_serverTime :: rat

definition projectCommandResult :: "jobject \<Rightarrow> CommandResultProjection option" where
  "projectCommandResult p =
     (if \<not> protocolIdentifier (jget p ''commandId'') \<or> \<not> isJBool (jget p ''accepted'')
         \<or> \<not> validString (jget p ''code'') 64 False \<or> \<not> validString (jget p ''message'') 1024 True
         \<or> \<not> whenGiven p ''serverTime'' (numberFrom 0)
      then None
      else Some \<lparr>cr_commandId = jtoString (jget p ''commandId''), cr_accepted = jtoBool False (jget p ''accepted''),
        cr_code = jtoString (jget p ''code''), cr_message = jtoString (jget p ''message''),
        cr_serverTime = jtoDouble 0 (jget p ''serverTime'')\<rparr>)"

record VmfTaskResult =
  vr_status :: string
  vr_revision :: int
  vr_messageIds :: "string list"
  vr_code :: string
  vr_retryable :: bool

definition projectVmfTaskResult :: "jobject \<Rightarrow> VmfTaskResult option" where
  "projectVmfTaskResult p =
     (let ids = jtoArray (jget p ''messageIds'') in
      if jtoString (jget p ''status'') \<notin> {''accepted'', ''blocked'', ''rejected''}
         \<or> \<not> nonNegativeInteger (jget p ''taskRevision'') \<or> \<not> isJArr (jget p ''messageIds'') \<or> 16 < length ids
         \<or> \<not> validString (jget p ''code'') 64 False \<or> \<not> whenGiven p ''retryable'' isJBool
         \<or> \<not> list_all protocolIdentifier ids
      then None
      else Some \<lparr>vr_status = jtoString (jget p ''status''), vr_revision = jtoInteger 0 (jget p ''taskRevision''),
        vr_messageIds = map jtoString ids, vr_code = jtoString (jget p ''code''),
        vr_retryable = jtoBool False (jget p ''retryable'')\<rparr>)"

record TransferEvent =
  te_kind :: string
  te_revision :: int
  te_requestRevision :: int
  te_userId :: int
  te_source :: string
  te_target :: string
  te_template :: string
  te_reason :: string

definition projectTransferEvent :: "jobject \<Rightarrow> TransferEvent option" where
  "projectTransferEvent p =
     (let kind = jtoString (jget p ''kind''); completion = (kind = ''transferCompleted'' \<or> kind = ''transferRejected'') in
      if (kind \<noteq> ''transferRequested'' \<and> \<not> completion)
         \<or> \<not> positiveInteger (jget p ''revision'') \<or> \<not> positiveInteger (jget p ''userId'')
         \<or> \<not> protocolIdentifier (jget p ''sourceSeatId'') \<or> \<not> protocolIdentifier (jget p ''targetSeatId'')
         \<or> \<not> protocolIdentifier (jget p ''templateId'')
         \<or> (completion \<and> \<not> positiveInteger (jget p ''requestRevision'')) \<or> \<not> optionalString p ''reason'' 256
      then None
      else Some \<lparr>te_kind = kind, te_revision = jtoInteger 0 (jget p ''revision''),
        te_requestRevision = jtoInteger 0 (jget p ''requestRevision''), te_userId = jtoInteger 0 (jget p ''userId''),
        te_source = jtoString (jget p ''sourceSeatId''), te_target = jtoString (jget p ''targetSeatId''),
        te_template = jtoString (jget p ''templateId''), te_reason = jtoString (jget p ''reason'')\<rparr>)"

definition projectServerEvent :: "jobject \<Rightarrow> Verdict" where
  "projectServerEvent p =
     (if \<not> validString (jget p ''kind'') 64 False then invalid
      else if jtoString (jget p ''kind'') \<in> {''transferRequested'', ''transferCompleted'', ''transferRejected''}
           then verdict (projectTransferEvent p \<noteq> None)
      else valid)"

section \<open>Strict VMF task commands\<close>

definition taskSeatFields :: "string list" where
  "taskSeatFields = [''commanderSeatId'', ''reconSeatId'', ''attackSeatId'', ''groundSeatId'', ''targetId'', ''correlationId'']"

definition taskMessageValid :: "Base64 \<Rightarrow> json \<Rightarrow> bool" where
  "taskMessageValid b v \<longleftrightarrow> isJObj v
     \<and> (let m = jtoObject v
        in hasOnlyFields m {''messageId'', ''traceId'', ''timestamp'', ''domainType'', ''vmfMessage'', ''catalogId'', ''payload'',
             ''wireBytes'', ''wireBitLength'', ''correlationId''}
           \<and> protocolIdentifier (jget m ''messageId'') \<and> protocolIdentifier (jget m ''traceId'')
           \<and> validString (jget m ''timestamp'') 64 False \<and> validString (jget m ''domainType'') 64 False
           \<and> validString (jget m ''vmfMessage'') 64 False \<and> protocolIdentifier (jget m ''catalogId'')
           \<and> isJObj (jget m ''payload'') \<and> validVmfWire b m \<and> optionalString m ''correlationId'' 64)"

definition validVmfTaskCommand :: "Base64 \<Rightarrow> jobject \<Rightarrow> bool" where
  "validVmfTaskCommand b p \<longleftrightarrow>
     (let creating = (jtoString (jget p ''action'') = ''createTask''); messages = jtoArray (jget p ''messages'') in
      hasOnlyFields p ({''requestId'', ''taskId'', ''expectedTaskRevision'', ''action'', ''messages''} \<union> set taskSeatFields)
      \<and> protocolIdentifier (jget p ''requestId'') \<and> protocolIdentifier (jget p ''taskId'')
      \<and> nonNegativeInteger (jget p ''expectedTaskRevision'') \<and> validString (jget p ''action'') 64 False
      \<and> isJArr (jget p ''messages'')
      \<and> (if creating then jtoInteger 0 (jget p ''expectedTaskRevision'') = 0
            \<and> list_all (\<lambda>f. protocolIdentifier (jget p f)) taskSeatFields
         else list_all (\<lambda>f. \<not> jcontains p f) taskSeatFields)
      \<and> length messages \<le> 16 \<and> (creating \<longrightarrow> messages = []) \<and> list_all (taskMessageValid b) messages)"

section \<open>Commands of a client\<close>

definition commandActions :: "string set" where
  "commandActions = insert ''updateRoomConfig'' capabilityNames"

definition validIds :: "jobject \<Rightarrow> string list \<Rightarrow> bool" where
  "validIds args names \<longleftrightarrow> list_all (\<lambda>f. protocolIdentifier (jget args f)) names"

definition roomConfigValid :: "jobject \<Rightarrow> bool" where
  "roomConfigValid args \<longleftrightarrow>
     hasOnlyFields args {''expectedConfigVersion'', ''name'', ''description'', ''scenarioId'', ''seatLimits'', ''seatParameters'',
       ''protocolProfile''}
     \<and> positiveInteger (jget args ''expectedConfigVersion'') \<and> validString (jget args ''name'') 96 False
     \<and> optionalString args ''description'' 512 \<and> validString (jget args ''scenarioId'') 128 False
     \<and> whenGiven args ''protocolProfile'' (\<lambda>v. jtoString v \<in> profileNames)
     \<and> whenGiven args ''seatLimits'' (\<lambda>v. validRoomSeatLimits v True)
     \<and> validRoomSeatParameters (jget args ''seatParameters'')"

text \<open>The arguments of each action; every action has one test.\<close>

definition argumentsValid :: "string \<Rightarrow> jobject \<Rightarrow> bool" where
  "argumentsValid action args =
     (if action = ''updateRoomConfig'' then roomConfigValid args
      else if action \<in> {''assignTarget'', ''engageTarget'', ''pursue''} then validIds args [''attackerId'', ''targetId'']
      else if action = ''setFlightPlan''
           then validIds args [''attackerId''] \<and> jtoArray (jget args ''waypoints'') \<noteq> []
                \<and> validPointArray (jget args ''waypoints'') False
      else if action \<in> {''attackAt'', ''moveTo''} then validIds args [''unitId''] \<and> protocolPoint (jget args ''pos'')
      else if action = ''withdraw'' then validIds args [''unitId''] \<and> whenGiven args ''pos'' protocolPoint
      else if action \<in> {''halt'', ''service'', ''activateCountermeasure'', ''activateScan'', ''attemptFieldRepair'',
                ''cancelService'', ''cancelEngagement''}
           then validIds args [''unitId'']
      else if action = ''unitOrder'' then validIds args [''unitId''] \<and> validString (jget args ''text'') 420 False
      else if action = ''setRoe'' then validIds args [''unitId''] \<and> validString (jget args ''roe'') 16 False
      else if action = ''setSpeed'' then validIds args [''unitId''] \<and> isJNum (jget args ''speed'')
      else if action = ''setSchedule'' then validIds args [''unitId''] \<and> validPointArray (jget args ''schedule'') True
      else if action = ''guideAttack''
           then validIds args [''guideId'', ''attackerId'', ''targetId''] \<and> protocolPoint (jget args ''targetPos'')
      else True)"

definition commandPayload :: "jobject \<Rightarrow> bool" where
  "commandPayload p \<longleftrightarrow> protocolIdentifier (jget p ''commandId'') \<and> validString (jget p ''action'') 64 False
     \<and> isJObj (jget p ''args'') \<and> positiveInteger (jget p ''stateRevision'')
     \<and> jtoString (jget p ''action'') \<in> commandActions
     \<and> argumentsValid (jtoString (jget p ''action'')) (jtoObject (jget p ''args''))"

section \<open>Other messages of a client\<close>

definition identifierArray :: "json \<Rightarrow> bool" where
  "identifierArray v \<longleftrightarrow> isJArr v \<and> jtoArray v \<noteq> [] \<and> list_all protocolIdentifier (jtoArray v)"

definition chatPayload :: "jobject \<Rightarrow> bool" where
  "chatPayload p \<longleftrightarrow> validString (jget p ''text'') 500 False \<and> identifierArray (jget p ''recipientSeatIds'')"

definition leavePayload :: "jobject \<Rightarrow> bool" where
  "leavePayload p \<longleftrightarrow>
     (let has = jcontains p ''successorUserId'' in
      length p = (if has then 1 else 0) \<and> (has \<longrightarrow> positiveInteger (jget p ''successorUserId'')))"

definition claimPayload :: "jobject \<Rightarrow> bool" where
  "claimPayload p \<longleftrightarrow>
     (let approve = jcontains p ''approveUserId''; reject = jcontains p ''rejectUserId''; cancel = jcontains p ''cancelTransfer'' in
      protocolIdentifier (jget p ''seatId'')
      \<and> (approve \<or> reject \<or> cancel \<longrightarrow>
           \<not> (approve \<and> reject) \<and> \<not> (approve \<and> cancel) \<and> \<not> (reject \<and> cancel)
           \<and> (approve \<longrightarrow> positiveInteger (jget p ''approveUserId''))
           \<and> (reject \<longrightarrow> positiveInteger (jget p ''rejectUserId''))
           \<and> (cancel \<longrightarrow> jtoBool False (jget p ''cancelTransfer''))
           \<and> positiveInteger (jget p ''requestedRevision'')))"

definition legacyShare :: "jobject \<Rightarrow> bool" where
  "legacyShare p \<longleftrightarrow> protocolIdentifier (jget p ''targetId'') \<and> identifierArray (jget p ''recipientSeatIds'')
     \<and> optionalString p ''note'' 1024"

definition reportPayload :: "jobject \<Rightarrow> bool" where
  "reportPayload p \<longleftrightarrow> hasOnlyFields p {''position'', ''type'', ''title'', ''note''} \<and> length p \<le> 4
     \<and> protocolPoint (jget p ''position'') \<and> validString (jget p ''type'') 64 False
     \<and> optionalString p ''title'' 64 \<and> optionalString p ''note'' 500"

definition mapMarkPayload :: "jobject \<Rightarrow> bool" where
  "mapMarkPayload p \<longleftrightarrow> protocolPoint (jget p ''position'') \<and> validString (jget p ''label'') 128 True
     \<and> whenGiven p ''recipientSeatIds'' (\<lambda>v. isJArr v \<and> length (jtoArray v) \<le> 64 \<and> list_all validSeatIdentifier (jtoArray v))"

definition vmfMessageTypes :: "string set" where
  "vmfMessageTypes = {''PositionReport'', ''TargetDetect'', ''TargetReport'', ''TargetTrack'', ''TargetDestroyed'', ''UnitOrder'',
     ''AttackOrder'', ''StrikePlan'', ''FlightPlan'', ''Guidance'', ''GroundGuideOrder'', ''GroundAttackConfirm'', ''Withdraw'',
     ''WithdrawOrder'', ''CommCheck'', ''EngagementReport'', ''SharedDetect'', ''Pursue'', ''Halt'', ''CancelEngagement'',
     ''SetRulesOfEngagement'', ''IdentityReport'', ''GroundTargetReport'', ''RouteAcceptance'', ''AttackReadyReport'',
     ''AttackAuthorization'', ''BattleDamageReport'', ''DamageAssessmentConfirm''}"

definition vmfMessageFields :: "string set" where
  "vmfMessageFields = {''traceId'', ''correlationId'', ''vmfMessage'', ''wireFormat'', ''wireBytes'', ''wireBitLength'',
     ''senderUnitId'', ''receiverUnitId'', ''messageType'', ''payload'', ''requiresAck'', ''retryCount'', ''fieldCount''}"

definition countAtMost :: "int \<Rightarrow> json \<Rightarrow> bool" where
  "countAtMost n v \<longleftrightarrow> nonNegativeInteger v \<and> jtoInteger 0 v \<le> n"

definition vmfMessagePayload :: "Base64 \<Rightarrow> jobject \<Rightarrow> bool" where
  "vmfMessagePayload b p \<longleftrightarrow> hasOnlyFields p vmfMessageFields
     \<and> validString (jget p ''traceId'') 64 False \<and> optionalString p ''correlationId'' 64
     \<and> jtoString (jget p ''wireFormat'') = ''vmf-design-v1'' \<and> validString (jget p ''vmfMessage'') 64 False
     \<and> jtoString (jget p ''vmfMessage'') \<in> {''NetworkMonitoring'', ''Land Route'', ''Target Report''}
     \<and> validVmfWire b p \<and> protocolIdentifier (jget p ''senderUnitId'')
     \<and> isJStr (jget p ''receiverUnitId'')
     \<and> (jtoString (jget p ''receiverUnitId'') = ''*'' \<or> protocolIdentifier (jget p ''receiverUnitId''))
     \<and> jtoString (jget p ''messageType'') \<in> vmfMessageTypes \<and> whenGiven p ''payload'' isJObj
     \<and> whenGiven p ''requiresAck'' isJBool \<and> whenGiven p ''retryCount'' (countAtMost 16)
     \<and> whenGiven p ''fieldCount'' (countAtMost 4096)"

definition demoRequest :: "jobject \<Rightarrow> bool" where
  "demoRequest p \<longleftrightarrow> protocolIdentifier (jget p ''requestId'') \<and> jtoInt 0 (jget p ''workflowSchemaVersion'') = 2
     \<and> positiveInteger (jget p ''generation'') \<and> positiveInteger (jget p ''expectedRevision'') \<and> isJObj (jget p ''payload'')"

definition demoActionPayload :: "jobject \<Rightarrow> bool" where
  "demoActionPayload p \<longleftrightarrow> demoRequest p
     \<and> (let mode = jtoString (jget p ''inputMode'') in
        hasOnlyFields p {''requestId'', ''actionId'', ''workflowSchemaVersion'', ''generation'', ''expectedRevision'', ''seat'',
          ''action'', ''phase'', ''inputMode'', ''payload''}
        \<and> protocolIdentifier (jget p ''actionId'') \<and> protocolIdentifier (jget p ''seat'')
        \<and> jtoString (jget p ''action'') \<in> demoActions \<and> validString (jget p ''phase'') 64 False
        \<and> mode \<in> {''template'', ''xml''}
        \<and> (mode = ''xml'' \<longrightarrow> validString (jget (jtoObject (jget p ''payload'')) ''xml'') 131072 False))"

definition demoControlPayload :: "jobject \<Rightarrow> bool" where
  "demoControlPayload p \<longleftrightarrow> demoRequest p
     \<and> hasOnlyFields p {''requestId'', ''workflowSchemaVersion'', ''generation'', ''expectedRevision'', ''action'', ''payload''}
     \<and> jtoString (jget p ''action'') \<in> {''reset'', ''jump'', ''pause'', ''resume'', ''setTargetScript'', ''cancel'', ''start''}"

end
