(* ===== verification/ProtocolEnvelope.thy ===== *)
theory ProtocolEnvelope
  imports ProtocolMessages
begin

text \<open>
  The payloads of the server that carry state, the choice of the check by message type and version, and
  the envelopes around the payloads (\<open>src/src/protocol/Protocol.cpp\<close>).
\<close>

section \<open>Payloads of the server\<close>

definition fixedRoles :: "string set" where
  "fixedRoles = {''player'', ''room_admin'', ''editor'', ''director'', ''red'', ''blue'', ''observer''}"

definition welcomePayload :: "jobject \<Rightarrow> bool" where
  "welcomePayload p \<longleftrightarrow> validAccountText (jget p ''username'') False \<and> validAccountText (jget p ''displayName'') True
     \<and> whenGiven p ''role'' (\<lambda>v. validString v 64 False \<and> (jtoString v \<in> fixedRoles \<or> validSeatIdentifier v))
     \<and> whenGiven p ''seatId'' protocolIdentifier
     \<and> whenGiven p ''ddsTicket'' (\<lambda>v. validString v 128 False)
     \<and> whenGiven p ''ddsTicketExpiresAt'' positiveInteger"

definition deltaShape :: "jobject \<Rightarrow> int \<Rightarrow> bool" where
  "deltaShape p schema \<longleftrightarrow> nonNegativeInteger (jget p ''schemaVersion'') \<and> jtoInteger 0 (jget p ''schemaVersion'') = schema
     \<and> nonNegativeInteger (jget p ''baseStateRevision'') \<and> nonNegativeInteger (jget p ''stateRevision'')
     \<and> jtoInteger 0 (jget p ''baseStateRevision'') < jtoInteger 0 (jget p ''stateRevision'')
     \<and> nonNegativeInteger (jget p ''scenarioRevision'') \<and> isJArr (jget p ''units'')
     \<and> runtimeActionFields (jget p ''units'') \<and> whenGiven p ''changedUnitIds'' changedUnitIdList
     \<and> whenGiven p ''projectiles'' (\<lambda>v. projectileArray v False) \<and> isJObj (jget p ''roomState'')"

text \<open>The records of an intelligence delta with distinct ids, written back; none if one is invalid.\<close>

fun projectRecords :: "TimeLib \<Rightarrow> json list \<Rightarrow> string set \<Rightarrow> IntelContact list option" where
  "projectRecords lib [] ids = Some []"
| "projectRecords lib (v # vs) ids =
     (if \<not> isJObj v then None
      else case contactFromJson lib (jtoObject v) of
        None \<Rightarrow> None
      | Some c \<Rightarrow> (if ic_id c \<in> ids then None
          else case projectRecords lib vs (insert (ic_id c) ids) of None \<Rightarrow> None | Some cs \<Rightarrow> Some (c # cs)))"

definition intelIdList :: "json \<Rightarrow> string set \<Rightarrow> bool" where
  "intelIdList v forbidden \<longleftrightarrow> isJArr v \<and> length (jtoArray v) \<le> 4096 \<and> freshIds (jtoArray v) forbidden"

definition intelDeltaShape :: "jobject \<Rightarrow> bool" where
  "intelDeltaShape d \<longleftrightarrow> d \<noteq> [] \<and> nonNegativeInteger (jget d ''baseRevision'') \<and> nonNegativeInteger (jget d ''revision'')
     \<and> jtoInteger 0 (jget d ''baseRevision'') \<le> jtoInteger 0 (jget d ''revision'')
     \<and> list_all (\<lambda>f. isJArr (jget d f)) [''upserts'', ''archivedIntelIds'', ''deletedIntelIds'', ''shareTargets'']
     \<and> (jtoInteger 0 (jget d ''revision'') = jtoInteger 0 (jget d ''baseRevision'') \<longrightarrow>
          list_all (\<lambda>f. jtoArray (jget d f) = []) [''upserts'', ''archivedIntelIds'', ''deletedIntelIds''])"

definition archivedRecord :: "IntelContact list \<Rightarrow> json \<Rightarrow> bool" where
  "archivedRecord records v \<longleftrightarrow>
     (case find (\<lambda>c. JStr (ic_id c) = v) records of None \<Rightarrow> False | Some c \<Rightarrow> ic_freshness c = ''archived'')"

definition intelDeltaPayload :: "TimeLib \<Rightarrow> jobject \<Rightarrow> bool" where
  "intelDeltaPayload lib d \<longleftrightarrow> intelDeltaShape d
     \<and> (case projectRecords lib (jtoArray (jget d ''upserts'')) {} of
          None \<Rightarrow> False
        | Some records \<Rightarrow> intelIdList (jget d ''archivedIntelIds'') {}
            \<and> intelIdList (jget d ''deletedIntelIds'') (set (map ic_id records))
            \<and> validateIntelState lib [(''revision'', jget d ''revision''),
                 (''records'', JArr (map (\<lambda>c. JObj (contactToJson c)) records)),
                 (''shareTargets'', jget d ''shareTargets'')]
            \<and> list_all (archivedRecord records) (jtoArray (jget d ''archivedIntelIds'')))"

definition deltaPayload :: "TimeLib \<Rightarrow> jobject \<Rightarrow> int \<Rightarrow> bool" where
  "deltaPayload lib p schema \<longleftrightarrow> deltaShape p schema
     \<and> (schema = 4 \<longrightarrow> \<not> jcontains p ''intelState'' \<and> \<not> jcontains p ''intelDelta'')
     \<and> projectRoomLifecycle (jtoObject (jget p ''roomState'')) \<noteq> None
     \<and> (isObserver p \<longrightarrow> observerDelta p (jtoObject (jget p ''roomState'')))
     \<and> whenGiven p ''mapMarks'' isJArr
     \<and> whenGiven p ''intelDelta'' (\<lambda>v. intelDeltaPayload lib (jtoObject v))"

definition tracePayload :: "jobject \<Rightarrow> bool" where
  "tracePayload p \<longleftrightarrow> protocolIdentifier (jget p ''traceId'') \<and> protocolIdentifier (jget p ''actionId'')
     \<and> validString (jget p ''canonicalXml'') 131072 False \<and> validString (jget p ''decodedXml'') 131072 False
     \<and> shortArray 4096 (jget p ''fields'') \<and> nonNegativeInteger (jget p ''wireBitLength'')"

definition demoResultPayload :: "jobject \<Rightarrow> bool" where
  "demoResultPayload p \<longleftrightarrow> protocolIdentifier (jget p ''requestId'')
     \<and> jtoString (jget p ''status'') \<in> {''accepted'', ''duplicate'', ''paused'', ''cancelled'', ''started''}
     \<and> validString (jget p ''code'') 64 False \<and> nonNegativeInteger (jget p ''revision'') \<and> demoStateValid (jget p ''state'')"

definition directoryRoom :: "json \<Rightarrow> bool" where
  "directoryRoom v \<longleftrightarrow> isJObj v
     \<and> (let r = jtoObject v
        in validString (jget r ''roomId'') 64 False \<and> validString (jget r ''name'') 96 False
           \<and> optionalString r ''description'' 512 \<and> whenGiven r ''seatLimits'' (\<lambda>l. validRoomSeatLimits l False)
           \<and> whenGiven r ''seatParameters'' validRoomSeatParameters
           \<and> textOr ''pvp'' (jget r ''mode'') \<in> {''pvp'', ''pve''}
           \<and> textOr ''normal'' (jget r ''aiDifficulty'') \<in> {''easy'', ''normal'', ''hard''}
           \<and> whenGiven r ''configVersion'' nonNegativeInteger
           \<and> whenGiven r ''protocolProfile'' (\<lambda>x. jtoString x \<in> profileNames))"

definition vmfEventFields :: "string set" where
  "vmfEventFields = {''kind'', ''messageId'', ''traceId'', ''correlationId'', ''vmfMessage'', ''wireFormat'', ''wireBitLength'',
     ''senderUnitId'', ''receiverUnitId'', ''messageType'', ''validated'', ''fieldCount'', ''retryCount'', ''acked'', ''catalogId'',
     ''trigger'', ''informationValue'', ''senderSide'', ''receiverSide'', ''summary'', ''workflow'', ''wireBytes'', ''fields'',
     ''canonicalXml'', ''decodedXml'', ''roundTripEqual'', ''ackState''}"

definition vmfEventPayload :: "jobject \<Rightarrow> bool" where
  "vmfEventPayload p \<longleftrightarrow> hasOnlyFields p vmfEventFields
     \<and> validString (jget p ''kind'') 64 False \<and> protocolIdentifier (jget p ''messageId'')
     \<and> optionalString p ''traceId'' 64 \<and> optionalString p ''correlationId'' 64
     \<and> validString (jget p ''vmfMessage'') 64 False \<and> jtoString (jget p ''wireFormat'') = ''vmf-design-v1''
     \<and> positiveInteger (jget p ''wireBitLength'') \<and> protocolIdentifier (jget p ''senderUnitId'')
     \<and> isJStr (jget p ''receiverUnitId'') \<and> validString (jget p ''messageType'') 64 False \<and> isJBool (jget p ''validated'')
     \<and> countAtMost 4096 (jget p ''fieldCount'') \<and> whenGiven p ''retryCount'' nonNegativeInteger
     \<and> whenGiven p ''acked'' isJBool \<and> whenGiven p ''catalogId'' (\<lambda>v. validString v 64 False)
     \<and> whenGiven p ''trigger'' (\<lambda>v. validString v 64 False) \<and> whenGiven p ''informationValue'' isJObj
     \<and> optionalString p ''senderSide'' 64 \<and> optionalString p ''receiverSide'' 64
     \<and> whenGiven p ''workflow'' vmfWorkflowValid \<and> whenGiven p ''wireBytes'' isJStr
     \<and> whenGiven p ''fields'' isJArr \<and> whenGiven p ''roundTripEqual'' isJBool \<and> optionalString p ''summary'' 256"

section \<open>Payloads by type and version\<close>

definition validateClientPayload :: "TimeLib \<Rightarrow> Base64 \<Rightarrow> string \<Rightarrow> jobject \<Rightarrow> int \<Rightarrow> Verdict" where
  "validateClientPayload lib b type p schema =
     (if type \<in> {''vmfTaskCommand'', ''demoAction'', ''demoControl''} \<and> schema \<noteq> 8 then invalid
      else if type = ''auth'' then verdict (validString (jget p ''token'') 4096 False
        \<and> whenGiven p ''resumeSequence'' nonNegativeInteger \<and> whenGiven p ''resumeStateRevision'' nonNegativeInteger)
      else if type = ''command'' then verdict (commandPayload p)
      else if type = ''control'' then verdict (validString (jget p ''action'') 64 False \<and> whenGiven p ''speed'' isJNum)
      else if type = ''setReady'' then verdict (isJBool (jget p ''ready''))
      else if type = ''chat'' then verdict (chatPayload p)
      else if type = ''scenarioUpsert'' then verdict (isJObj (jget p ''unit'') \<and> jtoObject (jget p ''unit'') \<noteq> [])
      else if type = ''scenarioRemove'' then verdict (protocolIdentifier (jget p ''unitId''))
      else if type = ''scenarioReplace'' then verdict (isJObj (jget p ''scenario'') \<and> jtoObject (jget p ''scenario'') \<noteq> [])
      else if type = ''resyncRequest'' then verdict (whenGiven p ''lastSequence'' nonNegativeInteger
        \<and> whenGiven p ''stateRevision'' nonNegativeInteger)
      else if type = ''joinRoom'' then verdict (protocolIdentifier (jget p ''roomId'') \<and> whenGiven p ''asObserver'' isJBool)
      else if type = ''leaveRoom'' then verdict (leavePayload p)
      else if type = ''claimSeat'' then verdict (claimPayload p)
      else if type = ''releaseSeat'' then verdict (p = [])
      else if type = ''seatReady'' then verdict (isJBool (jget p ''ready''))
      else if type = ''deployment'' then verdict (protocolIdentifier (jget p ''unitId'') \<and> protocolPoint (jget p ''position''))
      else if type = ''requestRedeploy'' then verdict (p = [])
      else if type = ''redeploy'' then verdict (length p = 1 \<and> protocolIdentifier (jget p ''seatId''))
      else if type = ''shareIntel'' then verdict (if schema = 4 then legacyShare p else validateIntelShareRequest p)
      else if type = ''createIntelReport'' then verdict (schema \<noteq> 4 \<and> reportPayload p)
      else if type = ''requestIntelHistory'' then verdict (schema \<noteq> 4 \<and> validateIntelHistoryQuery lib p)
      else if type \<in> {''setObserverTrajectories'', ''setObserverTrails''}
           then verdict (length p = 1 \<and> observerUnitIdList (jget p ''unitIds''))
      else if type = ''mapMark'' then verdict (mapMarkPayload p)
      else if type = ''setUnitName'' then verdict (validString (jget p ''unitName'') 128 False)
      else if type = ''vmfMessage'' then verdict (vmfMessagePayload b p)
      else if type = ''vmfTaskCommand'' then verdict (validVmfTaskCommand b p)
      else if type = ''demoAction'' then verdict (demoActionPayload p)
      else if type = ''demoControl'' then verdict (demoControlPayload p)
      else valid)"

definition legacyShareEvent :: "jobject \<Rightarrow> bool" where
  "legacyShareEvent p \<longleftrightarrow> protocolIdentifier (jget p ''senderSeatId'') \<and> protocolIdentifier (jget p ''targetId'')
     \<and> optionalString p ''sharedAt'' 64 \<and> optionalString p ''note'' 1024"

definition validateServerPayload :: "TimeLib \<Rightarrow> string \<Rightarrow> jobject \<Rightarrow> int \<Rightarrow> Verdict" where
  "validateServerPayload lib type p schema =
     (if type \<in> {''vmfTaskResult'', ''vmfTrace'', ''demoState'', ''demoTrace'', ''demoResult'', ''demoError''} \<and> schema \<noteq> 8
      then invalid
      else if type = ''welcome'' then verdict (welcomePayload p)
      else if type = ''snapshot'' then validateSnapshotState lib p schema
      else if type = ''delta'' then verdict (deltaPayload lib p schema)
      else if type = ''commandResult'' then verdict (projectCommandResult p \<noteq> None)
      else if type = ''vmfTaskResult'' then verdict (projectVmfTaskResult p \<noteq> None)
      else if type = ''vmfTrace'' then verdict (protocolIdentifier (jget p ''traceId'') \<and> protocolIdentifier (jget p ''taskId''))
      else if type = ''demoState'' then verdict (demoStateValid (JObj p))
      else if type = ''demoTrace'' then verdict (tracePayload p)
      else if type = ''demoResult'' then verdict (demoResultPayload p)
      else if type = ''demoError'' then verdict (validString (jget p ''code'') 64 False
        \<and> validString (jget p ''message'') 1024 False \<and> optionalString p ''requestId'' 64)
      else if type = ''event'' then projectServerEvent p
      else if type = ''error'' then verdict (validString (jget p ''code'') 64 False \<and> validString (jget p ''message'') 1024 False)
      else if type = ''chat'' then verdict (validString (jget p ''text'') 500 False)
      else if type = ''roomDirectory'' then verdict (isJArr (jget p ''rooms'') \<and> list_all directoryRoom (jtoArray (jget p ''rooms'')))
      else if type = ''seatState'' then verdict (projectSeatDirectory p \<noteq> None)
      else if type = ''deploymentPrompt'' then verdict (projectDeploymentPrompt p \<noteq> None)
      else if type = ''intelShare'' then verdict (if schema = 4 then legacyShareEvent p else projectIntelShare p \<noteq> None)
      else if type = ''intelHistoryPage'' then verdict (schema \<noteq> 4 \<and> validateIntelHistoryPage lib p)
      else if type = ''vmfEvent'' then verdict (vmfEventPayload p)
      else valid)"

section \<open>Envelopes\<close>

definition envelopeType :: "jobject \<Rightarrow> string" where
  "envelopeType e = jtoString (jget e ''type'')"

definition envelopePayload :: "jobject \<Rightarrow> jobject" where
  "envelopePayload e = jtoObject (jget e ''payload'')"

text \<open>The version the payload is checked against, an \<open>int\<close>.\<close>

definition envelopeSchema :: "jobject \<Rightarrow> int" where
  "envelopeSchema e = toCInt (jtoInteger 0 (jget e ''schemaVersion''))"

definition validateClientEnvelope :: "TimeLib \<Rightarrow> Base64 \<Rightarrow> bool \<Rightarrow> jobject \<Rightarrow> Verdict" where
  "validateClientEnvelope lib b compatible e =
     (case validateComplexity e of Some code \<Rightarrow> Some code
      | None \<Rightarrow>
     (case validateCommon e False compatible of Some code \<Rightarrow> Some code
      | None \<Rightarrow>
      if \<not> isJStr (jget e ''messageId'') \<or> jtoString (jget e ''messageId'') = [] \<or> 64 < length (jtoString (jget e ''messageId''))
      then Some ''INVALID_ENVELOPE''
      else
     (case validateClientPayload lib b (envelopeType e) (envelopePayload e) (envelopeSchema e) of Some code \<Rightarrow> Some code
      | None \<Rightarrow>
      if envelopeType e \<in> {''vmfTaskCommand'', ''demoAction'', ''demoControl''}
         \<and> jget (envelopePayload e) ''requestId'' \<noteq> jget e ''messageId''
      then Some ''INVALID_ENVELOPE''
      else valid)))"

definition validateServerEnvelope :: "TimeLib \<Rightarrow> bool \<Rightarrow> jobject \<Rightarrow> Verdict" where
  "validateServerEnvelope lib compatible e =
     (case validateComplexity e of Some code \<Rightarrow> Some code
      | None \<Rightarrow>
     (case validateCommon e True compatible of Some code \<Rightarrow> Some code
      | None \<Rightarrow>
      if \<not> positiveInteger (jget e ''sequence'') then Some ''INVALID_ENVELOPE''
      else validateServerPayload lib (envelopeType e) (envelopePayload e) (envelopeSchema e)))"

definition makeClientEnvelope :: "string \<Rightarrow> string \<Rightarrow> jobject \<Rightarrow> int \<Rightarrow> int \<Rightarrow> jobject" where
  "makeClientEnvelope type messageId p protocol schema =
     [(''protocolVersion'', jint protocol), (''schemaVersion'', jint schema), (''type'', JStr type),
      (''messageId'', JStr messageId), (''payload'', JObj p)]"

text \<open>The time of sending is an argument.\<close>

definition makeServerEnvelope :: "string \<Rightarrow> string \<Rightarrow> nat \<Rightarrow> jobject \<Rightarrow> int \<Rightarrow> int \<Rightarrow> jobject" where
  "makeServerEnvelope now type sequence p protocol schema =
     [(''protocolVersion'', jint protocol), (''schemaVersion'', jint schema), (''type'', JStr type),
      (''sequence'', jnat sequence), (''sentAt'', JStr now), (''payload'', JObj p)]"

end
