(* ===== verification/ProtocolProps.thy ===== *)
theory ProtocolProps
  imports ProtocolEnvelope
begin

text \<open>
  What the checks of the wire protocol guarantee: the bound on the size of a message, envelopes that are
  built are accepted, missiles of a snapshot are consistent, and an observer receives no private data.
\<close>

section \<open>Complexity\<close>

text \<open>The nodes of a value and the depth of its deepest node.\<close>

fun jnodes :: "json \<Rightarrow> nat" and jnodesAll :: "json list \<Rightarrow> nat" and jnodesFields :: "jobject \<Rightarrow> nat" where
  "jnodes v = Suc (case v of JArr vs \<Rightarrow> jnodesAll vs | JObj ob \<Rightarrow> jnodesFields ob | _ \<Rightarrow> 0)"
| "jnodesAll [] = 0"
| "jnodesAll (v # vs) = jnodes v + jnodesAll vs"
| "jnodesFields [] = 0"
| "jnodesFields ((k, v) # ob) = jnodes v + jnodesFields ob"

fun jdepth :: "json \<Rightarrow> nat" and jdepthAll :: "json list \<Rightarrow> nat" and jdepthFields :: "jobject \<Rightarrow> nat" where
  "jdepth v = (case v of JArr vs \<Rightarrow> jdepthAll vs | JObj ob \<Rightarrow> jdepthFields ob | _ \<Rightarrow> 0)"
| "jdepthAll [] = 0"
| "jdepthAll (v # vs) = max (Suc (jdepth v)) (jdepthAll vs)"
| "jdepthFields [] = 0"
| "jdepthFields ((k, v) # ob) = max (Suc (jdepth v)) (jdepthFields ob)"

declare countNodes.simps [simp del] jnodes.simps [simp del] jdepth.simps [simp del]

lemmas node_simps [simp] =
  countNodes.simps(1) [of JNull] countNodes.simps(1) [of "JBool x" for x] countNodes.simps(1) [of "JNum x" for x] countNodes.simps(1) [of "JStr x" for x] countNodes.simps(1) [of "JArr x" for x] countNodes.simps(1) [of "JObj x" for x]
  jnodes.simps(1) [of JNull] jnodes.simps(1) [of "JBool x" for x] jnodes.simps(1) [of "JNum x" for x] jnodes.simps(1) [of "JStr x" for x] jnodes.simps(1) [of "JArr x" for x] jnodes.simps(1) [of "JObj x" for x]
  jdepth.simps(1) [of JNull] jdepth.simps(1) [of "JBool x" for x] jdepth.simps(1) [of "JNum x" for x] jdepth.simps(1) [of "JStr x" for x] jdepth.simps(1) [of "JArr x" for x] jdepth.simps(1) [of "JObj x" for x]

lemma count_nodes_eq:
  "countNodes v d n = (if d + jdepth v \<le> 16 \<and> n + jnodes v \<le> 262144 then Some (n + jnodes v) else None)"
  "n \<le> 262144 \<Longrightarrow> d \<le> 17 \<Longrightarrow>
   countAll vs d n = (if d + jdepthAll vs \<le> 17 \<and> n + jnodesAll vs \<le> 262144 then Some (n + jnodesAll vs) else None)"
  "n \<le> 262144 \<Longrightarrow> d \<le> 17 \<Longrightarrow>
   countFields ob d n = (if d + jdepthFields ob \<le> 17 \<and> n + jnodesFields ob \<le> 262144 then Some (n + jnodesFields ob) else None)"
proof (induction v d n and vs d n and ob d n rule: countNodes_countAll_countFields.induct)
  case (1 v d n)
  show ?case
    using 1 by (cases v) simp_all
next
  case (3 v vs d n)
  show ?case
    using 3 by (auto split: option.splits if_splits)
next
  case (5 k v ob d n)
  show ?case
    using 5 by (auto split: option.splits if_splits)
qed simp_all

lemma validateComplexity_iff:
  "validateComplexity e = None \<longleftrightarrow> jdepth (JObj e) \<le> 16 \<and> jnodes (JObj e) \<le> 262144"
  by (simp add: validateComplexity_def count_nodes_eq valid_def)

section \<open>Envelopes that are built\<close>

lemma supported_versions:
  "supportedWireVersion p s \<Longrightarrow> p = s \<and> s \<in> {4, 6, 7, 8}"
  by (auto simp: supportedWireVersion_def)

lemma version_read [simp]:
  "s \<in> {4, 6, 7, 8} \<Longrightarrow> nonNegativeInteger (jint s)"
  "s \<in> {4, 6, 7, 8} \<Longrightarrow> jtoInteger d (jint s) = s"
  "s \<in> {4, 6, 7, 8} \<Longrightarrow> toCInt s = s"
  by (auto simp: nonNegativeInteger_def jint_def maxSafeInteger_def toCInt_def)

lemma verdict_None [simp]: "verdict b = None \<longleftrightarrow> b"
  by (simp add: verdict_def valid_def invalid_def)

lemma valid_None [simp]: "valid = None" and invalid_Some [simp]: "invalid \<noteq> None"
  by (simp_all add: valid_def invalid_def)

lemma common_made:
  assumes "supportedWireVersion protocol schema" and "type \<in> (if fromServer then serverTypes else clientTypes)" and "type \<noteq> []"
    and "jget e ''protocolVersion'' = jint protocol" and "jget e ''schemaVersion'' = jint schema"
    and "jget e ''type'' = JStr type" and "jget e ''payload'' = JObj p"
  shows "validateCommon e fromServer True = None"
  using assms supported_versions [OF assms(1)] by (simp add: validateCommon_def Let_def)

lemma types_not_empty: "[] \<notin> clientTypes" "[] \<notin> serverTypes"
  by (simp_all add: clientTypes_def serverTypes_def)

lemma client_envelope_None:
  "validateClientEnvelope lib b c e = None \<longleftrightarrow> validateComplexity e = None \<and> validateCommon e False c = None
    \<and> isJStr (jget e ''messageId'') \<and> jtoString (jget e ''messageId'') \<noteq> [] \<and> length (jtoString (jget e ''messageId'')) \<le> 64
    \<and> validateClientPayload lib b (envelopeType e) (envelopePayload e) (envelopeSchema e) = None
    \<and> (envelopeType e \<in> {''vmfTaskCommand'', ''demoAction'', ''demoControl''} \<longrightarrow>
         jget (envelopePayload e) ''requestId'' = jget e ''messageId'')"
  by (auto simp: validateClientEnvelope_def not_less simp del: insert_iff split: option.splits if_splits)

lemma server_envelope_None:
  "validateServerEnvelope lib c e = None \<longleftrightarrow> validateComplexity e = None \<and> validateCommon e True c = None
    \<and> positiveInteger (jget e ''sequence'')
    \<and> validateServerPayload lib (envelopeType e) (envelopePayload e) (envelopeSchema e) = None"
  by (auto simp: validateServerEnvelope_def split: option.splits if_splits)

text \<open>A client message of a known type with an id of 1 to 64 characters, put into an envelope for a
  supported pair of versions, is accepted exactly if its payload is accepted for that version, it is not too
  deep (16) or too large (262144 values), and a task or demonstration request carries the id of its envelope.\<close>

theorem made_client_envelope:
  assumes "type \<in> clientTypes" and "i \<noteq> []" and "length i \<le> 64" and "supportedWireVersion protocol schema"
  shows "validateClientEnvelope lib b True (makeClientEnvelope type i p protocol schema) = None \<longleftrightarrow>
    validateClientPayload lib b type p schema = None
    \<and> jdepth (JObj (makeClientEnvelope type i p protocol schema)) \<le> 16
    \<and> jnodes (JObj (makeClientEnvelope type i p protocol schema)) \<le> 262144
    \<and> (type \<in> {''vmfTaskCommand'', ''demoAction'', ''demoControl''} \<longrightarrow> jget p ''requestId'' = JStr i)"
proof -
  let ?e = "makeClientEnvelope type i p protocol schema"
  have f: "jget ?e ''protocolVersion'' = jint protocol" "jget ?e ''schemaVersion'' = jint schema"
    "jget ?e ''type'' = JStr type" "jget ?e ''messageId'' = JStr i" "jget ?e ''payload'' = JObj p"
    by (simp_all add: makeClientEnvelope_def json_simps)
  have s: "schema \<in> {4, 6, 7, 8}"
    using supported_versions [OF assms(4)] by blast
  have "type \<noteq> []"
    using assms(1) types_not_empty by metis
  then have "validateCommon ?e False True = None"
    using common_made [of protocol schema type False ?e p] assms f by simp
  moreover have "envelopeSchema ?e = schema" "envelopeType ?e = type" "envelopePayload ?e = p"
    by (simp_all add: envelopeSchema_def envelopeType_def envelopePayload_def f version_read [OF s])
  ultimately show ?thesis
    using assms(2,3) unfolding client_envelope_None f by (auto simp: validateComplexity_iff)
qed

definition exTime :: TimeLib where
  "exTime = \<lparr>time_parseMs = \<lambda>s. if s = ''t'' then Some (0, 0) else None, time_parseSec = \<lambda>s. None, time_format = \<lambda>t. ''t''\<rparr>"

definition exBase64 :: Base64 where
  "exBase64 = \<lparr>b64_decode = map of_char, b64_encode = map char_of\<rparr>"

theorem made_client_envelope_witness:
  "validateClientEnvelope exTime exBase64 True (makeClientEnvelope ''ping'' ''m1'' [] 8 8) = None"
  by (subst made_client_envelope [of "''ping''" "''m1''" 8 8 exTime exBase64 "[]"])
    (simp_all add: clientTypes_def supportedWireVersion_def makeClientEnvelope_def validateClientPayload_def jint_def)

lemma ping_accepted: "validateClientEnvelope exTime exBase64 True (makeClientEnvelope ''ping'' ''m1'' [] 8 8) = None"
  by (simp add: client_envelope_None validateComplexity_iff makeClientEnvelope_def envelopeType_def envelopePayload_def
    json_simps validateClientPayload_def common_made [of 8 8 "''ping''" False _ "[]"] supportedWireVersion_def clientTypes_def jint_def)

text \<open>Versions are read modulo \<open>2 ^ 32\<close> when compatible ones are allowed: adding multiples of it to both
  version numbers of an envelope of version 8 changes nothing.\<close>

theorem wide_versions_accepted:
  assumes "0 \<le> k" and "k \<le> 2097151" and "0 \<le> m" and "m \<le> 2097151"
  shows "validateClientEnvelope lib b True (makeClientEnvelope type i p (8 + 2 ^ 32 * k) (8 + 2 ^ 32 * m))
    = validateClientEnvelope lib b True (makeClientEnvelope type i p 8 8)"
proof -
  let ?w = "makeClientEnvelope type i p (8 + 2 ^ 32 * k) (8 + 2 ^ 32 * m)" and ?e = "makeClientEnvelope type i p 8 8"
  have wide: "nonNegativeInteger (jint (8 + 2 ^ 32 * j))" "toCInt (jtoInteger 0 (jint (8 + 2 ^ 32 * j))) = 8"
    if "0 \<le> j" "j \<le> 2097151" for j
  proof -
    have r: "(of_int (8 + 2 ^ 32 * j) :: rat) \<le> of_int 9007199254740991"
      using that by (intro of_int_le_iff [THEN iffD2]) simp
    show "nonNegativeInteger (jint (8 + 2 ^ 32 * j))"
      using that r by (simp add: nonNegativeInteger_def jint_def maxSafeInteger_def)
    have "jtoInteger 0 (jint (8 + 2 ^ 32 * j)) = 8 + 2 ^ 32 * j"
      using that by (intro jtoInteger_jint) auto
    then show "toCInt (jtoInteger 0 (jint (8 + 2 ^ 32 * j))) = 8"
      by (simp add: toCInt_def algebra_simps)
  qed
  have "validateComplexity ?w = validateComplexity ?e"
    by (simp add: validateComplexity_def count_nodes_eq makeClientEnvelope_def jint_def)
  moreover have "validateCommon ?w False True = validateCommon ?e False True"
    using wide [OF assms(1,2)] wide [OF assms(3,4)]
    by (simp add: validateCommon_def makeClientEnvelope_def json_simps Let_def supportedWireVersion_def)
  moreover have "envelopeSchema ?w = envelopeSchema ?e" "envelopeType ?w = envelopeType ?e"
    "envelopePayload ?w = envelopePayload ?e" "jget ?w ''messageId'' = jget ?e ''messageId''"
    using wide(2) [OF assms(3,4)]
    by (simp_all add: envelopeSchema_def envelopeType_def envelopePayload_def makeClientEnvelope_def json_simps)
  ultimately show ?thesis
    by (simp only: validateClientEnvelope_def)
qed

theorem wide_versions_accepted_witness:
  "validateClientEnvelope exTime exBase64 True (makeClientEnvelope ''ping'' ''m1'' [] (8 + 2 ^ 32 * 1) (8 + 2 ^ 32 * 1)) = None"
  using wide_versions_accepted [of 1 1 exTime exBase64 "''ping''" "''m1''" "[]"] ping_accepted by simp

text \<open>The same for the server: a positive sequence number that a JSON number can hold, a known type and a
  supported pair of versions.\<close>

theorem made_server_envelope:
  assumes "type \<in> serverTypes" and "0 < n" and "n \<le> 9007199254740991" and "supportedWireVersion protocol schema"
  shows "validateServerEnvelope lib True (makeServerEnvelope now type n p protocol schema) = None \<longleftrightarrow>
    validateServerPayload lib type p schema = None
    \<and> jdepth (JObj (makeServerEnvelope now type n p protocol schema)) \<le> 16
    \<and> jnodes (JObj (makeServerEnvelope now type n p protocol schema)) \<le> 262144"
proof -
  let ?e = "makeServerEnvelope now type n p protocol schema"
  have f: "jget ?e ''protocolVersion'' = jint protocol" "jget ?e ''schemaVersion'' = jint schema"
    "jget ?e ''type'' = JStr type" "jget ?e ''sequence'' = jnat n" "jget ?e ''payload'' = JObj p"
    by (simp_all add: makeServerEnvelope_def json_simps)
  have s: "schema \<in> {4, 6, 7, 8}"
    using supported_versions [OF assms(4)] by blast
  have "type \<noteq> []"
    using assms(1) types_not_empty by metis
  then have "validateCommon ?e True True = None"
    using common_made [of protocol schema type True ?e p] assms f by simp
  moreover have "envelopeSchema ?e = schema" "envelopeType ?e = type" "envelopePayload ?e = p"
    by (simp_all add: envelopeSchema_def envelopeType_def envelopePayload_def f version_read [OF s])
  moreover have "positiveInteger (jget ?e ''sequence'')"
    using assms(2,3) by (simp add: f positiveInteger_def nonNegativeInteger_def jnat_def maxSafeInteger_def)
  ultimately show ?thesis
    unfolding server_envelope_None by (auto simp: validateComplexity_iff)
qed

section \<open>Missiles of a snapshot\<close>

definition missiles :: "jobject \<Rightarrow> jobject list" where
  "missiles payload = map jtoObject (jtoArray (jget payload ''projectiles''))"

definition textField :: "jobject \<Rightarrow> string \<Rightarrow> string" where
  "textField ob f = jtoString (jget ob f)"

text \<open>The units of the scenario and the running units.\<close>

definition unitsOfSnapshot :: "jobject \<Rightarrow> jobject list" where
  "unitsOfSnapshot payload = map jtoObject (jtoArray (jget (jtoObject (jget payload ''scenario'')) ''units'')
     @ jtoArray (jget payload ''units''))"

definition mapSize :: "jobject \<Rightarrow> string \<Rightarrow> rat" where
  "mapSize payload f = jtoDouble (-1) (jget (jtoObject (jget (jtoObject (jget payload ''scenario'')) ''map'')) f)"

definition missilePlace :: "jobject \<Rightarrow> nat \<Rightarrow> rat" where
  "missilePlace m i = jtoDouble 0 (jtoArray (jget m ''position'') ! i)"

definition inFlight :: "jobject \<Rightarrow> bool" where
  "inFlight m \<longleftrightarrow> jtoBool False (jget m ''active'')"

lemma projectileList_sound:
  "projectileList a vs ids n \<Longrightarrow>
   distinct (map (\<lambda>v. textField (jtoObject v) ''id'') vs) \<and> ids \<inter> (\<lambda>v. textField (jtoObject v) ''id'') ` set vs = {}
   \<and> (n \<le> 512 \<longrightarrow> n + length (filter (\<lambda>v. inFlight (jtoObject v)) vs) \<le> 512) \<and> list_all (projectileShape a) vs"
  by (induction a vs ids n rule: projectileList.induct)
    (auto simp: Let_def textField_def inFlight_def split: if_splits)

lemma collectSides_sound:
  "collectSides vs sides = Some s \<Longrightarrow> map_of s i = Some x \<Longrightarrow>
   map_of sides i = Some x \<or> (\<exists>u \<in> jtoObject ` set vs. textField u ''id'' = i \<and> textField u ''side'' = x)"
proof (induction vs sides rule: collectSides.induct)
  case (2 v vs sides)
  show ?case
  proof (cases "textField (jtoObject v) ''id'' = []")
    case True
    then show ?thesis
      using 2(3,4) 2(1) [OF refl refl refl] by (auto simp: Let_def textField_def split: if_splits)
  next
    case False
    let ?s = "AList.update (textField (jtoObject v) ''id'') (textField (jtoObject v) ''side'') sides"
    have c: "collectSides vs ?s = Some s"
      using 2(3) False by (auto simp: Let_def textField_def split: if_splits)
    have "map_of ?s i = Some x \<or> (\<exists>u \<in> jtoObject ` set vs. textField u ''id'' = i \<and> textField u ''side'' = x)"
      using 2(2) [OF refl refl refl] 2(3,4) False c by (auto simp: Let_def textField_def split: if_splits)
    then show ?thesis
      by (auto simp: update_conv' split: if_splits)
  qed
qed simp

lemma unitSides_sound:
  assumes "unitSides payload = Some s" and "map_of s i = Some x"
  shows "\<exists>u \<in> set (unitsOfSnapshot payload). textField u ''id'' = i \<and> textField u ''side'' = x"
proof -
  obtain s1 where s1: "collectSides (jtoArray (jget (jtoObject (jget payload ''scenario'')) ''units'')) [] = Some s1"
    and s2: "collectSides (jtoArray (jget payload ''units'')) s1 = Some s"
    using assms(1) by (auto simp: unitSides_def collectFrom_def split: option.splits if_splits)
  show ?thesis
    using collectSides_sound [OF s2 assms(2)] collectSides_sound [OF s1, of i x]
    by (auto simp: unitsOfSnapshot_def)
qed

lemma snapshot_None:
  "validateSnapshotState lib payload schema = None \<longleftrightarrow> snapshotShape payload schema \<and> projectSnapshot payload \<noteq> None
   \<and> (jcontains payload ''intelState'' \<longrightarrow> 5 \<le> schema \<and> \<not> isObserver payload
        \<and> validateIntelState lib (jtoObject (jget payload ''intelState'')))
   \<and> projectedProjectiles payload (isObserver payload)
   \<and> (isObserver payload \<longrightarrow> observerSnapshot payload (jtoObject (jget payload ''roomState'')))"
  by (auto simp: validateSnapshotState_def)

text \<open>In an accepted snapshot the missiles have distinct ids, there are at most 1024 of them and at most 512
  in flight; each is inside the map; its target, if it names one, is a unit of the snapshot on another side,
  and its attacker, if it names one, is a unit of its own side.\<close>

theorem snapshot_missiles:
  assumes "validateSnapshotState lib payload schema = None"
  shows "distinct (map (\<lambda>m. textField m ''id'') (missiles payload))
    \<and> length (missiles payload) \<le> 1024 \<and> length (filter inFlight (missiles payload)) \<le> 512
    \<and> (\<forall>m \<in> set (missiles payload).
         0 \<le> missilePlace m 0 \<and> missilePlace m 0 \<le> mapSize payload ''widthMeters''
         \<and> 0 \<le> missilePlace m 1 \<and> missilePlace m 1 \<le> mapSize payload ''heightMeters''
         \<and> (textField m ''targetId'' \<noteq> [] \<longrightarrow> (\<exists>u \<in> set (unitsOfSnapshot payload).
              textField u ''id'' = textField m ''targetId'' \<and> textField u ''side'' \<noteq> textField m ''side''))
         \<and> (textField m ''attackerId'' \<noteq> [] \<longrightarrow> (\<exists>u \<in> set (unitsOfSnapshot payload).
              textField u ''id'' = textField m ''attackerId'' \<and> textField u ''side'' = textField m ''side'')))"
proof -
  have p: "projectedProjectiles payload (isObserver payload)"
    using assms by (simp add: snapshot_None)
  then have a: "projectileArray (jget payload ''projectiles'') (isObserver payload)"
    by (simp add: projectedProjectiles_def Let_def)
  then have l: "length (jtoArray (jget payload ''projectiles'')) \<le> 1024"
    and pl: "projectileList (isObserver payload) (jtoArray (jget payload ''projectiles'')) {} 0"
    by (simp_all add: projectileArray_def)
  have each: "0 \<le> missilePlace m 0 \<and> missilePlace m 0 \<le> mapSize payload ''widthMeters''
      \<and> 0 \<le> missilePlace m 1 \<and> missilePlace m 1 \<le> mapSize payload ''heightMeters''
      \<and> (textField m ''targetId'' \<noteq> [] \<longrightarrow> (\<exists>u \<in> set (unitsOfSnapshot payload).
           textField u ''id'' = textField m ''targetId'' \<and> textField u ''side'' \<noteq> textField m ''side''))
      \<and> (textField m ''attackerId'' \<noteq> [] \<longrightarrow> (\<exists>u \<in> set (unitsOfSnapshot payload).
           textField u ''id'' = textField m ''attackerId'' \<and> textField u ''side'' = textField m ''side''))"
    if m: "m \<in> set (missiles payload)" for m
  proof -
    obtain v where v: "v \<in> set (jtoArray (jget payload ''projectiles''))" "m = jtoObject v"
      using m by (auto simp: missiles_def)
    obtain s where s: "unitSides payload = Some s"
      and fits: "projectileFits (mapSize payload ''widthMeters'') (mapSize payload ''heightMeters'') s v"
      using p v(1) by (fastforce simp: projectedProjectiles_def mapSize_def Let_def list_all_iff split: option.splits)
    have t: "map_of s (textField m ''targetId'') = Some y \<Longrightarrow> y \<noteq> textField m ''side'' \<Longrightarrow> \<exists>u \<in> set (unitsOfSnapshot payload).
        textField u ''id'' = textField m ''targetId'' \<and> textField u ''side'' \<noteq> textField m ''side''" for y
      using unitSides_sound [OF s] by metis
    show ?thesis
      using fits t unitSides_sound [OF s, of "textField m ''attackerId''" "textField m ''side''"]
      unfolding projectileFits_def Let_def v(2) missilePlace_def textField_def by auto
  qed
  show ?thesis
    using projectileList_sound [OF pl] l each by (simp add: missiles_def comp_def filter_map)
qed

text \<open>A snapshot with a missile in flight.\<close>

definition exUnit :: "string \<Rightarrow> string \<Rightarrow> json" where
  "exUnit i side = JObj [(''id'', JStr i), (''side'', JStr side)]"

definition exMissile :: json where
  "exMissile = JObj [(''id'', JStr ''m1''), (''side'', JStr ''red''), (''position'', JArr [JNum 10, JNum 20]),
     (''headingRad'', JNum 0), (''speed'', JNum 300), (''age'', JNum 1), (''lifetime'', JNum 60), (''active'', JBool True),
     (''resultSettled'', JBool False), (''attackerId'', JStr ''r1''), (''targetId'', JStr ''b1'')]"

definition exSnapshot :: jobject where
  "exSnapshot = [(''schemaVersion'', JNum 8), (''stateRevision'', JNum 3),
     (''scenario'', JObj [(''map'', JObj [(''widthMeters'', JNum 100), (''heightMeters'', JNum 100)]),
        (''units'', JArr [exUnit ''r1'' ''red'', exUnit ''b1'' ''blue''])]),
     (''units'', JArr [exUnit ''r1'' ''red'', exUnit ''b1'' ''blue'']), (''projectiles'', JArr [exMissile]),
     (''roomState'', JObj [(''phase'', JStr ''running'')])]"

lemma exSnapshot_valid: "validateSnapshotState exTime exSnapshot 8 = None"
  by code_simp

theorem snapshot_missiles_witness:
  "length (missiles exSnapshot) = 1 \<and> missilePlace (hd (missiles exSnapshot)) 0 \<le> mapSize exSnapshot ''widthMeters''"
  using snapshot_missiles [OF exSnapshot_valid] by (simp add: missiles_def exSnapshot_def json_simps)

section \<open>What an observer sees\<close>

lemma hasOnlyFieldsD:
  "hasOnlyFields ob names \<Longrightarrow> f \<notin> names \<Longrightarrow> \<not> jcontains ob f"
  by (auto simp: hasOnlyFields_def list_all_iff jcontains_def map_of_eq_None_iff)

lemma projectile_anonymous:
  assumes "projectileArray v True"
  shows "\<forall>m \<in> jtoObject ` set (jtoArray v). \<not> jcontains m ''attackerId'' \<and> \<not> jcontains m ''targetId''"
  using assms projectileList_sound [of True "jtoArray v" "{}" 0]
  by (auto simp: projectileArray_def list_all_iff projectileShape_def Let_def)

lemma units_for_observer:
  assumes "observerUnits v" and "f \<notin> runtimeUnitFields"
  shows "\<forall>u \<in> jtoObject ` set (jtoArray v). \<not> jcontains u f"
  using assms by (auto simp: observerUnits_def list_all_iff observerRuntimeUnit_def Let_def dest: hasOnlyFieldsD)

lemma room_for_observer:
  "observerRoomState room \<Longrightarrow> f \<notin> observerRoomFields \<Longrightarrow> \<not> jcontains room f"
  by (auto simp: observerRoomState_def dest: hasOnlyFieldsD)

text \<open>C5. A snapshot or a delta for an observer that the checks let through holds no messages, no intelligence, no
  map marks, no seats and no configuration of the room; no missile names its attacker or its target, and no running unit
  shows the state of its controller, its waypoints, its path or what actions it may take.\<close>

theorem observer_sees_no_secrets:
  assumes "validateServerPayload lib type payload schema = None" and "type = ''snapshot'' \<or> type = ''delta''"
    and "isObserver payload"
  shows "(\<forall>f \<in> {''messages'', ''intelState'', ''intelDelta'', ''chat''}. \<not> jcontains payload f)
    \<and> jtoArray (jget payload ''mapMarks'') = []
    \<and> (\<forall>f \<in> {''seats'', ''seatLimits'', ''seatParameters'', ''scenarioId'', ''cpIssues''}. \<not> jcontains (jtoObject (jget payload ''roomState'')) f)
    \<and> (\<forall>m \<in> set (missiles payload). \<not> jcontains m ''attackerId'' \<and> \<not> jcontains m ''targetId'')
    \<and> (\<forall>u \<in> jtoObject ` set (jtoArray (jget payload ''units'')).
         \<forall>f \<in> {''actions'', ''actionCapabilities'', ''fsmState'', ''waypoints'', ''recentPath''}. \<not> jcontains u f)"
proof -
  let ?room = "jtoObject (jget payload ''roomState'')"
  have part: "observerRoomState ?room \<and> observerUnits (jget payload ''units'') \<and> whenGiven payload ''mapMarks'' emptyArray
    \<and> (jcontains payload ''projectiles'' \<longrightarrow> projectileArray (jget payload ''projectiles'') True)
    \<and> (\<forall>f \<in> {''messages'', ''intelState'', ''intelDelta'', ''chat''}. \<not> jcontains payload f)"
  proof (cases "type = ''snapshot''")
    case True
    then have o: "observerSnapshot payload ?room" "\<not> jcontains payload ''intelState''"
      using assms(1,3) by (auto simp: validateServerPayload_def snapshot_None)
    have h: "hasOnlyFields payload observerSnapshotFields" and pp: "projectedProjectiles payload True"
      using o(1) by (simp_all add: observerSnapshot_def)
    have "\<forall>f \<in> {''messages'', ''intelDelta'', ''chat''}. \<not> jcontains payload f"
      using hasOnlyFieldsD [OF h] by (simp add: observerSnapshotFields_def)
    moreover have "projectileArray (jget payload ''projectiles'') True"
      using pp by (simp only: projectedProjectiles_def Let_def)
    ultimately show ?thesis
      using o by (simp add: observerSnapshot_def)
  next
    case False
    then have o: "observerDelta payload ?room"
      using assms by (auto simp: validateServerPayload_def deltaPayload_def)
    have h: "hasOnlyFields payload observerDeltaFields"
      using o by (simp add: observerDelta_def)
    have "\<forall>f \<in> {''messages'', ''intelState'', ''intelDelta'', ''chat''}. \<not> jcontains payload f"
      using hasOnlyFieldsD [OF h] by (simp add: observerDeltaFields_def)
    then show ?thesis
      using o by (simp add: observerDelta_def whenGiven_def)
  qed
  have absent: "\<not> jcontains payload f" if "f \<in> {''messages'', ''intelState'', ''intelDelta'', ''chat''}" for f
    using part that by blast
  have marks: "jtoArray (jget payload ''mapMarks'') = []"
    using part by (cases "jcontains payload ''mapMarks''") (auto simp: whenGiven_def emptyArray_def jget_def jcontains_def)
  have missile: "\<forall>m \<in> set (missiles payload). \<not> jcontains m ''attackerId'' \<and> \<not> jcontains m ''targetId''"
    using part projectile_anonymous [of "jget payload ''projectiles''"]
    by (cases "jcontains payload ''projectiles''") (auto simp: missiles_def jget_def jcontains_def)
  have room: "\<forall>f \<in> {''seats'', ''seatLimits'', ''seatParameters'', ''scenarioId'', ''cpIssues''}. \<not> jcontains ?room f"
    using part room_for_observer [of ?room] by (simp add: observerRoomFields_def)
  have unit: "\<forall>u \<in> jtoObject ` set (jtoArray (jget payload ''units'')). \<not> jcontains u f"
    if "f \<in> {''actions'', ''actionCapabilities'', ''fsmState'', ''waypoints'', ''recentPath''}" for f
    using that part by (intro units_for_observer) (auto simp: runtimeUnitFields_def)
  show ?thesis
    by (intro conjI ballI absent marks room [rule_format] missile [rule_format, THEN conjunct1]
        missile [rule_format, THEN conjunct2] unit [rule_format])
qed

definition exObserved :: jobject where
  "exObserved = [(''schemaVersion'', JNum 8), (''stateRevision'', JNum 3),
     (''scenario'', JObj [(''schemaVersion'', JNum 1), (''map'', JObj [(''name'', JStr ''m''), (''backgroundResource'', JStr []),
        (''widthMeters'', JNum 100), (''heightMeters'', JNum 100)]), (''units'', JArr [])]),
     (''units'', JArr []), (''projectiles'', JArr []),
     (''roomState'', JObj [(''phase'', JStr ''running''), (''observer'', JBool True)])]"

theorem observer_sees_no_secrets_witness:
  "\<not> jcontains exObserved ''messages'' \<and> missiles exObserved = []"
proof -
  have "validateServerPayload exTime ''snapshot'' exObserved 8 = None" "isObserver exObserved"
    by code_simp+
  from observer_sees_no_secrets [OF this(1) disjI1 [OF refl] this(2)]
  have "\<not> jcontains exObserved ''messages''"
    by simp
  then show ?thesis
    by (simp add: missiles_def exObserved_def json_simps)
qed

end
