(* ===== verification/StateDelta.thy ===== *)
theory StateDelta
  imports ProtocolProps
begin

text \<open>
  The delta between two snapshots of the state and its application on a client
  (\<open>src/src/protocol/StateDelta.cpp\<close>). Fields are compared and copied with their absence, so a field is an
  optional value here. A table of units or trails is an association list, in the order of its iteration.
\<close>

section \<open>Fields and tables\<close>

definition given :: "string \<Rightarrow> json option \<Rightarrow> jobject" where
  "given k v = (case v of None \<Rightarrow> [] | Some x \<Rightarrow> [(k, x)])"

definition givenFields :: "(string \<times> json option) list \<Rightarrow> jobject" where
  "givenFields values = concat (map (\<lambda>(k, v). given k v) values)"

definition unitId :: "jobject \<Rightarrow> string" where
  "unitId u = jtoString (jget u ''id'')"

fun insertUnits :: "json list \<Rightarrow> (string \<times> jobject) list \<Rightarrow> (string \<times> jobject) list" where
  "insertUnits [] table = table"
| "insertUnits (v # vs) table =
     insertUnits vs (if unitId (jtoObject v) = [] then table else AList.update (unitId (jtoObject v)) (jtoObject v) table)"

definition unitsById :: "json list \<Rightarrow> (string \<times> jobject) list" where
  "unitsById units = insertUnits units []"

definition unitIdSet :: "json list \<Rightarrow> string set" where
  "unitIdSet units = {i \<in> (\<lambda>v. unitId (jtoObject v)) ` set units. i \<noteq> []}"

definition sortedStringArray :: "string list \<Rightarrow> json" where
  "sortedStringArray values = jstrings (sort (remdups values))"

definition stringSet :: "json \<Rightarrow> string list" where
  "stringSet v = remdups (map jtoString (jtoArray v))"

section \<open>Trajectories\<close>

definition trajectoryForUnit :: "json list \<Rightarrow> string \<Rightarrow> jobject" where
  "trajectoryForUnit trails i =
     (case find (\<lambda>v. unitOf (jtoObject v) = i) trails of None \<Rightarrow> [] | Some v \<Rightarrow> jtoObject v)"

definition pointPrefix :: "json list \<Rightarrow> json list \<Rightarrow> bool" where
  "pointPrefix front full \<longleftrightarrow> length front \<le> length full \<and> take (length front) full = front"

definition pointTime :: "json \<Rightarrow> json" where
  "pointTime v = jget (jtoObject v) (timeKey (jtoObject v))"

definition trajectoryUpdate :: "string \<Rightarrow> bool \<Rightarrow> json list \<Rightarrow> jobject" where
  "trajectoryUpdate i reset points = [(''points'', JArr points), (''reset'', JBool reset), (''unitId'', JStr i)]"

text \<open>The time a trail is trimmed to: that of its first point, if there is one.\<close>

definition trimTime :: "json list \<Rightarrow> jobject" where
  "trimTime points = (case points of [] \<Rightarrow> [] | p # ps \<Rightarrow> given ''trimBefore'' (map_of (jtoObject p) (timeKey (jtoObject p))))"

definition updateFor :: "bool \<Rightarrow> json list \<Rightarrow> json list \<Rightarrow> string \<Rightarrow> jobject option" where
  "updateFor resetSelection baseTrails trails i =
     (let before = trajectoryForUnit baseTrails i; after = trajectoryForUnit trails i;
          old = pointsOf before; new = pointsOf after
      in if resetSelection then Some (trajectoryUpdate i True new)
         else if after = [] then Some (trajectoryUpdate i True [])
         else if before = after then None
         else if pointPrefix old new then Some (trajectoryUpdate i False (drop (length old) new) @ trimTime new)
         else Some (trajectoryUpdate i True new @ trimTime new))"

definition trajectories :: "jobject \<Rightarrow> jobject" where
  "trajectories state = jtoObject (jget state ''observerTrajectories'')"

definition selectedUnits :: "jobject \<Rightarrow> string list" where
  "selectedUnits t = stringSet (jget t ''selectedUnitIds'')"

definition trailsOf :: "jobject \<Rightarrow> json list" where
  "trailsOf t = jtoArray (jget t ''trails'')"

definition makeTrajectoryDelta :: "jobject \<Rightarrow> jobject \<Rightarrow> jobject" where
  "makeTrajectoryDelta base current =
     (let b = trajectories base; c = trajectories current;
          ids = sort (selectedUnits c);
          resetSelection = (b = [] \<or> set (selectedUnits b) \<noteq> set (selectedUnits c))
      in [(''selectedUnitIds'', sortedStringArray (selectedUnits c)),
          (''updates'', JArr (map JObj (List.map_filter (updateFor resetSelection (trailsOf b) (trailsOf c)) ids)))])"

definition trailTable :: "json list \<Rightarrow> string list \<Rightarrow> (string \<times> json list) list" where
  "trailTable trails selected =
     filter (\<lambda>(i, _). i \<in> set selected)
       (fold (\<lambda>v. AList.update (unitOf (jtoObject v)) (pointsOf (jtoObject v))) trails [])"

definition trailAt :: "(string \<times> json list) list \<Rightarrow> string \<Rightarrow> json list" where
  "trailAt table i = (case map_of table i of None \<Rightarrow> [] | Some points \<Rightarrow> points)"

definition trimTrail :: "jobject \<Rightarrow> json list \<Rightarrow> json list" where
  "trimTrail u points =
     (if jcontains u ''trimBefore''
      then filter (\<lambda>p. jtoDouble 0 (jget u ''trimBefore'') \<le> jtoDouble 0 (pointTime p)) points else points)"

definition lastPoints :: "json list \<Rightarrow> json list" where
  "lastPoints points = drop (length points - 90) points"

definition updatedTrail :: "jobject \<Rightarrow> json list \<Rightarrow> json list" where
  "updatedTrail u points =
     lastPoints (trimTrail u (if jtoBool False (jget u ''reset'') then pointsOf u else points @ pointsOf u))"

fun mergeUpdates :: "string list \<Rightarrow> json list \<Rightarrow> (string \<times> json list) list \<Rightarrow> (string \<times> json list) list option" where
  "mergeUpdates selected [] table = Some table"
| "mergeUpdates selected (v # vs) table =
     (let u = jtoObject v in
      if unitOf u \<notin> set selected then None
      else mergeUpdates selected vs (AList.update (unitOf u) (updatedTrail u (trailAt table (unitOf u))) table))"

definition trailArray :: "(string \<times> json list) list \<Rightarrow> json" where
  "trailArray table =
     JArr (map (\<lambda>i. JObj [(''points'', JArr (trailAt table i)), (''unitId'', JStr i)]) (sort (map fst table)))"

definition mergeTrajectoryDelta :: "jobject \<Rightarrow> jobject \<Rightarrow> jobject option" where
  "mergeTrajectoryDelta candidate delta =
     (let incoming = jtoObject (jget delta ''observerTrajectoryDelta''); selected = selectedUnits incoming in
      if incoming = [] then Some candidate
      else case mergeUpdates selected (jtoArray (jget incoming ''updates''))
                  (trailTable (trailsOf (trajectories candidate)) selected) of
        None \<Rightarrow> None
      | Some table \<Rightarrow> Some (jset ''observerTrajectories''
          (JObj [(''selectedUnitIds'', sortedStringArray selected), (''trails'', trailArray table)]) candidate))"

section \<open>Making a delta\<close>

definition stateSchema :: "jobject \<Rightarrow> int" where
  "stateSchema state = jtoInt 0 (jget state ''schemaVersion'')"

definition stateRevision :: "jobject \<Rightarrow> int" where
  "stateRevision state = jtoInteger 0 (jget state ''stateRevision'')"

definition unitArray :: "jobject \<Rightarrow> json list" where
  "unitArray state = jtoArray (jget state ''units'')"

definition roomOf :: "jobject \<Rightarrow> jobject" where
  "roomOf state = jtoObject (jget state ''roomState'')"

definition canCreate :: "TimeLib \<Rightarrow> jobject \<Rightarrow> jobject \<Rightarrow> bool" where
  "canCreate lib base current \<longleftrightarrow> base \<noteq> [] \<and> current \<noteq> []
     \<and> supportedWireVersion (stateSchema base) (stateSchema base) \<and> stateSchema current = stateSchema base
     \<and> map_of base ''scenario'' = map_of current ''scenario''
     \<and> validateSnapshotState lib base (stateSchema base) = None
     \<and> validateSnapshotState lib current (stateSchema base) = None
     \<and> stateRevision base < stateRevision current
     \<and> unitIdSet (unitArray base) = unitIdSet (unitArray current)"

definition changedUnits :: "jobject \<Rightarrow> jobject \<Rightarrow> (string \<times> jobject) list" where
  "changedUnits base current =
     filter (\<lambda>(i, u). map_of (unitsById (unitArray base)) i \<noteq> Some u) (unitsById (unitArray current))"

definition changedField :: "jobject \<Rightarrow> jobject \<Rightarrow> string \<Rightarrow> json option" where
  "changedField base current f = (if map_of base f \<noteq> map_of current f then map_of current f else None)"

definition trajectoryPart :: "jobject \<Rightarrow> jobject \<Rightarrow> json option" where
  "trajectoryPart base current =
     (if map_of base ''observerTrajectories'' \<noteq> map_of current ''observerTrajectories''
      then Some (JObj (makeTrajectoryDelta base current)) else None)"

definition intelOf :: "TimeLib \<Rightarrow> jobject \<Rightarrow> IntelState option" where
  "intelOf lib state = intelStateFromJson lib (jtoObject (jget state ''intelState''))"

text \<open>The intelligence part of the delta; none if it cannot be made.\<close>

definition intelPart :: "TimeLib \<Rightarrow> jobject \<Rightarrow> jobject \<Rightarrow> jobject option" where
  "intelPart lib base current =
     (if 5 \<le> stateSchema base \<and> map_of base ''intelState'' \<noteq> map_of current ''intelState''
      then (case (intelOf lib base, intelOf lib current) of
              (Some before, Some after) \<Rightarrow>
                (let d = makeIntelDelta lib before after in if d = [] then None else Some [(''intelDelta'', JObj d)])
            | _ \<Rightarrow> None)
      else Some [])"

definition deltaCore :: "jobject \<Rightarrow> jobject \<Rightarrow> jobject" where
  "deltaCore base current = givenFields
     [(''schemaVersion'', Some (jint (stateSchema base))),
      (''baseStateRevision'', map_of base ''stateRevision''),
      (''stateRevision'', map_of current ''stateRevision''),
      (''scenarioRevision'', map_of (roomOf current) ''scenarioRevision''),
      (''units'', Some (JArr (map (\<lambda>(_, u). JObj u) (changedUnits base current)))),
      (''changedUnitIds'', Some (sortedStringArray (map fst (changedUnits base current)))),
      (''roomState'', map_of current ''roomState''),
      (''messages'', changedField base current ''messages''),
      (''mapMarks'', changedField base current ''mapMarks''),
      (''projectiles'', changedField base current ''projectiles''),
      (''observerTrajectoryDelta'', trajectoryPart base current)]"

definition createDelta :: "TimeLib \<Rightarrow> jobject \<Rightarrow> jobject \<Rightarrow> jobject" where
  "createDelta lib base current =
     (if \<not> canCreate lib base current then []
      else case intelPart lib base current of None \<Rightarrow> [] | Some part \<Rightarrow> deltaCore base current @ part)"

section \<open>Applying a delta\<close>

text \<open>The units of a delta put into the table, with their ids; none if one is not known.\<close>

fun mergeUnits :: "json list \<Rightarrow> string set \<Rightarrow> (string \<times> jobject) list \<Rightarrow> (string set \<times> (string \<times> jobject) list) option" where
  "mergeUnits [] changed table = Some (changed, table)"
| "mergeUnits (v # vs) changed table =
     (let u = jtoObject v; i = unitId u in
      if i = [] \<or> map_of table i = None then None
      else mergeUnits vs (insert i changed) (AList.update i u table))"

definition sortedUnits :: "(string \<times> jobject) list \<Rightarrow> json" where
  "sortedUnits table = JArr (map (\<lambda>i. JObj (the (map_of table i))) (sort (map fst table)))"

definition putField :: "jobject \<Rightarrow> string \<Rightarrow> jobject \<Rightarrow> jobject" where
  "putField delta f state = (if jcontains delta f then jset f (jget delta f) state else state)"

definition deltaApplicable :: "TimeLib \<Rightarrow> jobject \<Rightarrow> jobject \<Rightarrow> bool" where
  "deltaApplicable lib state delta \<longleftrightarrow> state \<noteq> []
     \<and> supportedWireVersion (stateSchema state) (stateSchema state) \<and> stateSchema delta = stateSchema state
     \<and> validateServerPayload lib ''delta'' delta (stateSchema state) = None
     \<and> \<not> (stateSchema state = 4 \<and> jcontains delta ''intelDelta'')
     \<and> jtoInteger 0 (jget delta ''baseStateRevision'') = stateRevision state
     \<and> stateRevision state < stateRevision delta
     \<and> jtoInteger 0 (jget delta ''scenarioRevision'') = jtoInteger 0 (jget (roomOf state) ''scenarioRevision'')
     \<and> isJArr (jget delta ''units'') \<and> isJObj (jget delta ''roomState'')"

definition mergeIntel :: "TimeLib \<Rightarrow> jobject \<Rightarrow> jobject \<Rightarrow> jobject option" where
  "mergeIntel lib delta state =
     (if 5 \<le> stateSchema state \<and> jcontains delta ''intelDelta''
      then (case intelOf lib state of
              None \<Rightarrow> None
            | Some intel \<Rightarrow>
               (case applyIntelDelta lib intel (jtoObject (jget delta ''intelDelta'')) of
                  None \<Rightarrow> None
                | Some intel' \<Rightarrow> Some (jset ''intelState'' (JObj (intelStateToJson intel')) state)))
      else Some state)"

definition mergeFields :: "jobject \<Rightarrow> (string \<times> jobject) list \<Rightarrow> jobject \<Rightarrow> jobject" where
  "mergeFields delta table state =
     putField delta ''observerTrajectories'' (putField delta ''projectiles'' (putField delta ''mapMarks''
       (putField delta ''messages'' (jset ''roomState'' (jget delta ''roomState'') (jset ''units'' (sortedUnits table) state)))))"

definition applyDelta :: "TimeLib \<Rightarrow> jobject \<Rightarrow> jobject \<Rightarrow> jobject option" where
  "applyDelta lib state delta =
     (if \<not> deltaApplicable lib state delta then None
      else case mergeUnits (unitArray delta) {} (unitsById (unitArray state)) of
        None \<Rightarrow> None
      | Some (changed, table) \<Rightarrow>
         if jcontains delta ''changedUnitIds'' \<and> set (stringSet (jget delta ''changedUnitIds'')) \<noteq> changed then None
         else
        (case mergeTrajectoryDelta (mergeFields delta table state) delta of
          None \<Rightarrow> None
        | Some merged \<Rightarrow>
        (case mergeIntel lib delta merged of
          None \<Rightarrow> None
        | Some merged' \<Rightarrow>
           (let candidate = jset ''stateRevision'' (jint (stateRevision delta)) merged'
            in if validateSnapshotState lib candidate (stateSchema state) = None then Some candidate else None))))"

end
