(* ===== verification/StateDeltaProps.thy ===== *)
theory StateDeltaProps
  imports StateDelta
begin

text \<open>
  Snapshots and their deltas: what an applied delta leaves of the state, that a delta made from two snapshots
  turns the first into the second, and the same for the trails of selected units.
\<close>

section \<open>Tables of units\<close>

definition table_ok :: "(string \<times> jobject) list \<Rightarrow> bool" where
  "table_ok t \<longleftrightarrow> distinct (map fst t) \<and> (\<forall>i u. map_of t i = Some u \<longrightarrow> unitId u = i \<and> i \<noteq> [])"

lemma table_ok_update:
  "table_ok t \<Longrightarrow> unitId u = i \<Longrightarrow> i \<noteq> [] \<Longrightarrow> table_ok (AList.update i u t)"
  by (auto simp: table_ok_def update_conv' intro: distinct_update)

lemma table_ok_Nil: "table_ok []"
  by (simp add: table_ok_def)

lemma table_ok_insertUnits: "table_ok t \<Longrightarrow> table_ok (insertUnits vs t)"
  by (induction vs t rule: insertUnits.induct) (simp_all add: table_ok_update)

lemma table_ok_unitsById: "table_ok (unitsById vs)"
  by (simp add: unitsById_def table_ok_insertUnits table_ok_Nil)

lemma unitIdSet_Cons:
  "unitIdSet (v # vs) = (if unitId (jtoObject v) = [] then {} else {unitId (jtoObject v)}) \<union> unitIdSet vs"
  by (auto simp: unitIdSet_def)

lemma unitIdSet_Nil: "unitIdSet [] = {}"
  by (simp add: unitIdSet_def)

lemma dom_insertUnits: "dom (map_of (insertUnits vs t)) = unitIdSet vs \<union> dom (map_of t)"
  by (induction vs t rule: insertUnits.induct) (auto simp: unitIdSet_Cons unitIdSet_Nil update_conv')

lemma dom_unitsById: "dom (map_of (unitsById vs)) = unitIdSet vs"
  by (simp add: unitsById_def dom_insertUnits)

lemma keys_unitsById: "fst ` set (unitsById vs) = unitIdSet vs"
  using dom_unitsById [of vs] by (simp add: dom_map_of_conv_image_fst)

lemma insertUnits_other: "i \<notin> unitIdSet vs \<Longrightarrow> map_of (insertUnits vs t) i = map_of t i"
  by (induction vs t rule: insertUnits.induct) (auto simp: unitIdSet_Cons update_conv' split: if_splits)

lemma insertUnits_objects:
  assumes "distinct (map unitId us)" and "\<forall>u \<in> set us. unitId u \<noteq> []" and "u \<in> set us"
  shows "map_of (insertUnits (map JObj us) t) (unitId u) = Some u"
  using assms
proof (induction us arbitrary: t)
  case (Cons w us)
  show ?case
  proof (cases "u = w")
    case True
    then have "unitId u \<notin> unitIdSet (map JObj us)"
      using Cons.prems(1) by (auto simp: unitIdSet_def)
    then show ?thesis
      using True Cons.prems(2) by (simp add: insertUnits_other update_conv')
  next
    case False
    then show ?thesis
      using Cons by simp
  qed
qed simp

text \<open>The array written from a table is read back as the table.\<close>

definition tableUnits :: "(string \<times> jobject) list \<Rightarrow> jobject list" where
  "tableUnits t = map (\<lambda>i. the (map_of t i)) (sort (map fst t))"

lemma sortedUnits_eq: "sortedUnits t = JArr (map JObj (tableUnits t))"
  by (simp add: sortedUnits_def tableUnits_def)

lemma tableUnits_ids: "table_ok t \<Longrightarrow> map unitId (tableUnits t) = sort (map fst t)"
proof -
  assume t: "table_ok t"
  have "unitId (the (map_of t i)) = i" if "i \<in> fst ` set t" for i
    using t that by (auto simp: table_ok_def map_of_eq_None_iff domIff dest!: weak_map_of_SomeI)
  then show ?thesis
    by (simp add: tableUnits_def) (rule map_idI, simp)
qed

lemma set_tableUnits: "set (tableUnits t) = ran (map_of t)"
proof -
  have "set (tableUnits t) = (\<lambda>i. the (map_of t i)) ` dom (map_of t)"
    by (simp add: tableUnits_def dom_map_of_conv_image_fst)
  then show ?thesis
    by (force simp: ran_def)
qed

lemma tableUnits_facts:
  assumes "table_ok t"
  shows "distinct (map unitId (tableUnits t))" and "\<forall>u \<in> set (tableUnits t). unitId u \<noteq> []"
  using assms tableUnits_ids [OF assms] by (auto simp: set_tableUnits ran_def table_ok_def)

lemma read_sortedUnits:
  assumes "table_ok t"
  shows "map_of (unitsById (jtoArray (sortedUnits t))) = map_of t"
proof
  fix i
  show "map_of (unitsById (jtoArray (sortedUnits t))) i = map_of t i"
  proof (cases "map_of t i")
    case None
    then have "i \<notin> unitIdSet (jtoArray (sortedUnits t))"
      using assms by (auto simp: sortedUnits_eq unitIdSet_def set_tableUnits ran_def table_ok_def)
    then show ?thesis
      using None by (simp add: unitsById_def insertUnits_other)
  next
    case (Some u)
    then have "u \<in> set (tableUnits t)" and "unitId u = i"
      using assms by (auto simp: set_tableUnits ranI table_ok_def)
    then show ?thesis
      using insertUnits_objects [OF tableUnits_facts [OF assms], of u "[]"] Some by (simp add: unitsById_def sortedUnits_eq)
  qed
qed

lemma mergeUnits_eq:
  "mergeUnits vs changed t = Some (changed', t') \<Longrightarrow>
   t' = insertUnits vs t \<and> changed' = changed \<union> unitIdSet vs \<and> unitIdSet vs \<subseteq> dom (map_of t)"
proof (induction vs arbitrary: changed t)
  case (Cons v vs)
  let ?i = "unitId (jtoObject v)" and ?t = "AList.update (unitId (jtoObject v)) (jtoObject v) t"
  have v: "?i \<noteq> []" "?i \<in> dom (map_of t)" and r: "mergeUnits vs (insert ?i changed) ?t = Some (changed', t')"
    using Cons.prems by (auto simp: Let_def split: if_splits)
  have "dom (map_of ?t) = dom (map_of t)"
    using v(2) by (auto simp: update_conv')
  then show ?case
    using Cons.IH [OF r] v by (auto simp: unitIdSet_Cons)
qed (simp add: unitIdSet_Nil)

lemma mergeUnits_known:
  "\<forall>v \<in> set vs. unitId (jtoObject v) \<noteq> [] \<and> unitId (jtoObject v) \<in> dom (map_of t) \<Longrightarrow>
   mergeUnits vs changed t = Some (changed \<union> unitIdSet vs, insertUnits vs t)"
proof (induction vs arbitrary: changed t)
  case (Cons v vs)
  let ?i = "unitId (jtoObject v)" and ?t = "AList.update (unitId (jtoObject v)) (jtoObject v) t"
  have d: "dom (map_of ?t) = dom (map_of t)"
    using Cons.prems by (auto simp: update_conv')
  have "mergeUnits vs (insert ?i changed) ?t = Some (insert ?i changed \<union> unitIdSet vs, insertUnits vs ?t)"
    by (rule Cons.IH) (use Cons.prems d in simp)
  moreover have "?i \<noteq> []" "map_of t ?i \<noteq> None"
    using Cons.prems by auto
  ultimately show ?case
    by (simp add: Let_def unitIdSet_Cons)
qed (simp add: unitIdSet_Nil)

section \<open>What an applied delta leaves\<close>

lemma mergeTrajectory_other:
  "mergeTrajectoryDelta c d = Some m \<Longrightarrow> f \<noteq> ''observerTrajectories'' \<Longrightarrow> map_of m f = map_of c f"
  by (auto simp: mergeTrajectoryDelta_def Let_def map_of_jset split: if_splits option.splits)

lemma mergeIntel_other:
  "mergeIntel lib d c = Some m \<Longrightarrow> f \<noteq> ''intelState'' \<Longrightarrow> map_of m f = map_of c f"
  by (auto simp: mergeIntel_def map_of_jset split: if_splits option.splits)

lemma map_of_putField: "map_of (putField d f c) k = (if k = f \<and> jcontains d f then Some (jget d f) else map_of c k)"
  by (simp add: putField_def map_of_jset)

lemma map_of_mergeFields:
  "map_of (mergeFields d t c) k =
     (if k \<in> {''observerTrajectories'', ''projectiles'', ''mapMarks'', ''messages''} \<and> jcontains d k then Some (jget d k)
      else if k = ''roomState'' then Some (jget d ''roomState'')
      else if k = ''units'' then Some (sortedUnits t) else map_of c k)"
  by (auto simp: mergeFields_def map_of_putField map_of_jset)

text \<open>The steps of an application that succeeds.\<close>

lemma applyDelta_Some:
  assumes "applyDelta lib s d = Some s'"
  obtains m m' where "deltaApplicable lib s d"
    and "mergeUnits (unitArray d) {} (unitsById (unitArray s)) =
      Some (unitIdSet (unitArray d), insertUnits (unitArray d) (unitsById (unitArray s)))"
    and "mergeTrajectoryDelta (mergeFields d (insertUnits (unitArray d) (unitsById (unitArray s))) s) d = Some m"
    and "mergeIntel lib d m = Some m'" and "s' = jset ''stateRevision'' (jint (stateRevision d)) m'"
    and "validateSnapshotState lib s' (stateSchema s) = None"
    and "unitIdSet (unitArray d) \<subseteq> unitIdSet (unitArray s)"
proof -
  obtain c t where t: "mergeUnits (unitArray d) {} (unitsById (unitArray s)) = Some (c, t)"
    using assms by (auto simp: applyDelta_def split: if_splits option.splits)
  have ct: "c = unitIdSet (unitArray d)" "t = insertUnits (unitArray d) (unitsById (unitArray s))"
    "unitIdSet (unitArray d) \<subseteq> unitIdSet (unitArray s)"
    using mergeUnits_eq [OF t] by (simp_all add: dom_unitsById)
  obtain m where m: "mergeTrajectoryDelta (mergeFields d t s) d = Some m"
    using assms t by (auto simp: applyDelta_def split: if_splits option.splits)
  obtain m' where m': "mergeIntel lib d m = Some m'"
    using assms t m by (auto simp: applyDelta_def split: if_splits option.splits)
  have "deltaApplicable lib s d" "s' = jset ''stateRevision'' (jint (stateRevision d)) m'"
    "validateSnapshotState lib s' (stateSchema s) = None"
    using assms t m m' by (auto simp: applyDelta_def Let_def split: if_splits)
  then show thesis
    using that t m m' ct by simp
qed

lemma revision_written:
  assumes "nonNegativeInteger v" and "jtoInteger 0 v = n"
  shows "jtoInteger d (jint n) = n"
proof -
  obtain r where r: "v = JNum r" "0 \<le> r" "r \<le> of_int maxSafeInteger" "of_int \<lfloor>r\<rfloor> = r"
    using assms(1) by (cases v) (auto simp: nonNegativeInteger_def)
  have "0 \<le> \<lfloor>r\<rfloor>" "\<lfloor>r\<rfloor> \<le> 9007199254740991"
    using r(2,3) by (simp_all add: maxSafeInteger_def floor_le_iff)
  moreover from this have "n = \<lfloor>r\<rfloor>"
    using assms(2) r by simp
  ultimately show ?thesis
    by (intro jtoInteger_jint) auto
qed

text \<open>What a delta does to the state it is applied to.\<close>

lemma delta_effect:
  assumes "applyDelta lib s d = Some s'"
  shows "validateSnapshotState lib s' (stateSchema s) = None
    \<and> jtoInteger 0 (jget d ''baseStateRevision'') = stateRevision s
    \<and> stateRevision s' = stateRevision d \<and> stateRevision s < stateRevision s'
    \<and> map_of s' ''scenario'' = map_of s ''scenario'' \<and> stateSchema s' = stateSchema s
    \<and> unitIdSet (unitArray s') = unitIdSet (unitArray s)
    \<and> map_of (unitsById (unitArray s')) = map_of (unitsById (unitArray s)) ++ map_of (unitsById (unitArray d))"
proof -
  let ?t = "insertUnits (unitArray d) (unitsById (unitArray s))"
  obtain m m' where ok: "deltaApplicable lib s d"
    and m: "mergeTrajectoryDelta (mergeFields d ?t s) d = Some m" and m': "mergeIntel lib d m = Some m'"
    and s': "s' = jset ''stateRevision'' (jint (stateRevision d)) m'"
    and v: "validateSnapshotState lib s' (stateSchema s) = None" and sub: "unitIdSet (unitArray d) \<subseteq> unitIdSet (unitArray s)"
    by (rule applyDelta_Some [OF assms])
  have f: "map_of s' k = map_of (mergeFields d ?t s) k"
    if "k \<noteq> ''stateRevision''" "k \<noteq> ''intelState''" "k \<noteq> ''observerTrajectories''" for k
    using that mergeIntel_other [OF m'] mergeTrajectory_other [OF m] by (simp add: s' map_of_jset)
  have units: "jget s' ''units'' = sortedUnits ?t"
    by (simp add: jget_def f map_of_mergeFields)
  have t: "table_ok ?t"
    by (simp add: table_ok_insertUnits table_ok_unitsById)
  have read: "map_of (unitsById (unitArray s')) = map_of ?t"
    unfolding unitArray_def [of s'] units by (rule read_sortedUnits [OF t])
  have whole: "map_of (insertUnits vs t0) = map_of t0 ++ map_of (insertUnits vs [])" for vs t0
  proof (induction vs rule: rev_induct)
    case (snoc v vs)
    have "insertUnits (vs @ [v]) t = insertUnits [v] (insertUnits vs t)" for t
      by (induction vs arbitrary: t) simp_all
    then show ?case
      using snoc by (auto simp: update_conv' map_add_def fun_eq_iff split: option.splits)
  qed simp
  have "unitIdSet (unitArray s') = unitIdSet (unitArray s)"
    using sub dom_unitsById [of "unitArray s'"] by (auto simp: read dom_insertUnits dom_unitsById)
  moreover have "stateSchema s' = stateSchema s" "map_of s' ''scenario'' = map_of s ''scenario''"
    by (simp_all add: stateSchema_def jget_def f map_of_mergeFields)
  moreover have "stateRevision s' = stateRevision d"
  proof -
    have "deltaShape d (stateSchema s)"
      using ok by (simp add: deltaApplicable_def validateServerPayload_def deltaPayload_def)
    then have "nonNegativeInteger (jget d ''stateRevision'')"
      by (simp add: deltaShape_def)
    from revision_written [OF this refl] show ?thesis
      by (simp add: stateRevision_def s' json_simps)
  qed
  moreover have "map_of (unitsById (unitArray s')) = map_of (unitsById (unitArray s)) ++ map_of (unitsById (unitArray d))"
    unfolding read unitsById_def [of "unitArray d"] by (rule whole)
  ultimately show ?thesis
    using ok v by (simp add: deltaApplicable_def)
qed

text \<open>C25. A delta that is applied starts from the revision of the state and leads to a higher one; the result is a
  valid snapshot of the same scenario and schema with the same units, and units the delta does not hold keep
  their state while the ones it holds take that of the delta.\<close>

theorem applied_delta:
  assumes "applyDelta lib s d = Some s'"
  shows "validateSnapshotState lib s' (stateSchema s) = None
    \<and> jtoInteger 0 (jget d ''baseStateRevision'') = stateRevision s
    \<and> stateRevision s' = stateRevision d \<and> stateRevision s < stateRevision s'
    \<and> map_of s' ''scenario'' = map_of s ''scenario'' \<and> stateSchema s' = stateSchema s
    \<and> unitIdSet (unitArray s') = unitIdSet (unitArray s)
    \<and> map_of (unitsById (unitArray s')) = map_of (unitsById (unitArray s)) ++ map_of (unitsById (unitArray d))"
  using delta_effect [OF assms] .

section \<open>Sides of units do not depend on the order of the units\<close>

definition sidesAgree :: "(string \<rightharpoonup> string) \<Rightarrow> json \<Rightarrow> bool" where
  "sidesAgree M v \<longleftrightarrow> isJObj v \<and> (unitId (jtoObject v) \<noteq> [] \<longrightarrow> protocolIdentifier (jget (jtoObject v) ''id'')
     \<and> sideValid (jget (jtoObject v) ''side'') \<and> M (unitId (jtoObject v)) = Some (textField (jtoObject v) ''side''))"

lemma collectSides_complete:
  "\<forall>v \<in> set vs. sidesAgree M v \<Longrightarrow> map_of sides \<subseteq>\<^sub>m M \<Longrightarrow>
   \<exists>s. collectSides vs sides = Some s \<and> map_of s \<subseteq>\<^sub>m M \<and> dom (map_of s) = dom (map_of sides) \<union> unitIdSet vs"
proof (induction vs arbitrary: sides)
  case (Cons v vs)
  let ?i = "unitId (jtoObject v)" and ?x = "textField (jtoObject v) ''side''"
  have v: "sidesAgree M v" and rest: "\<forall>v \<in> set vs. sidesAgree M v"
    using Cons.prems(1) by simp_all
  show ?case
  proof (cases "?i = []")
    case True
    then show ?thesis
      using Cons.IH [OF rest Cons.prems(2)] v by (simp add: sidesAgree_def unitId_def Let_def unitIdSet_Cons)
  next
    case False
    then have m: "M ?i = Some ?x" and c: "isJObj v" "protocolIdentifier (jget (jtoObject v) ''id'')"
      "sideValid (jget (jtoObject v) ''side'')"
      using v by (auto simp: sidesAgree_def)
    have "map_of sides ?i = None \<or> map_of sides ?i = Some ?x"
    proof (cases "map_of sides ?i")
      case (Some y)
      then have "map_of sides ?i = M ?i"
        using Cons.prems(2) domI [of "map_of sides" ?i y] unfolding map_le_def by blast
      then show ?thesis
        using m by simp
    qed simp
    then have step: "collectSides (v # vs) sides = collectSides vs (AList.update ?i ?x sides)"
      using False c by (auto simp: Let_def unitId_def textField_def)
    have "map_of (AList.update ?i ?x sides) \<subseteq>\<^sub>m M"
      using Cons.prems(2) m by (auto simp: map_le_def update_conv')
    from Cons.IH [OF rest this] show ?thesis
      using False step by (auto simp: update_conv' unitIdSet_Cons)
  qed
qed (simp add: unitIdSet_Nil)

lemma collectSides_agree:
  "collectSides vs sides = Some s \<Longrightarrow>
   map_of sides \<subseteq>\<^sub>m map_of s \<and> dom (map_of s) = dom (map_of sides) \<union> unitIdSet vs \<and> (\<forall>v \<in> set vs. sidesAgree (map_of s) v)"
proof (induction vs arbitrary: sides)
  case (Cons v vs)
  let ?i = "unitId (jtoObject v)" and ?x = "textField (jtoObject v) ''side''"
  show ?case
  proof (cases "?i = []")
    case True
    then have "collectSides vs sides = Some s" "isJObj v"
      using Cons.prems by (auto simp: Let_def unitId_def split: if_splits)
    then show ?thesis
      using Cons.IH True by (auto simp: unitIdSet_Cons sidesAgree_def)
  next
    case False
    then have c: "isJObj v" "protocolIdentifier (jget (jtoObject v) ''id'')" "sideValid (jget (jtoObject v) ''side'')"
      "map_of sides ?i = None \<or> map_of sides ?i = Some ?x" and r: "collectSides vs (AList.update ?i ?x sides) = Some s"
      using Cons.prems by (auto simp: Let_def unitId_def textField_def split: if_splits)
    note IH = Cons.IH [OF r]
    have "map_of s ?i = Some ?x"
      using IH by (auto simp: map_le_def update_conv' dom_def)
    moreover have "map_of sides \<subseteq>\<^sub>m map_of s"
      using IH c(4) by (auto simp: map_le_def update_conv' dom_def split: if_splits)
    ultimately show ?thesis
      using IH c False by (auto simp: update_conv' unitIdSet_Cons sidesAgree_def)
  qed
qed (simp add: unitIdSet_Nil)

lemma collectSides_same:
  assumes "collectSides vs sides = Some s" and "set ws \<subseteq> set vs" and "unitIdSet ws = unitIdSet vs"
  shows "\<exists>s'. collectSides ws sides = Some s' \<and> map_of s' = map_of s"
proof -
  note a = collectSides_agree [OF assms(1)]
  obtain s' where s': "collectSides ws sides = Some s'" "map_of s' \<subseteq>\<^sub>m map_of s"
    "dom (map_of s') = dom (map_of sides) \<union> unitIdSet ws"
    using collectSides_complete [of ws "map_of s" sides] subsetD [OF assms(2)] a by blast
  have d: "dom (map_of s') = dom (map_of s)"
    using s'(3) a assms(3) by simp
  have "map_of s' i = map_of s i" for i
  proof (cases "i \<in> dom (map_of s')")
    case True
    then show ?thesis
      using s'(2) by (simp add: map_le_def)
  next
    case False
    moreover from this have "i \<notin> dom (map_of s)"
      using d by simp
    ultimately show ?thesis
      by (simp add: domIff)
  qed
  then show ?thesis
    using s'(1) by blast
qed

section \<open>A snapshot stays valid when its units are put in another order\<close>

lemma hasOnlyFields_iff: "hasOnlyFields ob names \<longleftrightarrow> (\<forall>f. jcontains ob f \<longrightarrow> f \<in> names)"
  by (auto simp: hasOnlyFields_def list_all_iff jcontains_def map_of_eq_None_iff)

lemma projected_same:
  assumes p: "projectedProjectiles c a" and f: "\<And>k. k \<noteq> ''units'' \<Longrightarrow> jget s k = jget c k"
    and u: "jget s ''units'' = JArr ws" "set ws \<subseteq> set (unitArray c)" "unitIdSet ws = unitIdSet (unitArray c)"
  shows "projectedProjectiles s a"
proof (cases "jtoArray (jget c ''projectiles'') = []")
  case True
  then show ?thesis
    using p by (simp add: projectedProjectiles_def Let_def f)
next
  case False
  obtain t where t: "unitSides c = Some t"
    using p False by (auto simp: projectedProjectiles_def Let_def split: option.splits)
  then obtain t1 where t1: "collectFrom (jget (jtoObject (jget c ''scenario'')) ''units'') [] = Some t1"
    and t2: "collectSides (unitArray c) t1 = Some t"
    by (auto simp: unitSides_def collectFrom_def unitArray_def split: option.splits if_splits)
  obtain t' where "collectSides ws t1 = Some t'" and same: "map_of t' = map_of t"
    using collectSides_same [OF t2 u(2,3)] by blast
  then have "unitSides s = Some t'"
    using t1 by (simp add: unitSides_def f u(1) collectFrom_def)
  moreover have "projectileFits w h t' = projectileFits w h t" for w h
    by (rule ext) (simp add: projectileFits_def same)
  ultimately show ?thesis
    using p False t by (simp add: projectedProjectiles_def Let_def f)
qed

lemma snapshot_same:
  assumes c: "validateSnapshotState lib c schema = None" and k: "\<And>k. k \<noteq> ''units'' \<Longrightarrow> map_of s k = map_of c k"
    and u: "jget s ''units'' = JArr ws" "set ws \<subseteq> set (unitArray c)" "unitIdSet ws = unitIdSet (unitArray c)"
  shows "validateSnapshotState lib s schema = None"
proof -
  have f: "jget s k = jget c k" if "k \<noteq> ''units''" for k
    using k [OF that] by (simp add: jget_def)
  have g: "jcontains s k = jcontains c k" if "k \<noteq> ''units''" for k
    using k [OF that] by (simp add: jcontains_def)
  have arr: "jget c ''units'' = JArr (unitArray c)"
    using c by (cases "jget c ''units''") (auto simp: snapshot_None snapshotShape_def unitArray_def)
  have "runtimeActionFields (jget c ''units'')" "runtimeActionFields (JArr ws)" if "runtimeActionFields (jget c ''units'')"
    using that u(2) by (auto simp: arr runtimeActionFields_def list_all_iff)
  then have "snapshotShape s schema"
    using c by (auto simp: snapshot_None snapshotShape_def whenGiven_def f g u(1))
  moreover have "projectSnapshot s = projectSnapshot c"
    by (simp add: projectSnapshot_def f g Let_def)
  moreover have o: "isObserver s = isObserver c"
    by (simp add: isObserver_def f)
  moreover have "projectedProjectiles s (isObserver c)"
    by (rule projected_same [OF _ f u]) (use c in \<open>simp_all add: snapshot_None\<close>)
  moreover have "observerSnapshot s (jtoObject (jget s ''roomState''))" if "isObserver c"
  proof -
    have oc: "observerSnapshot c (jtoObject (jget c ''roomState''))"
      using c that by (simp add: snapshot_None)
    have "observerUnits (JArr ws)"
      using oc u(2) by (auto simp: observerSnapshot_def observerUnits_def arr list_all_iff)
    moreover have "hasOnlyFields s observerSnapshotFields"
      unfolding hasOnlyFields_iff
    proof (intro allI impI)
      fix k
      assume k: "jcontains s k"
      show "k \<in> observerSnapshotFields"
      proof (cases "k = ''units''")
        case True
        then show ?thesis
          by (simp add: observerSnapshotFields_def)
      next
        case False
        then show ?thesis
          using oc g k hasOnlyFields_iff [of c] by (simp only: observerSnapshot_def) blast
      qed
    qed
    moreover have "projectedProjectiles s True"
      by (rule projected_same [OF _ f u]) (use oc in \<open>simp_all add: observerSnapshot_def\<close>)
    ultimately show ?thesis
      using oc by (simp add: observerSnapshot_def f g u(1) whenGiven_def)
  qed
  ultimately show ?thesis
    using c by (simp add: snapshot_None f g)
qed

section \<open>The delta between two snapshots\<close>

text \<open>Two snapshots that can be synchronised by a delta: they differ in the synchronised fields only, the later
  one lacks none of them, the scenario revision of the rooms is the same, and there are at most 512 units.\<close>

definition syncable :: "TimeLib \<Rightarrow> jobject \<Rightarrow> jobject \<Rightarrow> bool" where
  "syncable lib b c \<longleftrightarrow> canCreate lib b c \<and> length (unitArray c) \<le> 512
     \<and> list_all (\<lambda>v. protocolIdentifier (jget (jtoObject v) ''id'')) (unitArray c)
     \<and> nonNegativeInteger (jget (roomOf c) ''scenarioRevision'')
     \<and> jtoInteger 0 (jget (roomOf c) ''scenarioRevision'') = jtoInteger 0 (jget (roomOf b) ''scenarioRevision'')
     \<and> (\<forall>k. k \<notin> {''stateRevision'', ''units'', ''roomState'', ''messages'', ''mapMarks'', ''projectiles''} \<longrightarrow> map_of b k = map_of c k)
     \<and> (jcontains b ''messages'' \<longrightarrow> jcontains c ''messages'') \<and> (jcontains b ''mapMarks'' \<longrightarrow> jcontains c ''mapMarks'')"

lemma map_of_givenFields:
  "distinct (map fst fs) \<Longrightarrow> map_of (givenFields fs) k = Option.bind (map_of fs k) id"
proof (induction fs)
  case (Cons kv fs)
  have "map_of fs (fst kv) = None"
    using Cons.prems by (simp add: map_of_eq_None_iff)
  moreover have "givenFields (kv # fs) = given (fst kv) (snd kv) @ givenFields fs"
    by (simp add: givenFields_def case_prod_unfold)
  ultimately show ?case
    using Cons by (cases kv) (auto simp: given_def map_add_def split: option.splits)
qed (simp add: givenFields_def)

lemma hasOnly_givenFields: "list_all (\<lambda>(k, v). k \<in> names) fs \<Longrightarrow> hasOnlyFields (givenFields fs) names"
  by (auto simp: hasOnlyFields_def givenFields_def given_def list_all_iff split: option.splits)

lemma createDelta_core:
  assumes "syncable lib b c"
  shows "createDelta lib b c = deltaCore b c" and "trajectoryPart b c = None"
proof -
  have "map_of b ''intelState'' = map_of c ''intelState''" "map_of b ''observerTrajectories'' = map_of c ''observerTrajectories''"
    using assms by (simp_all add: syncable_def)
  then show "createDelta lib b c = deltaCore b c" "trajectoryPart b c = None"
    using assms by (simp_all add: createDelta_def intelPart_def trajectoryPart_def syncable_def)
qed

lemma core_map:
  "map_of (deltaCore b c) k = Option.bind (map_of
     [(''schemaVersion'', Some (jint (stateSchema b))),
      (''baseStateRevision'', map_of b ''stateRevision''),
      (''stateRevision'', map_of c ''stateRevision''),
      (''scenarioRevision'', map_of (roomOf c) ''scenarioRevision''),
      (''units'', Some (JArr (map (\<lambda>(_, u). JObj u) (changedUnits b c)))),
      (''changedUnitIds'', Some (sortedStringArray (map fst (changedUnits b c)))),
      (''roomState'', map_of c ''roomState''),
      (''messages'', changedField b c ''messages''),
      (''mapMarks'', changedField b c ''mapMarks''),
      (''projectiles'', changedField b c ''projectiles''),
      (''observerTrajectoryDelta'', trajectoryPart b c)] k) id"
  unfolding deltaCore_def by (rule map_of_givenFields) simp

lemma core_fields:
  shows "map_of (deltaCore b c) ''schemaVersion'' = Some (jint (stateSchema b))"
    and "map_of (deltaCore b c) ''baseStateRevision'' = map_of b ''stateRevision''"
    and "map_of (deltaCore b c) ''stateRevision'' = map_of c ''stateRevision''"
    and "map_of (deltaCore b c) ''scenarioRevision'' = map_of (roomOf c) ''scenarioRevision''"
    and "map_of (deltaCore b c) ''units'' = Some (JArr (map (\<lambda>(_, u). JObj u) (changedUnits b c)))"
    and "map_of (deltaCore b c) ''changedUnitIds'' = Some (sortedStringArray (map fst (changedUnits b c)))"
    and "map_of (deltaCore b c) ''roomState'' = map_of c ''roomState''"
    and "map_of (deltaCore b c) ''messages'' = changedField b c ''messages''"
    and "map_of (deltaCore b c) ''mapMarks'' = changedField b c ''mapMarks''"
    and "map_of (deltaCore b c) ''projectiles'' = changedField b c ''projectiles''"
    and "map_of (deltaCore b c) ''observerTrajectoryDelta'' = trajectoryPart b c"
    and "map_of (deltaCore b c) ''observerTrajectories'' = None"
    and "map_of (deltaCore b c) ''intelState'' = None" and "map_of (deltaCore b c) ''intelDelta'' = None"
  unfolding core_map by simp_all

lemma core_names: "hasOnlyFields (deltaCore b c) (insert ''messages'' observerDeltaFields)"
  unfolding deltaCore_def by (rule hasOnly_givenFields) (simp add: observerDeltaFields_def)

subsection \<open>The units that changed\<close>

lemma distinct_unitsById: "distinct (map fst (unitsById vs))"
  using table_ok_unitsById by (simp add: table_ok_def)

lemma changed_iff:
  "(i, u) \<in> set (changedUnits b c) \<longleftrightarrow>
   map_of (unitsById (unitArray c)) i = Some u \<and> map_of (unitsById (unitArray b)) i \<noteq> Some u"
  by (simp add: changedUnits_def map_of_eq_Some_iff [OF distinct_unitsById])

lemma unitsById_member:
  assumes "map_of (unitsById vs) i = Some u"
  shows "u \<in> jtoObject ` set vs \<and> unitId u = i \<and> i \<noteq> []"
proof -
  have "u \<in> jtoObject ` set vs \<or> map_of t i = Some u" if "map_of (insertUnits vs t) i = Some u" for t
    using that
  proof (induction vs t rule: insertUnits.induct)
    case (2 v vs table)
    then show ?case
      by (auto simp: update_conv' split: if_splits)
  qed simp
  then have "u \<in> jtoObject ` set vs"
    using assms by (fastforce simp: unitsById_def)
  then show ?thesis
    using assms table_ok_unitsById [of vs] by (simp add: table_ok_def)
qed

lemma length_insertUnits: "length (insertUnits vs t) \<le> length vs + length t"
proof (induction vs t rule: insertUnits.induct)
  case (2 v vs table)
  have "length (AList.update k u table) \<le> Suc (length table)" for k u
    by (induction table) auto
  then show ?case
    using 2 by (auto intro: order_trans)
qed simp

lemma changed_ids:
  "unitIdSet (map (\<lambda>(_, u). JObj u) (changedUnits b c)) = fst ` set (changedUnits b c)"
  (is "?l = ?r")
proof -
  have "unitId u = i \<and> i \<noteq> []" if "(i, u) \<in> set (changedUnits b c)" for i u
    using that unitsById_member by (auto simp: changed_iff)
  then show ?thesis
    by (force simp: unitIdSet_def image_iff)
qed

text \<open>Putting the changed units into the table of the first snapshot gives that of the second.\<close>

lemma changed_merge:
  assumes "unitIdSet (unitArray b) = unitIdSet (unitArray c)"
  shows "map_of (insertUnits (map (\<lambda>(_, u). JObj u) (changedUnits b c)) (unitsById (unitArray b))) = map_of (unitsById (unitArray c))"
proof
  fix i
  let ?us = "map snd (changedUnits b c)" and ?b = "unitsById (unitArray b)" and ?c = "unitsById (unitArray c)"
  have us: "map (\<lambda>(_, u). JObj u) (changedUnits b c) = map JObj ?us"
    by (simp add: case_prod_unfold)
  have id: "unitId u = j \<and> j \<noteq> []" if "(j, u) \<in> set (changedUnits b c)" for j u
    using that unitsById_member by (auto simp: changed_iff)
  then have ids: "map unitId ?us = map fst (changedUnits b c)"
    by auto
  have "distinct (map fst (changedUnits b c))"
    unfolding changedUnits_def by (rule distinct_map_filter [OF distinct_unitsById])
  then have d: "distinct (map unitId ?us)" "\<forall>u \<in> set ?us. unitId u \<noteq> []"
    unfolding ids using id by auto
  show "map_of (insertUnits (map (\<lambda>(_, u). JObj u) (changedUnits b c)) ?b) i = map_of ?c i"
  proof (cases "i \<in> fst ` set (changedUnits b c)")
    case True
    then obtain u where u: "(i, u) \<in> set (changedUnits b c)"
      by auto
    then have "u \<in> set ?us"
      by force
    from insertUnits_objects [OF d this] show ?thesis
      using id [OF u] u by (simp add: us changed_iff)
  next
    case False
    then have "map_of (insertUnits (map (\<lambda>(_, u). JObj u) (changedUnits b c)) ?b) i = map_of ?b i"
      by (intro insertUnits_other) (simp add: changed_ids)
    moreover have "map_of ?b i = map_of ?c i"
    proof (cases "map_of ?c i")
      case None
      then show ?thesis
        using assms dom_unitsById [of "unitArray b"] dom_unitsById [of "unitArray c"] by (metis domIff)
    next
      case (Some u)
      then show ?thesis
        using False changed_iff [of i u b c] by (metis fst_conv image_eqI)
    qed
    ultimately show ?thesis
      by simp
  qed
qed

subsection \<open>The delta that is made is accepted\<close>

lemma freshIds_strings:
  "distinct is \<Longrightarrow> \<forall>i \<in> set is. protocolIdentifier (JStr i) \<and> i \<notin> ids \<Longrightarrow> freshIds (map JStr is) ids"
proof (induction "is" arbitrary: ids)
  case (Cons a "is")
  have "distinct is" and "\<forall>i \<in> set is. protocolIdentifier (JStr i) \<and> i \<notin> insert a ids"
    using Cons.prems by auto
  from Cons.IH [OF this] show ?case
    using Cons.prems(2) by simp
qed simp

lemma projectileList_weaken: "projectileList a vs ids n \<Longrightarrow> projectileList False vs ids n"
  by (induction a vs ids n rule: projectileList.induct) (auto simp: Let_def projectileShape_def)

lemma projectileArray_weaken: "projectileArray v a \<Longrightarrow> projectileArray v False"
  by (auto simp: projectileArray_def dest: projectileList_weaken)

lemma unit_of_table:
  assumes "validateSnapshotState lib c s = None" and "map_of (unitsById (unitArray c)) i = Some u"
  shows "JObj u \<in> set (unitArray c)" and "unitId u = i"
proof -
  have u: "u \<in> jtoObject ` set (unitArray c) \<and> unitId u = i"
    using assms(2) unitsById_member by auto
  then obtain v where v: "v \<in> set (unitArray c)" "u = jtoObject v"
    by auto
  have "runtimeActionFields (jget c ''units'')"
    using assms(1) by (simp add: snapshot_None snapshotShape_def)
  then have "isJObj v"
    using v(1) by (auto simp: runtimeActionFields_def unitArray_def list_all_iff)
  then have "v = JObj u"
    using v(2) by (cases v) auto
  then show "JObj u \<in> set (unitArray c)" "unitId u = i"
    using v(1) u by auto
qed

lemma unit_of_current:
  assumes "validateSnapshotState lib c s = None" and "(i, u) \<in> set (changedUnits b c)"
  shows "JObj u \<in> set (unitArray c)" and "unitId u = i"
  using assms unit_of_table by (auto simp: changed_iff)

lemma changed_array:
  assumes "syncable lib b c"
  shows "set (map (\<lambda>(_, u). JObj u) (changedUnits b c)) \<subseteq> set (unitArray c)"
    and "changedUnitIdList (sortedStringArray (map fst (changedUnits b c)))"
proof -
  have v: "validateSnapshotState lib c (stateSchema b) = None"
    using assms by (simp add: syncable_def canCreate_def)
  show "set (map (\<lambda>(_, u). JObj u) (changedUnits b c)) \<subseteq> set (unitArray c)"
    using unit_of_current(1) [OF v] by auto
  have named: "list_all (\<lambda>v. protocolIdentifier (jget (jtoObject v) ''id'')) (unitArray c)"
    using assms by (simp add: syncable_def)
  have ids: "protocolIdentifier (JStr i)" if i: "i \<in> fst ` set (changedUnits b c)" for i
  proof -
    obtain u where u: "(i, u) \<in> set (changedUnits b c)"
      using i by auto
    then have "protocolIdentifier (jget u ''id'')"
      using named unit_of_current(1) [OF v u] by (fastforce simp: list_all_iff)
    moreover have "jtoString (jget u ''id'') = i"
      using unit_of_current(2) [OF v u] by (simp add: unitId_def)
    ultimately show ?thesis
      by (simp add: protocolIdentifier_def)
  qed
  have "length (remdups (map fst (changedUnits b c))) \<le> length (changedUnits b c)"
    using length_remdups_leq [of "map fst (changedUnits b c)"] by simp
  also have "\<dots> \<le> length (unitsById (unitArray c))"
    by (simp add: changedUnits_def)
  also have "\<dots> \<le> 512"
    using assms length_insertUnits [of "unitArray c" "[]"] by (simp add: unitsById_def syncable_def)
  finally show "changedUnitIdList (sortedStringArray (map fst (changedUnits b c)))"
    using ids by (simp add: changedUnitIdList_def sortedStringArray_def jstrings_def freshIds_strings)
qed

lemma core_get:
  "jget (deltaCore b c) ''schemaVersion'' = jint (stateSchema b)"
  "jget (deltaCore b c) ''baseStateRevision'' = jget b ''stateRevision''"
  "jget (deltaCore b c) ''stateRevision'' = jget c ''stateRevision''"
  "jget (deltaCore b c) ''scenarioRevision'' = jget (roomOf c) ''scenarioRevision''"
  "jget (deltaCore b c) ''units'' = JArr (map (\<lambda>(_, u). JObj u) (changedUnits b c))"
  "jget (deltaCore b c) ''changedUnitIds'' = sortedStringArray (map fst (changedUnits b c))"
  "jget (deltaCore b c) ''roomState'' = jget c ''roomState''"
  by (simp_all add: jget_def core_fields)

lemma core_changed:
  assumes "f \<in> {''messages'', ''mapMarks'', ''projectiles''}" and "jcontains (deltaCore b c) f"
  shows "jget (deltaCore b c) f = jget c f \<and> jcontains c f"
  using assms by (auto simp: jget_def jcontains_def core_fields changedField_def split: if_splits)

lemma core_accepted:
  assumes s: "syncable lib b c"
  shows "validateServerPayload lib ''delta'' (deltaCore b c) (stateSchema b) = None"
proof -
  let ?d = "deltaCore b c"
  have b: "validateSnapshotState lib b (stateSchema b) = None" and c: "validateSnapshotState lib c (stateSchema b) = None"
    and w: "supportedWireVersion (stateSchema b) (stateSchema b)" and r: "stateRevision b < stateRevision c"
    using s by (simp_all add: syncable_def canCreate_def)
  note arr = changed_array [OF s] and traj = createDelta_core(2) [OF s]
  have cs: "snapshotShape c (stateSchema b)" and bs: "snapshotShape b (stateSchema b)"
    using b c by (simp_all add: snapshot_None)
  have schema: "stateSchema b \<in> {4, 6, 7, 8}"
    using supported_versions [OF w] by blast
  have units: "runtimeActionFields (JArr (map (\<lambda>(_, u). JObj u) (changedUnits b c)))"
    using cs arr(1) by (auto simp: snapshotShape_def runtimeActionFields_def unitArray_def list_all_iff)
  have pc: "projectileArray (jget c ''projectiles'') (isObserver c)"
    using c by (simp add: snapshot_None projectedProjectiles_def Let_def)
  have shape: "deltaShape ?d (stateSchema b)"
    using bs cs r s units arr(2) core_changed [of "''projectiles''" b c] projectileArray_weaken [OF pc]
    by (simp add: deltaShape_def core_get version_read [OF schema] snapshotShape_def stateRevision_def syncable_def whenGiven_def)
  have life: "projectRoomLifecycle (jtoObject (jget c ''roomState'')) \<noteq> None"
    using c by (auto simp: snapshot_None projectSnapshot_def Let_def split: if_splits)
  have o: "isObserver ?d = isObserver c"
    by (simp add: isObserver_def core_get)
  have marks: "whenGiven ?d ''mapMarks'' isJArr"
    using cs core_changed [of "''mapMarks''" b c] by (simp add: whenGiven_def snapshotShape_def)
  have "observerDelta ?d (jtoObject (jget c ''roomState''))" if ob: "isObserver c"
  proof -
    have oc: "observerSnapshot c (jtoObject (jget c ''roomState''))"
      using c ob by (simp add: snapshot_None)
    then have nm: "\<not> jcontains c ''messages''"
      using hasOnlyFieldsD [of c observerSnapshotFields "''messages''"] by (simp add: observerSnapshot_def observerSnapshotFields_def)
    have only: "hasOnlyFields ?d observerDeltaFields"
      using core_names [of b c] core_changed [of "''messages''" b c] nm unfolding hasOnlyFields_iff by auto
    have "observerUnits (JArr (map (\<lambda>(_, u). JObj u) (changedUnits b c)))"
      using oc arr(1) by (auto simp: observerSnapshot_def observerUnits_def unitArray_def list_all_iff)
    moreover have "\<not> jcontains ?d ''observerTrajectoryDelta''"
      by (simp add: jcontains_def core_fields traj)
    ultimately show ?thesis
      using oc only arr(2) pc ob core_changed [of "''projectiles''" b c] core_changed [of "''mapMarks''" b c]
      by (simp add: observerDelta_def core_get whenGiven_def observerSnapshot_def)
  qed
  then show ?thesis
    using shape life marks
    by (simp add: validateServerPayload_def deltaPayload_def o core_get jcontains_def core_fields whenGiven_def)
qed

section \<open>From one snapshot to the next\<close>

lemma set_stringSet: "set (stringSet (sortedStringArray is)) = set is"
  by (simp add: stringSet_def sortedStringArray_def jstrings_def json_simps)

lemma integer_written:
  assumes "nonNegativeInteger v"
  shows "jint (jtoInteger 0 v) = v"
proof -
  obtain r where r: "v = JNum r" "0 \<le> r" "r \<le> of_int maxSafeInteger" "of_int \<lfloor>r\<rfloor> = r"
    using assms by (cases v) (auto simp: nonNegativeInteger_def)
  have "0 \<le> \<lfloor>r\<rfloor>" "\<lfloor>r\<rfloor> \<le> 9007199254740991"
    using r(2,3) by (simp_all add: maxSafeInteger_def floor_le_iff)
  then show ?thesis
    using r by (simp add: jint_def)
qed

lemma given_field: "jget ob k \<noteq> JNull \<Longrightarrow> map_of ob k = Some (jget ob k)"
  by (auto simp: jget_def split: option.splits)

lemma core_applicable:
  assumes s: "syncable lib b c"
  shows "deltaApplicable lib b (deltaCore b c)"
proof -
  have w: "supportedWireVersion (stateSchema b) (stateSchema b)" and c: "validateSnapshotState lib c (stateSchema b) = None"
    using s by (simp_all add: syncable_def canCreate_def)
  have "stateSchema b \<in> {4, 6, 7, 8}"
    using supported_versions [OF w] by blast
  then have "stateSchema (deltaCore b c) = stateSchema b"
    by (auto simp: stateSchema_def [of "deltaCore b c"] core_get json_simps)
  moreover have "isJObj (jget c ''roomState'')"
    using c by (simp add: snapshot_None snapshotShape_def)
  ultimately show ?thesis
    using s w core_accepted [OF s]
    by (simp add: deltaApplicable_def core_get stateRevision_def syncable_def canCreate_def roomOf_def jcontains_def core_fields)
qed

text \<open>The fields of the state after the merge.\<close>

lemma merged_synced:
  assumes "k \<in> {''messages'', ''mapMarks'', ''projectiles''}"
  shows "map_of (jset ''stateRevision'' v (mergeFields d t c)) k = (if jcontains d k then Some (jget d k) else map_of c k)"
  using assms unfolding insert_iff empty_iff by (elim disjE; simp add: map_of_jset map_of_mergeFields)

lemma field_cases:
  "k \<noteq> u \<Longrightarrow> (k = v \<Longrightarrow> P) \<Longrightarrow> (k = r \<Longrightarrow> P) \<Longrightarrow> (k \<in> S \<Longrightarrow> P) \<Longrightarrow> (k \<notin> insert v (insert u (insert r S)) \<Longrightarrow> P) \<Longrightarrow> P"
  by blast

lemma merged_fields:
  assumes s: "syncable lib b c" and k: "k \<noteq> ''units''"
  shows "map_of (jset ''stateRevision'' (jint (stateRevision (deltaCore b c))) (mergeFields (deltaCore b c) t b)) k = map_of c k"
proof -
  have c: "snapshotShape c (stateSchema b)"
    using s by (simp add: syncable_def canCreate_def snapshot_None)
  consider "k = ''stateRevision''" | "k = ''roomState''" | "k \<in> {''messages'', ''mapMarks'', ''projectiles''}"
    | "k \<notin> {''stateRevision'', ''units'', ''roomState'', ''messages'', ''mapMarks'', ''projectiles''}"
    using k by (rule field_cases)
  then show ?thesis
  proof cases
    case 1
    have "nonNegativeInteger (jget c ''stateRevision'')"
      using c by (simp add: snapshotShape_def)
    moreover from this have "jget c ''stateRevision'' \<noteq> JNull"
      by (auto simp: nonNegativeInteger_def)
    ultimately show ?thesis
      by (simp add: 1 map_of_jset stateRevision_def core_get integer_written given_field)
  next
    case 2
    have "jget c ''roomState'' \<noteq> JNull"
      using c by (auto simp: snapshotShape_def)
    then show ?thesis
      by (simp add: 2 map_of_jset map_of_mergeFields core_get given_field)
  next
    case 3
    have "isJArr (jget c ''projectiles'')"
      using c by (simp add: snapshotShape_def)
    then have pr: "jcontains c ''projectiles''"
      by (cases "map_of c ''projectiles''") (simp_all add: jget_def jcontains_def)
    have keep: "jcontains b k \<Longrightarrow> jcontains c k"
      using 3 s pr by (auto simp: syncable_def)
    have kd: "map_of (deltaCore b c) k = changedField b c k"
      using 3 by (auto simp: core_fields)
    show ?thesis
    proof (cases "jcontains (deltaCore b c) k")
      case True
      then have "map_of c k = Some (jget (deltaCore b c) k)"
        using core_changed [OF 3 True] by (cases "map_of c k") (simp_all add: jcontains_def jget_def)
      then show ?thesis
        using True by (simp add: merged_synced [OF 3])
    next
      case False
      then have "map_of b k = map_of c k"
        using keep by (auto simp: jcontains_def kd changedField_def split: if_splits)
      then show ?thesis
        using False by (simp add: merged_synced [OF 3])
    qed
  next
    case 4
    then have "map_of b k = map_of c k"
      using s by (simp add: syncable_def)
    moreover have "\<not> (k = ''observerTrajectories'' \<and> jcontains (deltaCore b c) k)"
      by (auto simp: jcontains_def core_fields)
    ultimately show ?thesis
      using 4 by (auto simp: map_of_jset map_of_mergeFields)
  qed
qed

text \<open>The delta between two snapshots leads from the first to the second.\<close>

lemma delta_reached:
  assumes s: "syncable lib b c"
  shows "\<exists>r. applyDelta lib b (deltaCore b c) = Some r
    \<and> (\<forall>k. k \<noteq> ''units'' \<longrightarrow> map_of r k = map_of c k)
    \<and> map_of (unitsById (unitArray r)) = map_of (unitsById (unitArray c))
    \<and> unitArray r = map JObj (tableUnits (unitsById (unitArray c)))"
proof -
  let ?d = "deltaCore b c" and ?B = "unitsById (unitArray b)" and ?C = "unitsById (unitArray c)"
  let ?t = "insertUnits (unitArray ?d) ?B"
  let ?r = "jset ''stateRevision'' (jint (stateRevision ?d)) (mergeFields ?d ?t b)"
  have ids: "unitIdSet (unitArray b) = unitIdSet (unitArray c)"
    and c: "validateSnapshotState lib c (stateSchema b) = None"
    using s by (simp_all add: syncable_def canCreate_def)
  have du: "unitArray ?d = map (\<lambda>(_, u). JObj u) (changedUnits b c)"
    by (simp add: unitArray_def core_get)
  have "unitId (jtoObject v) \<noteq> [] \<and> unitId (jtoObject v) \<in> dom (map_of ?B)" if "v \<in> set (unitArray ?d)" for v
    using that changed_iff [of _ _ b c] unitsById_member dom_unitsById [of "unitArray b"] dom_unitsById [of "unitArray c"]
    unfolding du ids by fastforce
  then have mu: "mergeUnits (unitArray ?d) {} ?B = Some (unitIdSet (unitArray ?d), ?t)"
    using mergeUnits_known [of "unitArray ?d" ?B "{}"] by simp
  have declared: "set (stringSet (jget ?d ''changedUnitIds'')) = unitIdSet (unitArray ?d)"
    by (simp add: core_get set_stringSet du changed_ids)
  have t: "map_of ?t = map_of ?C" "table_ok ?t" "table_ok ?C"
    using changed_merge [OF ids] by (simp_all add: du table_ok_insertUnits table_ok_unitsById)
  have same: "tableUnits ?t = tableUnits ?C"
  proof -
    have "sort (map fst ?t) = sort (map fst ?C)"
      using t dom_map_of_conv_image_fst [of ?t] dom_map_of_conv_image_fst [of ?C]
      by (intro linorder_class.sorted_distinct_set_unique) (simp_all add: table_ok_def)
    then show ?thesis
      by (simp add: tableUnits_def t(1))
  qed
  have "jget ?r ''units'' = sortedUnits ?t"
    by (simp add: jget_def map_of_jset map_of_mergeFields)
  then have units: "jget ?r ''units'' = JArr (map JObj (tableUnits ?C))"
    by (simp add: sortedUnits_eq same)
  then have arr: "unitArray ?r = map JObj (tableUnits ?C)"
    by (simp add: unitArray_def)
  have read: "map_of (unitsById (unitArray ?r)) = map_of ?C"
    using read_sortedUnits [OF t(3)] by (simp add: arr sortedUnits_eq)
  have "set (map JObj (tableUnits ?C)) \<subseteq> set (unitArray c)"
    using unit_of_table(1) [OF c] by (auto simp: set_tableUnits ran_def)
  moreover have "unitIdSet (map JObj (tableUnits ?C)) = unitIdSet (unitArray c)"
    using read dom_unitsById [of "unitArray ?r"] dom_unitsById [of "unitArray c"] by (simp add: arr)
  ultimately have "validateSnapshotState lib ?r (stateSchema b) = None"
    using snapshot_same [OF c _ units] merged_fields [OF s] by simp
  moreover have "mergeTrajectoryDelta (mergeFields ?d ?t b) ?d = Some (mergeFields ?d ?t b)"
    by (simp add: mergeTrajectoryDelta_def jget_def core_fields createDelta_core(2) [OF s])
  moreover have "mergeIntel lib ?d (mergeFields ?d ?t b) = Some (mergeFields ?d ?t b)"
    by (simp add: mergeIntel_def jcontains_def core_fields)
  ultimately have "applyDelta lib b ?d = Some ?r"
    using core_applicable [OF s] mu declared by (simp add: applyDelta_def)
  then show ?thesis
    using merged_fields [OF s] read arr by auto
qed

text \<open>C2. Two valid snapshots of the same scenario revision and the same at most 512 units with protocol identifiers, the
  second of a higher state revision, that differ in units, room state, messages, map marks and projectiles only (intelligence and trails travel
  in deltas of their own), where the second does not lack messages or map marks that the first has: the delta made from
  them, applied to the first, is accepted and gives the second, with its units in the order of their ids.\<close>

theorem delta_roundtrip:
  assumes s: "syncable lib b c"
  shows "\<exists>r. applyDelta lib b (createDelta lib b c) = Some r
    \<and> (\<forall>k. k \<noteq> ''units'' \<longrightarrow> map_of r k = map_of c k)
    \<and> map_of (unitsById (unitArray r)) = map_of (unitsById (unitArray c))
    \<and> unitArray r = map JObj (tableUnits (unitsById (unitArray c)))"
  using delta_reached [OF s] createDelta_core(1) [OF s] by simp

definition exState :: "int \<Rightarrow> rat \<Rightarrow> jobject" where
  "exState revision hp = [(''schemaVersion'', JNum 8), (''stateRevision'', jint revision),
     (''scenario'', JObj [(''units'', JArr [exUnit ''b1'' ''blue'', exUnit ''r1'' ''red''])]),
     (''units'', JArr [exUnit ''b1'' ''blue'', JObj [(''hp'', JNum hp), (''id'', JStr ''r1''), (''side'', JStr ''red'')]]),
     (''projectiles'', JArr []), (''roomState'', JObj [(''phase'', JStr ''running''), (''scenarioRevision'', JNum 2)])]"

lemma exState_syncable: "syncable exTime (exState 3 100) (exState 4 80)"
proof -
  have "canCreate exTime (exState 3 100) (exState 4 80)"
    by code_simp
  then show ?thesis
    by (simp add: syncable_def exState_def unitArray_def exUnit_def protocolIdentifier_def roomOf_def json_simps
        nonNegativeInteger_def maxSafeInteger_def)
qed

lemma exState_in_order: "map JObj (tableUnits (unitsById (unitArray (exState 4 80)))) = unitArray (exState 4 80)"
  by code_simp

theorem delta_roundtrip_witness:
  "\<exists>r. applyDelta exTime (exState 3 100) (createDelta exTime (exState 3 100) (exState 4 80)) = Some r
     \<and> unitArray r = unitArray (exState 4 80)"
  using delta_roundtrip [OF exState_syncable] exState_in_order by auto

theorem applied_delta_witness:
  "\<exists>r. applyDelta exTime (exState 3 100) (createDelta exTime (exState 3 100) (exState 4 80)) = Some r
     \<and> stateRevision r = stateRevision (createDelta exTime (exState 3 100) (exState 4 80))"
proof -
  have "applyDelta exTime (exState 3 100) (createDelta exTime (exState 3 100) (exState 4 80)) \<noteq> None"
    by code_simp
  then show ?thesis
    using applied_delta [of exTime "exState 3 100" "createDelta exTime (exState 3 100) (exState 4 80)"] by auto
qed

end
