(* ===== verification/StateDeltaTrails.thy ===== *)
theory StateDeltaTrails
  imports StateDeltaProps
begin

text \<open>
  The trails of the units an observer selected, sent as updates and put together again
  (\<open>makeTrajectoryDelta\<close>, \<open>mergeTrajectoryDelta\<close> of \<open>src/src/protocol/StateDelta.cpp\<close>).
\<close>

section \<open>Updates put into a table\<close>

lemma trailAt_update: "trailAt (AList.update i ps t) j = (if j = i then ps else trailAt t j)"
  by (simp add: trailAt_def update_conv')

lemma mergeUpdates_each:
  assumes "distinct (map unitOf us)" and "unitOf ` set us \<subseteq> set selected"
  shows "\<exists>t'. mergeUpdates selected (map JObj us) t = Some t'
    \<and> (\<forall>u \<in> set us. trailAt t' (unitOf u) = updatedTrail u (trailAt t (unitOf u)))
    \<and> (\<forall>i. i \<notin> unitOf ` set us \<longrightarrow> trailAt t' i = trailAt t i)
    \<and> fst ` set t' = fst ` set t \<union> unitOf ` set us"
  using assms
proof (induction us arbitrary: t)
  case (Cons u us)
  let ?t = "AList.update (unitOf u) (updatedTrail u (trailAt t (unitOf u))) t"
  obtain t' where t': "mergeUpdates selected (map JObj us) ?t = Some t'"
    "\<forall>w \<in> set us. trailAt t' (unitOf w) = updatedTrail w (trailAt ?t (unitOf w))"
    "\<forall>i. i \<notin> unitOf ` set us \<longrightarrow> trailAt t' i = trailAt ?t i"
    "fst ` set t' = fst ` set ?t \<union> unitOf ` set us"
    using Cons.IH [of ?t] Cons.prems by auto
  have apart: "unitOf w \<noteq> unitOf u" if "w \<in> set us" for w
  proof -
    have "unitOf u \<notin> unitOf ` set us"
      using Cons.prems(1) by simp
    then show ?thesis
      using that by (metis image_eqI)
  qed
  have "trailAt t' (unitOf u) = updatedTrail u (trailAt t (unitOf u))"
    using t'(3) Cons.prems(1) by (simp add: trailAt_update)
  moreover have "\<forall>w \<in> set us. trailAt t' (unitOf w) = updatedTrail w (trailAt t (unitOf w))"
    using t'(2) apart by (simp add: trailAt_update)
  ultimately show ?case
    using t' Cons.prems(2) by (simp add: trailAt_update dom_update)
qed simp

lemma find_trailArray:
  "pointsOf (trajectoryForUnit (jtoArray (trailArray t)) i) = trailAt t i"
proof -
  have "pointsOf (case find (\<lambda>v. unitOf (jtoObject v) = i)
            (map (\<lambda>j. JObj [(''points'', JArr (trailAt t j)), (''unitId'', JStr j)]) ks) of
          None \<Rightarrow> [] | Some v \<Rightarrow> jtoObject v) = (if i \<in> set ks then trailAt t i else [])" for ks
    by (induction ks) (auto simp: unitOf_def pointsOf_def json_simps)
  moreover have "trailAt t i = []" if "i \<notin> fst ` set t"
    using that by (simp add: trailAt_def map_of_eq_None_iff [THEN iffD2])
  ultimately show ?thesis
    by (auto simp: trajectoryForUnit_def trailArray_def)
qed

section \<open>Trails that passed the checks\<close>

lemma unitPoints_sound:
  "unitPoints shape selected vs seen \<Longrightarrow>
   (\<forall>v \<in> set vs. unitOf (jtoObject v) \<in> set selected \<and> unitOf (jtoObject v) \<notin> seen \<and> length (pointsOf (jtoObject v)) \<le> 90)
   \<and> distinct (map (\<lambda>v. unitOf (jtoObject v)) vs)"
  by (induction shape selected vs seen rule: unitPoints.induct) auto

lemma trails_sound:
  assumes "observerTrajectoriesValid (JObj t)"
  shows "\<forall>v \<in> set (trailsOf t). unitOf (jtoObject v) \<in> set (selectedUnits t) \<and> length (pointsOf (jtoObject v)) \<le> 90"
    and "distinct (map (\<lambda>v. unitOf (jtoObject v)) (trailsOf t))"
  using assms unitPoints_sound [of trailShape "observerUnitIds (jget t ''selectedUnitIds'')" "trailsOf t" "{}"]
  by (auto simp: observerTrajectoriesValid_def Let_def trailsOf_def selectedUnits_def stringSet_def observerUnitIds_def)

lemma trajectoryForUnit_cases:
  obtains v where "v \<in> set trails" and "unitOf (jtoObject v) = i" and "trajectoryForUnit trails i = jtoObject v"
  | "trajectoryForUnit trails i = []" and "i \<notin> (\<lambda>v. unitOf (jtoObject v)) ` set trails"
proof (cases "find (\<lambda>v. unitOf (jtoObject v) = i) trails")
  case None
  then have "trajectoryForUnit trails i = []"
    by (simp add: trajectoryForUnit_def)
  moreover have "i \<notin> (\<lambda>v. unitOf (jtoObject v)) ` set trails"
    using None by (auto simp: find_None_iff)
  ultimately show ?thesis
    by (rule that(2))
next
  case (Some v)
  then have "trajectoryForUnit trails i = jtoObject v"
    by (simp add: trajectoryForUnit_def)
  moreover have "v \<in> set trails" "unitOf (jtoObject v) = i"
    using Some by (auto simp: find_Some_iff)
  ultimately show ?thesis
    by (intro that(1))
qed

text \<open>The table read from trails with distinct units.\<close>

lemma fold_trails:
  assumes "distinct (map (\<lambda>v. unitOf (jtoObject v)) trails)"
  shows "trailAt (fold (\<lambda>v. AList.update (unitOf (jtoObject v)) (pointsOf (jtoObject v))) trails t) i =
    (if i \<in> (\<lambda>v. unitOf (jtoObject v)) ` set trails then pointsOf (trajectoryForUnit trails i) else trailAt t i)"
  using assms
proof (induction trails arbitrary: t)
  case (Cons v trails)
  then show ?case
    by (auto simp: trailAt_update trajectoryForUnit_def)
qed simp

lemma trailAt_filter: "trailAt (filter (\<lambda>(j, _). j \<in> S) t) i = (if i \<in> S then trailAt t i else [])"
  by (induction t) (auto simp: trailAt_def)

lemma pointsOf_Nil: "pointsOf [] = []"
  by (simp add: pointsOf_def json_simps)

lemma trailAt_table:
  assumes "distinct (map (\<lambda>v. unitOf (jtoObject v)) trails)"
  shows "trailAt (trailTable trails selected) i =
    (if i \<in> set selected then pointsOf (trajectoryForUnit trails i) else [])"
proof -
  have "pointsOf (trajectoryForUnit trails i) = []" if "i \<notin> (\<lambda>v. unitOf (jtoObject v)) ` set trails"
    using that by (cases rule: trajectoryForUnit_cases [of trails i]) (auto simp: pointsOf_Nil)
  then show ?thesis
    unfolding trailTable_def trailAt_filter fold_trails [OF assms] by (auto simp: trailAt_def)
qed

section \<open>One unit\<close>

text \<open>The points of a trail do not lie before its first point.\<close>

definition inTime :: "json list \<Rightarrow> bool" where
  "inTime points \<longleftrightarrow> list_all (\<lambda>p. jtoDouble 0 (pointTime (hd points)) \<le> jtoDouble 0 (pointTime p)) points"

lemma update_fields:
  "unitOf (trajectoryUpdate i reset points @ rest) = i"
  "pointsOf (trajectoryUpdate i reset points @ rest) = points"
  "jtoBool False (jget (trajectoryUpdate i reset points @ rest) ''reset'') = reset"
  "jcontains (trajectoryUpdate i reset points @ rest) ''trimBefore'' = jcontains rest ''trimBefore''"
  "jget (trajectoryUpdate i reset points @ rest) ''trimBefore'' = jget rest ''trimBefore''"
  by (simp_all add: trajectoryUpdate_def unitOf_def pointsOf_def json_simps)

lemma trim_in_time:
  assumes "inTime points"
  shows "trimTrail (trajectoryUpdate i reset ps @ trimTime points) points = points"
proof (cases points)
  case Nil
  then show ?thesis
    by (simp add: trimTrail_def)
next
  case (Cons p qs)
  show ?thesis
  proof (cases "map_of (jtoObject p) (timeKey (jtoObject p))")
    case None
    then have "trimTime points = []"
      by (simp add: Cons trimTime_def given_def)
    then show ?thesis
      using update_fields(4) [of i reset ps "[]"] by (simp add: trimTrail_def json_simps)
  next
    case (Some v)
    then have "pointTime p = v"
      by (simp add: pointTime_def jget_def)
    then have "filter (\<lambda>q. jtoDouble 0 v \<le> jtoDouble 0 (pointTime q)) points = points"
      using assms by (simp add: inTime_def Cons list_all_iff filter_id_conv)
    then show ?thesis
      by (simp add: trimTrail_def update_fields Cons trimTime_def given_def Some json_simps)
  qed
qed

lemma lastPoints_short: "length points \<le> 90 \<Longrightarrow> lastPoints points = points"
  by (simp add: lastPoints_def)

text \<open>The update of a unit turns its old trail into its new one.\<close>

lemma update_reaches:
  assumes "length (pointsOf (trajectoryForUnit trails i)) \<le> 90" and "inTime (pointsOf (trajectoryForUnit trails i))"
  shows "case updateFor r baseTrails trails i of
      None \<Rightarrow> pointsOf (trajectoryForUnit baseTrails i) = pointsOf (trajectoryForUnit trails i)
    | Some u \<Rightarrow> unitOf u = i
        \<and> updatedTrail u (pointsOf (trajectoryForUnit baseTrails i)) = pointsOf (trajectoryForUnit trails i)"
proof -
  let ?old = "pointsOf (trajectoryForUnit baseTrails i)" and ?new = "pointsOf (trajectoryForUnit trails i)"
  have plain: "unitOf (trajectoryUpdate i True ps) = i" "updatedTrail (trajectoryUpdate i True ps) qs = lastPoints ps" for ps qs
    using update_fields [of i True ps "[]"] by (simp_all add: updatedTrail_def trimTrail_def json_simps)
  have reset: "updatedTrail (trajectoryUpdate i True ?new @ trimTime ?new) ?old = ?new"
    by (simp add: updatedTrail_def update_fields trim_in_time [OF assms(2)] lastPoints_short [OF assms(1)])
  have append: "updatedTrail (trajectoryUpdate i False (drop (length ?old) ?new) @ trimTime ?new) ?old = ?new"
    if "pointPrefix ?old ?new"
  proof -
    have "?old @ drop (length ?old) ?new = ?new"
      using that append_take_drop_id [of "length ?old" ?new] by (simp add: pointPrefix_def)
    then show ?thesis
      by (simp add: updatedTrail_def update_fields trim_in_time [OF assms(2)] lastPoints_short [OF assms(1)])
  qed
  show ?thesis
    by (simp add: updateFor_def Let_def plain reset append update_fields lastPoints_short assms(1) pointsOf_Nil lastPoints_def)
qed

section \<open>All selected units\<close>

lemma set_map_filter: "set (List.map_filter f xs) = {y. \<exists>x \<in> set xs. f x = Some y}"
  by (induction xs) (auto split: option.splits)

lemma distinct_map_filter_key:
  "distinct xs \<Longrightarrow> (\<And>x y. x \<in> set xs \<Longrightarrow> f x = Some y \<Longrightarrow> key y = x) \<Longrightarrow> distinct (map key (List.map_filter f xs))"
proof (induction xs)
  case (Cons x xs)
  have "distinct (map key (List.map_filter f xs))"
    using Cons by simp
  moreover have "key y \<notin> key ` set (List.map_filter f xs)" if "f x = Some y" for y
    using that Cons.prems by (fastforce simp: set_map_filter)
  ultimately show ?case
    by (auto split: option.splits)
qed simp

text \<open>The trails of the units an observer selected are synchronised by updates: for valid old and new trails,
  points in time order, the delta made from them and merged into the old trails gives the new selection and the
  new points of every unit, whether the selection changed, points were appended, or old points were dropped.\<close>

theorem trails_roundtrip:
  assumes b: "trajectories base = [] \<or> observerTrajectoriesValid (JObj (trajectories base))"
    and c: "observerTrajectoriesValid (JObj (trajectories current))"
    and time: "\<forall>v \<in> set (trailsOf (trajectories current)). inTime (pointsOf (jtoObject v))"
  shows "\<exists>r. mergeTrajectoryDelta base [(''observerTrajectoryDelta'', JObj (makeTrajectoryDelta base current))] = Some r
    \<and> set (selectedUnits (trajectories r)) = set (selectedUnits (trajectories current))
    \<and> (\<forall>i. pointsOf (trajectoryForUnit (trailsOf (trajectories r)) i)
          = pointsOf (trajectoryForUnit (trailsOf (trajectories current)) i))"
proof -
  let ?b = "trajectories base" and ?c = "trajectories current"
  let ?sel = "selectedUnits ?c" and ?ids = "sort (selectedUnits ?c)"
  let ?reset = "?b = [] \<or> set (selectedUnits ?b) \<noteq> set ?sel"
  let ?f = "updateFor ?reset (trailsOf ?b) (trailsOf ?c)"
  let ?us = "List.map_filter ?f ?ids" and ?d = "makeTrajectoryDelta base current"
  let ?sel' = "selectedUnits ?d" and ?new = "\<lambda>i. pointsOf (trajectoryForUnit (trailsOf ?c) i)"
  have short: "length (?new i) \<le> 90" "inTime (?new i)" for i
    using trails_sound(1) [OF c] time
    by (cases rule: trajectoryForUnit_cases [of "trailsOf ?c" i]; force simp: pointsOf_Nil inTime_def)+
  have reach: "case ?f i of None \<Rightarrow> pointsOf (trajectoryForUnit (trailsOf ?b) i) = ?new i
    | Some u \<Rightarrow> unitOf u = i \<and> updatedTrail u (pointsOf (trajectoryForUnit (trailsOf ?b) i)) = ?new i" for i
    by (rule update_reaches [OF short])
  have sel': "set ?sel' = set ?sel"
    by (simp add: makeTrajectoryDelta_def Let_def selectedUnits_def [of "_ # _"] json_simps set_stringSet)
  have updates: "jtoArray (jget ?d ''updates'') = map JObj ?us"
    by (simp add: makeTrajectoryDelta_def Let_def json_simps)
  have id: "unitOf u = i" if "?f i = Some u" for i u
    using reach [of i] that by simp
  have dist: "distinct (map unitOf ?us)"
    by (rule distinct_map_filter_key) (simp_all add: selectedUnits_def stringSet_def id)
  have known: "unitOf ` set ?us \<subseteq> set ?sel'"
    using id by (auto simp: set_map_filter sel')
  have bd: "distinct (map (\<lambda>v. unitOf (jtoObject v)) (trailsOf ?b))"
    using b trails_sound(2) by (auto simp: trailsOf_def json_simps)
  let ?t = "trailTable (trailsOf ?b) ?sel'"
  obtain t' where t': "mergeUpdates ?sel' (map JObj ?us) ?t = Some t'"
    "\<forall>u \<in> set ?us. trailAt t' (unitOf u) = updatedTrail u (trailAt ?t (unitOf u))"
    "\<forall>i. i \<notin> unitOf ` set ?us \<longrightarrow> trailAt t' i = trailAt ?t i"
    using mergeUpdates_each [OF dist known, of ?t] by blast
  have all: "trailAt t' i = ?new i" for i
  proof (cases "i \<in> set ?sel")
    case False
    then have "i \<notin> unitOf ` set ?us"
      using known sel' by blast
    then have "trailAt t' i = []"
      using t'(3) False by (simp add: trailAt_table [OF bd] sel')
    moreover have "?new i = []"
      using trails_sound(1) [OF c] False
      by (cases rule: trajectoryForUnit_cases [of "trailsOf ?c" i]) (auto simp: pointsOf_Nil)
    ultimately show ?thesis
      by simp
  next
    case True
    then have old: "trailAt ?t i = pointsOf (trajectoryForUnit (trailsOf ?b) i)"
      by (simp add: trailAt_table [OF bd] sel')
    show ?thesis
    proof (cases "?f i")
      case None
      then have "i \<notin> unitOf ` set ?us"
        using id by (auto simp: set_map_filter)
      then show ?thesis
        using t'(3) old reach [of i] None by simp
    next
      case (Some u)
      then have "u \<in> set ?us"
        using True by (auto simp: set_map_filter)
      then show ?thesis
        using t'(2) old reach [of i] Some by auto
    qed
  qed
  let ?r = "jset ''observerTrajectories'' (JObj [(''selectedUnitIds'', sortedStringArray ?sel'), (''trails'', trailArray t')]) base"
  have "?d \<noteq> []"
    by (simp add: makeTrajectoryDelta_def Let_def)
  then have "mergeTrajectoryDelta base [(''observerTrajectoryDelta'', JObj ?d)] = Some ?r"
    by (simp add: mergeTrajectoryDelta_def json_simps updates t'(1))
  moreover have "set (selectedUnits (trajectories ?r)) = set ?sel"
    by (simp add: trajectories_def [of "jset _ _ _"] selectedUnits_def [of "_ # _"] json_simps set_stringSet sel')
  moreover have "pointsOf (trajectoryForUnit (trailsOf (trajectories ?r)) i) = ?new i" for i
    by (simp add: trajectories_def [of "jset _ _ _"] trailsOf_def [of "_ # _"] json_simps find_trailArray all)
  ultimately show ?thesis
    by blast
qed

definition exTrail :: "string \<Rightarrow> rat list \<Rightarrow> json" where
  "exTrail i ts = JObj [(''points'', JArr (map (\<lambda>t. JObj [(''time'', JNum t), (''x'', JNum t), (''y'', JNum 0)]) ts)),
     (''unitId'', JStr i)]"

definition exTrails :: "json list \<Rightarrow> jobject" where
  "exTrails trails = [(''observerTrajectories'',
     JObj [(''selectedUnitIds'', JArr [JStr ''r1'', JStr ''r2'']), (''trails'', JArr trails)])]"

theorem trails_roundtrip_witness:
  "\<exists>r. mergeTrajectoryDelta (exTrails [exTrail ''r1'' [1, 2, 3]])
       [(''observerTrajectoryDelta'', JObj (makeTrajectoryDelta (exTrails [exTrail ''r1'' [1, 2, 3]])
          (exTrails [exTrail ''r1'' [2, 3, 4], exTrail ''r2'' [4]])))] = Some r
     \<and> length (pointsOf (trajectoryForUnit (trailsOf (trajectories r)) ''r1'')) = 3"
proof -
  let ?c = "exTrails [exTrail ''r1'' [2, 3, 4], exTrail ''r2'' [4]]"
  have "observerTrajectoriesValid (JObj (trajectories (exTrails [exTrail ''r1'' [1, 2, 3]])))"
    and "observerTrajectoriesValid (JObj (trajectories ?c))"
    and "list_all (\<lambda>v. inTime (pointsOf (jtoObject v))) (trailsOf (trajectories ?c))"
    and "length (pointsOf (trajectoryForUnit (trailsOf (trajectories ?c)) ''r1'')) = 3"
    by code_simp+
  then show ?thesis
    using trails_roundtrip [of "exTrails [exTrail ''r1'' [1, 2, 3]]" ?c] by (auto simp: list_all_iff)
qed

end
