(* ===== verification/ClientStore.thy ===== *)
theory ClientStore
  imports StateDeltaTrails
begin

text \<open>
  The state a client keeps of its room (\<open>src/src/network/ClientStateStore.cpp\<close>): envelopes of the server are
  checked, put in sequence and applied; a gap or a refused delta asks for a full snapshot. Results are returned
  beside the new store; the texts for people are left out.
\<close>

section \<open>The store\<close>

datatype Disposition = Ignored | Accepted | SnapshotApplied | DeltaApplied | ResyncRequired | Fatal

record StoreResult =
  sr_disposition :: Disposition
  sr_type :: string
  sr_payload :: jobject
  sr_code :: string

record ClientStore =
  cs_lastSequence :: nat
  cs_protocol :: int
  cs_schema :: int
  cs_snapshot :: jobject
  cs_lifecycle :: RoomLifecycle
  cs_waitingForSnapshot :: bool
  cs_waitingForResync :: bool
  cs_intel :: IntelState

definition noIntel :: IntelState where
  "noIntel = \<lparr>is_revision = 0, is_records = [], is_shareTargets = []\<rparr>"

definition newStore :: ClientStore where
  "newStore = \<lparr>cs_lastSequence = 0, cs_protocol = 0, cs_schema = 0, cs_snapshot = [], cs_lifecycle = readLifecycle [] [],
     cs_waitingForSnapshot = True, cs_waitingForResync = False, cs_intel = noIntel\<rparr>"

definition resetStore :: "ClientStore \<Rightarrow> ClientStore" where
  "resetStore s = newStore"

definition beginConnection :: "ClientStore \<Rightarrow> ClientStore" where
  "beginConnection s = s\<lparr>cs_lastSequence := 0, cs_protocol := 0, cs_schema := 0, cs_waitingForSnapshot := True,
     cs_waitingForResync := False, cs_intel := noIntel\<rparr>"

section \<open>Applying an envelope\<close>

definition answer :: "Disposition \<Rightarrow> string \<Rightarrow> jobject \<Rightarrow> string \<Rightarrow> StoreResult" where
  "answer d type payload code = \<lparr>sr_disposition = d, sr_type = type, sr_payload = payload, sr_code = code\<rparr>"

definition askResync :: "string \<Rightarrow> jobject \<Rightarrow> string \<Rightarrow> ClientStore \<Rightarrow> StoreResult \<times> ClientStore" where
  "askResync type payload code s = (answer ResyncRequired type payload code, s\<lparr>cs_waitingForResync := True\<rparr>)"

definition dropEmptyMarks :: "string \<Rightarrow> jobject \<Rightarrow> jobject" where
  "dropEmptyMarks type payload =
     (if (type = ''snapshot'' \<or> type = ''delta'') \<and> isObserver payload \<and> emptyArray (jget payload ''mapMarks'')
      then AList.delete ''mapMarks'' payload else payload)"

text \<open>The intelligence a state shows, none if it is not valid.\<close>

definition shownIntel :: "TimeLib \<Rightarrow> jobject \<Rightarrow> IntelState option" where
  "shownIntel lib state = (if jcontains state ''intelState'' then intelOf lib state else Some noIntel)"

definition takeSnapshot :: "TimeLib \<Rightarrow> nat \<Rightarrow> jobject \<Rightarrow> ClientStore \<Rightarrow> StoreResult \<times> ClientStore" where
  "takeSnapshot lib n payload s =
     (case projectSnapshot payload of
        None \<Rightarrow> (answer Fatal [] [] ''INVALID_PAYLOAD'', s)
      | Some life \<Rightarrow>
         (case shownIntel lib payload of
            None \<Rightarrow> (answer Fatal [] [] ''INVALID_PAYLOAD'', s\<lparr>cs_snapshot := payload, cs_intel := noIntel\<rparr>)
          | Some intel \<Rightarrow>
              (answer SnapshotApplied ''snapshot'' payload [],
               s\<lparr>cs_snapshot := payload, cs_intel := intel, cs_lifecycle := life, cs_lastSequence := n,
                 cs_waitingForSnapshot := False, cs_waitingForResync := False\<rparr>)))"

definition takeDelta :: "TimeLib \<Rightarrow> nat \<Rightarrow> jobject \<Rightarrow> ClientStore \<Rightarrow> StoreResult \<times> ClientStore" where
  "takeDelta lib n payload s =
     (if cs_waitingForSnapshot s then askResync ''delta'' payload ''SNAPSHOT_REQUIRED'' s
      else case applyDelta lib (cs_snapshot s) payload of
        None \<Rightarrow> askResync ''delta'' payload ''DELTA_REJECTED'' s
      | Some candidate \<Rightarrow>
         (case projectSnapshot candidate of
            None \<Rightarrow> askResync ''delta'' payload ''STATE_PROJECTION_REJECTED'' s
          | Some life \<Rightarrow>
             (case shownIntel lib candidate of
                None \<Rightarrow> askResync ''delta'' payload ''INTEL_STATE_REJECTED'' s
              | Some intel \<Rightarrow>
                  (answer DeltaApplied ''delta'' payload [],
                   s\<lparr>cs_snapshot := candidate, cs_lifecycle := life, cs_intel := intel, cs_lastSequence := n\<rparr>))))"

definition envelopeSequence :: "jobject \<Rightarrow> nat" where
  "envelopeSequence e = nat (jtoInteger 0 (jget e ''sequence''))"

definition incomingProtocol :: "jobject \<Rightarrow> int" where
  "incomingProtocol e = jtoInt 0 (jget e ''protocolVersion'')"

definition incomingSchema :: "jobject \<Rightarrow> int" where
  "incomingSchema e = jtoInt 0 (jget e ''schemaVersion'')"

definition rememberVersion :: "jobject \<Rightarrow> ClientStore \<Rightarrow> ClientStore" where
  "rememberVersion e s =
     (if cs_protocol s = 0 then s\<lparr>cs_protocol := incomingProtocol e, cs_schema := incomingSchema e\<rparr> else s)"

text \<open>An envelope that passed the checks.\<close>

definition takeEnvelope :: "TimeLib \<Rightarrow> nat \<Rightarrow> string \<Rightarrow> jobject \<Rightarrow> ClientStore \<Rightarrow> StoreResult \<times> ClientStore" where
  "takeEnvelope lib n type payload s =
     (if n \<le> cs_lastSequence s then (answer Ignored type payload [], s)
      else if type = ''snapshot'' then takeSnapshot lib n payload s
      else if n \<noteq> cs_lastSequence s + 1
           then (if \<not> cs_waitingForResync s then askResync type payload ''SEQUENCE_GAP'' s
                 else (answer Ignored type payload [], s))
      else if cs_waitingForResync s then (answer Ignored type payload [], s)
      else if type = ''delta'' then takeDelta lib n payload s
      else (answer Accepted type payload [], s\<lparr>cs_lastSequence := n\<rparr>))"

definition applyEnvelope :: "TimeLib \<Rightarrow> jobject \<Rightarrow> ClientStore \<Rightarrow> StoreResult \<times> ClientStore" where
  "applyEnvelope lib e s =
     (if cs_protocol s \<noteq> 0 \<and> (incomingProtocol e \<noteq> cs_protocol s \<or> incomingSchema e \<noteq> cs_schema s)
      then (answer Fatal [] [] ''PROTOCOL_MISMATCH'', s)
      else case validateServerEnvelope lib True e of
        Some code \<Rightarrow>
          (if envelopeType e = ''delta'' then askResync ''delta'' (envelopePayload e) ''DELTA_INVALID'' s
           else (answer Fatal [] [] code, s))
      | None \<Rightarrow> takeEnvelope lib (envelopeSequence e) (envelopeType e) (dropEmptyMarks (envelopeType e) (envelopePayload e))
          (rememberVersion e s))"

end
