(* ===== verification/ClientStoreProps.thy ===== *)
theory ClientStoreProps
  imports ClientStore
begin

text \<open>
  What the client may rely on: its snapshot is always valid and changes only in sequence, and while the server
  sends the deltas of its snapshots the client's state follows the server's.
\<close>

section \<open>Snapshots without empty marks\<close>

lemma snapshot_without_marks:
  assumes "validateSnapshotState lib c schema = None"
  shows "validateSnapshotState lib (AList.delete ''mapMarks'' c) schema = None"
proof -
  let ?d = "AList.delete ''mapMarks'' c"
  have f: "jget ?d k = jget c k" "jcontains ?d k = jcontains c k" if "k \<noteq> ''mapMarks''" for k
    using that by (simp_all add: jget_def jcontains_def)
  have n: "\<not> jcontains ?d ''mapMarks''"
    by (simp add: jcontains_def delete_conv')
  have "snapshotShape ?d schema"
    using assms n by (simp add: snapshot_None snapshotShape_def f whenGiven_def)
  moreover have p: "projectSnapshot ?d = projectSnapshot c" "isObserver ?d = isObserver c"
    by (simp_all add: projectSnapshot_def isObserver_def f Let_def)
  moreover have proj: "projectedProjectiles ?d a = projectedProjectiles c a" for a
  proof -
    have g: "jget ?d ''units'' = jget c ''units''" "jget ?d ''scenario'' = jget c ''scenario''"
      "jget ?d ''projectiles'' = jget c ''projectiles''"
      by (simp_all add: f)
    show ?thesis
      unfolding projectedProjectiles_def unitSides_def g ..
  qed
  moreover have "observerSnapshot ?d (jtoObject (jget c ''roomState''))" if "observerSnapshot c (jtoObject (jget c ''roomState''))"
  proof -
    have "hasOnlyFields ?d observerSnapshotFields"
      using that by (auto simp: observerSnapshot_def hasOnlyFields_def list_all_iff AList.delete_eq)
    then show ?thesis
      using that proj by (simp add: observerSnapshot_def f whenGiven_def n)
  qed
  ultimately show ?thesis
    using assms by (simp add: snapshot_None f)
qed

lemma dropped_snapshot:
  "validateSnapshotState lib p schema = None \<Longrightarrow> validateSnapshotState lib (dropEmptyMarks type p) schema = None"
  by (simp add: dropEmptyMarks_def snapshot_without_marks)

lemma valid_shows_intel:
  "validateSnapshotState lib p schema = None \<Longrightarrow> projectSnapshot p \<noteq> None \<and> shownIntel lib p \<noteq> None \<and> p \<noteq> []"
  by (auto simp: snapshot_None shownIntel_def intelOf_def intelStateFromJson_def snapshotShape_def json_simps)

section \<open>The invariant of the store\<close>

definition snapshotKept :: "TimeLib \<Rightarrow> ClientStore \<Rightarrow> bool" where
  "snapshotKept lib s \<longleftrightarrow>
     (cs_snapshot s = [] \<or> (\<exists>schema. validateSnapshotState lib (cs_snapshot s) schema = None
        \<and> projectSnapshot (cs_snapshot s) = Some (cs_lifecycle s)))
     \<and> (\<not> cs_waitingForSnapshot s \<longrightarrow> cs_snapshot s \<noteq> [] \<and> shownIntel lib (cs_snapshot s) = Some (cs_intel s))"

datatype ClientCall = Reset | Connect | Receive jobject

fun client_call :: "TimeLib \<Rightarrow> ClientCall \<Rightarrow> ClientStore \<Rightarrow> ClientStore" where
  "client_call lib Reset s = resetStore s"
| "client_call lib Connect s = beginConnection s"
| "client_call lib (Receive e) s = snd (applyEnvelope lib e s)"

definition client_run :: "TimeLib \<Rightarrow> ClientCall list \<Rightarrow> ClientStore" where
  "client_run lib cs = fold (client_call lib) cs newStore"

text \<open>How an envelope can change a store: not at all, flags and counters only, or a new state.\<close>

definition sameState :: "ClientStore \<Rightarrow> ClientStore \<Rightarrow> bool" where
  "sameState s t \<longleftrightarrow> cs_snapshot t = cs_snapshot s \<and> cs_lifecycle t = cs_lifecycle s \<and> cs_intel t = cs_intel s
     \<and> cs_waitingForSnapshot t = cs_waitingForSnapshot s"

lemma sameState_refl: "sameState s s"
  by (simp add: sameState_def)

lemma kept_same: "snapshotKept lib s \<Longrightarrow> sameState s t \<Longrightarrow> snapshotKept lib t"
  by (simp add: snapshotKept_def sameState_def)

lemma askResync_same: "askResync type p code s = (r, t) \<Longrightarrow> sameState s t \<and> sr_disposition r = ResyncRequired"
  by (auto simp: askResync_def sameState_def answer_def)

lemma takeSnapshot_valid:
  assumes "validateSnapshotState lib p schema = None" and "takeSnapshot lib n p s = (r, t)"
  shows "sr_disposition r = SnapshotApplied \<and> cs_snapshot t = p \<and> projectSnapshot p = Some (cs_lifecycle t)
    \<and> shownIntel lib p = Some (cs_intel t) \<and> cs_lastSequence t = n \<and> \<not> cs_waitingForSnapshot t \<and> \<not> cs_waitingForResync t"
  using assms valid_shows_intel [OF assms(1)] by (auto simp: takeSnapshot_def answer_def split: option.splits)

lemma takeDelta_cases:
  assumes "takeDelta lib n p s = (r, t)"
  shows "(sameState s t \<and> sr_disposition r = ResyncRequired)
    \<or> (sr_disposition r = DeltaApplied \<and> \<not> cs_waitingForSnapshot s \<and> applyDelta lib (cs_snapshot s) p = Some (cs_snapshot t)
       \<and> projectSnapshot (cs_snapshot t) = Some (cs_lifecycle t) \<and> shownIntel lib (cs_snapshot t) = Some (cs_intel t)
       \<and> cs_lastSequence t = n \<and> \<not> cs_waitingForSnapshot t \<and> cs_waitingForResync t = cs_waitingForResync s)"
  using assms askResync_same by (auto simp: takeDelta_def answer_def split: if_splits option.splits)

text \<open>The ways an envelope is handled.\<close>

lemma applyEnvelope_cases:
  assumes "applyEnvelope lib e s = (r, t)"
  shows "(sameState s t \<and> sr_disposition r \<in> {Ignored, Accepted, ResyncRequired, Fatal})
    \<or> (sr_disposition r = SnapshotApplied \<and> envelopeType e = ''snapshot'' \<and> cs_lastSequence s < envelopeSequence e
       \<and> cs_lastSequence t = envelopeSequence e \<and> (\<exists>schema. validateSnapshotState lib (cs_snapshot t) schema = None)
       \<and> projectSnapshot (cs_snapshot t) = Some (cs_lifecycle t) \<and> shownIntel lib (cs_snapshot t) = Some (cs_intel t)
       \<and> \<not> cs_waitingForSnapshot t)
    \<or> (sr_disposition r = DeltaApplied \<and> envelopeType e = ''delta'' \<and> envelopeSequence e = cs_lastSequence s + 1
       \<and> cs_lastSequence t = envelopeSequence e \<and> \<not> cs_waitingForSnapshot s \<and> \<not> cs_waitingForResync s
       \<and> (\<exists>d. applyDelta lib (cs_snapshot s) d = Some (cs_snapshot t))
       \<and> projectSnapshot (cs_snapshot t) = Some (cs_lifecycle t) \<and> shownIntel lib (cs_snapshot t) = Some (cs_intel t)
       \<and> \<not> cs_waitingForSnapshot t)"
proof (cases "cs_protocol s \<noteq> 0 \<and> (incomingProtocol e \<noteq> cs_protocol s \<or> incomingSchema e \<noteq> cs_schema s)")
  case True
  then show ?thesis
    using assms by (auto simp: applyEnvelope_def answer_def sameState_refl)
next
  case fits: False
  show ?thesis
  proof (cases "validateServerEnvelope lib True e")
    case (Some code)
    then show ?thesis
      using assms fits askResync_same
      by (auto simp: applyEnvelope_def answer_def sameState_refl split: if_splits)
  next
    case None
    let ?s = "rememberVersion e s" and ?p = "dropEmptyMarks (envelopeType e) (envelopePayload e)"
    have t: "takeEnvelope lib (envelopeSequence e) (envelopeType e) ?p ?s = (r, t)"
      using assms None fits by (auto simp: applyEnvelope_def)
    have same: "sameState s ?s" "cs_lastSequence ?s = cs_lastSequence s" "cs_waitingForResync ?s = cs_waitingForResync s"
      by (simp_all add: rememberVersion_def sameState_def)
    have trans: "sameState s t" if "sameState ?s t"
      using that same(1) by (simp add: sameState_def)
    show ?thesis
    proof (cases "envelopeSequence e \<le> cs_lastSequence s")
      case True
      then show ?thesis
        using t same by (auto simp: takeEnvelope_def answer_def)
    next
      case later: False
      show ?thesis
      proof (cases "envelopeType e = ''snapshot''")
        case True
        have "validateSnapshotState lib (envelopePayload e) (envelopeSchema e) = None"
          using None True by (simp add: server_envelope_None validateServerPayload_def)
        then have v: "validateSnapshotState lib ?p (envelopeSchema e) = None"
          by (rule dropped_snapshot)
        have "takeSnapshot lib (envelopeSequence e) ?p ?s = (r, t)"
          using t True later same(2) by (simp add: takeEnvelope_def)
        from takeSnapshot_valid [OF v this] show ?thesis
          using True later v by auto
      next
        case False
        then show ?thesis
          using t later same trans askResync_same takeDelta_cases [of lib "envelopeSequence e" ?p ?s r t]
          by (auto simp: takeEnvelope_def answer_def sameState_def split: if_splits)
      qed
    qed
  qed
qed

lemma applied_valid: "applyDelta lib s d = Some t \<Longrightarrow> validateSnapshotState lib t (stateSchema s) = None"
  using delta_effect by simp

lemma client_call_kept:
  assumes s: "snapshotKept lib s"
  shows "snapshotKept lib (client_call lib c s)"
proof (cases c)
  case Reset
  then show ?thesis
    by (simp add: resetStore_def newStore_def snapshotKept_def)
next
  case Connect
  then show ?thesis
    using s by (simp add: beginConnection_def snapshotKept_def)
next
  case (Receive e)
  obtain r t where t: "applyEnvelope lib e s = (r, t)"
    by fastforce
  have fresh: "snapshotKept lib t" if "validateSnapshotState lib (cs_snapshot t) schema = None"
    "projectSnapshot (cs_snapshot t) = Some (cs_lifecycle t)" "shownIntel lib (cs_snapshot t) = Some (cs_intel t)" for schema
    using that valid_shows_intel [OF that(1)] by (auto simp: snapshotKept_def)
  have "snapshotKept lib t"
    using applyEnvelope_cases [OF t]
  proof (elim disjE conjE exE)
    assume "sameState s t"
    then show ?thesis
      by (rule kept_same [OF s])
  next
    fix schema
    assume "validateSnapshotState lib (cs_snapshot t) schema = None" "projectSnapshot (cs_snapshot t) = Some (cs_lifecycle t)"
      "shownIntel lib (cs_snapshot t) = Some (cs_intel t)"
    then show ?thesis
      by (rule fresh)
  next
    fix d
    assume d: "applyDelta lib (cs_snapshot s) d = Some (cs_snapshot t)" "projectSnapshot (cs_snapshot t) = Some (cs_lifecycle t)"
      "shownIntel lib (cs_snapshot t) = Some (cs_intel t)"
    show ?thesis
      by (rule fresh [OF applied_valid [OF d(1)] d(2,3)])
  qed
  then show ?thesis
    by (simp add: Receive t)
qed

interpretation client_store: invariant_kept "snapshotKept lib" "\<lambda>_ _. True" "client_call lib" for lib
  by unfold_locales (rule client_call_kept)

lemma kept_newStore: "snapshotKept lib newStore"
  by (simp add: newStore_def snapshotKept_def)

text \<open>C6. Whatever envelopes a client receives, in any order, with reconnections and resets in between: its
  snapshot is empty or valid and its life cycle is the projection of it, and while it does not wait for a
  snapshot its intelligence is the one its snapshot holds.\<close>

theorem client_snapshot_kept:
  "snapshotKept lib (client_run lib cs)"
  unfolding client_run_def by (rule client_store.run_ok [OF kept_newStore obeys_True])

section \<open>Following the server\<close>

lemma delta_core_marks:
  assumes "isObserver c \<longrightarrow> \<not> jcontains c ''mapMarks''"
  shows "dropEmptyMarks ''delta'' (deltaCore b c) = deltaCore b c"
proof -
  have o: "isObserver (deltaCore b c) = isObserver c"
    by (simp add: isObserver_def core_get)
  show ?thesis
  proof (cases "isObserver c")
    case True
    then have "\<not> jcontains (deltaCore b c) ''mapMarks''"
      using assms core_changed [of "''mapMarks''" b c] by auto
    then have "jget (deltaCore b c) ''mapMarks'' = JNull"
      by (simp add: jget_def jcontains_def)
    then show ?thesis
      by (simp add: dropEmptyMarks_def emptyArray_def)
  next
    case False
    then show ?thesis
      by (simp add: dropEmptyMarks_def o)
  qed
qed

text \<open>C3. A client that shows the state \<open>b\<close> of its negotiated versions, waits for nothing and gets, as the
  next message of its connection, the envelope with the delta the server made from \<open>b\<close> and its new state \<open>c\<close>, shows \<open>c\<close> afterwards, with its units in the order of
  their ids, and keeps up with the sequence. The two states are \<open>syncable\<close>: valid, of the same scenario revision and the
  same at most 512 units, intelligence and trails unchanged, no messages or map marks dropped. The envelope is in the
  limits of complexity, and the state of an observer has no map marks.\<close>

theorem client_follows:
  assumes s: "syncable lib (cs_snapshot st) c" and w: "\<not> cs_waitingForSnapshot st" "\<not> cs_waitingForResync st"
    and v: "cs_protocol st = stateSchema (cs_snapshot st)" "cs_schema st = stateSchema (cs_snapshot st)"
    and n: "cs_lastSequence st < 9007199254740991"
    and e: "e = makeServerEnvelope now ''delta'' (cs_lastSequence st + 1) (createDelta lib (cs_snapshot st) c)
       (stateSchema (cs_snapshot st)) (stateSchema (cs_snapshot st))"
    and small: "validateComplexity e = None" and marks: "isObserver c \<longrightarrow> \<not> jcontains c ''mapMarks''"
  shows "\<exists>r t. applyEnvelope lib e st = (r, t) \<and> sr_disposition r = DeltaApplied
    \<and> (\<forall>k. k \<noteq> ''units'' \<longrightarrow> map_of (cs_snapshot t) k = map_of c k)
    \<and> unitArray (cs_snapshot t) = map JObj (tableUnits (unitsById (unitArray c)))
    \<and> cs_lastSequence t = cs_lastSequence st + 1 \<and> \<not> cs_waitingForResync t"
proof -
  let ?b = "cs_snapshot st" and ?n = "cs_lastSequence st + 1"
  let ?s = "stateSchema ?b" and ?d = "deltaCore ?b c"
  have sup: "supportedWireVersion ?s ?s"
    using s by (simp add: syncable_def canCreate_def)
  then have sc: "?s \<in> {4, 6, 7, 8}"
    using supported_versions by blast
  have f: "jget e ''protocolVersion'' = jint ?s" "jget e ''schemaVersion'' = jint ?s" "jget e ''type'' = JStr ''delta''"
    "jget e ''sequence'' = jnat ?n" "jget e ''payload'' = JObj ?d"
    using createDelta_core(1) [OF s] by (simp_all add: e makeServerEnvelope_def json_simps)
  have i: "incomingProtocol e = ?s" "incomingSchema e = ?s"
    using sc by (auto simp: incomingProtocol_def incomingSchema_def f json_simps)
  have et: "envelopeType e = ''delta''" "envelopePayload e = ?d" "envelopeSchema e = ?s"
    by (simp_all add: envelopeType_def envelopePayload_def envelopeSchema_def f version_read [OF sc])
  have es: "envelopeSequence e = ?n"
    using n by (simp add: envelopeSequence_def f jnat_def)
  have "validateCommon e True True = None"
    using common_made [of ?s ?s "''delta''" True e ?d] sup f by (simp add: serverTypes_def)
  moreover have "positiveInteger (jget e ''sequence'')"
    using n by (simp add: f positiveInteger_def nonNegativeInteger_def jnat_def maxSafeInteger_def)
  ultimately have ok: "validateServerEnvelope lib True e = None"
    using small core_accepted [OF s] by (simp add: server_envelope_None et)
  have p0: "cs_protocol st \<noteq> 0"
    using v(1) sc by auto
  obtain r where r: "applyDelta lib ?b ?d = Some r" "\<forall>k. k \<noteq> ''units'' \<longrightarrow> map_of r k = map_of c k"
    "unitArray r = map JObj (tableUnits (unitsById (unitArray c)))"
    using delta_reached [OF s] by blast
  obtain life intel where l: "projectSnapshot r = Some life" "shownIntel lib r = Some intel"
    using valid_shows_intel [OF applied_valid [OF r(1)]] by auto
  have "applyEnvelope lib e st = takeDelta lib ?n ?d st"
    using ok v w p0 i by (simp add: applyEnvelope_def et es delta_core_marks [OF marks] rememberVersion_def takeEnvelope_def)
  then show ?thesis
    using r l w by (simp add: takeDelta_def answer_def)
qed

text \<open>The snapshot of a client changes only by a snapshot whose sequence number is higher than all before, or by a
  delta with the very next number, which then raises the revision of the state; every other envelope, refused or
  not, leaves what the client shows as it is.\<close>

theorem client_changes_in_sequence:
  assumes "applyEnvelope lib e st = (r, t)"
  shows "(sr_disposition r = SnapshotApplied \<and> cs_lastSequence st < cs_lastSequence t)
    \<or> (sr_disposition r = DeltaApplied \<and> cs_lastSequence t = cs_lastSequence st + 1 \<and> \<not> cs_waitingForResync st
       \<and> stateRevision (cs_snapshot st) < stateRevision (cs_snapshot t)
       \<and> unitIdSet (unitArray (cs_snapshot t)) = unitIdSet (unitArray (cs_snapshot st)))
    \<or> (cs_snapshot t = cs_snapshot st \<and> cs_lifecycle t = cs_lifecycle st \<and> cs_intel t = cs_intel st)"
  using applyEnvelope_cases [OF assms] delta_effect by (auto simp: sameState_def)

section \<open>A client that shows a state\<close>

definition exClient :: ClientStore where
  "exClient = newStore\<lparr>cs_protocol := 8, cs_schema := 8, cs_lastSequence := 5, cs_snapshot := exState 3 100,
     cs_waitingForSnapshot := False\<rparr>"

definition exDelta :: jobject where
  "exDelta = makeServerEnvelope ''2026-01-01T00:00:00.000Z'' ''delta'' 6 (createDelta exTime (exState 3 100) (exState 4 80)) 8 8"

lemma exClient_facts:
  "cs_snapshot exClient = exState 3 100" "\<not> cs_waitingForSnapshot exClient" "\<not> cs_waitingForResync exClient"
  "cs_protocol exClient = 8" "cs_schema exClient = 8" "cs_lastSequence exClient = 5"
  by (simp_all add: exClient_def newStore_def)

lemma exState_facts: "stateSchema (exState 3 100) = 8" "\<not> isObserver (exState 4 80)"
  by code_simp+

theorem client_follows_witness:
  "\<exists>r t. applyEnvelope exTime exDelta exClient = (r, t) \<and> unitArray (cs_snapshot t) = unitArray (exState 4 80)"
proof -
  have small: "validateComplexity exDelta = None"
  proof -
    have "jdepth (JObj exDelta) \<le> 16"
      unfolding exDelta_def createDelta_core(1) [OF exState_syncable] by code_simp
    moreover have "jnodes (JObj exDelta) \<le> 60"
      unfolding exDelta_def createDelta_core(1) [OF exState_syncable] by code_simp
    ultimately show ?thesis
      by (simp add: validateComplexity_iff)
  qed
  have made: "exDelta = makeServerEnvelope ''2026-01-01T00:00:00.000Z'' ''delta'' (cs_lastSequence exClient + 1)
      (createDelta exTime (cs_snapshot exClient) (exState 4 80)) (stateSchema (cs_snapshot exClient)) (stateSchema (cs_snapshot exClient))"
    by (simp only: exDelta_def exClient_facts exState_facts) simp
  have "\<exists>r t. applyEnvelope exTime exDelta exClient = (r, t) \<and> sr_disposition r = DeltaApplied
    \<and> (\<forall>k. k \<noteq> ''units'' \<longrightarrow> map_of (cs_snapshot t) k = map_of (exState 4 80) k)
    \<and> unitArray (cs_snapshot t) = map JObj (tableUnits (unitsById (unitArray (exState 4 80))))
    \<and> cs_lastSequence t = cs_lastSequence exClient + 1 \<and> \<not> cs_waitingForResync t"
    by (rule client_follows [OF _ _ _ _ _ _ made small]) (simp_all only: exClient_facts exState_facts exState_syncable, simp_all)
  then show ?thesis
    unfolding exState_in_order by blast
qed

theorem client_changes_in_sequence_witness:
  "\<exists>r t. applyEnvelope exTime (makeServerEnvelope ''2026-01-01T00:00:00.000Z'' ''pong'' 6 [] 7 7) exClient = (r, t)
     \<and> cs_snapshot t = exState 3 100"
proof -
  let ?e = "makeServerEnvelope ''2026-01-01T00:00:00.000Z'' ''pong'' 6 [] 7 7"
  obtain r t where t: "applyEnvelope exTime ?e exClient = (r, t)"
    by fastforce
  have "sr_disposition (fst (applyEnvelope exTime ?e exClient)) = Fatal"
    by (simp add: applyEnvelope_def exClient_facts incomingProtocol_def incomingSchema_def makeServerEnvelope_def json_simps
        answer_def)
  then have "sr_disposition r \<noteq> SnapshotApplied" "sr_disposition r \<noteq> DeltaApplied"
    unfolding t by simp_all
  then have "cs_snapshot t = cs_snapshot exClient"
    using client_changes_in_sequence [OF t] by blast
  then show ?thesis
    unfolding exClient_facts using t by blast
qed

end
