(* ===== verification/JsonOrder.thy ===== *)
theory JsonOrder
  imports Json "HOL-Library.AList" "HOL-Library.List_Lexorder" "HOL-Library.Char_ord"
begin

text \<open>
  JSON objects in the order of their keys, as \<open>QJsonObject\<close> keeps them: inserting a value, and reading it back.
  Objects built this way are equal when the lists are.
\<close>

fun jput :: "string \<Rightarrow> json \<Rightarrow> jobject \<Rightarrow> jobject" where
  "jput k v [] = [(k, v)]"
| "jput k v ((k', v') # ob) =
     (if k = k' then (k, v) # ob else if k < k' then (k, v) # (k', v') # ob else (k', v') # jput k v ob)"

lemma map_of_jput [simp]: "map_of (jput k v ob) = (map_of ob)(k \<mapsto> v)"
  by (induction k v ob rule: jput.induct) auto

lemma jput_not_empty [simp]: "jput k v ob \<noteq> []"
  by (cases ob) (auto split: if_splits)

lemma jget_jput [json_simps]: "jget (jput k v ob) k' = (if k' = k then v else jget ob k')"
  by (simp add: jget_def)

lemma jcontains_jput [json_simps]: "jcontains (jput k v ob) k' \<longleftrightarrow> k' = k \<or> jcontains ob k'"
  by (simp add: jcontains_def)

lemma jnat_read [json_simps]: "n < 2 ^ 63 \<Longrightarrow> jtoInteger i (jnat n) = int n"
  by (simp add: jnat_def)

text \<open>Insertion keeps the order of the keys.\<close>

lemma set_jput: "set (map fst (jput k v ob)) = insert k (set (map fst ob))"
  by (induction k v ob rule: jput.induct) auto

lemma jput_sorted: "sorted_wrt (<) (map fst ob) \<Longrightarrow> sorted_wrt (<) (map fst (jput k v ob))"
proof (induction k v ob rule: jput.induct)
  case (2 k v k' v' ob)
  have "k' < k" if "k \<noteq> k'" "\<not> k < k'"
    using that by simp
  then show ?case
    using 2 set_jput [of k v ob] by (auto dest: less_trans)
qed simp

end
