(* ===== verification/VmfDemo.thy ===== *)
theory VmfDemo
  imports JsonOrder
begin

text \<open>
  The scripted demonstration of a strike (\<open>server/game/VmfDemoWorkflow.cpp\<close>): seventeen actions in six
  phases, one seat allowed for each, the controls of the host, the script that moves the fixed targets, and
  the checkpoint. JSON objects are kept in the order of their keys, as Qt keeps them, so equal objects are
  equal lists; the texts for people are left out.

  Parameters are the size of the compact text of a JSON object and the hash of that text. The counters
  \<open>m_generation\<close> and \<open>m_revision\<close> are natural numbers.
\<close>

record DemoLib =
  dl_compactSize :: "jobject \<Rightarrow> nat"
  dl_hash :: "jobject \<Rightarrow> string"

section \<open>Objects\<close>

definition mergeObject :: "jobject \<Rightarrow> jobject \<Rightarrow> jobject" where
  "mergeObject base patch = fold (\<lambda>(k, v). jput k v) patch base"

definition demoText :: "string \<Rightarrow> json \<Rightarrow> string" where
  "demoText d v = (if isJStr v then jtoString v else d)"

section \<open>The script of the targets\<close>

definition demoPosition :: "json \<Rightarrow> bool" where
  "demoPosition v \<longleftrightarrow> isJObj v \<and>
     (let position = jtoObject v;
          lat = jtoDouble 1000 (jget position ''lat'');
          lon = jtoDouble 1000 (jget position ''lon'');
          heading = jtoDouble 0 (jget position ''heading'')
      in isJNum (jget position ''lat'') \<and> isJNum (jget position ''lon'')
        \<and> (jcontains position ''heading'' \<longrightarrow> isJNum (jget position ''heading''))
        \<and> -90 \<le> lat \<and> lat \<le> 90 \<and> -180 \<le> lon \<and> lon \<le> 180 \<and> 0 \<le> heading \<and> heading \<le> 360)"

definition validTargetPatch :: "jobject \<Rightarrow> bool" where
  "validTargetPatch patch \<longleftrightarrow>
     list_all (\<lambda>(k, v). k \<in> {''position'', ''visibility'', ''health'', ''status''}) patch
     \<and> (jcontains patch ''position'' \<longrightarrow> demoPosition (jget patch ''position''))
     \<and> (jcontains patch ''visibility'' \<longrightarrow> jtoString (jget patch ''visibility'') \<in> {''visible'', ''hidden''})
     \<and> (jcontains patch ''health'' \<longrightarrow> isJNum (jget patch ''health'') \<and> 0 \<le> jtoDouble 0 (jget patch ''health'')
          \<and> jtoDouble 0 (jget patch ''health'') \<le> 100)
     \<and> (jcontains patch ''status'' \<longrightarrow> jtoString (jget patch ''status'') \<in> {''active'', ''damaged'', ''destroyed''})
     \<and> patch \<noteq> []"

record ActionSpec =
  as_action :: string
  as_seatType :: string
  as_phase :: nat
  as_substep :: string

definition spec :: "string \<Rightarrow> string \<Rightarrow> nat \<Rightarrow> string \<Rightarrow> ActionSpec" where
  "spec action seat phase substep = \<lparr>as_action = action, as_seatType = seat, as_phase = phase, as_substep = substep\<rparr>"

definition actionSpecs :: "ActionSpec list" where
  "actionSpecs =
     [spec ''reportTarget'' ''recon'' 0 ''composeTargetReport'',
      spec ''planRoute'' ''commander'' 1 ''planRoute'',
      spec ''acceptRoute'' ''attack'' 1 ''acceptRoute'',
      spec ''issueGuidance'' ''commander'' 2 ''issueGuidance'',
      spec ''acknowledgeGuidance'' ''ground'' 2 ''acknowledgeGuidance'',
      spec ''identityHello'' ''attack'' 3 ''identityHello'',
      spec ''identityConfirm'' ''ground'' 3 ''identityConfirm'',
      spec ''sendGuidancePackage'' ''ground'' 3 ''sendGuidancePackage'',
      spec ''acceptGuidance'' ''attack'' 3 ''acceptGuidance'',
      spec ''reportAttackReady'' ''attack'' 3 ''reportAttackReady'',
      spec ''authorizeAttack'' ''ground'' 3 ''authorizeAttack'',
      spec ''simulateAttack'' ''attack'' 3 ''simulateAttack'',
      spec ''reportBattleDamage'' ''attack'' 3 ''reportBattleDamage'',
      spec ''confirmDamageAssessment'' ''ground'' 3 ''confirmDamageAssessment'',
      spec ''confirmTargetDestroyed'' ''recon'' 4 ''confirmTargetDestroyed'',
      spec ''withdraw'' ''commander'' 5 ''withdraw'',
      spec ''confirmReturned'' ''attack'' 5 ''confirmReturned'']"

definition phaseIds :: "string list" where
  "phaseIds = [''target-report'', ''route-planning'', ''guidance-command'', ''ground-guidance'',
     ''destruction-confirmation'', ''return'']"

text \<open>\<open>QStringList::value\<close> and \<open>indexOf\<close>.\<close>

definition phaseName :: "nat \<Rightarrow> string" where
  "phaseName n = (if n < length phaseIds then phaseIds ! n else [])"

fun indexIn :: "string \<Rightarrow> string list \<Rightarrow> int \<Rightarrow> int" where
  "indexIn x [] n = -1"
| "indexIn x (y # ys) n = (if y = x then n else indexIn x ys (n + 1))"

definition phaseIndex :: "string \<Rightarrow> int" where
  "phaseIndex name = indexIn name phaseIds 0"

definition demoIdentifier :: "string \<Rightarrow> bool" where
  "demoIdentifier s \<longleftrightarrow> s \<noteq> [] \<and> length s \<le> 64
     \<and> list_all (\<lambda>c. is_letter_or_number c \<or> c = CHR ''_'' \<or> c = CHR ''-'' \<or> c = CHR ''.'') s"

fun scriptTargets :: "json list \<Rightarrow> string set \<Rightarrow> string set option" where
  "scriptTargets [] ids = Some ids"
| "scriptTargets (v # vs) ids =
     (let i = jtoString (jget (jtoObject v) ''id'') in
      if \<not> isJObj v \<or> \<not> demoIdentifier i \<or> i \<in> ids \<or> \<not> validTargetPatch (jtoObject (jget (jtoObject v) ''initial''))
      then None else scriptTargets vs (insert i ids))"

definition triggerPhase :: "json \<Rightarrow> int" where
  "triggerPhase v = phaseIndex (jtoString (jget (jtoObject (jget (jtoObject v) ''trigger'')) ''phase''))"

fun timelineFits :: "string set \<Rightarrow> int \<Rightarrow> json list \<Rightarrow> bool" where
  "timelineFits ids previous [] = True"
| "timelineFits ids previous (v # vs) =
     (isJObj v \<and> 0 \<le> triggerPhase v \<and> previous \<le> triggerPhase v
      \<and> jtoString (jget (jtoObject v) ''targetId'') \<in> ids
      \<and> validTargetPatch (jtoObject (jget (jtoObject v) ''patch''))
      \<and> timelineFits ids (triggerPhase v) vs)"

definition validateTargetScript :: "DemoLib \<Rightarrow> jobject \<Rightarrow> bool" where
  "validateTargetScript lib script \<longleftrightarrow> script = [] \<or>
     (jtoInt 0 (jget script ''version'') = 1 \<and> isJArr (jget script ''targets'') \<and> isJArr (jget script ''timeline'')
      \<and> (case scriptTargets (jtoArray (jget script ''targets'')) {} of
           None \<Rightarrow> False
         | Some ids \<Rightarrow> timelineFits ids (-1) (jtoArray (jget script ''timeline'')))
      \<and> dl_compactSize lib script \<le> 256 * 1024)"

definition emptyScript :: jobject where
  "emptyScript = [(''targets'', JArr []), (''timeline'', JArr []), (''version'', JNum 1)]"

definition normalizedScript :: "jobject \<Rightarrow> jobject" where
  "normalizedScript script = (if script \<noteq> [] then script else emptyScript)"

section \<open>State\<close>

record Demo =
  dm_generation :: nat
  dm_revision :: nat
  dm_actionIndex :: nat
  dm_status :: string
  dm_targetScript :: jobject
  dm_scriptCursor :: nat
  dm_targetState :: jobject
  dm_task :: jobject
  dm_reports :: "json list"
  dm_archive :: "json list"
  dm_cancelUntil :: int
  dm_cancelledGeneration :: nat
  dm_traces :: "json list"
  dm_history :: "json list"
  dm_seen :: "string set"

definition currentAction :: "Demo \<Rightarrow> ActionSpec option" where
  "currentAction d = (if dm_actionIndex d < length actionSpecs then Some (actionSpecs ! dm_actionIndex d) else None)"

definition currentSeatType :: "Demo \<Rightarrow> string" where
  "currentSeatType d = (case currentAction d of None \<Rightarrow> [] | Some s \<Rightarrow> as_seatType s)"

fun applyEntries :: "int \<Rightarrow> json list \<Rightarrow> nat \<times> jobject \<Rightarrow> nat \<times> jobject" where
  "applyEntries phase [] (cursor, state) = (cursor, state)"
| "applyEntries phase (v # vs) (cursor, state) =
     (if phase < triggerPhase v then (cursor, state)
      else let target = jtoString (jget (jtoObject v) ''targetId'')
           in applyEntries phase vs (Suc cursor,
                jput target (JObj (mergeObject (jtoObject (jget state target)) (jtoObject (jget (jtoObject v) ''patch'')))) state))"

definition timeline :: "jobject \<Rightarrow> json list" where
  "timeline script = jtoArray (jget script ''timeline'')"

definition currentPhase :: "Demo \<Rightarrow> int" where
  "currentPhase d = (case currentAction d of None \<Rightarrow> int (length phaseIds) | Some s \<Rightarrow> int (as_phase s))"

definition applyScriptForCurrentPhase :: "Demo \<Rightarrow> Demo" where
  "applyScriptForCurrentPhase d =
     (let (cursor, state) = applyEntries (currentPhase d) (drop (dm_scriptCursor d) (timeline (dm_targetScript d)))
        (dm_scriptCursor d, dm_targetState d)
      in d\<lparr>dm_scriptCursor := cursor, dm_targetState := state\<rparr>)"

text \<open>Inserting an undefined value removes the key.\<close>

definition insertInitial :: "json \<Rightarrow> jobject \<Rightarrow> jobject" where
  "insertInitial v state =
     (let target = jtoString (jget (jtoObject v) ''id'') in
      case map_of (jtoObject v) ''initial'' of
        None \<Rightarrow> AList.delete target state
      | Some x \<Rightarrow> jput target x state)"

definition initialTargets :: "jobject \<Rightarrow> jobject" where
  "initialTargets script = fold insertInitial (jtoArray (jget script ''targets'')) []"

definition rebuildTargetState :: "Demo \<Rightarrow> Demo" where
  "rebuildTargetState d =
     applyScriptForCurrentPhase (d\<lparr>dm_scriptCursor := 0, dm_targetState := initialTargets (dm_targetScript d)\<rparr>)"

definition freshDemoTask :: "nat \<Rightarrow> jobject" where
  "freshDemoTask generation =
     [(''effect'', JObj []), (''generation'', jnat generation), (''guidance'', JObj []), (''lastOutcome'', JStr []),
      (''route'', JObj []), (''strikeAttempt'', JNum 0), (''target'', JObj []),
      (''taskId'', JStr (''demo-'' @ number generation))]"

definition clearTaskState :: "Demo \<Rightarrow> Demo" where
  "clearTaskState d = d\<lparr>dm_task := freshDemoTask (dm_generation d), dm_reports := []\<rparr>"

definition resetDemo :: "Demo \<Rightarrow> Demo" where
  "resetDemo d =
     (let c = clearTaskState (d\<lparr>dm_actionIndex := 0, dm_status := ''active'', dm_cancelUntil := 0,
          dm_cancelledGeneration := 0, dm_traces := [], dm_history := [], dm_seen := {}\<rparr>)
      in rebuildTargetState (c\<lparr>dm_targetScript :=
           (if dm_targetScript c = [] then normalizedScript [] else dm_targetScript c)\<rparr>))"

definition newDemo :: Demo where
  "newDemo = resetDemo \<lparr>dm_generation = 1, dm_revision = 1, dm_actionIndex = 0, dm_status = ''active'',
     dm_targetScript = [], dm_scriptCursor = 0, dm_targetState = [], dm_task = [], dm_reports = [], dm_archive = [],
     dm_cancelUntil = 0, dm_cancelledGeneration = 0, dm_traces = [], dm_history = [], dm_seen = {}\<rparr>"

definition appendReport :: "jobject \<Rightarrow> Demo \<Rightarrow> Demo" where
  "appendReport report d = (if report = [] then d else d\<lparr>dm_reports := push_log 128 (JObj report) (dm_reports d)\<rparr>)"

definition archiveGeneration :: "string \<Rightarrow> Demo \<Rightarrow> Demo" where
  "archiveGeneration status d = d\<lparr>dm_archive := push_log 20
     (JObj ([(''generation'', jnat (dm_generation d)), (''reportCount'', jnat (length (dm_reports d))),
        (''reports'', JArr (dm_reports d)), (''status'', JStr status)]
        @ (case map_of (dm_task d) ''taskId'' of None \<Rightarrow> [] | Some v \<Rightarrow> [(''taskId'', v)])))
     (dm_archive d)\<rparr>"

section \<open>The projection of the state\<close>

definition phaseStatus :: "Demo \<Rightarrow> nat \<Rightarrow> nat \<Rightarrow> string" where
  "phaseStatus d phase n =
     (if dm_status d = ''cancelled'' \<and> n = phase then ''cancelled''
      else if dm_status d = ''completed'' then ''completed''
      else if n < phase then ''completed''
      else if n = phase \<and> dm_status d \<noteq> ''completed'' then dm_status d
      else ''pending'')"

definition lastTrace :: "Demo \<Rightarrow> jobject" where
  "lastTrace d = fold AList.delete [''canonicalXml'', ''decodedXml'', ''wireBytes'', ''binaryPreview'', ''hexPreview'', ''fields'']
     (jtoObject (last (dm_traces d)))"

definition stateProjection :: "DemoLib \<Rightarrow> bool \<Rightarrow> Demo \<Rightarrow> jobject" where
  "stateProjection lib technical d =
     (let current = currentAction d;
          action = (if dm_status d = ''cancelled'' then None else current);
          phase = (case current of None \<Rightarrow> length phaseIds - 1 | Some s \<Rightarrow> as_phase s)
      in [(''schemaVersion'', JNum 2), (''profile'', JStr ''vmf-demo-v2''),
          (''generation'', jnat (dm_generation d)), (''revision'', jnat (dm_revision d)),
          (''phase'', JStr (phaseName phase)),
          (''substep'', JStr (case action of Some s \<Rightarrow> as_substep s
             | None \<Rightarrow> if dm_status d = ''cancelled'' then ''cancelled'' else ''completed'')),
          (''status'', JStr (dm_status d)),
          (''activeSeat'', JStr (case action of None \<Rightarrow> [] | Some s \<Rightarrow> as_seatType s)),
          (''expectedAction'', JStr (case action of None \<Rightarrow> [] | Some s \<Rightarrow> as_action s)),
          (''phases'', JArr (map (\<lambda>n. JObj [(''id'', JStr (phaseName n)), (''status'', JStr (phaseStatus d phase n))])
             [0..<length phaseIds])),
          (''scriptCursor'', jnat (dm_scriptCursor d)), (''targetState'', JObj (dm_targetState d)),
          (''task'', JObj (dm_task d)), (''reports'', JArr (dm_reports d)), (''archive'', JArr (dm_archive d)),
          (''cancelUntilMs'', jint (dm_cancelUntil d)), (''cancelledGeneration'', jnat (dm_cancelledGeneration d)),
          (''traceCount'', jnat (length (dm_traces d))), (''targetScriptHash'', JStr (dl_hash lib (dm_targetScript d)))]
        @ (if technical then [(''traces'', JArr (dm_traces d))]
           else if dm_traces d \<noteq> [] then [(''latestTrace'', JObj (lastTrace d))] else []))"

record DemoResult =
  dr_ok :: bool
  dr_status :: string
  dr_code :: string
  dr_revision :: nat
  dr_state :: jobject

definition demoFailure :: "DemoLib \<Rightarrow> string \<Rightarrow> Demo \<Rightarrow> DemoResult" where
  "demoFailure lib code d = \<lparr>dr_ok = False, dr_status = ''rejected'', dr_code = code, dr_revision = dm_revision d,
     dr_state = stateProjection lib False d\<rparr>"

definition demoSuccess :: "DemoLib \<Rightarrow> string \<Rightarrow> Demo \<Rightarrow> DemoResult" where
  "demoSuccess lib status d = \<lparr>dr_ok = True, dr_status = status, dr_code = ''OK'', dr_revision = dm_revision d,
     dr_state = stateProjection lib False d\<rparr>"

section \<open>Actions\<close>

definition entryField :: "string \<Rightarrow> json \<Rightarrow> string" where
  "entryField k v = jtoString (jget (jtoObject v) k)"

definition duplicateActionResult :: "DemoLib \<Rightarrow> jobject \<Rightarrow> string \<Rightarrow> Demo \<Rightarrow> DemoResult option" where
  "duplicateActionResult lib command actor d =
     (let i = jtoString (jget command ''actionId'') in
      if i \<notin> dm_seen d then None
      else case find (\<lambda>e. entryField ''actionId'' e = i) (rev (dm_history d)) of
        None \<Rightarrow> Some (demoFailure lib ''ACTION_ID_CONFLICT'' d)
      | Some e \<Rightarrow>
          Some (if entryField ''action'' e \<noteq> jtoString (jget command ''action'') \<or> entryField ''actorSeatType'' e \<noteq> actor
                then demoFailure lib ''ACTION_ID_CONFLICT'' d
                else demoSuccess lib ''duplicate'' d))"

definition actionRefusal :: "jobject \<Rightarrow> string \<Rightarrow> jobject \<Rightarrow> Demo \<Rightarrow> string option" where
  "actionRefusal command actor trace d =
     (if jtoInteger 0 (jget command ''expectedRevision'') mod 2 ^ 64 \<noteq> int (dm_revision d) then Some ''DEMO_REVISION_MISMATCH''
      else if dm_status d = ''paused'' then Some ''DEMO_PAUSED''
      else if dm_status d = ''cancelled'' then Some ''DEMO_CANCELLED''
      else if dm_status d = ''completed'' then Some ''DEMO_COMPLETED''
      else case currentAction d of
        None \<Rightarrow> Some ''DEMO_COMPLETED''
      | Some s \<Rightarrow>
         (if jtoString (jget command ''action'') \<noteq> as_action s then Some ''DEMO_SEQUENCE_INVALID''
          else if actor \<noteq> as_seatType s \<and> actor \<noteq> ''automation'' then Some ''DEMO_ROLE_FORBIDDEN''
          else if trace = [] then Some ''DEMO_TRACE_REQUIRED''
          else None))"

definition placeholderTarget :: jobject where
  "placeholderTarget = [(''friendFoe'', JStr ''enemy''), (''status'', JStr ''tracked''), (''targetCount'', JNum 1),
     (''targetId'', JStr ''demo-target''), (''targetKind'', JStr ''entity''), (''targetType'', JStr ''unknown''),
     (''targetTypeCode'', JNum 7)]"

definition placeholderRoute :: jobject where
  "placeholderRoute = [(''points'', JArr [JObj [(''x'', JNum 0), (''y'', JNum 0)], JObj [(''x'', JNum 1), (''y'', JNum 1)]])]"

definition reportedTarget :: "jobject \<Rightarrow> jobject" where
  "reportedTarget payload =
     (let target = jtoObject (jget payload ''target'') in if target = [] then placeholderTarget else target)"

definition plannedRoute :: "jobject \<Rightarrow> jobject" where
  "plannedRoute payload =
     (let route = jtoObject (jget payload ''route'') in
      if \<not> isJArr (jget route ''points'') \<or> length (jtoArray (jget route ''points'')) < 2 then placeholderRoute else route)"

definition taskPart :: "jobject \<Rightarrow> string \<Rightarrow> jobject" where
  "taskPart task k = jtoObject (jget task k)"

definition simulatedEffect :: "jobject \<Rightarrow> rat \<Rightarrow> jobject" where
  "simulatedEffect task now =
     (let position = (jtoString (jget (taskPart task ''target'') ''targetKind'') = ''position'')
      in [(''createdAt'', JNum now), (''damagePercent'', JNum 100), (''destroyed'', JBool (\<not> position)),
          (''engineStateUntouched'', JBool True), (''mode'', JStr ''simulation''),
          (''outcome'', JStr (if position then ''effect-applied'' else ''destroyed''))])"

definition normalizedOutcome :: "jobject \<Rightarrow> string option" where
  "normalizedOutcome payload =
     (let v = jtoString (jget payload ''outcome'') in
      if v = [] then Some ''destroyed''
      else if v = ''destroyed'' \<or> v = ''notDestroyed'' then Some v else None)"

definition validDamageState :: "string \<Rightarrow> bool" where
  "validDamageState v \<longleftrightarrow> v = [] \<or> v \<in> {''destroyed'', ''damaged'', ''intact'', ''unknown''}"

definition copyField :: "jobject \<Rightarrow> string \<Rightarrow> jobject \<Rightarrow> jobject" where
  "copyField payload k effect = (if jcontains payload k then jput k (jget payload k) effect else effect)"

definition confirmedEffect :: "jobject \<Rightarrow> string \<Rightarrow> string \<Rightarrow> jobject \<Rightarrow> jobject" where
  "confirmedEffect payload outcome damage effect =
     fold (copyField payload) [''confidence'', ''evidence'', ''notes'']
       (jput ''damageState'' (JStr damage) (jput ''damaged'' (JBool (damage = ''damaged''))
         (jput ''alive'' (JBool (outcome \<noteq> ''destroyed'')) (jput ''destroyed'' (JBool (outcome = ''destroyed''))
           (jput ''outcome'' (JStr outcome) (jput ''confirmed'' (JBool True) effect))))))"

text \<open>What an action does to the task; an error code on the branches that refuse.\<close>

definition actionTask :: "string \<Rightarrow> jobject \<Rightarrow> string \<Rightarrow> rat \<Rightarrow> nat \<Rightarrow> jobject \<Rightarrow> string + jobject" where
  "actionTask action payload taskId now generation task =
     (if action = ''reportTarget''
      then Inr (jput ''generation'' (jnat generation) (jput ''taskId'' (JStr taskId)
             (jput ''target'' (JObj (reportedTarget payload)) task)))
      else if action = ''planRoute'' then Inr (jput ''route'' (JObj (plannedRoute payload)) task)
      else if action = ''sendGuidancePackage''
      then Inr (jput ''guidance'' (JObj (jput ''sent'' (JBool True) (jput ''packageId''
             (JStr (demoText (''package-'' @ number generation) (jget payload ''packageId''))) (taskPart task ''guidance'')))) task)
      else if action = ''simulateAttack''
      then Inr (jput ''effect'' (JObj (simulatedEffect task now))
             (jput ''strikeAttempt'' (jint (jtoInt 0 (jget task ''strikeAttempt'') + 1)) task))
      else if action = ''reportBattleDamage''
      then Inr (jput ''effect'' (JObj (jput ''reported'' (JBool True) (taskPart task ''effect''))) task)
      else if action = ''confirmDamageAssessment''
      then Inr (jput ''effect'' (JObj (jput ''assessed'' (JBool True) (taskPart task ''effect''))) task)
      else if action = ''confirmTargetDestroyed''
      then (case normalizedOutcome payload of
              None \<Rightarrow> Inl ''INVALID_DESTRUCTION_OUTCOME''
            | Some outcome \<Rightarrow>
                (let damage = demoText (if outcome = ''destroyed'' then ''destroyed'' else ''unknown'') (jget payload ''damageState'')
                 in if \<not> validDamageState damage then Inl ''INVALID_DAMAGE_STATE''
                    else Inr (jput ''lastOutcome'' (JStr outcome)
                           (jput ''effect'' (JObj (confirmedEffect payload outcome damage (taskPart task ''effect''))) task))))
      else if action = ''withdraw''
      then Inr (jput ''route'' (JObj (jput ''return'' (JBool True) (taskPart task ''route''))) task)
      else Inr task)"

definition actionReport :: "ActionSpec \<Rightarrow> string \<Rightarrow> string \<Rightarrow> jobject \<Rightarrow> jobject \<Rightarrow> rat \<Rightarrow> Demo \<Rightarrow> jobject" where
  "actionReport s taskId actor payload trace now d =
     fold (copyField trace) [''messageId'', ''traceId'']
       [(''action'', JStr (as_action s)), (''createdAt'', JNum now), (''details'', JObj payload),
        (''generation'', jnat (dm_generation d)), (''phase'', JStr (phaseName (as_phase s))),
        (''reportId'', JStr (''report-'' @ number (dm_generation d) @ ''-'' @ number (dm_revision d))),
        (''seatType'', JStr actor), (''strikeAttempt'', jint (jtoInt 0 (jget (dm_task d) ''strikeAttempt''))),
        (''substep'', JStr (as_substep s)), (''taskId'', JStr taskId)]"

definition actionTrace :: "ActionSpec \<Rightarrow> string \<Rightarrow> string \<Rightarrow> jobject \<Rightarrow> rat \<Rightarrow> jobject" where
  "actionTrace s actionId actor trace now =
     jput ''ack'' (JObj [(''automatic'', JBool (actor = ''automation'')),
         (''required'', JBool (jtoBool False (jget trace ''requiresAck''))), (''status'', JStr ''accepted'')])
       (jput ''createdAt'' (JNum now) (jput ''actorSeatType'' (JStr actor) (jput ''substep'' (JStr (as_substep s))
         (jput ''phase'' (JStr (phaseName (as_phase s))) (jput ''action'' (JStr (as_action s))
           (jput ''actionId'' (JStr actionId) trace))))))"

definition historyEntry :: "ActionSpec \<Rightarrow> string \<Rightarrow> string \<Rightarrow> rat \<Rightarrow> Demo \<Rightarrow> jobject" where
  "historyEntry s actionId actor now d =
     [(''action'', JStr (as_action s)), (''actionId'', JStr actionId), (''actorSeatType'', JStr actor),
      (''generation'', jnat (dm_generation d)), (''time'', JNum now)]"

text \<open>Forgetting the oldest actions.\<close>

function trimHistory :: "json list \<Rightarrow> string set \<Rightarrow> json list \<times> string set" where
  "trimHistory history seen =
     (if 4096 < length history then trimHistory (tl history) (seen - {entryField ''actionId'' (hd history)})
      else (history, seen))"
  by pat_completeness auto
termination
  by (relation "measure (\<lambda>(history, seen). length history)") auto

declare trimHistory.simps [simp del]

definition rememberAction :: "jobject \<Rightarrow> string \<Rightarrow> Demo \<Rightarrow> Demo" where
  "rememberAction entry actionId d =
     (let (history, seen) = trimHistory (dm_history d @ [JObj entry]) (insert actionId (dm_seen d))
      in d\<lparr>dm_history := history, dm_seen := seen\<rparr>)"

definition advanceAction :: "ActionSpec \<Rightarrow> jobject \<Rightarrow> Demo \<Rightarrow> Demo" where
  "advanceAction s payload d =
     (let m = (if as_action s = ''confirmTargetDestroyed'' \<and> jtoString (jget payload ''outcome'') = ''notDestroyed''
               then rebuildTargetState (d\<lparr>dm_actionIndex := 5\<rparr>)
               else d\<lparr>dm_actionIndex := Suc (dm_actionIndex d)\<rparr>);
          n = m\<lparr>dm_revision := Suc (dm_revision m)\<rparr>
      in applyScriptForCurrentPhase (n\<lparr>dm_status := (if currentAction n \<noteq> None then ''active'' else ''completed'')\<rparr>))"

definition demoTaskId :: "Demo \<Rightarrow> string" where
  "demoTaskId d = demoText (''demo-'' @ number (dm_generation d)) (jget (dm_task d) ''taskId'')"

definition performAction :: "ActionSpec \<Rightarrow> jobject \<Rightarrow> string \<Rightarrow> jobject \<Rightarrow> rat \<Rightarrow> jobject \<Rightarrow> Demo \<Rightarrow> Demo" where
  "performAction s command actor trace now task d =
     (let actionId = jtoString (jget command ''actionId'');
          payload = jtoObject (jget command ''payload'');
          a = d\<lparr>dm_task := task\<rparr>;
          b = appendReport (actionReport s (demoTaskId d) actor payload trace now a) a;
          c = b\<lparr>dm_traces := push_log 200 (JObj (actionTrace s actionId actor trace now)) (dm_traces b)\<rparr>
      in advanceAction s payload (rememberAction (historyEntry s actionId actor now c) actionId c))"

definition applyDemoAction :: "DemoLib \<Rightarrow> jobject \<Rightarrow> string \<Rightarrow> jobject \<Rightarrow> rat \<Rightarrow> Demo \<Rightarrow> DemoResult \<times> Demo" where
  "applyDemoAction lib command actor trace now d =
     (if \<not> demoIdentifier (jtoString (jget command ''actionId'')) then (demoFailure lib ''INVALID_ACTION_ID'' d, d)
      else case duplicateActionResult lib command actor d of
        Some r \<Rightarrow> (r, d)
      | None \<Rightarrow>
         (case actionRefusal command actor trace d of
            Some code \<Rightarrow> (demoFailure lib code d, d)
          | None \<Rightarrow>
             (let s = the (currentAction d) in
              case actionTask (as_action s) (jtoObject (jget command ''payload'')) (demoTaskId d) now (dm_generation d) (dm_task d) of
                Inl code \<Rightarrow> (demoFailure lib code d, d)
              | Inr task \<Rightarrow> (let t = performAction s command actor trace now task d in (demoSuccess lib ''accepted'' t, t)))))"

section \<open>Controls\<close>

definition nextGeneration :: "Demo \<Rightarrow> Demo" where
  "nextGeneration d = d\<lparr>dm_generation := Suc (dm_generation d), dm_revision := Suc (dm_revision d)\<rparr>"

definition revise :: "Demo \<Rightarrow> Demo" where
  "revise d = d\<lparr>dm_revision := Suc (dm_revision d)\<rparr>"

definition cancelDemo :: "jobject \<Rightarrow> int \<Rightarrow> Demo \<Rightarrow> Demo" where
  "cancelDemo payload clock d =
     (let given = jtoInteger 0 (jget payload ''cancelUntilMs'') in
      revise (d\<lparr>dm_status := ''cancelled'', dm_cancelledGeneration := dm_generation d,
        dm_cancelUntil := (if given \<le> 0 then clock + 3000 else given)\<rparr>))"

fun firstOfPhase :: "int \<Rightarrow> ActionSpec list \<Rightarrow> nat \<Rightarrow> nat" where
  "firstOfPhase phase [] n = n"
| "firstOfPhase phase (s # ss) n = (if int (as_phase s) = phase then n else firstOfPhase phase ss (Suc n))"

definition jumpTo :: "int \<Rightarrow> Demo \<Rightarrow> Demo" where
  "jumpTo phase d =
     rebuildTargetState (nextGeneration (d\<lparr>dm_actionIndex := firstOfPhase phase actionSpecs 0, dm_status := ''active''\<rparr>))"

definition applyControl :: "DemoLib \<Rightarrow> string \<Rightarrow> jobject \<Rightarrow> int \<Rightarrow> Demo \<Rightarrow> DemoResult \<times> Demo" where
  "applyControl lib action payload clock d =
     (let ok = (\<lambda>status t. (demoSuccess lib status t, t)); no = (\<lambda>code. (demoFailure lib code d, d)) in
      if action = ''cancel''
      then (if dm_status d = ''completed'' then no ''DEMO_COMPLETED'' else ok ''cancelled'' (cancelDemo payload clock d))
      else if action = ''start''
      then (if dm_status d \<noteq> ''completed'' then no ''DEMO_NOT_COMPLETED''
            else ok ''started'' (resetDemo (nextGeneration (archiveGeneration ''completed'' d))))
      else if action = ''reset'' then ok ''accepted'' (resetDemo (nextGeneration d))
      else if action = ''pause''
      then ok ''paused'' (revise (if dm_status d \<noteq> ''completed'' then d\<lparr>dm_status := ''paused''\<rparr> else d))
      else if action = ''resume''
      then ok ''accepted'' (revise (if dm_status d = ''paused'' then d\<lparr>dm_status := ''active''\<rparr> else d))
      else if action = ''jump''
      then (let phase = phaseIndex (jtoString (jget payload ''phase'')) in
            if phase < 0 then no ''INVALID_DEMO_PHASE'' else ok ''accepted'' (jumpTo phase d))
      else if action = ''setTargetScript''
      then (let script = jtoObject (jget payload ''script'') in
            if \<not> validateTargetScript lib script then no ''INVALID_TARGET_SCRIPT''
            else ok ''accepted'' (resetDemo (nextGeneration (d\<lparr>dm_targetScript := normalizedScript script\<rparr>))))
      else no ''UNKNOWN_DEMO_CONTROL'')"

definition advanceCancellation :: "int \<Rightarrow> Demo \<Rightarrow> bool \<times> Demo" where
  "advanceCancellation nowMs d =
     (if dm_status d \<noteq> ''cancelled'' \<or> dm_cancelUntil d \<le> 0 then (False, d)
      else if nowMs < dm_cancelUntil d then (False, d)
      else (True, resetDemo (nextGeneration (archiveGeneration ''cancelled'' d))))"

section \<open>The checkpoint\<close>

definition demoToJson :: "Demo \<Rightarrow> jobject" where
  "demoToJson d =
     [(''schemaVersion'', JNum 2), (''profile'', JStr ''vmf-demo-v2''), (''generation'', jnat (dm_generation d)),
      (''revision'', jnat (dm_revision d)), (''actionIndex'', jnat (dm_actionIndex d)), (''status'', JStr (dm_status d)),
      (''targetScript'', JObj (dm_targetScript d)), (''scriptCursor'', jnat (dm_scriptCursor d)),
      (''targetState'', JObj (dm_targetState d)), (''task'', JObj (dm_task d)), (''reports'', JArr (dm_reports d)),
      (''archive'', JArr (dm_archive d)), (''cancelUntilMs'', jint (dm_cancelUntil d)),
      (''cancelledGeneration'', jnat (dm_cancelledGeneration d)), (''traces'', JArr (dm_traces d)),
      (''actionHistory'', JArr (dm_history d)), (''seenActionIds'', jstrings (sorted_list_of_set (dm_seen d)))]"

definition demoHeader :: "jobject \<Rightarrow> bool" where
  "demoHeader ob \<longleftrightarrow>
     (let index = jtoInt (-1) (jget ob ''actionIndex''); status = jtoString (jget ob ''status'') in
      jtoInt 0 (jget ob ''schemaVersion'') = 2 \<and> jtoString (jget ob ''profile'') = ''vmf-demo-v2''
      \<and> 0 < jtoInteger 0 (jget ob ''generation'') \<and> 0 < jtoInteger 0 (jget ob ''revision'')
      \<and> 0 \<le> index \<and> index \<le> int (length actionSpecs)
      \<and> status \<in> {''active'', ''paused'', ''completed'', ''cancelled''}
      \<and> (status = ''completed'' \<longrightarrow> index = int (length actionSpecs)))"

definition demoArchiveEntry :: "json \<Rightarrow> bool" where
  "demoArchiveEntry v \<longleftrightarrow> isJObj v
     \<and> (jcontains (jtoObject v) ''reports'' \<longrightarrow> isJArr (jget (jtoObject v) ''reports'')
        \<and> length (jtoArray (jget (jtoObject v) ''reports'')) \<le> 128)"

definition demoContent :: "jobject \<Rightarrow> jobject \<Rightarrow> bool" where
  "demoContent script ob \<longleftrightarrow>
     (let cursor = jtoInt (-1) (jget ob ''scriptCursor'') in
      length (jtoArray (jget ob ''traces'')) \<le> 200 \<and> length (jtoArray (jget ob ''actionHistory'')) \<le> 4096
      \<and> length (jtoArray (jget ob ''seenActionIds'')) \<le> 4096
      \<and> 0 \<le> cursor \<and> cursor \<le> int (length (timeline script)) \<and> isJObj (jget ob ''targetState'')
      \<and> (jcontains ob ''task'' \<longrightarrow> isJObj (jget ob ''task''))
      \<and> (jcontains ob ''reports'' \<longrightarrow> isJArr (jget ob ''reports''))
      \<and> (jcontains ob ''archive'' \<longrightarrow> isJArr (jget ob ''archive''))
      \<and> list_all demoArchiveEntry (jtoArray (jget ob ''archive'')))"

text \<open>The remembered ids, and the entries of the history; none if one of them is not accepted.\<close>

fun seenIds :: "json list \<Rightarrow> string set \<Rightarrow> string set option" where
  "seenIds [] ids = Some ids"
| "seenIds (v # vs) ids =
     (if \<not> isJStr v \<or> \<not> demoIdentifier (jtoString v) \<or> jtoString v \<in> ids then None
      else seenIds vs (insert (jtoString v) ids))"

definition knownEntry :: "json \<Rightarrow> bool" where
  "knownEntry v \<longleftrightarrow> isJObj v \<and> demoIdentifier (entryField ''actionId'' v)
     \<and> list_ex (\<lambda>s. as_action s = entryField ''action'' v) actionSpecs
     \<and> (entryField ''actorSeatType'' v = ''automation''
        \<or> list_ex (\<lambda>s. as_seatType s = entryField ''actorSeatType'' v) actionSpecs)
     \<and> isJNum (jget (jtoObject v) ''time'')"

fun historyIds :: "json list \<Rightarrow> string set \<Rightarrow> string set option" where
  "historyIds [] ids = Some ids"
| "historyIds (v # vs) ids =
     (if \<not> knownEntry v \<or> entryField ''actionId'' v \<in> ids then None
      else historyIds vs (insert (entryField ''actionId'' v) ids))"

definition traceOk :: "json \<Rightarrow> bool" where
  "traceOk v \<longleftrightarrow> isJObj v \<and> demoIdentifier (entryField ''actionId'' v) \<and> entryField ''action'' v \<noteq> []
     \<and> 0 \<le> phaseIndex (entryField ''phase'' v) \<and> isJNum (jget (jtoObject v) ''createdAt'')"

definition expectedTargets :: "jobject \<Rightarrow> nat \<Rightarrow> nat \<times> jobject" where
  "expectedTargets script index =
     (let e = rebuildTargetState (newDemo\<lparr>dm_targetScript := script, dm_actionIndex := index\<rparr>)
      in (dm_scriptCursor e, dm_targetState e))"

definition restoreLegacy :: "DemoLib \<Rightarrow> jobject \<Rightarrow> Demo \<Rightarrow> bool \<times> Demo" where
  "restoreLegacy lib ob d =
     (let script = jtoObject (jget ob ''targetScript'') in
      if \<not> validateTargetScript lib script then (False, d)
      else let s = d\<lparr>dm_targetScript := normalizedScript script\<rparr>;
               generation = jtoInteger 0 (jget ob ''generation'');
               revision = jtoInteger 0 (jget ob ''revision'')
           in if generation \<le> 0 \<or> revision \<le> 0 then (False, s)
              else (True, resetDemo (s\<lparr>
                dm_archive := [JObj [(''generation'', jint generation), (''migration'', JStr ''schema1-to-schema2''),
                  (''status'', JStr ''migrated'')]],
                dm_generation := nat (generation + 1), dm_revision := nat (revision + 1)\<rparr>)))"

definition restoredDemo :: "jobject \<Rightarrow> jobject \<Rightarrow> string set \<Rightarrow> Demo \<Rightarrow> Demo" where
  "restoredDemo ob script ids d =
     (let generation = nat (jtoInteger 0 (jget ob ''generation''));
          task = jtoObject (jget ob ''task'');
          e = d\<lparr>dm_generation := generation, dm_revision := nat (jtoInteger 0 (jget ob ''revision'')),
                dm_actionIndex := nat (jtoInt (-1) (jget ob ''actionIndex'')), dm_status := jtoString (jget ob ''status''),
                dm_targetScript := script, dm_scriptCursor := nat (jtoInt (-1) (jget ob ''scriptCursor'')),
                dm_targetState := jtoObject (jget ob ''targetState''), dm_task := task\<rparr>
      in (if task = [] then clearTaskState e else e)\<lparr>
          dm_reports := jtoArray (jget ob ''reports''), dm_archive := jtoArray (jget ob ''archive''),
          dm_cancelUntil := jtoInteger 0 (jget ob ''cancelUntilMs''),
          dm_cancelledGeneration := nat (jtoInteger 0 (jget ob ''cancelledGeneration'') mod 2 ^ 64),
          dm_traces := jtoArray (jget ob ''traces''), dm_history := jtoArray (jget ob ''actionHistory''),
          dm_seen := ids\<rparr>)"

definition restoreCurrent :: "DemoLib \<Rightarrow> jobject \<Rightarrow> Demo \<Rightarrow> bool \<times> Demo" where
  "restoreCurrent lib ob d =
     (let script = jtoObject (jget ob ''targetScript'') in
      if \<not> demoHeader ob \<or> \<not> validateTargetScript lib script \<or> \<not> demoContent script ob then (False, d)
      else case (seenIds (jtoArray (jget ob ''seenActionIds'')) {}, historyIds (jtoArray (jget ob ''actionHistory'')) {}) of
        (Some ids, Some entries) \<Rightarrow>
          (if entries \<noteq> ids
             \<or> (jtoInt (-1) (jget ob ''scriptCursor''), jtoObject (jget ob ''targetState''))
               \<noteq> (let (c, t) = expectedTargets script (nat (jtoInt (-1) (jget ob ''actionIndex''))) in (int c, t))
             \<or> \<not> list_all traceOk (jtoArray (jget ob ''traces''))
           then (False, d) else (True, restoredDemo ob script ids d))
      | _ \<Rightarrow> (False, d))"

definition restoreDemo :: "DemoLib \<Rightarrow> jobject \<Rightarrow> Demo \<Rightarrow> bool \<times> Demo" where
  "restoreDemo lib ob d =
     (if jtoInt 0 (jget ob ''schemaVersion'') = 1 then restoreLegacy lib ob d else restoreCurrent lib ob d)"

end
