(* ===== verification/VmfDemoProps.thy ===== *)
theory VmfDemoProps
  imports VmfDemo Prelude
begin

text \<open>
  What the demonstration may rely on: its invariant, that a checkpoint of it restores it, when an action is
  accepted, that an action is applied once, and that the flow can always be completed.
\<close>

section \<open>The script\<close>

definition phaseOf :: "nat \<Rightarrow> int" where
  "phaseOf i = (if i < length actionSpecs then int (as_phase (actionSpecs ! i)) else 6)"

definition scriptState :: "jobject \<Rightarrow> nat \<Rightarrow> nat \<times> jobject" where
  "scriptState script i = applyEntries (phaseOf i) (timeline script) (0, initialTargets script)"

lemma specs_length: "length actionSpecs = 17"
  by (simp add: actionSpecs_def)

lemma currentPhase_eq: "currentPhase d = phaseOf (dm_actionIndex d)"
  by (simp add: currentPhase_def currentAction_def phaseOf_def phaseIds_def)

lemma phaseOf_Suc: "i < 17 \<Longrightarrow> phaseOf i \<le> phaseOf (Suc i)"
proof -
  have "list_all (\<lambda>i. phaseOf i \<le> phaseOf (Suc i)) [0..<17]"
    by code_simp
  then show "i < 17 \<Longrightarrow> phaseOf i \<le> phaseOf (Suc i)"
    by (simp add: list_all_iff)
qed

lemma specs_known: "s \<in> set actionSpecs \<Longrightarrow> as_action s \<noteq> [] \<and> 0 \<le> phaseIndex (phaseName (as_phase s))"
proof -
  have "list_all (\<lambda>s. as_action s \<noteq> [] \<and> 0 \<le> phaseIndex (phaseName (as_phase s))) actionSpecs"
    by code_simp
  then show "s \<in> set actionSpecs \<Longrightarrow> as_action s \<noteq> [] \<and> 0 \<le> phaseIndex (phaseName (as_phase s))"
    by (simp add: list_all_iff)
qed

text \<open>Applying the script up to a phase and then up to a later one is applying it up to the later one.\<close>

lemma applyEntries_bounds: "applyEntries p vs (c, s) = (c', s') \<Longrightarrow> c \<le> c' \<and> c' \<le> c + length vs"
proof (induction vs arbitrary: c s)
  case (Cons v vs)
  show ?case
  proof (cases "p < triggerPhase v")
    case False
    then show ?thesis
      using Cons.prems Cons.IH [of "Suc c"] by (force simp: Let_def)
  qed (use Cons.prems in simp)
qed simp

lemma applyEntries_continue:
  assumes "p \<le> p'" and "applyEntries p vs (c, s) = (c', s')"
  shows "applyEntries p' (drop (c' - c) vs) (c', s') = applyEntries p' vs (c, s)"
  using assms(2)
proof (induction vs arbitrary: c s)
  case (Cons v vs)
  show ?case
  proof (cases "p < triggerPhase v")
    case True
    then show ?thesis
      using Cons.prems by simp
  next
    case False
    let ?t = "jtoString (jget (jtoObject v) ''targetId'')"
    let ?s = "jput ?t (JObj (mergeObject (jtoObject (jget s ?t)) (jtoObject (jget (jtoObject v) ''patch'')))) s"
    have next': "applyEntries p vs (Suc c, ?s) = (c', s')"
      using Cons.prems False by (simp add: Let_def)
    then have "drop (c' - c) (v # vs) = drop (c' - Suc c) vs"
      using applyEntries_bounds [OF next'] by (simp add: drop_Cons')
    then show ?thesis
      using Cons.IH [OF next'] False assms(1) by (simp add: Let_def)
  qed
qed simp

lemma rebuild_eq:
  "rebuildTargetState d = d\<lparr>dm_scriptCursor := fst (scriptState (dm_targetScript d) (dm_actionIndex d)),
     dm_targetState := snd (scriptState (dm_targetScript d) (dm_actionIndex d))\<rparr>"
  by (simp add: rebuildTargetState_def applyScriptForCurrentPhase_def currentPhase_eq scriptState_def split: prod.splits)

lemma script_continues:
  assumes "(dm_scriptCursor d, dm_targetState d) = scriptState (dm_targetScript d) i" and "phaseOf i \<le> phaseOf (dm_actionIndex d)"
  shows "applyScriptForCurrentPhase d = rebuildTargetState d"
proof -
  have "applyEntries (phaseOf (dm_actionIndex d)) (drop (dm_scriptCursor d) (timeline (dm_targetScript d)))
      (dm_scriptCursor d, dm_targetState d) = scriptState (dm_targetScript d) (dm_actionIndex d)"
    using applyEntries_continue [OF assms(2) assms(1) [symmetric, unfolded scriptState_def]] by (simp add: scriptState_def)
  then show ?thesis
    by (simp add: applyScriptForCurrentPhase_def currentPhase_eq rebuild_eq split: prod.splits)
qed

section \<open>The invariant\<close>

definition entryIds :: "json list \<Rightarrow> string list" where
  "entryIds history = map (entryField ''actionId'') history"

definition demoOk :: "DemoLib \<Rightarrow> Demo \<Rightarrow> bool" where
  "demoOk lib d \<longleftrightarrow> 0 < dm_generation d \<and> 0 < dm_revision d \<and> dm_actionIndex d \<le> 17
     \<and> dm_status d \<in> {''active'', ''paused'', ''completed'', ''cancelled''}
     \<and> (dm_status d = ''completed'' \<longleftrightarrow> dm_actionIndex d = 17)
     \<and> dm_targetScript d \<noteq> [] \<and> validateTargetScript lib (dm_targetScript d)
     \<and> (dm_scriptCursor d, dm_targetState d) = scriptState (dm_targetScript d) (dm_actionIndex d)
     \<and> dm_task d \<noteq> [] \<and> length (dm_reports d) \<le> 128
     \<and> length (dm_archive d) \<le> 20 \<and> list_all demoArchiveEntry (dm_archive d)
     \<and> length (dm_traces d) \<le> 200 \<and> list_all traceOk (dm_traces d)
     \<and> length (dm_history d) \<le> 4096 \<and> list_all knownEntry (dm_history d) \<and> distinct (entryIds (dm_history d))
     \<and> dm_seen d = set (entryIds (dm_history d))
     \<and> - (2 ^ 63) \<le> dm_cancelUntil d \<and> dm_cancelUntil d < 2 ^ 63 \<and> dm_cancelledGeneration d \<le> dm_generation d"

datatype DemoCall = Act jobject string jobject rat | Control string jobject int | Tick int

fun demo_call :: "DemoLib \<Rightarrow> DemoCall \<Rightarrow> Demo \<Rightarrow> Demo" where
  "demo_call lib (Act command actor trace now) d = snd (applyDemoAction lib command actor trace now d)"
| "demo_call lib (Control action payload clock) d = snd (applyControl lib action payload clock d)"
| "demo_call lib (Tick nowMs) d = snd (advanceCancellation nowMs d)"

text \<open>The environment: the text of the empty script is short, and the clock stays far from the end of 64 bits.\<close>

fun demo_guard :: "DemoLib \<Rightarrow> Demo \<Rightarrow> DemoCall \<Rightarrow> bool" where
  "demo_guard lib d (Control action payload clock) \<longleftrightarrow>
     dl_compactSize lib emptyScript \<le> 256 * 1024 \<and> 0 \<le> clock \<and> clock \<le> 2 ^ 62"
| "demo_guard lib d c \<longleftrightarrow> True"

lemma emptyScript_valid: "dl_compactSize lib emptyScript \<le> 256 * 1024 \<Longrightarrow> validateTargetScript lib emptyScript"
  by (simp add: validateTargetScript_def emptyScript_def json_simps)

interpretation demo_reports: bounded_log "push_log 128" 128
  by (rule bounded_log_push_log) simp

interpretation demo_archive: bounded_log "push_log 20" 20
  by (rule bounded_log_push_log) simp

interpretation demo_traces: bounded_log "push_log 200" 200
  by (rule bounded_log_push_log) simp

lemma list_all_push: "list_all P xs \<Longrightarrow> P x \<Longrightarrow> list_all P (push_log n x xs)"
  unfolding list_all_iff by (auto simp: log_simps dest: in_set_dropD)

lemma reset_ok:
  assumes "dm_targetScript d \<noteq> []" and "validateTargetScript lib (dm_targetScript d)"
    and "0 < dm_generation d" and "0 < dm_revision d" and "length (dm_archive d) \<le> 20" and "list_all demoArchiveEntry (dm_archive d)"
  shows "demoOk lib (resetDemo d)"
  using assms
  by (simp add: demoOk_def resetDemo_def clearTaskState_def rebuild_eq freshDemoTask_def entryIds_def Let_def)

lemma newDemo_ok:
  assumes "dl_compactSize lib emptyScript \<le> 256 * 1024"
  shows "demoOk lib newDemo"
  using emptyScript_valid [OF assms]
  by (simp add: demoOk_def newDemo_def resetDemo_def clearTaskState_def rebuild_eq freshDemoTask_def entryIds_def Let_def
      normalizedScript_def) (simp add: emptyScript_def)

lemma archived_ok:
  assumes "demoOk lib d"
  shows "length (dm_archive (archiveGeneration status d)) \<le> 20" and "list_all demoArchiveEntry (dm_archive (archiveGeneration status d))"
proof -
  show "length (dm_archive (archiveGeneration status d)) \<le> 20"
    using demo_archive.push_bound by (simp add: archiveGeneration_def)
  have "length (dm_reports d) \<le> 128" "list_all demoArchiveEntry (dm_archive d)"
    using assms by (simp_all add: demoOk_def)
  then show "list_all demoArchiveEntry (dm_archive (archiveGeneration status d))"
    unfolding archiveGeneration_def by (simp add: list_all_push demoArchiveEntry_def json_simps)
qed

section \<open>Actions keep the invariant\<close>

text \<open>Forgetting the oldest actions keeps the remembered ids those of the history.\<close>

lemma trimHistory_ok:
  assumes "distinct (entryIds history)" and "seen = set (entryIds history)" and "trimHistory history seen = (history', seen')"
  shows "seen' = set (entryIds history') \<and> suffix history' history \<and> length history' \<le> 4096"
  using assms
proof (induction history seen rule: trimHistory.induct)
  case (1 history seen)
  show ?case
  proof (cases "4096 < length history")
    case True
    then obtain e rest where h: "history = e # rest"
      by (cases history) auto
    have "seen - {entryField ''actionId'' e} = set (entryIds rest)"
      using 1(2,3) by (auto simp: h entryIds_def)
    then have "seen' = set (entryIds history') \<and> suffix history' rest \<and> length history' \<le> 4096"
      using 1(1) [OF True] 1(2,4) True by (simp add: h entryIds_def trimHistory.simps [of "e # rest"])
    then show ?thesis
      by (simp add: h suffix_Cons)
  next
    case False
    then show ?thesis
      using 1(3,4) by (auto simp: trimHistory.simps [of history])
  qed
qed

lemma suffix_entries:
  "suffix xs ys \<Longrightarrow> list_all P ys \<Longrightarrow> list_all P xs" "suffix xs ys \<Longrightarrow> distinct (entryIds ys) \<Longrightarrow> distinct (entryIds xs)"
  by (auto simp: suffix_def entryIds_def)

definition historyOk :: "Demo \<Rightarrow> bool" where
  "historyOk d \<longleftrightarrow> length (dm_history d) \<le> 4096 \<and> list_all knownEntry (dm_history d) \<and> distinct (entryIds (dm_history d))
     \<and> dm_seen d = set (entryIds (dm_history d))"

lemma rememberAction_ok:
  assumes "historyOk d" and "entryField ''actionId'' (JObj entry) = i" and "i \<notin> dm_seen d" and "knownEntry (JObj entry)"
  shows "historyOk (rememberAction entry i d)"
proof -
  let ?h = "dm_history d @ [JObj entry]"
  have d: "distinct (entryIds ?h)" and s: "insert i (dm_seen d) = set (entryIds ?h)" and k: "list_all knownEntry ?h"
    using assms by (auto simp: historyOk_def entryIds_def)
  obtain h' s' where t: "trimHistory ?h (insert i (dm_seen d)) = (h', s')"
    by fastforce
  show ?thesis
    using trimHistory_ok [OF d s t] d k suffix_entries [of h' ?h]
    by (simp add: rememberAction_def t historyOk_def)
qed

lemma rememberAction_fields:
  "\<exists>history seen. rememberAction entry i d = d\<lparr>dm_history := history, dm_seen := seen\<rparr>"
  by (auto simp: rememberAction_def split: prod.split)

definition nextIndex :: "ActionSpec \<Rightarrow> jobject \<Rightarrow> nat \<Rightarrow> nat" where
  "nextIndex s payload i =
     (if as_action s = ''confirmTargetDestroyed'' \<and> jtoString (jget payload ''outcome'') = ''notDestroyed'' then 5 else Suc i)"

text \<open>After an action the targets are those of the script at the new step.\<close>

lemma advance_eq:
  assumes c: "(dm_scriptCursor d, dm_targetState d) = scriptState (dm_targetScript d) (dm_actionIndex d)"
    and i: "dm_actionIndex d < 17" and j: "j = nextIndex s payload (dm_actionIndex d)"
  shows "advanceAction s payload d = rebuildTargetState (d\<lparr>dm_actionIndex := j, dm_revision := Suc (dm_revision d),
     dm_status := (if j < 17 then ''active'' else ''completed'')\<rparr>)"
proof (cases "as_action s = ''confirmTargetDestroyed'' \<and> jtoString (jget payload ''outcome'') = ''notDestroyed''")
  case True
  let ?n = "rebuildTargetState (d\<lparr>dm_actionIndex := 5\<rparr>)\<lparr>dm_revision := Suc (dm_revision d), dm_status := ''active''\<rparr>"
  have "currentAction (rebuildTargetState (d\<lparr>dm_actionIndex := 5\<rparr>)\<lparr>dm_revision := Suc (dm_revision d)\<rparr>) \<noteq> None"
    by (simp add: currentAction_def rebuild_eq specs_length)
  then have "advanceAction s payload d = applyScriptForCurrentPhase ?n"
    using True by (simp add: advanceAction_def Let_def rebuild_eq)
  also have "\<dots> = rebuildTargetState ?n"
    by (rule script_continues [of _ 5]) (simp_all add: rebuild_eq)
  finally show ?thesis
    using True by (simp add: j nextIndex_def rebuild_eq)
next
  case False
  let ?n = "d\<lparr>dm_actionIndex := j, dm_revision := Suc (dm_revision d), dm_status := (if j < 17 then ''active'' else ''completed'')\<rparr>"
  have jn: "j = Suc (dm_actionIndex d)"
    using False by (auto simp: j nextIndex_def)
  have "advanceAction s payload d = applyScriptForCurrentPhase ?n"
    unfolding advanceAction_def if_not_P [OF False] by (simp add: Let_def jn currentAction_def specs_length)
  also have "\<dots> = rebuildTargetState ?n"
    by (rule script_continues [of _ "dm_actionIndex d"]) (use c phaseOf_Suc [OF i] in \<open>simp_all add: jn\<close>)
  finally show ?thesis .
qed

lemma nextIndex_le: "i < 17 \<Longrightarrow> nextIndex s payload i \<le> 17"
  by (simp add: nextIndex_def)

lemma trace_kept:
  assumes "s \<in> set actionSpecs" and "demoIdentifier i"
  shows "traceOk (JObj (actionTrace s i actor trace now))"
  using specs_known [OF assms(1)] assms(2) by (simp add: traceOk_def actionTrace_def entryField_def json_simps)

lemma entry_known:
  assumes "s \<in> set actionSpecs" and "demoIdentifier i" and "actor = as_seatType s \<or> actor = ''automation''"
  shows "knownEntry (JObj (historyEntry s i actor now d))"
  using assms by (auto simp: knownEntry_def historyEntry_def entryField_def json_simps list_ex_iff)

lemma actionTask_kept: "actionTask action payload i now g task = Inr t \<Longrightarrow> task \<noteq> [] \<Longrightarrow> t \<noteq> []"
  by (auto simp: actionTask_def Let_def split: if_splits option.splits)

text \<open>What a performed action leaves.\<close>

definition performed :: "ActionSpec \<Rightarrow> jobject \<Rightarrow> string \<Rightarrow> jobject \<Rightarrow> rat \<Rightarrow> jobject \<Rightarrow> Demo \<Rightarrow> Demo" where
  "performed s command actor trace now task d =
     (let i = jtoString (jget command ''actionId''); a = d\<lparr>dm_task := task\<rparr>;
          b = appendReport (actionReport s (demoTaskId d) actor (jtoObject (jget command ''payload'')) trace now a) a;
          c = b\<lparr>dm_traces := push_log 200 (JObj (actionTrace s i actor trace now)) (dm_traces b)\<rparr>
      in rememberAction (historyEntry s i actor now c) i c)"

lemma performAction_eq:
  "performAction s command actor trace now task d =
     advanceAction s (jtoObject (jget command ''payload'')) (performed s command actor trace now task d)"
  by (simp add: performAction_def performed_def Let_def)

lemma performed_keeps:
  assumes "p = performed s command actor trace now task d"
  shows "dm_generation p = dm_generation d" "dm_revision p = dm_revision d" "dm_actionIndex p = dm_actionIndex d"
    "dm_status p = dm_status d" "dm_targetScript p = dm_targetScript d" "dm_scriptCursor p = dm_scriptCursor d"
    "dm_targetState p = dm_targetState d" "dm_archive p = dm_archive d" "dm_cancelUntil p = dm_cancelUntil d"
    "dm_cancelledGeneration p = dm_cancelledGeneration d" "dm_task p = task"
  unfolding assms
  by (simp_all add: performed_def rememberAction_def appendReport_def Let_def split: prod.split)

lemma performed_logs:
  assumes d: "demoOk lib d" and s: "s \<in> set actionSpecs" and i: "i = jtoString (jget command ''actionId'')"
    "demoIdentifier i" "i \<notin> dm_seen d" and actor: "actor = as_seatType s \<or> actor = ''automation''"
    and p: "p = performed s command actor trace now task d"
  shows "length (dm_reports p) \<le> 128" "length (dm_traces p) \<le> 200" "list_all traceOk (dm_traces p)" "historyOk p"
proof -
  let ?a = "d\<lparr>dm_task := task\<rparr>"
  define b where "b = appendReport (actionReport s (demoTaskId d) actor (jtoObject (jget command ''payload'')) trace now ?a) ?a"
  define c where "c = b\<lparr>dm_traces := push_log 200 (JObj (actionTrace s i actor trace now)) (dm_traces b)\<rparr>"
  have pc: "p = rememberAction (historyEntry s i actor now c) i c"
    by (simp add: p performed_def Let_def b_def c_def i)
  have keep: "dm_history b = dm_history d" "dm_seen b = dm_seen d" "dm_traces b = dm_traces d"
    by (simp_all add: b_def appendReport_def)
  have "length (dm_reports b) \<le> 128"
    using d by (simp add: b_def appendReport_def demoOk_def demo_reports.push_bound)
  then show "length (dm_reports p) \<le> 128"
    by (simp add: pc rememberAction_def c_def split: prod.split)
  have t: "dm_traces p = push_log 200 (JObj (actionTrace s i actor trace now)) (dm_traces d)"
    by (simp add: pc rememberAction_def c_def keep split: prod.split)
  show "length (dm_traces p) \<le> 200"
    unfolding t by (rule demo_traces.push_bound)
  show "list_all traceOk (dm_traces p)"
    unfolding t using d trace_kept [OF s i(2)] by (intro list_all_push) (simp_all add: demoOk_def)
  have "historyOk c"
    using d by (simp add: historyOk_def c_def keep demoOk_def)
  then show "historyOk p"
    unfolding pc
    by (rule rememberAction_ok) (use i entry_known [OF s i(2) actor] in \<open>simp_all add: c_def keep historyEntry_def entryField_def json_simps\<close>)
qed

lemma demoOk_split:
  "demoOk lib d \<longleftrightarrow> historyOk d \<and> 0 < dm_generation d \<and> 0 < dm_revision d \<and> dm_actionIndex d \<le> 17
     \<and> dm_status d \<in> {''active'', ''paused'', ''completed'', ''cancelled''}
     \<and> (dm_status d = ''completed'' \<longleftrightarrow> dm_actionIndex d = 17)
     \<and> dm_targetScript d \<noteq> [] \<and> validateTargetScript lib (dm_targetScript d)
     \<and> (dm_scriptCursor d, dm_targetState d) = scriptState (dm_targetScript d) (dm_actionIndex d)
     \<and> dm_task d \<noteq> [] \<and> length (dm_reports d) \<le> 128
     \<and> length (dm_archive d) \<le> 20 \<and> list_all demoArchiveEntry (dm_archive d)
     \<and> length (dm_traces d) \<le> 200 \<and> list_all traceOk (dm_traces d)
     \<and> - (2 ^ 63) \<le> dm_cancelUntil d \<and> dm_cancelUntil d < 2 ^ 63 \<and> dm_cancelledGeneration d \<le> dm_generation d"
  unfolding demoOk_def historyOk_def by blast

lemma historyOk_cong: "dm_history e = dm_history d \<Longrightarrow> dm_seen e = dm_seen d \<Longrightarrow> historyOk e = historyOk d"
  by (simp add: historyOk_def)

lemma refusal_None:
  assumes "actionRefusal command actor trace d = None"
  shows "dm_actionIndex d < 17" "dm_status d \<noteq> ''completed''" "dm_status d \<noteq> ''paused''" "dm_status d \<noteq> ''cancelled''"
    "currentAction d = Some (actionSpecs ! dm_actionIndex d)"
    "actor = as_seatType (actionSpecs ! dm_actionIndex d) \<or> actor = ''automation''"
    "jtoString (jget command ''action'') = as_action (actionSpecs ! dm_actionIndex d)" "trace \<noteq> []"
    "jtoInteger 0 (jget command ''expectedRevision'') mod 2 ^ 64 = int (dm_revision d)"
  using assms by (auto simp: actionRefusal_def currentAction_def specs_length split: if_splits)

lemma performAction_ok:
  assumes d: "demoOk lib d" and i: "demoIdentifier (jtoString (jget command ''actionId''))"
    "jtoString (jget command ''actionId'') \<notin> dm_seen d" and r: "actionRefusal command actor trace d = None"
    and t: "task \<noteq> []"
  shows "demoOk lib (performAction (actionSpecs ! dm_actionIndex d) command actor trace now task d)"
proof -
  let ?s = "actionSpecs ! dm_actionIndex d"
  define p where "p = performed ?s command actor trace now task d"
  define j where "j = nextIndex ?s (jtoObject (jget command ''payload'')) (dm_actionIndex d)"
  note idx = refusal_None(1) [OF r]
  have s: "?s \<in> set actionSpecs"
    using idx by (simp add: specs_length)
  note logs = performed_logs [OF d s refl i refusal_None(6) [OF r] p_def]
  note keep = performed_keeps [OF p_def]
  have "(dm_scriptCursor p, dm_targetState p) = scriptState (dm_targetScript p) (dm_actionIndex p)"
    using d by (simp add: keep demoOk_def)
  then have e: "performAction ?s command actor trace now task d = rebuildTargetState (p\<lparr>dm_actionIndex := j,
      dm_revision := Suc (dm_revision d), dm_status := (if j < 17 then ''active'' else ''completed'')\<rparr>)"
    unfolding performAction_eq p_def [symmetric] using advance_eq [of p j ?s] idx by (simp add: keep j_def)
  have j: "j \<le> 17"
    by (simp add: j_def nextIndex_le [OF idx])
  define f where "f = performAction ?s command actor trace now task d"
  have ff: "dm_generation f = dm_generation d" "dm_revision f = Suc (dm_revision d)" "dm_actionIndex f = j"
    "dm_status f = (if j < 17 then ''active'' else ''completed'')" "dm_targetScript f = dm_targetScript d"
    "(dm_scriptCursor f, dm_targetState f) = scriptState (dm_targetScript d) j" "dm_task f = task" "dm_reports f = dm_reports p"
    "dm_archive f = dm_archive d" "dm_traces f = dm_traces p" "dm_cancelUntil f = dm_cancelUntil d"
    "dm_cancelledGeneration f = dm_cancelledGeneration d"
    by (simp_all add: f_def e rebuild_eq keep)
  have h: "historyOk f"
    using logs(4) by (simp add: f_def e rebuild_eq historyOk_def)
  have "dm_status f \<in> {''active'', ''paused'', ''completed'', ''cancelled''} \<and> (dm_status f = ''completed'' \<longleftrightarrow> j = 17)"
    using j by (cases "j < 17") (simp_all add: ff)
  then show ?thesis
    using d [unfolded demoOk_split] unfolding f_def [symmetric] demoOk_split ff(1,2,3,5-)
    by (elim conjE, intro conjI) (use logs t h j in \<open>simp_all\<close>)
qed

lemma applyDemoAction_ok:
  assumes d: "demoOk lib d"
  shows "demoOk lib (snd (applyDemoAction lib command actor trace now d))"
proof (cases "demoIdentifier (jtoString (jget command ''actionId'')) \<and> duplicateActionResult lib command actor d = None
    \<and> actionRefusal command actor trace d = None")
  case False
  then show ?thesis
    using d by (auto simp: applyDemoAction_def split: option.splits)
next
  case True
  then have fresh: "jtoString (jget command ''actionId'') \<notin> dm_seen d"
    by (auto simp: duplicateActionResult_def Let_def split: if_splits option.splits)
  have r: "actionRefusal command actor trace d = None"
    using True by simp
  have ident: "demoIdentifier (jtoString (jget command ''actionId''))"
    using True by simp
  let ?task = "actionTask (as_action (actionSpecs ! dm_actionIndex d)) (jtoObject (jget command ''payload'')) (demoTaskId d) now
      (dm_generation d) (dm_task d)"
  have "applyDemoAction lib command actor trace now d = (case ?task of Inl code \<Rightarrow> (demoFailure lib code d, d)
      | Inr task \<Rightarrow> (demoSuccess lib ''accepted'' (performAction (actionSpecs ! dm_actionIndex d) command actor trace now task d),
          performAction (actionSpecs ! dm_actionIndex d) command actor trace now task d))"
    using True refusal_None(5) [OF r] by (simp add: applyDemoAction_def Let_def split: sum.split)
  moreover have "dm_task d \<noteq> []"
    using d by (simp add: demoOk_def)
  ultimately show ?thesis
    using performAction_ok [OF d ident fresh r] actionTask_kept d by (cases ?task) simp_all
qed

section \<open>Controls keep the invariant\<close>

lemma reset_next_ok:
  assumes "demoOk lib d" and "dm_targetScript e = dm_targetScript d" and "dm_archive e = dm_archive d"
  shows "demoOk lib (resetDemo (nextGeneration e))"
  by (rule reset_ok) (use assms in \<open>simp_all add: nextGeneration_def demoOk_def\<close>)

lemma archived_reset_ok:
  assumes "demoOk lib d"
  shows "demoOk lib (resetDemo (nextGeneration (archiveGeneration status d)))"
proof (rule reset_ok)
  have "dm_archive (nextGeneration e) = dm_archive e" "dm_targetScript (nextGeneration e) = dm_targetScript e"
    "0 < dm_generation (nextGeneration e)" "0 < dm_revision (nextGeneration e)" for e
    by (simp_all add: nextGeneration_def)
  moreover have "dm_targetScript (archiveGeneration status d) = dm_targetScript d"
    by (simp add: archiveGeneration_def)
  ultimately show "dm_targetScript (nextGeneration (archiveGeneration status d)) \<noteq> []"
    "validateTargetScript lib (dm_targetScript (nextGeneration (archiveGeneration status d)))"
    "0 < dm_generation (nextGeneration (archiveGeneration status d))"
    "0 < dm_revision (nextGeneration (archiveGeneration status d))"
    "length (dm_archive (nextGeneration (archiveGeneration status d))) \<le> 20"
    "list_all demoArchiveEntry (dm_archive (nextGeneration (archiveGeneration status d)))"
    using archived_ok [OF assms] assms by (simp_all add: demoOk_def)
qed

text \<open>Changes of the status and the revision alone.\<close>

lemma status_ok:
  assumes "demoOk lib d" and "dm_status d \<noteq> ''completed''" and "status \<in> {''active'', ''paused'', ''cancelled''}"
  shows "demoOk lib (revise (d\<lparr>dm_status := status\<rparr>))"
  using assms unfolding demoOk_def revise_def by auto

lemma revise_ok: "demoOk lib d \<Longrightarrow> demoOk lib (revise d)"
  by (auto simp: demoOk_def revise_def)

lemma cancel_ok:
  assumes "demoOk lib d" and "dm_status d \<noteq> ''completed''" and "0 \<le> clock" and "clock \<le> 2 ^ 62"
  shows "demoOk lib (cancelDemo payload clock d)"
proof -
  have "jtoInteger 0 v < 2 ^ 63" for v
    by (cases v) simp_all
  moreover have "clock + 3000 < 2 ^ 63"
    using assms(4) by simp
  ultimately show ?thesis
    using assms unfolding demoOk_def cancelDemo_def revise_def by (auto simp: Let_def)
qed

lemma indexIn_bound: "0 \<le> n \<Longrightarrow> indexIn x ys n < n + int (length ys) \<or> indexIn x ys n = -1"
proof (induction ys arbitrary: n)
  case (Cons y ys)
  then have "0 \<le> n + 1"
    by simp
  from Cons.IH [OF this] show ?case
    by auto
qed simp

lemma phaseIndex_bound: "phaseIndex name < 6"
  using indexIn_bound [of 0 name phaseIds] by (simp add: phaseIndex_def phaseIds_def split: if_splits)

lemma firstOfPhase_bound:
  assumes "0 \<le> p" and "p < 6"
  shows "firstOfPhase p actionSpecs 0 < 17"
proof -
  have "list_all (\<lambda>p. firstOfPhase (int p) actionSpecs 0 < 17) [0..<6]"
    by code_simp
  moreover have "nat p \<in> set [0..<6]"
    using assms by (simp add: nat_less_iff)
  ultimately have "firstOfPhase (int (nat p)) actionSpecs 0 < 17"
    unfolding list_all_iff by (rule bspec)
  then show ?thesis
    using assms by simp
qed

lemma jump_ok:
  assumes "demoOk lib d" and "0 \<le> p" and "p < 6"
  shows "demoOk lib (jumpTo p d)"
proof -
  have "firstOfPhase p actionSpecs 0 < 17"
    by (rule firstOfPhase_bound [OF assms(2,3)])
  then show ?thesis
    using assms(1) unfolding demoOk_def jumpTo_def rebuild_eq nextGeneration_def by auto
qed

lemma applyControl_ok:
  assumes d: "demoOk lib d" and g: "demo_guard lib d (Control action payload clock)"
  shows "demoOk lib (snd (applyControl lib action payload clock d))"
proof -
  have "demoOk lib (cancelDemo payload clock d)" if "dm_status d \<noteq> ''completed''"
    using cancel_ok [OF d that] g by simp
  moreover have "demoOk lib (resetDemo (nextGeneration (d\<lparr>dm_targetScript := normalizedScript script\<rparr>)))"
    if "validateTargetScript lib script" for script
  proof (rule reset_ok)
    have "normalizedScript script \<noteq> [] \<and> validateTargetScript lib (normalizedScript script)"
      using that g emptyScript_valid by (simp add: normalizedScript_def) (simp add: emptyScript_def)
    then show "dm_targetScript (nextGeneration (d\<lparr>dm_targetScript := normalizedScript script\<rparr>)) \<noteq> []"
      "validateTargetScript lib (dm_targetScript (nextGeneration (d\<lparr>dm_targetScript := normalizedScript script\<rparr>)))"
      by (simp_all add: nextGeneration_def)
  qed (use d in \<open>simp_all add: nextGeneration_def demoOk_def\<close>)
  moreover have "demoOk lib (revise d)" "dm_status d \<noteq> ''completed'' \<Longrightarrow> demoOk lib (revise (d\<lparr>dm_status := ''paused''\<rparr>))"
    "dm_status d = ''paused'' \<Longrightarrow> demoOk lib (revise (d\<lparr>dm_status := ''active''\<rparr>))"
    using status_ok [OF d] revise_ok [OF d] by simp_all
  moreover have "demoOk lib (jumpTo p d)" if "\<not> p < 0" "p = phaseIndex name" for p name
    using jump_ok [OF d] that phaseIndex_bound by simp
  ultimately show ?thesis
    using d archived_reset_ok [OF d] reset_next_ok [OF d refl refl]
    unfolding applyControl_def Let_def by simp
qed

lemma advanceCancellation_ok: "demoOk lib d \<Longrightarrow> demoOk lib (snd (advanceCancellation nowMs d))"
  using archived_reset_ok by (simp add: advanceCancellation_def)

lemma demo_call_ok: "demoOk lib d \<Longrightarrow> demo_guard lib d c \<Longrightarrow> demoOk lib (demo_call lib c d)"
  by (cases c) (simp_all add: applyDemoAction_ok applyControl_ok advanceCancellation_ok del: demo_guard.simps)

interpretation demo: invariant_kept "demoOk lib" "demo_guard lib" "demo_call lib" for lib
  by unfold_locales (rule demo_call_ok)

text \<open>C8. Whatever actions, controls and ticks of the clock come, in any order: the step and the status of the
  demonstration fit, the targets are those its script gives at the step, each remembered action has exactly one
  entry of the history, and the logs stay inside their limits.\<close>

theorem demo_invariant:
  assumes "dl_compactSize lib emptyScript \<le> 256 * 1024" and "obeys (demo_guard lib) (demo_call lib) cs newDemo"
  shows "demoOk lib (fold (demo_call lib) cs newDemo)"
  by (rule demo.run_ok [OF newDemo_ok [OF assms(1)] assms(2)])

section \<open>The checkpoint\<close>

lemma seenIds_strings:
  "distinct ss \<Longrightarrow> list_all demoIdentifier ss \<Longrightarrow> set ss \<inter> ids = {} \<Longrightarrow> seenIds (map JStr ss) ids = Some (ids \<union> set ss)"
  by (induction ss arbitrary: ids) auto

lemma historyIds_entries:
  "list_all knownEntry vs \<Longrightarrow> distinct (entryIds vs) \<Longrightarrow> set (entryIds vs) \<inter> ids = {} \<Longrightarrow>
   historyIds vs ids = Some (ids \<union> set (entryIds vs))"
  by (induction vs arbitrary: ids) (auto simp: entryIds_def)

lemma expectedTargets_eq: "expectedTargets script i = scriptState script i"
  by (simp add: expectedTargets_def rebuild_eq)

lemma demo_fields:
  "jget (demoToJson d) ''schemaVersion'' = JNum 2" "jget (demoToJson d) ''profile'' = JStr ''vmf-demo-v2''"
  "jget (demoToJson d) ''generation'' = jnat (dm_generation d)" "jget (demoToJson d) ''revision'' = jnat (dm_revision d)"
  "jget (demoToJson d) ''actionIndex'' = jnat (dm_actionIndex d)" "jget (demoToJson d) ''status'' = JStr (dm_status d)"
  "jget (demoToJson d) ''targetScript'' = JObj (dm_targetScript d)" "jget (demoToJson d) ''scriptCursor'' = jnat (dm_scriptCursor d)"
  "jget (demoToJson d) ''targetState'' = JObj (dm_targetState d)" "jget (demoToJson d) ''task'' = JObj (dm_task d)"
  "jget (demoToJson d) ''reports'' = JArr (dm_reports d)" "jget (demoToJson d) ''archive'' = JArr (dm_archive d)"
  "jget (demoToJson d) ''cancelUntilMs'' = jint (dm_cancelUntil d)"
  "jget (demoToJson d) ''cancelledGeneration'' = jnat (dm_cancelledGeneration d)"
  "jget (demoToJson d) ''traces'' = JArr (dm_traces d)" "jget (demoToJson d) ''actionHistory'' = JArr (dm_history d)"
  "jget (demoToJson d) ''seenActionIds'' = jstrings (sorted_list_of_set (dm_seen d))"
  by (simp_all add: demoToJson_def json_simps)

lemma cursor_bound: "(c, t) = scriptState script i \<Longrightarrow> c \<le> length (timeline script)"
  using applyEntries_bounds [of "phaseOf i" "timeline script" 0 "initialTargets script" c t] by (simp add: scriptState_def)

text \<open>C9. The checkpoint of a demonstration that keeps the invariant is accepted by any other one, which is the
  saved one afterwards, as long as the counters fit 63 bits.\<close>

theorem demo_checkpoint_roundtrip:
  assumes d: "demoOk lib d" and g: "dm_generation d < 2 ^ 63" "dm_revision d < 2 ^ 63" and n: "length (timeline (dm_targetScript d)) < 2 ^ 31"
  shows "restoreDemo lib (demoToJson d) e = (True, d)"
proof -
  let ?ob = "demoToJson d" and ?ids = "sorted_list_of_set (dm_seen d)"
  have seen: "dm_seen d = set (entryIds (dm_history d))" "distinct (entryIds (dm_history d))" and known: "list_all knownEntry (dm_history d)"
    using d by (simp_all add: demoOk_def)
  have f: "finite (dm_seen d)"
    by (simp add: seen(1))
  have card: "card (dm_seen d) = length (dm_history d)"
    using distinct_card [OF seen(2)] unfolding seen(1) by (simp add: entryIds_def)
  have ident: "list_all demoIdentifier ?ids"
    using known f by (auto simp: seen(1) list_all_iff entryIds_def knownEntry_def)
  have s: "seenIds (jtoArray (jget ?ob ''seenActionIds'')) {} = Some (dm_seen d)"
    using seenIds_strings [OF _ ident, of "{}"] f by (simp add: demo_fields jstrings_def)
  have h: "historyIds (jtoArray (jget ?ob ''actionHistory'')) {} = Some (dm_seen d)"
    using historyIds_entries [OF known seen(2), of "{}"] by (simp add: demo_fields seen(1))
  have idx: "dm_actionIndex d < 2 ^ 31"
    using d by (simp add: demoOk_def)
  have state: "(dm_scriptCursor d, dm_targetState d) = scriptState (dm_targetScript d) (dm_actionIndex d)"
    using d by (simp add: demoOk_def)
  have cur: "dm_scriptCursor d < 2 ^ 31" "dm_scriptCursor d \<le> length (timeline (dm_targetScript d))"
    using cursor_bound [OF state] n by simp_all
  have read: "jtoInt (-1) (jget ?ob ''actionIndex'') = int (dm_actionIndex d)"
    "jtoInt (-1) (jget ?ob ''scriptCursor'') = int (dm_scriptCursor d)" "jtoInteger 0 (jget ?ob ''generation'') = int (dm_generation d)"
    "jtoInteger 0 (jget ?ob ''revision'') = int (dm_revision d)" "jtoInteger 0 (jget ?ob ''cancelUntilMs'') = dm_cancelUntil d"
    "jtoInteger 0 (jget ?ob ''cancelledGeneration'') = int (dm_cancelledGeneration d)"
    using idx cur(1) g d by (simp_all only: demo_fields jtoInt_jnat jnat_read) (simp_all add: demoOk_def jnat_read json_simps)
  have header: "demoHeader ?ob"
    using d unfolding demoHeader_def read Let_def by (auto simp: demo_fields demoOk_def specs_length)
  have content: "demoContent (dm_targetScript d) ?ob"
    using d cur(2) f card unfolding demoContent_def read Let_def
    by (simp add: demo_fields demoOk_def jstrings_def)
  have pair: "(let (c, t) = expectedTargets (dm_targetScript d) (dm_actionIndex d) in (int c, t)) = (int (dm_scriptCursor d), dm_targetState d)"
    unfolding expectedTargets_eq state [symmetric] by simp
  have traces: "list_all traceOk (dm_traces d)" and script: "validateTargetScript lib (dm_targetScript d)" and task: "dm_task d \<noteq> []"
    using d by (simp_all add: demoOk_def)
  have gen: "int (dm_cancelledGeneration d) mod 2 ^ 64 = int (dm_cancelledGeneration d)"
    using d g by (simp add: demoOk_def)
  have "restoredDemo ?ob (dm_targetScript d) (dm_seen d) e = d"
    unfolding restoredDemo_def read gen Let_def using task by (simp add: demo_fields)
  then have "restoreCurrent lib ?ob e = (True, d)"
    unfolding restoreCurrent_def s h using header content traces script pair
    by (simp add: demo_fields jtoInt_jnat [OF idx] jtoInt_jnat [OF cur(1)] Let_def)
  then show ?thesis
    by (simp add: restoreDemo_def demo_fields)
qed

section \<open>Accepted actions\<close>

lemma duplicate_None: "duplicateActionResult lib command actor d = None \<longleftrightarrow> jtoString (jget command ''actionId'') \<notin> dm_seen d"
  by (auto simp: duplicateActionResult_def Let_def split: option.splits)

lemma refusal_iff:
  assumes "demoOk lib d"
  shows "actionRefusal command actor trace d = None \<longleftrightarrow>
    jtoInteger 0 (jget command ''expectedRevision'') mod 2 ^ 64 = int (dm_revision d) \<and> dm_status d = ''active''
    \<and> jtoString (jget command ''action'') = as_action (actionSpecs ! dm_actionIndex d)
    \<and> (actor = as_seatType (actionSpecs ! dm_actionIndex d) \<or> actor = ''automation'') \<and> trace \<noteq> []"
proof (cases "dm_status d = ''active''")
  case True
  then have "dm_actionIndex d < 17"
    using assms by (auto simp: demoOk_def le_less)
  then show ?thesis
    using True by (auto simp: actionRefusal_def currentAction_def specs_length)
next
  case False
  then have "dm_status d \<in> {''paused'', ''completed'', ''cancelled''}"
    using assms by (auto simp: demoOk_def)
  then show ?thesis
    by (auto simp: actionRefusal_def)
qed

definition outcomeFits :: "jobject \<Rightarrow> bool" where
  "outcomeFits payload \<longleftrightarrow>
     (case normalizedOutcome payload of None \<Rightarrow> False
      | Some outcome \<Rightarrow> validDamageState (demoText (if outcome = ''destroyed'' then ''destroyed'' else ''unknown'') (jget payload ''damageState'')))"

lemma actionTask_iff:
  "(\<exists>t. actionTask action payload i now g task = Inr t) \<longleftrightarrow> (action = ''confirmTargetDestroyed'' \<longrightarrow> outcomeFits payload)"
  by (simp add: actionTask_def outcomeFits_def Let_def split: option.split)

lemma applyDemoAction_performs:
  assumes "demoIdentifier (jtoString (jget command ''actionId''))" and "jtoString (jget command ''actionId'') \<notin> dm_seen d"
    and r: "actionRefusal command actor trace d = None"
    and "actionTask (as_action (actionSpecs ! dm_actionIndex d)) (jtoObject (jget command ''payload'')) (demoTaskId d) now
      (dm_generation d) (dm_task d) = Inr task"
  shows "applyDemoAction lib command actor trace now d =
    (demoSuccess lib ''accepted'' (performAction (actionSpecs ! dm_actionIndex d) command actor trace now task d),
     performAction (actionSpecs ! dm_actionIndex d) command actor trace now task d)"
proof -
  have "duplicateActionResult lib command actor d = None"
    using assms(2) by (simp add: duplicate_None)
  then show ?thesis
    using assms(1,4) refusal_None(5) [OF r] r by (simp add: applyDemoAction_def Let_def)
qed

lemma applyDemoAction_refuses:
  assumes "\<not> (demoIdentifier (jtoString (jget command ''actionId'')) \<and> jtoString (jget command ''actionId'') \<notin> dm_seen d
    \<and> actionRefusal command actor trace d = None \<and> (\<exists>t. actionTask (as_action (actionSpecs ! dm_actionIndex d))
      (jtoObject (jget command ''payload'')) (demoTaskId d) now (dm_generation d) (dm_task d) = Inr t))"
  shows "snd (applyDemoAction lib command actor trace now d) = d \<and> dr_status (fst (applyDemoAction lib command actor trace now d)) \<noteq> ''accepted''"
proof (cases "demoIdentifier (jtoString (jget command ''actionId'')) \<and> jtoString (jget command ''actionId'') \<notin> dm_seen d
    \<and> actionRefusal command actor trace d = None")
  case True
  then have r: "actionRefusal command actor trace d = None" and dup: "duplicateActionResult lib command actor d = None"
    and i: "demoIdentifier (jtoString (jget command ''actionId''))"
    by (simp_all add: duplicate_None)
  obtain code where "actionTask (as_action (actionSpecs ! dm_actionIndex d)) (jtoObject (jget command ''payload''))
      (demoTaskId d) now (dm_generation d) (dm_task d) = Inl code"
    using True assms by (metis sum.exhaust)
  then show ?thesis
    using refusal_None(5) [OF r] r dup i by (simp add: applyDemoAction_def demoFailure_def Let_def)
next
  case False
  then show ?thesis
    by (auto simp: applyDemoAction_def duplicate_None [symmetric] demoFailure_def demoSuccess_def duplicateActionResult_def Let_def
        split: option.splits if_splits)
qed

lemma performAction_moves:
  assumes d: "demoOk lib d" and r: "actionRefusal command actor trace d = None" and s: "s = actionSpecs ! dm_actionIndex d"
  shows "dm_revision (performAction s command actor trace now task d) = Suc (dm_revision d)"
    and "dm_actionIndex (performAction s command actor trace now task d) = nextIndex s (jtoObject (jget command ''payload'')) (dm_actionIndex d)"
    and "dm_generation (performAction s command actor trace now task d) = dm_generation d"
    and "dm_history (performAction s command actor trace now task d) = dm_history (performed s command actor trace now task d)"
    and "dm_seen (performAction s command actor trace now task d) = dm_seen (performed s command actor trace now task d)"
proof -
  define p where "p = performed s command actor trace now task d"
  define j where "j = nextIndex s (jtoObject (jget command ''payload'')) (dm_actionIndex d)"
  note keep = performed_keeps [OF p_def]
  have "(dm_scriptCursor p, dm_targetState p) = scriptState (dm_targetScript p) (dm_actionIndex p)"
    using d by (simp add: keep demoOk_def)
  then have e: "performAction s command actor trace now task d = rebuildTargetState (p\<lparr>dm_actionIndex := j,
      dm_revision := Suc (dm_revision d), dm_status := (if j < 17 then ''active'' else ''completed'')\<rparr>)"
    unfolding performAction_eq p_def [symmetric] using advance_eq [of p j s] refusal_None(1) [OF r] by (simp add: keep j_def)
  show "dm_revision (performAction s command actor trace now task d) = Suc (dm_revision d)"
    "dm_actionIndex (performAction s command actor trace now task d) = nextIndex s (jtoObject (jget command ''payload'')) (dm_actionIndex d)"
    "dm_generation (performAction s command actor trace now task d) = dm_generation d"
    "dm_history (performAction s command actor trace now task d) = dm_history (performed s command actor trace now task d)"
    "dm_seen (performAction s command actor trace now task d) = dm_seen (performed s command actor trace now task d)"
    by (simp_all add: e rebuild_eq keep p_def [symmetric] j_def)
qed

text \<open>C20. An action is accepted exactly if its id is valid and new, it names the present revision and the present
  step, the demonstration is active, the seat of the step or the automation performs it with a trace, and a
  confirmation of the effect names a known outcome and damage. It moves to the next step, or back to the guidance
  if the target was not destroyed; a refused action changes nothing.\<close>

theorem demo_action_accepted:
  assumes d: "demoOk lib d" and s: "s = actionSpecs ! dm_actionIndex d" and p: "payload = jtoObject (jget command ''payload'')"
    and i: "i = jtoString (jget command ''actionId'')" and t: "applyDemoAction lib command actor trace now d = (r, t)"
  shows "(dr_status r = ''accepted'' \<longleftrightarrow> demoIdentifier i \<and> i \<notin> dm_seen d
      \<and> jtoInteger 0 (jget command ''expectedRevision'') mod 2 ^ 64 = int (dm_revision d) \<and> dm_status d = ''active''
      \<and> jtoString (jget command ''action'') = as_action s \<and> actor \<in> {as_seatType s, ''automation''} \<and> trace \<noteq> []
      \<and> (as_action s = ''confirmTargetDestroyed'' \<longrightarrow> outcomeFits payload))
    \<and> (if dr_status r = ''accepted'' then dm_revision t = Suc (dm_revision d) \<and> dm_generation t = dm_generation d
         \<and> dm_actionIndex t = (if as_action s = ''confirmTargetDestroyed'' \<and> jtoString (jget payload ''outcome'') = ''notDestroyed''
                               then 5 else Suc (dm_actionIndex d))
       else t = d)"
proof (cases "demoIdentifier i \<and> i \<notin> dm_seen d \<and> actionRefusal command actor trace d = None
    \<and> (\<exists>task. actionTask (as_action s) payload (demoTaskId d) now (dm_generation d) (dm_task d) = Inr task)")
  case True
  then obtain task where "actionTask (as_action s) payload (demoTaskId d) now (dm_generation d) (dm_task d) = Inr task"
    by blast
  then have a: "t = performAction s command actor trace now task d" "dr_status r = ''accepted''"
    using applyDemoAction_performs [of command d actor trace now task lib] True t s p i by (simp_all add: demoSuccess_def)
  have none: "actionRefusal command actor trace d = None"
    using True by simp
  show ?thesis
    using True actionTask_iff performAction_moves [OF d none s] refusal_iff [OF d] by (auto simp: a s p nextIndex_def)
next
  case False
  then have "t = d \<and> dr_status r \<noteq> ''accepted''"
    using applyDemoAction_refuses [of command d actor trace now lib] t s p i by auto
  then show ?thesis
    using False actionTask_iff refusal_iff [OF d] by (auto simp: s)
qed

section \<open>Repeated actions\<close>

lemma remembered_last:
  assumes h: "distinct (entryIds (dm_history c))" "dm_seen c = set (entryIds (dm_history c))" "i \<notin> dm_seen c"
    and e: "entryField ''actionId'' (JObj entry) = i" and p: "p = rememberAction entry i c"
  shows "dm_history p \<noteq> [] \<and> last (dm_history p) = JObj entry \<and> i \<in> dm_seen p"
proof -
  let ?h = "dm_history c @ [JObj entry]"
  have d: "distinct (entryIds ?h)" and s: "insert i (dm_seen c) = set (entryIds ?h)"
    using h e by (auto simp: entryIds_def)
  obtain h' s' where t: "trimHistory ?h (insert i (dm_seen c)) = (h', s')"
    by fastforce
  have kept: "last (fst (trimHistory hs ss)) = last hs \<and> fst (trimHistory hs ss) \<noteq> []" if "hs \<noteq> []" for hs ss
    using that
  proof (induction hs ss rule: trimHistory.induct)
    case (1 hs ss)
    show ?case
    proof (cases "4096 < length hs")
      case True
      then have "tl hs \<noteq> []"
        by (cases hs) auto
      then show ?thesis
        using 1(1) [OF True] True by (simp add: trimHistory.simps [of hs] last_tl)
    next
      case False
      then show ?thesis
        using 1 by (simp add: trimHistory.simps [of hs])
    qed
  qed
  have l: "h' \<noteq> []" "last h' = JObj entry"
    using kept [of ?h "insert i (dm_seen c)"] t by simp_all
  then have "JObj entry \<in> set h'"
    using last_in_set by fastforce
  then have "i \<in> s'"
    using trimHistory_ok [OF d s t] e by (force simp: entryIds_def)
  then show ?thesis
    using l by (simp add: p rememberAction_def t)
qed

text \<open>C21. An accepted action that arrives again, from the same seat, is answered as a duplicate and changes nothing;
  from another seat, or naming another step, it is refused as a conflict.\<close>

theorem demo_action_once:
  assumes d: "demoOk lib d" and t: "applyDemoAction lib command actor trace now d = (r, t)" and a: "dr_status r = ''accepted''"
    and i: "jget command' ''actionId'' = jget command ''actionId''"
  shows "applyDemoAction lib command' actor' trace' now' t =
    (if jtoString (jget command' ''action'') = jtoString (jget command ''action'') \<and> actor' = actor
     then (demoSuccess lib ''duplicate'' t, t) else (demoFailure lib ''ACTION_ID_CONFLICT'' t, t))"
proof -
  let ?i = "jtoString (jget command ''actionId'')" and ?s = "actionSpecs ! dm_actionIndex d"
  have all: "demoIdentifier ?i \<and> ?i \<notin> dm_seen d \<and> actionRefusal command actor trace d = None \<and> (\<exists>task. actionTask (as_action ?s)
      (jtoObject (jget command ''payload'')) (demoTaskId d) now (dm_generation d) (dm_task d) = Inr task)"
  proof (rule ccontr)
    assume no: "\<not> ?thesis"
    show False
      using applyDemoAction_refuses [OF no, of lib] t a by simp
  qed
  then have ok: "demoIdentifier ?i" "?i \<notin> dm_seen d" and none: "actionRefusal command actor trace d = None"
    by simp_all
  obtain task where "actionTask (as_action ?s) (jtoObject (jget command ''payload'')) (demoTaskId d) now (dm_generation d) (dm_task d) = Inr task"
    using all by blast
  then have t': "t = performAction ?s command actor trace now task d"
    using applyDemoAction_performs [OF ok none] t by simp
  define p where "p = performed ?s command actor trace now task d"
  obtain c where c: "p = rememberAction (historyEntry ?s ?i actor now c) ?i c" "dm_history c = dm_history d" "dm_seen c = dm_seen d"
    by (simp add: p_def performed_def Let_def appendReport_def)
  have h: "distinct (entryIds (dm_history c))" "dm_seen c = set (entryIds (dm_history c))" "?i \<notin> dm_seen c"
    using d ok by (simp_all add: c(2,3) demoOk_def)
  have e: "entryField ''actionId'' (JObj (historyEntry ?s ?i actor now c)) = ?i"
    "entryField ''action'' (JObj (historyEntry ?s ?i actor now c)) = as_action ?s"
    "entryField ''actorSeatType'' (JObj (historyEntry ?s ?i actor now c)) = actor"
    by (simp_all add: entryField_def historyEntry_def json_simps)
  have l: "dm_history p \<noteq> []" "last (dm_history p) = JObj (historyEntry ?s ?i actor now c)" "?i \<in> dm_seen p"
    using remembered_last [OF h e(1) c(1)] by simp_all
  have m: "dm_history t = dm_history p" "dm_seen t = dm_seen p"
    using performAction_moves [OF d none refl] by (simp_all add: t' p_def)
  obtain earlier where "dm_history p = earlier @ [JObj (historyEntry ?s ?i actor now c)]"
    using l by (cases "dm_history p" rule: rev_cases) simp_all
  then have f: "find (\<lambda>e. entryField ''actionId'' e = ?i) (rev (dm_history t)) = Some (JObj (historyEntry ?s ?i actor now c))"
    by (simp only: m rev.simps rev_append append.simps find.simps e(1)) simp
  have "as_action ?s = jtoString (jget command ''action'')"
    using refusal_None(7) [OF none] by simp
  then show ?thesis
    using ok(1) l(3) m(2) f e by (simp add: applyDemoAction_def duplicateActionResult_def i Let_def)
qed

section \<open>The demonstration can be completed\<close>

lemma number_length: "n < 10 ^ k \<Longrightarrow> 0 < k \<Longrightarrow> length (number n) \<le> k"
proof (induction k arbitrary: n)
  case (Suc k)
  show ?case
  proof (cases "n < 10")
    case True
    then show ?thesis
      by (simp add: number.simps [of n])
  next
    case False
    then have "0 < k" "n div 10 < 10 ^ k"
      using Suc.prems by (cases k; auto)+
    then have "length (number (n div 10)) \<le> k"
      using Suc.IH by simp
    then show ?thesis
      using False by (simp add: number.simps [of n])
  qed
qed simp

lemma digit_letter: "k < 10 \<Longrightarrow> is_letter_or_number (digit_char k)"
proof -
  have "list_all (\<lambda>k. is_letter_or_number (digit_char k)) [0..<10]"
    by code_simp
  then show "k < 10 \<Longrightarrow> is_letter_or_number (digit_char k)"
    by (simp add: list_all_iff)
qed

lemma number_identifier: "n \<le> 4096 \<Longrightarrow> demoIdentifier (number n)"
proof -
  assume "n \<le> 4096"
  then have "length (number n) \<le> 4"
    by (intro number_length) simp_all
  then show ?thesis
    using number_chars [of _ n] digit_letter by (fastforce simp: demoIdentifier_def list_all_iff)
qed

lemma fresh_identifier:
  assumes "demoOk lib d"
  shows "\<exists>i. demoIdentifier i \<and> i \<notin> dm_seen d"
proof -
  have "inj_on number {0..4096}"
  proof (rule inj_onI)
    fix m n
    assume "number m = number n"
    then have "Some m = Some n"
      using digits_val_number [of m] digits_val_number [of n] by (simp only:)
    then show "m = n"
      by simp
  qed
  then have c: "card (number ` {0..4096 :: nat}) = 4097"
    by (simp only: card_image) simp
  have s: "dm_seen d = set (entryIds (dm_history d))" and l: "length (entryIds (dm_history d)) \<le> 4096"
    using assms by (simp_all only: demoOk_def entryIds_def length_map)
  then have "card (dm_seen d) \<le> 4096"
    using card_length [of "entryIds (dm_history d)"] unfolding s by linarith
  have "\<not> number ` {0..4096} \<subseteq> dm_seen d"
  proof
    assume "number ` {0..4096} \<subseteq> dm_seen d"
    then have "card (number ` {0..4096 :: nat}) \<le> card (dm_seen d)"
      by (rule card_mono [rotated]) (simp only: s List.finite_set)
    then show False
      using c \<open>card (dm_seen d) \<le> 4096\<close> by linarith
  qed
  then obtain x where x: "x \<in> number ` {0..4096}" "x \<notin> dm_seen d"
    by (meson subsetI)
  obtain n where "x = number n" "n \<in> {0..4096}"
    using x(1) by (rule imageE)
  then have "demoIdentifier x"
    using number_identifier by (simp only: atLeastAtMost_iff)
  then show ?thesis
    using x(2) by blast
qed

definition stepCommand :: "string \<Rightarrow> Demo \<Rightarrow> jobject" where
  "stepCommand i d = [(''actionId'', JStr i), (''expectedRevision'', jnat (dm_revision d)),
     (''action'', JStr (case currentAction d of None \<Rightarrow> [] | Some s \<Rightarrow> as_action s))]"

lemma step_forward:
  assumes d: "demoOk lib d" and a: "dm_status d = ''active''" and r: "dm_revision d < 2 ^ 63"
  shows "\<exists>i. dm_actionIndex (snd (applyDemoAction lib (stepCommand i d) ''automation'' [(''k'', JNull)] 0 d)) = Suc (dm_actionIndex d)
    \<and> dm_revision (snd (applyDemoAction lib (stepCommand i d) ''automation'' [(''k'', JNull)] 0 d)) = Suc (dm_revision d)"
proof -
  obtain i where i: "demoIdentifier i" "i \<notin> dm_seen d"
    using fresh_identifier [OF d] by blast
  let ?c = "stepCommand i d" and ?s = "actionSpecs ! dm_actionIndex d"
  have idx: "dm_actionIndex d < 17"
    using d a by (auto simp: demoOk_def le_less)
  then have f: "jtoString (jget ?c ''actionId'') = i" "jtoInteger 0 (jget ?c ''expectedRevision'') = int (dm_revision d)"
    "jtoString (jget ?c ''action'') = as_action ?s" "jtoObject (jget ?c ''payload'') = []"
    using r by (simp_all add: stepCommand_def json_simps currentAction_def specs_length)
  have none: "actionRefusal ?c ''automation'' [(''k'', JNull)] d = None"
    unfolding refusal_iff [OF d] f using a r by simp
  have "outcomeFits []"
    by (simp add: outcomeFits_def normalizedOutcome_def validDamageState_def demoText_def json_simps)
  then obtain task where "actionTask (as_action ?s) [] (demoTaskId d) 0 (dm_generation d) (dm_task d) = Inr task"
    using actionTask_iff by blast
  then have "snd (applyDemoAction lib ?c ''automation'' [(''k'', JNull)] 0 d) = performAction ?s ?c ''automation'' [(''k'', JNull)] 0 task d"
    using applyDemoAction_performs [OF _ _ none, of 0 task lib] i f by simp
  then show ?thesis
    using performAction_moves(1,2) [OF d none refl, of 0 task] f(4)
    by (intro exI [of _ i] conjI) (simp_all add: nextIndex_def json_simps)
qed

lemma applyDemoAction_status:
  "snd (applyDemoAction lib command actor trace now d) = d
   \<or> dm_status (snd (applyDemoAction lib command actor trace now d)) \<in> {''active'', ''completed''}"
proof -
  have script: "dm_status (applyScriptForCurrentPhase e) = dm_status e" for e
    by (simp add: applyScriptForCurrentPhase_def split: prod.split)
  have "dm_status (advanceAction s payload e) \<in> {''active'', ''completed''}" for s payload e
    unfolding advanceAction_def Let_def script by simp
  then have "dm_status (performAction s command actor trace now task d) \<in> {''active'', ''completed''}" for s task
    unfolding performAction_eq by blast
  then show ?thesis
    by (auto simp: applyDemoAction_def Let_def split: option.split sum.split)
qed

text \<open>C23. An active demonstration at the step \<open>i\<close> is completed by \<open>17 - i\<close> actions of the automation.\<close>

theorem demo_completes:
  assumes "demoOk lib d" and "dm_status d = ''active''" and "dm_revision d < 2 ^ 62"
  shows "\<exists>cs. length cs = 17 - dm_actionIndex d \<and> (\<forall>c \<in> set cs. \<exists>command trace now. c = Act command ''automation'' trace now)
    \<and> dm_status (fold (demo_call lib) cs d) = ''completed''"
proof -
  have "\<exists>cs. length cs = n \<and> (\<forall>c \<in> set cs. \<exists>command trace now. c = Act command ''automation'' trace now)
    \<and> dm_status (fold (demo_call lib) cs d) = ''completed''"
    if "demoOk lib d" "dm_actionIndex d + n = 17" "dm_status d \<in> {''active'', ''completed''}" "dm_revision d + n < 2 ^ 63" for n d
    using that
  proof (induction n arbitrary: d)
    case 0
    then show ?case
      by (simp add: demoOk_def)
  next
    case (Suc n)
    then have a: "dm_status d = ''active''"
      by (auto simp: demoOk_def)
    obtain i where i: "dm_actionIndex (demo_call lib (Act (stepCommand i d) ''automation'' [(''k'', JNull)] 0) d) = Suc (dm_actionIndex d)"
      "dm_revision (demo_call lib (Act (stepCommand i d) ''automation'' [(''k'', JNull)] 0) d) = Suc (dm_revision d)"
      using step_forward [OF Suc.prems(1) a] Suc.prems(4) by auto
    let ?c = "Act (stepCommand i d) ''automation'' [(''k'', JNull)] 0"
    have ok: "demoOk lib (demo_call lib ?c d)"
      by (rule demo_call_ok [OF Suc.prems(1)]) simp
    have "dm_status (demo_call lib ?c d) \<in> {''active'', ''completed''}"
    proof -
      have "demo_call lib ?c d \<noteq> d"
        using i(1) by (metis n_not_Suc_n)
      then show ?thesis
        using applyDemoAction_status [of lib "stepCommand i d" "''automation''" "[(''k'', JNull)]" 0 d] by simp
    qed
    then obtain cs where "length cs = n" "\<forall>c \<in> set cs. \<exists>command trace now. c = Act command ''automation'' trace now"
      "dm_status (fold (demo_call lib) cs (demo_call lib ?c d)) = ''completed''"
      using Suc.IH [OF ok] Suc.prems i by auto
    then show ?case
      by (intro exI [of _ "?c # cs"]) auto
  qed
  from this [OF assms(1), of "17 - dm_actionIndex d"] show ?thesis
    using assms by (simp add: demoOk_def)
qed

section \<open>Cancelled demonstrations\<close>

text \<open>C38. A cancelled demonstration that is paused and resumed is active again, in the same generation and at the same
  step, and no tick of the clock archives it any more.\<close>

theorem cancelled_demo_revived:
  assumes "dm_status d = ''cancelled''" and "t = demo_call lib (Control ''resume'' q v) (demo_call lib (Control ''pause'' p u) d)"
  shows "dm_status t = ''active'' \<and> dm_generation t = dm_generation d \<and> dm_actionIndex t = dm_actionIndex d
    \<and> dm_task t = dm_task d \<and> dm_cancelUntil t = dm_cancelUntil d \<and> advanceCancellation now t = (False, t)"
  using assms by (simp add: applyControl_def revise_def advanceCancellation_def)

section \<open>A demonstration\<close>

definition exDemoLib :: DemoLib where
  "exDemoLib = \<lparr>dl_compactSize = (\<lambda>ob. 40), dl_hash = (\<lambda>ob. ''hash'')\<rparr>"

definition exReport :: jobject where
  "exReport = [(''action'', JStr ''reportTarget''), (''actionId'', JStr ''a1''), (''expectedRevision'', JNum 1)]"

definition exReported :: Demo where
  "exReported = demo_call exDemoLib (Act exReport ''recon'' [(''traceId'', JStr ''t1'')] 12) newDemo"

lemma exReported_ok: "demoOk exDemoLib exReported" and exNew_ok: "demoOk exDemoLib newDemo"
proof -
  show n: "demoOk exDemoLib newDemo"
    by (rule newDemo_ok) (simp add: exDemoLib_def)
  show "demoOk exDemoLib exReported"
    unfolding exReported_def by (rule demo_call_ok [OF n]) simp
qed

theorem demo_invariant_witness:
  "demoOk exDemoLib (fold (demo_call exDemoLib) [Act exReport ''recon'' [(''traceId'', JStr ''t1'')] 12,
     Control ''cancel'' [] 1000, Tick 5000] newDemo)"
  by (rule demo_invariant) (simp_all add: exDemoLib_def)

theorem demo_checkpoint_roundtrip_witness:
  "restoreDemo exDemoLib (demoToJson exReported) newDemo = (True, exReported)"
proof (rule demo_checkpoint_roundtrip [OF exReported_ok])
  have "dm_generation exReported = 1 \<and> dm_revision exReported = 2 \<and> timeline (dm_targetScript exReported) = []"
    unfolding exReported_def by code_simp
  then show "dm_generation exReported < 2 ^ 63" "dm_revision exReported < 2 ^ 63"
    "length (timeline (dm_targetScript exReported)) < 2 ^ 31"
    by simp_all
qed

theorem demo_action_accepted_witness:
  "dr_status (fst (applyDemoAction exDemoLib exReport ''recon'' [(''traceId'', JStr ''t1'')] 12 newDemo)) = ''accepted''
   \<and> dm_actionIndex exReported = 1"
proof -
  let ?r = "fst (applyDemoAction exDemoLib exReport ''recon'' [(''traceId'', JStr ''t1'')] 12 newDemo)"
  have a: "dr_status ?r = ''accepted''"
    by code_simp
  have s: "as_action (actionSpecs ! 0) = ''reportTarget''" "dm_actionIndex newDemo = 0"
    by code_simp+
  have t: "applyDemoAction exDemoLib exReport ''recon'' [(''traceId'', JStr ''t1'')] 12 newDemo = (?r, exReported)"
    by (simp only: exReported_def demo_call.simps prod.collapse)
  have "dm_actionIndex exReported = (if as_action (actionSpecs ! dm_actionIndex newDemo) = ''confirmTargetDestroyed''
      \<and> jtoString (jget (jtoObject (jget exReport ''payload'')) ''outcome'') = ''notDestroyed'' then 5 else Suc (dm_actionIndex newDemo))"
    using demo_action_accepted [OF exNew_ok refl refl refl t] a by (simp only: if_True simp_thms)
  then show ?thesis
    using a by (simp add: s)
qed

theorem demo_action_once_witness:
  "applyDemoAction exDemoLib exReport ''recon'' [] 20 exReported = (demoSuccess exDemoLib ''duplicate'' exReported, exReported)"
proof -
  let ?r = "applyDemoAction exDemoLib exReport ''recon'' [(''traceId'', JStr ''t1'')] 12 newDemo"
  have "dr_status (fst ?r) = ''accepted''"
    by code_simp
  moreover have "?r = (fst ?r, exReported)"
    by (simp add: exReported_def)
  ultimately show ?thesis
    using demo_action_once [OF exNew_ok, of exReport "''recon''" "[(''traceId'', JStr ''t1'')]" 12 "fst ?r" exReported exReport] by simp
qed

theorem demo_completes_witness:
  "\<exists>cs. length cs = 17 \<and> dm_status (fold (demo_call exDemoLib) cs newDemo) = ''completed''"
proof -
  have "dm_status newDemo = ''active'' \<and> dm_revision newDemo = 1 \<and> dm_actionIndex newDemo = 0"
    by code_simp
  then show ?thesis
    using demo_completes [OF exNew_ok] by auto
qed

theorem cancelled_demo_revived_witness:
  "dm_status (demo_call exDemoLib (Control ''resume'' [] 1) (demo_call exDemoLib (Control ''pause'' [] 1)
     (demo_call exDemoLib (Control ''cancel'' [] 1) newDemo))) = ''active''"
proof -
  have "dm_status (demo_call exDemoLib (Control ''cancel'' [] 1) newDemo) = ''cancelled''"
    by (simp add: applyControl_def newDemo_def resetDemo_def clearTaskState_def rebuild_eq cancelDemo_def revise_def Let_def)
  then show ?thesis
    by (simp only: cancelled_demo_revived [OF _ refl])
qed

end
