(* ===== verification/UnitKinds.thy ===== *)
theory UnitKinds
  imports Json
begin

text \<open>
  The kinds of units with their names and default values (\<open>src/src/core/UnitBase.h\<close>), and positions
  (\<open>src/src/core/Geo.h\<close>). Numbers are exact rationals.
\<close>

section \<open>Sides and kinds\<close>

datatype Side = Red | Blue

fun sideName :: "Side \<Rightarrow> string" where
  "sideName Red = ''red''"
| "sideName Blue = ''blue''"

definition sideFromName :: "string \<Rightarrow> Side" where
  "sideFromName n = (if n = ''red'' then Red else Blue)"

datatype UnitKind = CommandPost | ReconUAV | AttackUAV | GroundScout | JammerUAV | GroundTarget

fun kindName :: "UnitKind \<Rightarrow> string" where
  "kindName CommandPost = ''commandpost''"
| "kindName ReconUAV = ''reconuav''"
| "kindName AttackUAV = ''attackuav''"
| "kindName GroundScout = ''groundscout''"
| "kindName JammerUAV = ''jammeruav''"
| "kindName GroundTarget = ''groundtarget''"

definition kindFromName :: "string \<Rightarrow> UnitKind" where
  "kindFromName n =
     (if n = ''commandpost'' then CommandPost
      else if n = ''reconuav'' then ReconUAV
      else if n = ''attackuav'' then AttackUAV
      else if n = ''groundscout'' then GroundScout
      else if n = ''jammeruav'' then JammerUAV
      else if n = ''groundtarget'' then GroundTarget
      else CommandPost)"

lemma kindFromName_kindName [simp]: "kindFromName (kindName k) = k"
  by (cases k) (simp_all add: kindFromName_def)

lemma sideFromName_sideName [simp]: "sideFromName (sideName s) = s"
  by (cases s) (simp_all add: sideFromName_def)

section \<open>Default values\<close>

fun commandedSpeedLimitMps :: "UnitKind \<Rightarrow> rat" where
  "commandedSpeedLimitMps CommandPost = 8" | "commandedSpeedLimitMps ReconUAV = 300"
| "commandedSpeedLimitMps AttackUAV = 360" | "commandedSpeedLimitMps GroundScout = 36"
| "commandedSpeedLimitMps JammerUAV = 260" | "commandedSpeedLimitMps GroundTarget = 0"

fun demoCommandedSpeedLimitMps :: "UnitKind \<Rightarrow> rat" where
  "demoCommandedSpeedLimitMps CommandPost = 60" | "demoCommandedSpeedLimitMps ReconUAV = 1200"
| "demoCommandedSpeedLimitMps AttackUAV = 1600" | "demoCommandedSpeedLimitMps GroundScout = 480"
| "demoCommandedSpeedLimitMps JammerUAV = 1100" | "demoCommandedSpeedLimitMps GroundTarget = 0"

fun demoCruiseSpeedMps :: "UnitKind \<Rightarrow> rat" where
  "demoCruiseSpeedMps CommandPost = 12" | "demoCruiseSpeedMps ReconUAV = 600"
| "demoCruiseSpeedMps AttackUAV = 800" | "demoCruiseSpeedMps GroundScout = 240"
| "demoCruiseSpeedMps JammerUAV = 550" | "demoCruiseSpeedMps GroundTarget = 0"

fun defaultSpeedMps :: "UnitKind \<Rightarrow> rat" where
  "defaultSpeedMps CommandPost = 4" | "defaultSpeedMps ReconUAV = 150" | "defaultSpeedMps AttackUAV = 200"
| "defaultSpeedMps GroundScout = 18" | "defaultSpeedMps JammerUAV = 120" | "defaultSpeedMps GroundTarget = 0"

fun defaultCommRangeM :: "UnitKind \<Rightarrow> rat" where
  "defaultCommRangeM CommandPost = 7000" | "defaultCommRangeM ReconUAV = 6000" | "defaultCommRangeM AttackUAV = 5000"
| "defaultCommRangeM GroundScout = 4000" | "defaultCommRangeM JammerUAV = 6500" | "defaultCommRangeM GroundTarget = 0"

fun defaultCollisionRadiusM :: "UnitKind \<Rightarrow> rat" where
  "defaultCollisionRadiusM CommandPost = 120" | "defaultCollisionRadiusM ReconUAV = 35"
| "defaultCollisionRadiusM AttackUAV = 45" | "defaultCollisionRadiusM GroundScout = 30"
| "defaultCollisionRadiusM JammerUAV = 50" | "defaultCollisionRadiusM GroundTarget = 80"

fun defaultCollisionHalfHeightM :: "UnitKind \<Rightarrow> rat" where
  "defaultCollisionHalfHeightM CommandPost = 20" | "defaultCollisionHalfHeightM ReconUAV = 15"
| "defaultCollisionHalfHeightM AttackUAV = 20" | "defaultCollisionHalfHeightM GroundScout = 2"
| "defaultCollisionHalfHeightM JammerUAV = 20" | "defaultCollisionHalfHeightM GroundTarget = 5"

section \<open>Positions\<close>

record GeoPos =
  gp_x :: rat
  gp_y :: rat
  gp_alt :: rat

definition nowhere :: GeoPos where
  "nowhere = \<lparr>gp_x = 0, gp_y = 0, gp_alt = 0\<rparr>"

text \<open>The square of the planar distance.\<close>

definition distance2 :: "GeoPos \<Rightarrow> GeoPos \<Rightarrow> rat" where
  "distance2 p q = (gp_x p - gp_x q) ^ 2 + (gp_y p - gp_y q) ^ 2"

record SchedulePoint =
  sp_time :: rat
  sp_x :: rat
  sp_y :: rat

end
