(* ===== verification/ScenarioFile.thy ===== *)
theory ScenarioFile
  imports UnitKinds "HOL-Library.Monad_Syntax"
begin

text \<open>
  Scenarios as JSON (\<open>src/src/core/Scenario.cpp\<close>): writing one, reading one with every check, and the built-in
  scenario. Opening and writing the file is left out, and so are the texts for people; a refused scenario is
  none. Points of a schedule with the same time stay in the order of the file, which \<open>std::sort\<close> leaves open.
\<close>

section \<open>Scenarios\<close>

record Placement =
  pl_id :: string
  pl_vmfUrn :: string
  pl_callsign :: string
  pl_kind :: string
  pl_side :: string
  pl_pos :: GeoPos
  pl_detectRange :: rat
  pl_attackRange :: rat
  pl_commRange :: rat
  pl_speed :: rat
  pl_collisionRadius :: rat
  pl_collisionHalfHeight :: rat
  pl_maxHp :: rat
  pl_armor :: rat
  pl_repairRate :: rat
  pl_subsystemRepairRate :: rat
  pl_attackPower :: rat
  pl_ammoCapacity :: int
  pl_initialAmmo :: int
  pl_hitProbability :: rat
  pl_optimalRange :: rat
  pl_minAttackRange :: rat
  pl_cooldownSec :: rat
  pl_damageMin :: rat
  pl_damageMax :: rat
  pl_rangeFalloff :: rat
  pl_fuelCapacitySec :: rat
  pl_initialFuelSec :: rat
  pl_rearmDurationSec :: rat
  pl_schedule :: "SchedulePoint list"

record CommPolicy =
  cp_format :: string
  cp_vmfProfile :: string
  cp_ackTimeoutSec :: rat
  cp_maxRetries :: int
  cp_automaticAck :: bool

definition nativePolicy :: CommPolicy where
  "nativePolicy = \<lparr>cp_format = ''native'', cp_vmfProfile = [], cp_ackTimeoutSec = 3, cp_maxRetries = 2, cp_automaticAck = True\<rparr>"

record Scenario =
  sc_mapName :: string
  sc_width :: rat
  sc_height :: rat
  sc_background :: string
  sc_policy :: CommPolicy
  sc_units :: "Placement list"
  sc_notes :: string

definition defaultVmfUrn :: "string \<Rightarrow> string" where
  "defaultVmfUrn i = ''urn:gbr:wargame:unit:'' @ i"

section \<open>Writing\<close>

definition pointJson :: "SchedulePoint \<Rightarrow> json" where
  "pointJson p = JObj [(''time'', JNum (sp_time p)), (''x'', JNum (sp_x p)), (''y'', JNum (sp_y p))]"

definition placementJson :: "Placement \<Rightarrow> jobject" where
  "placementJson u =
     [(''id'', JStr (pl_id u)), (''vmfUrn'', JStr (if pl_vmfUrn u = [] then defaultVmfUrn (pl_id u) else pl_vmfUrn u)),
      (''callsign'', JStr (pl_callsign u)), (''kind'', JStr (pl_kind u)), (''side'', JStr (pl_side u)),
      (''x'', JNum (gp_x (pl_pos u))), (''y'', JNum (gp_y (pl_pos u))), (''alt'', JNum (gp_alt (pl_pos u))),
      (''detectRange'', JNum (pl_detectRange u)), (''attackRange'', JNum (pl_attackRange u)),
      (''commRange'', JNum (pl_commRange u)), (''speed'', JNum (pl_speed u)),
      (''collisionRadius'', JNum (pl_collisionRadius u)), (''collisionHalfHeight'', JNum (pl_collisionHalfHeight u)),
      (''maxHp'', JNum (pl_maxHp u)), (''armor'', JNum (pl_armor u)), (''repairRate'', JNum (pl_repairRate u)),
      (''subsystemRepairRate'', JNum (pl_subsystemRepairRate u)), (''attackPower'', JNum (pl_attackPower u)),
      (''ammoCapacity'', jint (pl_ammoCapacity u)), (''initialAmmo'', jint (pl_initialAmmo u)),
      (''hitProbability'', JNum (pl_hitProbability u)), (''optimalRange'', JNum (pl_optimalRange u)),
      (''minAttackRange'', JNum (pl_minAttackRange u)), (''cooldownSec'', JNum (pl_cooldownSec u)),
      (''damageMin'', JNum (pl_damageMin u)), (''damageMax'', JNum (pl_damageMax u)),
      (''rangeFalloff'', JNum (pl_rangeFalloff u)), (''fuelCapacitySec'', JNum (pl_fuelCapacitySec u)),
      (''initialFuelSec'', JNum (pl_initialFuelSec u)), (''rearmDurationSec'', JNum (pl_rearmDurationSec u)),
      (''schedule'', JArr (map pointJson (pl_schedule u)))]"

definition policyJson :: "CommPolicy \<Rightarrow> jobject" where
  "policyJson c = [(''format'', JStr (cp_format c)), (''vmfProfile'', JStr (cp_vmfProfile c)),
     (''ackTimeoutSec'', JNum (cp_ackTimeoutSec c)), (''maxRetries'', jint (cp_maxRetries c)),
     (''automaticAck'', JBool (cp_automaticAck c))]"

definition scenarioToJson :: "Scenario \<Rightarrow> jobject" where
  "scenarioToJson s =
     [(''schemaVersion'', JNum 5),
      (''map'', JObj [(''name'', JStr (sc_mapName s)), (''widthMeters'', JNum (sc_width s)),
         (''heightMeters'', JNum (sc_height s)), (''backgroundResource'', JStr (sc_background s))]),
      (''communicationPolicy'', JObj (policyJson (sc_policy s))),
      (''units'', JArr (map (\<lambda>u. JObj (placementJson u)) (sc_units s))),
      (''notes'', JStr (sc_notes s))]"

section \<open>Reading\<close>

definition optionalDouble :: "jobject \<Rightarrow> string \<Rightarrow> rat \<Rightarrow> rat option" where
  "optionalDouble ob name fallback =
     (case map_of ob name of
        None \<Rightarrow> Some fallback
      | Some v \<Rightarrow> if isJNum v then Some (jtoDouble 0 v) else None)"

definition optionalInteger :: "jobject \<Rightarrow> string \<Rightarrow> int \<Rightarrow> int option" where
  "optionalInteger ob name fallback =
     (case map_of ob name of
        None \<Rightarrow> Some fallback
      | Some v \<Rightarrow>
          (let n = jtoDouble 0 v in
           if \<not> isJNum v \<or> of_int \<lfloor>n\<rfloor> \<noteq> n \<or> n < - (2 ^ 31) \<or> n > 2 ^ 31 - 1 then None else Some \<lfloor>n\<rfloor>))"

definition requiredDouble :: "jobject \<Rightarrow> string \<Rightarrow> rat option" where
  "requiredDouble ob name = (if isJNum (jget ob name) then Some (jtoDouble 0 (jget ob name)) else None)"

definition requiredString :: "jobject \<Rightarrow> string \<Rightarrow> string option" where
  "requiredString ob name =
     (if isJStr (jget ob name) \<and> jtoString (jget ob name) \<noteq> [] then Some (jtoString (jget ob name)) else None)"

definition stringIn :: "jobject \<Rightarrow> string \<Rightarrow> string \<Rightarrow> string" where
  "stringIn ob name fallback = (if isJStr (jget ob name) then jtoString (jget ob name) else fallback)"

definition validCommunicationFormat :: "string \<Rightarrow> bool" where
  "validCommunicationFormat f \<longleftrightarrow> f = ''native'' \<or> f = ''vmf-design-v1''"

definition check :: "bool \<Rightarrow> unit option" where
  "check b = (if b then Some () else None)"

definition readAutomaticAck :: "jobject \<Rightarrow> bool option" where
  "readAutomaticAck policy =
     (case map_of policy ''automaticAck'' of
        None \<Rightarrow> Some True
      | Some v \<Rightarrow> if isJBool v then Some (jtoBool False v) else None)"

definition readPolicy :: "jobject \<Rightarrow> CommPolicy option" where
  "readPolicy policy =
     (let format = stringIn policy ''format'' ''native'';
          given = stringIn policy ''vmfProfile'' (jtoString (jget policy ''profile''));
          profile = (if format = ''vmf-design-v1'' \<and> given = [] then ''vmf-design-v1'' else given)
      in do {
        check (validCommunicationFormat format);
        timeout \<leftarrow> optionalDouble policy ''ackTimeoutSec'' 3;
        check (0 < timeout);
        retries \<leftarrow> optionalInteger policy ''maxRetries'' 2;
        check (0 \<le> retries \<and> retries \<le> 16);
        automatic \<leftarrow> readAutomaticAck policy;
        Some \<lparr>cp_format = format, cp_vmfProfile = profile, cp_ackTimeoutSec = timeout, cp_maxRetries = retries,
          cp_automaticAck = automatic\<rparr>
      })"

definition readUrn :: "jobject \<Rightarrow> string \<Rightarrow> string option" where
  "readUrn u i =
     (case map_of u ''vmfUrn'' of
        None \<Rightarrow> Some (defaultVmfUrn i)
      | Some v \<Rightarrow> if \<not> isJStr v \<or> trimmed (jtoString v) = [] then None else Some (trimmed (jtoString v)))"

definition readPoint :: "json \<Rightarrow> SchedulePoint option" where
  "readPoint v = do {
     check (isJObj v);
     t \<leftarrow> requiredDouble (jtoObject v) ''time'';
     x \<leftarrow> requiredDouble (jtoObject v) ''x'';
     y \<leftarrow> requiredDouble (jtoObject v) ''y'';
     Some \<lparr>sp_time = t, sp_x = x, sp_y = y\<rparr>
   }"

fun readAll :: "('a \<Rightarrow> 'b option) \<Rightarrow> 'a list \<Rightarrow> 'b list option" where
  "readAll f [] = Some []"
| "readAll f (x # xs) = do { y \<leftarrow> f x; ys \<leftarrow> readAll f xs; Some (y # ys) }"

definition readSchedule :: "jobject \<Rightarrow> SchedulePoint list option" where
  "readSchedule u = do {
     check (jcontains u ''schedule'' \<longrightarrow> isJArr (jget u ''schedule''));
     points \<leftarrow> readAll readPoint (jtoArray (jget u ''schedule''));
     Some (sort_key sp_time points)
   }"

definition readPlacement :: "json \<Rightarrow> Placement option" where
  "readPlacement v =
     (let u = jtoObject v; kind = kindFromName (jtoString (jget u ''kind'')) in do {
        check (isJObj v);
        i \<leftarrow> requiredString u ''id'';
        kindText \<leftarrow> requiredString u ''kind'';
        side \<leftarrow> requiredString u ''side'';
        urn \<leftarrow> readUrn u i;
        x \<leftarrow> optionalDouble u ''x'' 0;
        y \<leftarrow> optionalDouble u ''y'' 0;
        alt \<leftarrow> optionalDouble u ''alt'' 0;
        detect \<leftarrow> optionalDouble u ''detectRange'' 5000;
        attack \<leftarrow> optionalDouble u ''attackRange'' 1500;
        comm \<leftarrow> optionalDouble u ''commRange'' (defaultCommRangeM kind);
        speed \<leftarrow> optionalDouble u ''speed'' (defaultSpeedMps kind);
        radius \<leftarrow> optionalDouble u ''collisionRadius'' (defaultCollisionRadiusM kind);
        halfHeight \<leftarrow> optionalDouble u ''collisionHalfHeight'' (defaultCollisionHalfHeightM kind);
        maxHp \<leftarrow> optionalDouble u ''maxHp'' 100;
        armor \<leftarrow> optionalDouble u ''armor'' 0;
        repair \<leftarrow> optionalDouble u ''repairRate'' 2;
        subsystemRepair \<leftarrow> optionalDouble u ''subsystemRepairRate'' (2 / 100);
        power \<leftarrow> optionalDouble u ''attackPower'' 100;
        capacity \<leftarrow> optionalInteger u ''ammoCapacity'' 4;
        ammo \<leftarrow> optionalInteger u ''initialAmmo'' capacity;
        hit \<leftarrow> optionalDouble u ''hitProbability'' (72 / 100);
        optimal \<leftarrow> optionalDouble u ''optimalRange'' attack;
        minimum \<leftarrow> optionalDouble u ''minAttackRange'' 300;
        cooldown \<leftarrow> optionalDouble u ''cooldownSec'' 5;
        damageMin \<leftarrow> optionalDouble u ''damageMin'' 80;
        damageMax \<leftarrow> optionalDouble u ''damageMax'' 110;
        falloff \<leftarrow> optionalDouble u ''rangeFalloff'' (25 / 100);
        fuel \<leftarrow> optionalDouble u ''fuelCapacitySec'' 1800;
        initialFuel \<leftarrow> optionalDouble u ''initialFuelSec'' fuel;
        rearm \<leftarrow> optionalDouble u ''rearmDurationSec'' 8;
        schedule \<leftarrow> readSchedule u;
        Some \<lparr>pl_id = i, pl_vmfUrn = urn, pl_callsign = jtoString (jget u ''callsign''), pl_kind = kindText, pl_side = side,
          pl_pos = \<lparr>gp_x = x, gp_y = y, gp_alt = alt\<rparr>, pl_detectRange = detect, pl_attackRange = attack,
          pl_commRange = comm, pl_speed = speed, pl_collisionRadius = radius, pl_collisionHalfHeight = halfHeight,
          pl_maxHp = maxHp, pl_armor = armor, pl_repairRate = repair, pl_subsystemRepairRate = subsystemRepair,
          pl_attackPower = power, pl_ammoCapacity = capacity, pl_initialAmmo = ammo, pl_hitProbability = hit,
          pl_optimalRange = optimal, pl_minAttackRange = minimum, pl_cooldownSec = cooldown, pl_damageMin = damageMin,
          pl_damageMax = damageMax, pl_rangeFalloff = falloff, pl_fuelCapacitySec = fuel,
          pl_initialFuelSec = initialFuel, pl_rearmDurationSec = rearm, pl_schedule = schedule\<rparr>
      })"

definition readMap :: "jobject \<Rightarrow> (string \<times> rat \<times> rat \<times> string) option" where
  "readMap ob = do {
     check (jcontains ob ''map'' \<longrightarrow> isJObj (jget ob ''map''));
     let m = jtoObject (jget ob ''map'');
     width \<leftarrow> optionalDouble m ''widthMeters'' 40000;
     height \<leftarrow> optionalDouble m ''heightMeters'' 30000;
     Some (stringIn m ''name'' ''default'', width, height, jtoString (jget m ''backgroundResource''))
   }"

definition policyValue :: "jobject \<Rightarrow> json option" where
  "policyValue ob = (if jcontains ob ''communicationPolicy'' then map_of ob ''communicationPolicy'' else map_of ob ''communication'')"

definition readPolicyOf :: "jobject \<Rightarrow> CommPolicy option" where
  "readPolicyOf ob =
     (case policyValue ob of
        None \<Rightarrow> Some nativePolicy
      | Some v \<Rightarrow> if isJObj v then readPolicy (jtoObject v) else None)"

definition scenarioFromJson :: "jobject \<Rightarrow> Scenario option" where
  "scenarioFromJson ob = do {
     (name, width, height, background) \<leftarrow> readMap ob;
     policy \<leftarrow> readPolicyOf ob;
     check (jcontains ob ''units'' \<longrightarrow> isJArr (jget ob ''units''));
     units \<leftarrow> readAll readPlacement (jtoArray (jget ob ''units''));
     check (distinct (map pl_id units));
     check (distinct (map pl_vmfUrn units));
     Some \<lparr>sc_mapName = name, sc_width = width, sc_height = height, sc_background = background, sc_policy = policy,
       sc_units = units, sc_notes = jtoString (jget ob ''notes'')\<rparr>
   }"

section \<open>The built-in scenario\<close>

definition placed :: "string \<Rightarrow> string \<Rightarrow> string \<Rightarrow> rat \<times> rat \<times> rat \<Rightarrow> rat \<Rightarrow> rat \<Rightarrow> rat \<Rightarrow> rat \<Rightarrow> rat
    \<Rightarrow> (rat \<times> rat \<times> rat) list \<Rightarrow> Placement" where
  "placed i kind side p detect attack comm speed hp points =
     \<lparr>pl_id = i, pl_vmfUrn = defaultVmfUrn i, pl_callsign = [], pl_kind = kind, pl_side = side,
       pl_pos = \<lparr>gp_x = fst p, gp_y = fst (snd p), gp_alt = snd (snd p)\<rparr>, pl_detectRange = detect, pl_attackRange = attack,
       pl_commRange = comm, pl_speed = speed, pl_collisionRadius = defaultCollisionRadiusM (kindFromName kind),
       pl_collisionHalfHeight = defaultCollisionHalfHeightM (kindFromName kind), pl_maxHp = hp, pl_armor = 0,
       pl_repairRate = 2, pl_subsystemRepairRate = 2 / 100, pl_attackPower = 100, pl_ammoCapacity = 4, pl_initialAmmo = 4,
       pl_hitProbability = 72 / 100, pl_optimalRange = 1500, pl_minAttackRange = 300, pl_cooldownSec = 5,
       pl_damageMin = 80, pl_damageMax = 110, pl_rangeFalloff = 25 / 100, pl_fuelCapacitySec = 1800,
       pl_initialFuelSec = 1800, pl_rearmDurationSec = 8,
       pl_schedule = sort_key sp_time (map (\<lambda>(t, x, y). \<lparr>sp_time = t, sp_x = x, sp_y = y\<rparr>) points)\<rparr>"

definition defaultScenario :: Scenario where
  "defaultScenario = \<lparr>sc_mapName = ''default'', sc_width = 20000, sc_height = 15000, sc_background = [],
     sc_policy = nativePolicy,
     sc_units =
       [placed ''red_cp'' ''commandpost'' ''red'' (2000, 7500, 50) 5000 0 7000 4 200 [],
        placed ''red_r1'' ''reconuav'' ''red'' (4000, 4000, 3000) 8000 0 6000 150 100
          [(0, 4000, 4000), (40, 7000, 5000), (80, 10000, 6000)],
        placed ''red_a1'' ''attackuav'' ''red'' (3000, 11000, 2000) 4000 2500 5000 200 120
          [(0, 3000, 11000), (30, 6000, 10500), (60, 9000, 9500), (90, 12000, 9000)],
        placed ''red_g1'' ''groundscout'' ''red'' (2000, 2000, 0) 3000 0 4000 18 80 [],
        placed ''blue_cp'' ''commandpost'' ''blue'' (18000, 7500, 50) 5000 0 7000 4 200 [],
        placed ''blue_r1'' ''reconuav'' ''blue'' (16000, 11000, 3000) 8000 0 6000 150 100
          [(0, 16000, 11000), (40, 13000, 10500), (80, 10000, 9500)],
        placed ''blue_a1'' ''attackuav'' ''blue'' (17000, 4000, 2000) 4000 2500 5000 200 120
          [(0, 17000, 4000), (30, 14000, 4500), (60, 11000, 5500), (90, 8000, 6000)],
        placed ''blue_g1'' ''groundscout'' ''blue'' (18000, 13000, 0) 3000 0 4000 18 80 [],
        placed ''red_j1'' ''jammeruav'' ''red'' (4000, 7500, 4000) 6000 0 6500 120 80 [],
        placed ''blue_j1'' ''jammeruav'' ''blue'' (16000, 7000, 4000) 6000 0 6500 120 80 []],
     sc_notes = []\<rparr>"

end
