(* ===== verification/ScenarioProps.thy ===== *)
theory ScenarioProps
  imports ScenarioFile
begin

text \<open>
  Reading and writing scenarios: what is written reads back, what was read can be written and read again, and
  where that fails.
\<close>

section \<open>Fields\<close>

named_theorems read_simps \<open>reading a field of a written object\<close>

lemma check_bind [read_simps]: "Option.bind (check b) f = (if b then f () else None)"
  by (simp add: check_def)

lemma check_eq: "check b = Some u \<longleftrightarrow> b"
  by (simp add: check_def)

lemma optionalInteger_jint:
  "map_of ob name = Some (jint n) \<Longrightarrow> - (2 ^ 31) \<le> n \<Longrightarrow> n < 2 ^ 31 \<Longrightarrow> optionalInteger ob name d = Some n"
proof -
  assume a: "map_of ob name = Some (jint n)" "- (2 ^ 31) \<le> n" "n < 2 ^ 31"
  have "\<not> (of_int n :: rat) < - (2 ^ 31)" "\<not> (of_int n :: rat) > 2 ^ 31 - 1"
    using a(2,3) by (simp_all add: not_less)
  then show ?thesis
    using a(1) by (simp add: optionalInteger_def jint_def)
qed

lemma optionalInteger_bounds: "optionalInteger ob name d = Some n \<Longrightarrow> map_of ob name \<noteq> None \<Longrightarrow> - (2 ^ 31) \<le> n \<and> n < 2 ^ 31"
proof -
  assume a: "optionalInteger ob name d = Some n" "map_of ob name \<noteq> None"
  then obtain v where v: "map_of ob name = Some v"
    by blast
  have n: "n = \<lfloor>jtoDouble 0 v\<rfloor>" "of_int n = jtoDouble 0 v" "\<not> jtoDouble 0 v < - (2 ^ 31)" "\<not> 2 ^ 31 - 1 < jtoDouble 0 v"
    using a(1) by (auto simp: optionalInteger_def v Let_def split: if_splits)
  from n(3,4) show ?thesis
    by (simp add: n(2) [symmetric] not_less)
qed

lemma readAll_written: "list_all (\<lambda>x. f (g x) = Some x) xs \<Longrightarrow> readAll f (map g xs) = Some xs"
  by (induction xs) simp_all

lemma readAll_Some: "readAll f xs = Some ys \<longleftrightarrow> list_all2 (\<lambda>x y. f x = Some y) xs ys"
  by (induction xs arbitrary: ys) (auto simp: list_all2_Cons1 bind_eq_Some_conv)

section \<open>Writing and reading\<close>

definition wfPlacement :: "Placement \<Rightarrow> bool" where
  "wfPlacement u \<longleftrightarrow> pl_id u \<noteq> [] \<and> pl_kind u \<noteq> [] \<and> pl_side u \<noteq> [] \<and> pl_vmfUrn u \<noteq> [] \<and> trimmed (pl_vmfUrn u) = pl_vmfUrn u
     \<and> - (2 ^ 31) \<le> pl_ammoCapacity u \<and> pl_ammoCapacity u < 2 ^ 31 \<and> - (2 ^ 31) \<le> pl_initialAmmo u \<and> pl_initialAmmo u < 2 ^ 31
     \<and> sorted (map sp_time (pl_schedule u))"

definition wfPolicy :: "CommPolicy \<Rightarrow> bool" where
  "wfPolicy c \<longleftrightarrow> validCommunicationFormat (cp_format c) \<and> (cp_format c = ''vmf-design-v1'' \<longrightarrow> cp_vmfProfile c \<noteq> [])
     \<and> 0 < cp_ackTimeoutSec c \<and> 0 \<le> cp_maxRetries c \<and> cp_maxRetries c \<le> 16"

definition wfScenario :: "Scenario \<Rightarrow> bool" where
  "wfScenario s \<longleftrightarrow> list_all wfPlacement (sc_units s) \<and> distinct (map pl_id (sc_units s)) \<and> distinct (map pl_vmfUrn (sc_units s))
     \<and> wfPolicy (sc_policy s)"

lemma schedule_written:
  assumes "sorted (map sp_time ps)" and "map_of u ''schedule'' = Some (JArr (map pointJson ps))"
  shows "readSchedule u = Some ps"
proof -
  have "readPoint (pointJson p) = Some p" for p
    by (simp add: readPoint_def pointJson_def requiredDouble_def json_simps read_simps)
  then have "readAll readPoint (map pointJson ps) = Some ps"
    by (intro readAll_written) (simp add: list_all_iff)
  moreover have "sort_key sp_time ps = ps"
    using assms(1) by (simp add: sorted_sort_id sort_key_id_if_sorted)
  ultimately show ?thesis
    using assms(2) by (simp add: readSchedule_def jget_def jcontains_def read_simps)
qed

lemma policy_written:
  assumes "wfPolicy c"
  shows "readPolicy (policyJson c) = Some c"
proof -
  have "optionalInteger (policyJson c) ''maxRetries'' 2 = Some (cp_maxRetries c)"
    using assms by (intro optionalInteger_jint) (simp_all add: policyJson_def wfPolicy_def)
  then show ?thesis
    using assms by (simp add: readPolicy_def readAutomaticAck_def stringIn_def optionalDouble_def policyJson_def wfPolicy_def
        json_simps read_simps Let_def)
qed

lemma placement_written:
  assumes "wfPlacement u"
  shows "readPlacement (JObj (placementJson u)) = Some u"
proof -
  let ?o = "placementJson u"
  have i: "optionalInteger ?o ''ammoCapacity'' d = Some (pl_ammoCapacity u)" "optionalInteger ?o ''initialAmmo'' d = Some (pl_initialAmmo u)" for d
    using assms by (auto simp: wfPlacement_def placementJson_def intro!: optionalInteger_jint)
  have s: "readSchedule ?o = Some (pl_schedule u)"
    by (rule schedule_written) (use assms in \<open>simp_all add: wfPlacement_def placementJson_def\<close>)
  have t: "requiredString ?o ''id'' = Some (pl_id u)" "requiredString ?o ''kind'' = Some (pl_kind u)"
    "requiredString ?o ''side'' = Some (pl_side u)" "readUrn ?o (pl_id u) = Some (pl_vmfUrn u)"
    "jtoString (jget ?o ''callsign'') = pl_callsign u"
    using assms by (simp_all add: requiredString_def readUrn_def placementJson_def wfPlacement_def json_simps)
  have d: "optionalDouble ?o ''x'' e = Some (gp_x (pl_pos u))" "optionalDouble ?o ''y'' e = Some (gp_y (pl_pos u))"
    "optionalDouble ?o ''alt'' e = Some (gp_alt (pl_pos u))" "optionalDouble ?o ''detectRange'' e = Some (pl_detectRange u)"
    "optionalDouble ?o ''attackRange'' e = Some (pl_attackRange u)" "optionalDouble ?o ''commRange'' e = Some (pl_commRange u)"
    "optionalDouble ?o ''speed'' e = Some (pl_speed u)" "optionalDouble ?o ''collisionRadius'' e = Some (pl_collisionRadius u)"
    "optionalDouble ?o ''collisionHalfHeight'' e = Some (pl_collisionHalfHeight u)"
    "optionalDouble ?o ''maxHp'' e = Some (pl_maxHp u)" "optionalDouble ?o ''armor'' e = Some (pl_armor u)"
    "optionalDouble ?o ''repairRate'' e = Some (pl_repairRate u)"
    "optionalDouble ?o ''subsystemRepairRate'' e = Some (pl_subsystemRepairRate u)"
    "optionalDouble ?o ''attackPower'' e = Some (pl_attackPower u)"
    "optionalDouble ?o ''hitProbability'' e = Some (pl_hitProbability u)"
    "optionalDouble ?o ''optimalRange'' e = Some (pl_optimalRange u)"
    "optionalDouble ?o ''minAttackRange'' e = Some (pl_minAttackRange u)"
    "optionalDouble ?o ''cooldownSec'' e = Some (pl_cooldownSec u)" "optionalDouble ?o ''damageMin'' e = Some (pl_damageMin u)"
    "optionalDouble ?o ''damageMax'' e = Some (pl_damageMax u)" "optionalDouble ?o ''rangeFalloff'' e = Some (pl_rangeFalloff u)"
    "optionalDouble ?o ''fuelCapacitySec'' e = Some (pl_fuelCapacitySec u)"
    "optionalDouble ?o ''initialFuelSec'' e = Some (pl_initialFuelSec u)"
    "optionalDouble ?o ''rearmDurationSec'' e = Some (pl_rearmDurationSec u)" for e
    by (simp_all add: optionalDouble_def placementJson_def)
  show ?thesis
    by (simp add: readPlacement_def i s t d read_simps Let_def)
qed

text \<open>A well-formed scenario that is written reads back as itself.\<close>

lemma scenario_read_back:
  assumes "wfScenario s"
  shows "scenarioFromJson (scenarioToJson s) = Some s"
proof -
  let ?o = "scenarioToJson s"
  have "readAll readPlacement (map (\<lambda>u. JObj (placementJson u)) (sc_units s)) = Some (sc_units s)"
    by (rule readAll_written) (use assms placement_written in \<open>simp add: wfScenario_def list_all_iff\<close>)
  moreover have "readMap ?o = Some (sc_mapName s, sc_width s, sc_height s, sc_background s)"
    by (simp add: readMap_def scenarioToJson_def optionalDouble_def stringIn_def json_simps read_simps)
  moreover have "readPolicyOf ?o = Some (sc_policy s)"
    using assms by (simp add: readPolicyOf_def policyValue_def scenarioToJson_def policy_written wfScenario_def json_simps)
  moreover have "jget ?o ''units'' = JArr (map (\<lambda>u. JObj (placementJson u)) (sc_units s))" "jtoString (jget ?o ''notes'') = sc_notes s"
    by (simp_all add: scenarioToJson_def json_simps)
  ultimately show ?thesis
    using assms by (simp add: scenarioFromJson_def wfScenario_def read_simps)
qed

section \<open>Scenarios that were read\<close>

lemma read_policy_ok: "readPolicy p = Some c \<Longrightarrow> wfPolicy c"
  by (auto simp: readPolicy_def wfPolicy_def Let_def bind_eq_Some_conv check_eq split: if_splits)

lemma native_policy_ok: "wfPolicy nativePolicy"
  by (simp add: wfPolicy_def nativePolicy_def validCommunicationFormat_def)

lemma read_integer_range:
  "optionalInteger ob name d = Some n \<Longrightarrow> - (2 ^ 31) \<le> d \<Longrightarrow> d < 2 ^ 31 \<Longrightarrow> - (2 ^ 31) \<le> n \<and> n < 2 ^ 31"
  using optionalInteger_bounds [of ob name d n] by (cases "map_of ob name") (simp_all add: optionalInteger_def)

lemma read_placement_ok:
  assumes "readPlacement v = Some u"
  shows "pl_id u \<noteq> [] \<and> pl_kind u \<noteq> [] \<and> pl_side u \<noteq> [] \<and> pl_vmfUrn u \<noteq> []
    \<and> - (2 ^ 31) \<le> pl_ammoCapacity u \<and> pl_ammoCapacity u < 2 ^ 31 \<and> - (2 ^ 31) \<le> pl_initialAmmo u \<and> pl_initialAmmo u < 2 ^ 31
    \<and> sorted (map sp_time (pl_schedule u))"
proof -
  have "requiredString (jtoObject v) ''id'' = Some (pl_id u) \<and> requiredString (jtoObject v) ''kind'' = Some (pl_kind u)
    \<and> requiredString (jtoObject v) ''side'' = Some (pl_side u) \<and> readUrn (jtoObject v) (pl_id u) = Some (pl_vmfUrn u)
    \<and> optionalInteger (jtoObject v) ''ammoCapacity'' 4 = Some (pl_ammoCapacity u)
    \<and> optionalInteger (jtoObject v) ''initialAmmo'' (pl_ammoCapacity u) = Some (pl_initialAmmo u)
    \<and> readSchedule (jtoObject v) = Some (pl_schedule u)"
    using assms unfolding readPlacement_def Let_def bind_eq_Some_conv by clarsimp
  then have f: "requiredString (jtoObject v) ''id'' = Some (pl_id u)"
    "requiredString (jtoObject v) ''kind'' = Some (pl_kind u)" "requiredString (jtoObject v) ''side'' = Some (pl_side u)"
    "readUrn (jtoObject v) (pl_id u) = Some (pl_vmfUrn u)"
    "optionalInteger (jtoObject v) ''ammoCapacity'' 4 = Some (pl_ammoCapacity u)"
    "optionalInteger (jtoObject v) ''initialAmmo'' (pl_ammoCapacity u) = Some (pl_initialAmmo u)"
    "readSchedule (jtoObject v) = Some (pl_schedule u)"
    by simp_all
  have c: "- (2 ^ 31) \<le> pl_ammoCapacity u \<and> pl_ammoCapacity u < 2 ^ 31"
    using read_integer_range [OF f(5)] by simp
  moreover have "- (2 ^ 31) \<le> pl_initialAmmo u \<and> pl_initialAmmo u < 2 ^ 31"
    using read_integer_range [OF f(6)] c by simp
  moreover have "pl_vmfUrn u \<noteq> []"
    using f(4) by (auto simp: readUrn_def defaultVmfUrn_def split: option.splits if_splits)
  moreover have "sorted (map sp_time (pl_schedule u))"
  proof -
    obtain points where "pl_schedule u = sort_key sp_time points"
      using f(7) unfolding readSchedule_def bind_eq_Some_conv by (metis option.inject)
    then show ?thesis
      by simp
  qed
  ultimately show ?thesis
    using f(1,2,3) by (auto simp: requiredString_def split: if_splits)
qed

text \<open>C36. A scenario that was read, and whose VMF identities do not begin or end with spaces, is written and read
  again without change.\<close>

theorem scenario_reloads:
  assumes r: "scenarioFromJson ob = Some s" and t: "\<forall>u \<in> set (sc_units s). trimmed (pl_vmfUrn u) = pl_vmfUrn u"
  shows "scenarioFromJson (scenarioToJson s) = Some s"
proof (rule scenario_read_back)
  have u: "readAll readPlacement (jtoArray (jget ob ''units'')) = Some (sc_units s)"
    "distinct (map pl_id (sc_units s))" "distinct (map pl_vmfUrn (sc_units s))" "readPolicyOf ob = Some (sc_policy s)"
    using r by (auto simp: scenarioFromJson_def bind_eq_Some_conv check_eq)
  have "wfPlacement p" if p: "p \<in> set (sc_units s)" for p
  proof -
    obtain v where "readPlacement v = Some p"
      using u(1) p by (auto simp: readAll_Some list_all2_conv_all_nth in_set_conv_nth)
    then show ?thesis
      using read_placement_ok [of v p] t p by (simp add: wfPlacement_def)
  qed
  moreover have "wfPolicy (sc_policy s)"
    using u(4) read_policy_ok native_policy_ok by (auto simp: readPolicyOf_def split: option.splits if_splits)
  ultimately show "wfScenario s"
    using u(2,3) by (simp add: wfScenario_def list_all_iff)
qed

section \<open>The built-in scenario\<close>

lemma default_wf: "wfScenario defaultScenario"
proof -
  have "list_all (\<lambda>u. trimmed (pl_vmfUrn u) = pl_vmfUrn u) (sc_units defaultScenario)"
    by code_simp
  moreover have "list_all (\<lambda>u. pl_id u \<noteq> [] \<and> pl_kind u \<noteq> [] \<and> pl_side u \<noteq> [] \<and> pl_vmfUrn u \<noteq> []
      \<and> pl_ammoCapacity u = 4 \<and> pl_initialAmmo u = 4 \<and> sorted (map sp_time (pl_schedule u))) (sc_units defaultScenario)"
    by (simp add: defaultScenario_def placed_def defaultVmfUrn_def)
  moreover have "distinct (map pl_id (sc_units defaultScenario))" "distinct (map pl_vmfUrn (sc_units defaultScenario))"
    by (simp_all add: defaultScenario_def placed_def defaultVmfUrn_def)
  moreover have "wfPolicy (sc_policy defaultScenario)"
    by (simp add: defaultScenario_def native_policy_ok)
  ultimately show ?thesis
    by (simp add: wfScenario_def wfPlacement_def list_all_iff)
qed

text \<open>C26. A well-formed scenario, such as the built-in one, is read back from its JSON exactly, with every unit,
  schedule and policy.\<close>

theorem scenario_roundtrip:
  assumes "wfScenario s"
  shows "scenarioFromJson (scenarioToJson s) = Some s"
  by (rule scenario_read_back [OF assms])

theorem scenario_roundtrip_witness: "scenarioFromJson (scenarioToJson defaultScenario) = Some defaultScenario"
  by (rule scenario_roundtrip [OF default_wf])

theorem scenario_reloads_witness:
  "\<exists>s. scenarioFromJson [(''units'', JArr [JObj [(''id'', JStr ''a''), (''kind'', JStr ''reconuav''), (''side'', JStr ''red'')]])] = Some s
     \<and> scenarioFromJson (scenarioToJson s) = Some s"
proof -
  let ?ob = "[(''units'', JArr [JObj [(''id'', JStr ''a''), (''kind'', JStr ''reconuav''), (''side'', JStr ''red'')]])]"
  obtain s where s: "scenarioFromJson ?ob = Some s" "map pl_vmfUrn (sc_units s) = [defaultVmfUrn ''a'']"
    by (simp add: scenarioFromJson_def readMap_def readPolicyOf_def policyValue_def readPlacement_def readUrn_def readSchedule_def
        requiredString_def optionalDouble_def optionalInteger_def json_simps read_simps Let_def)
  have "trimmed (defaultVmfUrn ''a'') = defaultVmfUrn ''a''"
    by code_simp
  then have "\<forall>u \<in> set (sc_units s). trimmed (pl_vmfUrn u) = pl_vmfUrn u"
    using s(2) by auto
  then show ?thesis
    using s(1) scenario_reloads [OF s(1)] by blast
qed

section \<open>Ids that end with a space\<close>

definition spacedPair :: "string \<Rightarrow> jobject" where
  "spacedPair i = [(''units'', JArr (map (\<lambda>i. JObj [(''id'', JStr i), (''kind'', JStr ''reconuav''), (''side'', JStr ''red'')])
     [i, i @ '' '']))]"

lemma trimmed_urn:
  assumes "i \<noteq> []" and "\<not> is_space (last i)"
  shows "trimmed (defaultVmfUrn i) = defaultVmfUrn i" "trimmed (defaultVmfUrn (i @ '' '')) = defaultVmfUrn i"
proof -
  obtain j c where i: "i = j @ [c]" "\<not> is_space c"
    using assms by (cases i rule: rev_cases) auto
  have u: "\<not> is_space CHR ''u''" and s: "is_space CHR '' ''"
    by code_simp+
  have "dropWhile is_space (rev (defaultVmfUrn i)) = rev (defaultVmfUrn i)"
    "dropWhile is_space (rev (defaultVmfUrn (i @ '' ''))) = rev (defaultVmfUrn i)"
    using i(2) s by (simp_all add: i(1) defaultVmfUrn_def)
  then show "trimmed (defaultVmfUrn i) = defaultVmfUrn i" "trimmed (defaultVmfUrn (i @ '' '')) = defaultVmfUrn i"
    using u by (simp_all add: trimmed_def) (simp_all add: defaultVmfUrn_def)
qed

text \<open>A scenario with two units without VMF identity, whose ids differ in a space at the end, is accepted; but
  what is written from it is refused, because the two identities are the same without the space.\<close>

theorem spaced_ids_not_reloaded:
  assumes "i \<noteq> []" and "\<not> is_space (last i)"
  shows "\<exists>s. scenarioFromJson (spacedPair i) = Some s \<and> scenarioFromJson (scenarioToJson s) = None"
proof -
  have d: "defaultVmfUrn (i @ '' '') \<noteq> defaultVmfUrn i"
    by (simp add: defaultVmfUrn_def)
  obtain p q s where s: "scenarioFromJson (spacedPair i) = Some s" "sc_units s = [p, q]" "pl_vmfUrn p = defaultVmfUrn i"
    "pl_vmfUrn q = defaultVmfUrn (i @ '' '')" "pl_id p = i" "pl_id q = i @ '' ''"
    using assms(1) d by (simp add: spacedPair_def scenarioFromJson_def readMap_def readPolicyOf_def policyValue_def
        readPlacement_def readUrn_def readSchedule_def requiredString_def optionalDouble_def optionalInteger_def json_simps
        read_simps Let_def)
  have urn: "readUrn (placementJson u) j = Some (trimmed (pl_vmfUrn u))" if "pl_vmfUrn u \<noteq> []" "trimmed (pl_vmfUrn u) \<noteq> []" for u j
    using that by (simp add: readUrn_def placementJson_def)
  have "scenarioFromJson (scenarioToJson s) = None"
  proof (rule ccontr)
    assume "scenarioFromJson (scenarioToJson s) \<noteq> None"
    then obtain t where t: "readAll readPlacement (map (\<lambda>u. JObj (placementJson u)) [p, q]) = Some t" "distinct (map pl_vmfUrn t)"
      by (auto simp: scenarioFromJson_def bind_eq_Some_conv check_eq s(2) scenarioToJson_def json_simps)
    then obtain p' q' where "t = [p', q']" "readPlacement (JObj (placementJson p)) = Some p'" "readPlacement (JObj (placementJson q)) = Some q'"
      by (auto simp: bind_eq_Some_conv)
    moreover have "pl_vmfUrn u' = trimmed (pl_vmfUrn u)"
      if "readPlacement (JObj (placementJson u)) = Some u'" "pl_vmfUrn u \<noteq> []" "trimmed (pl_vmfUrn u) \<noteq> []" for u u'
      using that urn unfolding readPlacement_def Let_def bind_eq_Some_conv by clarsimp
    moreover have "defaultVmfUrn k \<noteq> []" for k
      by (simp add: defaultVmfUrn_def)
    ultimately show False
      using t(2) trimmed_urn [OF assms] s(3,4) by simp
  qed
  then show ?thesis
    using s(1) by blast
qed

theorem spaced_ids_not_reloaded_witness:
  "\<exists>s. scenarioFromJson (spacedPair ''r1'') = Some s \<and> scenarioFromJson (scenarioToJson s) = None"
  by (rule spaced_ids_not_reloaded) code_simp+

end
