(* ===== verification/Units.thy ===== *)
theory Units
  imports UnitKinds CombatResolver BusMessage JsonOrder Prelude
begin

text \<open>
  What every unit of the simulation has (\<open>src/src/core/UnitBase.{h,cpp}\<close>): health and damage, jamming, fuel,
  abilities, service at a command post, the recent path and the checkpoint. The subclasses extend the record and
  pass what they override in a \<open>UnitClass\<close>. Signals and calls of the bus, which is there, are recorded. Numbers
  are exact and finite: calls with infinite or undefined numbers, which the code ignores, are left out, and so
  are the texts for people.
  \<open>std::sort\<close> of a plan is taken to be stable: points with equal times keep their order.
\<close>

section \<open>State\<close>

record Params =
  pa_detectRange :: rat
  pa_attackRange :: rat
  pa_commRange :: rat
  pa_speed :: rat
  pa_collisionRadius :: rat
  pa_collisionHalfHeight :: rat
  pa_maxHp :: rat
  pa_attackPower :: rat
  pa_armor :: rat
  pa_repairRate :: rat
  pa_subsystemRepairRate :: rat
  pa_pos :: GeoPos

record DamageDelta =
  dd_hull :: rat
  dd_sensor :: rat
  dd_comms :: rat
  dd_mobility :: rat
  dd_weapon :: rat

record AbilityState =
  ab_range :: rat
  ab_cooldownSec :: rat
  ab_cooldownRemaining :: rat
  ab_capacity :: int
  ab_remaining :: int

definition ability :: "rat \<Rightarrow> rat \<Rightarrow> int \<Rightarrow> AbilityState" where
  "ability reach cooldown n = \<lparr>ab_range = reach, ab_cooldownSec = cooldown, ab_cooldownRemaining = 0,
     ab_capacity = n, ab_remaining = n\<rparr>"

definition supported :: "AbilityState \<Rightarrow> bool" where
  "supported a \<longleftrightarrow> ab_capacity a \<noteq> 0"

definition unlimited :: "AbilityState \<Rightarrow> bool" where
  "unlimited a \<longleftrightarrow> ab_capacity a < 0"

definition tiny :: rat where
  "tiny = 1 / 10 ^ 9"

definition abilityAvailable :: "AbilityState \<Rightarrow> bool" where
  "abilityAvailable a \<longleftrightarrow> supported a \<and> ab_cooldownRemaining a \<le> tiny \<and> (unlimited a \<or> 0 < ab_remaining a)"

datatype UnitSignal = CallsignChanged | PositionChanged | SharedKnowledgeChanged | StatusChanged | ParamsChanged
  | HpChanged | DamageStateChanged | RecentPathChanged | RuntimeStateChanged | FuelNotice int
  | BusPosition GeoPos rat Side | BusActive bool

record Unit =
  u_id :: string
  u_callsign :: string
  u_kind :: UnitKind
  u_side :: Side
  u_params :: Params
  u_hp :: rat
  u_lastNotifiedHp :: rat
  u_status :: string
  u_shared :: jobject
  u_schedule :: "SchedulePoint list"
  u_hasWaypoints :: bool
  u_recentPath :: "(rat \<times> rat) list"
  u_lastSampleTime :: rat
  u_jamFactor :: rat
  u_baseDetect :: rat
  u_baseComm :: rat
  u_baseAttack :: rat
  u_baseSpeed :: rat
  u_demoSpeed :: bool
  u_speedLimit :: rat
  u_basePower :: rat
  u_armor :: rat
  u_repairRate :: rat
  u_subsystemRepairRate :: rat
  u_sensor :: rat
  u_comms :: rat
  u_mobility :: rat
  u_weapon :: rat
  u_serviceRequested :: bool
  u_serviceCp :: string
  u_serviceElapsed :: rat
  u_serviceDuration :: rat
  u_fuelCapacity :: rat
  u_fuelRemaining :: rat
  u_economySpeed :: rat
  u_fuelIdle :: rat
  u_fuelMove :: rat
  u_fuelBurn :: rat
  u_fuelStage :: int
  u_counter :: AbilityState
  u_scan :: AbilityState
  u_repairCooldownSec :: rat
  u_repairCooldown :: rat
  u_repairSequence :: "64 word"
  u_cpId :: string
  u_signals :: "UnitSignal list"

text \<open>What a subclass overrides.\<close>

record 'u UnitClass =
  uc_cancelMotion :: "'u \<Rightarrow> 'u"
  uc_rearmDuration :: "'u \<Rightarrow> rat"
  uc_restoreResources :: "'u \<Rightarrow> 'u"
  uc_behavior :: "'u \<Rightarrow> jobject"
  uc_restoreBehavior :: "jobject \<Rightarrow> 'u \<Rightarrow> bool \<times> 'u"
  uc_onMessage :: "Message \<Rightarrow> 'u \<Rightarrow> 'u"

definition signal :: "UnitSignal \<Rightarrow> 'a Unit_scheme \<Rightarrow> 'a Unit_scheme" where
  "signal s u = u\<lparr>u_signals := u_signals u @ [s]\<rparr>"

definition unitMovable :: "'a Unit_scheme \<Rightarrow> bool" where
  "unitMovable u \<longleftrightarrow> 0 < u_speedLimit u"

definition alive :: "'a Unit_scheme \<Rightarrow> bool" where
  "alive u \<longleftrightarrow> 0 < u_hp u"

definition maxHp :: "'a Unit_scheme \<Rightarrow> rat" where
  "maxHp u = pa_maxHp (u_params u)"

definition busPosition :: "'a Unit_scheme \<Rightarrow> 'a Unit_scheme" where
  "busPosition u = signal (BusPosition (pa_pos (u_params u)) (pa_commRange (u_params u)) (u_side u)) u"

section \<open>Parameters\<close>

definition recompute :: "'a Unit_scheme \<Rightarrow> 'a Unit_scheme" where
  "recompute u = signal ParamsChanged (busPosition (u\<lparr>u_params := (u_params u)\<lparr>
     pa_detectRange := u_baseDetect u * u_jamFactor u * u_sensor u,
     pa_commRange := u_baseComm u * u_jamFactor u * u_comms u,
     pa_attackRange := u_baseAttack u * (5 / 10 + 5 / 10 * u_weapon u),
     pa_speed := u_baseSpeed u * u_mobility u,
     pa_attackPower := u_basePower u * (35 / 100 + 65 / 100 * u_weapon u)\<rparr>\<rparr>))"

definition setPosition :: "GeoPos \<Rightarrow> 'a Unit_scheme \<Rightarrow> 'a Unit_scheme" where
  "setPosition p u = busPosition (signal PositionChanged (u\<lparr>u_params := (u_params u)\<lparr>pa_pos := p\<rparr>\<rparr>))"

definition setSchedule :: "SchedulePoint list \<Rightarrow> 'a Unit_scheme \<Rightarrow> 'a Unit_scheme" where
  "setSchedule s u = u\<lparr>u_schedule := sort_key sp_time s\<rparr>"

definition clearSchedule :: "'a Unit_scheme \<Rightarrow> 'a Unit_scheme" where
  "clearSchedule u = u\<lparr>u_schedule := []\<rparr>"

definition setCallsign :: "string \<Rightarrow> 'a Unit_scheme \<Rightarrow> 'a Unit_scheme" where
  "setCallsign s u = (if u_callsign u = s then u else signal CallsignChanged (u\<lparr>u_callsign := s\<rparr>))"

definition setStatus :: "string \<Rightarrow> 'a Unit_scheme \<Rightarrow> 'a Unit_scheme" where
  "setStatus s u = (if u_status u = s then u else signal StatusChanged (u\<lparr>u_status := s\<rparr>))"

definition setAttackPower :: "rat \<Rightarrow> 'a Unit_scheme \<Rightarrow> 'a Unit_scheme" where
  "setAttackPower v u = (if v < 0 then u else recompute (u\<lparr>u_basePower := v\<rparr>))"

definition setAttackRange :: "rat \<Rightarrow> 'a Unit_scheme \<Rightarrow> 'a Unit_scheme" where
  "setAttackRange v u = (if v < 0 then u else recompute (u\<lparr>u_baseAttack := v\<rparr>))"

definition setSpeed :: "rat \<Rightarrow> 'a Unit_scheme \<Rightarrow> 'a Unit_scheme" where
  "setSpeed v u = (if v < 0 then u else recompute (u\<lparr>u_baseSpeed := v\<rparr>))"

definition setDetectRange :: "rat \<Rightarrow> 'a Unit_scheme \<Rightarrow> 'a Unit_scheme" where
  "setDetectRange v u = (if v < 0 then u else recompute (u\<lparr>u_baseDetect := v\<rparr>))"

definition setCommRange :: "rat \<Rightarrow> 'a Unit_scheme \<Rightarrow> 'a Unit_scheme" where
  "setCommRange v u = (if v < 0 then u else recompute (u\<lparr>u_baseComm := v\<rparr>))"

definition applyJamming :: "rat \<Rightarrow> 'a Unit_scheme \<Rightarrow> 'a Unit_scheme" where
  "applyJamming factor u =
     (let f = max (1 / 10) (min 1 factor) in if f = u_jamFactor u then u else recompute (u\<lparr>u_jamFactor := f\<rparr>))"

definition setHp :: "rat \<Rightarrow> 'a Unit_scheme \<Rightarrow> 'a Unit_scheme" where
  "setHp v u =
     (let c = max 0 (min v (maxHp u)) in
      if u_hp u = c then u
      else let w = u\<lparr>u_hp := c\<rparr>;
               b = (if alive u \<noteq> alive w then signal (BusActive (alive w)) w else w)
           in if alive u \<noteq> alive w \<or> 5 / 10 \<le> \<bar>c - u_lastNotifiedHp u\<bar> then signal HpChanged (b\<lparr>u_lastNotifiedHp := c\<rparr>) else b)"

definition setMaxHp :: "rat \<Rightarrow> 'a Unit_scheme \<Rightarrow> 'a Unit_scheme" where
  "setMaxHp v u =
     (if v \<le> 0 then u
      else let w = u\<lparr>u_params := (u_params u)\<lparr>pa_maxHp := v\<rparr>\<rparr>
           in signal ParamsChanged
                (if v < u_hp w then signal HpChanged (signal (BusActive (0 < v)) (w\<lparr>u_hp := v, u_lastNotifiedHp := v\<rparr>)) else w))"

definition setDemoSpeedProfile :: "bool \<Rightarrow> 'a Unit_scheme \<Rightarrow> 'a Unit_scheme" where
  "setDemoSpeedProfile enabled u =
     (let limit = (if enabled then demoCommandedSpeedLimitMps (u_kind u) else commandedSpeedLimitMps (u_kind u)) in
      if u_speedLimit u = limit \<and> u_demoSpeed u = enabled then u
      else recompute (u\<lparr>u_demoSpeed := enabled, u_speedLimit := limit,
             u_baseSpeed := (if enabled then max (u_baseSpeed u) (demoCruiseSpeedMps (u_kind u)) else u_baseSpeed u)\<rparr>))"

definition setParams :: "Params \<Rightarrow> 'a Unit_scheme \<Rightarrow> 'a Unit_scheme" where
  "setParams p u =
     (let moved = (gp_x (pa_pos (u_params u)) \<noteq> gp_x (pa_pos p) \<or> gp_y (pa_pos (u_params u)) \<noteq> gp_y (pa_pos p)
            \<or> gp_alt (pa_pos (u_params u)) \<noteq> gp_alt (pa_pos p));
          radius = clamp (if 0 < pa_collisionRadius p then pa_collisionRadius p else defaultCollisionRadiusM (u_kind u)) 1 1000;
          half = clamp (if 0 < pa_collisionHalfHeight p then pa_collisionHalfHeight p
                        else defaultCollisionHalfHeightM (u_kind u)) (1 / 10) 500;
          a = u\<lparr>u_params := p\<lparr>pa_collisionRadius := radius, pa_collisionHalfHeight := half\<rparr>,
                u_baseDetect := pa_detectRange p, u_baseComm := pa_commRange p, u_baseAttack := pa_attackRange p,
                u_baseSpeed := (if u_demoSpeed u then max (pa_speed p) (demoCruiseSpeedMps (u_kind u)) else pa_speed p),
                u_basePower := pa_attackPower p, u_armor := clamp (pa_armor p) 0 (9 / 10),
                u_repairRate := max 0 (pa_repairRate p), u_subsystemRepairRate := max 0 (pa_subsystemRepairRate p)\<rparr>;
          b = (if pa_maxHp p < u_hp a then signal HpChanged (a\<lparr>u_hp := pa_maxHp p, u_lastNotifiedHp := pa_maxHp p\<rparr>) else a);
          c = recompute b
      in busPosition (if moved then signal PositionChanged c else c))"

text \<open>\<open>detectRange\<close> is a planar radius; both sides are squared.\<close>

definition canDetect :: "GeoPos \<Rightarrow> 'a Unit_scheme \<Rightarrow> bool" where
  "canDetect p u \<longleftrightarrow> 0 \<le> pa_detectRange (u_params u) \<and> distance2 (pa_pos (u_params u)) p \<le> pa_detectRange (u_params u) ^ 2"

definition setCpId :: "string \<Rightarrow> 'a Unit_scheme \<Rightarrow> 'a Unit_scheme" where
  "setCpId cp u = u\<lparr>u_cpId := cp\<rparr>"

definition setHasActiveWaypoints :: "bool \<Rightarrow> 'a Unit_scheme \<Rightarrow> 'a Unit_scheme" where
  "setHasActiveWaypoints v u = u\<lparr>u_hasWaypoints := v\<rparr>"

text \<open>What a unit does that overrides nothing.\<close>

definition unitDefaults :: "'a Unit_scheme UnitClass" where
  "unitDefaults = \<lparr>uc_cancelMotion = setHasActiveWaypoints False, uc_rearmDuration = (\<lambda>_. 0), uc_restoreResources = (\<lambda>u. u),
     uc_behavior = (\<lambda>_. []), uc_restoreBehavior = (\<lambda>_ u. (True, u)), uc_onMessage = (\<lambda>_ u. u)\<rparr>"

section \<open>Damage\<close>

definition disabled :: "'a Unit_scheme \<Rightarrow> bool" where
  "disabled u \<longleftrightarrow> alive u \<and> u_sensor u \<le> 5 / 100 \<and> u_comms u \<le> 5 / 100 \<and> u_mobility u \<le> 5 / 100 \<and> u_weapon u \<le> 5 / 100"

definition subsystemState :: "'a Unit_scheme \<Rightarrow> jobject" where
  "subsystemState u = [(''comms'', JNum (u_comms u)), (''mobility'', JNum (u_mobility u)), (''sensor'', JNum (u_sensor u)),
     (''weapon'', JNum (u_weapon u))]"

definition inUnit :: "rat \<Rightarrow> bool" where
  "inUnit x \<longleftrightarrow> 0 \<le> x \<and> x \<le> 1"

definition restoreSubsystemState :: "jobject \<Rightarrow> 'a Unit_scheme \<Rightarrow> bool \<times> 'a Unit_scheme" where
  "restoreSubsystemState state u =
     (let sensor = jtoDouble (-1) (jget state ''sensor''); comms = jtoDouble (-1) (jget state ''comms'');
          mobility = jtoDouble (-1) (jget state ''mobility''); weapon = jtoDouble (-1) (jget state ''weapon'')
      in if state = [] then (True, u)
         else if \<not> inUnit sensor \<or> \<not> inUnit comms \<or> \<not> inUnit mobility \<or> \<not> inUnit weapon then (False, u)
         else (True, signal DamageStateChanged (recompute
           (u\<lparr>u_sensor := sensor, u_comms := comms, u_mobility := mobility, u_weapon := weapon\<rparr>))))"

definition noDamage :: DamageDelta where
  "noDamage = \<lparr>dd_hull = 0, dd_sensor = 0, dd_comms = 0, dd_mobility = 0, dd_weapon = 0\<rparr>"

definition assessDamage :: "rat \<Rightarrow> int \<Rightarrow> 'a Unit_scheme \<Rightarrow> DamageDelta" where
  "assessDamage incoming subsystem u =
     (if \<not> alive u \<or> incoming \<le> 0 then noDamage
      else let body = incoming * (1 - u_armor u);
               loss = clamp (body / max 1 (maxHp u) * (7 / 10)) 0 1;
               d = noDamage\<lparr>dd_hull := body\<rparr>;
               k = subsystem mod 4
           in if k = 0 then d\<lparr>dd_sensor := min loss (u_sensor u)\<rparr>
              else if k = 1 then d\<lparr>dd_comms := min loss (u_comms u)\<rparr>
              else if k = 2 then d\<lparr>dd_mobility := min loss (u_mobility u)\<rparr>
              else d\<lparr>dd_weapon := min loss (u_weapon u)\<rparr>)"

definition cancelService :: "'a Unit_scheme \<Rightarrow> 'a Unit_scheme" where
  "cancelService u =
     (if \<not> u_serviceRequested u \<and> u_serviceElapsed u \<le> 0 \<and> u_serviceDuration u \<le> 0 then u
      else signal RuntimeStateChanged (u\<lparr>u_serviceRequested := False, u_serviceCp := [], u_serviceElapsed := 0,
             u_serviceDuration := 0\<rparr>))"

definition applyDamageDelta :: "DamageDelta \<Rightarrow> 'a Unit_scheme \<Rightarrow> 'a Unit_scheme" where
  "applyDamageDelta d u =
     (let body = max 0 (dd_hull d);
          a = setHp (u_hp u - body) u;
          b = a\<lparr>u_sensor := clamp (u_sensor a - max 0 (dd_sensor d)) 0 1, u_comms := clamp (u_comms a - max 0 (dd_comms d)) 0 1,
                u_mobility := clamp (u_mobility a - max 0 (dd_mobility d)) 0 1,
                u_weapon := clamp (u_weapon a - max 0 (dd_weapon d)) 0 1\<rparr>;
          c = (if 0 < body \<or> 0 < dd_sensor d \<or> 0 < dd_comms d \<or> 0 < dd_mobility d \<or> 0 < dd_weapon d
               then cancelService b else b)
      in signal DamageStateChanged (recompute c))"

section \<open>Abilities and fuel\<close>

definition noAbility :: AbilityState where
  "noAbility = ability 0 0 0"

fun counterOf :: "UnitKind \<Rightarrow> AbilityState" where
  "counterOf CommandPost = ability 2000 65 (-1)"
| "counterOf AttackUAV = ability 900 40 3"
| "counterOf ReconUAV = ability 1100 50 2"
| "counterOf JammerUAV = ability 1800 35 4"
| "counterOf GroundScout = ability 650 55 2"
| "counterOf GroundTarget = noAbility"

definition scanOf :: "UnitKind \<Rightarrow> AbilityState" where
  "scanOf k = (if k = ReconUAV then ability 15000 45 (-1) else noAbility)"

text \<open>The burn rates at rest and in motion; the command post keeps the initial ones.\<close>

fun fuelRates :: "UnitKind \<Rightarrow> rat \<times> rat" where
  "fuelRates CommandPost = (0, 0)"
| "fuelRates AttackUAV = (50 / 100, 350 / 100)"
| "fuelRates ReconUAV = (40 / 100, 310 / 100)"
| "fuelRates JammerUAV = (80 / 100, 370 / 100)"
| "fuelRates GroundScout = (0, 3)"
| "fuelRates GroundTarget = (0, 0)"

definition fuelStage :: "rat \<Rightarrow> int" where
  "fuelStage ratio = (if ratio \<le> 10 / 100 then 2 else if ratio \<le> 20 / 100 then 1 else 0)"

definition configureFuel :: "rat \<Rightarrow> rat \<Rightarrow> rat \<Rightarrow> 'a Unit_scheme \<Rightarrow> 'a Unit_scheme" where
  "configureFuel capacity initial economy u =
     (if u_kind u = CommandPost \<or> \<not> unitMovable u \<or> capacity \<le> 0 \<or> economy \<le> 0
      then (if \<not> unitMovable u then u\<lparr>u_fuelCapacity := 0, u_fuelRemaining := 0, u_fuelBurn := 0\<rparr> else u)
      else let fuel = clamp initial 0 capacity
           in signal RuntimeStateChanged (u\<lparr>u_fuelCapacity := capacity, u_fuelRemaining := fuel, u_economySpeed := economy,
                u_fuelStage := fuelStage (fuel / capacity)\<rparr>))"

text \<open>\<open>std::round\<close>, away from zero in the middle.\<close>

definition roundAway :: "rat \<Rightarrow> int" where
  "roundAway x = (if 0 \<le> x then \<lfloor>x + 1 / 2\<rfloor> else - \<lfloor>- x + 1 / 2\<rfloor>)"

definition burnRate :: "rat \<Rightarrow> 'a Unit_scheme \<Rightarrow> rat" where
  "burnRate actualSpeed u =
     (let ratio = max 0 actualSpeed / max (1 / 10 ^ 6) (u_economySpeed u);
          raw = u_fuelIdle u + u_fuelMove u * min 3 (ratio * ratio)
      in of_int (roundAway (raw * 10 ^ 9)) / 10 ^ 9)"

definition coolDown :: "rat \<Rightarrow> rat \<Rightarrow> rat" where
  "coolDown dt v = max 0 (v - dt)"

definition burnFuel :: "'a Unit_scheme UnitClass \<Rightarrow> rat \<Rightarrow> rat \<Rightarrow> 'a Unit_scheme \<Rightarrow> 'a Unit_scheme" where
  "burnFuel c dt actualSpeed u =
     (let burn = burnRate actualSpeed u;
          previous = u_fuelRemaining u;
          fuel = max 0 (previous - burn * dt);
          stage = fuelStage (fuel / u_fuelCapacity u);
          a = u\<lparr>u_fuelBurn := burn, u_fuelRemaining := fuel\<rparr>;
          b = (if u_fuelStage u < stage then signal (FuelNotice stage) a else a)\<lparr>u_fuelStage := stage\<rparr>
      in if 0 < previous \<and> fuel \<le> 0 then setStatus ''out of fuel'' (uc_cancelMotion c b) else b)"

definition advanceRuntimeState :: "'a Unit_scheme UnitClass \<Rightarrow> rat \<Rightarrow> rat \<Rightarrow> 'a Unit_scheme \<Rightarrow> 'a Unit_scheme" where
  "advanceRuntimeState c dt actualSpeed u =
     (if dt \<le> 0 then u
      else let a = u\<lparr>u_counter := (u_counter u)\<lparr>ab_cooldownRemaining := coolDown dt (ab_cooldownRemaining (u_counter u))\<rparr>,
                     u_scan := (u_scan u)\<lparr>ab_cooldownRemaining := coolDown dt (ab_cooldownRemaining (u_scan u))\<rparr>,
                     u_repairCooldown := coolDown dt (u_repairCooldown u)\<rparr>;
               b = (if unitMovable a \<and> u_kind a \<noteq> CommandPost \<and> 0 < u_fuelCapacity a then burnFuel c dt actualSpeed a else a)
           in signal RuntimeStateChanged b)"

text \<open>How long the fuel lasts; none without a bound.\<close>

definition fuelEndurance :: "'a Unit_scheme \<Rightarrow> rat option" where
  "fuelEndurance u =
     (if u_kind u = CommandPost \<or> \<not> unitMovable u \<or> u_fuelCapacity u \<le> 0 then Some 0
      else if u_fuelBurn u \<le> tiny then None else Some (u_fuelRemaining u / u_fuelBurn u))"

definition hasUsableFuel :: "'a Unit_scheme \<Rightarrow> bool" where
  "hasUsableFuel u \<longleftrightarrow> u_kind u = CommandPost \<or> tiny < u_fuelRemaining u"

definition useAbility :: "AbilityState \<Rightarrow> AbilityState" where
  "useAbility a = (if unlimited a then a else a\<lparr>ab_remaining := ab_remaining a - 1\<rparr>)\<lparr>ab_cooldownRemaining := ab_cooldownSec a\<rparr>"

definition activateCountermeasure :: "'a Unit_scheme \<Rightarrow> bool \<times> 'a Unit_scheme" where
  "activateCountermeasure u =
     (if \<not> alive u \<or> \<not> abilityAvailable (u_counter u) then (False, u)
      else (True, signal RuntimeStateChanged (u\<lparr>u_counter := useAbility (u_counter u)\<rparr>)))"

definition activateScan :: "'a Unit_scheme \<Rightarrow> bool \<times> 'a Unit_scheme" where
  "activateScan u =
     (if \<not> alive u \<or> \<not> abilityAvailable (u_scan u) then (False, u)
      else (True, signal RuntimeStateChanged (u\<lparr>u_scan := useAbility (u_scan u)\<rparr>)))"

definition unitRoll :: "64 word \<Rightarrow> string \<Rightarrow> 64 word \<Rightarrow> rat" where
  "unitRoll seed i sequence = unitSample (hashBytes (mix64 (seed XOR sequence)) (toUtf8 i))"

text \<open>The weakest subsystem gets better; the first of several.\<close>

definition repairWeakest :: "'a Unit_scheme \<Rightarrow> 'a Unit_scheme" where
  "repairWeakest u =
     (let s = u_sensor u; c = u_comms u; m = u_mobility u; w = u_weapon u;
          better = (\<lambda>x. min 1 (x + 30 / 100))
      in if w < min s (min c m) then u\<lparr>u_weapon := better w\<rparr>
         else if m < min s c then u\<lparr>u_mobility := better m\<rparr>
         else if c < s then u\<lparr>u_comms := better c\<rparr>
         else u\<lparr>u_sensor := better s\<rparr>)"

definition attemptFieldRepair :: "64 word \<Rightarrow> 'a Unit_scheme \<Rightarrow> bool \<times> 'a Unit_scheme" where
  "attemptFieldRepair battleSeed u =
     (if \<not> alive u \<or> tiny < u_repairCooldown u then (False, u)
      else let success = unitRoll battleSeed (u_id u) (u_repairSequence u) < 70 / 100;
               a = u\<lparr>u_repairSequence := u_repairSequence u + 1, u_repairCooldown := u_repairCooldownSec u\<rparr>;
               b = (if success then signal DamageStateChanged (recompute (repairWeakest a)) else a)
           in (success, signal RuntimeStateChanged b))"

section \<open>Service at a command post\<close>

definition serviceTime :: "'a Unit_scheme UnitClass \<Rightarrow> 'a Unit_scheme \<Rightarrow> rat" where
  "serviceTime c u =
     (let body = 1 - u_hp u / max 1 (maxHp u);
          subsystem = 1 - (u_sensor u + u_comms u + u_mobility u + u_weapon u) / 4;
          fuel = (if 0 < u_fuelCapacity u then 1 - u_fuelRemaining u / u_fuelCapacity u else 0);
          counter = (if 0 < ab_capacity (u_counter u)
                     then 1 - of_int (ab_remaining (u_counter u)) / of_int (ab_capacity (u_counter u)) else 0)
      in clamp ((3 + 15 * body + 10 * subsystem + uc_rearmDuration c u + 8 * fuel + 6 * counter) * (75 / 100)) 3 36)"

definition beginService :: "'a Unit_scheme UnitClass \<Rightarrow> string \<Rightarrow> 'a Unit_scheme \<Rightarrow> bool \<times> 'a Unit_scheme" where
  "beginService c cp u =
     (if \<not> alive u \<or> \<not> unitMovable u \<or> cp = [] then (False, u)
      else (True, signal RuntimeStateChanged (setStatus ''service begins''
             (u\<lparr>u_serviceDuration := serviceTime c u, u_serviceElapsed := 0, u_serviceCp := cp, u_serviceRequested := True\<rparr>))))"

definition requestService :: "bool \<Rightarrow> 'a Unit_scheme \<Rightarrow> 'a Unit_scheme" where
  "requestService v u =
     (if \<not> v then cancelService u
      else signal RuntimeStateChanged (u\<lparr>u_serviceRequested := True,
             u_serviceCp := (if u_serviceCp u = [] then u_cpId u else u_serviceCp u),
             u_serviceDuration := (if u_serviceDuration u < 3 then max 3 (u_serviceElapsed u) else u_serviceDuration u)\<rparr>))"

definition completeService :: "'a Unit_scheme UnitClass \<Rightarrow> 'a Unit_scheme \<Rightarrow> 'a Unit_scheme" where
  "completeService c u =
     (let a = (setHp (maxHp u) u)\<lparr>u_sensor := 1, u_comms := 1, u_mobility := 1, u_weapon := 1\<rparr>;
          b = (if unitMovable a \<and> u_kind a \<noteq> CommandPost then a\<lparr>u_fuelRemaining := u_fuelCapacity a\<rparr> else a);
          d = (if unlimited (u_counter b) then b
               else b\<lparr>u_counter := (u_counter b)\<lparr>ab_remaining := ab_capacity (u_counter b)\<rparr>\<rparr>);
          e = (uc_restoreResources c d)\<lparr>u_fuelStage := 0, u_serviceRequested := False, u_serviceCp := []\<rparr>
      in signal RuntimeStateChanged (signal DamageStateChanged (recompute e)))"

definition advanceService :: "'a Unit_scheme UnitClass \<Rightarrow> rat \<Rightarrow> 'a Unit_scheme \<Rightarrow> bool \<times> 'a Unit_scheme" where
  "advanceService c dt u =
     (if \<not> u_serviceRequested u \<or> \<not> alive u \<or> dt \<le> 0 \<or> u_serviceDuration u \<le> 0 then (False, u)
      else let a = u\<lparr>u_serviceElapsed := min (u_serviceDuration u) (u_serviceElapsed u + dt)\<rparr>
           in if u_serviceElapsed a + tiny < u_serviceDuration a then (False, signal RuntimeStateChanged a)
              else (True, completeService c a))"

definition serviceProgress :: "'a Unit_scheme \<Rightarrow> rat" where
  "serviceProgress u = (if u_serviceDuration u \<le> 0 then 0 else clamp (u_serviceElapsed u / u_serviceDuration u) 0 1)"

section \<open>Construction\<close>

definition initialParams :: "UnitKind \<Rightarrow> Params" where
  "initialParams k = \<lparr>pa_detectRange = 5000, pa_attackRange = 1500, pa_commRange = defaultCommRangeM k,
     pa_speed = defaultSpeedMps k, pa_collisionRadius = defaultCollisionRadiusM k,
     pa_collisionHalfHeight = defaultCollisionHalfHeightM k, pa_maxHp = 100, pa_attackPower = 100, pa_armor = 0,
     pa_repairRate = 2, pa_subsystemRepairRate = 2 / 100, pa_pos = nowhere\<rparr>"

definition newUnit :: "string \<Rightarrow> UnitKind \<Rightarrow> Side \<Rightarrow> Unit" where
  "newUnit i k side = busPosition \<lparr>u_id = i, u_callsign = [], u_kind = k, u_side = side, u_params = initialParams k,
     u_hp = 100, u_lastNotifiedHp = 100, u_status = [], u_shared = [], u_schedule = [], u_hasWaypoints = False,
     u_recentPath = [], u_lastSampleTime = -1, u_jamFactor = 1, u_baseDetect = 5000, u_baseComm = defaultCommRangeM k,
     u_baseAttack = 1500, u_baseSpeed = 50, u_demoSpeed = False, u_speedLimit = commandedSpeedLimitMps k,
     u_basePower = 100, u_armor = 0, u_repairRate = 2, u_subsystemRepairRate = 2 / 100, u_sensor = 1, u_comms = 1,
     u_mobility = 1, u_weapon = 1, u_serviceRequested = False, u_serviceCp = [], u_serviceElapsed = 0,
     u_serviceDuration = 0, u_fuelCapacity = 0, u_fuelRemaining = 0, u_economySpeed = 1, u_fuelIdle = fst (fuelRates k),
     u_fuelMove = snd (fuelRates k), u_fuelBurn = 0, u_fuelStage = 0, u_counter = counterOf k, u_scan = scanOf k,
     u_repairCooldownSec = 60, u_repairCooldown = 0, u_repairSequence = 0, u_cpId = [], u_signals = []\<rparr>"

section \<open>The runtime state as JSON\<close>

definition abilityJson :: "AbilityState \<Rightarrow> json" where
  "abilityJson a = JObj [(''available'', JBool (abilityAvailable a)), (''capacity'', jint (ab_capacity a)),
     (''cooldownRemaining'', JNum (ab_cooldownRemaining a)), (''cooldownSec'', JNum (ab_cooldownSec a)),
     (''range'', JNum (ab_range a)), (''remaining'', jint (ab_remaining a))]"

definition abilityStateJson :: "'a Unit_scheme \<Rightarrow> jobject" where
  "abilityStateJson u =
     [(''countermeasure'', abilityJson (u_counter u)),
      (''fieldRepair'', JObj [(''attemptSequence'', JStr (number (unat (u_repairSequence u)))),
         (''available'', JBool (alive u \<and> u_repairCooldown u \<le> tiny)), (''cooldownRemaining'', JNum (u_repairCooldown u)),
         (''cooldownSec'', JNum (u_repairCooldownSec u))]),
      (''scan'', abilityJson (u_scan u))]"

definition runtimeStateJson :: "'a Unit_scheme \<Rightarrow> jobject" where
  "runtimeStateJson u =
     [(''abilities'', JObj (abilityStateJson u)), (''economyCruiseSpeed'', JNum (u_economySpeed u)),
      (''fuelBurnRate'', JNum (u_fuelBurn u)), (''fuelCapacity'', JNum (u_fuelCapacity u)),
      (''fuelRemaining'', JNum (u_fuelRemaining u)), (''fuelWarningStage'', jint (u_fuelStage u)), (''schema'', JNum 3),
      (''service'', JObj [(''active'', JBool (u_serviceRequested u)), (''cpId'', JStr (u_serviceCp u)),
         (''duration'', JNum (u_serviceDuration u)), (''elapsed'', JNum (u_serviceElapsed u))])]"

definition fuelFits :: "jobject \<Rightarrow> 'a Unit_scheme \<Rightarrow> bool" where
  "fuelFits state u \<longleftrightarrow>
     (let capacity = jtoDouble (u_fuelCapacity u) (jget state ''fuelCapacity'');
          fuel = jtoDouble (u_fuelRemaining u) (jget state ''fuelRemaining'')
      in 0 \<le> capacity \<and> 0 \<le> fuel \<and> fuel \<le> capacity + tiny \<and> 0 < jtoDouble (u_economySpeed u) (jget state ''economyCruiseSpeed'')
        \<and> 0 \<le> jtoDouble 0 (jget state ''fuelBurnRate''))"

definition abilityPart :: "jobject \<Rightarrow> string \<Rightarrow> jobject" where
  "abilityPart state name = jtoObject (jget (jtoObject (jget state ''abilities'')) name)"

definition restoredSequence :: "jobject \<Rightarrow> 'a Unit_scheme \<Rightarrow> 64 word option" where
  "restoredSequence repair u =
     (if jcontains repair ''attemptSequence'' then to_ulonglong 10 (jtoString (jget repair ''attemptSequence''))
      else Some (u_repairSequence u))"

definition abilitiesFit :: "jobject \<Rightarrow> 'a Unit_scheme \<Rightarrow> bool" where
  "abilitiesFit state u \<longleftrightarrow>
     (let counter = abilityPart state ''countermeasure''; scan = abilityPart state ''scan''; repair = abilityPart state ''fieldRepair'';
          counterCooldown = jtoDouble (ab_cooldownRemaining (u_counter u)) (jget counter ''cooldownRemaining'');
          remaining = jtoInt (ab_remaining (u_counter u)) (jget counter ''remaining'');
          scanCooldown = jtoDouble (ab_cooldownRemaining (u_scan u)) (jget scan ''cooldownRemaining'');
          repairCooldown = jtoDouble (u_repairCooldown u) (jget repair ''cooldownRemaining'')
      in 0 \<le> counterCooldown \<and> counterCooldown \<le> ab_cooldownSec (u_counter u) + tiny
        \<and> (0 \<le> ab_capacity (u_counter u) \<longrightarrow> 0 \<le> remaining \<and> remaining \<le> ab_capacity (u_counter u))
        \<and> 0 \<le> scanCooldown \<and> scanCooldown \<le> ab_cooldownSec (u_scan u) + tiny
        \<and> 0 \<le> repairCooldown \<and> repairCooldown \<le> u_repairCooldownSec u + tiny \<and> restoredSequence repair u \<noteq> None)"

definition serviceFits :: "jobject \<Rightarrow> bool" where
  "serviceFits service \<longleftrightarrow>
     (let elapsed = jtoDouble 0 (jget service ''elapsed''); duration = jtoDouble 0 (jget service ''duration'')
      in 0 \<le> elapsed \<and> 0 \<le> duration \<and> elapsed \<le> duration + tiny
        \<and> (jtoBool False (jget service ''active'') \<longrightarrow>
             jtoString (jget service ''cpId'') \<noteq> [] \<and> 3 \<le> duration \<and> duration \<le> 45))"

definition restoredRuntime :: "jobject \<Rightarrow> 'a Unit_scheme \<Rightarrow> 'a Unit_scheme" where
  "restoredRuntime state u =
     (let counter = abilityPart state ''countermeasure''; scan = abilityPart state ''scan''; repair = abilityPart state ''fieldRepair'';
          service = jtoObject (jget state ''service''); active = jtoBool False (jget service ''active'')
      in signal RuntimeStateChanged (u\<lparr>
           u_fuelCapacity := jtoDouble (u_fuelCapacity u) (jget state ''fuelCapacity''),
           u_fuelRemaining := jtoDouble (u_fuelRemaining u) (jget state ''fuelRemaining''),
           u_economySpeed := jtoDouble (u_economySpeed u) (jget state ''economyCruiseSpeed''),
           u_fuelBurn := jtoDouble 0 (jget state ''fuelBurnRate''),
           u_fuelStage := jtoInt 0 (jget state ''fuelWarningStage''),
           u_counter := (u_counter u)\<lparr>
             ab_cooldownRemaining := jtoDouble (ab_cooldownRemaining (u_counter u)) (jget counter ''cooldownRemaining''),
             ab_remaining := jtoInt (ab_remaining (u_counter u)) (jget counter ''remaining'')\<rparr>,
           u_scan := (u_scan u)\<lparr>ab_cooldownRemaining := jtoDouble (ab_cooldownRemaining (u_scan u)) (jget scan ''cooldownRemaining'')\<rparr>,
           u_repairCooldown := jtoDouble (u_repairCooldown u) (jget repair ''cooldownRemaining''),
           u_repairSequence := the (restoredSequence repair u),
           u_serviceRequested := active,
           u_serviceCp := (if active then jtoString (jget service ''cpId'') else []),
           u_serviceElapsed := jtoDouble 0 (jget service ''elapsed''),
           u_serviceDuration := jtoDouble 0 (jget service ''duration'')\<rparr>))"

definition restoreRuntimeState :: "jobject \<Rightarrow> 'a Unit_scheme \<Rightarrow> bool \<times> 'a Unit_scheme" where
  "restoreRuntimeState state u =
     (if state = [] then (True, cancelService u)
      else if \<not> fuelFits state u \<or> \<not> abilitiesFit state u \<or> \<not> serviceFits (jtoObject (jget state ''service'')) then (False, u)
      else (True, restoredRuntime state u))"

section \<open>Messages and the recent path\<close>

definition rememberShared :: "string \<Rightarrow> json \<Rightarrow> 'a Unit_scheme \<Rightarrow> 'a Unit_scheme" where
  "rememberShared k v u = signal SharedKnowledgeChanged (u\<lparr>u_shared := jput k v (u_shared u)\<rparr>)"

definition reportedPosition :: "string \<Rightarrow> Message \<Rightarrow> json" where
  "reportedPosition now m = JObj [(''alt'', JNum (jtoDouble 0 (jget (msg_payload m) ''alt''))), (''updated'', JStr now),
     (''x'', JNum (jtoDouble 0 (jget (msg_payload m) ''x''))), (''y'', JNum (jtoDouble 0 (jget (msg_payload m) ''y'')))]"

definition handleMessage :: "'a Unit_scheme UnitClass \<Rightarrow> string \<Rightarrow> Message \<Rightarrow> 'a Unit_scheme \<Rightarrow> 'a Unit_scheme" where
  "handleMessage c now m u =
     (if \<not> alive u then u
      else let a = (if msg_type m = TPositionReport \<and> msg_sender m \<noteq> [] \<and> msg_sender m \<noteq> u_id u
                       \<and> jtoString (jget (msg_payload m) ''side'') = sideName (u_side u)
                    then rememberShared (''unit:'' @ msg_sender m @ '':last'') (reportedPosition now m) u else u)
           in if jtoBool False (jget (msg_payload m) ''notificationOnly'') then a else uc_onMessage c m a)"

definition samplePoint :: "'a Unit_scheme \<Rightarrow> rat \<times> rat" where
  "samplePoint u = (gp_x (pa_pos (u_params u)), gp_y (pa_pos (u_params u)))"

definition sampleRecentPath :: "rat \<Rightarrow> 'a Unit_scheme \<Rightarrow> 'a Unit_scheme" where
  "sampleRecentPath simTime u =
     (let cur = samplePoint u; path = u_recentPath u in
      if \<not> (u_lastSampleTime u < 0 \<or> 2 / 10 \<le> simTime - u_lastSampleTime u) then u
      else if path \<noteq> [] \<and> (fst (last path) - fst cur) ^ 2 + (snd (last path) - snd cur) ^ 2 < 1 then u
      else signal RecentPathChanged (u\<lparr>u_recentPath := (if 200 \<le> length path then tl path else path) @ [cur],
             u_lastSampleTime := simTime\<rparr>))"

section \<open>The checkpoint\<close>

definition checkpointState :: "'a Unit_scheme UnitClass \<Rightarrow> 'a Unit_scheme \<Rightarrow> jobject" where
  "checkpointState c u =
     (let p = pa_pos (u_params u) in
      [(''behavior'', JObj (uc_behavior c u)), (''hp'', JNum (u_hp u)), (''id'', JStr (u_id u)),
       (''jamFactor'', JNum (u_jamFactor u)), (''lastSampleTime'', JNum (u_lastSampleTime u)),
       (''position'', JArr [JNum (gp_x p), JNum (gp_y p), JNum (gp_alt p)]),
       (''recentPath'', JArr (map (\<lambda>(x, y). JObj [(''x'', JNum x), (''y'', JNum y)]) (u_recentPath u))),
       (''runtimeState'', JObj (runtimeStateJson u)),
       (''schedule'', JArr (map (\<lambda>p. JObj [(''time'', JNum (sp_time p)), (''x'', JNum (sp_x p)), (''y'', JNum (sp_y p))])
          (u_schedule u))),
       (''serviceRequested'', JBool (u_serviceRequested u)), (''sharedKnowledge'', JObj (u_shared u)),
       (''status'', JStr (u_status u)), (''subsystems'', JObj (subsystemState u))])"

definition restoredPosition :: "json list \<Rightarrow> GeoPos" where
  "restoredPosition vs = \<lparr>gp_x = jtoDouble 0 (vs ! 0), gp_y = jtoDouble 0 (vs ! 1), gp_alt = jtoDouble 0 (vs ! 2)\<rparr>"

definition subsystemOf :: "jobject \<Rightarrow> string \<Rightarrow> rat" where
  "subsystemOf state name = jtoDouble 1 (jget (jtoObject (jget state ''subsystems'')) name)"

definition checkpointValues :: "jobject \<Rightarrow> 'a Unit_scheme \<Rightarrow> bool" where
  "checkpointValues state u \<longleftrightarrow>
     (let hp = jtoDouble (-1) (jget state ''hp''); jam = jtoDouble 1 (jget state ''jamFactor'') in
      jtoString (jget state ''id'') = u_id u \<and> length (jtoArray (jget state ''position'')) = 3
      \<and> 0 \<le> hp \<and> hp \<le> maxHp u \<and> 1 / 10 \<le> jam \<and> jam \<le> 1 \<and> -1 \<le> jtoDouble (-1) (jget state ''lastSampleTime'')
      \<and> inUnit (subsystemOf state ''sensor'') \<and> inUnit (subsystemOf state ''comms'')
      \<and> inUnit (subsystemOf state ''mobility'') \<and> inUnit (subsystemOf state ''weapon''))"

definition schedulePoint :: "json \<Rightarrow> SchedulePoint" where
  "schedulePoint v = \<lparr>sp_time = jtoDouble 0 (jget (jtoObject v) ''time''), sp_x = jtoDouble 0 (jget (jtoObject v) ''x''),
     sp_y = jtoDouble 0 (jget (jtoObject v) ''y'')\<rparr>"

definition pathPoint :: "json \<Rightarrow> rat \<times> rat" where
  "pathPoint v = (jtoDouble 0 (jget (jtoObject v) ''x''), jtoDouble 0 (jget (jtoObject v) ''y''))"

text \<open>What is written before the recent path is looked at.\<close>

definition restoreValues :: "jobject \<Rightarrow> 'a Unit_scheme \<Rightarrow> 'a Unit_scheme" where
  "restoreValues state u =
     (let a = setHp (jtoDouble (-1) (jget state ''hp'')) (setPosition (restoredPosition (jtoArray (jget state ''position''))) u);
          b = a\<lparr>u_sensor := subsystemOf state ''sensor'', u_comms := subsystemOf state ''comms'',
                u_mobility := subsystemOf state ''mobility'', u_weapon := subsystemOf state ''weapon'',
                u_serviceRequested := False, u_serviceCp := [], u_serviceElapsed := 0, u_serviceDuration := 0\<rparr>
      in (setSchedule (map schedulePoint (jtoArray (jget state ''schedule''))) b)
           \<lparr>u_shared := jtoObject (jget state ''sharedKnowledge''), u_recentPath := []\<rparr>)"

definition restoreTail :: "jobject \<Rightarrow> 'a Unit_scheme \<Rightarrow> 'a Unit_scheme" where
  "restoreTail state u =
     fold signal [SharedKnowledgeChanged, RecentPathChanged, DamageStateChanged, RuntimeStateChanged]
       (setStatus (jtoString (jget state ''status''))
         (recompute (applyJamming (jtoDouble 1 (jget state ''jamFactor'')) u)))"

definition restoreCheckpointState :: "'a Unit_scheme UnitClass \<Rightarrow> jobject \<Rightarrow> 'a Unit_scheme \<Rightarrow> bool \<times> 'a Unit_scheme" where
  "restoreCheckpointState c state u =
     (let schedule = jtoArray (jget state ''schedule''); path = jtoArray (jget state ''recentPath'') in
      if \<not> checkpointValues state u \<or> 512 < length schedule \<or> \<not> list_all (\<lambda>p. 0 \<le> sp_time p) (map schedulePoint schedule)
      then (False, u)
      else let (ok, a) = uc_restoreBehavior c (jtoObject (jget state ''behavior'')) u;
               b = restoreValues state a
           in if \<not> ok then (False, a)
              else if 200 < length path then (False, b)
              else let d = b\<lparr>u_recentPath := map pathPoint path,
                             u_lastSampleTime := jtoDouble (-1) (jget state ''lastSampleTime'')\<rparr>;
                       (fine, e) = restoreRuntimeState (jtoObject (jget state ''runtimeState'')) d
                   in if \<not> fine then (False, e) else (True, restoreTail state e))"

end
