(* ===== verification/UnitsProps.thy ===== *)
theory UnitsProps
  imports Units
begin

text \<open>
  What holds of every unit: the bounds of its state after any operations, the effect of damage and service, and
  the checkpoint.
\<close>

section \<open>The invariant\<close>

definition int32 :: "int \<Rightarrow> bool" where
  "int32 i \<longleftrightarrow> - (2 ^ 31) \<le> i \<and> i < 2 ^ 31"

definition serviceOk :: "'a Unit_scheme \<Rightarrow> bool" where
  "serviceOk u \<longleftrightarrow> 0 \<le> u_serviceElapsed u \<and> 0 \<le> u_serviceDuration u \<and> u_serviceElapsed u \<le> u_serviceDuration u + tiny
     \<and> (u_serviceCp u \<noteq> [] \<longrightarrow> u_serviceRequested u) \<and> (u_serviceRequested u \<longrightarrow> 3 \<le> u_serviceDuration u)"

definition resourcesOk :: "'a Unit_scheme \<Rightarrow> bool" where
  "resourcesOk u \<longleftrightarrow> 0 \<le> u_fuelRemaining u \<and> 0 \<le> u_fuelCapacity u \<and> u_fuelRemaining u \<le> u_fuelCapacity u + tiny
     \<and> int32 (u_fuelStage u) \<and> 0 < u_economySpeed u \<and> 0 \<le> u_fuelBurn u \<and> 0 \<le> u_fuelIdle u \<and> 0 \<le> u_fuelMove u"

definition abilityOk :: "AbilityState \<Rightarrow> bool" where
  "abilityOk a \<longleftrightarrow> 0 \<le> ab_cooldownRemaining a \<and> ab_cooldownRemaining a \<le> ab_cooldownSec a + tiny \<and> 0 \<le> ab_cooldownSec a"

definition abilitiesOk :: "'a Unit_scheme \<Rightarrow> bool" where
  "abilitiesOk u \<longleftrightarrow> abilityOk (u_counter u) \<and> abilityOk (u_scan u) \<and> 0 \<le> u_repairCooldown u
     \<and> u_repairCooldown u \<le> u_repairCooldownSec u + tiny \<and> 0 \<le> u_repairCooldownSec u
     \<and> int32 (ab_capacity (u_counter u)) \<and> int32 (ab_remaining (u_counter u))
     \<and> (0 \<le> ab_capacity (u_counter u) \<longrightarrow> 0 \<le> ab_remaining (u_counter u) \<and> ab_remaining (u_counter u) \<le> ab_capacity (u_counter u))"

definition healthOk :: "'a Unit_scheme \<Rightarrow> bool" where
  "healthOk u \<longleftrightarrow> 0 < maxHp u \<and> 0 \<le> u_hp u \<and> u_hp u \<le> maxHp u \<and> inUnit (u_sensor u) \<and> inUnit (u_comms u)
     \<and> inUnit (u_mobility u) \<and> inUnit (u_weapon u) \<and> 1 / 10 \<le> u_jamFactor u \<and> u_jamFactor u \<le> 1
     \<and> 0 \<le> u_armor u \<and> u_armor u \<le> 9 / 10"

definition pathOk :: "'a Unit_scheme \<Rightarrow> bool" where
  "pathOk u \<longleftrightarrow> length (u_recentPath u) \<le> 200 \<and> sorted (map sp_time (u_schedule u))"

definition unitOk :: "'a Unit_scheme \<Rightarrow> bool" where
  "unitOk u \<longleftrightarrow> healthOk u \<and> resourcesOk u \<and> abilitiesOk u \<and> serviceOk u \<and> pathOk u"

lemmas unit_ok_defs = unitOk_def healthOk_def resourcesOk_def abilitiesOk_def serviceOk_def pathOk_def maxHp_def

lemma int32_values [simp]: "int32 (fuelStage r)" "int32 0"
  by (simp_all add: fuelStage_def int32_def)

lemma int32_read: "int32 d \<Longrightarrow> int32 (jtoInt d v)"
  by (cases v) (simp_all add: int32_def)

lemma tiny_pos: "0 < tiny"
  by (simp add: tiny_def)

lemma tiny_less: "tiny < 1"
  by (simp add: tiny_def)

text \<open>Signals and the effective parameters do not matter to it.\<close>

lemma emit_fields [simp]: "u_signals (signal s u) = u_signals u @ [s]" "u_params (signal s u) = u_params u" "alive (signal s u) = alive u"
  "u_kind (signal s u) = u_kind u" "unitMovable (signal s u) = unitMovable u" "maxHp (signal s u) = maxHp u"
  by (simp_all add: signal_def alive_def unitMovable_def maxHp_def)

lemma emit_ok [simp]: "unitOk (signal s u) = unitOk u"
  by (simp add: signal_def unit_ok_defs)

lemma busPosition_ok [simp]: "unitOk (busPosition u) = unitOk u"
  by (simp add: busPosition_def)

lemma recompute_ok [simp]: "unitOk (recompute u) = unitOk u"
  by (simp add: recompute_def) (simp add: unit_ok_defs)

lemma setStatus_ok [simp]: "unitOk (setStatus s u) = unitOk u"
  by (simp add: setStatus_def) (simp add: unit_ok_defs)

lemma setCallsign_ok [simp]: "unitOk (setCallsign s u) = unitOk u"
  by (simp add: setCallsign_def) (simp add: unit_ok_defs)

lemma setPosition_ok [simp]: "unitOk (setPosition p u) = unitOk u"
  by (simp add: setPosition_def) (simp add: unit_ok_defs)

lemma rememberShared_ok [simp]: "unitOk (rememberShared k v u) = unitOk u"
  by (simp add: rememberShared_def) (simp add: unit_ok_defs)

lemma base_ok [simp]: "unitOk (setAttackPower v u) = unitOk u" "unitOk (setAttackRange v u) = unitOk u"
  "unitOk (setSpeed v u) = unitOk u" "unitOk (setDetectRange v u) = unitOk u" "unitOk (setCommRange v u) = unitOk u"
  "unitOk (setDemoSpeedProfile b u) = unitOk u" "unitOk (setCpId c u) = unitOk u" "unitOk (setHasActiveWaypoints b u) = unitOk u"
  by (simp_all add: setAttackPower_def setAttackRange_def setSpeed_def setDetectRange_def setCommRange_def
      setDemoSpeedProfile_def setCpId_def setHasActiveWaypoints_def Let_def) (simp_all add: unit_ok_defs)

lemma setSchedule_ok: "unitOk u \<Longrightarrow> unitOk (setSchedule ps u)"
  by (simp add: setSchedule_def unit_ok_defs)

lemma clearSchedule_ok: "unitOk u \<Longrightarrow> unitOk (clearSchedule u)"
  by (simp add: clearSchedule_def unit_ok_defs)

lemma applyJamming_ok: "unitOk u \<Longrightarrow> unitOk (applyJamming f u)"
  by (simp add: applyJamming_def Let_def) (auto simp add: unit_ok_defs)

lemma setHp_cases:
  assumes "max 0 (min v (maxHp u)) = c"
  obtains "u_hp u = c" "setHp v u = u"
    | n sg where "setHp v u = u\<lparr>u_hp := c, u_lastNotifiedHp := n, u_signals := sg\<rparr>"
proof (cases "u_hp u = c")
  case True
  then have "setHp v u = u"
    unfolding setHp_def Let_def assms by simp
  then show ?thesis
    using True that(1) by blast
next
  case False
  have e: "setHp v u = (if alive u \<noteq> alive (u\<lparr>u_hp := c\<rparr>) \<or> 5 / 10 \<le> \<bar>c - u_lastNotifiedHp u\<bar>
      then signal HpChanged ((if alive u \<noteq> alive (u\<lparr>u_hp := c\<rparr>) then signal (BusActive (alive (u\<lparr>u_hp := c\<rparr>))) (u\<lparr>u_hp := c\<rparr>)
        else u\<lparr>u_hp := c\<rparr>)\<lparr>u_lastNotifiedHp := c\<rparr>)
      else if alive u \<noteq> alive (u\<lparr>u_hp := c\<rparr>) then signal (BusActive (alive (u\<lparr>u_hp := c\<rparr>))) (u\<lparr>u_hp := c\<rparr>)
        else u\<lparr>u_hp := c\<rparr>)"
    unfolding setHp_def Let_def assms if_not_P [OF False] ..
  have same: "w = w\<lparr>u_lastNotifiedHp := u_lastNotifiedHp w, u_signals := u_signals w\<rparr>" for w :: "'a Unit_scheme"
    by simp
  consider "alive u = alive (u\<lparr>u_hp := c\<rparr>)" "\<not> 5 / 10 \<le> \<bar>c - u_lastNotifiedHp u\<bar>"
    | "alive u = alive (u\<lparr>u_hp := c\<rparr>)" "5 / 10 \<le> \<bar>c - u_lastNotifiedHp u\<bar>" | "alive u \<noteq> alive (u\<lparr>u_hp := c\<rparr>)"
    by blast
  then show ?thesis
  proof cases
    case 1
    then have "setHp v u = u\<lparr>u_hp := c\<rparr>"
      using e by simp
    then show ?thesis
      using that(2) [where n = "u_lastNotifiedHp u" and sg = "u_signals u"] by simp
  next
    case 2
    then show ?thesis
      using that(2) [where n = c and sg = "u_signals u @ [HpChanged]"] e by (simp add: signal_def)
  next
    case 3
    then show ?thesis
      using that(2) [where n = c and sg = "u_signals u @ [BusActive (alive (u\<lparr>u_hp := c\<rparr>)), HpChanged]"] e by (simp add: signal_def)
  qed
qed

lemma setHp_fields [simp]: "u_params (setHp v u) = u_params u" "u_kind (setHp v u) = u_kind u"
  "u_hp (setHp v u) = max 0 (min v (maxHp u))" "u_sensor (setHp v u) = u_sensor u" "u_comms (setHp v u) = u_comms u"
  "u_mobility (setHp v u) = u_mobility u" "u_weapon (setHp v u) = u_weapon u" "u_jamFactor (setHp v u) = u_jamFactor u"
  "u_armor (setHp v u) = u_armor u"
  by (rule setHp_cases [OF refl, of u v]; simp)+

lemma setHp_parts [simp]: "resourcesOk (setHp v u) = resourcesOk u" "abilitiesOk (setHp v u) = abilitiesOk u"
  "serviceOk (setHp v u) = serviceOk u" "pathOk (setHp v u) = pathOk u"
  by (rule setHp_cases [OF refl, of u v]; simp add: unit_ok_defs)+

lemma setHp_ok: "unitOk u \<Longrightarrow> unitOk (setHp v u)"
  by (simp add: unitOk_def) (simp add: healthOk_def maxHp_def)

lemma setMaxHp_ok: "unitOk u \<Longrightarrow> unitOk (setMaxHp v u)"
  by (simp add: setMaxHp_def Let_def) (auto simp add: unit_ok_defs)

lemma clamp_armor: "0 \<le> clamp x 0 (9 / 10)" "clamp x 0 (9 / 10) * 10 \<le> 9"
  by (simp_all add: clamp_def)

lemma setParams_ok: "unitOk u \<Longrightarrow> 0 < pa_maxHp p \<Longrightarrow> unitOk (setParams p u)"
  by (simp add: setParams_def Let_def) (auto simp add: unit_ok_defs clamp_armor)

section \<open>Operations keep it\<close>

definition classOk :: "'a Unit_scheme UnitClass \<Rightarrow> bool" where
  "classOk c \<longleftrightarrow> (\<forall>u. unitOk u \<longrightarrow> unitOk (uc_cancelMotion c u) \<and> unitOk (uc_restoreResources c u)
     \<and> (\<forall>s. unitOk (snd (uc_restoreBehavior c s u))) \<and> (\<forall>m. unitOk (uc_onMessage c m u)))"

lemma defaults_ok: "classOk unitDefaults"
  by (simp add: classOk_def unitDefaults_def)

lemma clamp_unit: "inUnit (clamp x 0 1)"
  by (simp add: inUnit_def clamp_def)

lemma healths_ok:
  "unitOk u \<Longrightarrow> inUnit s \<Longrightarrow> inUnit c \<Longrightarrow> inUnit m \<Longrightarrow> inUnit w \<Longrightarrow>
   unitOk (u\<lparr>u_sensor := s, u_comms := c, u_mobility := m, u_weapon := w\<rparr>)"
  by (simp add: unit_ok_defs)

lemma restoreSubsystemState_ok: "unitOk u \<Longrightarrow> unitOk (snd (restoreSubsystemState st u))"
  by (simp add: restoreSubsystemState_def Let_def healths_ok)

lemma noService_ok:
  "unitOk u \<Longrightarrow> unitOk (u\<lparr>u_serviceRequested := False, u_serviceCp := [], u_serviceElapsed := 0, u_serviceDuration := 0\<rparr>)"
  using tiny_pos by (simp add: unit_ok_defs)

lemma cancelService_ok: "unitOk u \<Longrightarrow> unitOk (cancelService u)"
  by (simp add: cancelService_def noService_ok)

lemma applyDamageDelta_ok: "unitOk u \<Longrightarrow> unitOk (applyDamageDelta d u)"
  by (simp add: applyDamageDelta_def Let_def cancelService_ok setHp_ok healths_ok clamp_unit del: setHp_fields)

lemma configureFuel_ok: "unitOk u \<Longrightarrow> unitOk (configureFuel cap ini eco u)"
  using tiny_pos by (auto simp add: configureFuel_def Let_def) (auto simp add: unit_ok_defs clamp_def)

lemma burnRate_nonneg:
  assumes "0 \<le> u_fuelIdle u" "0 \<le> u_fuelMove u"
  shows "0 \<le> burnRate v u"
proof -
  let ?r = "max 0 v / max (1 / 10 ^ 6) (u_economySpeed u)"
  have "0 \<le> u_fuelIdle u + u_fuelMove u * min 3 (?r * ?r)"
    using assms by simp
  then show ?thesis
    by (simp add: burnRate_def Let_def roundAway_def)
qed

lemma burnFuel_ok:
  assumes "unitOk u" and "classOk c" and "0 \<le> dt"
  shows "unitOk (burnFuel c dt v u)"
proof -
  have b: "0 \<le> burnRate v u"
    using assms(1) by (intro burnRate_nonneg) (simp_all add: unit_ok_defs)
  then have "0 \<le> burnRate v u * dt"
    using assms(3) by simp
  then have "max 0 (u_fuelRemaining u - burnRate v u * dt) \<le> u_fuelRemaining u"
    using assms(1) by (simp add: unit_ok_defs)
  moreover have "unitOk (u\<lparr>u_fuelBurn := burnRate v u, u_fuelRemaining := f, u_fuelStage := k\<rparr>)"
    "unitOk ((signal s (u\<lparr>u_fuelBurn := burnRate v u, u_fuelRemaining := f\<rparr>))\<lparr>u_fuelStage := k\<rparr>)"
    if "0 \<le> f" "f \<le> u_fuelRemaining u" "int32 k" for k s f
    using assms(1) b that by (simp_all add: unit_ok_defs signal_def)
  ultimately show ?thesis
    using assms(2) int32_values(1) by (simp add: burnFuel_def Let_def classOk_def del: max.absorb1 max.absorb2 max.absorb3 max.absorb4)
qed

lemma cooled_ok:
  assumes "unitOk u" and "0 \<le> dt"
  shows "unitOk (u\<lparr>u_counter := (u_counter u)\<lparr>ab_cooldownRemaining := coolDown dt (ab_cooldownRemaining (u_counter u))\<rparr>,
    u_scan := (u_scan u)\<lparr>ab_cooldownRemaining := coolDown dt (ab_cooldownRemaining (u_scan u))\<rparr>,
    u_repairCooldown := coolDown dt (u_repairCooldown u)\<rparr>)"
  using assms tiny_pos by (auto simp add: unit_ok_defs abilityOk_def coolDown_def)

lemma advanceRuntimeState_ok: "unitOk u \<Longrightarrow> classOk c \<Longrightarrow> unitOk (advanceRuntimeState c dt v u)"
  by (simp add: advanceRuntimeState_def Let_def burnFuel_ok cooled_ok)

lemma useAbility_ok: "abilityOk a \<Longrightarrow> abilityOk (useAbility a)"
  using tiny_pos by (auto simp add: abilityOk_def useAbility_def)

lemma activateCountermeasure_ok: "unitOk u \<Longrightarrow> unitOk (snd (activateCountermeasure u))"
  by (simp add: activateCountermeasure_def)
    (auto simp add: unit_ok_defs useAbility_ok, auto simp add: int32_def useAbility_def abilityAvailable_def unlimited_def supported_def)

lemma activateScan_ok: "unitOk u \<Longrightarrow> unitOk (snd (activateScan u))"
  by (simp add: activateScan_def) (simp add: unit_ok_defs useAbility_ok)

lemma repairWeakest_ok: "unitOk u \<Longrightarrow> unitOk (repairWeakest u)"
  by (simp add: repairWeakest_def Let_def) (auto simp add: unit_ok_defs inUnit_def)

lemma attemptFieldRepair_ok:
  assumes "unitOk u"
  shows "unitOk (snd (attemptFieldRepair seed u))"
proof -
  have "unitOk (u\<lparr>u_repairSequence := k, u_repairCooldown := u_repairCooldownSec u\<rparr>)" for k
    using assms tiny_pos by (simp add: unit_ok_defs)
  then show ?thesis
    using assms by (simp add: attemptFieldRepair_def Let_def repairWeakest_ok)
qed

lemma serviceTime_bounds: "3 \<le> serviceTime c u \<and> serviceTime c u \<le> 36"
  unfolding serviceTime_def Let_def by (rule clamp_bounds) simp

lemma beginService_ok: "unitOk u \<Longrightarrow> unitOk (snd (beginService c cp u))"
  using serviceTime_bounds [of c u] tiny_pos by (simp add: beginService_def) (simp add: unit_ok_defs)

lemma requestService_ok: "unitOk u \<Longrightarrow> unitOk (requestService v u)"
  using tiny_pos by (simp add: requestService_def cancelService_ok) (auto simp add: unit_ok_defs)

lemma completeService_ok:
  assumes "unitOk u" and "classOk c"
  shows "unitOk (completeService c u)"
proof -
  have served: "unitOk (w\<lparr>u_fuelRemaining := u_fuelCapacity w\<rparr>)"
    "unitOk (w\<lparr>u_counter := (u_counter w)\<lparr>ab_remaining := ab_capacity (u_counter w)\<rparr>\<rparr>)"
    "unitOk (w\<lparr>u_fuelStage := 0, u_serviceRequested := False, u_serviceCp := []\<rparr>)" if "unitOk w" for w :: "'a Unit_scheme"
    using that tiny_pos by (auto simp add: unit_ok_defs abilityOk_def)
  have branch: "(P \<Longrightarrow> unitOk x) \<Longrightarrow> (\<not> P \<Longrightarrow> unitOk y) \<Longrightarrow> unitOk (if P then x else y)" for P and x y :: "'a Unit_scheme"
    by simp
  have resources: "unitOk w \<Longrightarrow> unitOk (uc_restoreResources c w)" for w
    using assms(2) by (simp add: classOk_def)
  show ?thesis
    unfolding completeService_def Let_def emit_ok recompute_ok
    by (intro served resources branch healths_ok setHp_ok assms(1)) (simp_all add: inUnit_def)
qed

lemma advanceService_ok: "unitOk u \<Longrightarrow> classOk c \<Longrightarrow> unitOk (snd (advanceService c dt u))"
proof -
  assume u: "unitOk u" and c: "classOk c"
  have "unitOk (u\<lparr>u_serviceElapsed := min (u_serviceDuration u) (u_serviceElapsed u + dt)\<rparr>)" if "0 < dt"
    using u that tiny_pos by (auto simp add: unit_ok_defs)
  then show ?thesis
    using u c by (simp add: advanceService_def Let_def completeService_ok)
qed

lemma restoreRuntimeState_ok:
  assumes "unitOk u"
  shows "unitOk (snd (restoreRuntimeState st u))"
proof -
  have "unitOk (restoredRuntime st u)" if "fuelFits st u" "abilitiesFit st u" "serviceFits (jtoObject (jget st ''service''))"
    using assms that by (simp add: restoredRuntime_def Let_def fuelFits_def abilitiesFit_def serviceFits_def)
      (simp add: unit_ok_defs abilityOk_def int32_read)
  then show ?thesis
    using assms by (simp add: restoreRuntimeState_def cancelService_ok)
qed

lemma sampleRecentPath_ok: "unitOk u \<Longrightarrow> unitOk (sampleRecentPath t u)"
  by (simp add: sampleRecentPath_def Let_def) (auto simp add: unit_ok_defs)

lemma handleMessage_ok: "unitOk u \<Longrightarrow> classOk c \<Longrightarrow> unitOk (handleMessage c now m u)"
  by (simp add: handleMessage_def Let_def classOk_def)

lemma restoreValues_ok:
  assumes "unitOk u" and "checkpointValues st v"
  shows "unitOk (restoreValues st u)"
proof -
  have h: "inUnit (subsystemOf st ''sensor'')" "inUnit (subsystemOf st ''comms'')"
    "inUnit (subsystemOf st ''mobility'')" "inUnit (subsystemOf st ''weapon'')"
    using assms(2) by (simp_all add: checkpointValues_def Let_def)
  have cleared: "unitOk (w\<lparr>u_shared := s, u_recentPath := []\<rparr>)" if "unitOk w" for w :: "'a Unit_scheme" and s
    using that by (simp add: unit_ok_defs)
  have "unitOk (setHp hp (setPosition p u))" for hp p
    using assms(1) by (simp add: setHp_ok)
  note noService_ok [OF healths_ok [OF this h]]
  then show ?thesis
    unfolding restoreValues_def Let_def
    by (intro cleared setSchedule_ok) (simp del: setHp_fields setHp_parts)
qed

lemma fold_emit_ok [simp]: "unitOk (fold signal ss u) = unitOk u"
  by (induction ss arbitrary: u) simp_all

lemma restoreCheckpointState_ok:
  assumes "unitOk u" and "classOk c"
  shows "unitOk (snd (restoreCheckpointState c st u))"
proof -
  obtain ok a where b: "uc_restoreBehavior c (jtoObject (jget st ''behavior'')) u = (ok, a)"
    by fastforce
  have a: "unitOk a"
    using assms b unfolding classOk_def by (metis snd_conv)
  have v: "unitOk (restoreValues st a)" if "checkpointValues st u"
    using restoreValues_ok [OF a that] .
  have path: "unitOk (w\<lparr>u_recentPath := ps, u_lastSampleTime := t\<rparr>)" if "unitOk w" "length ps \<le> 200"
    for w :: "'a Unit_scheme" and ps t
    using that by (simp add: unit_ok_defs)
  have tail: "unitOk (restoreTail st w)" if "unitOk w" for w :: "'a Unit_scheme"
    unfolding restoreTail_def fold_emit_ok setStatus_ok recompute_ok by (rule applyJamming_ok [OF that])
  show ?thesis
  proof (cases "checkpointValues st u")
    case True
    have r: "unitOk (snd (restoreRuntimeState (jtoObject (jget st ''runtimeState''))
      ((restoreValues st a)\<lparr>u_recentPath := map pathPoint (jtoArray (jget st ''recentPath'')),
         u_lastSampleTime := jtoDouble (-1) (jget st ''lastSampleTime'')\<rparr>)))"
      if "\<not> 200 < length (jtoArray (jget st ''recentPath''))"
      by (rule restoreRuntimeState_ok, rule path) (use True that v in simp_all)
    show ?thesis
      using True b a v assms(1) r by (auto simp add: restoreCheckpointState_def Let_def split: prod.splits dest: tail)
  qed (use assms in \<open>auto simp add: restoreCheckpointState_def Let_def\<close>)
qed

section \<open>Runs\<close>

datatype UnitCall = SetParams Params | SetPosition GeoPos | SetSchedule "SchedulePoint list" | ClearSchedule
  | SetStatus string | SetCallsign string | SetPower rat | SetAttackRange rat | SetSpeed rat | SetDetectRange rat
  | SetCommRange rat | SetDemo bool | SetCp string | ApplyJamming rat | SetHp rat | SetMaxHp rat
  | RestoreSubsystems jobject | DamageCall DamageDelta | ConfigureFuel rat rat rat | AdvanceRuntime rat rat
  | Countermeasure | ScanCall | FieldRepair "64 word" | BeginService string | RequestService bool | CancelService
  | AdvanceService rat | RestoreRuntime jobject | MessageCall string Message | SamplePath rat | RestoreCheckpoint jobject

fun unit_call :: "'a Unit_scheme UnitClass \<Rightarrow> UnitCall \<Rightarrow> 'a Unit_scheme \<Rightarrow> 'a Unit_scheme" where
  "unit_call c (SetParams p) u = setParams p u"
| "unit_call c (SetPosition p) u = setPosition p u"
| "unit_call c (SetSchedule ps) u = setSchedule ps u"
| "unit_call c ClearSchedule u = clearSchedule u"
| "unit_call c (SetStatus s) u = setStatus s u"
| "unit_call c (SetCallsign s) u = setCallsign s u"
| "unit_call c (SetPower v) u = setAttackPower v u"
| "unit_call c (SetAttackRange v) u = setAttackRange v u"
| "unit_call c (SetSpeed v) u = setSpeed v u"
| "unit_call c (SetDetectRange v) u = setDetectRange v u"
| "unit_call c (SetCommRange v) u = setCommRange v u"
| "unit_call c (SetDemo b) u = setDemoSpeedProfile b u"
| "unit_call c (SetCp cp) u = setCpId cp u"
| "unit_call c (ApplyJamming f) u = applyJamming f u"
| "unit_call c (SetHp v) u = setHp v u"
| "unit_call c (SetMaxHp v) u = setMaxHp v u"
| "unit_call c (RestoreSubsystems st) u = snd (restoreSubsystemState st u)"
| "unit_call c (DamageCall d) u = applyDamageDelta d u"
| "unit_call c (ConfigureFuel cap ini eco) u = configureFuel cap ini eco u"
| "unit_call c (AdvanceRuntime dt v) u = advanceRuntimeState c dt v u"
| "unit_call c Countermeasure u = snd (activateCountermeasure u)"
| "unit_call c ScanCall u = snd (activateScan u)"
| "unit_call c (FieldRepair seed) u = snd (attemptFieldRepair seed u)"
| "unit_call c (BeginService cp) u = snd (beginService c cp u)"
| "unit_call c (RequestService v) u = requestService v u"
| "unit_call c CancelService u = cancelService u"
| "unit_call c (AdvanceService dt) u = snd (advanceService c dt u)"
| "unit_call c (RestoreRuntime st) u = snd (restoreRuntimeState st u)"
| "unit_call c (MessageCall now m) u = handleMessage c now m u"
| "unit_call c (SamplePath t) u = sampleRecentPath t u"
| "unit_call c (RestoreCheckpoint st) u = snd (restoreCheckpointState c st u)"

text \<open>What callers have to respect: a positive full health, which \<open>SimulationEngine\<close> checks of every unit.\<close>

fun unit_guard :: "'a Unit_scheme \<Rightarrow> UnitCall \<Rightarrow> bool" where
  "unit_guard u (SetParams p) \<longleftrightarrow> 0 < pa_maxHp p"
| "unit_guard u _ \<longleftrightarrow> True"

lemma unit_call_ok: "classOk c \<Longrightarrow> unitOk u \<Longrightarrow> unit_guard u call \<Longrightarrow> unitOk (unit_call c call u)"
  by (cases call) (simp_all add: setParams_ok setSchedule_ok clearSchedule_ok applyJamming_ok setHp_ok setMaxHp_ok
      restoreSubsystemState_ok applyDamageDelta_ok configureFuel_ok advanceRuntimeState_ok activateCountermeasure_ok
      activateScan_ok attemptFieldRepair_ok beginService_ok requestService_ok cancelService_ok advanceService_ok
      restoreRuntimeState_ok handleMessage_ok sampleRecentPath_ok restoreCheckpointState_ok)

interpretation units: invariant_kept "\<lambda>u. classOk c \<and> unitOk u" unit_guard "unit_call c" for c
  by unfold_locales (simp add: unit_call_ok)

lemma newUnit_ok: "unitOk (newUnit i k side)"
  unfolding newUnit_def busPosition_ok
  by (cases k) (simp_all add: unit_ok_defs initialParams_def inUnit_def int32_def abilityOk_def tiny_def ability_def noAbility_def scanOf_def)

text \<open>C18. Whatever operations a unit that overrides nothing goes through, restored states and checkpoints of any content
  included, as long as its parameters have a positive full health: its health stays between zero and full, its
  subsystems between zero and one, its jamming factor between a tenth and one, its fuel inside the tank, the waits of its
  abilities inside their lengths, its service inside its duration, and its recent path within 200 points.\<close>

theorem unit_invariant:
  assumes "obeys unit_guard (unit_call unitDefaults) calls (newUnit i k side)"
  shows "unitOk (fold (unit_call unitDefaults) calls (newUnit i k side))"
  using units.run_ok [of unitDefaults "newUnit i k side" calls] assms newUnit_ok defaults_ok by simp

lemma unit_invariant_witness:
  "unitOk (fold (unit_call unitDefaults) [SetParams (initialParams ReconUAV), RequestService True, ConfigureFuel 100 50 30,
     AdvanceRuntime 1 20, AdvanceService 1, SetSchedule [\<lparr>sp_time = -1, sp_x = 0, sp_y = 0\<rparr>]] (newUnit ''u'' ReconUAV Red))"
  by (rule unit_invariant) (simp add: initialParams_def)

section \<open>Damage\<close>

lemma setHp_lower: "unitOk u \<Longrightarrow> v \<le> u_hp u \<Longrightarrow> u_hp (setHp v u) = max 0 v"
  by (simp add: unit_ok_defs)

lemma recompute_fields [simp]: "u_hp (recompute u) = u_hp u" "u_sensor (recompute u) = u_sensor u"
  "u_comms (recompute u) = u_comms u" "u_mobility (recompute u) = u_mobility u" "u_weapon (recompute u) = u_weapon u"
  "u_serviceRequested (recompute u) = u_serviceRequested u"
  by (simp_all add: recompute_def busPosition_def signal_def)

lemma cancelService_fields [simp]: "u_hp (cancelService u) = u_hp u" "u_sensor (cancelService u) = u_sensor u"
  "u_comms (cancelService u) = u_comms u" "u_mobility (cancelService u) = u_mobility u" "u_weapon (cancelService u) = u_weapon u"
  "\<not> u_serviceRequested (cancelService u)"
  by (simp_all add: cancelService_def signal_def)

lemma emit_values [simp]: "u_hp (signal s u) = u_hp u" "u_sensor (signal s u) = u_sensor u" "u_comms (signal s u) = u_comms u"
  "u_mobility (signal s u) = u_mobility u" "u_weapon (signal s u) = u_weapon u" "u_serviceRequested (signal s u) = u_serviceRequested u"
  by (simp_all add: signal_def)

lemma damage_result:
  assumes "unitOk u"
  shows "u_hp (applyDamageDelta d u) = max 0 (u_hp u - max 0 (dd_hull d))"
    and "u_sensor (applyDamageDelta d u) = clamp (u_sensor u - max 0 (dd_sensor d)) 0 1"
    and "u_comms (applyDamageDelta d u) = clamp (u_comms u - max 0 (dd_comms d)) 0 1"
    and "u_mobility (applyDamageDelta d u) = clamp (u_mobility u - max 0 (dd_mobility d)) 0 1"
    and "u_weapon (applyDamageDelta d u) = clamp (u_weapon u - max 0 (dd_weapon d)) 0 1"
proof -
  have "min (u_hp u - max 0 (dd_hull d)) (maxHp u) = u_hp u - max 0 (dd_hull d)"
    using assms by (auto simp add: unit_ok_defs)
  then show "u_hp (applyDamageDelta d u) = max 0 (u_hp u - max 0 (dd_hull d))"
    by (simp add: applyDamageDelta_def Let_def)
qed (simp_all add: applyDamageDelta_def Let_def)

definition healths :: "'a Unit_scheme \<Rightarrow> rat list" where
  "healths u = [u_sensor u, u_comms u, u_mobility u, u_weapon u]"

lemma mod4_cases:
  obtains "k mod 4 = (0 :: int)" | "k mod 4 = 1" | "k mod 4 = 2" | "k mod 4 = 3"
  using pos_mod_bound [of 4 k] pos_mod_sign [of 4 k] by fastforce

text \<open>C32. A living unit that is hit loses exactly the damage its armour lets through, never more than came in and
  never below zero, and only the subsystem that was hit gets weaker; a service it was under ends.\<close>

theorem damage_effect:
  fixes k :: int
  assumes "unitOk u" and "alive u" and "0 < x"
  defines "w \<equiv> applyDamageDelta (assessDamage x k u) u"
  shows "u_hp w = max 0 (u_hp u - x * (1 - u_armor u)) \<and> u_hp w < u_hp u \<and> u_hp u - u_hp w \<le> x
    \<and> (\<exists>loss. 0 < loss \<and> loss \<le> 1 \<and>
         healths w = (healths u)[nat (k mod 4) := max 0 (healths u ! nat (k mod 4) - loss)])
    \<and> \<not> u_serviceRequested w"
proof -
  define b where "b = x * (1 - u_armor u)"
  define loss where "loss = clamp (b / max 1 (maxHp u) * (7 / 10)) 0 1"
  have a: "0 \<le> u_armor u" "u_armor u \<le> 9 / 10"
    using assms(1) by (simp_all add: unitOk_def healthOk_def)
  have b0: "0 < b"
    using a(2) assms(3) by (simp add: b_def)
  have bx: "b \<le> x"
    using a(1) assms(3) by (simp add: b_def mult_left_le)
  have q: "0 < b / max 1 (maxHp u) * (7 / 10)"
    using b0 by (simp add: divide_pos_pos)
  have loss: "0 < loss" "loss \<le> 1"
    using q by (simp_all add: loss_def clamp_def)
  have h: "0 \<le> y \<and> y \<le> 1" if "y \<in> {u_sensor u, u_comms u, u_mobility u, u_weapon u}" for y
    using assms(1) that by (auto simp add: unitOk_def healthOk_def inUnit_def)
  have keep: "clamp y 0 1 = y" if "0 \<le> y \<and> y \<le> 1" for y
    using that by (simp add: clamp_def)
  have low: "clamp (y - max 0 (min loss y)) 0 1 = max 0 (y - loss)" if "0 \<le> y \<and> y \<le> 1" for y
    using that loss by (auto simp add: clamp_def)
  have hit: "\<not> (\<not> alive u \<or> x \<le> 0)"
    using assms(2,3) by simp
  have d: "assessDamage x k u = (let d = noDamage\<lparr>dd_hull := b\<rparr> in
      if k mod 4 = 0 then d\<lparr>dd_sensor := min loss (u_sensor u)\<rparr> else if k mod 4 = 1 then d\<lparr>dd_comms := min loss (u_comms u)\<rparr>
      else if k mod 4 = 2 then d\<lparr>dd_mobility := min loss (u_mobility u)\<rparr> else d\<lparr>dd_weapon := min loss (u_weapon u)\<rparr>)"
    unfolding assessDamage_def Let_def b_def loss_def if_not_P [OF hit] by (rule refl)
  have hp: "u_hp w = max 0 (u_hp u - b)"
    using b0 by (simp add: w_def damage_result [OF assms(1)] d Let_def noDamage_def)
  have weak: "healths w = (healths u)[nat (k mod 4) := max 0 (healths u ! nat (k mod 4) - loss)]"
    using h keep low loss
    by (cases k rule: mod4_cases) (simp_all add: w_def healths_def damage_result [OF assms(1)] d Let_def noDamage_def)
  have "dd_hull (assessDamage x k u) = b"
    by (simp add: d Let_def)
  then have "\<not> u_serviceRequested w"
    using b0 by (simp add: w_def applyDamageDelta_def Let_def)
  then show ?thesis
    using hp weak loss b0 bx assms(2) by (auto simp add: b_def [symmetric] alive_def)
qed

lemma damage_effect_witness:
  "u_hp (applyDamageDelta (assessDamage 30 6 (newUnit ''u'' ReconUAV Red)) (newUnit ''u'' ReconUAV Red)) = 70"
proof -
  have "alive (newUnit ''u'' ReconUAV Red)"
    by (simp add: newUnit_def busPosition_def alive_def signal_def)
  from damage_effect [OF newUnit_ok this, of 30 6, OF zero_less_numeral] show ?thesis
    by (simp add: newUnit_def busPosition_def signal_def)
qed

section \<open>Service\<close>

text \<open>The ticks of a service, until it is complete.\<close>

fun serve :: "'a Unit_scheme UnitClass \<Rightarrow> rat \<Rightarrow> nat \<Rightarrow> 'a Unit_scheme \<Rightarrow> bool \<times> 'a Unit_scheme" where
  "serve c dt 0 u = (False, u)"
| "serve c dt (Suc n) u =
     (case advanceService c dt u of (done, w) \<Rightarrow> if done then (True, w) else serve c dt n w)"

text \<open>A subclass restores only what is its own.\<close>

definition ownResources :: "'a Unit_scheme UnitClass \<Rightarrow> bool" where
  "ownResources c \<longleftrightarrow> (\<forall>u. Unit.truncate (uc_restoreResources c u) = Unit.truncate u)"

lemma own_fields:
  assumes "ownResources c"
  shows "u_params (uc_restoreResources c u) = u_params u" "u_hp (uc_restoreResources c u) = u_hp u"
    "u_sensor (uc_restoreResources c u) = u_sensor u" "u_comms (uc_restoreResources c u) = u_comms u"
    "u_mobility (uc_restoreResources c u) = u_mobility u" "u_weapon (uc_restoreResources c u) = u_weapon u"
    "u_serviceElapsed (uc_restoreResources c u) = u_serviceElapsed u" "u_counter (uc_restoreResources c u) = u_counter u"
    "u_serviceDuration (uc_restoreResources c u) = u_serviceDuration u"  "u_cpId (uc_restoreResources c u) = u_cpId u"
    "u_fuelRemaining (uc_restoreResources c u) = u_fuelRemaining u" "u_fuelCapacity (uc_restoreResources c u) = u_fuelCapacity u"
  using assms [unfolded ownResources_def, rule_format, of u] by (simp_all add: Unit.truncate_def)

lemma recompute_service [simp]: "u_serviceElapsed (recompute u) = u_serviceElapsed u" "u_serviceDuration (recompute u) = u_serviceDuration u"
  "maxHp (recompute u) = maxHp u" "u_cpId (recompute u) = u_cpId u" "u_serviceCp (recompute u) = u_serviceCp u"
  by (simp_all add: recompute_def busPosition_def signal_def maxHp_def)

lemma recompute_maxHp [simp]: "pa_maxHp (u_params (recompute u)) = pa_maxHp (u_params u)"
  by (simp add: recompute_def busPosition_def signal_def)

lemma emit_service [simp]: "u_serviceElapsed (signal s u) = u_serviceElapsed u" "u_serviceDuration (signal s u) = u_serviceDuration u"
  "u_cpId (signal s u) = u_cpId u" "u_serviceCp (signal s u) = u_serviceCp u"
  by (simp_all add: signal_def)

lemma setHp_service [simp]: "u_serviceElapsed (setHp v u) = u_serviceElapsed u" "u_serviceDuration (setHp v u) = u_serviceDuration u"
  "u_cpId (setHp v u) = u_cpId u" "unitMovable (setHp v u) = unitMovable u"
  by (rule setHp_cases [OF refl, of u v]; simp add: unitMovable_def)+

definition served :: "'a Unit_scheme \<Rightarrow> bool" where
  "served w \<longleftrightarrow> u_hp w = maxHp w \<and> healths w = [1, 1, 1, 1] \<and> \<not> u_serviceRequested w"

lemma completeService_result:
  assumes "ownResources c" and "0 < maxHp u"
  shows "served (completeService c u)" "u_serviceElapsed (completeService c u) = u_serviceElapsed u"
    "u_serviceDuration (completeService c u) = u_serviceDuration u" "u_cpId (completeService c u) = u_cpId u"
    "u_serviceCp (completeService c u) = []" "maxHp (completeService c u) = maxHp u"
  using assms by (simp_all add: completeService_def Let_def own_fields served_def healths_def maxHp_def)

lemma serve_done:
  assumes "ownResources c" and "0 < dt"
  shows "u_serviceRequested u \<Longrightarrow> alive u \<Longrightarrow> 0 < maxHp u \<Longrightarrow> 0 < u_serviceDuration u \<Longrightarrow>
     u_serviceDuration u \<le> u_serviceElapsed u + of_nat n * dt \<Longrightarrow> 0 < n \<Longrightarrow> \<exists>w. serve c dt n u = (True, w) \<and> served w"
proof (induction n arbitrary: u)
  case (Suc n)
  define a where "a = u\<lparr>u_serviceElapsed := min (u_serviceDuration u) (u_serviceElapsed u + dt)\<rparr>"
  have step: "advanceService c dt u = (if u_serviceElapsed a + tiny < u_serviceDuration a then (False, signal RuntimeStateChanged a)
      else (True, completeService c a))"
    using Suc.prems assms(2) by (simp add: advanceService_def Let_def a_def)
  show ?case
  proof (cases "u_serviceElapsed a + tiny < u_serviceDuration a")
    case True
    then have e: "u_serviceElapsed a = u_serviceElapsed u + dt" "u_serviceElapsed u + dt < u_serviceDuration u"
      using tiny_pos by (auto simp add: a_def min_def split: if_splits)
    have "0 < n"
      using e(2) Suc.prems(5) by (cases n) simp_all
    then have "\<exists>w. serve c dt n (signal RuntimeStateChanged a) = (True, w) \<and> served w"
      using Suc.prems e(1) by (intro Suc.IH) (simp_all add: a_def alive_def maxHp_def signal_def algebra_simps)
    then show ?thesis
      using step True by simp
  next
    case False
    have "served (completeService c a)"
      by (rule completeService_result [OF assms(1)]) (use Suc.prems in \<open>simp add: a_def maxHp_def\<close>)
    then show ?thesis
      using step False by simp
  qed
qed simp

text \<open>C34. A service that has begun is complete after at most 36 seconds of ticks if nothing stops it, and leaves the
  unit with full health, whole subsystems and out of service.\<close>

theorem service_completes:
  assumes "unitOk u" and "ownResources c" and "beginService c cp u = (True, v)"
    and "0 < dt" and "36 \<le> of_nat n * dt"
  shows "\<exists>w. serve c dt n v = (True, w) \<and> served w"
proof (rule serve_done)
  have n: "0 < n"
    using assms(5) by (cases n) simp_all
  have "v = signal RuntimeStateChanged (setStatus ''service begins''
     (u\<lparr>u_serviceDuration := serviceTime c u, u_serviceElapsed := 0, u_serviceCp := cp, u_serviceRequested := True\<rparr>))" "alive u"
    using assms(3) by (auto simp add: beginService_def split: if_splits)
  moreover have "0 < maxHp u"
    using assms(1) by (simp add: unitOk_def healthOk_def)
  ultimately show "u_serviceRequested v" "alive v" "0 < maxHp v" "0 < u_serviceDuration v"
    "u_serviceDuration v \<le> u_serviceElapsed v + of_nat n * dt" "0 < n"
    using serviceTime_bounds [of c u] assms(5) n by (simp_all add: setStatus_def signal_def alive_def maxHp_def)
qed (use assms in auto)

lemma defaults_own: "ownResources unitDefaults"
  by (simp add: ownResources_def unitDefaults_def)

definition exHurt :: Unit where
  "exHurt = setHp 40 (newUnit ''u'' ReconUAV Red)"

lemma exHurt_facts: "unitOk exHurt" "alive exHurt" "unitMovable exHurt" "u_serviceDuration exHurt = 0" "u_serviceElapsed exHurt = 0"
proof -
  show "unitOk exHurt"
    unfolding exHurt_def by (rule setHp_ok [OF newUnit_ok])
  show "alive exHurt"
    by (simp add: exHurt_def alive_def maxHp_def newUnit_def busPosition_def signal_def initialParams_def)
  show "unitMovable exHurt" "u_serviceDuration exHurt = 0" "u_serviceElapsed exHurt = 0"
    by (simp_all add: exHurt_def) (simp_all add: unitMovable_def newUnit_def busPosition_def signal_def)
qed

lemma service_completes_witness:
  "\<exists>w. serve unitDefaults (1 / 4) 144 (snd (beginService unitDefaults ''cp'' exHurt)) = (True, w) \<and> served w"
  by (rule service_completes [OF exHurt_facts(1) defaults_own, of "''cp''"])
    (simp_all add: beginService_def exHurt_facts)

text \<open>C37. A completed service leaves its length behind: however much fuel or ammunition the unit has used since,
  \<open>requestService\<close> resumes the old service and the next tick, however short, completes it.\<close>

theorem repeated_service_instant:
  assumes "ownResources c" and "0 < maxHp u" and "3 \<le> u_serviceDuration u" and "advanceService c dt u = (True, w)" and "0 < dt'"
  shows "u_serviceRequested (requestService True (w\<lparr>u_fuelRemaining := f\<rparr>))
    \<and> fst (advanceService c dt' (requestService True (w\<lparr>u_fuelRemaining := f\<rparr>)))"
proof -
  define a where "a = u\<lparr>u_serviceElapsed := min (u_serviceDuration u) (u_serviceElapsed u + dt)\<rparr>"
  have w: "w = completeService c a" and d: "\<not> u_serviceElapsed a + tiny < u_serviceDuration a"
    using assms(4) by (auto simp add: advanceService_def Let_def a_def split: if_splits)
  have m: "0 < maxHp a" "u_serviceDuration a = u_serviceDuration u"
    using assms(2) by (simp_all add: a_def maxHp_def)
  note res = completeService_result [OF assms(1) m(1)]
  have "alive w"
    using res(1) res(6) m(1) by (simp add: w served_def alive_def)
  moreover have "u_serviceElapsed w = u_serviceElapsed a" "u_serviceDuration w = u_serviceDuration u"
    using res m by (simp_all add: w)
  moreover have "u_serviceDuration u \<le> u_serviceElapsed a + tiny"
    using d m(2) by simp
  ultimately show ?thesis
    using assms(3,5) tiny_pos by (simp add: requestService_def advanceService_def Let_def alive_def signal_def min_def)
qed

lemma repeated_service_instant_witness:
  "fst (advanceService unitDefaults (1 / 100) (requestService True
     ((snd (advanceService unitDefaults 40 (snd (beginService unitDefaults ''cp'' exHurt))))\<lparr>u_fuelRemaining := 0\<rparr>)))"
proof -
  define u where "u = snd (beginService unitDefaults ''cp'' exHurt)"
  have u: "u = signal RuntimeStateChanged (setStatus ''service begins'' (exHurt\<lparr>u_serviceDuration := serviceTime unitDefaults exHurt,
      u_serviceElapsed := 0, u_serviceCp := ''cp'', u_serviceRequested := True\<rparr>))"
    by (simp add: u_def beginService_def exHurt_facts)
  have m: "0 < maxHp exHurt"
    using exHurt_facts(1) by (simp add: unitOk_def healthOk_def)
  have f: "0 < maxHp u" "u_serviceDuration u = serviceTime unitDefaults exHurt" "u_serviceElapsed u = 0" "alive u"
    "u_serviceRequested u"
    using m exHurt_facts(2) by (simp_all add: u setStatus_def signal_def maxHp_def alive_def)
  have "fst (advanceService unitDefaults 40 u)"
    using f serviceTime_bounds [of unitDefaults exHurt] tiny_pos by (simp add: advanceService_def Let_def)
  then have "advanceService unitDefaults 40 u = (True, snd (advanceService unitDefaults 40 u))"
    by (simp add: prod_eq_iff)
  from repeated_service_instant [OF defaults_own f(1) _ this, of "1 / 100" 0] show ?thesis
    using f(2) serviceTime_bounds [of unitDefaults exHurt] by (simp add: u_def)
qed

section \<open>The checkpoint\<close>

text \<open>What a checkpoint sees of a unit: everything but the signals and the effective parameters.\<close>

definition core :: "'a Unit_scheme \<Rightarrow> 'a Unit_scheme" where
  "core u = u\<lparr>u_signals := [], u_lastNotifiedHp := 0, u_params := (u_params u)\<lparr>pa_detectRange := 0, pa_commRange := 0,
     pa_attackRange := 0, pa_speed := 0, pa_attackPower := 0\<rparr>\<rparr>"

lemma core_emit [simp]: "core (signal s u) = core u"
  by (simp add: core_def signal_def)

lemma core_busPosition [simp]: "core (busPosition u) = core u"
  by (simp add: busPosition_def)

lemma core_recompute [simp]: "core (recompute u) = core u"
  by (simp add: recompute_def) (simp add: core_def)

lemma core_setPosition: "core (setPosition p u) = (core u)\<lparr>u_params := (u_params (core u))\<lparr>pa_pos := p\<rparr>\<rparr>"
  by (simp add: setPosition_def) (simp add: core_def)

lemma core_setStatus: "core (setStatus s u) = (core u)\<lparr>u_status := s\<rparr>"
  by (simp add: setStatus_def) (auto simp add: core_def)

lemma core_applyJamming: "1 / 10 \<le> f \<Longrightarrow> f \<le> 1 \<Longrightarrow> core (applyJamming f u) = (core u)\<lparr>u_jamFactor := f\<rparr>"
  by (simp add: applyJamming_def Let_def) (auto simp add: core_def)

lemma core_setHp: "core (setHp v u) = (core u)\<lparr>u_hp := max 0 (min v (maxHp u))\<rparr>"
  by (rule setHp_cases [OF refl, of u v]) (auto simp add: core_def)

lemma core_fold_emit [simp]: "core (fold signal ss u) = core u"
  by (induction ss arbitrary: u) simp_all

lemma unit_core_fields [simp]: "u_id (core u) = u_id u" "u_hp (core u) = u_hp u" "u_kind (core u) = u_kind u" "u_counter (core u) = u_counter u"
  "u_scan (core u) = u_scan u" "u_repairCooldownSec (core u) = u_repairCooldownSec u" "Unit.more (core u) = Unit.more u"
  "pa_pos (u_params (core u)) = pa_pos (u_params u)" "alive (core u) = alive u"
  by (simp_all add: core_def alive_def)

lemma checkpoint_core:
  assumes "uc_behavior c (core u) = uc_behavior c u"
  shows "checkpointState c (core u) = checkpointState c u"
  using assms by (simp add: checkpointState_def runtimeStateJson_def abilityStateJson_def subsystemState_def Let_def)
    (simp add: core_def)

text \<open>The units a checkpoint can be restored to.\<close>

definition sameBuild :: "'a Unit_scheme \<Rightarrow> 'a Unit_scheme \<Rightarrow> bool" where
  "sameBuild u v \<longleftrightarrow> u_id v = u_id u \<and> u_kind v = u_kind u \<and> maxHp v = maxHp u \<and> u_repairCooldownSec v = u_repairCooldownSec u
     \<and> ab_range (u_counter v) = ab_range (u_counter u) \<and> ab_cooldownSec (u_counter v) = ab_cooldownSec (u_counter u)
     \<and> ab_capacity (u_counter v) = ab_capacity (u_counter u) \<and> ab_range (u_scan v) = ab_range (u_scan u)
     \<and> ab_cooldownSec (u_scan v) = ab_cooldownSec (u_scan u) \<and> ab_capacity (u_scan v) = ab_capacity (u_scan u)
     \<and> ab_remaining (u_scan v) = ab_remaining (u_scan u)"

definition behaviorKept :: "'a Unit_scheme UnitClass \<Rightarrow> 'a Unit_scheme \<Rightarrow> bool" where
  "behaviorKept c u \<longleftrightarrow> (\<forall>v. sameBuild u v \<longrightarrow> (\<exists>w. uc_restoreBehavior c (uc_behavior c u) v = (True, w) \<and> sameBuild u w
     \<and> (\<forall>x. Unit.more x = Unit.more w \<longrightarrow> uc_behavior c x = uc_behavior c u)))
     \<and> (\<forall>x. Unit.more x = Unit.more u \<longrightarrow> uc_behavior c x = uc_behavior c u)"

text \<open>What a checkpoint takes beyond the bounds of every unit.\<close>

definition planOk :: "SchedulePoint list \<Rightarrow> bool" where
  "planOk ps \<longleftrightarrow> length ps \<le> 512 \<and> (\<forall>p\<in>set ps. 0 \<le> sp_time p)"

definition serviceSavable :: "'a Unit_scheme \<Rightarrow> bool" where
  "serviceSavable u \<longleftrightarrow> (u_serviceRequested u \<longrightarrow> u_serviceCp u \<noteq> [] \<and> u_serviceDuration u \<le> 45)"

definition savableUnit :: "'a Unit_scheme \<Rightarrow> bool" where
  "savableUnit u \<longleftrightarrow> unitOk u \<and> planOk (u_schedule u) \<and> -1 \<le> u_lastSampleTime u \<and> serviceSavable u"

lemma positions_read:
  "map schedulePoint (map (\<lambda>p. JObj [(''time'', JNum (sp_time p)), (''x'', JNum (sp_x p)), (''y'', JNum (sp_y p))]) ps) = ps"
  "map pathPoint (map (\<lambda>(x, y). JObj [(''x'', JNum x), (''y'', JNum y)]) xs) = xs"
  by (auto simp add: schedulePoint_def pathPoint_def json_simps intro!: map_idI)

lemma sort_key_sorted: "sorted (map f xs) \<Longrightarrow> sort_key f xs = xs"
  by (rule sort_key_id_if_sorted)

lemma checkpoint_fields:
  "jget (checkpointState c u) ''behavior'' = JObj (uc_behavior c u)" "jget (checkpointState c u) ''hp'' = JNum (u_hp u)"
  "jget (checkpointState c u) ''id'' = JStr (u_id u)" "jget (checkpointState c u) ''jamFactor'' = JNum (u_jamFactor u)"
  "jget (checkpointState c u) ''lastSampleTime'' = JNum (u_lastSampleTime u)"
  "jget (checkpointState c u) ''position'' =
     JArr [JNum (gp_x (pa_pos (u_params u))), JNum (gp_y (pa_pos (u_params u))), JNum (gp_alt (pa_pos (u_params u)))]"
  "jget (checkpointState c u) ''recentPath'' = JArr (map (\<lambda>(x, y). JObj [(''x'', JNum x), (''y'', JNum y)]) (u_recentPath u))"
  "jget (checkpointState c u) ''runtimeState'' = JObj (runtimeStateJson u)"
  "jget (checkpointState c u) ''schedule'' = JArr (map (\<lambda>p. JObj [(''time'', JNum (sp_time p)), (''x'', JNum (sp_x p)),
     (''y'', JNum (sp_y p))]) (u_schedule u))"
  "jget (checkpointState c u) ''sharedKnowledge'' = JObj (u_shared u)" "jget (checkpointState c u) ''status'' = JStr (u_status u)"
  "jget (checkpointState c u) ''subsystems'' = JObj (subsystemState u)"
  by (simp_all add: checkpointState_def Let_def json_simps)

lemma runtime_fields:
  "jget (runtimeStateJson u) ''fuelCapacity'' = JNum (u_fuelCapacity u)" "jget (runtimeStateJson u) ''fuelRemaining'' = JNum (u_fuelRemaining u)"
  "jget (runtimeStateJson u) ''economyCruiseSpeed'' = JNum (u_economySpeed u)" "jget (runtimeStateJson u) ''fuelBurnRate'' = JNum (u_fuelBurn u)"
  "jget (runtimeStateJson u) ''fuelWarningStage'' = jint (u_fuelStage u)"
  "abilityPart (runtimeStateJson u) ''countermeasure'' = jtoObject (abilityJson (u_counter u))"
  "abilityPart (runtimeStateJson u) ''scan'' = jtoObject (abilityJson (u_scan u))"
  "jget (abilityPart (runtimeStateJson u) ''fieldRepair'') ''cooldownRemaining'' = JNum (u_repairCooldown u)"
  "jget (abilityPart (runtimeStateJson u) ''fieldRepair'') ''attemptSequence'' = JStr (number (unat (u_repairSequence u)))"
  "jcontains (abilityPart (runtimeStateJson u) ''fieldRepair'') ''attemptSequence''"
  "jtoObject (jget (runtimeStateJson u) ''service'') = [(''active'', JBool (u_serviceRequested u)), (''cpId'', JStr (u_serviceCp u)),
     (''duration'', JNum (u_serviceDuration u)), (''elapsed'', JNum (u_serviceElapsed u))]"
  by (simp_all add: runtimeStateJson_def abilityStateJson_def abilityPart_def json_simps)

lemma ability_fields:
  "jget (jtoObject (abilityJson a)) ''cooldownRemaining'' = JNum (ab_cooldownRemaining a)"
  "jget (jtoObject (abilityJson a)) ''remaining'' = jint (ab_remaining a)"
  by (simp_all add: abilityJson_def json_simps)

lemma runtime_not_empty: "runtimeStateJson u \<noteq> []"
  by (simp add: runtimeStateJson_def)

lemma sequence_read: "restoredSequence (abilityPart (runtimeStateJson u) ''fieldRepair'') v = Some (u_repairSequence u)"
proof -
  have "unat (u_repairSequence u) < 2 ^ 64"
    using unsigned_less [of "u_repairSequence u"] by simp
  then show ?thesis
    using to_ulonglong_number [of "unat (u_repairSequence u)"]
    by (simp add: restoredSequence_def runtime_fields json_simps)
qed

lemma runtime_restored:
  assumes "savableUnit u" and "sameBuild u v"
  shows "restoreRuntimeState (runtimeStateJson u) v = (True, signal RuntimeStateChanged (v\<lparr>
     u_fuelCapacity := u_fuelCapacity u, u_fuelRemaining := u_fuelRemaining u, u_economySpeed := u_economySpeed u,
     u_fuelBurn := u_fuelBurn u, u_fuelStage := u_fuelStage u, u_counter := u_counter u, u_scan := u_scan u,
     u_repairCooldown := u_repairCooldown u, u_repairSequence := u_repairSequence u,
     u_serviceRequested := u_serviceRequested u, u_serviceCp := u_serviceCp u, u_serviceElapsed := u_serviceElapsed u,
     u_serviceDuration := u_serviceDuration u\<rparr>))"
proof -
  have u: "unitOk u" and i: "jtoInt k (jint (u_fuelStage u)) = u_fuelStage u"
    "jtoInt k (jint (ab_remaining (u_counter u))) = ab_remaining (u_counter u)" for k
    using assms(1) by (simp_all add: savableUnit_def unitOk_def resourcesOk_def abilitiesOk_def int32_def json_simps)
  have fits: "fuelFits (runtimeStateJson u) v" "abilitiesFit (runtimeStateJson u) v"
    "serviceFits (jtoObject (jget (runtimeStateJson u) ''service''))"
    using assms sequence_read [of u v]
    by (simp_all add: fuelFits_def abilitiesFit_def serviceFits_def Let_def runtime_fields ability_fields i json_simps
        unitOk_def resourcesOk_def abilitiesOk_def abilityOk_def serviceOk_def sameBuild_def savableUnit_def serviceSavable_def)
  have c: "(u_counter v)\<lparr>ab_cooldownRemaining := ab_cooldownRemaining (u_counter u), ab_remaining := ab_remaining (u_counter u)\<rparr>
      = u_counter u" "(u_scan v)\<lparr>ab_cooldownRemaining := ab_cooldownRemaining (u_scan u)\<rparr> = u_scan u"
    using assms(2) by (simp_all add: sameBuild_def)
  have cp: "u_serviceRequested u \<or> u_serviceCp u = []"
    using u by (auto simp add: unitOk_def serviceOk_def)
  show ?thesis
    using fits cp runtime_not_empty [of u]
    by (auto simp add: restoreRuntimeState_def restoredRuntime_def Let_def runtime_fields ability_fields sequence_read i json_simps c)
qed

lemma values_restored:
  assumes "savableUnit u" and "sameBuild u v"
  shows "core (restoreValues (checkpointState c u) v) = (core v)\<lparr>
     u_params := (u_params (core v))\<lparr>pa_pos := pa_pos (u_params u)\<rparr>, u_hp := u_hp u, u_sensor := u_sensor u,
     u_comms := u_comms u, u_mobility := u_mobility u, u_weapon := u_weapon u, u_serviceRequested := False, u_serviceCp := [],
     u_serviceElapsed := 0, u_serviceDuration := 0, u_schedule := u_schedule u, u_shared := u_shared u, u_recentPath := []\<rparr>"
proof -
  have u: "0 \<le> u_hp u" "u_hp u \<le> maxHp v" "sorted (map sp_time (u_schedule u))"
    using assms by (simp_all add: savableUnit_def unitOk_def healthOk_def pathOk_def sameBuild_def)
  have move: "core (w\<lparr>u_sensor := s, u_comms := a, u_mobility := m, u_weapon := b, u_serviceRequested := False, u_serviceCp := [],
      u_serviceElapsed := 0, u_serviceDuration := 0, u_schedule := p, u_shared := k, u_recentPath := []\<rparr>) =
      (core w)\<lparr>u_sensor := s, u_comms := a, u_mobility := m, u_weapon := b, u_serviceRequested := False, u_serviceCp := [],
      u_serviceElapsed := 0, u_serviceDuration := 0, u_schedule := p, u_shared := k, u_recentPath := []\<rparr>"
    for w :: "'a Unit_scheme" and s a m b p k
    by (simp add: core_def)
  have sub: "subsystemOf (checkpointState c u) ''sensor'' = u_sensor u" "subsystemOf (checkpointState c u) ''comms'' = u_comms u"
    "subsystemOf (checkpointState c u) ''mobility'' = u_mobility u" "subsystemOf (checkpointState c u) ''weapon'' = u_weapon u"
    by (simp_all add: subsystemOf_def checkpoint_fields subsystemState_def json_simps)
  have pos: "restoredPosition [JNum (gp_x q), JNum (gp_y q), JNum (gp_alt q)] = q" for q
    by (simp add: restoredPosition_def json_simps)
  have m: "maxHp (setPosition p v) = maxHp v" for p
    by (simp add: setPosition_def busPosition_def) (simp add: maxHp_def)
  show ?thesis
    using u by (simp add: restoreValues_def Let_def setSchedule_def sub pos checkpoint_fields json_simps positions_read
        sort_key_sorted move core_setHp core_setPosition m del: map_map)
qed

lemma checkpoint_values:
  assumes "savableUnit u" and "sameBuild u v"
  shows "checkpointValues (checkpointState c u) v" "length (jtoArray (jget (checkpointState c u) ''schedule'')) \<le> 512"
    "list_all (\<lambda>p. 0 \<le> sp_time p) (map schedulePoint (jtoArray (jget (checkpointState c u) ''schedule'')))"
    "length (jtoArray (jget (checkpointState c u) ''recentPath'')) \<le> 200"
    "map schedulePoint (jtoArray (jget (checkpointState c u) ''schedule'')) = u_schedule u"
    "map pathPoint (jtoArray (jget (checkpointState c u) ''recentPath'')) = u_recentPath u"
proof -
  show "checkpointValues (checkpointState c u) v"
    using assms by (simp add: checkpointValues_def Let_def checkpoint_fields subsystemOf_def subsystemState_def json_simps
        savableUnit_def unitOk_def healthOk_def sameBuild_def)
  show p: "map schedulePoint (jtoArray (jget (checkpointState c u) ''schedule'')) = u_schedule u"
    "map pathPoint (jtoArray (jget (checkpointState c u) ''recentPath'')) = u_recentPath u"
    by (simp_all add: checkpoint_fields json_simps positions_read del: map_map)
  show "list_all (\<lambda>p. 0 \<le> sp_time p) (map schedulePoint (jtoArray (jget (checkpointState c u) ''schedule'')))"
    unfolding p using assms(1) by (simp add: savableUnit_def planOk_def list_all_iff)
  show "length (jtoArray (jget (checkpointState c u) ''schedule'')) \<le> 512"
    "length (jtoArray (jget (checkpointState c u) ''recentPath'')) \<le> 200"
    using assms(1) by (simp_all add: checkpoint_fields json_simps savableUnit_def unitOk_def pathOk_def planOk_def)
qed

lemma sameBuild_core: "sameBuild u (core v) = sameBuild u v"
  by (simp add: sameBuild_def) (simp add: core_def maxHp_def)

text \<open>All that the restored unit is.\<close>

definition restoredCore :: "'a Unit_scheme \<Rightarrow> 'a Unit_scheme \<Rightarrow> 'a Unit_scheme" where
  "restoredCore u v = (core v)\<lparr>u_params := (u_params (core v))\<lparr>pa_pos := pa_pos (u_params u)\<rparr>, u_hp := u_hp u,
     u_sensor := u_sensor u, u_comms := u_comms u, u_mobility := u_mobility u, u_weapon := u_weapon u,
     u_schedule := u_schedule u, u_shared := u_shared u, u_recentPath := u_recentPath u, u_lastSampleTime := u_lastSampleTime u,
     u_fuelCapacity := u_fuelCapacity u, u_fuelRemaining := u_fuelRemaining u, u_economySpeed := u_economySpeed u,
     u_fuelBurn := u_fuelBurn u, u_fuelStage := u_fuelStage u, u_counter := u_counter u, u_scan := u_scan u,
     u_repairCooldown := u_repairCooldown u, u_repairSequence := u_repairSequence u,
     u_serviceRequested := u_serviceRequested u, u_serviceCp := u_serviceCp u, u_serviceElapsed := u_serviceElapsed u,
     u_serviceDuration := u_serviceDuration u, u_jamFactor := u_jamFactor u, u_status := u_status u\<rparr>"

lemma checkpoint_restored:
  assumes "savableUnit u" and "sameBuild u v" and "uc_restoreBehavior c (uc_behavior c u) v = (True, a)" and "sameBuild u a"
  obtains w where "restoreCheckpointState c (checkpointState c u) v = (True, w)" and "core w = restoredCore u a"
proof -
  define st where "st = checkpointState c u"
  define d where "d = (restoreValues st a)\<lparr>u_recentPath := u_recentPath u, u_lastSampleTime := u_lastSampleTime u\<rparr>"
  have d: "core d = (core (restoreValues st a))\<lparr>u_recentPath := u_recentPath u, u_lastSampleTime := u_lastSampleTime u\<rparr>"
    unfolding d_def core_def by simp
  note cd = d [unfolded st_def values_restored [OF assms(1,4)]]
  have "sameBuild u (core d)"
    unfolding cd using assms(4) sameBuild_core [of u a] by (simp add: sameBuild_def maxHp_def)
  then have "sameBuild u d"
    by (simp add: sameBuild_core)
  note r = runtime_restored [OF assms(1) this]
  define e where "e = snd (restoreRuntimeState (runtimeStateJson u) d)"
  have re: "restoreRuntimeState (runtimeStateJson u) d = (True, e)"
    unfolding e_def r by simp
  have jam: "1 / 10 \<le> u_jamFactor u" "u_jamFactor u \<le> 1"
    using assms(1) by (simp_all add: savableUnit_def unitOk_def healthOk_def)
  have "core (restoreTail st e) = (core e)\<lparr>u_jamFactor := u_jamFactor u, u_status := u_status u\<rparr>"
    using jam by (simp add: restoreTail_def st_def checkpoint_fields json_simps core_setStatus core_applyJamming)
  moreover have "core e = (core d)\<lparr>
     u_fuelCapacity := u_fuelCapacity u, u_fuelRemaining := u_fuelRemaining u, u_economySpeed := u_economySpeed u,
     u_fuelBurn := u_fuelBurn u, u_fuelStage := u_fuelStage u, u_counter := u_counter u, u_scan := u_scan u,
     u_repairCooldown := u_repairCooldown u, u_repairSequence := u_repairSequence u,
     u_serviceRequested := u_serviceRequested u, u_serviceCp := u_serviceCp u, u_serviceElapsed := u_serviceElapsed u,
     u_serviceDuration := u_serviceDuration u\<rparr>"
    unfolding e_def r snd_conv core_emit by (simp add: core_def)
  ultimately have w: "core (restoreTail st e) = restoredCore u a"
    unfolding cd by (simp add: restoredCore_def)
  note cv = checkpoint_values [OF assms(1,2), of c, folded st_def]
  have accepted: "\<not> (\<not> checkpointValues st v \<or> 512 < length (jtoArray (jget st ''schedule''))
      \<or> \<not> list_all (\<lambda>p. 0 \<le> sp_time p) (map schedulePoint (jtoArray (jget st ''schedule''))))"
    using cv by simp
  have rest: "jtoObject (jget st ''behavior'') = uc_behavior c u" "jtoObject (jget st ''runtimeState'') = runtimeStateJson u"
    "jtoDouble (-1) (jget st ''lastSampleTime'') = u_lastSampleTime u"
    by (simp_all add: st_def checkpoint_fields json_simps)
  have "restoreCheckpointState c st v = (True, restoreTail st e)"
    unfolding restoreCheckpointState_def Let_def if_not_P [OF accepted] rest assms(3)
    using cv(4,6) re by (simp add: d_def [symmetric] del: map_map)
  then show ?thesis
    using that w by (simp add: st_def)
qed

lemma checkpoint_again:
  assumes "savableUnit u" and "behaviorKept c u" and "sameBuild u v"
  shows "\<exists>w. restoreCheckpointState c (checkpointState c u) v = (True, w) \<and> checkpointState c w = checkpointState c u"
proof -
  from assms(2,3) obtain a where a: "uc_restoreBehavior c (uc_behavior c u) v = (True, a)" "sameBuild u a"
    and more: "\<And>x. Unit.more x = Unit.more a \<Longrightarrow> uc_behavior c x = uc_behavior c u"
    unfolding behaviorKept_def by blast
  obtain w where w: "restoreCheckpointState c (checkpointState c u) v = (True, w)" "core w = restoredCore u a"
    using checkpoint_restored [OF assms(1,3) a] .
  have m: "Unit.more (core w) = Unit.more a"
    unfolding w(2) restoredCore_def by simp
  then have b: "uc_behavior c (core w) = uc_behavior c u" "uc_behavior c w = uc_behavior c u"
    using more [of "core w"] more [of w] by simp_all
  have "checkpointState c w = checkpointState c (core w)"
    by (rule checkpoint_core [symmetric]) (simp add: b)
  also have "\<dots> = checkpointState c u"
    using b(1) a(2) by (simp add: checkpointState_def runtimeStateJson_def abilityStateJson_def subsystemState_def Let_def w(2))
      (simp add: restoredCore_def sameBuild_def alive_def)
  finally show ?thesis
    using w(1) by blast
qed

lemma defaults_kept: "behaviorKept unitDefaults u"
  by (simp add: behaviorKept_def unitDefaults_def)

text \<open>A checkpoint of a unit that is outside what a checkpoint takes is refused.\<close>

lemma checkpoint_needs:
  fixes u v :: "'a Unit_scheme"
  assumes "unitOk u" and "fst (restoreCheckpointState unitDefaults (checkpointState unitDefaults u) v)"
  shows "savableUnit u"
proof -
  define st where "st = checkpointState unitDefaults u"
  have plan: "planOk (u_schedule u)"
    if "length (jtoArray (jget st ''schedule'')) \<le> 512"
      "list_all (\<lambda>p. 0 \<le> sp_time p) (map schedulePoint (jtoArray (jget st ''schedule'')))"
    using that by (simp add: st_def checkpoint_fields json_simps positions_read planOk_def list_all_iff del: map_map)
  have time: "-1 \<le> u_lastSampleTime u" if "checkpointValues st v"
    using that by (simp add: st_def checkpointValues_def Let_def checkpoint_fields json_simps)
  have fits: "serviceSavable u" if "serviceFits (jtoObject (jget (runtimeStateJson u) ''service''))"
    using that by (simp add: runtime_fields serviceFits_def Let_def json_simps serviceSavable_def)
  have service: "serviceSavable u" if "fst (restoreRuntimeState (runtimeStateJson u) w)" for w :: "'a Unit_scheme"
    using that runtime_not_empty [of u] by (simp add: restoreRuntimeState_def fits split: if_splits)
  have state: "jtoObject (jget st ''runtimeState'') = runtimeStateJson u"
    by (simp add: st_def checkpoint_fields json_simps)
  define w where "w = (restoreValues st v)\<lparr>u_recentPath := map pathPoint (jtoArray (jget st ''recentPath'')),
     u_lastSampleTime := jtoDouble (-1) (jget st ''lastSampleTime'')\<rparr>"
  have b: "uc_restoreBehavior unitDefaults o' v = (True, v)" for o'
    by (simp add: unitDefaults_def)
  have "checkpointValues st v \<and> length (jtoArray (jget st ''schedule'')) \<le> 512
      \<and> list_all (\<lambda>p. 0 \<le> sp_time p) (map schedulePoint (jtoArray (jget st ''schedule'')))
      \<and> fst (restoreRuntimeState (runtimeStateJson u) w)"
    using assms(2) unfolding restoreCheckpointState_def Let_def st_def [symmetric] b prod.case state w_def [symmetric]
    by (simp add: case_prod_beta split: if_splits)
  then show ?thesis
    using assms(1) plan time service [of w] by (simp add: savableUnit_def)
qed

text \<open>C29. The checkpoint of a unit within its bounds that overrides nothing, restored to any unit of the same build whatever that has been
  through, is accepted exactly if the plan has at most 512 points at times not before zero, the time of the last point
  of the path is not before -1, and a service under way has a command post and at most 45 seconds; then the unit's
  own checkpoint is the same again.\<close>

theorem unit_checkpoint_roundtrip:
  assumes "unitOk u" and "sameBuild u v"
  shows "(fst (restoreCheckpointState unitDefaults (checkpointState unitDefaults u) v) \<longleftrightarrow>
      planOk (u_schedule u) \<and> -1 \<le> u_lastSampleTime u \<and> serviceSavable u)
    \<and> (planOk (u_schedule u) \<and> -1 \<le> u_lastSampleTime u \<and> serviceSavable u \<longrightarrow>
        checkpointState unitDefaults (snd (restoreCheckpointState unitDefaults (checkpointState unitDefaults u) v)) =
        checkpointState unitDefaults u)"
proof (cases "savableUnit u")
  case True
  then show ?thesis
    using checkpoint_again [OF True defaults_kept assms(2)] by (auto simp add: savableUnit_def)
next
  case False
  then show ?thesis
    using checkpoint_needs [OF assms(1), of v] assms(1) by (auto simp add: savableUnit_def)
qed

lemma exHurt_build: "sameBuild exHurt (newUnit ''u'' ReconUAV Red)" "u_schedule exHurt = []" "u_lastSampleTime exHurt = -1"
  "\<not> u_serviceRequested exHurt"
proof -
  have f: "u_counter exHurt = ability 1100 50 2" "u_scan exHurt = scanOf ReconUAV" "u_id exHurt = ''u''"
    "u_kind exHurt = ReconUAV" "u_repairCooldownSec exHurt = 60" "maxHp exHurt = maxHp (newUnit ''u'' ReconUAV Red)"
    "u_schedule exHurt = []" "u_lastSampleTime exHurt = -1" "\<not> u_serviceRequested exHurt"
    unfolding exHurt_def
    by (rule setHp_cases [OF refl, of "newUnit ''u'' ReconUAV Red" 40]; simp add: newUnit_def busPosition_def signal_def maxHp_def)+
  show "sameBuild exHurt (newUnit ''u'' ReconUAV Red)"
    by (simp add: sameBuild_def f) (simp add: newUnit_def busPosition_def signal_def)
  show "u_schedule exHurt = []" "u_lastSampleTime exHurt = -1" "\<not> u_serviceRequested exHurt"
    by (rule f)+
qed

lemma unit_checkpoint_roundtrip_witness:
  "fst (restoreCheckpointState unitDefaults (checkpointState unitDefaults exHurt) (newUnit ''u'' ReconUAV Red))
   \<and> \<not> fst (restoreCheckpointState unitDefaults (checkpointState unitDefaults (requestService True exHurt)) (newUnit ''u'' ReconUAV Red))"
proof
  show "fst (restoreCheckpointState unitDefaults (checkpointState unitDefaults exHurt) (newUnit ''u'' ReconUAV Red))"
    using unit_checkpoint_roundtrip [OF exHurt_facts(1) exHurt_build(1)]
    by (simp add: exHurt_build planOk_def serviceSavable_def)
  have cp: "u_cpId exHurt = []" "u_serviceCp exHurt = []"
    unfolding exHurt_def
    by (rule setHp_cases [OF refl, of "newUnit ''u'' ReconUAV Red" 40]; simp add: newUnit_def busPosition_def signal_def)+
  have "sameBuild (requestService True exHurt) (newUnit ''u'' ReconUAV Red)"
    using exHurt_build(1) by (simp add: requestService_def signal_def sameBuild_def maxHp_def)
  moreover have "\<not> serviceSavable (requestService True exHurt)"
    by (simp add: requestService_def signal_def serviceSavable_def cp)
  ultimately show "\<not> fst (restoreCheckpointState unitDefaults (checkpointState unitDefaults (requestService True exHurt))
      (newUnit ''u'' ReconUAV Red))"
    using unit_checkpoint_roundtrip [OF requestService_ok [OF exHurt_facts(1)]] by blast
qed

section \<open>What goes wrong\<close>

text \<open>C40. A checkpoint with too long a path is refused only after the unit has taken its position, health and plan:
  the restore fails, the unit has changed and its own path is gone.\<close>

theorem refused_restore_changes_unit:
  assumes "checkpointValues st u" and "length (jtoArray (jget st ''schedule'')) \<le> 512"
    and "list_all (\<lambda>p. 0 \<le> sp_time p) (map schedulePoint (jtoArray (jget st ''schedule'')))"
    and "uc_restoreBehavior c (jtoObject (jget st ''behavior'')) u = (True, a)" and "maxHp a = maxHp u"
    and "200 < length (jtoArray (jget st ''recentPath''))"
  shows "\<exists>w. restoreCheckpointState c st u = (False, w) \<and> u_hp w = jtoDouble (-1) (jget st ''hp'')
    \<and> pa_pos (u_params w) = restoredPosition (jtoArray (jget st ''position'')) \<and> u_recentPath w = []"
proof -
  have r: "restoreCheckpointState c st u = (False, restoreValues st a)"
    using assms by (simp add: restoreCheckpointState_def Let_def)
  have hp: "0 \<le> jtoDouble (-1) (jget st ''hp'')" "jtoDouble (-1) (jget st ''hp'') \<le> maxHp a"
    using assms(1,5) by (simp_all add: checkpointValues_def Let_def)
  have "maxHp (setPosition p a) = maxHp a" "pa_pos (u_params (setPosition p a)) = p" for p
    by (simp_all add: setPosition_def busPosition_def) (simp add: maxHp_def)
  then show ?thesis
    using hp by (simp add: r restoreValues_def Let_def setSchedule_def)
qed

definition longPath :: jobject where
  "longPath = [(''hp'', JNum 5), (''id'', JStr ''u''), (''jamFactor'', JNum 1), (''lastSampleTime'', JNum 0),
     (''position'', JArr [JNum 7, JNum 8, JNum 0]), (''recentPath'', JArr (replicate 201 JNull))]"

lemma refused_restore_changes_unit_witness:
  "\<exists>w. restoreCheckpointState unitDefaults longPath (newUnit ''u'' ReconUAV Red) = (False, w) \<and> u_hp w = 5"
proof -
  have "\<exists>w. restoreCheckpointState unitDefaults longPath (newUnit ''u'' ReconUAV Red) = (False, w)
    \<and> u_hp w = jtoDouble (-1) (jget longPath ''hp'')
    \<and> pa_pos (u_params w) = restoredPosition (jtoArray (jget longPath ''position'')) \<and> u_recentPath w = []"
    by (rule refused_restore_changes_unit [where a = "newUnit ''u'' ReconUAV Red"])
      (simp_all add: longPath_def checkpointValues_def Let_def json_simps subsystemOf_def inUnit_def unitDefaults_def,
        simp add: newUnit_def busPosition_def signal_def maxHp_def initialParams_def)
  then show ?thesis
    by (auto simp add: longPath_def json_simps)
qed

text \<open>A unit starts with the speed of its kind, but its base speed is 50: the first change of any effective
  parameter, a hit without damage is enough, gives every unit 50 metres per second, the ground target too.\<close>

theorem default_speed_lost:
  "pa_speed (u_params (newUnit i k side)) = defaultSpeedMps k \<and>
   pa_speed (u_params (applyDamageDelta noDamage (newUnit i k side))) = 50"
proof -
  have p: "u_params (cancelService u) = u_params u" "u_baseSpeed (cancelService u) = u_baseSpeed u" for u :: Unit
    by (simp_all add: cancelService_def signal_def)
  have s: "pa_speed (u_params (recompute u)) = u_baseSpeed u * u_mobility u" for u :: Unit
    by (simp add: recompute_def busPosition_def signal_def)
  have h: "u_baseSpeed (setHp v u) = u_baseSpeed u" for v and u :: Unit
    by (rule setHp_cases [OF refl, of u v]) simp_all
  show ?thesis
    by (simp add: applyDamageDelta_def Let_def noDamage_def s h p)
      (simp add: newUnit_def busPosition_def signal_def initialParams_def clamp_def)
qed

end
