(* ===== verification/MobileUnits.thy ===== *)
theory MobileUnits
  imports UnitsProps UnitFsm
begin

text \<open>
  The units that move (\<open>src/src/units/MobileUnitBase.{h,cpp}\<close>) and the classes built on it: \<open>ReconUAV\<close>,
  \<open>JammerUAV\<close>, \<open>GroundScout\<close>. Their state machine is the one of \<open>UnitFsm\<close>, set up by \<open>mobileFsm\<close>; its
  current state is kept in the unit. \<open>sqroot\<close> is \<open>std::sqrt\<close>. Status texts are replaced by short English ones.
\<close>

section \<open>State\<close>

record MobileUnit = Unit +
  mu_waypoints :: "(rat \<times> rat) list"
  mu_wpIdx :: int
  mu_state :: string

text \<open>What the constructors pass to \<open>setupMobileFsm\<close>: the moving state, its status and the idle status.\<close>

fun movingState :: "UnitKind \<Rightarrow> string" where
  "movingState ReconUAV = ''patrolling''"
| "movingState JammerUAV = ''patrolling''"
| "movingState _ = ''moving''"

fun movingStatus :: "UnitKind \<Rightarrow> string" where
  "movingStatus ReconUAV = ''recon cruise''"
| "movingStatus JammerUAV = ''jamming cruise''"
| "movingStatus _ = ''marching''"

fun idleStatus :: "UnitKind \<Rightarrow> string" where
  "idleStatus GroundScout = ''ground recon''"
| "idleStatus _ = ''standby''"

definition loopWaypoints :: "UnitKind \<Rightarrow> bool" where
  "loopWaypoints k \<longleftrightarrow> movingState k = ''patrolling''"

definition noWaypoints :: "'a MobileUnit_scheme \<Rightarrow> 'a MobileUnit_scheme" where
  "noWaypoints u = u\<lparr>mu_waypoints := [], mu_wpIdx := 0\<rparr>"

section \<open>Motion\<close>

definition squaredTo :: "rat \<times> rat \<Rightarrow> 'a Unit_scheme \<Rightarrow> rat" where
  "squaredTo q u = (fst q - gp_x (pa_pos (u_params u))) * (fst q - gp_x (pa_pos (u_params u)))
     + (snd q - gp_y (pa_pos (u_params u))) * (snd q - gp_y (pa_pos (u_params u)))"

definition snapThreshold :: rat where
  "snapThreshold = 50"

text \<open>Where a leg ends, and where the unit goes when there is none left.\<close>

definition afterLast :: "string \<Rightarrow> 'a Unit_scheme \<Rightarrow> string list" where
  "afterLast state u = [if state = ''withdrawing'' \<and> u_serviceRequested u then ''servicing'' else ''idle'']"

definition moveTowards :: "(rat \<Rightarrow> rat) \<Rightarrow> rat \<Rightarrow> rat \<times> rat \<Rightarrow> 'a Unit_scheme \<Rightarrow> 'a Unit_scheme" where
  "moveTowards sqroot dt q u =
     (let here = pa_pos (u_params u);
          t = min 1 (pa_speed (u_params u) * dt / max 1 (sqroot (squaredTo q u)))
      in setPosition \<lparr>gp_x = gp_x here + (fst q - gp_x here) * t, gp_y = gp_y here + (snd q - gp_y here) * t,
           gp_alt = gp_alt here\<rparr> u)"

definition stepMotion :: "(rat \<Rightarrow> rat) \<Rightarrow> string \<Rightarrow> rat \<Rightarrow> 'a MobileUnit_scheme \<Rightarrow> 'a MobileUnit_scheme \<times> string list" where
  "stepMotion sqroot state dt u =
     (let stop = setHasActiveWaypoints False \<circ> noWaypoints;
          n = int (length (mu_waypoints u));
          i = mu_wpIdx u;
          q = mu_waypoints u ! nat i
      in if \<not> hasUsableFuel u then (stop u, [''idle''])
         else if mu_waypoints u = [] then (u, [])
         else if i < 0 \<or> n \<le> i then (stop u, afterLast state u)
         else if sqroot (squaredTo q u) < snapThreshold
         then let a = setPosition \<lparr>gp_x = fst q, gp_y = snd q, gp_alt = gp_alt (pa_pos (u_params u))\<rparr> u in
              if i + 1 < n then (a\<lparr>mu_wpIdx := i + 1\<rparr>, [])
              else if loopWaypoints (u_kind u) \<and> 1 < n then (a\<lparr>mu_wpIdx := 0\<rparr>, [])
              else (stop a, afterLast state a)
         else (moveTowards sqroot dt q u, []))"

section \<open>The state machine\<close>

definition mobileFsm :: "(rat \<Rightarrow> rat) \<Rightarrow> UnitKind \<Rightarrow> 'a MobileUnit_scheme Fsm" where
  "mobileFsm sqroot k =
     (let enter = (\<lambda>active status u. setStatus status (setHasActiveWaypoints active u));
          a = addState ''idle'' (Some (\<lambda>dt u. (u, []))) (Some (enter False (idleStatus k))) None emptyFsm;
          b = addState (movingState k) (Some (stepMotion sqroot (movingState k))) (Some (enter True (movingStatus k))) None a;
          c = addTransition (movingState k) ''idle'' (Some (\<lambda>u. mu_waypoints u = [])) b;
          d = addState ''withdrawing'' (Some (stepMotion sqroot ''withdrawing'')) (Some (enter True ''withdrawing'')) None c;
          e = addTransition ''withdrawing'' ''idle'' (Some (\<lambda>u. mu_waypoints u = [] \<and> \<not> u_serviceRequested u)) d;
          f = addTransition ''withdrawing'' ''servicing'' (Some (\<lambda>u. mu_waypoints u = [] \<and> u_serviceRequested u)) e;
          g = addState ''servicing'' (Some (\<lambda>dt u. (setStatus ''in service'' u, []))) (Some (enter False ''service starts'')) None f
      in addTransition ''servicing'' ''idle'' (Some (\<lambda>u. \<not> u_serviceRequested u)) g)"

text \<open>A call of the machine, with the current state taken from the unit and put back.\<close>

definition withFsm :: "(rat \<Rightarrow> rat) \<Rightarrow> ('a MobileUnit_scheme Fsm \<times> 'a MobileUnit_scheme \<Rightarrow> 'a MobileUnit_scheme Fsm \<times> 'a MobileUnit_scheme)
    \<Rightarrow> 'a MobileUnit_scheme \<Rightarrow> 'a MobileUnit_scheme" where
  "withFsm sqroot f u =
     (let (fsm, w) = f ((mobileFsm sqroot (u_kind u))\<lparr>m_current := mu_state u, m_initialized := True\<rparr>, u)
      in w\<lparr>mu_state := m_current fsm\<rparr>)"

definition mobileGoTo :: "(rat \<Rightarrow> rat) \<Rightarrow> string \<Rightarrow> 'a MobileUnit_scheme \<Rightarrow> 'a MobileUnit_scheme" where
  "mobileGoTo sqroot s = withFsm sqroot (goTo s)"

definition mobileTick :: "(rat \<Rightarrow> rat) \<Rightarrow> rat \<Rightarrow> 'a MobileUnit_scheme \<Rightarrow> 'a MobileUnit_scheme" where
  "mobileTick sqroot dt u = (if \<not> alive u then setStatus ''destroyed'' u else withFsm sqroot (tick dt) u)"

definition cancelWaypointMotion :: "(rat \<Rightarrow> rat) \<Rightarrow> 'a MobileUnit_scheme \<Rightarrow> 'a MobileUnit_scheme" where
  "cancelWaypointMotion sqroot u = mobileGoTo sqroot ''idle'' (setHasActiveWaypoints False (noWaypoints u))"

fun startStatus :: "UnitKind \<Rightarrow> string" where
  "startStatus GroundScout = ''ground recon''"
| "startStatus k = movingStatus k"

definition mobileUnit :: "(rat \<Rightarrow> rat) \<Rightarrow> string \<Rightarrow> UnitKind \<Rightarrow> Side \<Rightarrow> MobileUnit" where
  "mobileUnit sqroot i k side =
     (let u = setStatus (startStatus k) (Unit.extend (newUnit i k side) (MobileUnit.fields [] 0 []));
          (fsm, w) = setInitialState ''idle'' (mobileFsm sqroot k, u)
      in w\<lparr>mu_state := m_current fsm\<rparr>)"

section \<open>Orders and messages\<close>

definition payloadDouble :: "string \<Rightarrow> Message \<Rightarrow> rat" where
  "payloadDouble k m = jtoDouble 0 (jget (msg_payload m) k)"

definition route :: "(rat \<times> rat) list \<Rightarrow> 'a MobileUnit_scheme \<Rightarrow> 'a MobileUnit_scheme" where
  "route ws u = u\<lparr>mu_waypoints := ws, mu_wpIdx := 0\<rparr>"

definition onMobileMessage :: "(rat \<Rightarrow> rat) \<Rightarrow> Message \<Rightarrow> 'a MobileUnit_scheme \<Rightarrow> 'a MobileUnit_scheme" where
  "onMobileMessage sqroot m u =
     (if msg_type m = TWithdraw \<or> msg_type m = TWithdrawOrder
      then let a = clearSchedule (setStatus ''withdrawing now'' (cancelService u))
           in if jcontains (msg_payload m) ''homeX'' \<and> jcontains (msg_payload m) ''homeY''
              then mobileGoTo sqroot ''withdrawing'' (route [(payloadDouble ''homeX'' m, payloadDouble ''homeY'' m)] a)
              else mobileGoTo sqroot ''idle'' (noWaypoints a)
      else if msg_type m = TGuidance
      then if jtoString (jget (msg_payload m) ''kind'') = ''moveTo''
           then setStatus ''moving to a point'' (mobileGoTo sqroot (movingState (u_kind u))
                  (clearSchedule (route [(payloadDouble ''x'' m, payloadDouble ''y'' m)] (cancelService u))))
           else u
      else if msg_type m = THalt
      then setStatus ''standing by'' (mobileGoTo sqroot ''idle''
             (clearSchedule (setHasActiveWaypoints False (noWaypoints (requestService False u)))))
      else u)"

text \<open>\<open>setPatrol\<close> of the UAVs and \<open>setRoute\<close> of the ground scout.\<close>

definition setRoute :: "(rat \<Rightarrow> rat) \<Rightarrow> (rat \<times> rat) list \<Rightarrow> 'a MobileUnit_scheme \<Rightarrow> 'a MobileUnit_scheme" where
  "setRoute sqroot ws u = mobileGoTo sqroot (if ws = [] then ''idle'' else movingState (u_kind u)) (route ws u)"

definition clearPatrol :: "(rat \<Rightarrow> rat) \<Rightarrow> 'a MobileUnit_scheme \<Rightarrow> 'a MobileUnit_scheme" where
  "clearPatrol sqroot u = mobileGoTo sqroot ''idle'' (setHasActiveWaypoints False (noWaypoints u))"

definition sharedDetection :: "Message \<Rightarrow> json" where
  "sharedDetection m = JObj [(''alt'', JNum (payloadDouble ''alt'' m)), (''callsign'', JStr (jtoString (jget (msg_payload m) ''callsign''))),
     (''distance'', JNum (payloadDouble ''distance'' m)), (''reportedBy'', JStr (msg_sender m)),
     (''targetId'', JStr (jtoString (jget (msg_payload m) ''targetId''))), (''x'', JNum (payloadDouble ''x'' m)),
     (''y'', JNum (payloadDouble ''y'' m))]"

definition scoutMessage :: "(rat \<Rightarrow> rat) \<Rightarrow> Message \<Rightarrow> 'a MobileUnit_scheme \<Rightarrow> 'a MobileUnit_scheme" where
  "scoutMessage sqroot m u =
     (let tid = jtoString (jget (msg_payload m) ''targetId'') in
      if msg_type m = TGroundGuideOrder then setStatus ''waiting for confirmation'' u
      else onMobileMessage sqroot m
             (if msg_type m = TSharedDetect \<and> tid \<noteq> [] then rememberShared (''shared:detect:'' @ tid) (sharedDetection m) u else u))"

text \<open>The order the scout sends, and the scout.\<close>

definition guideAttack :: "string \<Rightarrow> string \<Rightarrow> rat \<times> rat \<Rightarrow> 'a MobileUnit_scheme \<Rightarrow> Message \<times> 'a MobileUnit_scheme" where
  "guideAttack attacker target seen u =
     (emptyMessage\<lparr>msg_type := TFlightPlan, msg_sender := u_id u, msg_receiver := attacker,
        msg_payload := [(''targetId'', JStr target),
          (''waypoints'', JArr [JObj [(''alt'', JNum 2000), (''x'', JNum (fst seen)), (''y'', JNum (snd seen))]])]\<rparr>,
      setStatus ''guided'' u)"

section \<open>The checkpoint\<close>

definition mobileBehavior :: "'a MobileUnit_scheme \<Rightarrow> jobject" where
  "mobileBehavior u = [(''fsmState'', JStr (mu_state u)), (''waypointIndex'', jint (mu_wpIdx u)),
     (''waypoints'', JArr (map (\<lambda>(x, y). JObj [(''x'', JNum x), (''y'', JNum y)]) (mu_waypoints u)))]"

definition restoreMobileBehavior :: "(rat \<Rightarrow> rat) \<Rightarrow> jobject \<Rightarrow> 'a MobileUnit_scheme \<Rightarrow> bool \<times> 'a MobileUnit_scheme" where
  "restoreMobileBehavior sqroot state u =
     (let s = (case jget state ''fsmState'' of JStr s \<Rightarrow> s | _ \<Rightarrow> ''idle'');
          ws = map pathPoint (jtoArray (jget state ''waypoints''));
          i = jtoInt 0 (jget state ''waypointIndex'')
      in if s \<noteq> ''idle'' \<and> s \<noteq> movingState (u_kind u) \<and> s \<noteq> ''withdrawing'' \<and> s \<noteq> ''servicing'' then (False, u)
         else if ws \<noteq> [] \<and> (i < 0 \<or> int (length ws) \<le> i) \<or> ws = [] \<and> i \<noteq> 0 then (False, u)
         else (True, setHasActiveWaypoints (ws \<noteq> []) (mobileGoTo sqroot s (u\<lparr>mu_waypoints := ws, mu_wpIdx := i\<rparr>))))"

text \<open>What the classes override.\<close>

definition mobileClass :: "(rat \<Rightarrow> rat) \<Rightarrow> UnitKind \<Rightarrow> 'a MobileUnit_scheme UnitClass" where
  "mobileClass sqroot k = \<lparr>uc_cancelMotion = cancelWaypointMotion sqroot, uc_rearmDuration = (\<lambda>_. 0), uc_restoreResources = (\<lambda>u. u),
     uc_behavior = mobileBehavior, uc_restoreBehavior = restoreMobileBehavior sqroot,
     uc_onMessage = (if k = GroundScout then scoutMessage sqroot else onMobileMessage sqroot)\<rparr>"

section \<open>A tick of the engine\<close>

text \<open>What \<open>SimulationEngine::tickUnits\<close> does to one unit that is not remote and whose side is not frozen: its own tick,
  then fuel and cooldowns at the speed it actually had since \<open>before\<close>, then the recent path.\<close>

definition tickUnit :: "(rat \<Rightarrow> rat) \<Rightarrow> rat \<Rightarrow> rat \<Rightarrow> GeoPos \<Rightarrow> 'a MobileUnit_scheme \<Rightarrow> 'a MobileUnit_scheme" where
  "tickUnit sqroot simTime dt before u =
     (let a = mobileTick sqroot dt u;
          actualSpeed = (if 0 < dt then sqroot (distance2 before (pa_pos (u_params a))) / dt else 0);
          b = advanceRuntimeState (mobileClass sqroot (u_kind a)) dt actualSpeed a
      in if alive b then sampleRecentPath simTime b else b)"

text \<open>Ticks at the given times of the clock.\<close>

fun tickUnits :: "(rat \<Rightarrow> rat) \<Rightarrow> rat \<Rightarrow> rat list \<Rightarrow> 'a MobileUnit_scheme \<Rightarrow> 'a MobileUnit_scheme" where
  "tickUnits sqroot dt [] u = u"
| "tickUnits sqroot dt (t # ts) u = tickUnits sqroot dt ts (tickUnit sqroot t dt (pa_pos (u_params u)) u)"

end
