(* ===== verification/MobileUnitsProps.thy ===== *)
theory MobileUnitsProps
  imports MobileUnits
begin

text \<open>
  What holds of the units that move: the bounds of their state, their checkpoint, how they move and arrive.
\<close>

section \<open>The state machine\<close>

lemma movingState_new [simp]: "movingState k \<noteq> ''idle''" "movingState k \<noteq> ''withdrawing''" "movingState k \<noteq> ''servicing''"
  "movingState k \<noteq> []"
  by (cases k; simp)+

definition enterWith :: "bool \<Rightarrow> string \<Rightarrow> 'a Unit_scheme \<Rightarrow> 'a Unit_scheme" where
  "enterWith active status u = setStatus status (setHasActiveWaypoints active u)"

lemma mobileFsm_states:
  "m_states (mobileFsm sqroot k) = [
     ''idle'' \<mapsto> \<lparr>update = Some (\<lambda>dt u. (u, [])), onEnter = Some (enterWith False (idleStatus k)), onExit = None, transitions = []\<rparr>,
     movingState k \<mapsto> \<lparr>update = Some (stepMotion sqroot (movingState k)), onEnter = Some (enterWith True (movingStatus k)), onExit = None,
       transitions = [\<lparr>toState = ''idle'', condition = Some (\<lambda>u. mu_waypoints u = [])\<rparr>]\<rparr>,
     ''withdrawing'' \<mapsto> \<lparr>update = Some (stepMotion sqroot ''withdrawing''), onEnter = Some (enterWith True ''withdrawing''), onExit = None,
       transitions = [\<lparr>toState = ''idle'', condition = Some (\<lambda>u. mu_waypoints u = [] \<and> \<not> u_serviceRequested u)\<rparr>,
         \<lparr>toState = ''servicing'', condition = Some (\<lambda>u. mu_waypoints u = [] \<and> u_serviceRequested u)\<rparr>]\<rparr>,
     ''servicing'' \<mapsto> \<lparr>update = Some (\<lambda>dt u. (setStatus ''in service'' u, [])), onEnter = Some (enterWith False ''service starts''),
       onExit = None, transitions = [\<lparr>toState = ''idle'', condition = Some (\<lambda>u. \<not> u_serviceRequested u)\<rparr>]\<rparr>]"
  by (rule ext) (simp add: mobileFsm_def Let_def addState_def addTransition_def emptyFsm_def enterWith_def [abs_def])

definition mobileStates :: "UnitKind \<Rightarrow> string set" where
  "mobileStates k = {''idle'', movingState k, ''withdrawing'', ''servicing''}"

lemma registered: "m_states (mobileFsm sqroot k) s \<noteq> None \<longleftrightarrow> s \<in> mobileStates k"
  by (simp add: mobileFsm_states mobileStates_def)

text \<open>What every callback keeps.\<close>

lemma callbacks_empty: "callbacksKeep P emptyFsm"
  by (simp add: callbacksKeep_def emptyFsm_def)

lemma callbacks_addState:
  assumes "callbacksKeep P fsm" and "\<And>w. P w \<Longrightarrow> P (runOptional enter w)" and "\<And>w. P w \<Longrightarrow> P (runOptional leave w)"
    and "\<And>f dt w. upd = Some f \<Longrightarrow> P w \<Longrightarrow> P (fst (f dt w))"
  shows "callbacksKeep P (addState s upd enter leave fsm)"
  unfolding callbacksKeep_def
proof
  fix d
  assume "d \<in> ran (m_states (addState s upd enter leave fsm))"
  then consider "d = \<lparr>update = upd, onEnter = enter, onExit = leave, transitions = []\<rparr>" | "d \<in> ran (m_states fsm)"
    by (auto simp: addState_def ran_def split: if_splits)
  then show "\<forall>w. P w \<longrightarrow> P (runOptional (onEnter d) w) \<and> P (runOptional (onExit d) w) \<and> (\<forall>f dt. update d = Some f \<longrightarrow> P (fst (f dt w)))"
  proof cases
    case 1
    show ?thesis
      unfolding 1 StateDef.simps using assms(2-4) by simp
  next
    case 2
    then show ?thesis
      using assms(1) unfolding callbacksKeep_def by simp
  qed
qed

lemma callbacks_addTransition:
  assumes "callbacksKeep P fsm"
  shows "callbacksKeep P (addTransition src dst cond fsm)"
proof (cases "m_states fsm src")
  case (Some old)
  have "\<exists>e\<in>ran (m_states fsm). update d = update e \<and> onEnter d = onEnter e \<and> onExit d = onExit e"
    if "d \<in> ran (m_states (addTransition src dst cond fsm))" for d
    using that Some by (auto simp: addTransition_def ran_def split: if_splits)
  then show ?thesis
    using assms unfolding callbacksKeep_def by metis
qed (simp add: addTransition_def assms)

lemma mobile_callbacks:
  assumes "\<And>a s u. P u \<Longrightarrow> P (enterWith a s u)" and "\<And>s u. P u \<Longrightarrow> P (setStatus s u)"
    and "\<And>s dt u. P u \<Longrightarrow> P (fst (stepMotion sqroot s dt u))"
  shows "callbacksKeep P (mobileFsm sqroot k)"
  unfolding mobileFsm_def Let_def
  by (intro callbacks_addTransition callbacks_addState callbacks_empty)
    (auto simp: runOptional_def enterWith_def [symmetric] intro: assms)

lemma withFsm_keeps:
  assumes "\<And>a s u. P u \<Longrightarrow> P (enterWith a s u)" and "\<And>s u. P u \<Longrightarrow> P (setStatus s u)"
    and "\<And>s dt u. P u \<Longrightarrow> P (fst (stepMotion sqroot s dt u))" and "\<And>s u. P u \<Longrightarrow> P (u\<lparr>mu_state := s\<rparr>)" and "P u"
  shows "P (mobileGoTo sqroot s u)" "P (withFsm sqroot (tick dt) u)"
proof -
  let ?x = "((mobileFsm sqroot (u_kind u))\<lparr>m_current := mu_state u, m_initialized := True\<rparr>, u)"
  have k: "callbacksKeep P (fst ?x)" "P (snd ?x)"
    using mobile_callbacks [of P sqroot "u_kind u"] assms(1-3,5) by simp_all
  show "P (mobileGoTo sqroot s u)"
    using goTo_keeps [OF k, of s] assms(4) by (cases "goTo s ?x") (simp add: mobileGoTo_def withFsm_def)
  show "P (withFsm sqroot (tick dt) u)"
    using tick_keeps [OF k, of dt] assms(4) by (cases "tick dt ?x") (simp add: withFsm_def)
qed

section \<open>What operations of the base class leave alone\<close>

lemma more_signal [simp]: "Unit.more (signal s u) = Unit.more u" "u_kind (signal s u) = u_kind u"
  by (simp_all add: signal_def)

lemma more_recompute [simp]: "Unit.more (recompute u) = Unit.more u" "u_kind (recompute u) = u_kind u"
  by (simp_all add: recompute_def busPosition_def)

lemma more_setters [simp]: "Unit.more (setPosition p u) = Unit.more u" "u_kind (setPosition p u) = u_kind u"
  "Unit.more (setSchedule ps u) = Unit.more u" "u_kind (setSchedule ps u) = u_kind u"
  "Unit.more (clearSchedule u) = Unit.more u" "u_kind (clearSchedule u) = u_kind u"
  "Unit.more (setStatus s u) = Unit.more u" "u_kind (setStatus s u) = u_kind u"
  "Unit.more (setCallsign s u) = Unit.more u" "u_kind (setCallsign s u) = u_kind u"
  "Unit.more (setCpId s u) = Unit.more u" "u_kind (setCpId s u) = u_kind u"
  "Unit.more (setHasActiveWaypoints b u) = Unit.more u" "u_kind (setHasActiveWaypoints b u) = u_kind u"
  "Unit.more (rememberShared k v u) = Unit.more u" "u_kind (rememberShared k v u) = u_kind u"
  by (simp_all add: setPosition_def busPosition_def setSchedule_def clearSchedule_def setStatus_def setCallsign_def setCpId_def
      setHasActiveWaypoints_def rememberShared_def)

lemma more_params [simp]: "Unit.more (setAttackPower x u) = Unit.more u" "u_kind (setAttackPower x u) = u_kind u"
  "Unit.more (setAttackRange x u) = Unit.more u" "u_kind (setAttackRange x u) = u_kind u"
  "Unit.more (setSpeed x u) = Unit.more u" "u_kind (setSpeed x u) = u_kind u"
  "Unit.more (setDetectRange x u) = Unit.more u" "u_kind (setDetectRange x u) = u_kind u"
  "Unit.more (setCommRange x u) = Unit.more u" "u_kind (setCommRange x u) = u_kind u"
  "Unit.more (setDemoSpeedProfile b u) = Unit.more u" "u_kind (setDemoSpeedProfile b u) = u_kind u"
  "Unit.more (applyJamming x u) = Unit.more u" "u_kind (applyJamming x u) = u_kind u"
  "Unit.more (setMaxHp x u) = Unit.more u" "u_kind (setMaxHp x u) = u_kind u"
  by (simp_all add: setAttackPower_def setAttackRange_def setSpeed_def setDetectRange_def setCommRange_def
      setDemoSpeedProfile_def applyJamming_def setMaxHp_def Let_def)

lemma more_setParams [simp]: "Unit.more (setParams p u) = Unit.more u" "u_kind (setParams p u) = u_kind u"
  by (simp_all add: setParams_def busPosition_def Let_def)

lemma more_setHp [simp]: "Unit.more (setHp x u) = Unit.more u"
  by (rule setHp_cases [OF refl, of u x]) simp_all

lemma more_damage [simp]: "Unit.more (cancelService u) = Unit.more u" "u_kind (cancelService u) = u_kind u"
  "Unit.more (applyDamageDelta d u) = Unit.more u" "u_kind (applyDamageDelta d u) = u_kind u"
  "Unit.more (snd (restoreSubsystemState st u)) = Unit.more u" "u_kind (snd (restoreSubsystemState st u)) = u_kind u"
  by (simp_all add: cancelService_def applyDamageDelta_def restoreSubsystemState_def Let_def)

lemma more_abilities [simp]: "Unit.more (configureFuel a b c u) = Unit.more u" "u_kind (configureFuel a b c u) = u_kind u"
  "Unit.more (snd (activateCountermeasure u)) = Unit.more u" "u_kind (snd (activateCountermeasure u)) = u_kind u"
  "Unit.more (snd (activateScan u)) = Unit.more u" "u_kind (snd (activateScan u)) = u_kind u"
  "Unit.more (repairWeakest u) = Unit.more u" "u_kind (repairWeakest u) = u_kind u"
  "Unit.more (snd (attemptFieldRepair s u)) = Unit.more u" "u_kind (snd (attemptFieldRepair s u)) = u_kind u"
  by (simp_all add: configureFuel_def activateCountermeasure_def activateScan_def repairWeakest_def attemptFieldRepair_def Let_def)

lemma more_service [simp]: "Unit.more (snd (beginService c cp u)) = Unit.more u" "u_kind (snd (beginService c cp u)) = u_kind u"
  "Unit.more (requestService b u) = Unit.more u" "u_kind (requestService b u) = u_kind u"
  "Unit.more (sampleRecentPath t u) = Unit.more u" "u_kind (sampleRecentPath t u) = u_kind u"
  by (simp_all add: beginService_def requestService_def sampleRecentPath_def Let_def)

lemma more_restored [simp]: "Unit.more (snd (restoreRuntimeState st u)) = Unit.more u" "u_kind (snd (restoreRuntimeState st u)) = u_kind u"
  "Unit.more (restoreValues st u) = Unit.more u" "u_kind (restoreValues st u) = u_kind u"
  by (simp_all add: restoreRuntimeState_def restoredRuntime_def restoreValues_def setSchedule_def Let_def)

lemma more_fold_signal [simp]: "Unit.more (fold signal ss u) = Unit.more u" "u_kind (fold signal ss u) = u_kind u"
  by (induction ss arbitrary: u) simp_all

lemma more_restoreTail [simp]: "Unit.more (restoreTail st u) = Unit.more u" "u_kind (restoreTail st u) = u_kind u"
  unfolding restoreTail_def more_fold_signal by simp_all

text \<open>A property of the extension and the kind that the class keeps is kept by every operation.\<close>

definition ofExtension :: "('a Unit_scheme \<Rightarrow> bool) \<Rightarrow> bool" where
  "ofExtension Q \<longleftrightarrow> (\<forall>u v. Unit.more u = Unit.more v \<longrightarrow> u_kind u = u_kind v \<longrightarrow> Q u = Q v)"

definition classKeeps :: "('a Unit_scheme \<Rightarrow> bool) \<Rightarrow> 'a Unit_scheme UnitClass \<Rightarrow> bool" where
  "classKeeps Q c \<longleftrightarrow> (\<forall>u. Q u \<longrightarrow> Q (uc_cancelMotion c u) \<and> Q (uc_restoreResources c u)
     \<and> (\<forall>s. Q (snd (uc_restoreBehavior c s u))) \<and> (\<forall>m. Q (uc_onMessage c m u)))"

lemma ofExtensionD: "ofExtension Q \<Longrightarrow> Q u \<Longrightarrow> Unit.more v = Unit.more u \<Longrightarrow> u_kind v = u_kind u \<Longrightarrow> Q v"
  unfolding ofExtension_def by metis

lemma burnFuel_extension:
  assumes "ofExtension Q" and "classKeeps Q c" and "Q u"
  shows "Q (burnFuel c dt v u)"
proof -
  have q: "Q w" "Q (uc_cancelMotion c w)" if "Unit.more w = Unit.more u" "u_kind w = u_kind u" for w
    using assms(2) ofExtensionD [OF assms(1,3) that] by (simp_all add: classKeeps_def)
  have status: "Q (setStatus s w)" if "Q w" for s w
    by (rule ofExtensionD [OF assms(1) that]) simp_all
  have branch: "(P \<Longrightarrow> Q x) \<Longrightarrow> (\<not> P \<Longrightarrow> Q y) \<Longrightarrow> Q (if P then x else y)" for P x y
    by simp
  show ?thesis
    unfolding burnFuel_def Let_def by (intro branch status q) simp_all
qed

lemma completeService_extension:
  assumes "ofExtension Q" and "classKeeps Q c" and "Q u"
  shows "Q (completeService c u)"
proof -
  have q: "Q (uc_restoreResources c w)" if "Unit.more w = Unit.more u" "u_kind w = u_kind u" for w
    using assms(2) ofExtensionD [OF assms(1,3) that] by (simp add: classKeeps_def)
  have after: "Q (signal s2 (signal s1 (recompute (w\<lparr>u_fuelStage := k, u_serviceRequested := b, u_serviceCp := cp\<rparr>))))" if "Q w"
    for w s1 s2 k b cp
    by (rule ofExtensionD [OF assms(1) that]) simp_all
  show ?thesis
    unfolding completeService_def Let_def by (intro after q) simp_all
qed

lemma restoreCheckpoint_extension:
  assumes "ofExtension Q" and "classKeeps Q c" and "Q u"
  shows "Q (snd (restoreCheckpointState c st u))"
proof -
  obtain ok a where b: "uc_restoreBehavior c (jtoObject (jget st ''behavior'')) u = (ok, a)"
    by fastforce
  have q: "Q a"
    using assms(2,3) b unfolding classKeeps_def by (metis snd_conv)
  have same: "Q w" if "Unit.more w = Unit.more a" "u_kind w = u_kind a" for w
    by (rule ofExtensionD [OF assms(1) q that])
  define d where "d = (restoreValues st a)\<lparr>u_recentPath := map pathPoint (jtoArray (jget st ''recentPath'')),
     u_lastSampleTime := jtoDouble (-1) (jget st ''lastSampleTime'')\<rparr>"
  obtain fine e where r: "restoreRuntimeState (jtoObject (jget st ''runtimeState'')) d = (fine, e)"
    by fastforce
  then have "e = snd (restoreRuntimeState (jtoObject (jget st ''runtimeState'')) d)"
    by simp
  then have e: "Unit.more e = Unit.more a" "u_kind e = u_kind a"
    by (simp_all add: d_def)
  have "Q (restoreValues st a)" "Q e" "Q (restoreTail st e)"
    using e by (auto intro: same)
  then show ?thesis
    using assms(3) q b r by (simp add: restoreCheckpointState_def Let_def d_def [symmetric])
qed

lemma handleMessage_extension:
  assumes "ofExtension Q" and "classKeeps Q c" and "Q u"
  shows "Q (handleMessage c now m u)"
proof -
  have q: "Q w" "Q (uc_onMessage c m w)" if "Unit.more w = Unit.more u" "u_kind w = u_kind u" for w
    using assms(2) ofExtensionD [OF assms(1,3) that] by (simp_all add: classKeeps_def)
  have branch: "(P \<Longrightarrow> Q x) \<Longrightarrow> (\<not> P \<Longrightarrow> Q y) \<Longrightarrow> Q (if P then x else y)" for P x y
    by simp
  show ?thesis
    unfolding handleMessage_def Let_def by (intro branch q) simp_all
qed

lemma advance_extension:
  assumes "ofExtension Q" and "classKeeps Q c" and "Q u"
  shows "Q (advanceRuntimeState c dt v u)" "Q (snd (advanceService c dt u))"
proof -
  have same: "Q w" if "Unit.more w = Unit.more u" "u_kind w = u_kind u" for w
    by (rule ofExtensionD [OF assms(1,3) that])
  have noted: "Q (signal s w)" if "Q w" for s w
    by (rule ofExtensionD [OF assms(1) that]) simp_all
  have branch: "(P \<Longrightarrow> Q x) \<Longrightarrow> (\<not> P \<Longrightarrow> Q y) \<Longrightarrow> Q (if P then x else y)" for P x y
    by simp
  show "Q (advanceRuntimeState c dt v u)"
    unfolding advanceRuntimeState_def Let_def
    by (intro branch noted burnFuel_extension [OF assms(1,2)] same) (simp_all add: assms)
  have "Q (completeService c (u\<lparr>u_serviceElapsed := e\<rparr>))" "Q (u\<lparr>u_serviceElapsed := e\<rparr>)" for e
    by (auto intro!: completeService_extension [OF assms(1,2)] same)
  then show "Q (snd (advanceService c dt u))"
    using assms(3) noted by (simp add: advanceService_def Let_def)
qed

lemma unit_call_extension:
  assumes "ofExtension Q" and "classKeeps Q c" and "Q u"
  shows "Q (unit_call c call u)"
proof -
  have same: "Q w" if "Unit.more w = Unit.more u" "u_kind w = u_kind u" for w
    by (rule ofExtensionD [OF assms(1,3) that])
  show ?thesis
    by (cases call) (simp_all add: same advance_extension [OF assms] handleMessage_extension [OF assms]
        restoreCheckpoint_extension [OF assms])
qed

section \<open>The invariant\<close>

definition routeOk :: "'a MobileUnit_scheme \<Rightarrow> bool" where
  "routeOk u \<longleftrightarrow> 0 \<le> mu_wpIdx u \<and> (if mu_waypoints u = [] then mu_wpIdx u = 0 else mu_wpIdx u < int (length (mu_waypoints u)))"

definition mobileOk :: "'a MobileUnit_scheme \<Rightarrow> bool" where
  "mobileOk u \<longleftrightarrow> unitOk u \<and> routeOk u \<and> mu_state u \<in> mobileStates (u_kind u)"

lemma extension_fields:
  fixes u v :: "'a MobileUnit_scheme"
  assumes "Unit.more u = Unit.more v"
  shows "mu_waypoints u = mu_waypoints v" "mu_wpIdx u = mu_wpIdx v" "mu_state u = mu_state v"
  using assms by (cases u; cases v; simp)+

lemma mobile_fields [simp]: "mu_waypoints (setStatus s u) = mu_waypoints u" "mu_wpIdx (setStatus s u) = mu_wpIdx u"
  "mu_state (setStatus s u) = mu_state u" "mu_waypoints (setPosition p u) = mu_waypoints u" "mu_wpIdx (setPosition p u) = mu_wpIdx u"
  "mu_state (setPosition p u) = mu_state u" "mu_waypoints (setHasActiveWaypoints b u) = mu_waypoints u"
  "mu_wpIdx (setHasActiveWaypoints b u) = mu_wpIdx u" "mu_state (setHasActiveWaypoints b u) = mu_state u"
  by (simp_all add: extension_fields [of "setStatus s u" u] extension_fields [of "setPosition p u" u]
      extension_fields [of "setHasActiveWaypoints b u" u])

lemma enterWith_fields [simp]: "mu_waypoints (enterWith b s u) = mu_waypoints u" "mu_wpIdx (enterWith b s u) = mu_wpIdx u"
  "mu_state (enterWith b s u) = mu_state u" "u_kind (enterWith b s u) = u_kind u"
  by (simp_all add: enterWith_def)

lemma unitOk_extension [simp]: "unitOk (u\<lparr>mu_waypoints := ws\<rparr>) = unitOk u" "unitOk (u\<lparr>mu_wpIdx := i\<rparr>) = unitOk u"
  "unitOk (u\<lparr>mu_state := s\<rparr>) = unitOk u" "unitOk (enterWith b s u) = unitOk u" "unitOk (noWaypoints u) = unitOk u"
  by (simp_all add: enterWith_def noWaypoints_def) (simp_all add: unit_ok_defs)

lemma noWaypoints_fields [simp]: "mu_waypoints (noWaypoints u) = []" "mu_wpIdx (noWaypoints u) = 0" "u_kind (noWaypoints u) = u_kind u"
  "mu_state (noWaypoints u) = mu_state u"
  by (simp_all add: noWaypoints_def)

lemma moveTowards_keeps [simp]: "unitOk (moveTowards r dt q u) = unitOk u" "u_kind (moveTowards r dt q u) = u_kind u"
  "mu_waypoints (moveTowards r dt q w) = mu_waypoints w" "mu_wpIdx (moveTowards r dt q w) = mu_wpIdx w"
  by (simp_all add: moveTowards_def Let_def)

definition onRoute :: "UnitKind \<Rightarrow> 'a MobileUnit_scheme \<Rightarrow> bool" where
  "onRoute k u \<longleftrightarrow> unitOk u \<and> routeOk u \<and> u_kind u = k"

lemma stepMotion_onRoute: "onRoute k u \<Longrightarrow> onRoute k (fst (stepMotion sqroot s dt u))"
  by (auto simp add: stepMotion_def Let_def onRoute_def routeOk_def)

lemma onRoute_call:
  assumes "onRoute k u"
  shows "onRoute k (mobileGoTo sqroot s u)" "onRoute k (withFsm sqroot (tick dt) u)"
  by (rule withFsm_keeps [of "onRoute k", OF _ _ stepMotion_onRoute _ assms];
      simp add: onRoute_def routeOk_def)+

lemma unregistered: "m_states (mobileFsm sqroot k) s = None \<longleftrightarrow> s \<notin> mobileStates k"
  using registered [of sqroot k s] by blast

lemma mobileGoTo_state: "mu_state (mobileGoTo sqroot s u) = (if s \<in> mobileStates (u_kind u) then s else mu_state u)"
proof -
  let ?x = "((mobileFsm sqroot (u_kind u))\<lparr>m_current := mu_state u, m_initialized := True\<rparr>, u)"
  have "mu_state (mobileGoTo sqroot s u) = m_current (fst (goTo s ?x))"
    by (cases "goTo s ?x") (simp add: mobileGoTo_def withFsm_def)
  then show ?thesis
    by (simp add: goTo_current unregistered)
qed

lemma mobileGoTo_route [simp]: "mu_waypoints (mobileGoTo sqroot s u) = mu_waypoints u" "mu_wpIdx (mobileGoTo sqroot s u) = mu_wpIdx u"
  "u_kind (mobileGoTo sqroot s u) = u_kind u"
  by (simp_all add: mobileGoTo_def withFsm_def goTo_def mobileFsm_states runOptional_def Let_def split: option.splits)

lemma tick_state:
  assumes "mu_state u \<in> mobileStates (u_kind u)"
  shows "mu_state (withFsm sqroot (tick dt) u) \<in> mobileStates (u_kind u)"
proof -
  let ?x = "((mobileFsm sqroot (u_kind u))\<lparr>m_current := mu_state u, m_initialized := True\<rparr>, u)"
  have "fsm_ok (fst ?x)"
    using assms registered [of sqroot "u_kind u" "mu_state u"] by (simp add: fsm_ok_def)
  then have ok: "fsm_ok (fst (tick dt ?x))"
    by (rule tick_ok)
  have st: "m_states (fst (fold goTo ss x)) = m_states (fst x) \<and> m_initialized (fst (fold goTo ss x)) = m_initialized (fst x)"
    for ss and x :: "'a MobileUnit_scheme Fsm \<times> 'a MobileUnit_scheme"
    by (induction ss arbitrary: x) simp_all
  have tr: "m_states (fst (takeTransition x)) = m_states (fst x) \<and> m_initialized (fst (takeTransition x)) = m_initialized (fst x)"
    for x :: "'a MobileUnit_scheme Fsm \<times> 'a MobileUnit_scheme"
    by (cases x) (simp add: takeTransition_def split: option.splits)
  have "m_states (fst (tick dt ?x)) = m_states (fst ?x) \<and> m_initialized (fst (tick dt ?x)) = m_initialized (fst ?x)"
    using tr [of ?x] st by (auto simp add: tick_def split: option.splits prod.splits)
  then have t: "m_states (fst (tick dt ?x)) = m_states (mobileFsm sqroot (u_kind u))" "m_initialized (fst (tick dt ?x))"
    by simp_all
  have "m_states (mobileFsm sqroot (u_kind u) :: 'a MobileUnit_scheme Fsm) (m_current (fst (tick dt ?x))) \<noteq> None"
    using ok [unfolded fsm_ok_def, rule_format, OF t(2)] unfolding t(1) .
  then have "m_current (fst (tick dt ?x)) \<in> mobileStates (u_kind u)"
    unfolding registered .
  then show ?thesis
    by (cases "tick dt ?x") (simp add: withFsm_def)
qed

lemma mobileOk_alt: "mobileOk u \<longleftrightarrow> onRoute (u_kind u) u \<and> mu_state u \<in> mobileStates (u_kind u)"
  by (auto simp add: mobileOk_def onRoute_def)

lemma mobileGoTo_ok: "onRoute (u_kind u) u \<Longrightarrow> mu_state u \<in> mobileStates (u_kind u) \<Longrightarrow> mobileOk (mobileGoTo sqroot s u)"
  using onRoute_call(1) [of "u_kind u" u sqroot s] by (simp add: mobileOk_alt mobileGoTo_state)

lemma mobileTick_ok: "mobileOk u \<Longrightarrow> mobileOk (mobileTick sqroot dt u)"
  using onRoute_call(2) [of "u_kind u" u sqroot dt] tick_state [of u sqroot dt]
  by (simp add: mobileTick_def mobileOk_alt) (auto simp add: onRoute_def routeOk_def)

text \<open>The class the base operations see.\<close>

lemma goTo_unitOk: "unitOk u \<Longrightarrow> unitOk (mobileGoTo sqroot s u)"
  by (rule withFsm_keeps(1) [of unitOk sqroot]) (auto simp add: stepMotion_def Let_def)

lemma setRoute_parts [simp]: "unitOk (route ws u) = unitOk u" "u_kind (route ws u) = u_kind u" "mu_waypoints (route ws u) = ws"
  "mu_wpIdx (route ws u) = 0" "mu_state (route ws u) = mu_state u"
  by (simp_all add: route_def)

lemma onMobileMessage_unitOk: "unitOk u \<Longrightarrow> unitOk (onMobileMessage sqroot m u)"
  by (simp add: onMobileMessage_def Let_def goTo_unitOk clearSchedule_ok cancelService_ok requestService_def)

lemma scoutMessage_unitOk: "unitOk u \<Longrightarrow> unitOk (scoutMessage sqroot m u)"
  by (simp add: scoutMessage_def Let_def onMobileMessage_unitOk)

lemma mobileClass_ok: "classOk (mobileClass sqroot k)"
  by (simp add: classOk_def mobileClass_def cancelWaypointMotion_def goTo_unitOk onMobileMessage_unitOk scoutMessage_unitOk
      restoreMobileBehavior_def Let_def)

text \<open>What the base operations do not see: the route and the state.\<close>

definition plotted :: "'a MobileUnit_scheme \<Rightarrow> bool" where
  "plotted u \<longleftrightarrow> routeOk u \<and> mu_state u \<in> mobileStates (u_kind u)"

lemma plotted_extension: "ofExtension plotted"
  unfolding ofExtension_def plotted_def routeOk_def by (metis extension_fields)

lemma plotted_goTo: "plotted u \<Longrightarrow> plotted (mobileGoTo sqroot s u)"
  by (simp add: plotted_def routeOk_def mobileGoTo_state)

lemma plotted_frame:
  assumes "plotted u" and "Unit.more v = Unit.more u" and "u_kind v = u_kind u"
  shows "plotted v"
  by (rule ofExtensionD [OF plotted_extension assms])

lemma plotted_simps [simp]: "plotted (setStatus s u) = plotted u" "plotted (clearSchedule u) = plotted u"
  "plotted (setHasActiveWaypoints b u) = plotted u" "plotted (rememberShared k v u) = plotted u" "plotted (cancelService u) = plotted u"
  "plotted (requestService b u) = plotted u"
  by (auto intro: plotted_frame)

lemma plotted_route: "plotted u \<Longrightarrow> plotted (route ws u)" "plotted u \<Longrightarrow> plotted (noWaypoints u)"
  by (simp_all add: plotted_def routeOk_def)

lemma onMobileMessage_plotted: "plotted u \<Longrightarrow> plotted (onMobileMessage sqroot m u)"
  by (simp add: onMobileMessage_def Let_def plotted_goTo plotted_route)

lemma mobileClass_plotted: "classKeeps plotted (mobileClass sqroot k)"
proof -
  have "plotted (snd (restoreMobileBehavior sqroot s u))" if "plotted u" for s and u :: "'a MobileUnit_scheme"
  proof -
    have "plotted (u\<lparr>mu_waypoints := ws, mu_wpIdx := i\<rparr>)"
      if "\<not> (ws \<noteq> [] \<and> (i < 0 \<or> int (length ws) \<le> i) \<or> ws = [] \<and> i \<noteq> 0)" for ws i
      using \<open>plotted u\<close> that by (auto simp add: plotted_def routeOk_def)
    then show ?thesis
      using that by (simp add: restoreMobileBehavior_def Let_def plotted_goTo)
  qed
  then show ?thesis
    by (simp add: classKeeps_def mobileClass_def cancelWaypointMotion_def plotted_goTo plotted_route onMobileMessage_plotted
        scoutMessage_def Let_def)
qed

section \<open>Runs\<close>

datatype MobileCall = UnitOp UnitCall | TickCall rat | RouteCall "(rat \<times> rat) list" | ClearCall | GuideCall string string "rat \<times> rat"

fun mobile_call :: "(rat \<Rightarrow> rat) \<Rightarrow> UnitKind \<Rightarrow> MobileCall \<Rightarrow> 'a MobileUnit_scheme \<Rightarrow> 'a MobileUnit_scheme" where
  "mobile_call sqroot k (UnitOp call) u = unit_call (mobileClass sqroot k) call u"
| "mobile_call sqroot k (TickCall dt) u = mobileTick sqroot dt u"
| "mobile_call sqroot k (RouteCall ws) u = setRoute sqroot ws u"
| "mobile_call sqroot k ClearCall u = clearPatrol sqroot u"
| "mobile_call sqroot k (GuideCall a t q) u = snd (guideAttack a t q u)"

fun mobile_guard :: "'a MobileUnit_scheme \<Rightarrow> MobileCall \<Rightarrow> bool" where
  "mobile_guard u (UnitOp call) \<longleftrightarrow> unit_guard u call"
| "mobile_guard u _ \<longleftrightarrow> True"

lemma mobileOk_split: "mobileOk u \<longleftrightarrow> unitOk u \<and> plotted u"
  by (auto simp add: mobileOk_def plotted_def)

lemma mobile_call_ok:
  assumes "mobileOk u" and "mobile_guard u call"
  shows "mobileOk (mobile_call sqroot k call u)"
proof (cases call)
  case (UnitOp c)
  then show ?thesis
    using assms unit_call_ok [OF mobileClass_ok, of u c sqroot k]
      unit_call_extension [OF plotted_extension mobileClass_plotted, of u sqroot k c]
    by (simp add: mobileOk_split)
next
  case (TickCall dt)
  then show ?thesis
    using mobileTick_ok [OF assms(1)] by simp
qed (use assms in \<open>simp_all add: mobileOk_split setRoute_def clearPatrol_def guideAttack_def goTo_unitOk plotted_goTo plotted_route\<close>)

interpretation mobile: invariant_kept mobileOk mobile_guard "mobile_call sqroot k" for sqroot k
  by unfold_locales (rule mobile_call_ok)

lemma unitOk_extend: "unitOk (Unit.extend u m) = unitOk u"
  by (simp add: Unit.extend_def unit_ok_defs)

lemma mobileFsm_new: "\<not> m_initialized (mobileFsm sqroot k)"
  by (simp add: mobileFsm_def Let_def addState_def addTransition_def emptyFsm_def)

lemma mobileUnit_eq: "mobileUnit sqroot i k side =
    (enterWith False (idleStatus k) (setStatus (startStatus k) (Unit.extend (newUnit i k side) (MobileUnit.fields [] 0 []))))
      \<lparr>mu_state := ''idle''\<rparr>"
  by (simp add: mobileUnit_def Let_def setInitialState_def mobileFsm_new mobileFsm_states runOptional_def movingState_new(1) [symmetric])

lemma extended_route: "mu_waypoints (Unit.extend u (MobileUnit.fields ws i s)) = ws" "mu_wpIdx (Unit.extend u (MobileUnit.fields ws i s)) = i"
  "mu_state (Unit.extend u (MobileUnit.fields ws i s)) = s"
  by (simp_all add: Unit.extend_def MobileUnit.fields_def)

lemma mobileUnit_ok: "mobileOk (mobileUnit sqroot i k side)"
  unfolding mobileUnit_eq
  by (simp add: mobileOk_def unitOk_extend newUnit_ok routeOk_def mobileStates_def extended_route)

text \<open>C24. Whatever a moving unit goes through, ticks, orders, routes, operations of the base class and restored states and
  checkpoints of any content, in any order, as long as its parameters have a positive full health: it stays in the bounds
  of every unit, its state machine in one of its four states and the waypoint index inside the route.\<close>

theorem mobile_invariant:
  assumes "obeys mobile_guard (mobile_call sqroot k) calls (mobileUnit sqroot i k side)"
  shows "mobileOk (fold (mobile_call sqroot k) calls (mobileUnit sqroot i k side))"
  by (rule mobile.run_ok [OF mobileUnit_ok assms])

lemma mobile_invariant_witness:
  "mobileOk (fold (mobile_call (\<lambda>x. x) ReconUAV) [UnitOp (ConfigureFuel 100 50 30), RouteCall [(500, 0), (0, 0)], TickCall 1,
     UnitOp (MessageCall ''now'' (emptyMessage\<lparr>msg_type := THalt\<rparr>)), TickCall 2] (mobileUnit (\<lambda>x. x) ''u'' ReconUAV Red))"
  by (rule mobile_invariant) simp

section \<open>The checkpoint\<close>







section \<open>Motion\<close>

definition place :: "'a Unit_scheme \<Rightarrow> rat \<times> rat" where
  "place u = (gp_x (pa_pos (u_params u)), gp_y (pa_pos (u_params u)))"

lemma moved_fields [simp]: "pa_pos (u_params (setPosition p u)) = p" "pa_speed (u_params (setPosition p u)) = pa_speed (u_params u)"
  "alive (setPosition p u) = alive u" "hasUsableFuel (setPosition p u) = hasUsableFuel u"
  by (simp_all add: setPosition_def busPosition_def) (simp_all add: hasUsableFuel_def signal_def alive_def)

lemma status_fields [simp]: "u_params (setStatus s u) = u_params u" "alive (setStatus s u) = alive u"
  "hasUsableFuel (setStatus s u) = hasUsableFuel u" "u_params (setHasActiveWaypoints b u) = u_params u"
  "alive (setHasActiveWaypoints b u) = alive u" "hasUsableFuel (setHasActiveWaypoints b u) = hasUsableFuel u"
  by (simp_all add: setStatus_def setHasActiveWaypoints_def signal_def hasUsableFuel_def alive_def)

lemma state_unit [simp]: "alive (u\<lparr>mu_state := s\<rparr>) = alive u" "hasUsableFuel (u\<lparr>mu_state := s\<rparr>) = hasUsableFuel u"
  by (simp_all add: hasUsableFuel_def alive_def)

lemma noWaypoints_unit [simp]: "u_params (noWaypoints u) = u_params u" "alive (noWaypoints u) = alive u"
  "hasUsableFuel (noWaypoints u) = hasUsableFuel u"
  by (simp_all add: noWaypoints_def hasUsableFuel_def alive_def)

text \<open>Without fuel a tick moves nothing.\<close>

lemma no_fuel_no_motion:
  assumes "\<not> hasUsableFuel u"
  shows "pa_pos (u_params (mobileTick sqroot dt u)) = pa_pos (u_params u)"
proof -
  define P where "P = (\<lambda>w :: 'a MobileUnit_scheme. \<not> hasUsableFuel w \<and> pa_pos (u_params w) = pa_pos (u_params u))"
  have "P (withFsm sqroot (tick dt) u)"
    by (rule withFsm_keeps(2) [of P sqroot])
      (use assms in \<open>simp_all add: P_def enterWith_def stepMotion_def Let_def\<close>)
  then show ?thesis
    by (simp add: P_def mobileTick_def)
qed

text \<open>A tick in the idle state changes nothing.\<close>

lemma idle_tick:
  assumes "mu_state u = ''idle''"
  shows "withFsm sqroot (tick dt) u = u"
  using assms by (simp add: withFsm_def tick_def takeTransition_def mobileFsm_states movingState_new(1) [symmetric])

lemma moving_tick:
  assumes "mu_state u = movingState (u_kind u)" and "mu_waypoints u \<noteq> []"
  shows "withFsm sqroot (tick dt) u =
     (let (w, r) = stepMotion sqroot (movingState (u_kind u)) dt u;
          (fsm, v) = fold goTo r ((mobileFsm sqroot (u_kind u))\<lparr>m_current := movingState (u_kind u), m_initialized := True\<rparr>, w)
      in v\<lparr>mu_state := m_current fsm\<rparr>)"
  using assms
  by (simp add: withFsm_def tick_def takeTransition_def mobileFsm_states enabled_def Let_def case_prod_beta)

definition arrived :: "rat \<times> rat \<Rightarrow> 'a MobileUnit_scheme \<Rightarrow> bool" where
  "arrived q u \<longleftrightarrow> place u = q \<and> mu_state u = ''idle'' \<and> mu_waypoints u = [] \<and> alive u"

lemma arrived_tick: "arrived q u \<Longrightarrow> mobileTick sqroot dt u = u"
  by (simp add: arrived_def mobileTick_def idle_tick)

lemma last_leg:
  assumes "alive u" and "hasUsableFuel u" and "mu_state u = movingState (u_kind u)" and "mu_waypoints u = [q]" and "mu_wpIdx u = 0"
    and "sqroot (squaredTo q u) < snapThreshold"
  shows "arrived q (mobileTick sqroot dt u)"
proof -
  let ?a = "setHasActiveWaypoints False (noWaypoints (setPosition \<lparr>gp_x = fst q, gp_y = snd q, gp_alt = gp_alt (pa_pos (u_params u))\<rparr> u))"
  have "stepMotion sqroot (movingState (u_kind u)) dt u = (?a, [''idle''])"
    using assms(2,4-6) by (simp add: stepMotion_def Let_def afterLast_def)
  then have "mobileTick sqroot dt u = (enterWith False (idleStatus (u_kind u)) ?a)\<lparr>mu_state := ''idle''\<rparr>"
    using assms(1,3,4) by (simp add: mobileTick_def moving_tick goTo_def mobileFsm_states runOptional_def movingState_new(1) [symmetric])
  then show ?thesis
    using assms(1) by (cases q) (simp add: arrived_def place_def enterWith_def)
qed

lemma one_leg:
  assumes "alive u" and "hasUsableFuel u" and "mu_state u = movingState (u_kind u)" and "mu_waypoints u = [q]" and "mu_wpIdx u = 0"
    and "\<not> sqroot (squaredTo q u) < snapThreshold"
  shows "mobileTick sqroot dt u = (moveTowards sqroot dt q u)\<lparr>mu_state := movingState (u_kind u)\<rparr>"
proof -
  have "stepMotion sqroot (movingState (u_kind u)) dt u = (moveTowards sqroot dt q u, [])"
    using assms(2,4-6) by (simp add: stepMotion_def Let_def)
  then show ?thesis
    using assms(1,3,4) by (simp add: mobileTick_def moving_tick)
qed

text \<open>The points between \<open>p\<close> and \<open>q\<close>.\<close>

definition between :: "rat \<times> rat \<Rightarrow> rat \<times> rat \<Rightarrow> rat \<times> rat \<Rightarrow> bool" where
  "between p q x \<longleftrightarrow> (\<exists>s. 0 \<le> s \<and> s \<le> 1 \<and> x = (fst p + (fst q - fst p) * s, snd p + (snd q - snd p) * s))"

lemma between_ends: "between p q p" "between p q q"
  unfolding between_def by (rule exI [of _ 0], simp) (rule exI [of _ 1], simp)

lemma between_further:
  assumes "between p q x" and "0 \<le> t" and "t \<le> 1"
  shows "between p q (fst x + (fst q - fst x) * t, snd x + (snd q - snd x) * t)"
proof -
  obtain s where s: "0 \<le> s" "s \<le> 1" "x = (fst p + (fst q - fst p) * s, snd p + (snd q - snd p) * s)"
    using assms(1) unfolding between_def by blast
  have "0 \<le> (1 - s) * t" "(1 - s) * t \<le> 1 - s"
    using s assms(2,3) by (simp_all add: mult_left_le)
  then show ?thesis
    unfolding between_def s(3) using s(1) by (intro exI [of _ "s + (1 - s) * t"]) (simp add: algebra_simps)
qed

text \<open>The root is exact or rounded down: it does not exceed a number whose square is not exceeded.\<close>

definition rootBelow :: "(rat \<Rightarrow> rat) \<Rightarrow> bool" where
  "rootBelow sqroot \<longleftrightarrow> (\<forall>x r. 0 \<le> r \<longrightarrow> x \<le> r * r \<longrightarrow> sqroot x \<le> r)"

text \<open>A step goes along the straight line, never past the waypoint, and shortens the distance by its length.\<close>

lemma moveTowards_step:
  assumes "rootBelow sqroot" and "squaredTo q u \<le> D * D" and "0 \<le> D" and "\<not> sqroot (squaredTo q u) < snapThreshold"
    and "0 \<le> pa_speed (u_params u) * dt" and "between p q (place u)"
  defines "E \<equiv> max 0 (D - pa_speed (u_params u) * dt)" and "w \<equiv> moveTowards sqroot dt q u"
  shows "squaredTo q w \<le> E * E" and "between p q (place w)"
proof -
  define len where "len = pa_speed (u_params u) * dt"
  define R where "R = sqroot (squaredTo q u)"
  define t where "t = min 1 (len / R)"
  have R: "50 \<le> R" "R \<le> D"
    using assms(1-4) by (simp_all add: R_def snapThreshold_def rootBelow_def)
  have r: "max 1 (sqroot (squaredTo q u)) = R"
    using R(1) by (simp add: R_def)
  let ?p = "pa_pos (u_params u)"
  have m: "w = setPosition \<lparr>gp_x = gp_x ?p + (fst q - gp_x ?p) * t, gp_y = gp_y ?p + (snd q - gp_y ?p) * t, gp_alt = gp_alt ?p\<rparr> u"
    unfolding w_def moveTowards_def Let_def r t_def len_def ..
  have t: "0 \<le> t" "t \<le> 1"
    using R(1) assms(5) by (simp_all add: t_def len_def)
  show "between p q (place w)"
    using between_further [OF assms(6) t] by (simp add: m place_def)
  have sq: "squaredTo q w = (1 - t) * (1 - t) * squaredTo q u"
    by (simp add: m squaredTo_def algebra_simps)
  have e: "0 \<le> (1 - t) * D" "(1 - t) * D \<le> E"
  proof -
    show "0 \<le> (1 - t) * D"
      using t assms(3) by simp
    show "(1 - t) * D \<le> E"
    proof (cases "len \<le> R")
      case True
      have "len * R \<le> len * D"
        using R(2) assms(5) by (simp add: len_def mult_left_mono)
      then have "len \<le> len / R * D"
        using R(1) by (simp add: field_simps)
      moreover have "t = len / R"
        using True R(1) by (simp add: t_def min_def)
      ultimately show ?thesis
        unfolding E_def len_def [symmetric] by (simp add: left_diff_distrib)
    next
      case False
      then have "t = 1"
        using R(1) by (simp add: t_def min_def)
      then show ?thesis
        by (simp add: E_def)
    qed
  qed
  have "squaredTo q w \<le> (1 - t) * (1 - t) * (D * D)"
    unfolding sq using t assms(2) by (intro mult_left_mono) simp_all
  also have "\<dots> = ((1 - t) * D) * ((1 - t) * D)"
    by (simp add: algebra_simps)
  also have "\<dots> \<le> E * E"
    using e by (intro mult_mono) simp_all
  finally show "squaredTo q w \<le> E * E" .
qed

lemma moved_values [simp]: "alive (moveTowards r dt q u) = alive u" "hasUsableFuel (moveTowards r dt q u) = hasUsableFuel u"
  "pa_speed (u_params (moveTowards r dt q u)) = pa_speed (u_params u)"
  by (simp_all add: moveTowards_def Let_def)

section \<open>Fuel on the way\<close>

text \<open>No tick burns more than this for each second.\<close>

definition maxBurn :: "'a Unit_scheme \<Rightarrow> rat" where
  "maxBurn u = u_fuelIdle u + 3 * u_fuelMove u + 1 / 10 ^ 9"

lemma burnRate_le:
  assumes "0 \<le> u_fuelIdle u" "0 \<le> u_fuelMove u"
  shows "burnRate v u \<le> maxBurn u"
proof -
  define raw where "raw = u_fuelIdle u + u_fuelMove u * min 3 ((max 0 v / max (1 / 10 ^ 6) (u_economySpeed u)) * (max 0 v / max (1 / 10 ^ 6) (u_economySpeed u)))"
  have raw: "0 \<le> raw" "raw \<le> u_fuelIdle u + 3 * u_fuelMove u"
  proof -
    show "0 \<le> raw"
      using assms by (simp add: raw_def)
    have "u_fuelMove u * min 3 y \<le> u_fuelMove u * 3" for y :: rat
      using assms(2) by (intro mult_left_mono) simp_all
    then show "raw \<le> u_fuelIdle u + 3 * u_fuelMove u"
      unfolding raw_def by (simp add: mult.commute)
  qed
  have "of_int (roundAway (raw * 10 ^ 9)) \<le> raw * 10 ^ 9 + 1 / 2"
    using raw(1) of_int_floor_le [of "raw * 10 ^ 9 + 1 / 2"] by (simp add: roundAway_def)
  then have "of_int (roundAway (raw * 10 ^ 9)) / 10 ^ 9 \<le> (raw * 10 ^ 9 + 1 / 2) / (10 ^ 9 :: rat)"
    by (rule divide_right_mono) simp
  then have "burnRate v u \<le> (raw * 10 ^ 9 + 1 / 2) / 10 ^ 9"
    by (simp only: burnRate_def Let_def raw_def [symmetric])
  then show ?thesis
    using raw(2) unfolding maxBurn_def by simp
qed

text \<open>What matters for the motion stays.\<close>

definition sameMotion :: "'a Unit_scheme \<Rightarrow> 'a Unit_scheme \<Rightarrow> bool" where
  "sameMotion u w \<longleftrightarrow> u_params w = u_params u \<and> Unit.more w = Unit.more u \<and> u_kind w = u_kind u \<and> u_hp w = u_hp u
     \<and> u_fuelIdle w = u_fuelIdle u \<and> u_fuelMove w = u_fuelMove u"

lemma sameMotion_trans: "sameMotion u v \<Longrightarrow> sameMotion v w \<Longrightarrow> sameMotion u w"
  by (simp add: sameMotion_def)

lemma burnFuel_motion:
  assumes "0 \<le> u_fuelIdle u" "0 \<le> u_fuelMove u" "0 < dt" "maxBurn u * dt < u_fuelRemaining u"
  shows "sameMotion u (burnFuel c dt v u)" "u_fuelRemaining u - maxBurn u * dt \<le> u_fuelRemaining (burnFuel c dt v u)"
proof -
  have "burnRate v u * dt \<le> maxBurn u * dt"
    using burnRate_le [OF assms(1,2)] assms(3) by (simp add: mult_right_mono)
  then have f: "max 0 (u_fuelRemaining u - burnRate v u * dt) = u_fuelRemaining u - burnRate v u * dt"
    "0 < u_fuelRemaining u - burnRate v u * dt" "u_fuelRemaining u - maxBurn u * dt \<le> u_fuelRemaining u - burnRate v u * dt"
    using assms(4) by simp_all
  then show "sameMotion u (burnFuel c dt v u)" "u_fuelRemaining u - maxBurn u * dt \<le> u_fuelRemaining (burnFuel c dt v u)"
    by (simp_all add: burnFuel_def Let_def f(1) not_le [symmetric] sameMotion_def signal_def)
qed

lemma advance_motion:
  assumes "0 \<le> u_fuelIdle u" "0 \<le> u_fuelMove u" "0 < dt" "maxBurn u * dt < u_fuelRemaining u"
  shows "sameMotion u (advanceRuntimeState c dt v u)"
    "u_fuelRemaining u - maxBurn u * dt \<le> u_fuelRemaining (advanceRuntimeState c dt v u)"
proof -
  define a where "a = u\<lparr>u_counter := (u_counter u)\<lparr>ab_cooldownRemaining := coolDown dt (ab_cooldownRemaining (u_counter u))\<rparr>,
     u_scan := (u_scan u)\<lparr>ab_cooldownRemaining := coolDown dt (ab_cooldownRemaining (u_scan u))\<rparr>,
     u_repairCooldown := coolDown dt (u_repairCooldown u)\<rparr>"
  have a: "sameMotion u a" "u_fuelRemaining a = u_fuelRemaining u" "maxBurn a = maxBurn u"
    by (simp_all add: a_def sameMotion_def maxBurn_def)
  have i: "0 \<le> u_fuelIdle a" "0 \<le> u_fuelMove a" "maxBurn a * dt < u_fuelRemaining a"
    using assms by (simp_all add: a) (simp_all add: a_def)
  note b = burnFuel_motion [OF i(1,2) assms(3) i(3), of c v]
  define b where "b = (if unitMovable a \<and> u_kind a \<noteq> CommandPost \<and> 0 < u_fuelCapacity a then burnFuel c dt v a else a)"
  have m: "0 \<le> maxBurn u * dt"
    using assms(1-3) by (simp add: maxBurn_def)
  have "sameMotion a a" by (simp add: sameMotion_def)
  then have b: "sameMotion a b" "u_fuelRemaining u - maxBurn u * dt \<le> u_fuelRemaining b"
    using burnFuel_motion [OF i(1,2) assms(3) i(3), of c v] m by (simp_all add: b_def a(2,3))
  have r: "advanceRuntimeState c dt v u = signal RuntimeStateChanged b"
    using assms(3) unfolding advanceRuntimeState_def Let_def a_def [symmetric] b_def [symmetric] by simp
  have s: "sameMotion b (signal RuntimeStateChanged b)" "u_fuelRemaining (signal RuntimeStateChanged b) = u_fuelRemaining b"
    by (simp_all add: sameMotion_def signal_def)
  show "sameMotion u (advanceRuntimeState c dt v u)"
    unfolding r by (rule sameMotion_trans [OF a(1) sameMotion_trans [OF b(1) s(1)]])
  show "u_fuelRemaining u - maxBurn u * dt \<le> u_fuelRemaining (advanceRuntimeState c dt v u)"
    unfolding r s(2) by (rule b(2))
qed

lemma sample_motion: "sameMotion u (sampleRecentPath t u)" "u_fuelRemaining (sampleRecentPath t u) = u_fuelRemaining u"
  by (simp_all add: sampleRecentPath_def Let_def sameMotion_def signal_def)

text \<open>The own tick of a unit burns nothing.\<close>

lemma mobileTick_fuel:
  "u_fuelRemaining (mobileTick sqroot dt u) = u_fuelRemaining u \<and> u_fuelIdle (mobileTick sqroot dt u) = u_fuelIdle u
   \<and> u_fuelMove (mobileTick sqroot dt u) = u_fuelMove u"
proof -
  define P where "P = (\<lambda>w :: 'a MobileUnit_scheme. u_fuelRemaining w = u_fuelRemaining u \<and> u_fuelIdle w = u_fuelIdle u
     \<and> u_fuelMove w = u_fuelMove u)"
  have p: "P (setStatus s w) = P w" "P (setHasActiveWaypoints b w) = P w" "P (setPosition p w) = P w" "P (noWaypoints w) = P w"
    "P (w\<lparr>mu_wpIdx := i\<rparr>) = P w" "P (w\<lparr>mu_state := s\<rparr>) = P w" for s b p i w
    by (simp_all add: P_def setStatus_def setHasActiveWaypoints_def setPosition_def busPosition_def signal_def noWaypoints_def)
  have "P (withFsm sqroot (tick dt) u)"
  proof (rule withFsm_keeps(2) [of P sqroot])
    show "P u"
      by (simp add: P_def)
  qed (simp_all add: p enterWith_def stepMotion_def moveTowards_def Let_def)
  moreover have "P (setStatus s u)" for s
    by (simp add: p) (simp add: P_def)
  ultimately show ?thesis
    by (simp add: P_def mobileTick_def)
qed

text \<open>A tick of the engine: the unit's own tick, then values that do not matter for the motion.\<close>

lemma tickUnit_frame:
  fixes u :: "'a MobileUnit_scheme"
  assumes "0 \<le> u_fuelIdle u" "0 \<le> u_fuelMove u" "0 < dt" "maxBurn u * dt < u_fuelRemaining u"
  shows "sameMotion (mobileTick sqroot dt u) (tickUnit sqroot t dt before u)"
    "u_fuelRemaining u - maxBurn u * dt \<le> u_fuelRemaining (tickUnit sqroot t dt before u)"
    "u_fuelIdle (tickUnit sqroot t dt before u) = u_fuelIdle u" "u_fuelMove (tickUnit sqroot t dt before u) = u_fuelMove u"
proof -
  define a where "a = mobileTick sqroot dt u"
  define v where "v = sqroot (distance2 before (pa_pos (u_params a))) / dt"
  define b where "b = advanceRuntimeState (mobileClass sqroot (u_kind a)) dt v a"
  have f: "u_fuelRemaining a = u_fuelRemaining u" "u_fuelIdle a = u_fuelIdle u" "u_fuelMove a = u_fuelMove u"
    unfolding a_def by (simp_all add: mobileTick_fuel)
  then have m: "maxBurn a = maxBurn u"
    by (simp add: maxBurn_def)
  have b: "sameMotion a b" "u_fuelRemaining u - maxBurn u * dt \<le> u_fuelRemaining b"
    using advance_motion [of a dt "mobileClass sqroot (u_kind a)" v] assms unfolding f m b_def by blast+
  have t: "tickUnit sqroot t dt before u = (if alive b then sampleRecentPath t b else b)"
    using assms(3) by (simp add: tickUnit_def Let_def a_def b_def v_def)
  show s: "sameMotion (mobileTick sqroot dt u) (tickUnit sqroot t dt before u)"
    unfolding t a_def [symmetric] using b(1) sameMotion_trans [OF b(1) sample_motion(1)] by simp
  show "u_fuelRemaining u - maxBurn u * dt \<le> u_fuelRemaining (tickUnit sqroot t dt before u)"
    unfolding t using b(2) by (simp add: sample_motion(2))
  show "u_fuelIdle (tickUnit sqroot t dt before u) = u_fuelIdle u" "u_fuelMove (tickUnit sqroot t dt before u) = u_fuelMove u"
    using s f by (simp_all add: sameMotion_def a_def)
qed

section \<open>The way to a waypoint\<close>

definition enroute :: "rat \<times> rat \<Rightarrow> rat \<times> rat \<Rightarrow> rat \<Rightarrow> rat \<Rightarrow> 'a MobileUnit_scheme \<Rightarrow> bool" where
  "enroute p q D v u \<longleftrightarrow> alive u \<and> mu_state u = movingState (u_kind u) \<and> mu_waypoints u = [q] \<and> mu_wpIdx u = 0
     \<and> pa_speed (u_params u) = v \<and> squaredTo q u \<le> D * D \<and> between p q (place u)"

text \<open>On the way or there, with fuel for ticks that burn \<open>f\<close> at most.\<close>

definition onCourse :: "rat \<times> rat \<Rightarrow> rat \<times> rat \<Rightarrow> rat \<Rightarrow> rat \<Rightarrow> rat \<Rightarrow> rat \<Rightarrow> 'a MobileUnit_scheme \<Rightarrow> bool" where
  "onCourse p q v B D f u \<longleftrightarrow> (arrived q u \<or> enroute p q D v u) \<and> 0 \<le> u_fuelIdle u \<and> 0 \<le> u_fuelMove u
     \<and> maxBurn u = B \<and> tiny + f < u_fuelRemaining u"

lemma sameMotion_course:
  fixes u w :: "'a MobileUnit_scheme"
  assumes "sameMotion u w"
  shows "arrived q w = arrived q u" "enroute p q D v w = enroute p q D v u"
  using assms extension_fields [of w u] by (simp_all add: sameMotion_def arrived_def enroute_def place_def squaredTo_def alive_def)

lemma enroute_tick:
  assumes "rootBelow sqroot" and "0 \<le> v * dt" and "0 \<le> D" and "tiny < u_fuelRemaining u" and "enroute p q D v u"
  shows "arrived q (mobileTick sqroot dt u) \<or> enroute p q (max 0 (D - v * dt)) v (mobileTick sqroot dt u)"
    and "D = 0 \<Longrightarrow> arrived q (mobileTick sqroot dt u)"
proof -
  have e: "alive u" "hasUsableFuel u" "mu_state u = movingState (u_kind u)" "mu_waypoints u = [q]" "mu_wpIdx u = 0"
    "pa_speed (u_params u) = v" "squaredTo q u \<le> D * D" "between p q (place u)"
    using assms(4,5) by (simp_all add: enroute_def hasUsableFuel_def)
  have near: "arrived q (mobileTick sqroot dt u)" if "sqroot (squaredTo q u) < snapThreshold"
    using last_leg [of u q sqroot dt] e(1-5) that by simp
  have "sqroot (squaredTo q u) \<le> D"
    using assms(1,3) e(7) by (simp add: rootBelow_def)
  then show "arrived q (mobileTick sqroot dt u)" if "D = 0"
    using near that by (simp add: snapThreshold_def)
  show "arrived q (mobileTick sqroot dt u) \<or> enroute p q (max 0 (D - v * dt)) v (mobileTick sqroot dt u)"
  proof (cases "sqroot (squaredTo q u) < snapThreshold")
    case False
    note m = moveTowards_step [OF assms(1) e(7) assms(3) False assms(2) [folded e(6)] e(8)]
    have "enroute p q (max 0 (D - v * dt)) v (mobileTick sqroot dt u)"
      unfolding one_leg [of u q sqroot dt, OF e(1-5) False]
      using e m by (simp add: enroute_def squaredTo_def place_def moveTowards_def Let_def)
    then show ?thesis ..
  qed (simp add: near)
qed

lemma onCourse_tick:
  assumes "rootBelow sqroot" and "0 < dt" and "0 \<le> v * dt" and "0 \<le> D" and "0 \<le> f" and "onCourse p q v B D (B * dt + f) u"
  shows "onCourse p q v B (max 0 (D - v * dt)) f (tickUnit sqroot t dt before u)"
    and "D = 0 \<Longrightarrow> arrived q (tickUnit sqroot t dt before u)"
proof -
  have c: "0 \<le> u_fuelIdle u" "0 \<le> u_fuelMove u" "maxBurn u = B" "tiny + (B * dt + f) < u_fuelRemaining u"
    "arrived q u \<or> enroute p q D v u"
    using assms(6) by (simp_all add: onCourse_def)
  have B: "0 \<le> B * dt" "0 \<le> tiny"
    using c(1-3) assms(2) by (auto simp add: maxBurn_def tiny_def)
  then have g: "maxBurn u * dt < u_fuelRemaining u" "tiny < u_fuelRemaining u"
    using c(3,4) assms(5) by simp_all
  note w = tickUnit_frame [OF c(1,2) assms(2) g(1), of sqroot t before]
  have e: "arrived q (mobileTick sqroot dt u) \<or> enroute p q (max 0 (D - v * dt)) v (mobileTick sqroot dt u)"
    "D = 0 \<Longrightarrow> arrived q (mobileTick sqroot dt u)"
    using c(5) enroute_tick [OF assms(1,3,4) g(2), of p q] arrived_tick [of q u sqroot dt] by (elim disjE; simp)+
  show "D = 0 \<Longrightarrow> arrived q (tickUnit sqroot t dt before u)"
    using e(2) unfolding sameMotion_course(1) [OF w(1)] .
  show "onCourse p q v B (max 0 (D - v * dt)) f (tickUnit sqroot t dt before u)"
    unfolding onCourse_def sameMotion_course [OF w(1)] using e(1) c(1-4) w(2-4) by (simp add: maxBurn_def)
qed

lemma onCourse_ticks:
  assumes "rootBelow sqroot" and "0 < dt" and "0 \<le> v * dt" and "0 \<le> f"
  shows "0 \<le> D \<Longrightarrow> onCourse p q v B D (of_nat (length ts) * (B * dt) + f) u \<Longrightarrow>
    onCourse p q v B (max 0 (D - of_nat (length ts) * (v * dt))) f (tickUnits sqroot dt ts u)"
proof (induction ts arbitrary: D u)
  case Nil
  then show ?case
    by simp
next
  case (Cons t ts)
  have "0 \<le> u_fuelIdle u" "0 \<le> u_fuelMove u" "maxBurn u = B"
    using Cons.prems(2) by (simp_all add: onCourse_def)
  then have B: "0 \<le> B * dt"
    using assms(2) by (auto simp add: maxBurn_def)
  define g where "g = of_nat (length ts) * (B * dt) + f"
  have g: "0 \<le> g" "of_nat (length (t # ts)) * (B * dt) + f = B * dt + g"
    using B assms(4) by (simp_all add: g_def distrib_right)
  have c: "onCourse p q v B D (B * dt + g) u"
    using Cons.prems(2) unfolding g(2) .
  define y where "y = of_nat (length ts) * (v * dt)"
  have y: "0 \<le> y" "of_nat (length (t # ts)) * (v * dt) = v * dt + y"
    using assms(3) by (simp_all add: y_def distrib_right)
  have "max 0 (max 0 (D - v * dt) - y) = max 0 (D - (v * dt + y))"
    using y(1) by (simp add: max_def)
  then show ?case
    using Cons.IH [OF _ onCourse_tick(1) [OF assms(1-3) Cons.prems(1) g(1) c, unfolded g_def]]
    unfolding y(2) by (simp add: y_def)
qed

lemma tickUnits_append: "tickUnits sqroot dt (ts @ [t]) u =
    tickUnit sqroot t dt (pa_pos (u_params (tickUnits sqroot dt ts u))) (tickUnits sqroot dt ts u)"
  by (induction ts arbitrary: u) simp_all

text \<open>C30. A moving unit with one waypoint left, speed and burn rates not negative, and fuel for the flight goes straight
  to it: after any number of ticks of the engine, which also burn fuel, it is between its start and the waypoint, and when the ticks but one are enough for the
  distance at its speed, it stands exactly on the waypoint, idle and without a route. The root is exact or rounded down; the
  fuel has to be enough for the highest burn rate; nobody else gives the unit orders, jams it or damages it.\<close>

theorem waypoint_reached:
  assumes "rootBelow sqroot" and "alive u" and "mu_state u = movingState (u_kind u)" and "mu_waypoints u = [q]" and "mu_wpIdx u = 0"
    and "0 < dt" and "0 \<le> pa_speed (u_params u)" and "0 \<le> u_fuelIdle u" and "0 \<le> u_fuelMove u"
    and "tiny + of_nat (length ts) * (maxBurn u * dt) < u_fuelRemaining u"
    and "squaredTo q u \<le> D * D" and "0 \<le> D" and "D \<le> of_nat (length ts - 1) * (pa_speed (u_params u) * dt)" and "ts \<noteq> []"
  shows "arrived q (tickUnits sqroot dt ts u) \<and> (\<forall>k. between (place u) q (place (tickUnits sqroot dt (take k ts) u)))"
proof -
  define v B where "v = pa_speed (u_params u)" and "B = maxBurn u"
  have v: "0 \<le> v * dt" and B: "0 \<le> B * dt"
    using assms(6-9) by (simp_all add: v_def B_def maxBurn_def)
  have start: "onCourse (place u) q v B D f u" if "tiny + f < u_fuelRemaining u" for f
    using that assms(2-5,8,9,11) by (simp add: onCourse_def enroute_def v_def B_def between_ends)
  have way: "onCourse (place u) q v B (max 0 (D - of_nat (length rs) * (v * dt))) f (tickUnits sqroot dt rs u)"
    if "length rs \<le> length ts" "0 \<le> f" "f \<le> of_nat (length ts - length rs) * (B * dt)" for rs f
  proof (rule onCourse_ticks [OF assms(1,6) v that(2) assms(12)], rule start)
    have "of_nat (length rs) * (B * dt) + of_nat (length ts - length rs) * (B * dt) = of_nat (length ts) * (B * dt)"
      using that(1) by (simp add: distrib_right [symmetric] del: of_nat_add flip: of_nat_add)
    then show "tiny + (of_nat (length rs) * (B * dt) + f) < u_fuelRemaining u"
      using that(3) assms(10) by (simp add: B_def)
  qed
  obtain rs t where ts: "ts = rs @ [t]"
    using assms(14) by (cases ts rule: rev_cases) auto
  have e: "max 0 (D - of_nat (length rs) * (v * dt)) = 0"
    using assms(13) by (simp add: ts v_def)
  have "onCourse (place u) q v B 0 (B * dt + 0) (tickUnits sqroot dt rs u)"
    using way [of rs "B * dt"] B unfolding e by (simp add: ts)
  then have "arrived q (tickUnits sqroot dt ts u)"
    unfolding ts tickUnits_append using onCourse_tick(2) [OF assms(1,6) v] by blast
  moreover have "between (place u) q (place (tickUnits sqroot dt (take k ts) u))" for k
    using way [of "take k ts" 0] B by (auto simp add: onCourse_def enroute_def arrived_def between_ends)
  ultimately show ?thesis
    by blast
qed

text \<open>A reconnaissance UAV some 316 metres from its waypoint, at 150 metres per second; the root is the next whole number below.\<close>

fun isqrt :: "nat \<Rightarrow> nat" where
  "isqrt 0 = 0"
| "isqrt (Suc n) = (let k = isqrt n in if (k + 1) * (k + 1) \<le> Suc n then k + 1 else k)"

definition exRoot :: "rat \<Rightarrow> rat" where
  "exRoot x = of_nat (isqrt (nat \<lfloor>x\<rfloor>))"

lemma isqrt_below: "isqrt n * isqrt n \<le> n"
  by (induction n) (simp_all add: Let_def)

lemma exRoot_below: "rootBelow exRoot"
  unfolding rootBelow_def
proof (intro allI impI)
  fix x r :: rat
  assume r: "0 \<le> r" "x \<le> r * r"
  show "exRoot x \<le> r"
  proof (cases "0 \<le> x")
    case True
    have "of_nat (isqrt (nat \<lfloor>x\<rfloor>)) * of_nat (isqrt (nat \<lfloor>x\<rfloor>)) = (of_nat (isqrt (nat \<lfloor>x\<rfloor>) * isqrt (nat \<lfloor>x\<rfloor>)) :: rat)"
      by simp
    also have "\<dots> \<le> of_nat (nat \<lfloor>x\<rfloor>)"
      by (rule of_nat_mono) (rule isqrt_below)
    also have "\<dots> \<le> x"
      using True by simp
    finally have "of_nat (isqrt (nat \<lfloor>x\<rfloor>)) * of_nat (isqrt (nat \<lfloor>x\<rfloor>)) \<le> r * r"
      using r(2) by simp
    then show ?thesis
      unfolding exRoot_def using r(1) mult_strict_mono' [of r _ r] not_le by blast
  next
    case False
    then show ?thesis
      using r(1) by (simp add: exRoot_def)
  qed
qed

definition exFlight :: MobileUnit where
  "exFlight = setRoute exRoot [(300, 100)] (configureFuel 100 100 150 (setSpeed 150 (mobileUnit exRoot ''u'' ReconUAV Red)))"

lemma waypoint_reached_witness: "arrived (300, 100) (tickUnits exRoot 1 [1, 2, 3, 4] exFlight)
    \<and> (\<forall>k. between (0, 0) (300, 100) (place (tickUnits exRoot 1 (take k [1, 2, 3, 4]) exFlight)))"
proof -
  have e: "exFlight = (enterWith True ''recon cruise'' (route [(300, 100)] (configureFuel 100 100 150
      (setSpeed 150 (mobileUnit exRoot ''u'' ReconUAV Red)))))\<lparr>mu_state := ''patrolling''\<rparr>"
    unfolding exFlight_def setRoute_def mobileUnit_eq
    by (simp add: mobileGoTo_def withFsm_def goTo_def mobileFsm_states runOptional_def enterWith_def setSpeed_def recompute_def
        busPosition_def signal_def configureFuel_def setStatus_def setHasActiveWaypoints_def Unit.extend_def newUnit_def route_def
        unitMovable_def Let_def MobileUnit.fields_def)
  have p: "place exFlight = (0, 0)"
    unfolding e by (simp add: place_def mobileUnit_eq enterWith_def setSpeed_def recompute_def busPosition_def signal_def
        configureFuel_def setStatus_def setHasActiveWaypoints_def Unit.extend_def newUnit_def route_def unitMovable_def Let_def
        MobileUnit.fields_def initialParams_def nowhere_def)
  have "arrived (300, 100) (tickUnits exRoot 1 [1, 2, 3, 4] exFlight)
    \<and> (\<forall>k. between (place exFlight) (300, 100) (place (tickUnits exRoot 1 (take k [1, 2, 3, 4]) exFlight)))"
    by (rule waypoint_reached [where D = 317, OF exRoot_below])
      (unfold e, simp_all add: mobileUnit_eq enterWith_def setSpeed_def recompute_def
        busPosition_def signal_def configureFuel_def setStatus_def setHasActiveWaypoints_def Unit.extend_def newUnit_def route_def
        unitMovable_def Let_def MobileUnit.fields_def alive_def clamp_def tiny_def squaredTo_def initialParams_def
        nowhere_def maxBurn_def)
  then show ?thesis
    unfolding p .
qed

end
