(* ===== verification/Spec2Isabelle.thy ===== *)
theory Spec2Isabelle
  imports VmfExample CombatResolver UnitFsm BusRuns StrictTaskProps IntelLedgerPages RoomBinding
    ClientStoreProps VmfDemoProps ScenarioProps MobileUnitsProps
begin

text \<open>
  The wargame simulation: a development of its server and client logic.

  The program. A server (\<open>server/game/\<close>) hosts rooms in which players command units of two sides. A room
  (\<open>AuthoritativeRoom\<close>) hands out seats, starts and ends a match and binds the units of a scenario; the
  simulation moves the units, which are driven by state machines (\<open>UnitFsm\<close>), talk over a message bus
  (\<open>MessageBus\<close>) and shoot (\<open>CombatResolver\<close>); design messages travel as VMF bit strings (\<open>VmfCodec\<close>). On
  top of the bus run the guided strike workflow, the strict VMF tasks and the scripted demonstration. What a seat
  knows of the enemy is kept by the intelligence ledger. The server sends snapshots and deltas of its state in
  envelopes of the wire protocol (\<open>Protocol\<close>, \<open>IntelProtocol\<close>, \<open>StateDelta\<close>), which a client checks and
  applies (\<open>ClientStateStore\<close>).

  Theories and code, in the order of the imports:

  \<^item> \<open>Prelude\<close>: results, loops with an early return, bounded logs (locale \<open>bounded_log\<close>), runs of a component
    that keeps an invariant (locale \<open>invariant_kept\<close>). \<open>QtString\<close>, \<open>Json\<close>: the Qt strings and JSON values the
    code uses.
  \<^item> \<open>VmfBits\<close>, \<open>VmfDictionary\<close>, \<open>VmfPath\<close>, \<open>VmfRules\<close>, \<open>VmfValidate\<close>, \<open>VmfCoding\<close>, \<open>VmfRoundtrip\<close>,
    \<open>VmfXml\<close>, \<open>VmfCodec\<close>, \<open>VmfExample\<close>: \<open>src/vmf/VmfCodec.cpp\<close>, the bit streams, the data dictionary, the
    paths and rules of a message, its validation, encoding and decoding. Encoding followed by decoding gives the
    message back, and what decodes is valid.
  \<^item> \<open>CombatResolver\<close>, \<open>UnitFsm\<close>: the files of \<open>src/core\<close> of those names. The outcome of a shot is within its
    bounds; a state machine stays in registered states.
  \<^item> \<open>UnitKinds\<close>, \<open>Units\<close>, \<open>UnitsProps\<close>: \<open>src/core/UnitBase.{h,cpp}\<close>, \<open>src/core/Geo.h\<close>. The kinds of units with their
    defaults, and the state and operations every unit has; a subclass is what it overrides (\<open>UnitClass\<close>). The state
    stays in its bounds, damage and service have their effect, checkpoints are taken again.
  \<^item> \<open>MobileUnits\<close>, \<open>MobileUnitsProps\<close>: \<open>src/units\<close>, the units that move and the machine that drives them
    (\<open>MobileUnitBase\<close>, \<open>ReconUAV\<close>, \<open>JammerUAV\<close>, \<open>GroundScout\<close>), and what a tick of the engine does to one of them
    (\<open>SimulationEngine::tickUnits\<close>). A unit with fuel goes straight to its waypoint and stops on it.
  \<^item> \<open>BusMessage\<close>, \<open>CommGraph\<close>, \<open>MessageBus\<close>, \<open>BusState\<close>: \<open>src/core/MessageBus.cpp\<close> and the graph it delivers
    over. The search for relays is reachability; duplicates are not delivered twice; saving and
    restoring.
  \<^item> \<open>GuidedStrike\<close>, \<open>GuidedStrikeProps\<close>: \<open>src/core/GuidedStrikeWorkflow.cpp\<close>, its stages as a transition system.
  \<^item> \<open>BusRuns\<close>: the bus with handlers that act on it through its operations, nested to any depth (\<open>acting\<close>). Its
    tables stay consistent, pending messages are acknowledged or given up, and the stages of the workflow on this bus
    follow in order.
  \<^item> \<open>StrictTask\<close>, \<open>StrictTaskProps\<close>: \<open>server/game/StrictVmfTask.cpp\<close>. Active tasks never share a resource; which
    action is accepted when; checkpoints.
  \<^item> \<open>IntelProtocol\<close>, \<open>IntelProtocolProps\<close>: \<open>src/protocol/IntelProtocol.cpp\<close>; \<open>IntelLedger\<close>, \<open>IntelLedgerProps\<close>,
    \<open>IntelLedgerPages\<close>: \<open>server/game/IntelLedger.cpp\<close>. The delta between two states leads from one to the other;
    the ledger stays within its limits and consistent; pages show the whole history.
  \<^item> \<open>RoomState\<close>, \<open>Room\<close>, \<open>RoomProps\<close>, \<open>RoomInvariant\<close>, \<open>RoomCalls\<close>, \<open>RoomModes\<close>, \<open>RoomMatch\<close>, \<open>RoomTheorems\<close>,
    \<open>RoomBinding\<close>: \<open>server/game/AuthoritativeRoom.cpp\<close>. Seats are typed and held once; the phases of a match;
    operations applied once; the binding of a scenario ends.
  \<^item> \<open>ProtocolBase\<close>, \<open>ProtocolState\<close>, \<open>ProtocolSnapshot\<close>, \<open>ProtocolMessages\<close>, \<open>ProtocolEnvelope\<close>, \<open>ProtocolProps\<close>:
    \<open>src/protocol/Protocol.cpp\<close>. Which envelopes are accepted; an observer never gets secrets.
  \<^item> \<open>StateDelta\<close>, \<open>StateDeltaProps\<close>, \<open>StateDeltaTrails\<close>: \<open>src/protocol/StateDelta.cpp\<close>. Making and applying a
    delta; rebuilding trails.
  \<^item> \<open>ClientStore\<close>, \<open>ClientStoreProps\<close>: \<open>src/network/ClientStateStore.cpp\<close>. The client follows the server, keeps
    valid snapshots only, and changes in sequence.
  \<^item> \<open>JsonOrder\<close>: JSON objects in the order of their keys. \<open>ScenarioFile\<close>, \<open>ScenarioProps\<close>: \<open>src/core/Scenario.cpp\<close>.
    A scenario is read back from what was written of it; which scenarios do not survive saving.
  \<^item> \<open>VmfDemo\<close>, \<open>VmfDemoProps\<close>: \<open>server/game/VmfDemoWorkflow.cpp\<close>. The invariant of the demonstration, its
    checkpoints, actions applied once, and that it can always be completed.

  State and operations. A class is a record with the fields of its members; a method is a function from the
  record to the new record, with what it returns beside it; a method that fails returns the error, or none.
  Handlers of the bus are arbitrary functions or runs of its operations, signals are recorded in traces. Operations of a component that
  come in any order are runs, and the invariants hold along every run.

  Values. Strings are Latin-1. Doubles are exact rationals, and distances are compared by their squares; JSON numbers
  are finite. A hash table is a list of pairs with distinct keys, in the order of iteration. JSON objects are
  lists of pairs; those from outside are in the order of their keys. Machine words are kept where the code mixes
  or wraps them, revisions and counters of 64 bits are natural numbers where the theories say so. \<open>std::sort\<close> of the points of
  a plan, of a unit or in a scenario, is taken stable: points of equal times keep their order. Texts for people are left
  out.

  Parameters. The tokenizer of XML, base64, reading of ISO times, the clock, the square root, the VMF encoder as the bus uses it, the
  port of the workflow to the bus, the reading of files, the size and hash of a JSON text: each is an argument
  of the definitions that use it, and a theorem that needs a law of one names it as a hypothesis. The square root is a
  function to rationals, exact or rounded down (\<open>rootBelow\<close>) where a theorem needs a law.

  Bounds and fuel. Loops are recursions that end by their structure or a measure. The search of the room for a
  free seat id may not end and is a partial function into an option (\<open>freeSeatId\<close>): theorems show when binding a
  scenario returns, and a scenario for which it does not. A client that reads the history page by page is given fuel
  (\<open>collectPages\<close>), and one more page than there are entries is shown to be enough.

  Not modelled: the game server around the parts (\<open>GameServer\<close>: sockets, sessions, timers), the rest of the
  tick of the simulation engine (collisions, projectiles, jamming) and the geometry around it, floating-point rounding, the attack
  UAV and the command post among the units, the projector of the snapshots,
  the AI players, databases, the DDS transport, the message gateway, the network client around the store, the user
  interface, the account server, tools and tests. Of the room: its built-in templates and runtime units.
\<close>

end
